(* ===== verification/Prelude.thy ===== *)
theory Prelude
  imports Main "HOL-Library.Char_ord" "HOL-Library.List_Lexorder" "HOL-Library.Sublist"
begin

text \<open>
  Shared vocabulary of the development.

  \<^item> Python statements that read and write state and may raise are functions
    \<open>'s \<Rightarrow> ('e + 'a) \<times> 's\<close>: the exception (\<open>Inl\<close>) or the value (\<open>Inr\<close>) together with
    the state reached so far, so that effects done before an exception are kept.
  \<^item> Four rule collections carry the component proofs: \<open>eff_simps\<close> evaluates effectful
    programs, \<open>pres_rules\<close> proves that an operation keeps a relation between the state
    before and after, \<open>post_rules\<close> proves facts about the value it returns, and
    \<open>hoare_rules\<close> proves pre- and postconditions.
  \<^item> Text helpers: ASCII upper and lower case, \<open>strip\<close>, decimal printing, and \<open>ftext\<close>, the
    parts of an f-string whose interpolated numbers are kept as values.
\<close>

named_theorems eff_simps \<open>evaluation of effectful programs\<close>
named_theorems pres_rules \<open>rules for state relations kept by effectful programs\<close>
named_theorems hoare_rules \<open>rules for triples about effectful programs\<close>
named_theorems post_rules \<open>rules for facts about returned values\<close>

section \<open>Effects: state and exceptions\<close>

type_synonym ('s, 'e, 'a) eff = "'s \<Rightarrow> ('e + 'a) \<times> 's"

definition ret :: "'a \<Rightarrow> ('s, 'e, 'a) eff" where
  "ret x s = (Inr x, s)"

definition raise :: "'e \<Rightarrow> ('s, 'e, 'a) eff" where
  "raise e s = (Inl e, s)"

definition bind :: "('s, 'e, 'a) eff \<Rightarrow> ('a \<Rightarrow> ('s, 'e, 'b) eff) \<Rightarrow> ('s, 'e, 'b) eff" where
  "bind m f s = (case m s of (r, s') \<Rightarrow> (case r of Inl e \<Rightarrow> (Inl e, s') | Inr x \<Rightarrow> f x s'))"

definition gets :: "('s \<Rightarrow> 'a) \<Rightarrow> ('s, 'e, 'a) eff" where
  "gets f s = (Inr (f s), s)"

lemma ret_run [eff_simps]: "ret x s = (Inr x, s)"
  by (simp add: ret_def)

lemma raise_run [eff_simps]: "raise e s = (Inl e, s)"
  by (simp add: raise_def)

lemma gets_run [eff_simps]: "gets f s = (Inr (f s), s)"
  by (simp add: gets_def)

lemma bind_Inr [eff_simps]: "m s = (Inr x, s') \<Longrightarrow> bind m f s = f x s'"
  by (simp add: bind_def)

lemma bind_Inl [eff_simps]: "m s = (Inl e, s') \<Longrightarrow> bind m f s = (Inl e, s')"
  by (simp add: bind_def)

lemma bind_ret [eff_simps]: "bind (ret x) f = f x"
  by (rule ext) (simp add: bind_def ret_def)

lemma bind_gets [eff_simps]: "bind (gets g) f s = f (g s) s"
  by (simp add: bind_def gets_def)

lemma bind_raise [eff_simps]: "bind (raise e) f = raise e"
  by (rule ext) (simp add: bind_def raise_def)

text \<open>A relation between the state before and the state after, on every outcome.\<close>

definition pres :: "('s \<Rightarrow> 's \<Rightarrow> bool) \<Rightarrow> ('s, 'e, 'a) eff \<Rightarrow> bool" where
  "pres R m \<longleftrightarrow> (\<forall>s. R s (snd (m s)))"

definition preorder_rel :: "('s \<Rightarrow> 's \<Rightarrow> bool) \<Rightarrow> bool" where
  "preorder_rel R \<longleftrightarrow> (\<forall>s. R s s) \<and> (\<forall>s t u. R s t \<longrightarrow> R t u \<longrightarrow> R s u)"

lemma presI: "(\<And>s. R s (snd (m s))) \<Longrightarrow> pres R m"
  by (simp add: pres_def)

lemma presD: "pres R m \<Longrightarrow> m s = (r, s') \<Longrightarrow> R s s'"
  by (metis pres_def snd_conv)

lemma preorder_relD:
  assumes "preorder_rel R"
  shows "R s s" and "R s t \<Longrightarrow> R t u \<Longrightarrow> R s u"
  using assms by (auto simp: preorder_rel_def)

lemma pres_ret [pres_rules]: "preorder_rel R \<Longrightarrow> pres R (ret x)"
  by (simp add: pres_def preorder_rel_def ret_def)

lemma pres_raise [pres_rules]: "preorder_rel R \<Longrightarrow> pres R (raise e)"
  by (simp add: pres_def preorder_rel_def raise_def)

lemma pres_gets [pres_rules]: "preorder_rel R \<Longrightarrow> pres R (gets f)"
  by (simp add: pres_def preorder_rel_def gets_def)

lemma pres_bind [pres_rules]:
  assumes "preorder_rel R" and "pres R m" and "\<And>x. pres R (f x)"
  shows "pres R (bind m f)"
proof (rule presI)
  fix s
  obtain r s' where m: "m s = (r, s')" by fastforce
  then have Rm: "R s s'" using assms(2) by (rule presD [rotated])
  show "R s (snd (bind m f s))"
  proof (cases r)
    case (Inl e)
    then show ?thesis using m Rm by (simp add: bind_def)
  next
    case (Inr x)
    have "R s' (snd (f x s'))" using assms(3) by (simp add: pres_def)
    then show ?thesis using m Rm Inr preorder_relD(2) [OF assms(1)] by (simp add: bind_def)
  qed
qed

lemma pres_if [pres_rules]: "pres R m \<Longrightarrow> pres R n \<Longrightarrow> pres R (if b then m else n)"
  by simp

lemma pres_case_option [pres_rules]:
  "pres R m \<Longrightarrow> (\<And>x. pres R (f x)) \<Longrightarrow> pres R (case z of None \<Rightarrow> m | Some x \<Rightarrow> f x)"
  by (cases z) auto

lemma pres_case_sum [pres_rules]:
  "(\<And>e. pres R (g e)) \<Longrightarrow> (\<And>x. pres R (f x)) \<Longrightarrow> pres R (case z of Inl e \<Rightarrow> g e | Inr x \<Rightarrow> f x)"
  by (cases z) auto

text \<open>A fact about the value returned, if one is returned.\<close>

definition post :: "('s, 'e, 'a) eff \<Rightarrow> ('a \<Rightarrow> bool) \<Rightarrow> bool" where
  "post m Q \<longleftrightarrow> (\<forall>s x s'. m s = (Inr x, s') \<longrightarrow> Q x)"

lemma postD: "post m Q \<Longrightarrow> m s = (Inr x, s') \<Longrightarrow> Q x"
  by (auto simp: post_def)

lemma post_ret [post_rules]: "Q x \<Longrightarrow> post (ret x) Q"
  by (simp add: post_def ret_def)

lemma post_raise [post_rules]: "post (raise e) Q"
  by (simp add: post_def raise_def)

lemma post_bind [post_rules]: "(\<And>x. post (f x) Q) \<Longrightarrow> post (bind m f) Q"
  by (fastforce simp: post_def bind_def split: prod.splits sum.splits)

lemma post_if [post_rules]: "(b \<Longrightarrow> post m Q) \<Longrightarrow> (\<not> b \<Longrightarrow> post n Q) \<Longrightarrow> post (if b then m else n) Q"
  by simp

lemma post_case_option [post_rules]:
  "(z = None \<Longrightarrow> post m Q) \<Longrightarrow> (\<And>x. z = Some x \<Longrightarrow> post (f x) Q) \<Longrightarrow>
   post (case z of None \<Rightarrow> m | Some x \<Rightarrow> f x) Q"
  by (cases z) auto

lemma pres_bind_post:
  assumes "preorder_rel R" and "pres R m" and "post m Q" and "\<And>x. Q x \<Longrightarrow> pres R (f x)"
  shows "pres R (bind m f)"
proof (rule presI)
  fix s
  obtain z s' where m: "m s = (z, s')" by fastforce
  then have Rm: "R s s'" using assms(2) by (rule presD [rotated])
  show "R s (snd (bind m f s))"
  proof (cases z)
    case (Inl e)
    then show ?thesis using m Rm by (simp add: bind_def)
  next
    case (Inr x)
    then have "R s' (snd (f x s'))" using assms(4) postD [OF assms(3)] m by (simp add: pres_def)
    then show ?thesis using m Rm Inr preorder_relD(2) [OF assms(1)] by (simp add: bind_def)
  qed
qed

lemma pres_id: "(\<And>s. snd (m s) = s) \<Longrightarrow> preorder_rel R \<Longrightarrow> pres R m"
  by (simp add: pres_def preorder_rel_def)

text \<open>A triple: from a state with \<open>P\<close>, a returned value and the state after it satisfy \<open>Q\<close>, and an
  exception and the state after it satisfy \<open>E\<close>.\<close>

definition triple ::
  "('s \<Rightarrow> bool) \<Rightarrow> ('s, 'e, 'a) eff \<Rightarrow> ('a \<Rightarrow> 's \<Rightarrow> bool) \<Rightarrow> ('e \<Rightarrow> 's \<Rightarrow> bool) \<Rightarrow> bool" where
  "triple P m Q E \<longleftrightarrow>
     (\<forall>s. P s \<longrightarrow> (case m s of (r, s') \<Rightarrow> (case r of Inl e \<Rightarrow> E e s' | Inr x \<Rightarrow> Q x s')))"

lemma tripleI:
  "(\<And>s e s'. P s \<Longrightarrow> m s = (Inl e, s') \<Longrightarrow> E e s') \<Longrightarrow>
   (\<And>s x s'. P s \<Longrightarrow> m s = (Inr x, s') \<Longrightarrow> Q x s') \<Longrightarrow> triple P m Q E"
  unfolding triple_def by (auto split: prod.splits sum.splits)

lemma triple_Inr: "triple P m Q E \<Longrightarrow> P s \<Longrightarrow> m s = (Inr x, s') \<Longrightarrow> Q x s'"
  unfolding triple_def by (fastforce split: prod.splits sum.splits)

lemma triple_Inl: "triple P m Q E \<Longrightarrow> P s \<Longrightarrow> m s = (Inl e, s') \<Longrightarrow> E e s'"
  unfolding triple_def by (fastforce split: prod.splits sum.splits)

lemma triple_bind [hoare_rules]:
  assumes "triple P m Q E" and "\<And>x. triple (Q x) (f x) R E"
  shows "triple P (bind m f) R E"
proof -
  have "case bind m f s of (r, s') \<Rightarrow> (case r of Inl e \<Rightarrow> E e s' | Inr x \<Rightarrow> R x s')" if P: "P s" for s
  proof (cases "m s")
    case (Pair r s')
    show ?thesis
    proof (cases r)
      case (Inl e)
      then show ?thesis using Pair triple_Inl [OF assms(1) P] by (simp add: bind_def)
    next
      case (Inr x)
      then have "Q x s'" using Pair triple_Inr [OF assms(1) P] by simp
      then show ?thesis using Pair Inr assms(2) [of x] by (simp add: bind_def triple_def)
    qed
  qed
  then show ?thesis by (simp add: triple_def)
qed

lemma triple_ret [hoare_rules]: "(\<And>s. P s \<Longrightarrow> Q x s) \<Longrightarrow> triple P (ret x) Q E"
  by (simp add: triple_def ret_def)

lemma triple_raise [hoare_rules]: "(\<And>s. P s \<Longrightarrow> E e s) \<Longrightarrow> triple P (raise e) Q E"
  by (simp add: triple_def raise_def)

lemma triple_gets [hoare_rules]: "triple P (gets f) (\<lambda>x s. P s \<and> x = f s) E"
  by (simp add: triple_def gets_def)

lemma triple_if [hoare_rules]:
  "(b \<Longrightarrow> triple P m Q E) \<Longrightarrow> (\<not> b \<Longrightarrow> triple P n Q E) \<Longrightarrow> triple P (if b then m else n) Q E"
  by simp

lemma triple_case_option [hoare_rules]:
  "(z = None \<Longrightarrow> triple P m Q E) \<Longrightarrow> (\<And>x. z = Some x \<Longrightarrow> triple P (f x) Q E) \<Longrightarrow>
   triple P (case z of None \<Rightarrow> m | Some x \<Rightarrow> f x) Q E"
  by (cases z) auto

lemma triple_pre: "triple P m Q E \<Longrightarrow> (\<And>s. P' s \<Longrightarrow> P s) \<Longrightarrow> triple P' m Q E"
  by (simp add: triple_def)

lemma triple_conseq:
  assumes "triple P m Q E" and "\<And>s. P' s \<Longrightarrow> P s" and "\<And>x s. Q x s \<Longrightarrow> Q' x s" and "\<And>e s. E e s \<Longrightarrow> E' e s"
  shows "triple P' m Q' E'"
  using assms unfolding triple_def by (fastforce split: prod.splits sum.splits)

text \<open>A precondition that does not hold, or a fact that does not depend on the state.\<close>

lemma triple_pure: "(F \<Longrightarrow> triple P m Q E) \<Longrightarrow> triple (\<lambda>s. P s \<and> F) m Q E"
  by (auto simp: triple_def)

lemma triple_ex:
  assumes "\<And>x. triple (P x) m Q E"
  shows "triple (\<lambda>s. \<exists>x. P x s) m Q E"
proof (rule tripleI)
  fix s e s' assume "\<exists>x. P x s" and "m s = (Inl e, s')"
  then show "E e s'" using triple_Inl [OF assms] by blast
next
  fix s y s' assume "\<exists>x. P x s" and "m s = (Inr y, s')"
  then show "Q y s'" using triple_Inr [OF assms] by blast
qed

section \<open>Text\<close>

definition is_digit :: "char \<Rightarrow> bool" where
  "is_digit c \<longleftrightarrow> c \<in> set ''0123456789''"

definition is_hex_lower :: "char \<Rightarrow> bool" where
  "is_hex_lower c \<longleftrightarrow> c \<in> set ''0123456789abcdef''"

definition is_space :: "char \<Rightarrow> bool" where
  "is_space c \<longleftrightarrow> of_char c \<in> {9, 10, 11, 12, 13, 28, 29, 30, 31, 32 :: nat}"

definition lower_char :: "char \<Rightarrow> char" where
  "lower_char c = (if 65 \<le> (of_char c :: nat) \<and> of_char c \<le> (90 :: nat) then char_of (of_char c + 32 :: nat) else c)"

definition upper_char :: "char \<Rightarrow> char" where
  "upper_char c = (if 97 \<le> (of_char c :: nat) \<and> of_char c \<le> (122 :: nat) then char_of (of_char c - 32 :: nat) else c)"

definition str_lower :: "string \<Rightarrow> string" where
  "str_lower = map lower_char"

definition str_upper :: "string \<Rightarrow> string" where
  "str_upper = map upper_char"

definition strip :: "string \<Rightarrow> string" where
  "strip s = rev (dropWhile is_space (rev (dropWhile is_space s)))"

definition digit_char :: "nat \<Rightarrow> char" where
  "digit_char d = char_of (48 + d)"

fun show_nat :: "nat \<Rightarrow> string" where
  "show_nat n = (if n < 10 then [digit_char n] else show_nat (n div 10) @ [digit_char (n mod 10)])"

declare show_nat.simps [simp del]

definition pad_zero :: "nat \<Rightarrow> string \<Rightarrow> string" where
  "pad_zero w s = replicate (w - length s) CHR ''0'' @ s"

definition str_in :: "string \<Rightarrow> string \<Rightarrow> bool" where
  \<comment> \<open>Python's \<open>needle in text\<close>\<close>
  "str_in needle s = sublist needle s"

fun join :: "string \<Rightarrow> string list \<Rightarrow> string" where
  "join sep [] = []"
| "join sep [x] = x"
| "join sep (x # y # xs) = x @ sep @ join sep (y # xs)"

section \<open>Lists and association lists\<close>

lemma subseq_distinct: "subseq xs ys \<Longrightarrow> distinct ys \<Longrightarrow> distinct xs"
  by (auto simp: subseq_conv_nths distinct_nthsI)

definition find_by :: "('a \<Rightarrow> 'k) \<Rightarrow> 'k \<Rightarrow> 'a list \<Rightarrow> 'a option" where
  "find_by key k xs = find (\<lambda>x. key x = k) xs"

lemma find_by_Nil [simp]: "find_by key k [] = None"
  by (simp add: find_by_def)

lemma find_by_Cons: "find_by key k (x # xs) = (if key x = k then Some x else find_by key k xs)"
  by (simp add: find_by_def)

lemma find_by_Some: "find_by key k xs = Some x \<Longrightarrow> x \<in> set xs \<and> key x = k"
  by (auto simp: find_by_def find_Some_iff)

lemma find_by_None: "find_by key k xs = None \<longleftrightarrow> k \<notin> key ` set xs"
  by (auto simp: find_by_def find_None_iff)

lemma find_by_append:
  "find_by key k (xs @ ys) = (case find_by key k xs of None \<Rightarrow> find_by key k ys | Some x \<Rightarrow> Some x)"
  by (induction xs) (auto simp: find_by_Cons)

lemma find_by_map:
  assumes "\<And>x. key (f x) = key x"
  shows "find_by key k (map f xs) = map_option f (find_by key k xs)"
  by (induction xs) (auto simp: find_by_Cons assms)

lemma find_by_distinct:
  "distinct (map key xs) \<Longrightarrow> x \<in> set xs \<Longrightarrow> find_by key (key x) xs = Some x"
  by (induction xs) (auto simp: find_by_Cons)

end
