(* ===== verification/PyFloat.thy ===== *)
theory PyFloat
  imports Complex_Main Prelude "HOL-Library.Log_Nat"
begin

text \<open>
  Python's \<open>float\<close>: IEEE 754 binary64 with round-to-nearest, ties to even, as executable
  arithmetic on rationals. A finite float is the rational it denotes (the sign of zero is not
  kept: no operation of the program observes it); every operation computes the exact result and
  rounds it once with \<open>rnd\<close>. Division by zero raises in Python, so \<open>fdiv\<close> returns an option.
  \<open>fround n x\<close> is the built-in \<open>round(x, n)\<close>, which rounds the exact binary value to \<open>n\<close>
  decimals, ties to even, and converts back.

  The lemmas show that rounding is monotone and exact on representable values, which is what
  the bounds of the risk engine rest on.
\<close>

datatype pyfloat = Fin rat | PInf | NInf | NaN

section \<open>Rounding\<close>

text \<open>Nearest integer to \<open>n / d\<close>, ties to even.\<close>

definition rdiv_he :: "int \<Rightarrow> int \<Rightarrow> int" where
  "rdiv_he n d =
     (let k = n div d; r = n mod d
      in if 2 * r < d then k else if d < 2 * r then k + 1 else if even k then k else k + 1)"

definition round_half_even :: "rat \<Rightarrow> int" where
  "round_half_even q = (case quotient_of q of (n, d) \<Rightarrow> rdiv_he n d)"

text \<open>The binary exponent of \<open>n / d\<close> for positive \<open>n\<close> and \<open>d\<close>.\<close>

definition ilog2 :: "int \<Rightarrow> int \<Rightarrow> int" where
  "ilog2 n d =
     (let k = bitlen n - bitlen d
      in if (if 0 \<le> k then d * 2 ^ nat k \<le> n else d \<le> n * 2 ^ nat (- k)) then k else k - 1)"

definition rnd :: "rat \<Rightarrow> pyfloat" where
  "rnd q = (case quotient_of q of (n, d) \<Rightarrow>
     (if n = 0 then Fin 0
      else let e = max (ilog2 \<bar>n\<bar> d - 52) (- 1074);
               m = (if 0 \<le> e then rdiv_he n (d * 2 ^ nat e) else rdiv_he (n * 2 ^ nat (- e)) d)
           in if 971 < e \<or> (e = 971 \<and> 2 ^ 53 \<le> \<bar>m\<bar>) then (if 0 < n then PInf else NInf)
              else Fin (if 0 \<le> e then of_int (m * 2 ^ nat e) else Fract m (2 ^ nat (- e)))))"

section \<open>Operations\<close>

fun fneg :: "pyfloat \<Rightarrow> pyfloat" where
  "fneg (Fin a) = Fin (- a)"
| "fneg PInf = NInf"
| "fneg NInf = PInf"
| "fneg NaN = NaN"

fun fadd :: "pyfloat \<Rightarrow> pyfloat \<Rightarrow> pyfloat" where
  "fadd (Fin a) (Fin b) = rnd (a + b)"
| "fadd NaN y = NaN"
| "fadd x NaN = NaN"
| "fadd PInf NInf = NaN"
| "fadd NInf PInf = NaN"
| "fadd PInf y = PInf"
| "fadd NInf y = NInf"
| "fadd x PInf = PInf"
| "fadd x NInf = NInf"

definition fsub :: "pyfloat \<Rightarrow> pyfloat \<Rightarrow> pyfloat" where
  "fsub x y = fadd x (fneg y)"

fun fsgn :: "pyfloat \<Rightarrow> int" where
  "fsgn (Fin a) = (if a = 0 then 0 else if 0 < a then 1 else - 1)"
| "fsgn PInf = 1"
| "fsgn NInf = - 1"
| "fsgn NaN = 0"

definition inf_of_sgn :: "int \<Rightarrow> pyfloat" where
  "inf_of_sgn s = (if s = 0 then NaN else if 0 < s then PInf else NInf)"

fun fmul :: "pyfloat \<Rightarrow> pyfloat \<Rightarrow> pyfloat" where
  "fmul (Fin a) (Fin b) = rnd (a * b)"
| "fmul NaN y = NaN"
| "fmul x NaN = NaN"
| "fmul x y = inf_of_sgn (fsgn x * fsgn y)"

text \<open>\<open>x / y\<close>: \<open>None\<close> is \<open>ZeroDivisionError\<close>.\<close>

fun fdiv :: "pyfloat \<Rightarrow> pyfloat \<Rightarrow> pyfloat option" where
  "fdiv x (Fin b) =
     (if b = 0 then None
      else (case x of
          Fin a \<Rightarrow> Some (rnd (a / b))
        | NaN \<Rightarrow> Some NaN
        | _ \<Rightarrow> Some (inf_of_sgn (fsgn x * fsgn (Fin b)))))"
| "fdiv (Fin a) PInf = Some (Fin 0)"
| "fdiv (Fin a) NInf = Some (Fin 0)"
| "fdiv x y = Some NaN"

fun flt :: "pyfloat \<Rightarrow> pyfloat \<Rightarrow> bool" where
  "flt (Fin a) (Fin b) \<longleftrightarrow> a < b"
| "flt NInf PInf \<longleftrightarrow> True"
| "flt NInf (Fin b) \<longleftrightarrow> True"
| "flt (Fin a) PInf \<longleftrightarrow> True"
| "flt x y \<longleftrightarrow> False"

fun fle :: "pyfloat \<Rightarrow> pyfloat \<Rightarrow> bool" where
  "fle NaN y \<longleftrightarrow> False"
| "fle x NaN \<longleftrightarrow> False"
| "fle (Fin a) (Fin b) \<longleftrightarrow> a \<le> b"
| "fle x y \<longleftrightarrow> x = y \<or> flt x y"

text \<open>\<open>a == b\<close>: a NaN equals nothing.\<close>

definition feq :: "pyfloat \<Rightarrow> pyfloat \<Rightarrow> bool" where
  "feq x y \<longleftrightarrow> x \<noteq> NaN \<and> x = y"

fun fabs :: "pyfloat \<Rightarrow> pyfloat" where
  "fabs (Fin a) = Fin \<bar>a\<bar>"
| "fabs NInf = PInf"
| "fabs x = x"

text \<open>The built-ins \<open>min(a, b)\<close> and \<open>max(a, b)\<close>: the first argument unless the second is
  strictly smaller (larger).\<close>

definition fmin :: "pyfloat \<Rightarrow> pyfloat \<Rightarrow> pyfloat" where
  "fmin a b = (if flt b a then b else a)"

definition fmax :: "pyfloat \<Rightarrow> pyfloat \<Rightarrow> pyfloat" where
  "fmax a b = (if flt a b then b else a)"

fun is_finite :: "pyfloat \<Rightarrow> bool" where
  "is_finite (Fin a) \<longleftrightarrow> True"
| "is_finite x \<longleftrightarrow> False"

fun fround :: "nat \<Rightarrow> pyfloat \<Rightarrow> pyfloat" where
  "fround n (Fin a) = rnd (Fract (round_half_even (a * 10 ^ n)) (10 ^ n))"
| "fround n x = x"

text \<open>\<open>math.floor\<close>: \<open>None\<close> is the exception raised on infinities and NaN.\<close>

fun ffloor :: "pyfloat \<Rightarrow> int option" where
  "ffloor (Fin a) = Some \<lfloor>a\<rfloor>"
| "ffloor x = None"

definition of_int_f :: "int \<Rightarrow> pyfloat" where
  "of_int_f k = rnd (of_int k)"

text \<open>A decimal literal of the source, \<open>n / 10 ^ k\<close>, is rounded when the source is read.\<close>

definition flit :: "int \<Rightarrow> nat \<Rightarrow> pyfloat" where
  "flit n k = rnd (Fract n (10 ^ k))"

text \<open>\<open>fpos x\<close> is \<open>x > 0\<close>.\<close>

abbreviation fpos :: "pyfloat \<Rightarrow> bool" where
  "fpos x \<equiv> flt (Fin 0) x"

section \<open>Nearest integer\<close>

definition he :: "rat \<Rightarrow> int" where
  "he q = (let k = \<lfloor>q\<rfloor>; r = q - of_int k
     in if 2 * r < 1 then k else if 1 < 2 * r then k + 1 else if even k then k else k + 1)"

lemma rdiv_he_eq: "0 < d \<Longrightarrow> rdiv_he n d = he (of_int n / of_int d)"
proof -
  assume d: "0 < d"
  have fl: "\<lfloor>(of_int n :: rat) / of_int d\<rfloor> = n div d"
    by (simp add: floor_divide_of_int_eq)
  have A: "(of_int n :: rat) / of_int d - of_int (n div d) = of_int (n mod d) / of_int d"
  proof -
    have "(of_int n :: rat) = of_int (n div d) * of_int d + of_int (n mod d)"
      by (simp only: of_int_mult [symmetric] of_int_add [symmetric] div_mult_mod_eq)
    then show ?thesis using d by (simp add: field_simps)
  qed
  have B: "(2 * (of_int (n mod d) / of_int d :: rat) < 1) = (2 * (n mod d) < d)"
  proof -
    have "(2 * (of_int (n mod d) / of_int d :: rat) < 1) = (of_int (2 * (n mod d)) < (of_int d :: rat))"
      using d by (simp add: field_simps)
    then show ?thesis by (simp only: of_int_less_iff)
  qed
  have C: "(1 < 2 * (of_int (n mod d) / of_int d :: rat)) = (d < 2 * (n mod d))"
  proof -
    have "(1 < 2 * (of_int (n mod d) / of_int d :: rat)) = ((of_int d :: rat) < of_int (2 * (n mod d)))"
      using d by (simp add: field_simps)
    then show ?thesis by (simp only: of_int_less_iff)
  qed
  show ?thesis
    by (simp only: rdiv_he_def he_def Let_def fl A B C)
qed

lemma round_half_even_eq: "round_half_even q = he q"
proof -
  obtain n d where q: "quotient_of q = (n, d)" by fastforce
  then have "0 < d" and "q = of_int n / of_int d"
    by (simp_all add: quotient_of_denom_pos quotient_of_div)
  with q show ?thesis by (simp add: round_half_even_def rdiv_he_eq)
qed

lemma he_bounds: "\<lfloor>q\<rfloor> \<le> he q" "he q \<le> \<lfloor>q\<rfloor> + 1"
  by (auto simp: he_def Let_def)

lemma he_mono: "q \<le> r \<Longrightarrow> he q \<le> he r"
proof -
  assume qr: "q \<le> r"
  then have fl: "\<lfloor>q\<rfloor> \<le> \<lfloor>r\<rfloor>" by (rule floor_mono)
  show ?thesis
  proof (cases "\<lfloor>q\<rfloor> = \<lfloor>r\<rfloor>")
    case True
    with qr show ?thesis by (auto simp: he_def Let_def)
  next
    case False
    with fl have "\<lfloor>q\<rfloor> + 1 \<le> \<lfloor>r\<rfloor>" by simp
    with he_bounds(2) [of q] he_bounds(1) [of r] show ?thesis by linarith
  qed
qed

lemma he_of_int [simp]: "he (of_int k) = k"
  by (simp add: he_def)

lemma he_le_int: "q \<le> of_int k \<Longrightarrow> he q \<le> k"
  using he_mono [of q "of_int k"] by simp

lemma he_ge_int: "of_int k \<le> q \<Longrightarrow> k \<le> he q"
  using he_mono [of "of_int k" q] by simp

lemma he_error: "\<bar>of_int (he q) - q\<bar> \<le> 1 / 2"
proof -
  have "of_int \<lfloor>q\<rfloor> \<le> q" and "q < of_int \<lfloor>q\<rfloor> + 1" by linarith+
  then show ?thesis by (auto simp: he_def Let_def abs_le_iff)
qed

lemma he_uminus: "he (- q) = - he q"
proof (cases "q = of_int \<lfloor>q\<rfloor>")
  case True
  then show ?thesis by (metis he_of_int of_int_minus)
next
  case False
  have lo: "of_int \<lfloor>q\<rfloor> < q" using False of_int_floor_le [of q] by linarith
  have hi: "q < of_int \<lfloor>q\<rfloor> + 1" by linarith
  have "\<lfloor>- q\<rfloor> = - \<lfloor>q\<rfloor> - 1"
    using lo hi by (intro floor_unique) (auto simp: algebra_simps)
  then show ?thesis by (auto simp: he_def Let_def)
qed

section \<open>Binary exponents\<close>

lemma pow2_pos [simp]: "0 < (2 :: rat) powi k"
  by (simp add: zero_less_power_int)

lemma pow2_mono: "(2 :: rat) powi j \<le> 2 powi k \<longleftrightarrow> j \<le> k"
  by (meson one_less_numeral_iff power_int_increasing power_int_strict_increasing linorder_not_le
      order_less_le semiring_norm(76))

lemma pow2_less: "(2 :: rat) powi j < 2 powi k \<longleftrightarrow> j < k"
  using pow2_mono [of k j] by (simp add: linorder_not_le [symmetric])

lemma pow2_add: "(2 :: rat) powi (j + k) = 2 powi j * 2 powi k"
  by (simp add: power_int_add)

lemma pow2_diff: "(2 :: rat) powi (j - k) = 2 powi j / 2 powi k"
  by (simp add: power_int_diff)

lemma pow2_nat: "0 \<le> k \<Longrightarrow> (2 :: rat) powi k = of_int (2 ^ nat k)"
  by (simp add: power_int_def)

lemma pow2_neg: "k < 0 \<Longrightarrow> (2 :: rat) powi k = 1 / of_int (2 ^ nat (- k))"
  by (simp add: power_int_def power_one_over field_simps)

lemma bitlen_powi:
  assumes "0 < x"
  shows "2 powi (bitlen x - 1) \<le> (of_int x :: rat)" and "(of_int x :: rat) < 2 powi bitlen x"
proof -
  have b: "1 \<le> bitlen x" using assms by (simp add: bitlen_ge_iff_power)
  from bitlen_bounds [OF assms] have
    "(of_int (2 ^ nat (bitlen x - 1)) :: rat) \<le> of_int x" "(of_int x :: rat) < of_int (2 ^ nat (bitlen x))"
    by (simp_all only: of_int_le_iff of_int_less_iff)
  with b show "2 powi (bitlen x - 1) \<le> (of_int x :: rat)" and "(of_int x :: rat) < 2 powi bitlen x"
    by (simp_all add: pow2_nat)
qed

lemma ilog2_test:
  assumes "0 < n" "0 < d"
  shows "(if 0 \<le> k then d * 2 ^ nat k \<le> n else d \<le> n * 2 ^ nat (- k))
    \<longleftrightarrow> 2 powi k \<le> (of_int n / of_int d :: rat)"
proof (cases "0 \<le> k")
  case True
  have "2 powi k \<le> (of_int n / of_int d :: rat) \<longleftrightarrow> of_int (d * 2 ^ nat k) \<le> (of_int n :: rat)"
    using True assms by (simp add: pow2_nat field_simps)
  also have "\<dots> \<longleftrightarrow> d * 2 ^ nat k \<le> n" by (simp only: of_int_le_iff)
  finally show ?thesis using True by simp
next
  case False
  have "2 powi k \<le> (of_int n / of_int d :: rat) \<longleftrightarrow> of_int d \<le> (of_int (n * 2 ^ nat (- k)) :: rat)"
    using False assms by (simp add: pow2_neg field_simps)
  also have "\<dots> \<longleftrightarrow> d \<le> n * 2 ^ nat (- k)" by (simp only: of_int_le_iff)
  finally show ?thesis using False by simp
qed

lemma ilog2_bounds:
  assumes n: "0 < n" and d: "0 < d"
  shows "2 powi (ilog2 n d) \<le> (of_int n / of_int d :: rat)"
    and "(of_int n / of_int d :: rat) < 2 powi (ilog2 n d + 1)"
proof -
  let ?k = "bitlen n - bitlen d" and ?q = "of_int n / of_int d :: rat"
  have lo: "2 powi (?k - 1) \<le> ?q"
  proof -
    have "2 powi (bitlen n - 1) / 2 powi bitlen d \<le> ?q"
      by (rule frac_le) (use bitlen_powi [OF n] bitlen_powi [OF d] n d in auto)
    then show ?thesis by (simp add: pow2_diff [symmetric] algebra_simps)
  qed
  have hi: "?q < 2 powi (?k + 1)"
  proof -
    have "?q < 2 powi bitlen n / 2 powi (bitlen d - 1)"
      by (rule frac_less) (use bitlen_powi [OF n] bitlen_powi [OF d] n in auto)
    then show ?thesis by (simp add: pow2_diff [symmetric] algebra_simps)
  qed
  show "2 powi (ilog2 n d) \<le> ?q"
    using lo ilog2_test [OF n d, of ?k] unfolding ilog2_def Let_def by auto
  show "?q < 2 powi (ilog2 n d + 1)"
    using hi ilog2_test [OF n d, of ?k] unfolding ilog2_def Let_def by auto
qed

text \<open>The exponent of the unit in the last place of the binade of \<open>q\<close>.\<close>

definition fexp :: "rat \<Rightarrow> int" where
  "fexp q = (case quotient_of q of (n, d) \<Rightarrow> max (ilog2 \<bar>n\<bar> d - 52) (- 1074))"

definition fmant :: "rat \<Rightarrow> int" where
  "fmant q = he (q / 2 powi fexp q)"

lemma rnd_eq:
  "rnd q = (if q = 0 then Fin 0
     else if 971 < fexp q \<or> (fexp q = 971 \<and> 2 ^ 53 \<le> \<bar>fmant q\<bar>) then (if 0 < q then PInf else NInf)
     else Fin (of_int (fmant q) * 2 powi fexp q))"
proof -
  obtain n d where q: "quotient_of q = (n, d)" by fastforce
  then have d: "0 < d" and qd: "q = of_int n / of_int d"
    by (simp_all add: quotient_of_denom_pos quotient_of_div)
  have n0: "n = 0 \<longleftrightarrow> q = 0" and npos: "0 < n \<longleftrightarrow> 0 < q"
    using d qd by (auto simp: zero_less_divide_iff)
  have e: "fexp q = max (ilog2 \<bar>n\<bar> d - 52) (- 1074)" by (simp add: fexp_def q)
  have m: "(if 0 \<le> k then rdiv_he n (d * 2 ^ nat k) else rdiv_he (n * 2 ^ nat (- k)) d)
      = he (q / 2 powi k)" for k
    using d by (auto simp: rdiv_he_eq qd pow2_nat pow2_neg)
  have r: "(if 0 \<le> k then of_int (j * 2 ^ nat k) else Fract j (2 ^ nat (- k))) = of_int j * 2 powi k" for j k
    by (auto simp: pow2_nat pow2_neg Fract_of_int_quotient)
  show ?thesis
    unfolding rnd_def q prod.case n0 npos Let_def m r e [symmetric] fmant_def [symmetric] by simp
qed

lemma fexp_bounds:
  assumes "q \<noteq> 0"
  shows "- 1074 \<le> fexp q" and "\<bar>q\<bar> < 2 powi (fexp q + 53)"
    and "- 1074 < fexp q \<Longrightarrow> 2 powi (fexp q + 52) \<le> \<bar>q\<bar>"
proof -
  obtain n d where q: "quotient_of q = (n, d)" by fastforce
  then have d: "0 < d" and qd: "q = of_int n / of_int d"
    by (simp_all add: quotient_of_denom_pos quotient_of_div)
  have n: "0 < \<bar>n\<bar>" using assms qd by auto
  have aq: "\<bar>q\<bar> = of_int \<bar>n\<bar> / of_int d" using d by (simp add: qd)
  have e: "fexp q = max (ilog2 \<bar>n\<bar> d - 52) (- 1074)" by (simp add: fexp_def q)
  show "- 1074 \<le> fexp q" by (simp add: e)
  have "2 powi (ilog2 \<bar>n\<bar> d + 1) \<le> (2 :: rat) powi (fexp q + 53)"
    unfolding pow2_mono by (simp add: e)
  with ilog2_bounds(2) [OF n d] show "\<bar>q\<bar> < 2 powi (fexp q + 53)" by (simp add: aq)
  assume "- 1074 < fexp q"
  then have "fexp q + 52 = ilog2 \<bar>n\<bar> d" by (simp add: e max_def split: if_splits)
  with ilog2_bounds(1) [OF n d] show "2 powi (fexp q + 52) \<le> \<bar>q\<bar>" by (simp add: aq)
qed

section \<open>Rounding is exact on representable values and monotone\<close>

lemma rnd_0 [simp]: "rnd 0 = Fin 0"
  by (simp add: rnd_eq)

text \<open>A rational \<open>M * 2 ^ E\<close> with a 53-bit \<open>M\<close> and an exponent in range is a binary64 value.\<close>

lemma rnd_exact:
  assumes q: "q = of_int M * 2 powi E" and M: "\<bar>M\<bar> < 2 ^ 53" and E: "- 1074 \<le> E" "E \<le> 971"
  shows "rnd q = Fin q"
proof (cases "q = 0")
  case True
  then show ?thesis by simp
next
  case False
  have "\<bar>q\<bar> = of_int \<bar>M\<bar> * 2 powi E" by (simp add: q abs_mult)
  also have "\<dots> < 2 powi 53 * 2 powi E"
    using M by (intro mult_strict_right_mono) (simp_all add: pow2_nat del: of_int_abs)
  finally have up: "\<bar>q\<bar> < 2 powi (E + 53)" by (simp add: pow2_add mult.commute)
  have e: "fexp q \<le> E"
  proof (cases "- 1074 < fexp q")
    case True
    from fexp_bounds(3) [OF False True] up have "(2 :: rat) powi (fexp q + 52) < 2 powi (E + 53)" by simp
    then show ?thesis by (simp add: pow2_less)
  next
    case False
    then show ?thesis using E by simp
  qed
  have "q / 2 powi fexp q = of_int M * 2 powi (E - fexp q)" by (simp add: q pow2_diff)
  also have "\<dots> = of_int (M * 2 ^ nat (E - fexp q))" using e by (simp add: pow2_nat)
  finally have quot: "q / 2 powi fexp q = of_int (M * 2 ^ nat (E - fexp q))" .
  then have m: "fmant q = M * 2 ^ nat (E - fexp q)" by (simp only: fmant_def he_of_int)
  have "of_int (fmant q) * 2 powi fexp q = q"
    unfolding m quot [symmetric] by simp
  moreover have "\<not> (971 < fexp q \<or> (fexp q = 971 \<and> 2 ^ 53 \<le> \<bar>fmant q\<bar>))"
    using e E M m by auto
  ultimately show ?thesis using False by (simp add: rnd_eq)
qed

lemma rnd_of_int: "\<bar>k\<bar> < 2 ^ 53 \<Longrightarrow> rnd (of_int k) = Fin (of_int k)"
  by (rule rnd_exact [of _ k 0]) simp_all

lemma of_int_f_eq: "\<bar>k\<bar> < 2 ^ 53 \<Longrightarrow> of_int_f k = Fin (of_int k)"
  unfolding of_int_f_def by (rule rnd_of_int)

lemma fexp_uminus: "fexp (- q) = fexp q"
  by (simp add: fexp_def rat_uminus_code split: prod.splits)

lemma rnd_uminus: "rnd (- q) = fneg (rnd q)"
  by (auto simp: rnd_eq fexp_uminus fmant_def he_uminus minus_divide_left [symmetric])

lemma fexp_mono:
  assumes "0 < q" "q \<le> r"
  shows "fexp q \<le> fexp r"
proof (cases "- 1074 < fexp q")
  case True
  from assms have q: "q \<noteq> 0" and r: "r \<noteq> 0" by auto
  have "2 powi (fexp q + 52) \<le> \<bar>q\<bar>" using fexp_bounds(3) [OF q True] .
  also have "\<dots> \<le> \<bar>r\<bar>" using assms by simp
  also have "\<dots> < 2 powi (fexp r + 53)" by (rule fexp_bounds(2) [OF r])
  finally show ?thesis by (simp add: pow2_less)
next
  case False
  then show ?thesis using fexp_bounds(1) [of r] assms by auto
qed

lemma fmant_bounds:
  assumes "0 < q"
  shows "0 \<le> fmant q" and "fmant q \<le> 2 ^ 53" and "- 1074 < fexp q \<Longrightarrow> 2 ^ 52 \<le> fmant q"
proof -
  have q: "q \<noteq> 0" using assms by auto
  show "0 \<le> fmant q"
    unfolding fmant_def using assms by (intro he_ge_int) (simp add: divide_nonneg_pos)
  have "q / 2 powi fexp q \<le> of_int (2 ^ 53)"
    using fexp_bounds(2) [OF q] assms by (simp add: pow2_add field_simps pow2_nat)
  then show "fmant q \<le> 2 ^ 53" unfolding fmant_def by (rule he_le_int)
  assume "- 1074 < fexp q"
  then have "of_int (2 ^ 52) \<le> q / 2 powi fexp q"
    using fexp_bounds(3) [OF q] assms by (simp add: pow2_add field_simps pow2_nat)
  then show "2 ^ 52 \<le> fmant q" unfolding fmant_def by (rule he_ge_int)
qed

lemma rnd_mono_pos:
  assumes "0 < q" "q \<le> r"
  shows "fle (rnd q) (rnd r)"
proof (cases "fexp q = fexp r")
  case True
  have m: "fmant q \<le> fmant r"
    unfolding fmant_def True using assms by (intro he_mono divide_right_mono) auto
  have "of_int (fmant q) * 2 powi fexp r \<le> (of_int (fmant r) * 2 powi fexp r :: rat)"
    using m by (intro mult_right_mono) auto
  with m True assms fmant_bounds(1) [of q] show ?thesis
    by (auto simp: rnd_eq)
next
  case False
  with fexp_mono [OF assms] have lt: "fexp q < fexp r" by simp
  with fexp_bounds(1) [of q] assms have sub: "- 1074 < fexp r" by auto
  have "of_int (fmant q) * 2 powi fexp q \<le> (of_int (2 ^ 53) * 2 powi fexp q :: rat)"
    using fmant_bounds(2) [of q] assms
    by (intro mult_right_mono) (simp_all only: of_int_le_iff pow2_pos order_less_imp_le)
  also have "\<dots> = 2 powi (fexp q + 53)" by (simp add: pow2_add pow2_nat)
  also have "\<dots> \<le> 2 powi (fexp r + 52)" unfolding pow2_mono using lt by simp
  also have "\<dots> = of_int (2 ^ 52) * 2 powi fexp r" by (simp add: pow2_add pow2_nat)
  also have "\<dots> \<le> of_int (fmant r) * 2 powi fexp r"
    using fmant_bounds(3) [OF _ sub] assms
    by (intro mult_right_mono) (simp_all only: of_int_le_iff pow2_pos order_less_imp_le)
  finally have "of_int (fmant q) * 2 powi fexp q \<le> (of_int (fmant r) * 2 powi fexp r :: rat)" .
  with lt assms show ?thesis by (auto simp: rnd_eq)
qed

lemma rnd_not_NaN [simp]: "rnd q \<noteq> NaN"
  by (simp add: rnd_eq)

lemma fle_refl: "x \<noteq> NaN \<Longrightarrow> fle x x"
  by (cases x) auto

lemma fle_trans: "fle x y \<Longrightarrow> fle y z \<Longrightarrow> fle x z"
  by (cases x; cases y; cases z) auto

lemma rnd_nonneg: "0 \<le> q \<Longrightarrow> fle (Fin 0) (rnd q)"
  using fmant_bounds(1) [of q] by (auto simp: rnd_eq intro!: mult_nonneg_nonneg)

lemma fle_fneg: "fle (fneg x) (fneg y) \<longleftrightarrow> fle y x"
  by (cases x; cases y) auto

lemma rnd_mono: "q \<le> r \<Longrightarrow> fle (rnd q) (rnd r)"
proof -
  assume le: "q \<le> r"
  consider "0 < q" | "q \<le> 0" "0 \<le> r" | "r < 0" by linarith
  then show ?thesis
  proof cases
    case 1
    then show ?thesis using le by (rule rnd_mono_pos)
  next
    case 2
    have "fle (Fin 0) (rnd (- q))" using 2 by (intro rnd_nonneg) simp
    then have "fle (rnd q) (Fin 0)" using fle_fneg [of "Fin 0" "rnd q"] by (simp add: rnd_uminus)
    then show ?thesis using rnd_nonneg [OF 2(2)] by (rule fle_trans)
  next
    case 3
    then have "fle (rnd (- r)) (rnd (- q))" using le by (intro rnd_mono_pos) auto
    then show ?thesis by (simp add: rnd_uminus fle_fneg)
  qed
qed

section \<open>Order facts\<close>

lemma flt_irrefl [simp]: "\<not> flt x x"
  by (cases x) auto

lemma flt_imp_fle: "flt x y \<Longrightarrow> fle x y"
  by (cases x; cases y) auto

lemma flt_trans: "flt x y \<Longrightarrow> flt y z \<Longrightarrow> flt x z"
  by (cases x; cases y; cases z) auto

lemma fle_flt_trans: "fle x y \<Longrightarrow> flt y z \<Longrightarrow> flt x z"
  by (cases x; cases y; cases z) auto

lemma flt_fle_trans: "flt x y \<Longrightarrow> fle y z \<Longrightarrow> flt x z"
  by (cases x; cases y; cases z) auto

lemma not_flt_fle: "x \<noteq> NaN \<Longrightarrow> y \<noteq> NaN \<Longrightarrow> \<not> flt x y \<longleftrightarrow> fle y x"
  by (cases x; cases y) auto

lemma fle_not_NaN: "fle x y \<Longrightarrow> x \<noteq> NaN \<and> y \<noteq> NaN"
  by (cases x; cases y) auto

lemma flt_not_NaN: "flt x y \<Longrightarrow> x \<noteq> NaN \<and> y \<noteq> NaN"
  by (cases x; cases y) auto

lemma is_finite_iff: "is_finite x \<longleftrightarrow> (\<exists>a. x = Fin a)"
  by (cases x) auto

lemma fmin_le: "a \<noteq> NaN \<Longrightarrow> b \<noteq> NaN \<Longrightarrow> fle (fmin a b) a \<and> fle (fmin a b) b"
  by (cases a; cases b) (auto simp: fmin_def)

lemma fround_mono: "fle x y \<Longrightarrow> fle (fround n x) (fround n y)"
proof (cases x; cases y)
  fix a b assume xy: "fle x y" and x: "x = Fin a" and y: "y = Fin b"
  have "round_half_even (a * 10 ^ n) \<le> round_half_even (b * 10 ^ n)"
    unfolding round_half_even_eq using xy x y by (intro he_mono) simp
  then have "Fract (round_half_even (a * 10 ^ n)) (10 ^ n) \<le> Fract (round_half_even (b * 10 ^ n)) (10 ^ n)"
    by (simp add: Fract_of_int_quotient divide_right_mono)
  then show ?thesis by (simp add: x y rnd_mono)
next
  fix a assume x: "x = Fin a" and y: "y = PInf"
  show ?thesis by (cases "rnd (Fract (round_half_even (a * 10 ^ n)) (10 ^ n))") (auto simp: x y)
next
  fix b assume x: "x = NInf" and y: "y = Fin b"
  show ?thesis by (cases "rnd (Fract (round_half_even (b * 10 ^ n)) (10 ^ n))") (auto simp: x y)
qed auto

lemma fle_PInf: "x \<noteq> NaN \<Longrightarrow> fle x PInf"
  by (cases x) auto

lemma fle_NInf: "x \<noteq> NaN \<Longrightarrow> fle NInf x"
  by (cases x) auto

end
