(* ===== verification/PyValue.thy ===== *)
theory PyValue
  imports PyFloat
begin

text \<open>
  Dynamically typed Python values, as far as JSON payloads and evidence dictionaries use them,
  with the conversions \<open>float(x)\<close> and \<open>int(x)\<close>, membership and lookup in dictionaries, and the
  test whether \<open>json.dumps\<close> accepts a value (\<open>PObj\<close> is an object it does not know).

  A dictionary is an association list in insertion order. Numbers interpolated into messages are
  kept as values: \<open>ftext\<close> is the list of the literal and formatted parts of an f-string.
\<close>

datatype pyval =
    PNone
  | PBool bool
  | PInt int
  | PFloat pyfloat
  | PStr string
  | PList "pyval list"
  | PDict "(string \<times> pyval) list"
  | PObj string

type_synonym pydict = "(string \<times> pyval) list"

section \<open>Messages\<close>

datatype fpart = Lit string | Flt pyfloat | Fix nat pyfloat | IntP int

type_synonym ftext = "fpart list"

text \<open>\<open>needle in text\<close> for a needle that no printed number contains and that no boundary between
  a literal part and a number completes (the program tests for \<open>''sl''\<close> and for a longer tag).\<close>

fun part_has :: "string \<Rightarrow> fpart \<Rightarrow> bool" where
  "part_has needle (Lit s) \<longleftrightarrow> str_in needle s"
| "part_has needle p \<longleftrightarrow> False"

definition ftext_has :: "string \<Rightarrow> ftext \<Rightarrow> bool" where
  "ftext_has needle t = list_ex (part_has needle) t"

fun join_ftext :: "string \<Rightarrow> ftext list \<Rightarrow> ftext" where
  "join_ftext sep [] = []"
| "join_ftext sep [t] = t"
| "join_ftext sep (t # u # ts) = t @ [Lit sep] @ join_ftext sep (u # ts)"

section \<open>Dictionaries\<close>

definition dget :: "pydict \<Rightarrow> string \<Rightarrow> pyval option" where
  "dget d k = map_of d k"

definition dget_default :: "pydict \<Rightarrow> string \<Rightarrow> pyval \<Rightarrow> pyval" where
  "dget_default d k v = (case dget d k of None \<Rightarrow> v | Some x \<Rightarrow> x)"

definition dkeys :: "pydict \<Rightarrow> string list" where
  "dkeys d = map fst d"

definition dhas :: "pydict \<Rightarrow> string \<Rightarrow> bool" where
  "dhas d k \<longleftrightarrow> k \<in> set (dkeys d)"

lemma dget_None: "dget d k = None \<longleftrightarrow> \<not> dhas d k"
  by (simp add: dget_def dhas_def dkeys_def map_of_eq_None_iff)

lemma dhas_iff: "dhas d k \<longleftrightarrow> (\<exists>v. dget d k = Some v)"
  using dget_None [of d k] by (cases "dget d k") auto

text \<open>\<open>d[k] = v\<close>: an existing key keeps its place.\<close>

fun dset :: "string \<Rightarrow> pyval \<Rightarrow> pydict \<Rightarrow> pydict" where
  "dset k v [] = [(k, v)]"
| "dset k v ((k', v') # d) = (if k = k' then (k, v) # d else (k', v') # dset k v d)"

lemma dget_dset: "dget (dset k v d) k' = (if k' = k then Some v else dget d k')"
  by (induction d) (auto simp: dget_def)

lemma dkeys_dset: "dkeys (dset k v d) = (if dhas d k then dkeys d else dkeys d @ [k])"
proof (induction d)
  case Nil
  then show ?case by (simp add: dkeys_def dhas_def)
next
  case (Cons p d)
  then show ?case by (cases p) (simp add: dkeys_def dhas_def)
qed

text \<open>An optional string as a value.\<close>

fun opt_pystr :: "string option \<Rightarrow> pyval" where
  "opt_pystr None = PNone"
| "opt_pystr (Some s) = PStr s"

section \<open>JSON\<close>

fun json_ok :: "pyval \<Rightarrow> bool" where
  "json_ok (PList vs) \<longleftrightarrow> list_all json_ok vs"
| "json_ok (PDict d) \<longleftrightarrow> list_all (\<lambda>kv. json_ok (snd kv)) d"
| "json_ok (PObj n) \<longleftrightarrow> False"
| "json_ok v \<longleftrightarrow> True"

section \<open>Numbers in text\<close>

definition digit_val :: "char \<Rightarrow> nat" where
  "digit_val c = of_char c - 48"

fun more_digits :: "string \<Rightarrow> nat list \<times> string" where
  "more_digits (c # cs) =
     (if is_digit c then (case more_digits cs of (ds, r) \<Rightarrow> (digit_val c # ds, r))
      else if c = CHR ''_'' then
        (case cs of
           d # cs' \<Rightarrow> (if is_digit d then (case more_digits cs' of (ds, r) \<Rightarrow> (digit_val d # ds, r))
                       else ([], c # cs))
         | [] \<Rightarrow> ([], c # cs))
      else ([], c # cs))"
| "more_digits [] = ([], [])"

text \<open>A digit part: one digit, then digits that may be separated by single underscores.\<close>

definition digit_part :: "string \<Rightarrow> nat list \<times> string" where
  "digit_part s = (case s of c # cs \<Rightarrow> (if is_digit c then more_digits s else ([], s)) | [] \<Rightarrow> ([], s))"

definition digits_val :: "nat list \<Rightarrow> int" where
  "digits_val ds = int (foldl (\<lambda>a d. 10 * a + d) 0 ds)"

fun sign_part :: "string \<Rightarrow> int \<times> string" where
  "sign_part (c # cs) = (if c = CHR ''-'' then (- 1, cs) else if c = CHR ''+'' then (1, cs) else (1, c # cs))"
| "sign_part [] = (1, [])"

text \<open>The exponent part of a decimal literal: absent, or \<open>e\<close> and a signed digit part.\<close>

fun exp_part :: "string \<Rightarrow> int option" where
  "exp_part [] = Some 0"
| "exp_part (c # cs) =
     (if c = CHR ''e'' \<or> c = CHR ''E'' then
        (case sign_part cs of (sg, r) \<Rightarrow>
         (case digit_part r of (ds, r') \<Rightarrow> (if ds = [] \<or> r' \<noteq> [] then None else Some (sg * digits_val ds))))
      else None)"

definition scale10 :: "int \<Rightarrow> int \<Rightarrow> rat" where
  "scale10 m e = (if 0 \<le> e then of_int (m * 10 ^ nat e) else Fract m (10 ^ nat (- e)))"

definition parse_decimal :: "int \<Rightarrow> string \<Rightarrow> pyfloat option" where
  "parse_decimal sg s =
     (case digit_part s of (ds, r) \<Rightarrow>
      (case (case r of c # cs \<Rightarrow> (if c = CHR ''.'' then digit_part cs else ([], r)) | [] \<Rightarrow> ([], r)) of (fs, r') \<Rightarrow>
        (if ds = [] \<and> fs = [] then None
         else map_option (\<lambda>e. rnd (scale10 (sg * digits_val (ds @ fs)) (e - int (length fs)))) (exp_part r'))))"

text \<open>\<open>float(s)\<close> for a string; \<open>None\<close> is \<open>ValueError\<close>.\<close>

definition parse_float :: "string \<Rightarrow> pyfloat option" where
  "parse_float s =
     (case sign_part (strip s) of (sg, r) \<Rightarrow>
       (let l = str_lower r in
        if l = ''inf'' \<or> l = ''infinity'' then Some (if sg < 0 then NInf else PInf)
        else if l = ''nan'' then Some NaN
        else parse_decimal sg r))"

text \<open>\<open>int(s)\<close> for a string; \<open>None\<close> is \<open>ValueError\<close>.\<close>

definition parse_int :: "string \<Rightarrow> int option" where
  "parse_int s =
     (case sign_part (strip s) of (sg, r) \<Rightarrow>
      (case digit_part r of (ds, r') \<Rightarrow> (if ds = [] \<or> r' \<noteq> [] then None else Some (sg * digits_val ds))))"

text \<open>\<open>float(v)\<close>; \<open>None\<close> is \<open>TypeError\<close>, \<open>ValueError\<close> or, for an integer beyond the range of a
  double, \<open>OverflowError\<close>.\<close>

fun py_float :: "pyval \<Rightarrow> pyfloat option" where
  "py_float (PFloat x) = Some x"
| "py_float (PInt i) = (let x = of_int_f i in if is_finite x then Some x else None)"
| "py_float (PBool b) = Some (Fin (if b then 1 else 0))"
| "py_float (PStr s) = parse_float s"
| "py_float v = None"

section \<open>Tests on values\<close>

text \<open>\<open>isinstance(v, (int, float)) and not isinstance(v, bool) and math.isfinite(v)\<close>.\<close>

fun is_number :: "pyval \<Rightarrow> bool" where
  "is_number (PInt i) \<longleftrightarrow> True"
| "is_number (PFloat x) \<longleftrightarrow> is_finite x"
| "is_number v \<longleftrightarrow> False"

fun is_int :: "pyval \<Rightarrow> bool" where
  "is_int (PInt i) \<longleftrightarrow> True"
| "is_int v \<longleftrightarrow> False"

fun num_val :: "pyval \<Rightarrow> pyfloat option" where
  "num_val (PBool b) = Some (Fin (if b then 1 else 0))"
| "num_val (PInt i) = Some (Fin (of_int i))"
| "num_val (PFloat x) = Some x"
| "num_val v = None"

text \<open>\<open>v == w\<close> where one side is a string, a boolean or a number: numbers and booleans compare by
  value (\<open>True == 1 == 1.0\<close>).\<close>

definition py_eq :: "pyval \<Rightarrow> pyval \<Rightarrow> bool" where
  "py_eq v w = (case (num_val v, num_val w) of
     (Some a, Some b) \<Rightarrow> feq a b
   | _ \<Rightarrow> (case (v, w) of (PStr s, PStr t) \<Rightarrow> s = t | (PNone, PNone) \<Rightarrow> True | _ \<Rightarrow> False))"

fun truthy :: "pyval \<Rightarrow> bool" where
  "truthy PNone \<longleftrightarrow> False"
| "truthy (PBool b) \<longleftrightarrow> b"
| "truthy (PInt i) \<longleftrightarrow> i \<noteq> 0"
| "truthy (PFloat x) \<longleftrightarrow> x \<noteq> Fin 0"
| "truthy (PStr s) \<longleftrightarrow> s \<noteq> []"
| "truthy (PList vs) \<longleftrightarrow> vs \<noteq> []"
| "truthy (PDict d) \<longleftrightarrow> d \<noteq> []"
| "truthy (PObj n) \<longleftrightarrow> True"

lemma py_eq_str: "py_eq v (PStr t) \<longleftrightarrow> v = PStr t"
  by (cases v) (auto simp: py_eq_def)

section \<open>The process environment\<close>

text \<open>\<open>os.environ.get(k, d)\<close> over the environment \<open>getenv\<close>, and the float of such a variable.\<close>

definition env_str :: "(string \<Rightarrow> string option) \<Rightarrow> string \<Rightarrow> string \<Rightarrow> string" where
  "env_str getenv k d = (case getenv k of None \<Rightarrow> d | Some s \<Rightarrow> s)"

definition env_float :: "(string \<Rightarrow> string option) \<Rightarrow> string \<Rightarrow> string \<Rightarrow> pyfloat option" where
  "env_float getenv k d = parse_float (env_str getenv k d)"

end
