(* ===== verification/ExecModels.thy ===== *)
theory ExecModels
  imports PyValue
begin

text \<open>
  The contracts of the execution layer: \<open>src/execution/models.py\<close>, \<open>retry.py\<close>, \<open>errors.py\<close> and
  \<open>reconciliation.py\<close>. Enumerations are datatypes with their \<open>.value\<close> strings; frozen dataclasses
  are records; \<open>to_dict\<close> and \<open>from_dict\<close> go through the dictionaries that the journal stores as
  JSON. Readings of the wall clock, fresh UUIDs and ISO timestamp parsing come from an \<open>env\<close>.
\<close>

section \<open>Enumerations\<close>

datatype direction = BUY | SELL

fun direction_value :: "direction \<Rightarrow> string" where
  "direction_value BUY = ''BUY''"
| "direction_value SELL = ''SELL''"

datatype entry_type = MARKET

fun entry_type_value :: "entry_type \<Rightarrow> string" where
  "entry_type_value MARKET = ''MARKET''"

datatype cmd_state =
    CREATED | VALIDATED | SUBMITTED | PARTIALLY_FILLED | FILLED | MODIFYING
  | CLOSED | REJECTED | FAILED | EXPIRED | UNKNOWN

fun cmd_state_value :: "cmd_state \<Rightarrow> string" where
  "cmd_state_value CREATED = ''CREATED''"
| "cmd_state_value VALIDATED = ''VALIDATED''"
| "cmd_state_value SUBMITTED = ''SUBMITTED''"
| "cmd_state_value PARTIALLY_FILLED = ''PARTIALLY_FILLED''"
| "cmd_state_value FILLED = ''FILLED''"
| "cmd_state_value MODIFYING = ''MODIFYING''"
| "cmd_state_value CLOSED = ''CLOSED''"
| "cmd_state_value REJECTED = ''REJECTED''"
| "cmd_state_value FAILED = ''FAILED''"
| "cmd_state_value EXPIRED = ''EXPIRED''"
| "cmd_state_value UNKNOWN = ''UNKNOWN''"

definition terminal_states :: "cmd_state list" where
  "terminal_states = [CLOSED, REJECTED, FAILED, EXPIRED]"

definition is_terminal_state :: "cmd_state \<Rightarrow> bool" where
  "is_terminal_state s \<longleftrightarrow> s \<in> set terminal_states"

datatype result_status = R_FILLED | R_PARTIALLY_FILLED | R_CLOSED | R_REJECTED | R_FAILED | R_EXPIRED | R_UNKNOWN

fun result_status_value :: "result_status \<Rightarrow> string" where
  "result_status_value R_FILLED = ''FILLED''"
| "result_status_value R_PARTIALLY_FILLED = ''PARTIALLY_FILLED''"
| "result_status_value R_CLOSED = ''CLOSED''"
| "result_status_value R_REJECTED = ''REJECTED''"
| "result_status_value R_FAILED = ''FAILED''"
| "result_status_value R_EXPIRED = ''EXPIRED''"
| "result_status_value R_UNKNOWN = ''UNKNOWN''"

definition all_statuses :: "result_status list" where
  "all_statuses = [R_FILLED, R_PARTIALLY_FILLED, R_CLOSED, R_REJECTED, R_FAILED, R_EXPIRED, R_UNKNOWN]"

definition result_status_of :: "string \<Rightarrow> result_status option" where
  "result_status_of s = find (\<lambda>r. result_status_value r = s) all_statuses"

datatype exit_reason = ABC_PROFIT_CLOSE | SL_STOP | EMERGENCY_CLOSE | SYSTEM_CLOSE

fun exit_reason_value :: "exit_reason \<Rightarrow> string" where
  "exit_reason_value ABC_PROFIT_CLOSE = ''ABC_PROFIT_CLOSE''"
| "exit_reason_value SL_STOP = ''SL_STOP''"
| "exit_reason_value EMERGENCY_CLOSE = ''EMERGENCY_CLOSE''"
| "exit_reason_value SYSTEM_CLOSE = ''SYSTEM_CLOSE''"

section \<open>Error codes and retry classes\<close>

datatype error_code =
    INVALID_COMMAND | AUTHENTICATION | NETWORK_TIMEOUT | BROKER_REJECT | INSUFFICIENT_MARGIN
  | INVALID_VOLUME_SL | MARKET_CLOSED | REQUOTE_SLIPPAGE | DUPLICATE_COMMAND | AMBIGUOUS_RESPONSE
  | STALE_FEED | POSITION_EXISTS | E_EXPIRED | SL_ATTACH_FAILED | CLOSE_FAILED
  | EMERGENCY_CLOSE_FAILED | RECONCILIATION_PENDING | E_FAILED

fun error_code_value :: "error_code \<Rightarrow> string" where
  "error_code_value INVALID_COMMAND = ''INVALID_COMMAND''"
| "error_code_value AUTHENTICATION = ''AUTHENTICATION''"
| "error_code_value NETWORK_TIMEOUT = ''NETWORK_TIMEOUT''"
| "error_code_value BROKER_REJECT = ''BROKER_REJECT''"
| "error_code_value INSUFFICIENT_MARGIN = ''INSUFFICIENT_MARGIN''"
| "error_code_value INVALID_VOLUME_SL = ''INVALID_VOLUME_SL''"
| "error_code_value MARKET_CLOSED = ''MARKET_CLOSED''"
| "error_code_value REQUOTE_SLIPPAGE = ''REQUOTE_SLIPPAGE''"
| "error_code_value DUPLICATE_COMMAND = ''DUPLICATE_COMMAND''"
| "error_code_value AMBIGUOUS_RESPONSE = ''AMBIGUOUS_RESPONSE''"
| "error_code_value STALE_FEED = ''STALE_FEED''"
| "error_code_value POSITION_EXISTS = ''POSITION_EXISTS''"
| "error_code_value E_EXPIRED = ''EXPIRED''"
| "error_code_value SL_ATTACH_FAILED = ''SL_ATTACH_FAILED''"
| "error_code_value CLOSE_FAILED = ''CLOSE_FAILED''"
| "error_code_value EMERGENCY_CLOSE_FAILED = ''EMERGENCY_CLOSE_FAILED''"
| "error_code_value RECONCILIATION_PENDING = ''RECONCILIATION_PENDING''"
| "error_code_value E_FAILED = ''FAILED''"

definition all_error_codes :: "error_code list" where
  "all_error_codes =
     [INVALID_COMMAND, AUTHENTICATION, NETWORK_TIMEOUT, BROKER_REJECT, INSUFFICIENT_MARGIN,
      INVALID_VOLUME_SL, MARKET_CLOSED, REQUOTE_SLIPPAGE, DUPLICATE_COMMAND, AMBIGUOUS_RESPONSE,
      STALE_FEED, POSITION_EXISTS, E_EXPIRED, SL_ATTACH_FAILED, CLOSE_FAILED,
      EMERGENCY_CLOSE_FAILED, RECONCILIATION_PENDING, E_FAILED]"

definition error_code_of :: "string \<Rightarrow> error_code option" where
  "error_code_of s = find (\<lambda>c. error_code_value c = s) all_error_codes"

datatype retry_class = SAFE | UNSAFE | RECONCILE | PERMANENT | EMERGENCY | IDEMPOTENT

fun retry_class_value :: "retry_class \<Rightarrow> string" where
  "retry_class_value SAFE = ''SAFE''"
| "retry_class_value UNSAFE = ''UNSAFE''"
| "retry_class_value RECONCILE = ''RECONCILE''"
| "retry_class_value PERMANENT = ''PERMANENT''"
| "retry_class_value EMERGENCY = ''EMERGENCY''"
| "retry_class_value IDEMPOTENT = ''IDEMPOTENT''"

fun retry_matrix :: "error_code \<Rightarrow> retry_class" where
  "retry_matrix INVALID_COMMAND = PERMANENT"
| "retry_matrix AUTHENTICATION = PERMANENT"
| "retry_matrix NETWORK_TIMEOUT = SAFE"
| "retry_matrix BROKER_REJECT = PERMANENT"
| "retry_matrix INSUFFICIENT_MARGIN = PERMANENT"
| "retry_matrix INVALID_VOLUME_SL = PERMANENT"
| "retry_matrix MARKET_CLOSED = PERMANENT"
| "retry_matrix REQUOTE_SLIPPAGE = PERMANENT"
| "retry_matrix DUPLICATE_COMMAND = IDEMPOTENT"
| "retry_matrix AMBIGUOUS_RESPONSE = RECONCILE"
| "retry_matrix STALE_FEED = PERMANENT"
| "retry_matrix POSITION_EXISTS = PERMANENT"
| "retry_matrix E_EXPIRED = PERMANENT"
| "retry_matrix SL_ATTACH_FAILED = EMERGENCY"
| "retry_matrix CLOSE_FAILED = SAFE"
| "retry_matrix EMERGENCY_CLOSE_FAILED = RECONCILE"
| "retry_matrix RECONCILIATION_PENDING = RECONCILE"
| "retry_matrix E_FAILED = UNSAFE"

definition unclassified_error :: retry_class where
  "unclassified_error = RECONCILE"

definition classify_error :: "string option \<Rightarrow> retry_class" where
  "classify_error error_code =
     (case error_code of
        None \<Rightarrow> unclassified_error
      | Some s \<Rightarrow> (case error_code_of s of None \<Rightarrow> unclassified_error | Some c \<Rightarrow> retry_matrix c))"

record retry_policy =
  close_retries :: int
  sl_attach_retries :: int
  submit_retries :: int

definition default_retry_policy :: retry_policy where
  "default_retry_policy = \<lparr>close_retries = 2, sl_attach_retries = 2, submit_retries = 2\<rparr>"

definition retry_policy_validate :: "retry_policy \<Rightarrow> ftext list" where
  "retry_policy_validate p =
     (if close_retries p < 0 then [[Lit ''retry_policy.close_retries:invalid:'', IntP (close_retries p)]] else [])
     @ (if sl_attach_retries p < 0
        then [[Lit ''retry_policy.sl_attach_retries:invalid:'', IntP (sl_attach_retries p)]] else [])
     @ (if submit_retries p < 0 then [[Lit ''retry_policy.submit_retries:invalid:'', IntP (submit_retries p)]] else [])"

section \<open>Exceptions\<close>

text \<open>The classes of \<open>errors.py\<close>, each with the stable code that its constructor passes on, and the
  \<open>TypeError\<close> of \<open>json.dumps\<close> and of \<open>float\<close>, and the \<open>sqlite3.DatabaseError\<close> that \<open>create_command\<close> of the
  journal lets through.\<close>

datatype exec_exc =
    ExecutionError error_code ftext
  | ExecutionStateError ftext
  | DuplicateCommandError ftext
  | JournalError ftext
  | PyTypeError
  | SqliteError string

fun exc_error_code :: "exec_exc \<Rightarrow> string option" where
  "exc_error_code (ExecutionError c m) = Some (error_code_value c)"
| "exc_error_code (ExecutionStateError m) = Some (error_code_value INVALID_COMMAND)"
| "exc_error_code (DuplicateCommandError m) = Some (error_code_value DUPLICATE_COMMAND)"
| "exc_error_code (JournalError m) = Some (error_code_value E_FAILED)"
| "exc_error_code PyTypeError = None"
| "exc_error_code (SqliteError m) = None"

section \<open>Identifiers and time\<close>

text \<open>\<open>UUID_PATTERN.fullmatch\<close>: five groups of lower-case hex digits of lengths 8, 4, 4, 4, 12.\<close>

definition hex_run :: "nat \<Rightarrow> string \<Rightarrow> string option" where
  "hex_run n s = (if length (take n s) = n \<and> list_all is_hex_lower (take n s) then Some (drop n s) else None)"

definition dash :: "string \<Rightarrow> string option" where
  "dash s = (case s of c # cs \<Rightarrow> (if c = CHR ''-'' then Some cs else None) | [] \<Rightarrow> None)"

definition is_valid_system_id :: "string \<Rightarrow> bool" where
  "is_valid_system_id s =
     (Option.bind (Option.bind (Option.bind (Option.bind (Option.bind (Option.bind (Option.bind
       (Option.bind (hex_run 8 s) dash) (hex_run 4)) dash) (hex_run 4)) dash) (hex_run 4)) dash) (hex_run 12)
      = Some [])"

text \<open>How a transaction of the journal ends: committed, ended by a \<open>sqlite3.DatabaseError\<close> at any of its
  statements or at the commit (the connection's context manager rolls it back), or committed with no row
  id reported for the inserted line.\<close>

datatype write_outcome = Committed | Sqlite_error string | No_rowid

text \<open>What the layer reads from outside: the \<open>n\<close>-th reading of the clock as text (\<open>now_iso\<close>) and as
  microseconds since the epoch, the \<open>n\<close>-th fresh UUID, \<open>parse_iso_ts\<close>, which is
  \<open>datetime.fromisoformat\<close> normalised to UTC (\<open>None\<close> for a \<open>ValueError\<close>), and how the journal write
  stamped with the \<open>n\<close>-th reading of the clock ends (every write takes one reading).\<close>

record env =
  clock_text :: "nat \<Rightarrow> string"
  clock_us :: "nat \<Rightarrow> int"
  uuid_text :: "nat \<Rightarrow> string"
  parse_iso :: "string \<Rightarrow> int option"
  write_end :: "nat \<Rightarrow> write_outcome"

definition journal_never_fails :: "env \<Rightarrow> bool" where
  "journal_never_fails E \<longleftrightarrow> (\<forall>n. write_end E n = Committed)"

definition is_expired :: "env \<Rightarrow> string \<Rightarrow> int \<Rightarrow> bool" where
  "is_expired E ts now = (case parse_iso E ts of None \<Rightarrow> True | Some expires \<Rightarrow> expires < now)"

section \<open>Trade plans\<close>

record trade_plan =
  tp_trade_id :: string
  tp_correlation_id :: string
  tp_inference_id :: "string option"
  tp_risk_evaluation_id :: string
  tp_direction :: string
  tp_lot :: pyfloat
  tp_entry_reference :: pyfloat
  tp_sl :: pyfloat
  tp_risk_amount :: pyfloat
  tp_risk_percent :: pyfloat
  tp_exposure :: pyfloat
  tp_symbol :: string
  tp_generated_at :: string
  tp_expires_at :: string
  tp_policy_profile :: string

definition opt :: "bool \<Rightarrow> 'a \<Rightarrow> 'a list" where
  "opt b x = (if b then [x] else [])"

lemma opt_Nil_iff [simp]: "opt b x = [] \<longleftrightarrow> \<not> b"
  by (simp add: opt_def)

lemma set_opt [simp]: "set (opt b x) = (if b then {x} else {})"
  by (cases b) (auto simp: opt_def)

definition valid_direction :: "string \<Rightarrow> bool" where
  "valid_direction d \<longleftrightarrow> d \<in> {direction_value BUY, direction_value SELL}"

definition bad_positive :: "pyfloat \<Rightarrow> bool" where
  \<comment> \<open>\<open>not _is_finite_number(x) or x <= 0\<close>\<close>
  "bad_positive x \<longleftrightarrow> \<not> is_finite x \<or> fle x (Fin 0)"

definition bad_nonneg :: "pyfloat \<Rightarrow> bool" where
  "bad_nonneg x \<longleftrightarrow> \<not> is_finite x \<or> flt x (Fin 0)"

definition trade_plan_validate :: "env \<Rightarrow> trade_plan \<Rightarrow> ftext list" where
  "trade_plan_validate E p =
     opt (\<not> is_valid_system_id (tp_trade_id p)) [Lit ''plan.trade_id:invalid_uuid'']
     @ opt (\<not> is_valid_system_id (tp_correlation_id p)) [Lit ''plan.correlation_id:invalid_uuid'']
     @ (case tp_inference_id p of None \<Rightarrow> []
        | Some i \<Rightarrow> opt (\<not> is_valid_system_id i) [Lit ''plan.inference_id:invalid_uuid''])
     @ opt (\<not> is_valid_system_id (tp_risk_evaluation_id p)) [Lit ''plan.risk_evaluation_id:invalid_uuid'']
     @ opt (\<not> valid_direction (tp_direction p)) [Lit (''plan.direction:invalid:'' @ tp_direction p)]
     @ opt (bad_positive (tp_lot p)) [Lit ''plan.lot:non_positive'']
     @ opt (bad_positive (tp_entry_reference p)) [Lit ''plan.entry_reference:non_positive'']
     @ opt (bad_positive (tp_sl p)) [Lit ''plan.sl:non_positive'']
     @ opt (bad_nonneg (tp_risk_amount p)) [Lit ''plan.risk_amount:invalid:'', Flt (tp_risk_amount p)]
     @ opt (bad_nonneg (tp_risk_percent p)) [Lit ''plan.risk_percent:invalid:'', Flt (tp_risk_percent p)]
     @ opt (bad_nonneg (tp_exposure p)) [Lit ''plan.exposure:invalid:'', Flt (tp_exposure p)]
     @ opt (tp_symbol p = []) [Lit ''plan.symbol:empty'']
     @ opt (tp_policy_profile p = []) [Lit ''plan.policy_profile:empty'']
     @ opt (parse_iso E (tp_generated_at p) = None) [Lit ''plan.generated_at:unparseable'']
     @ opt (parse_iso E (tp_expires_at p) = None) [Lit ''plan.expires_at:unparseable'']
     @ (case (parse_iso E (tp_generated_at p), parse_iso E (tp_expires_at p)) of
          (Some g, Some e) \<Rightarrow> opt (e \<le> g) [Lit ''plan.expiry_not_after_generated'']
        | _ \<Rightarrow> [])"

section \<open>Commands\<close>

record command =
  c_command_id :: string
  c_trade_id :: string
  c_symbol :: string
  c_direction :: string
  c_volume :: pyfloat
  c_entry_type :: entry_type
  c_sl :: pyfloat
  c_created_at :: string
  c_expires_at :: string

definition idempotency_key :: "command \<Rightarrow> string" where
  "idempotency_key c = c_command_id c"

definition command_to_dict :: "command \<Rightarrow> pydict" where
  "command_to_dict c =
     [(''command_id'', PStr (c_command_id c)), (''trade_id'', PStr (c_trade_id c)),
      (''symbol'', PStr (c_symbol c)), (''direction'', PStr (c_direction c)),
      (''volume'', PFloat (c_volume c)), (''entry_type'', PStr (entry_type_value (c_entry_type c))),
      (''sl'', PFloat (c_sl c)), (''created_at'', PStr (c_created_at c)),
      (''expires_at'', PStr (c_expires_at c))]"

definition command_validate :: "env \<Rightarrow> command \<Rightarrow> string list" where
  "command_validate E c =
     opt (\<not> is_valid_system_id (c_command_id c)) ''command.command_id:invalid_uuid''
     @ opt (\<not> is_valid_system_id (c_trade_id c)) ''command.trade_id:invalid_uuid''
     @ opt (c_symbol c = []) ''command.symbol:empty''
     @ opt (\<not> valid_direction (c_direction c)) (''command.direction:invalid:'' @ c_direction c)
     @ opt (bad_positive (c_volume c)) ''command.volume:non_positive''
     @ opt (c_entry_type c \<noteq> MARKET) (''command.entry_type:not_market:'' @ entry_type_value (c_entry_type c))
     @ opt (bad_positive (c_sl c)) ''command.sl:non_positive''
     @ opt (parse_iso E (c_created_at c) = None) ''command.created_at:unparseable''
     @ opt (parse_iso E (c_expires_at c) = None) ''command.expires_at:unparseable''
     @ (case (parse_iso E (c_created_at c), parse_iso E (c_expires_at c)) of
          (Some g, Some e) \<Rightarrow> opt (e \<le> g) ''command.expiry_not_after_created''
        | _ \<Rightarrow> [])"

record position =
  p_position_id :: string
  p_symbol :: string
  p_direction :: string
  p_volume :: pyfloat
  p_open_price :: pyfloat
  p_sl :: "pyfloat option"
  p_ts :: string

end
