(* ===== verification/ExecResult.thy ===== *)
theory ExecResult
  imports ExecModels
begin

text \<open>
  Execution results with their constructors and dictionary form (\<open>src/execution/models.py\<close>),
  reconciliation outcomes (\<open>reconciliation.py\<close>) and the fail-closed contract checks of
  \<open>validation.py\<close>. The lemmas show the dictionary round trip the journal relies on, and that
  the exact-field checks accept exactly the contract's key sets.
\<close>

section \<open>Results\<close>

record result =
  r_command_id :: string
  r_trade_id :: string
  r_status :: result_status
  r_timestamp :: string
  r_broker_request_id :: "string option"
  r_broker_retcode :: int
  r_filled_volume :: pyfloat
  r_fill_price :: pyfloat
  r_sl_applied :: bool
  r_error_code :: "string option"
  r_error_message :: "string option"

definition base_result :: "string \<Rightarrow> string \<Rightarrow> result_status \<Rightarrow> string \<Rightarrow> result" where
  \<comment> \<open>the dataclass constructor with every default\<close>
  "base_result cid tid st ts =
     \<lparr>r_command_id = cid, r_trade_id = tid, r_status = st, r_timestamp = ts,
      r_broker_request_id = None, r_broker_retcode = 0, r_filled_volume = Fin 0,
      r_fill_price = Fin 0, r_sl_applied = False, r_error_code = None, r_error_message = None\<rparr>"

definition result_filled ::
  "string \<Rightarrow> string \<Rightarrow> string \<Rightarrow> string option \<Rightarrow> int \<Rightarrow> pyfloat \<Rightarrow> pyfloat \<Rightarrow> bool \<Rightarrow> result" where
  "result_filled cid tid ts req retcode vol price sl =
     (base_result cid tid R_FILLED ts)
       \<lparr>r_broker_request_id := req, r_broker_retcode := retcode, r_filled_volume := vol,
        r_fill_price := price, r_sl_applied := sl\<rparr>"

definition result_partial ::
  "string \<Rightarrow> string \<Rightarrow> string \<Rightarrow> pyfloat \<Rightarrow> pyfloat \<Rightarrow> string option \<Rightarrow> bool \<Rightarrow> result" where
  "result_partial cid tid ts vol price req sl =
     (base_result cid tid R_PARTIALLY_FILLED ts)
       \<lparr>r_broker_request_id := req, r_filled_volume := vol, r_fill_price := price, r_sl_applied := sl\<rparr>"

definition result_closed :: "string \<Rightarrow> string \<Rightarrow> string \<Rightarrow> string option \<Rightarrow> int \<Rightarrow> result" where
  "result_closed cid tid ts req retcode =
     (base_result cid tid R_CLOSED ts)
       \<lparr>r_broker_request_id := req, r_broker_retcode := retcode, r_sl_applied := True\<rparr>"

definition result_rejected ::
  "string \<Rightarrow> string \<Rightarrow> string \<Rightarrow> string \<Rightarrow> string \<Rightarrow> int \<Rightarrow> string option \<Rightarrow> result" where
  "result_rejected cid tid ts code msg retcode req =
     (base_result cid tid R_REJECTED ts)
       \<lparr>r_broker_request_id := req, r_broker_retcode := retcode, r_error_code := Some code,
        r_error_message := Some msg\<rparr>"

definition result_failed :: "string \<Rightarrow> string \<Rightarrow> string \<Rightarrow> string \<Rightarrow> string \<Rightarrow> result" where
  "result_failed cid tid ts code msg =
     (base_result cid tid R_FAILED ts)\<lparr>r_error_code := Some code, r_error_message := Some msg\<rparr>"

definition result_expired :: "string \<Rightarrow> string \<Rightarrow> string \<Rightarrow> string \<Rightarrow> result" where
  "result_expired cid tid ts msg =
     (base_result cid tid R_EXPIRED ts)
       \<lparr>r_error_code := Some (error_code_value E_EXPIRED), r_error_message := Some msg\<rparr>"

definition result_unknown :: "string \<Rightarrow> string \<Rightarrow> string \<Rightarrow> string \<Rightarrow> string \<Rightarrow> result" where
  "result_unknown cid tid ts code msg =
     (base_result cid tid R_UNKNOWN ts)\<lparr>r_error_code := Some code, r_error_message := Some msg\<rparr>"

definition is_error :: "result \<Rightarrow> bool" where
  "is_error r \<longleftrightarrow> r_status r \<in> {R_REJECTED, R_FAILED, R_UNKNOWN}"

lemmas result_defs =
  base_result_def result_filled_def result_partial_def result_closed_def result_rejected_def
  result_failed_def result_expired_def result_unknown_def

section \<open>Dictionary form\<close>

fun opt_str :: "string option \<Rightarrow> pyval" where
  "opt_str None = PNone"
| "opt_str (Some s) = PStr s"

definition result_to_dict :: "result \<Rightarrow> pydict" where
  "result_to_dict r =
     [(''command_id'', PStr (r_command_id r)), (''trade_id'', PStr (r_trade_id r)),
      (''status'', PStr (result_status_value (r_status r))), (''timestamp'', PStr (r_timestamp r)),
      (''broker_request_id'', opt_str (r_broker_request_id r)),
      (''broker_retcode'', PInt (r_broker_retcode r)),
      (''filled_volume'', PFloat (r_filled_volume r)), (''fill_price'', PFloat (r_fill_price r)),
      (''sl_applied'', PBool (r_sl_applied r)), (''error_code'', opt_str (r_error_code r)),
      (''error_message'', opt_str (r_error_message r))]"

text \<open>Reading a stored dictionary back. The journal only holds dictionaries written by
  \<open>result_to_dict\<close>; a value of another shape is \<open>None\<close> (the exception of the conversion).\<close>

fun get_str :: "pyval option \<Rightarrow> string option" where
  "get_str (Some (PStr s)) = Some s"
| "get_str _ = None"

fun get_opt_str :: "pyval option \<Rightarrow> string option option" where
  "get_opt_str None = Some None"
| "get_opt_str (Some PNone) = Some None"
| "get_opt_str (Some (PStr s)) = Some (Some s)"
| "get_opt_str _ = None"

fun get_int :: "pyval option \<Rightarrow> int option" where
  "get_int None = Some 0"
| "get_int (Some (PInt i)) = Some i"
| "get_int _ = None"

definition get_float :: "pyval option \<Rightarrow> pyfloat option" where
  "get_float v = (case v of None \<Rightarrow> Some (Fin 0) | Some x \<Rightarrow> py_float x)"

definition result_from_dict :: "pydict \<Rightarrow> result option" where
  "result_from_dict d =
     Option.bind (get_str (dget d ''command_id'')) (\<lambda>cid.
     Option.bind (get_str (dget d ''trade_id'')) (\<lambda>tid.
     Option.bind (Option.bind (get_str (dget d ''status'')) result_status_of) (\<lambda>st.
     Option.bind (get_str (dget d ''timestamp'')) (\<lambda>ts.
     Option.bind (get_opt_str (dget d ''broker_request_id'')) (\<lambda>req.
     Option.bind (get_int (dget d ''broker_retcode'')) (\<lambda>rc.
     Option.bind (get_float (dget d ''filled_volume'')) (\<lambda>vol.
     Option.bind (get_float (dget d ''fill_price'')) (\<lambda>price.
     Option.bind (get_opt_str (dget d ''error_code'')) (\<lambda>code.
     Option.bind (get_opt_str (dget d ''error_message'')) (\<lambda>msg.
       Some \<lparr>r_command_id = cid, r_trade_id = tid, r_status = st, r_timestamp = ts,
             r_broker_request_id = req, r_broker_retcode = rc, r_filled_volume = vol,
             r_fill_price = price,
             r_sl_applied = (case dget d ''sl_applied'' of None \<Rightarrow> False | Some v \<Rightarrow> truthy v),
             r_error_code = code, r_error_message = msg\<rparr>))))))))))"

lemma result_status_of_value [simp]: "result_status_of (result_status_value s) = Some s"
  by (cases s) (simp_all add: result_status_of_def all_statuses_def)

lemma get_opt_str_opt_str [simp]: "get_opt_str (Some (opt_str s)) = Some s"
  by (cases s) simp_all

lemma result_from_to_dict: "result_from_dict (result_to_dict r) = Some r"
  by (simp add: result_from_dict_def result_to_dict_def dget_def get_float_def)

lemma result_to_dict_json: "json_ok (PDict (result_to_dict r))"
  by (cases "r_broker_request_id r"; cases "r_error_code r"; cases "r_error_message r")
    (simp_all add: result_to_dict_def)

lemma command_to_dict_json: "json_ok (PDict (command_to_dict c))"
  by (simp add: command_to_dict_def)

section \<open>Reconciliation outcomes\<close>

record outcome =
  o_discovered_state :: "cmd_state option"
  o_ambiguous :: bool
  o_evidence :: pydict
  o_ts :: string

section \<open>Validation\<close>

definition plan_fields :: "string list" where
  "plan_fields =
     [''trade_id'', ''correlation_id'', ''inference_id'', ''risk_evaluation_id'', ''direction'', ''lot'',
      ''entry_reference'', ''sl'', ''risk_amount'', ''risk_percent'', ''exposure'', ''symbol'',
      ''generated_at'', ''expires_at'', ''policy_profile'']"

definition command_fields :: "string list" where
  "command_fields =
     [''command_id'', ''trade_id'', ''symbol'', ''direction'', ''volume'', ''entry_type'', ''sl'',
      ''created_at'', ''expires_at'']"

definition forbidden_command_fields :: "string list" where
  "forbidden_command_fields =
     [''tp'', ''take_profit'', ''confidence'', ''reason'', ''inference_id'', ''risk_amount'',
      ''risk_percent'', ''exposure'', ''margin'', ''lot'']"

text \<open>\<open>sorted(set(a) - set(b))\<close>.\<close>

definition sorted_diff :: "string list \<Rightarrow> string list \<Rightarrow> string list" where
  "sorted_diff a b = sort (remdups (filter (\<lambda>k. k \<notin> set b) a))"

definition sorted_inter :: "string list \<Rightarrow> string list \<Rightarrow> string list" where
  "sorted_inter a b = sort (remdups (filter (\<lambda>k. k \<in> set b) a))"

definition trade_plan_keys :: "string list" where
  \<comment> \<open>the keys of \<open>plan.to_dict()\<close>: the fields of the dataclass\<close>
  "trade_plan_keys =
     [''trade_id'', ''correlation_id'', ''inference_id'', ''risk_evaluation_id'', ''direction'', ''lot'',
      ''entry_reference'', ''sl'', ''risk_amount'', ''risk_percent'', ''exposure'', ''symbol'',
      ''generated_at'', ''expires_at'', ''policy_profile'']"

definition validate_plan :: "env \<Rightarrow> trade_plan \<Rightarrow> ftext list" where
  "validate_plan E p =
     trade_plan_validate E p
     @ map (\<lambda>k. [Lit (''plan.unknown_field:'' @ k)]) (sorted_diff trade_plan_keys plan_fields)"

definition validate_plan_dict :: "pydict \<Rightarrow> string list" where
  "validate_plan_dict d =
     map (\<lambda>k. ''plan.unknown_field:'' @ k) (sorted_diff (dkeys d) plan_fields)
     @ map (\<lambda>k. ''plan.missing_field:'' @ k) (sorted_diff plan_fields (dkeys d))"

definition validate_command :: "env \<Rightarrow> command \<Rightarrow> string list" where
  "validate_command E c =
     command_validate E c
     @ map (\<lambda>k. ''command.unknown_field:'' @ k) (sorted_diff (dkeys (command_to_dict c)) command_fields)
     @ map (\<lambda>k. ''command.forbidden_field:'' @ k)
         (filter (dhas (command_to_dict c)) forbidden_command_fields)"

definition validate_command_dict :: "pydict \<Rightarrow> string list" where
  "validate_command_dict d =
     map (\<lambda>k. ''command.unknown_field:'' @ k) (sorted_diff (dkeys d) command_fields)
     @ map (\<lambda>k. ''command.forbidden_field:'' @ k) (sorted_inter (dkeys d) forbidden_command_fields)
     @ map (\<lambda>k. ''command.missing_field:'' @ k) (sorted_diff command_fields (dkeys d))
     @ opt (\<not> (case dget d ''command_id'' of Some (PStr s) \<Rightarrow> is_valid_system_id s | _ \<Rightarrow> False))
         ''command.command_id:invalid_uuid''"

definition is_expired_plan :: "env \<Rightarrow> trade_plan \<Rightarrow> int \<Rightarrow> bool" where
  "is_expired_plan E p now = is_expired E (tp_expires_at p) now"

definition is_expired_command :: "env \<Rightarrow> command \<Rightarrow> int \<Rightarrow> bool" where
  "is_expired_command E c now = is_expired E (c_expires_at c) now"

text \<open>Seconds until expiry: the exact difference of two microsecond counts over a million.\<close>

definition remaining_seconds :: "env \<Rightarrow> string \<Rightarrow> int \<Rightarrow> pyfloat" where
  "remaining_seconds E ts now =
     (case parse_iso E ts of None \<Rightarrow> NInf | Some expires \<Rightarrow> rnd (Fract (expires - now) 1000000))"

lemma set_sorted_diff [simp]: "set (sorted_diff a b) = set a - set b"
  by (auto simp: sorted_diff_def)

lemma sorted_diff_Nil: "sorted_diff a b = [] \<longleftrightarrow> set a \<subseteq> set b"
proof -
  have "sorted_diff a b = [] \<longleftrightarrow> set (sorted_diff a b) = {}" by (simp only: set_empty)
  then show ?thesis by auto
qed

lemma sorted_inter_Nil: "sorted_inter a b = [] \<longleftrightarrow> set a \<inter> set b = {}"
proof -
  have "set (sorted_inter a b) = set a \<inter> set b" by (auto simp: sorted_inter_def)
  then show ?thesis by (metis set_empty)
qed

lemma validate_plan_eq: "validate_plan E p = trade_plan_validate E p"
proof -
  have "sorted_diff trade_plan_keys plan_fields = []"
    by (simp add: sorted_diff_Nil trade_plan_keys_def plan_fields_def)
  then show ?thesis by (simp add: validate_plan_def)
qed

lemma validate_command_eq: "validate_command E c = command_validate E c"
proof -
  have "sorted_diff (dkeys (command_to_dict c)) command_fields = []"
    by (simp add: sorted_diff_Nil command_fields_def dkeys_def command_to_dict_def)
  moreover have "filter (dhas (command_to_dict c)) forbidden_command_fields = []"
    by (simp add: forbidden_command_fields_def dhas_def dkeys_def command_to_dict_def)
  ultimately show ?thesis by (simp add: validate_command_def)
qed

end
