(* ===== verification/ExecState.thy ===== *)
theory ExecState
  imports ExecModels
begin

text \<open>
  The execution lifecycle of \<open>src/execution/state_machine.py\<close>: the transition table, the
  \<open>transition\<close> function with its special case for reconciliation, and the thin state holder. The
  step relation \<open>exec_step\<close> is the abstract lifecycle; the lemmas show that \<open>transition\<close>
  implements it, that terminal states have no step and that UNKNOWN is left by reconciliation only.
\<close>

datatype exec_event =
    VALIDATE_OK | VALIDATE_FAIL | SUBMIT | PARTIAL_FILL | FULL_FILL | EV_REJECTED | EV_FAILED
  | EXPIRE | SL_ATTACHING | SL_ATTACHED | EV_CLOSED | EV_UNKNOWN | RECONCILED

fun exec_event_value :: "exec_event \<Rightarrow> string" where
  "exec_event_value VALIDATE_OK = ''VALIDATE_OK''"
| "exec_event_value VALIDATE_FAIL = ''VALIDATE_FAIL''"
| "exec_event_value SUBMIT = ''SUBMIT''"
| "exec_event_value PARTIAL_FILL = ''PARTIAL_FILL''"
| "exec_event_value FULL_FILL = ''FULL_FILL''"
| "exec_event_value EV_REJECTED = ''REJECTED''"
| "exec_event_value EV_FAILED = ''FAILED''"
| "exec_event_value EXPIRE = ''EXPIRE''"
| "exec_event_value SL_ATTACHING = ''SL_ATTACHING''"
| "exec_event_value SL_ATTACHED = ''SL_ATTACHED''"
| "exec_event_value EV_CLOSED = ''CLOSED''"
| "exec_event_value EV_UNKNOWN = ''UNKNOWN''"
| "exec_event_value RECONCILED = ''RECONCILED''"

definition reconcilable_states :: "cmd_state list" where
  "reconcilable_states =
     [SUBMITTED, PARTIALLY_FILLED, FILLED, MODIFYING, CLOSED, REJECTED, EXPIRED, FAILED]"

definition transitions :: "(cmd_state \<times> (exec_event \<times> cmd_state) list) list" where
  "transitions =
     [(CREATED, [(VALIDATE_OK, VALIDATED), (VALIDATE_FAIL, FAILED), (EXPIRE, EXPIRED)]),
      (VALIDATED, [(SUBMIT, SUBMITTED), (VALIDATE_FAIL, FAILED), (EXPIRE, EXPIRED)]),
      (SUBMITTED, [(PARTIAL_FILL, PARTIALLY_FILLED), (FULL_FILL, FILLED), (EV_REJECTED, REJECTED),
         (EV_FAILED, FAILED), (EXPIRE, EXPIRED), (EV_UNKNOWN, UNKNOWN)]),
      (PARTIALLY_FILLED, [(FULL_FILL, FILLED), (EV_CLOSED, CLOSED), (EV_UNKNOWN, UNKNOWN), (EV_FAILED, FAILED)]),
      (FILLED, [(SL_ATTACHING, MODIFYING), (EV_CLOSED, CLOSED), (EV_UNKNOWN, UNKNOWN), (EV_FAILED, FAILED)]),
      (MODIFYING, [(SL_ATTACHED, FILLED), (EV_CLOSED, CLOSED), (EV_UNKNOWN, UNKNOWN), (EV_FAILED, FAILED)]),
      (UNKNOWN, [])]"

text \<open>\<open>_event_pairs()\<close>: the flattened table, with the reconciliation entries appended. They share one
  key, so the last one written would win; \<open>transition\<close> never looks them up.\<close>

definition transition_table :: "((cmd_state \<times> exec_event) \<times> cmd_state) list" where
  "transition_table =
     concat (map (\<lambda>(s, evs). map (\<lambda>(e, t). ((s, e), t)) evs) transitions)
     @ map (\<lambda>t. ((UNKNOWN, RECONCILED), t)) reconcilable_states"

definition transition :: "cmd_state \<Rightarrow> exec_event \<Rightarrow> cmd_state option \<Rightarrow> exec_exc + cmd_state" where
  "transition current event target =
     (if event = RECONCILED then
        (case target of
           None \<Rightarrow> Inl (ExecutionStateError [Lit ''RECONCILED requires a discovered target state''])
         | Some t \<Rightarrow>
             if current \<noteq> UNKNOWN then
               Inl (ExecutionStateError
                 [Lit (''reconciliation is only valid from UNKNOWN, not '' @ cmd_state_value current)])
             else if t \<notin> set reconcilable_states then
               Inl (ExecutionStateError
                 [Lit (''target '' @ cmd_state_value t @ '' is not reconciliation-observable'')])
             else Inr t)
      else
        (case map_of transition_table (current, event) of
           None \<Rightarrow> Inl (ExecutionStateError
             [Lit (''illegal transition '' @ cmd_state_value current @ '' --'' @ exec_event_value event @ ''--> ?'')])
         | Some t \<Rightarrow> Inr t))"

text \<open>\<open>ExecutionStateMachine\<close>: the held state is unchanged when \<open>transition\<close> raises.\<close>

definition machine_apply :: "exec_event \<Rightarrow> cmd_state option \<Rightarrow> (cmd_state, exec_exc, cmd_state) eff" where
  "machine_apply event target st =
     (case transition st event target of Inl e \<Rightarrow> (Inl e, st) | Inr t \<Rightarrow> (Inr t, t))"

definition machine_is_terminal :: "cmd_state \<Rightarrow> bool" where
  "machine_is_terminal st \<longleftrightarrow> is_terminal_state st"

fun machine_run :: "(exec_event \<times> cmd_state option) list \<Rightarrow> cmd_state \<Rightarrow> cmd_state" where
  \<comment> \<open>a history of calls; a raising call leaves the state and the caller goes on\<close>
  "machine_run [] st = st"
| "machine_run ((e, t) # es) st = machine_run es (snd (machine_apply e t st))"

section \<open>The lifecycle as a step relation\<close>

inductive exec_step :: "cmd_state \<Rightarrow> exec_event \<Rightarrow> cmd_state \<Rightarrow> bool" where
  validated: "exec_step CREATED VALIDATE_OK VALIDATED"
| invalid: "s \<in> {CREATED, VALIDATED} \<Longrightarrow> exec_step s VALIDATE_FAIL FAILED"
| expire: "s \<in> {CREATED, VALIDATED, SUBMITTED} \<Longrightarrow> exec_step s EXPIRE EXPIRED"
| submit: "exec_step VALIDATED SUBMIT SUBMITTED"
| partial_fill: "exec_step SUBMITTED PARTIAL_FILL PARTIALLY_FILLED"
| full_fill: "s \<in> {SUBMITTED, PARTIALLY_FILLED} \<Longrightarrow> exec_step s FULL_FILL FILLED"
| rejected: "exec_step SUBMITTED EV_REJECTED REJECTED"
| failed: "s \<in> {SUBMITTED, PARTIALLY_FILLED, FILLED, MODIFYING} \<Longrightarrow> exec_step s EV_FAILED FAILED"
| unknown: "s \<in> {SUBMITTED, PARTIALLY_FILLED, FILLED, MODIFYING} \<Longrightarrow> exec_step s EV_UNKNOWN UNKNOWN"
| sl_attaching: "exec_step FILLED SL_ATTACHING MODIFYING"
| sl_attached: "exec_step MODIFYING SL_ATTACHED FILLED"
| closed: "s \<in> {PARTIALLY_FILLED, FILLED, MODIFYING} \<Longrightarrow> exec_step s EV_CLOSED CLOSED"
| reconciled: "t \<notin> {CREATED, VALIDATED, UNKNOWN} \<Longrightarrow> exec_step UNKNOWN RECONCILED t"

inductive_cases exec_step_unknownE: "exec_step UNKNOWN e t"

inductive_simps exec_step_iff: "exec_step s e t"

lemma reconcilable_iff: "t \<in> set reconcilable_states \<longleftrightarrow> t \<notin> {CREATED, VALIDATED, UNKNOWN}"
  by (cases t) (simp_all add: reconcilable_states_def)

lemma transition_iff_step:
  "transition s e tgt = Inr t \<longleftrightarrow> exec_step s e t \<and> (e = RECONCILED \<longrightarrow> tgt = Some t)"
proof (cases "e = RECONCILED")
  case True
  then show ?thesis
    by (cases tgt) (auto simp: transition_def exec_step_iff reconcilable_iff)
next
  case False
  then have "transition s e tgt = Inr t \<longleftrightarrow> map_of transition_table (s, e) = Some t"
    by (auto simp: transition_def split: option.splits)
  also have "\<dots> \<longleftrightarrow> exec_step s e t"
    using False by (cases s; cases e)
      (auto simp: transition_table_def transitions_def reconcilable_states_def exec_step_iff)
  finally show ?thesis using False by simp
qed

lemma exec_step_not_terminal: "exec_step s e t \<Longrightarrow> \<not> is_terminal_state s"
  by (auto simp: exec_step_iff is_terminal_state_def terminal_states_def)

lemma exec_step_deterministic: "exec_step s e t \<Longrightarrow> exec_step s e t' \<Longrightarrow> e \<noteq> RECONCILED \<Longrightarrow> t = t'"
  by (auto simp: exec_step_iff)

lemma exec_step_from_unknown: "exec_step UNKNOWN e t \<Longrightarrow> e = RECONCILED"
  by (erule exec_step_unknownE) auto

text \<open>One journaled move: nothing, or one step of the lifecycle.\<close>

definition legal_move :: "cmd_state \<Rightarrow> cmd_state \<Rightarrow> bool" where
  "legal_move s t \<longleftrightarrow> s = t \<or> (\<exists>e. exec_step s e t)"

lemma legal_move_refl [simp]: "legal_move s s"
  by (simp add: legal_move_def)

lemma legal_move_transition: "transition s e tgt = Inr t \<Longrightarrow> legal_move s t"
  by (auto simp: legal_move_def transition_iff_step)

lemma legal_move_terminal: "legal_move s t \<Longrightarrow> is_terminal_state s \<Longrightarrow> t = s"
  by (auto simp: legal_move_def dest: exec_step_not_terminal)

lemma machine_apply_legal: "legal_move st (snd (machine_apply e t st))"
  by (auto simp: machine_apply_def legal_move_transition split: sum.splits)

lemma machine_run_terminal: "is_terminal_state st \<Longrightarrow> machine_run es st = st"
proof (induction es arbitrary: st)
  case Nil
  then show ?case by simp
next
  case (Cons p es)
  then show ?case
    using legal_move_terminal [OF machine_apply_legal] by (cases p) simp
qed

end
