(* ===== verification/ExecJournal.thy ===== *)
theory ExecJournal
  imports ExecResult ExecState
begin

text \<open>
  The durable execution journal of \<open>src/execution/journal.py\<close>: the keyed projection
  \<open>execution_commands\<close> and the append-only audit \<open>execution_journal\<close>, with the primary key, the
  partial unique index on active trades and the AUTOINCREMENT sequence. Each write takes how its
  transaction ends as an argument: a \<open>sqlite3.DatabaseError\<close> at any statement or at the commit leaves the
  journal as it was (the context manager of the connection rolls back) and becomes a \<open>JournalError\<close>, which
  \<open>create_command\<close> alone lets through as it is; a missing row id raises after the commit. Payloads are the
  dictionaries that the JSON columns encode.

  \<open>journal_ok\<close> is the invariant: unique ids, one active command per trade, gap-free sequence
  numbers, every projected state the last audited one, and every audited history a run of the
  lifecycle.
\<close>

section \<open>Rows\<close>

record row =
  row_command_id :: string
  row_trade_id :: string
  row_state :: cmd_state
  row_payload :: pydict
  row_created_ts :: string
  row_updated_ts :: string
  row_result :: "pydict option"

record stored =
  s_command_id :: string
  s_trade_id :: string
  s_state :: cmd_state
  s_payload :: pydict
  s_created_ts :: string
  s_updated_ts :: string
  s_result :: "result option"

record jevent =
  je_seq :: nat
  je_command_id :: string
  je_trade_id :: string
  je_event_type :: string
  je_state :: cmd_state
  je_payload :: pydict
  je_ts :: string

record journal =
  j_commands :: "row list"
  j_log :: "jevent list"

definition empty_journal :: journal where
  "empty_journal = \<lparr>j_commands = [], j_log = []\<rparr>"

definition row_active :: "row \<Rightarrow> bool" where
  \<comment> \<open>the predicate of the partial unique index\<close>
  "row_active r \<longleftrightarrow> \<not> is_terminal_state (row_state r)"

definition row_to_stored :: "row \<Rightarrow> stored" where
  "row_to_stored r =
     \<lparr>s_command_id = row_command_id r, s_trade_id = row_trade_id r, s_state = row_state r,
      s_payload = row_payload r, s_created_ts = row_created_ts r, s_updated_ts = row_updated_ts r,
      s_result = Option.bind (row_result r) result_from_dict\<rparr>"

section \<open>Writes\<close>

definition journal_create_command :: "command \<Rightarrow> string \<Rightarrow> write_outcome \<Rightarrow> (journal, exec_exc, unit) eff" where
  "journal_create_command c now ending j =
     (case ending of Sqlite_error m \<Rightarrow> (Inl (SqliteError m), j) | _ \<Rightarrow>
      if list_ex (\<lambda>r. row_command_id r = c_command_id c
                    \<or> row_active r \<and> row_trade_id r = c_trade_id c) (j_commands j)
      then (Inl (DuplicateCommandError [Lit (''command or active trade already exists: '' @ c_command_id c)]), j)
      else (Inr (), j\<lparr>j_commands := j_commands j @
        [\<lparr>row_command_id = c_command_id c, row_trade_id = c_trade_id c, row_state = CREATED,
          row_payload = command_to_dict c, row_created_ts = c_created_at c, row_updated_ts = now,
          row_result = None\<rparr>]\<rparr>))"

definition set_row_state :: "string \<Rightarrow> cmd_state \<Rightarrow> string \<Rightarrow> row \<Rightarrow> row" where
  "set_row_state cid st now r =
     (if row_command_id r = cid then r\<lparr>row_state := st, row_updated_ts := now\<rparr> else r)"

definition set_row_result :: "string \<Rightarrow> pydict \<Rightarrow> string \<Rightarrow> row \<Rightarrow> row" where
  "set_row_result cid d now r =
     (if row_command_id r = cid then r\<lparr>row_result := Some d, row_updated_ts := now\<rparr> else r)"

text \<open>Whether the UPDATE would put two active rows of one trade into the index: the updated row
  becomes active while another active row has its trade.\<close>

definition index_violated :: "string \<Rightarrow> cmd_state \<Rightarrow> row list \<Rightarrow> bool" where
  "index_violated cid st rows =
     (\<not> is_terminal_state st
      \<and> list_ex (\<lambda>r. row_command_id r = cid
          \<and> list_ex (\<lambda>q. row_command_id q \<noteq> cid \<and> row_active q \<and> row_trade_id q = row_trade_id r) rows) rows)"

definition journal_record ::
  "command \<Rightarrow> string \<Rightarrow> cmd_state \<Rightarrow> pydict \<Rightarrow> string \<Rightarrow> write_outcome \<Rightarrow> (journal, exec_exc, nat) eff" where
  "journal_record c etype st payload now ending j =
     (if \<not> json_ok (PDict payload) then (Inl PyTypeError, j)
      else case ending of Sqlite_error m \<Rightarrow> (Inl (JournalError [Lit (''journal append failed: '' @ m)]), j) | _ \<Rightarrow>
      if index_violated (c_command_id c) st (j_commands j)
      then (Inl (JournalError [Lit ''journal append failed: UNIQUE constraint failed: execution_commands.trade_id'']), j)
      else
        (let seq = Suc (length (j_log j)) in
         (if ending = No_rowid then Inl (JournalError [Lit ''journal append failed: no sequence returned'']) else Inr seq,
          j\<lparr>j_log := j_log j @
              [\<lparr>je_seq = seq, je_command_id = c_command_id c, je_trade_id = c_trade_id c,
                je_event_type = etype, je_state = st, je_payload = payload, je_ts = now\<rparr>],
            j_commands := map (set_row_state (c_command_id c) st now) (j_commands j)\<rparr>)))"

definition journal_store_result ::
  "command \<Rightarrow> result \<Rightarrow> string \<Rightarrow> write_outcome \<Rightarrow> (journal, exec_exc, unit) eff" where
  "journal_store_result c r now ending j =
     (case ending of Sqlite_error m \<Rightarrow> (Inl (JournalError [Lit (''journal result store failed: '' @ m)]), j) | _ \<Rightarrow>
      (Inr (), j\<lparr>j_commands := map (set_row_result (c_command_id c) (result_to_dict r) now) (j_commands j)\<rparr>))"

section \<open>Reads\<close>

definition get_command :: "journal \<Rightarrow> string \<Rightarrow> stored option" where
  "get_command j cid = map_option row_to_stored (find_by row_command_id cid (j_commands j))"

definition get_active_for_trade :: "journal \<Rightarrow> string \<Rightarrow> stored option" where
  "get_active_for_trade j tid =
     (case rev (sort_key row_created_ts
             (filter (\<lambda>r. row_trade_id r = tid \<and> row_active r) (j_commands j))) of
        [] \<Rightarrow> None | r # _ \<Rightarrow> Some (row_to_stored r))"

definition get_result :: "journal \<Rightarrow> string \<Rightarrow> result option" where
  "get_result j cid = (case get_command j cid of None \<Rightarrow> None | Some s \<Rightarrow> s_result s)"

definition active_commands :: "journal \<Rightarrow> stored list" where
  "active_commands j = map row_to_stored (sort_key row_created_ts (filter row_active (j_commands j)))"

definition events_of :: "journal \<Rightarrow> string \<Rightarrow> jevent list" where
  "events_of j cid = sort_key je_seq (filter (\<lambda>e. je_command_id e = cid) (j_log j))"

definition event_count :: "journal \<Rightarrow> nat" where
  "event_count j = length (j_log j)"

definition command_count :: "journal \<Rightarrow> nat" where
  "command_count j = length (j_commands j)"

section \<open>The invariant\<close>

text \<open>The states audited for a command, from CREATED on.\<close>

definition history :: "journal \<Rightarrow> string \<Rightarrow> cmd_state list" where
  "history j cid = CREATED # map je_state (filter (\<lambda>e. je_command_id e = cid) (j_log j))"

fun legal_run :: "cmd_state list \<Rightarrow> bool" where
  "legal_run (s # t # ss) \<longleftrightarrow> legal_move s t \<and> legal_run (t # ss)"
| "legal_run _ \<longleftrightarrow> True"

lemma legal_run_snoc: "ss \<noteq> [] \<Longrightarrow> legal_run (ss @ [t]) \<longleftrightarrow> legal_run ss \<and> legal_move (last ss) t"
  by (induction ss rule: legal_run.induct) auto

definition active_trades :: "row list \<Rightarrow> string list" where
  "active_trades rows = map row_trade_id (filter row_active rows)"

definition result_readable :: "row \<Rightarrow> bool" where
  "result_readable r \<longleftrightarrow> (case row_result r of None \<Rightarrow> True | Some d \<Rightarrow> result_from_dict d \<noteq> None)"

definition journal_ok :: "journal \<Rightarrow> bool" where
  "journal_ok j \<longleftrightarrow>
     distinct (map row_command_id (j_commands j))
     \<and> distinct (active_trades (j_commands j))
     \<and> map je_seq (j_log j) = [1..<Suc (length (j_log j))]
     \<and> (\<forall>e \<in> set (j_log j). je_command_id e \<in> row_command_id ` set (j_commands j))
     \<and> (\<forall>r \<in> set (j_commands j). row_state r = last (history j (row_command_id r)))
     \<and> (\<forall>r \<in> set (j_commands j). legal_run (history j (row_command_id r)))
     \<and> (\<forall>r \<in> set (j_commands j). result_readable r)"

text \<open>The projected state of a command.\<close>

definition state_of :: "journal \<Rightarrow> string \<Rightarrow> cmd_state option" where
  "state_of j cid = map_option row_state (find_by row_command_id cid (j_commands j))"

lemma get_command_state: "map_option s_state (get_command j cid) = state_of j cid"
  by (simp add: get_command_def state_of_def row_to_stored_def option.map_comp comp_def)

lemma get_command_Some_state: "get_command j cid = Some s \<Longrightarrow> state_of j cid = Some (s_state s)"
  by (metis get_command_state option.simps(9))

lemma state_of_None: "state_of j cid = None \<longleftrightarrow> cid \<notin> row_command_id ` set (j_commands j)"
  by (simp add: state_of_def find_by_None)

lemma row_state_of:
  assumes "journal_ok j" and "r \<in> set (j_commands j)"
  shows "state_of j (row_command_id r) = Some (row_state r)"
  using assms by (simp add: state_of_def journal_ok_def find_by_distinct)

lemma set_row_id [simp]:
  "row_command_id (set_row_state cid st now r) = row_command_id r"
  "row_trade_id (set_row_state cid st now r) = row_trade_id r"
  "row_result (set_row_state cid st now r) = row_result r"
  "row_command_id (set_row_result cid d now r) = row_command_id r"
  "row_trade_id (set_row_result cid d now r) = row_trade_id r"
  "row_state (set_row_result cid d now r) = row_state r"
  by (simp_all add: set_row_state_def set_row_result_def)

lemma set_row_state_state:
  "row_state (set_row_state cid st now r) = (if row_command_id r = cid then st else row_state r)"
  by (simp add: set_row_state_def)

section \<open>Writes keep the invariant\<close>

lemma active_trades_append: "active_trades (xs @ ys) = active_trades xs @ active_trades ys"
  by (simp add: active_trades_def)

lemma active_trades_set_state:
  assumes "\<forall>r \<in> set rows. row_command_id r = cid \<longrightarrow> legal_move (row_state r) st"
  shows "subseq (active_trades (map (set_row_state cid st now) rows)) (active_trades rows)"
  using assms
proof (induction rows)
  case Nil
  then show ?case by (simp add: active_trades_def)
next
  case (Cons r rows)
  then have IH: "subseq (active_trades (map (set_row_state cid st now) rows)) (active_trades rows)"
    by simp
  have "row_active (set_row_state cid st now r) \<Longrightarrow> row_active r"
    using Cons.prems legal_move_terminal by (auto simp: row_active_def set_row_state_state split: if_splits)
  then show ?case using IH by (auto simp: active_trades_def)
qed

lemma active_trades_set_result:
  "active_trades (map (set_row_result cid d now) rows) = active_trades rows"
  by (induction rows) (auto simp: active_trades_def row_active_def)

lemma history_nonempty [simp]: "history j cid \<noteq> []"
  by (simp add: history_def)

lemma journal_ok_state:
  assumes "journal_ok j" and "state_of j cid = Some s"
  shows "last (history j cid) = s" and "legal_run (history j cid)"
proof -
  obtain r where "r \<in> set (j_commands j)" "row_command_id r = cid" "row_state r = s"
    using assms(2) find_by_Some by (fastforce simp: state_of_def)
  then show "last (history j cid) = s" and "legal_run (history j cid)"
    using assms(1) by (auto simp: journal_ok_def)
qed

lemma create_command_rows:
  assumes "journal_create_command c now ending j = (Inr (), j')"
  shows "c_command_id c \<notin> row_command_id ` set (j_commands j)"
    and "\<And>r. r \<in> set (j_commands j) \<Longrightarrow> row_active r \<Longrightarrow> row_trade_id r \<noteq> c_trade_id c"
    and "j_log j' = j_log j"
    and "\<exists>p. j_commands j' = j_commands j @
           [\<lparr>row_command_id = c_command_id c, row_trade_id = c_trade_id c, row_state = CREATED,
             row_payload = p, row_created_ts = c_created_at c, row_updated_ts = now, row_result = None\<rparr>]"
  using assms by (auto simp: journal_create_command_def list_ex_iff split: if_splits write_outcome.splits)

lemma history_fresh:
  assumes "journal_ok j" and "cid \<notin> row_command_id ` set (j_commands j)"
  shows "history j cid = [CREATED]"
proof -
  have "\<forall>e \<in> set (j_log j). je_command_id e \<noteq> cid"
    using assms by (auto simp: journal_ok_def)
  then show ?thesis by (simp add: history_def)
qed

lemma create_command_ok:
  assumes ok: "journal_ok j" and run: "journal_create_command c now ending j = (Inr (), j')"
  shows "journal_ok j'"
proof -
  note new = create_command_rows [OF run]
  obtain p where rows: "j_commands j' = j_commands j @
     [\<lparr>row_command_id = c_command_id c, row_trade_id = c_trade_id c, row_state = CREATED,
       row_payload = p, row_created_ts = c_created_at c, row_updated_ts = now, row_result = None\<rparr>]"
    using new(4) by blast
  have hist: "history j' cid = history j cid" for cid
    using new(3) by (simp add: history_def)
  have "c_trade_id c \<notin> set (active_trades (j_commands j))"
  proof
    assume "c_trade_id c \<in> set (active_trades (j_commands j))"
    then obtain q where "q \<in> set (j_commands j)" "row_active q" "row_trade_id q = c_trade_id c"
      by (auto simp: active_trades_def)
    then show False using new(2) by blast
  qed
  then have "distinct (active_trades (j_commands j'))"
    using ok by (simp add: rows active_trades_append) (simp add: journal_ok_def active_trades_def)
  then show ?thesis
    using ok new(1) history_fresh [OF ok new(1)]
    unfolding journal_ok_def hist new(3) by (auto simp: rows result_readable_def)
qed

lemma journal_record_log:
  assumes "journal_record c etype st payload now ending j = (Inr n, j')"
  shows "n = Suc (length (j_log j))"
    and "j_log j' = j_log j @ [\<lparr>je_seq = n, je_command_id = c_command_id c, je_trade_id = c_trade_id c,
           je_event_type = etype, je_state = st, je_payload = payload, je_ts = now\<rparr>]"
    and "j_commands j' = map (set_row_state (c_command_id c) st now) (j_commands j)"
    and "json_ok (PDict payload)"
    and "ending = Committed"
  using assms by (auto simp: journal_record_def Let_def split: if_splits write_outcome.splits)

lemma history_record:
  assumes "journal_record c etype st payload now ending j = (Inr n, j')"
  shows "history j' cid = (if cid = c_command_id c then history j cid @ [st] else history j cid)"
  using journal_record_log(2) [OF assms] by (simp add: history_def)

text \<open>The exceptions of a failing journal. A write that raises leaves the journal as it was, but for the
  line whose row id is missing: that one is committed like any other.\<close>

fun journal_failure :: "exec_exc \<Rightarrow> bool" where
  "journal_failure (JournalError m) \<longleftrightarrow> True"
| "journal_failure _ \<longleftrightarrow> False"

lemma journal_record_error:
  assumes "journal_record c etype st payload now ending j = (Inl e, j')"
  shows "j' = j \<or> journal_failure e \<and> (\<exists>n. journal_record c etype st payload now Committed j = (Inr n, j'))"
  using assms by (auto simp: journal_record_def Let_def split: if_splits write_outcome.splits)

lemma journal_create_error: "journal_create_command c now ending j = (Inl e, j') \<Longrightarrow> j' = j"
  by (auto simp: journal_create_command_def split: if_splits write_outcome.splits)

lemma journal_store_error:
  "journal_store_result c r now ending j = (Inl e, j') \<Longrightarrow> j' = j \<and> journal_failure e"
  by (auto simp: journal_store_result_def split: write_outcome.splits)

lemma state_of_record:
  assumes "journal_record c etype st payload now ending j = (Inr n, j')"
  shows "state_of j' cid =
    (if cid = c_command_id c \<and> state_of j cid \<noteq> None then Some st else state_of j cid)"
proof -
  have "find_by row_command_id cid (j_commands j')
        = map_option (set_row_state (c_command_id c) st now) (find_by row_command_id cid (j_commands j))"
    unfolding journal_record_log(3) [OF assms] by (rule find_by_map) simp
  then show ?thesis
    using find_by_Some [of row_command_id cid "j_commands j"]
    by (cases "find_by row_command_id cid (j_commands j)") (auto simp: state_of_def set_row_state_state)
qed

lemma journal_record_ok:
  assumes ok: "journal_ok j" and cur: "state_of j (c_command_id c) = Some s" and legal: "legal_move s st"
    and run: "journal_record c etype st payload now ending j = (Inr n, j')"
  shows "journal_ok j'"
proof -
  note log = journal_record_log [OF run] and hist = history_record [OF run]
  have in_rows: "c_command_id c \<in> row_command_id ` set (j_commands j)"
    using cur state_of_None [of j "c_command_id c"] by auto
  have legal': "\<forall>r \<in> set (j_commands j). row_command_id r = c_command_id c \<longrightarrow> legal_move (row_state r) st"
  proof (intro ballI impI)
    fix q assume "q \<in> set (j_commands j)" and "row_command_id q = c_command_id c"
    then show "legal_move (row_state q) st" using row_state_of [OF ok, of q] cur legal by simp
  qed
  have ids: "map row_command_id (j_commands j') = map row_command_id (j_commands j)"
    by (simp add: log(3))
  have "distinct (active_trades (j_commands j'))"
    using active_trades_set_state [OF legal'] ok subseq_distinct
    unfolding log(3) journal_ok_def by blast
  moreover have "row_state r = last (history j' (row_command_id r)) \<and> legal_run (history j' (row_command_id r))
      \<and> result_readable r" if r_in: "r \<in> set (j_commands j')" for r
  proof -
    obtain q where q: "q \<in> set (j_commands j)" "r = set_row_state (c_command_id c) st now q"
      using r_in log(3) by auto
    then have "row_state q = last (history j (row_command_id q))" "legal_run (history j (row_command_id q))"
      "result_readable q"
      using ok by (auto simp: journal_ok_def)
    moreover have "legal_move (last (history j (c_command_id c))) st"
      using journal_ok_state(1) [OF ok cur] legal by simp
    ultimately show ?thesis
      by (auto simp: q(2) hist set_row_state_state legal_run_snoc result_readable_def)
  qed
  moreover have "map je_seq (j_log j') = [1..<Suc (length (j_log j'))]"
    using ok log(1) by (simp add: log(2) journal_ok_def)
  moreover have "\<forall>e \<in> set (j_log j'). je_command_id e \<in> row_command_id ` set (j_commands j')"
  proof -
    have "row_command_id ` set (j_commands j') = row_command_id ` set (j_commands j)"
      using ids by (metis set_map)
    then show ?thesis using ok in_rows by (auto simp: journal_ok_def log(2))
  qed
  moreover have "distinct (map row_command_id (j_commands j'))"
    using ok by (simp only: ids) (simp add: journal_ok_def)
  ultimately show ?thesis unfolding journal_ok_def by blast
qed

text \<open>On a well-formed journal a legal move never violates the index: no \<open>JournalError\<close>.\<close>

lemma journal_record_defined:
  assumes ok: "journal_ok j" and cur: "state_of j (c_command_id c) = Some s" and legal: "legal_move s st"
    and json: "json_ok (PDict payload)"
  shows "\<exists>n j'. journal_record c etype st payload now Committed j = (Inr n, j')"
proof -
  have "\<not> index_violated (c_command_id c) st (j_commands j)"
  proof
    assume "index_violated (c_command_id c) st (j_commands j)"
    then obtain r q where st: "\<not> is_terminal_state st" and r: "r \<in> set (j_commands j)" "row_command_id r = c_command_id c"
      and q: "q \<in> set (j_commands j)" "row_command_id q \<noteq> c_command_id c" "row_active q" "row_trade_id q = row_trade_id r"
      by (auto simp: index_violated_def list_ex_iff)
    have "row_state r = s" using row_state_of [OF ok r(1)] r(2) cur by simp
    then have "row_active r" using st legal legal_move_terminal by (auto simp: row_active_def)
    moreover have "distinct (map row_trade_id (filter row_active (j_commands j)))"
      using ok by (simp add: journal_ok_def active_trades_def)
    ultimately show False
      using r q by (auto simp: distinct_map inj_on_def)
  qed
  then show ?thesis using json by (simp add: journal_record_def Let_def)
qed

lemma state_of_store_result: "state_of (snd (journal_store_result c r now ending j)) cid = state_of j cid"
proof -
  have "find_by row_command_id cid (map (set_row_result (c_command_id c) (result_to_dict r) now) (j_commands j))
        = map_option (set_row_result (c_command_id c) (result_to_dict r) now)
            (find_by row_command_id cid (j_commands j))"
    by (rule find_by_map) simp
  then show ?thesis
    by (simp add: state_of_def journal_store_result_def option.map_comp comp_def split: write_outcome.split)
qed

lemma journal_store_result_ok:
  assumes ok: "journal_ok j"
  shows "journal_ok (snd (journal_store_result c r now ending j))"
proof -
  have "result_readable (set_row_result (c_command_id c) (result_to_dict r) now q)" if "result_readable q" for q
    using that by (simp add: result_readable_def set_row_result_def result_from_to_dict)
  moreover have "history (snd (journal_store_result c r now Committed j)) cid = history j cid" for cid
    by (simp add: history_def journal_store_result_def)
  ultimately have "journal_ok (snd (journal_store_result c r now Committed j))"
    using ok unfolding journal_ok_def
    by (auto simp: journal_store_result_def active_trades_set_result comp_def image_image)
  then show ?thesis using ok by (cases ending) (simp_all add: journal_store_result_def)
qed

lemma get_result_store:
  assumes "state_of j cid \<noteq> None"
  shows "get_result (snd (journal_store_result c r now Committed j)) cid =
     (if cid = c_command_id c then Some r else get_result j cid)"
proof -
  obtain q where q: "find_by row_command_id cid (j_commands j) = Some q"
    using assms by (auto simp: state_of_def)
  have "find_by row_command_id cid (map (set_row_result (c_command_id c) (result_to_dict r) now) (j_commands j))
        = Some (set_row_result (c_command_id c) (result_to_dict r) now q)"
    by (subst find_by_map) (simp_all add: q)
  moreover have "row_command_id q = cid" using q find_by_Some by fastforce
  ultimately show ?thesis
    by (simp add: get_result_def get_command_def journal_store_result_def row_to_stored_def q
      set_row_result_def result_from_to_dict)
qed

section \<open>Properties\<close>

text \<open>Where the database itself does not fail, creating a command is refused, with the journal unchanged, exactly when the command id is
  already journaled or the trade already has an active command; otherwise the new command is stored
  in state CREATED with no result.\<close>

theorem create_command_behaviour:
  "if get_command j (c_command_id c) = None \<and> get_active_for_trade j (c_trade_id c) = None
   then (\<exists>j'. journal_create_command c now Committed j = (Inr (), j')
          \<and> state_of j' (c_command_id c) = Some CREATED
          \<and> get_result j' (c_command_id c) = None
          \<and> command_count j' = Suc (command_count j))
   else (\<exists>m. journal_create_command c now Committed j = (Inl (DuplicateCommandError m), j))"
proof -
  let ?clash = "list_ex (\<lambda>r. row_command_id r = c_command_id c
                    \<or> row_active r \<and> row_trade_id r = c_trade_id c) (j_commands j)"
  have "get_command j (c_command_id c) \<noteq> None \<longleftrightarrow> c_command_id c \<in> row_command_id ` set (j_commands j)"
    by (simp add: get_command_def find_by_None)
  moreover have "get_active_for_trade j (c_trade_id c) \<noteq> None \<longleftrightarrow>
      filter (\<lambda>r. row_trade_id r = c_trade_id c \<and> row_active r) (j_commands j) \<noteq> []"
    by (auto simp: get_active_for_trade_def split: list.splits dest: arg_cong [where f = length])
  ultimately have clash: "get_command j (c_command_id c) = None \<and> get_active_for_trade j (c_trade_id c) = None \<longleftrightarrow> \<not> ?clash"
    unfolding list_ex_iff filter_empty_conv image_iff by (metis (no_types, lifting))
  show ?thesis
  proof (cases ?clash)
    case True
    then show ?thesis unfolding clash by (simp add: journal_create_command_def)
  next
    case False
    then have "find_by row_command_id (c_command_id c) (j_commands j) = None"
      by (auto simp: find_by_None list_ex_iff)
    then show ?thesis using False unfolding clash
      by (simp add: journal_create_command_def state_of_def get_result_def get_command_def
        find_by_append find_by_Cons row_to_stored_def command_count_def)
  qed
qed

text \<open>Storing a result, where the write is committed, makes it the one that is read back for that command, whatever its fields
  (the JSON dictionary round trip loses nothing), and leaves the results of other commands alone; for
  a command that was never journaled nothing is stored.\<close>

theorem stored_result_is_read_back:
  "get_result (snd (journal_store_result c r now Committed j)) cid =
     (if cid = c_command_id c \<and> get_command j cid \<noteq> None then Some r else get_result j cid)"
proof (cases "state_of j cid")
  case None
  then have "find_by row_command_id cid (j_commands j) = None" by (simp add: state_of_def)
  moreover have "find_by row_command_id cid (map (set_row_result (c_command_id c) (result_to_dict r) now) (j_commands j))
        = map_option (set_row_result (c_command_id c) (result_to_dict r) now) None"
    using calculation by (subst find_by_map) simp_all
  ultimately show ?thesis by (simp add: get_result_def get_command_def journal_store_result_def)
next
  case (Some s)
  then have "get_command j cid \<noteq> None" using get_command_state [of j cid] by auto
  then show ?thesis using get_result_store [of j cid c r now] Some by simp
qed

text \<open>A journal line that follows the lifecycle is accepted on a well-formed journal whenever the
  database takes the write (the partial unique index cannot reject it), gets the next sequence number, is appended after every
  earlier line, and the journal stays well formed with the command projected to the new state.\<close>

theorem record_accepts_legal_move:
  assumes "journal_ok j" and "state_of j (c_command_id c) = Some s" and "legal_move s st"
    and "json_ok (PDict payload)"
  shows "\<exists>j' e. journal_record c etype st payload now Committed j = (Inr (Suc (event_count j)), j')
           \<and> j_log j' = j_log j @ [e] \<and> je_state e = st \<and> je_command_id e = c_command_id c
           \<and> journal_ok j' \<and> state_of j' (c_command_id c) = Some st"
proof -
  obtain n j' where run: "journal_record c etype st payload now Committed j = (Inr n, j')"
    using journal_record_defined [OF assms] by blast
  then show ?thesis
    using journal_record_log(1,2) [OF run] journal_record_ok [OF assms(1-3) run] state_of_record [OF run]
      assms(2) by (simp add: event_count_def)
qed

definition sample_command :: command where
  "sample_command =
     \<lparr>c_command_id = ''c1'', c_trade_id = ''t1'', c_symbol = ''XAUUSD'', c_direction = ''BUY'',
      c_volume = Fin (1 / 8), c_entry_type = MARKET, c_sl = Fin 4390, c_created_at = ''2026-01-01'',
      c_expires_at = ''2026-01-02''\<rparr>"

definition sample_journal :: journal where
  "sample_journal = snd (journal_create_command sample_command ''2026-01-01'' Committed empty_journal)"

lemma empty_journal_ok: "journal_ok empty_journal"
  by (simp add: journal_ok_def empty_journal_def active_trades_def)

lemma sample_journal_ok: "journal_ok sample_journal" "state_of sample_journal ''c1'' = Some CREATED"
proof -
  have "journal_create_command sample_command ''2026-01-01'' Committed empty_journal = (Inr (), sample_journal)"
    by (simp add: sample_journal_def journal_create_command_def empty_journal_def)
  then show "journal_ok sample_journal" by (rule create_command_ok [OF empty_journal_ok])
  show "state_of sample_journal ''c1'' = Some CREATED"
    by (simp add: sample_journal_def journal_create_command_def empty_journal_def state_of_def
      sample_command_def find_by_Cons)
qed

theorem record_accepts_legal_move_witness:
  "\<exists>j' e. journal_record sample_command ''VALIDATE_OK'' VALIDATED [] ''2026-01-01'' Committed sample_journal
             = (Inr (Suc (event_count sample_journal)), j')
           \<and> j_log j' = j_log sample_journal @ [e] \<and> je_state e = VALIDATED \<and> je_command_id e = ''c1''
           \<and> journal_ok j' \<and> state_of j' ''c1'' = Some VALIDATED"
proof -
  have "legal_move CREATED VALIDATED" by (auto simp: legal_move_def exec_step_iff)
  then show ?thesis
    using record_accepts_legal_move [of sample_journal sample_command CREATED VALIDATED "[]" "''VALIDATE_OK''" "''2026-01-01''"]
      sample_journal_ok by (simp add: sample_command_def)
qed

end
