(* ===== verification/ExecEngine.thy ===== *)
theory ExecEngine
  imports ExecJournal
begin

text \<open>
  The execution engine of \<open>src/execution/engine.py\<close>: plan to command, submission with write-ahead
  journaling, stop-loss protection after a fill, emergency close, close with its retry budget,
  reconciliation and restart recovery. Each method is one definition over a world that holds the
  journal, the number of clock readings and UUIDs taken so far and the state of whatever stands
  behind the executor and reconciliation boundaries (\<open>executor.py\<close>, \<open>reconciliation.py\<close>), whose
  operations are the arguments \<open>ports\<close>. The retry loops recurse on the remaining budget.
\<close>

section \<open>World, boundaries, configuration\<close>

record 'b world =
  w_journal :: journal
  w_clock :: nat
  w_uuids :: nat
  w_broker :: 'b

type_synonym ('b, 'a) act = "('b world, exec_exc, 'a) eff"

record 'b ports =
  port_submit :: "command \<Rightarrow> ('b, result) act"
  port_position :: "command \<Rightarrow> ('b, position option) act"
  port_attach :: "command \<Rightarrow> string \<Rightarrow> pyfloat \<Rightarrow> ('b, result) act"
  port_close :: "command \<Rightarrow> string \<Rightarrow> ('b, result) act"
  port_reconcile :: "command \<Rightarrow> result option \<Rightarrow> ('b, outcome) act"

record exec_config =
  trade_plan_ttl_seconds :: pyval
  exec_retry :: retry_policy

definition default_exec_config :: exec_config where
  "default_exec_config = \<lparr>trade_plan_ttl_seconds = PFloat (Fin 5), exec_retry = default_retry_policy\<rparr>"

fun non_positive :: "pyval \<Rightarrow> bool" where
  "non_positive (PInt i) \<longleftrightarrow> i \<le> 0"
| "non_positive (PFloat x) \<longleftrightarrow> fle x (Fin 0)"
| "non_positive v \<longleftrightarrow> False"

definition exec_config_validate :: "exec_config \<Rightarrow> ftext list" where
  "exec_config_validate cfg =
     (case trade_plan_ttl_seconds cfg of
        PInt i \<Rightarrow> opt (non_positive (PInt i)) [Lit ''execution_config.trade_plan_ttl_seconds:non_positive'']
      | PFloat x \<Rightarrow> opt (non_positive (PFloat x)) [Lit ''execution_config.trade_plan_ttl_seconds:non_positive'']
      | _ \<Rightarrow> [[Lit ''execution_config.trade_plan_ttl_seconds:invalid'']])
     @ retry_policy_validate (exec_retry cfg)"

record 'b engine =
  eng_env :: env
  eng_ports :: "'b ports"
  eng_config :: exec_config

definition submit_budget :: "'b engine \<Rightarrow> nat" where
  "submit_budget G = nat (submit_retries (exec_retry (eng_config G)))"

section \<open>Access to the world\<close>

definition now_iso :: "env \<Rightarrow> ('b, string) act" where
  "now_iso E w = (Inr (clock_text E (w_clock w)), w\<lparr>w_clock := Suc (w_clock w)\<rparr>)"

definition now_us :: "env \<Rightarrow> ('b, int) act" where
  "now_us E w = (Inr (clock_us E (w_clock w)), w\<lparr>w_clock := Suc (w_clock w)\<rparr>)"

definition new_command_id :: "env \<Rightarrow> ('b, string) act" where
  "new_command_id E w = (Inr (uuid_text E (w_uuids w)), w\<lparr>w_uuids := Suc (w_uuids w)\<rparr>)"

definition on_journal :: "(journal, exec_exc, 'a) eff \<Rightarrow> ('b, 'a) act" where
  "on_journal m w = (case m (w_journal w) of (r, j) \<Rightarrow> (r, w\<lparr>w_journal := j\<rparr>))"

text \<open>The clock reading that stamps a journal write, with how that write ends.\<close>

definition write_stamp :: "env \<Rightarrow> ('b, string \<times> write_outcome) act" where
  "write_stamp E w =
     (Inr (clock_text E (w_clock w), write_end E (w_clock w)), w\<lparr>w_clock := Suc (w_clock w)\<rparr>)"

definition record_line :: "env \<Rightarrow> command \<Rightarrow> string \<Rightarrow> cmd_state \<Rightarrow> pydict \<Rightarrow> ('b, nat) act" where
  "record_line E c etype st payload =
     bind (write_stamp E) (\<lambda>(ts, ending). on_journal (journal_record c etype st payload ts ending))"

definition store_result :: "env \<Rightarrow> command \<Rightarrow> result \<Rightarrow> ('b, unit) act" where
  "store_result E c r = bind (write_stamp E) (\<lambda>(ts, ending). on_journal (journal_store_result c r ts ending))"

definition stored_command :: "string \<Rightarrow> ('b, stored option) act" where
  "stored_command cid = gets (\<lambda>w. get_command (w_journal w) cid)"

definition current_state :: "command \<Rightarrow> ('b, cmd_state) act" where
  "current_state c = gets (\<lambda>w. case get_command (w_journal w) (c_command_id c) of
     None \<Rightarrow> CREATED | Some s \<Rightarrow> s_state s)"

definition of_sum :: "'e + 'a \<Rightarrow> ('s, 'e, 'a) eff" where
  "of_sum r = (case r of Inl e \<Rightarrow> raise e | Inr x \<Rightarrow> ret x)"

definition record_transition ::
  "env \<Rightarrow> command \<Rightarrow> exec_event \<Rightarrow> cmd_state option \<Rightarrow> pydict \<Rightarrow> ('b, cmd_state) act" where
  "record_transition E c event target payload =
     bind (current_state c) (\<lambda>current.
     bind (of_sum (transition current event target)) (\<lambda>next_state.
     bind (record_line E c (exec_event_value event) next_state payload) (\<lambda>_.
     ret next_state)))"

definition unknown_result :: "env \<Rightarrow> command \<Rightarrow> error_code \<Rightarrow> string \<Rightarrow> ('b, result) act" where
  "unknown_result E c code msg =
     bind (now_iso E) (\<lambda>ts.
     ret (result_unknown (c_command_id c) (c_trade_id c) ts (error_code_value code) msg))"

definition with_sl_confirmed :: "env \<Rightarrow> result \<Rightarrow> ('b, result) act" where
  "with_sl_confirmed E r =
     bind (now_iso E) (\<lambda>ts.
     ret (result_filled (r_command_id r) (r_trade_id r) ts (r_broker_request_id r) (r_broker_retcode r)
            (r_filled_volume r) (r_fill_price r) True))"

text \<open>Storing a result and returning it.\<close>

definition store_and_return :: "env \<Rightarrow> command \<Rightarrow> result \<Rightarrow> ('b, result) act" where
  "store_and_return E c r = bind (store_result E c r) (\<lambda>_. ret r)"

section \<open>Recovery\<close>

datatype recovery_action = A_RECONCILE | A_SUBMIT_SAFE | A_NONE

record recovery_item =
  ri_command_id :: string
  ri_trade_id :: string
  ri_state :: cmd_state
  ri_action :: recovery_action

definition recovery_action_of :: "cmd_state \<Rightarrow> recovery_action" where
  "recovery_action_of s =
     (if s \<in> {SUBMITTED, UNKNOWN} then A_RECONCILE
      else if s \<in> {CREATED, VALIDATED} then A_SUBMIT_SAFE else A_NONE)"

definition recover :: "journal \<Rightarrow> recovery_item list" where
  "recover j = map (\<lambda>s. \<lparr>ri_command_id = s_command_id s, ri_trade_id = s_trade_id s, ri_state = s_state s,
                          ri_action = recovery_action_of (s_state s)\<rparr>) (active_commands j)"

definition pending_reconciliation :: "journal \<Rightarrow> recovery_item list" where
  "pending_reconciliation j = filter (\<lambda>i. ri_action i = A_RECONCILE) (recover j)"

definition pending_reconciliation_ids :: "journal \<Rightarrow> string list" where
  "pending_reconciliation_ids j =
     map ri_command_id (filter (\<lambda>i. ri_action i = A_RECONCILE \<or> ri_action i = A_SUBMIT_SAFE) (recover j))"

section \<open>Plan to command\<close>

definition command_of_plan :: "trade_plan \<Rightarrow> string \<Rightarrow> string \<Rightarrow> command" where
  "command_of_plan p cid now =
     \<lparr>c_command_id = cid, c_trade_id = tp_trade_id p, c_symbol = tp_symbol p,
      c_direction = tp_direction p, c_volume = tp_lot p, c_entry_type = MARKET, c_sl = tp_sl p,
      c_created_at = now, c_expires_at = tp_expires_at p\<rparr>"

definition create_command :: "'b engine \<Rightarrow> trade_plan \<Rightarrow> ('b, command) act" where
  "create_command G p =
     (let E = eng_env G; failures = validate_plan E p in
      if failures \<noteq> [] then
        raise (ExecutionError INVALID_COMMAND (Lit ''TradePlan invalid: '' # join_ftext '', '' failures))
      else
        bind (now_us E) (\<lambda>now.
        if is_expired_plan E p now then
          raise (ExecutionError E_EXPIRED [Lit ''TradePlan expired; no command created''])
        else
          bind (gets (\<lambda>w. pending_reconciliation_ids (w_journal w))) (\<lambda>pending.
          if pending \<noteq> [] then
            raise (ExecutionError RECONCILIATION_PENDING
              [Lit ''fail-closed: new entries blocked until reconciliation completes''])
          else
            bind (new_command_id E) (\<lambda>cid.
            bind (now_iso E) (\<lambda>ts.
            let c = command_of_plan p cid ts in
            bind (write_stamp E) (\<lambda>(ts', ending).
            bind (on_journal (journal_create_command c ts' ending)) (\<lambda>_.
            bind (record_line E c ''COMMAND_CREATED'' CREATED []) (\<lambda>_.
            ret c))))))))"

section \<open>Stop-loss protection\<close>

definition sl_matches :: "position \<Rightarrow> command \<Rightarrow> bool" where
  \<comment> \<open>\<open>position.sl is not None and abs(position.sl - command.sl) < 1e-9\<close>\<close>
  "sl_matches pos c = (case p_sl pos of None \<Rightarrow> False
     | Some sl \<Rightarrow> flt (fabs (fsub sl (c_sl c))) (rnd (Fract 1 1000000000)))"

fun opt_float :: "pyfloat option \<Rightarrow> pyval" where
  "opt_float None = PNone"
| "opt_float (Some x) = PFloat x"

definition emergency_close :: "'b engine \<Rightarrow> command \<Rightarrow> string \<Rightarrow> ('b, result) act" where
  "emergency_close G c pid =
     (let E = eng_env G in
      bind (record_line E c ''EMERGENCY_CLOSE_REQUESTED'' MODIFYING
        [(''position_id'', PStr pid), (''reason'', PStr (exit_reason_value EMERGENCY_CLOSE))]) (\<lambda>_.
      bind (port_close (eng_ports G) c pid) (\<lambda>result.
      bind (record_line E c ''EMERGENCY_CLOSE_RESULT'' MODIFYING
        [(''result'', PDict (result_to_dict result))]) (\<lambda>_.
      if r_status result = R_CLOSED then
        bind (record_transition E c EV_CLOSED None
          [(''reason'', PStr (exit_reason_value EMERGENCY_CLOSE))]) (\<lambda>_.
        store_and_return E c result)
      else
        bind (record_transition E c EV_UNKNOWN None []) (\<lambda>_.
        bind (unknown_result E c EMERGENCY_CLOSE_FAILED ''emergency close failed; reconciliation required'')
          (store_and_return E c))))))"

text \<open>\<open>while attempts <= sl_attach_retries\<close>: \<open>left\<close> counts the attempts the budget still allows.\<close>

primrec attach_loop ::
  "'b engine \<Rightarrow> command \<Rightarrow> result \<Rightarrow> position \<Rightarrow> nat \<Rightarrow> nat \<Rightarrow> ('b, result) act" where
  "attach_loop G c result pos attempts 0 =
     bind (record_line (eng_env G) c ''SL_ATTACH_FAILED'' MODIFYING
       [(''attempts'', PInt (int attempts)), (''position_id'', PStr (p_position_id pos)),
        (''budget'', PInt (sl_attach_retries (exec_retry (eng_config G))))]) (\<lambda>_.
     emergency_close G c (p_position_id pos))"
| "attach_loop G c result pos attempts (Suc left) =
     bind (port_attach (eng_ports G) c (p_position_id pos) (c_sl c)) (\<lambda>attach_result.
     bind (record_line (eng_env G) c ''SL_ATTACH_RESULT'' MODIFYING
       [(''attempt'', PInt (int attempts)), (''result'', PDict (result_to_dict attach_result))]) (\<lambda>_.
     if r_sl_applied attach_result then
       bind (record_transition (eng_env G) c SL_ATTACHED None []) (\<lambda>_.
       bind (with_sl_confirmed (eng_env G) result) (store_and_return (eng_env G) c))
     else attach_loop G c result pos (Suc attempts) left))"

definition ensure_sl_protection :: "'b engine \<Rightarrow> command \<Rightarrow> result \<Rightarrow> ('b, result) act" where
  "ensure_sl_protection G c result =
     (let E = eng_env G in
      bind (port_position (eng_ports G) c) (\<lambda>position.
      case position of
        None \<Rightarrow>
          bind (record_transition E c EV_UNKNOWN None []) (\<lambda>_.
          bind (unknown_result E c AMBIGUOUS_RESPONSE ''fill reported but position not observable'')
            (store_and_return E c))
      | Some pos \<Rightarrow>
          if sl_matches pos c then
            bind (record_line E c ''SL_CONFIRMED'' FILLED
              [(''position_id'', PStr (p_position_id pos)), (''sl'', opt_float (p_sl pos))]) (\<lambda>_.
            bind (with_sl_confirmed E result) (store_and_return E c))
          else
            bind (record_transition E c SL_ATTACHING None []) (\<lambda>_.
            attach_loop G c result pos 0 (nat (sl_attach_retries (exec_retry (eng_config G)) + 1)))))"

definition post_fill :: "'b engine \<Rightarrow> command \<Rightarrow> result \<Rightarrow> ('b, result) act" where
  "post_fill G c result =
     (let E = eng_env G in
      bind (if r_status result = R_PARTIALLY_FILLED then
              bind (record_transition E c PARTIAL_FILL None []) (\<lambda>_.
              bind (record_line E c ''CANCEL_REMAINDER'' PARTIALLY_FILLED
                [(''requested_volume'', PFloat (c_volume c)),
                 (''filled_volume'', PFloat (r_filled_volume result)),
                 (''cancelled_volume'', PFloat (fround 8 (fsub (c_volume c) (r_filled_volume result)))),
                 (''policy'', PStr ''CANCEL_REMAINING''), (''second_order'', PBool False)]) (\<lambda>_.
              ret ()))
            else bind (record_transition E c FULL_FILL None []) (\<lambda>_. ret ())) (\<lambda>_.
      ensure_sl_protection G c result))"

section \<open>Reconciliation\<close>

definition result_for_discovered :: "'b engine \<Rightarrow> command \<Rightarrow> cmd_state \<Rightarrow> ('b, result) act" where
  "result_for_discovered G c st =
     (let E = eng_env G; cid = c_command_id c; tid = c_trade_id c in
      bind (now_iso E) (\<lambda>ts.
      if st = CLOSED then ret (result_closed cid tid ts None 0)
      else if st = REJECTED then
        ret (result_rejected cid tid ts (error_code_value BROKER_REJECT) ''reconciled to broker rejection'' 0 None)
      else if st = EXPIRED then ret (result_expired cid tid ts ''reconciled to broker expiry'')
      else if st = FAILED then
        ret (result_failed cid tid ts (error_code_value E_FAILED) ''reconciled to failure'')
      else
        unknown_result E c RECONCILIATION_PENDING (''cannot project discovered state '' @ cmd_state_value st)))"

text \<open>\<open>float(evidence.get(key, 0.0))\<close>; the \<open>TypeError\<close> or \<open>ValueError\<close> of \<open>float\<close> is one exception.\<close>

definition evidence_float :: "pydict \<Rightarrow> string \<Rightarrow> ('s, exec_exc, pyfloat) eff" where
  "evidence_float d k =
     (case py_float (dget_default d k (PFloat (Fin 0))) of None \<Rightarrow> raise PyTypeError | Some x \<Rightarrow> ret x)"

definition resolve_reconciliation ::
  "'b engine \<Rightarrow> command \<Rightarrow> outcome \<Rightarrow> cmd_state \<Rightarrow> result option \<Rightarrow> ('b, result) act" where
  \<comment> \<open>\<open>st\<close> is \<open>outcome.discovered_state\<close>, which the method asserts to be present\<close>
  "resolve_reconciliation G c out st hint =
     (let E = eng_env G in
      bind (record_transition E c RECONCILED (Some st) [(''evidence'', PDict (o_evidence out))]) (\<lambda>_.
      if st = FILLED \<or> st = PARTIALLY_FILLED then
        bind (case hint of
                Some h \<Rightarrow>
                  if r_status h = R_FILLED \<or> r_status h = R_PARTIALLY_FILLED then ret h
                  else
                    bind (now_iso E) (\<lambda>ts.
                    bind (evidence_float (o_evidence out) ''filled_volume'') (\<lambda>vol.
                    bind (evidence_float (o_evidence out) ''fill_price'') (\<lambda>price.
                    ret (result_filled (c_command_id c) (c_trade_id c) ts None 0 vol price False))))
              | None \<Rightarrow>
                  bind (now_iso E) (\<lambda>ts.
                  bind (evidence_float (o_evidence out) ''filled_volume'') (\<lambda>vol.
                  bind (evidence_float (o_evidence out) ''fill_price'') (\<lambda>price.
                  ret (result_filled (c_command_id c) (c_trade_id c) ts None 0 vol price False)))))
          (ensure_sl_protection G c)
      else if st = SUBMITTED then
        bind (record_line E c ''SUBMITTED_AFTER_RECONCILE'' SUBMITTED
          [(''evidence'', PDict (o_evidence out))]) (\<lambda>_.
        unknown_result E c AMBIGUOUS_RESPONSE ''order still pending at broker; continue monitoring'')
      else
        bind (result_for_discovered G c st) (store_and_return E c)))"

definition not_journaled :: exec_exc where
  "not_journaled = ExecutionError INVALID_COMMAND [Lit ''command not journaled; create_command first'']"

definition reconcile :: "'b engine \<Rightarrow> command \<Rightarrow> ('b, result) act" where
  "reconcile G c =
     (let E = eng_env G in
      bind (stored_command (c_command_id c)) (\<lambda>found.
      case found of
        None \<Rightarrow> raise not_journaled
      | Some stored \<Rightarrow>
          if s_state stored \<noteq> UNKNOWN then
            raise (ExecutionStateError
              [Lit (''reconciliation requires UNKNOWN, got '' @ cmd_state_value (s_state stored))])
          else
            bind (port_reconcile (eng_ports G) c None) (\<lambda>out.
            bind (record_line E c ''RECONCILIATION_QUERY'' UNKNOWN
              [(''outcome'', PDict (o_evidence out)), (''ambiguous'', PBool (o_ambiguous out))]) (\<lambda>_.
            case (if o_ambiguous out then None else o_discovered_state out) of
              None \<Rightarrow>
                bind (record_line E c ''RECONCILIATION_AMBIGUOUS'' UNKNOWN
                  [(''evidence'', PDict (o_evidence out))]) (\<lambda>_.
                bind (unknown_result E c RECONCILIATION_PENDING
                  ''reconciliation inconclusive; broker truth unreachable'') (\<lambda>fallback.
                bind (store_result E c fallback) (\<lambda>_.
                bind (gets (\<lambda>w. get_result (w_journal w) (c_command_id c))) (\<lambda>again.
                ret (case again of None \<Rightarrow> fallback | Some r \<Rightarrow> r)))))
            | Some st \<Rightarrow> resolve_reconciliation G c out st None))))"

section \<open>Submission\<close>

definition status_event :: "result_status \<Rightarrow> exec_event option" where
  "status_event st =
     (case st of R_REJECTED \<Rightarrow> Some EV_REJECTED | R_FAILED \<Rightarrow> Some EV_FAILED | R_EXPIRED \<Rightarrow> Some EXPIRE
      | _ \<Rightarrow> None)"

text \<open>The reconciliation between two attempts; \<open>again\<close> is the next iteration.\<close>

definition reconcile_then_retry ::
  "'b engine \<Rightarrow> command \<Rightarrow> result \<Rightarrow> ('b, result) act \<Rightarrow> ('b, result) act" where
  "reconcile_then_retry G c result again =
     (let E = eng_env G in
      bind (port_reconcile (eng_ports G) c (Some result)) (\<lambda>out.
      bind (current_state c) (\<lambda>cur.
      bind (record_line E c ''RECONCILE_AFTER_TIMEOUT'' cur [(''outcome'', PDict (o_evidence out))]) (\<lambda>_.
      if o_ambiguous out then
        bind (record_transition E c EV_UNKNOWN None []) (\<lambda>_.
        bind (unknown_result E c AMBIGUOUS_RESPONSE
          ''broker unreachable during reconciliation; command state unknown'') (store_and_return E c))
      else
        case o_discovered_state out of
          None \<Rightarrow> again
        | Some st \<Rightarrow>
            bind (record_transition E c EV_UNKNOWN None []) (\<lambda>_.
            resolve_reconciliation G c out st (Some result))))))"

text \<open>One iteration of \<open>while True\<close>; \<open>again\<close> is the next one while the retry budget lasts.\<close>

definition submit_attempt ::
  "'b engine \<Rightarrow> command \<Rightarrow> nat \<Rightarrow> ('b, result) act option \<Rightarrow> ('b, result) act" where
  "submit_attempt G c attempts again =
     (let E = eng_env G in
      bind (port_submit (eng_ports G) c) (\<lambda>result.
      bind (current_state c) (\<lambda>cur.
      bind (record_line E c ''EXECUTOR_RESULT'' cur
        [(''result'', PDict (result_to_dict result)), (''attempt'', PInt (int attempts))]) (\<lambda>_.
      if r_status result = R_FILLED \<or> r_status result = R_PARTIALLY_FILLED then post_fill G c result
      else case status_event (r_status result) of
        Some event \<Rightarrow>
          bind (record_transition E c event None [(''result'', PDict (result_to_dict result))]) (\<lambda>_.
          store_and_return E c result)
      | None \<Rightarrow>
          (let retry_class = classify_error (r_error_code result);
               give_up =
                 bind (record_transition E c EV_UNKNOWN None
                   [(''retry_class'', PStr (retry_class_value retry_class))]) (\<lambda>_.
                 store_and_return E c result)
           in case again of
                None \<Rightarrow> give_up
              | Some next \<Rightarrow>
                  if retry_class = SAFE then reconcile_then_retry G c result next else give_up)))))"

primrec submit_loop :: "'b engine \<Rightarrow> command \<Rightarrow> nat \<Rightarrow> nat \<Rightarrow> ('b, result) act" where
  "submit_loop G c attempts 0 = submit_attempt G c attempts None"
| "submit_loop G c attempts (Suc left) =
     submit_attempt G c attempts (Some (submit_loop G c (Suc attempts) left))"

text \<open>The validation and expiry gates of a command that is neither finished nor in flight.\<close>

definition submit_gates :: "'b engine \<Rightarrow> command \<Rightarrow> stored \<Rightarrow> ('b, result) act \<Rightarrow> ('b, result) act" where
  "submit_gates G c stored go =
     (let E = eng_env G; failures = validate_command E c in
      if failures \<noteq> [] then
        bind (record_transition E c VALIDATE_FAIL None [(''failures'', PList (map PStr failures))]) (\<lambda>_.
        bind (now_iso E) (\<lambda>ts.
        store_and_return E c
          (result_failed (c_command_id c) (c_trade_id c) ts (error_code_value INVALID_COMMAND)
            (join ''; '' failures))))
      else
        bind (if s_state stored = CREATED
              then bind (record_transition E c VALIDATE_OK None []) (\<lambda>_. ret ()) else ret ()) (\<lambda>_.
        bind (now_us E) (\<lambda>now.
        if is_expired_command E c now then
          bind (record_transition E c EXPIRE None []) (\<lambda>_.
          bind (now_iso E) (\<lambda>ts.
          store_and_return E c
            (result_expired (c_command_id c) (c_trade_id c) ts ''command expired'')))
        else
          bind (record_transition E c SUBMIT None []) (\<lambda>_. go))))"

definition submit :: "'b engine \<Rightarrow> command \<Rightarrow> ('b, result) act" where
  "submit G c =
     (let E = eng_env G in
      bind (stored_command (c_command_id c)) (\<lambda>found.
      case found of
        None \<Rightarrow> raise not_journaled
      | Some stored \<Rightarrow>
          (case s_result stored of
             Some r \<Rightarrow> ret r
           | None \<Rightarrow>
               if is_terminal_state (s_state stored) then
                 raise (ExecutionError DUPLICATE_COMMAND
                   [Lit (''command already terminal ('' @ cmd_state_value (s_state stored) @ '') without stored result'')])
               else if s_state stored = SUBMITTED \<or> s_state stored = UNKNOWN then
                 unknown_result E c AMBIGUOUS_RESPONSE
                   (''command is '' @ cmd_state_value (s_state stored) @ ''; reconciliation required before any action'')
               else submit_gates G c stored (submit_loop G c 0 (submit_budget G)))))"

section \<open>Close\<close>

primrec close_loop :: "'b engine \<Rightarrow> command \<Rightarrow> string \<Rightarrow> exit_reason \<Rightarrow> nat \<Rightarrow> nat \<Rightarrow> ('b, result) act" where
  "close_loop G c pid reason attempts 0 =
     bind (record_transition (eng_env G) c EV_UNKNOWN None [(''attempts'', PInt (int attempts))]) (\<lambda>_.
     bind (unknown_result (eng_env G) c AMBIGUOUS_RESPONSE
       (''close failed after '' @ show_nat attempts @ '' attempts; reconciliation required''))
       (store_and_return (eng_env G) c))"
| "close_loop G c pid reason attempts (Suc left) =
     bind (port_close (eng_ports G) c pid) (\<lambda>result.
     bind (current_state c) (\<lambda>cur.
     bind (record_line (eng_env G) c ''CLOSE_RESULT'' cur
       [(''attempt'', PInt (int attempts)), (''result'', PDict (result_to_dict result)),
        (''reason'', PStr (exit_reason_value reason))]) (\<lambda>_.
     if r_status result = R_CLOSED then
       bind (record_transition (eng_env G) c EV_CLOSED None [(''reason'', PStr (exit_reason_value reason))]) (\<lambda>_.
       store_and_return (eng_env G) c result)
     else close_loop G c pid reason (Suc attempts) left)))"

definition close :: "'b engine \<Rightarrow> command \<Rightarrow> string \<Rightarrow> exit_reason \<Rightarrow> ('b, result) act" where
  "close G c pid reason =
     bind (stored_command (c_command_id c)) (\<lambda>found.
     case found of
       None \<Rightarrow> raise not_journaled
     | Some stored \<Rightarrow>
         (case s_result stored of
            Some r \<Rightarrow>
              if r_status r = R_CLOSED then ret r
              else if s_state stored = UNKNOWN then
                raise (ExecutionError RECONCILIATION_PENDING [Lit ''command state unknown; reconcile before close''])
              else close_loop G c pid reason 0 (nat (close_retries (exec_retry (eng_config G)) + 1))
          | None \<Rightarrow>
              if s_state stored = UNKNOWN then
                raise (ExecutionError RECONCILIATION_PENDING [Lit ''command state unknown; reconcile before close''])
              else close_loop G c pid reason 0 (nat (close_retries (exec_retry (eng_config G)) + 1))))"

end
