(* ===== verification/ExecEngineProps.thy ===== *)
theory ExecEngineProps
  imports ExecEngine
begin

text \<open>
  Correctness of the execution engine over any executor that honours the boundary: the locale
  \<open>executor_contract\<close> states what the engine relies on (the boundary never touches the journal). Inside
  it, one triple per method shows that the journal stays well formed, that every audited history is a run
  of the lifecycle and that a stored result agrees with the journaled state (\<open>engine_ok\<close>), on every path
  including the raising ones. Two things break the agreement, and the triples say so: a write of the
  journal that fails between a transition and the result that goes with it (\<open>failed_ok\<close> keeps only the
  well-formedness then), and an executor that answers CLOSED to a submission, which the protocol does not
  rule out and the engine stores with the state UNKNOWN (\<open>submitted\<close>).
\<close>

section \<open>What the boundary promises\<close>

definition keeps_journal :: "'b world \<Rightarrow> 'b world \<Rightarrow> bool" where
  "keeps_journal w w' \<longleftrightarrow> w_journal w' = w_journal w"

definition ports_ok :: "'b ports \<Rightarrow> bool" where
  "ports_ok P \<longleftrightarrow>
     (\<forall>c. pres keeps_journal (port_submit P c)) \<and> (\<forall>c. pres keeps_journal (port_position P c))
     \<and> (\<forall>c pid sl. pres keeps_journal (port_attach P c pid sl))
     \<and> (\<forall>c pid. pres keeps_journal (port_close P c pid))
     \<and> (\<forall>c h. pres keeps_journal (port_reconcile P c h))"

text \<open>The \<open>Executor\<close> protocol does not say that a submission is never answered CLOSED. The simulated
  executor never does.\<close>

definition never_closes :: "'b ports \<Rightarrow> bool" where
  "never_closes P \<longleftrightarrow> (\<forall>c. post (port_submit P c) (\<lambda>r. r_status r \<noteq> R_CLOSED))"

locale executor_contract =
  fixes G :: "'b engine"
  assumes submit_journal: "pres keeps_journal (port_submit (eng_ports G) c)"
    and position_journal: "pres keeps_journal (port_position (eng_ports G) c)"
    and attach_journal: "pres keeps_journal (port_attach (eng_ports G) c pid sl)"
    and close_journal: "pres keeps_journal (port_close (eng_ports G) c pid)"
    and reconcile_journal: "pres keeps_journal (port_reconcile (eng_ports G) c h)"

lemma executor_contract_iff: "executor_contract G \<longleftrightarrow> ports_ok (eng_ports G)"
  by (simp add: executor_contract_def ports_ok_def)

lemma keeps_journal_preorder: "preorder_rel keeps_journal"
  by (simp add: preorder_rel_def keeps_journal_def)

section \<open>The invariant of the engine\<close>

text \<open>A result agrees with the journaled state: final statuses name the state, FILLED also has the
  stop loss confirmed, and a partial fill is never a final answer.\<close>

fun consistent :: "result_status \<Rightarrow> bool \<Rightarrow> cmd_state \<Rightarrow> bool" where
  "consistent R_FILLED sl st \<longleftrightarrow> st = FILLED \<and> sl"
| "consistent R_PARTIALLY_FILLED sl st \<longleftrightarrow> False"
| "consistent R_CLOSED sl st \<longleftrightarrow> st = CLOSED"
| "consistent R_REJECTED sl st \<longleftrightarrow> st = REJECTED"
| "consistent R_FAILED sl st \<longleftrightarrow> st = FAILED"
| "consistent R_EXPIRED sl st \<longleftrightarrow> st = EXPIRED"
| "consistent R_UNKNOWN sl st \<longleftrightarrow> True"

definition agrees :: "result \<Rightarrow> cmd_state \<Rightarrow> bool" where
  "agrees r st \<longleftrightarrow> consistent (r_status r) (r_sl_applied r) st"

definition results_agree :: "journal \<Rightarrow> bool" where
  "results_agree j \<longleftrightarrow> (\<forall>q \<in> set (j_commands j). \<forall>r.
     Option.bind (row_result q) result_from_dict = Some r \<longrightarrow> agrees r (row_state q))"

definition engine_ok :: "'b world \<Rightarrow> bool" where
  "engine_ok w \<longleftrightarrow> journal_ok (w_journal w) \<and> results_agree (w_journal w)"

text \<open>What holds when an operation raises: all of it, unless the exception is that of a failing journal.\<close>

definition failed_ok :: "exec_exc \<Rightarrow> 'b world \<Rightarrow> bool" where
  "failed_ok e w \<longleftrightarrow> journal_ok (w_journal w) \<and> (journal_failure e \<or> results_agree (w_journal w))"

lemma engine_ok_failed: "engine_ok w \<Longrightarrow> failed_ok e w"
  by (simp add: failed_ok_def engine_ok_def)

definition cur :: "command \<Rightarrow> 'b world \<Rightarrow> cmd_state option" where
  "cur c w = state_of (w_journal w) (c_command_id c)"

text \<open>No final result is stored for the command yet.\<close>

definition open_result :: "command \<Rightarrow> journal \<Rightarrow> bool" where
  "open_result c j \<longleftrightarrow> (case get_result j (c_command_id c) of None \<Rightarrow> True | Some r \<Rightarrow> r_status r = R_UNKNOWN)"

definition at_state :: "command \<Rightarrow> cmd_state \<Rightarrow> 'b world \<Rightarrow> bool" where
  "at_state c s w \<longleftrightarrow> engine_ok w \<and> cur c w = Some s"

definition open_at :: "command \<Rightarrow> cmd_state \<Rightarrow> 'b world \<Rightarrow> bool" where
  "open_at c s w \<longleftrightarrow> at_state c s w \<and> open_result c (w_journal w)"

text \<open>The result agrees with the state, and unless it is UNKNOWN it is the stored one.\<close>

definition answered :: "command \<Rightarrow> result \<Rightarrow> 'b world \<Rightarrow> bool" where
  "answered c r w \<longleftrightarrow> engine_ok w \<and> (\<exists>s. cur c w = Some s \<and> agrees r s)
     \<and> (r_status r \<noteq> R_UNKNOWN \<longrightarrow> get_result (w_journal w) (c_command_id c) = Some r)"

text \<open>The answer of a submission: as above, or a CLOSED that the executor itself answered, stored while the
  command is UNKNOWN.\<close>

definition submitted :: "'b engine \<Rightarrow> command \<Rightarrow> result \<Rightarrow> 'b world \<Rightarrow> bool" where
  "submitted G c r w \<longleftrightarrow> answered c r w \<or>
     (\<not> never_closes (eng_ports G) \<and> r_status r = R_CLOSED \<and> journal_ok (w_journal w)
      \<and> cur c w = Some UNKNOWN \<and> get_result (w_journal w) (c_command_id c) = Some r)"

lemmas inv_defs = failed_ok_def at_state_def open_at_def answered_def engine_ok_def cur_def

lemma agrees_unknown: "r_status r = R_UNKNOWN \<Longrightarrow> agrees r s"
  by (simp add: agrees_def)

lemma stored_row:
  assumes "journal_ok j" and "q \<in> set (j_commands j)"
  shows "get_result j (row_command_id q) = Option.bind (row_result q) result_from_dict"
proof -
  have "find_by row_command_id (row_command_id q) (j_commands j) = Some q"
    using assms by (simp add: journal_ok_def find_by_distinct)
  then show ?thesis by (simp add: get_result_def get_command_def row_to_stored_def)
qed

lemma results_agreeD:
  assumes "results_agree j" and "state_of j cid = Some s" and "get_result j cid = Some r"
  shows "agrees r s"
proof -
  obtain q where q: "find_by row_command_id cid (j_commands j) = Some q" and "row_state q = s"
    using assms(2) by (auto simp: state_of_def)
  moreover have "Option.bind (row_result q) result_from_dict = Some r"
    using q assms(3) by (simp add: get_result_def get_command_def row_to_stored_def)
  ultimately show ?thesis using assms(1) find_by_Some [OF q] by (auto simp: results_agree_def)
qed

lemma results_agreeI:
  assumes "journal_ok j"
    and "\<And>cid s r. state_of j cid = Some s \<Longrightarrow> get_result j cid = Some r \<Longrightarrow> agrees r s"
  shows "results_agree j"
  unfolding results_agree_def
proof (intro ballI allI impI)
  fix q r assume q: "q \<in> set (j_commands j)" and r: "Option.bind (row_result q) result_from_dict = Some r"
  show "agrees r (row_state q)"
    using assms(2) [OF row_state_of [OF assms(1) q]] stored_row [OF assms(1) q] r by simp
qed

lemma get_result_record:
  assumes "journal_record c et st p now x j = (Inr n, j')"
  shows "get_result j' cid = get_result j cid"
proof -
  have "find_by row_command_id cid (j_commands j')
        = map_option (set_row_state (c_command_id c) st now) (find_by row_command_id cid (j_commands j))"
    unfolding journal_record_log(3) [OF assms] by (rule find_by_map) simp
  then show ?thesis
    by (cases "find_by row_command_id cid (j_commands j)")
      (simp_all add: get_result_def get_command_def row_to_stored_def)
qed

section \<open>Triples of the journal operations\<close>

lemma record_line_cases:
  assumes "record_line E c et st p w = (r, w')"
  shows "(\<exists>e. r = Inl e \<and> w_journal w' = w_journal w)
    \<or> (\<exists>e n ts. r = Inl e \<and> journal_failure e
          \<and> journal_record c et st p ts Committed (w_journal w) = (Inr n, w_journal w'))
    \<or> (\<exists>n ts. r = Inr n \<and> journal_record c et st p ts Committed (w_journal w) = (Inr n, w_journal w'))"
proof -
  obtain x j where x: "journal_record c et st p (clock_text E (w_clock w)) (write_end E (w_clock w)) (w_journal w) = (x, j)"
    by fastforce
  then have r: "r = x" "w_journal w' = j"
    using assms by (auto simp: record_line_def bind_def write_stamp_def on_journal_def)
  show ?thesis
  proof (cases x)
    case (Inl e)
    then show ?thesis using journal_record_error x r by blast
  next
    case (Inr n)
    then show ?thesis using journal_record_log(5) x r by fastforce
  qed
qed

lemma at_state_record:
  assumes "at_state c s w" and "legal_move s t" and "open_result c (w_journal w) \<or> t = s"
    and "journal_record c et t p ts x (w_journal w) = (Inr n, w_journal w')"
  shows "at_state c t w'" and "open_result c (w_journal w) \<Longrightarrow> open_at c t w'"
proof -
  have jok: "journal_ok (w_journal w)" and st: "state_of (w_journal w) (c_command_id c) = Some s"
    and ra: "results_agree (w_journal w)"
    using assms(1) by (auto simp: inv_defs)
  note jok' = journal_record_ok [OF jok st assms(2) assms(4)]
  note st' = state_of_record [OF assms(4)] and res = get_result_record [OF assms(4)]
  have "results_agree (w_journal w')"
  proof (rule results_agreeI [OF jok'])
    fix cid u r assume u: "state_of (w_journal w') cid = Some u" and r: "get_result (w_journal w') cid = Some r"
    show "agrees r u"
    proof (cases "cid = c_command_id c \<and> t \<noteq> s")
      case True
      then show ?thesis using assms(3) r res by (simp add: open_result_def agrees_unknown)
    next
      case False
      then have "state_of (w_journal w) cid = Some u" using u st st' by (auto split: if_splits)
      then show ?thesis using results_agreeD [OF ra] r res by simp
    qed
  qed
  then show 1: "at_state c t w'" using jok' st' st by (simp add: inv_defs)
  show "open_at c t w'" if "open_result c (w_journal w)"
    using that 1 res by (simp add: open_at_def open_result_def)
qed

lemma triple_record_line [hoare_rules]:
  assumes "legal_move s t"
  shows "triple (open_at c s) (record_line E c et t p) (\<lambda>_. open_at c t) failed_ok"
proof (rule tripleI)
  fix w e w' assume w: "open_at c s w" and "record_line E c et t p w = (Inl e, w')"
  then consider "w_journal w' = w_journal w"
    | n ts where "journal_record c et t p ts Committed (w_journal w) = (Inr n, w_journal w')"
    using record_line_cases by blast
  then show "failed_ok e w'"
  proof cases
    case 1
    then show ?thesis using w by (simp add: inv_defs)
  next
    case 2
    then show ?thesis using at_state_record(1) [OF _ assms _ 2] w by (simp add: inv_defs)
  qed
next
  fix w n w' assume w: "open_at c s w" and "record_line E c et t p w = (Inr n, w')"
  then obtain ts where rec: "journal_record c et t p ts Committed (w_journal w) = (Inr n, w_journal w')"
    using record_line_cases by blast
  have "at_state c s w" "open_result c (w_journal w)" using w by (simp_all add: open_at_def)
  then show "open_at c t w'" using at_state_record(2) [OF _ assms _ rec] by blast
qed

lemma triple_record_same:
  shows "triple (at_state c s) (record_line E c et s p) (\<lambda>_. at_state c s) failed_ok"
proof (rule tripleI)
  fix w e w' assume w: "at_state c s w" and "record_line E c et s p w = (Inl e, w')"
  then consider "w_journal w' = w_journal w"
    | n ts where "journal_record c et s p ts Committed (w_journal w) = (Inr n, w_journal w')"
    using record_line_cases by blast
  then show "failed_ok e w'"
  proof cases
    case 1
    then show ?thesis using w by (simp add: inv_defs)
  next
    case 2
    then show ?thesis using at_state_record(1) [OF w legal_move_refl _ 2] by (simp add: inv_defs)
  qed
next
  fix w n w' assume w: "at_state c s w" and "record_line E c et s p w = (Inr n, w')"
  then obtain ts where "journal_record c et s p ts Committed (w_journal w) = (Inr n, w_journal w')"
    using record_line_cases by blast
  then show "at_state c s w'" using at_state_record(1) [OF w legal_move_refl] by simp
qed

text \<open>Between a transition and the store of the result that goes with it, the stored results of
  the other commands agree.\<close>

definition loose_at :: "command \<Rightarrow> cmd_state \<Rightarrow> 'b world \<Rightarrow> bool" where
  "loose_at c s w \<longleftrightarrow> journal_ok (w_journal w) \<and> cur c w = Some s
     \<and> (\<forall>cid u r. cid \<noteq> c_command_id c \<longrightarrow> state_of (w_journal w) cid = Some u \<longrightarrow>
          get_result (w_journal w) cid = Some r \<longrightarrow> agrees r u)"

lemma open_at_loose: "open_at c s w \<Longrightarrow> loose_at c s w"
  by (auto simp: loose_at_def inv_defs dest: results_agreeD)

lemma open_at_engine_ok: "open_at c s w \<Longrightarrow> engine_ok w"
  by (simp add: inv_defs)

lemma open_at_failed: "open_at c s w \<Longrightarrow> failed_ok e w"
  by (simp add: inv_defs)

lemma triple_store_fails: "triple (loose_at c s) (store_and_return E c r) (\<lambda>_ _. True) failed_ok"
proof (rule tripleI)
  fix w e w' assume w: "loose_at c s w" and "store_and_return E c r w = (Inl e, w')"
  then have "w_journal w' = w_journal w \<and> journal_failure e"
    by (auto simp: store_and_return_def store_result_def bind_def write_stamp_def on_journal_def ret_def
      dest!: journal_store_error split: prod.splits sum.splits)
  then show "failed_ok e w'" using w by (simp add: failed_ok_def loose_at_def)
qed simp

lemma triple_store_loose:
  assumes agr: "agrees r s"
  shows "triple (loose_at c s) (store_and_return E c r) (answered c) failed_ok"
proof (rule tripleI)
  fix w e w' assume "loose_at c s w" and "store_and_return E c r w = (Inl e, w')"
  then show "failed_ok e w'" using triple_Inl [OF triple_store_fails] by blast
next
  fix w x w' assume w: "loose_at c s w" and run: "store_and_return E c r w = (Inr x, w')"
  define j where "j = w_journal w"
  define j' where "j' = snd (journal_store_result c r (clock_text E (w_clock w)) Committed j)"
  have x: "x = r" and w': "w_journal w' = j'"
    using run by (auto simp: store_and_return_def store_result_def bind_def write_stamp_def on_journal_def
      journal_store_result_def ret_def j_def j'_def split: write_outcome.splits)
  have jok: "journal_ok j'" using w by (simp add: j'_def j_def loose_at_def journal_store_result_ok)
  have st: "state_of j' cid = state_of j cid" for cid
    by (simp add: j'_def state_of_store_result)
  have cs: "state_of j (c_command_id c) = Some s" using w by (simp add: loose_at_def cur_def j_def)
  have res: "get_result j' cid = (if cid = c_command_id c then Some r else get_result j cid)"
    if "state_of j cid \<noteq> None" for cid
    using get_result_store [OF that] by (simp add: j'_def)
  have "results_agree j'"
  proof (rule results_agreeI [OF jok])
    fix cid u q assume u: "state_of j' cid = Some u" and q: "get_result j' cid = Some q"
    then have u': "state_of j cid = Some u" by (simp add: st)
    show "agrees q u"
    proof (cases "cid = c_command_id c")
      case True
      then show ?thesis using u' q res cs agr by auto
    next
      case False
      then show ?thesis using w u' q res by (simp add: loose_at_def j_def)
    qed
  qed
  then show "answered c x w'"
    using jok st cs agr res by (auto simp: answered_def engine_ok_def cur_def w' x)
qed

lemma triple_store [hoare_rules]:
  "agrees r s \<Longrightarrow> triple (open_at c s) (store_and_return E c r) (answered c) failed_ok"
  by (rule triple_pre [OF triple_store_loose]) (auto intro: open_at_loose)

lemma triple_keeps:
  assumes "pres keeps_journal m" and "\<And>w w'. w_journal w' = w_journal w \<Longrightarrow> Q w \<Longrightarrow> Q w'"
    and "\<And>e w. Q w \<Longrightarrow> E e w" and "post m F"
    and "\<And>e w w'. w_journal w' = w_journal w \<Longrightarrow> E e w \<Longrightarrow> E e w'"
  shows "triple Q m (\<lambda>x w. Q w \<and> F x) E"
proof (rule tripleI)
  fix s e s' assume "Q s" and m: "m s = (Inl e, s')"
  then have "w_journal s' = w_journal s" using presD [OF assms(1) m] by (simp add: keeps_journal_def)
  then show "E e s'" using assms(2,3) \<open>Q s\<close> by blast
next
  fix s x s' assume "Q s" and m: "m s = (Inr x, s')"
  then have "w_journal s' = w_journal s" using presD [OF assms(1) m] by (simp add: keeps_journal_def)
  then show "Q s' \<and> F x" using assms(2) \<open>Q s\<close> postD [OF assms(4) m] by blast
qed

lemma inv_journal_only:
  "w_journal w' = w_journal w \<Longrightarrow> open_at c s w \<Longrightarrow> open_at c s w'"
  "w_journal w' = w_journal w \<Longrightarrow> at_state c s w \<Longrightarrow> at_state c s w'"
  "w_journal w' = w_journal w \<Longrightarrow> loose_at c s w \<Longrightarrow> loose_at c s w'"
  "w_journal w' = w_journal w \<Longrightarrow> engine_ok w \<Longrightarrow> engine_ok w'"
  "w_journal w' = w_journal w \<Longrightarrow> failed_ok e w \<Longrightarrow> failed_ok e w'"
  by (simp_all add: inv_defs loose_at_def)

lemma triple_port:
  assumes "pres keeps_journal m" and "post m F"
  shows "triple (open_at c s) m (\<lambda>x w. open_at c s w \<and> F x) failed_ok"
    and "triple (at_state c s) m (\<lambda>x w. at_state c s w \<and> F x) failed_ok"
  by (rule triple_keeps [OF assms(1) _ _ assms(2)]; (erule (1) inv_journal_only)?; simp add: inv_defs)+

lemma post_True: "post m (\<lambda>_. True)"
  by (simp add: post_def)

lemmas triple_port_any = triple_port [OF _ post_True, simplified]

lemma keeps_now [pres_rules]: "pres keeps_journal (now_iso E)" "pres keeps_journal (now_us E)"
  "pres keeps_journal (write_stamp E)"
  by (simp_all add: pres_def keeps_journal_def now_iso_def now_us_def write_stamp_def)

lemma keeps_unknown_result [pres_rules]: "pres keeps_journal (unknown_result E c code msg)"
  unfolding unknown_result_def by (intro pres_rules keeps_journal_preorder)

lemma keeps_with_sl_confirmed [pres_rules]: "pres keeps_journal (with_sl_confirmed E r)"
  unfolding with_sl_confirmed_def by (intro pres_rules keeps_journal_preorder)

lemma post_unknown_result: "post (unknown_result E c code msg) (\<lambda>r. r_status r = R_UNKNOWN)"
  unfolding unknown_result_def by (intro post_rules) (simp add: result_defs)

lemma post_with_sl_confirmed: "post (with_sl_confirmed E r) (\<lambda>r. agrees r FILLED)"
  unfolding with_sl_confirmed_def by (intro post_rules) (simp add: result_defs agrees_def)

lemma triple_unknown_store:
  "triple (loose_at c s) (bind (unknown_result E c code msg) (store_and_return E c)) (answered c) failed_ok"
proof (rule triple_bind)
  have "triple (loose_at c s) (unknown_result E c code msg)
      (\<lambda>r w. loose_at c s w \<and> r_status r = R_UNKNOWN) (\<lambda>_ _. True)"
    by (rule triple_keeps [OF keeps_unknown_result _ _ post_unknown_result])
      (auto intro: inv_journal_only)
  then show "triple (loose_at c s) (unknown_result E c code msg)
      (\<lambda>r w. loose_at c s w \<and> r_status r = R_UNKNOWN) failed_ok"
    by (simp add: triple_def unknown_result_def bind_def now_iso_def ret_def)
next
  fix r :: result
  show "triple (\<lambda>w. loose_at c s w \<and> r_status r = R_UNKNOWN) (store_and_return E c r) (answered c) failed_ok"
    by (rule triple_pure) (rule triple_store_loose, simp add: agrees_unknown)
qed

section \<open>Triples of the transitions\<close>

lemma current_state_at: "cur c w = Some s \<Longrightarrow> current_state c w = (Inr s, w)"
  using get_command_state [of "w_journal w" "c_command_id c"]
  by (auto simp: current_state_def gets_def cur_def)

lemma triple_current_state:
  "triple (open_at c s) (current_state c) (\<lambda>x w. open_at c s w \<and> x = s) E"
  "triple (at_state c s) (current_state c) (\<lambda>x w. at_state c s w \<and> x = s) E"
  by (auto simp: triple_def inv_defs current_state_at)

lemma record_transition_run:
  assumes "cur c w = Some s"
  shows "record_transition E c ev tgt p w =
    (case transition s ev tgt of Inl e \<Rightarrow> (Inl e, w)
     | Inr t \<Rightarrow> bind (record_line E c (exec_event_value ev) t p) (\<lambda>_. ret t) w)"
  using current_state_at [OF assms]
  by (simp add: record_transition_def bind_Inr of_sum_def raise_def ret_def bind_def split: sum.splits)

lemma triple_transition:
  "triple (open_at c s) (record_transition E c ev tgt p)
     (\<lambda>t w. open_at c t w \<and> transition s ev tgt = Inr t) failed_ok"
proof (cases "transition s ev tgt")
  case (Inl e)
  have "triple (open_at c s) (raise e)
     (\<lambda>t w. open_at c t w \<and> transition s ev tgt = Inr t) failed_ok"
    by (intro hoare_rules) (erule open_at_failed)
  then show ?thesis
    by (simp add: triple_def record_transition_run Inl raise_def open_at_def at_state_def)
next
  case (Inr t)
  have "triple (open_at c s) (bind (record_line E c (exec_event_value ev) t p) (\<lambda>_. ret t))
     (\<lambda>x w. open_at c x w \<and> transition s ev tgt = Inr x) failed_ok"
    by (rule triple_bind [OF triple_record_line [OF legal_move_transition [OF Inr]]])
      (rule triple_ret, simp add: Inr)
  then show ?thesis
    by (simp add: triple_def record_transition_run Inr open_at_def at_state_def)
qed

text \<open>From a state where a final result may be stored: the transition and the store together.\<close>

lemma triple_transition_then:
  assumes "\<And>t. transition s ev tgt = Inr t \<Longrightarrow> triple (loose_at c t) (k t) (answered c) failed_ok"
  shows "triple (at_state c s) (bind (record_transition E c ev tgt p) k) (answered c) failed_ok"
proof (rule triple_bind)
  have "\<exists>t. transition s ev tgt = Inr t \<and> x = t \<and> loose_at c t w'"
    if w: "at_state c s w" and run: "record_transition E c ev tgt p w = (Inr x, w')" for w x w'
  proof -
    have c: "cur c w = Some s" using w by (simp add: at_state_def)
    obtain t where t: "transition s ev tgt = Inr t" and
      r: "bind (record_line E c (exec_event_value ev) t p) (\<lambda>_. ret t) w = (Inr x, w')"
      using run record_transition_run [OF c, of E ev tgt p] by (auto split: sum.splits)
    then obtain n where n: "record_line E c (exec_event_value ev) t p w = (Inr n, w')" and "x = t"
      by (auto simp: bind_def ret_def split: prod.splits sum.splits)
    then obtain ts where j: "journal_record c (exec_event_value ev) t p ts Committed (w_journal w) = (Inr n, w_journal w')"
      using record_line_cases by blast
    have "loose_at c t w'"
      using w journal_record_ok [OF _ _ legal_move_transition [OF t] j] state_of_record [OF j]
        get_result_record [OF j]
      by (auto simp: loose_at_def inv_defs dest: results_agreeD)
    then show ?thesis using t \<open>x = t\<close> by blast
  qed
  moreover have "failed_ok e w'"
    if w: "at_state c s w" and run: "record_transition E c ev tgt p w = (Inl e, w')" for w e w'
  proof -
    have c: "cur c w = Some s" using w by (simp add: at_state_def)
    show ?thesis
    proof (cases "transition s ev tgt")
      case (Inl x)
      then show ?thesis using run w record_transition_run [OF c, of E ev tgt p] by (simp add: inv_defs)
    next
      case (Inr t)
      then have "record_line E c (exec_event_value ev) t p w = (Inl e, w')"
        using run record_transition_run [OF c, of E ev tgt p]
        by (auto simp: bind_def ret_def split: sum.splits prod.splits)
      then consider "w_journal w' = w_journal w"
        | n ts where "journal_failure e"
            "journal_record c (exec_event_value ev) t p ts Committed (w_journal w) = (Inr n, w_journal w')"
        using record_line_cases by blast
      then show ?thesis
      proof cases
        case 1
        then show ?thesis using w by (simp add: inv_defs)
      next
        case 2
        then show ?thesis
          using journal_record_ok [OF _ _ legal_move_transition [OF Inr] 2(2)] w by (auto simp: inv_defs)
      qed
    qed
  qed
  ultimately show "triple (at_state c s) (record_transition E c ev tgt p)
      (\<lambda>x w. loose_at c x w \<and> transition s ev tgt = Inr x) failed_ok"
    by (intro tripleI) blast+
next
  fix x
  show "triple (\<lambda>w. loose_at c x w \<and> transition s ev tgt = Inr x) (k x) (answered c) failed_ok"
    by (rule triple_pure) (rule assms)
qed

lemma triple_transition_loose:
  "triple (open_at c s) (record_transition E c ev tgt p)
     (\<lambda>t w. loose_at c t w \<and> transition s ev tgt = Inr t) failed_ok"
  by (rule triple_conseq [OF triple_transition]) (auto intro: open_at_loose)

text \<open>The transition to UNKNOWN with its UNKNOWN result.\<close>

lemma triple_give_up:
  "triple (open_at c s)
     (bind (record_transition E c ev tgt p) (\<lambda>_. bind (unknown_result E c code msg) (store_and_return E c)))
     (answered c) failed_ok"
  by (rule triple_bind [OF triple_transition_loose]) (rule triple_pure, rule triple_unknown_store)

lemma triple_transition_store:
  assumes "\<And>t. transition s ev tgt = Inr t \<Longrightarrow> agrees r t"
  shows "triple (open_at c s)
     (bind (record_transition E c ev tgt p) (\<lambda>_. store_and_return E c r)) (answered c) failed_ok"
  by (rule triple_bind [OF triple_transition_loose]) (rule triple_pure, rule triple_store_loose, erule assms)

lemma transition_known:
  "transition s EV_CLOSED tgt = Inr t \<Longrightarrow> t = CLOSED"
  "transition s EV_UNKNOWN tgt = Inr t \<Longrightarrow> t = UNKNOWN"
  "transition s SL_ATTACHED tgt = Inr t \<Longrightarrow> t = FILLED"
  "transition s SL_ATTACHING tgt = Inr t \<Longrightarrow> t = MODIFYING"
  "transition s PARTIAL_FILL tgt = Inr t \<Longrightarrow> t = PARTIALLY_FILLED"
  "transition s FULL_FILL tgt = Inr t \<Longrightarrow> t = FILLED"
  "transition s EV_REJECTED tgt = Inr t \<Longrightarrow> t = REJECTED"
  "transition s EV_FAILED tgt = Inr t \<Longrightarrow> t = FAILED"
  "transition s EXPIRE tgt = Inr t \<Longrightarrow> t = EXPIRED"
  "transition s VALIDATE_FAIL tgt = Inr t \<Longrightarrow> t = FAILED"
  "transition s VALIDATE_OK tgt = Inr t \<Longrightarrow> t = VALIDATED"
  "transition s SUBMIT tgt = Inr t \<Longrightarrow> t = SUBMITTED"
  "transition s RECONCILED tgt = Inr t \<Longrightarrow> s = UNKNOWN \<and> tgt = Some t \<and> t \<notin> {CREATED, VALIDATED, UNKNOWN}"
  by (auto simp: transition_iff_step exec_step_iff)

text \<open>Rules for a statement followed by the rest of the method.\<close>

lemma bind_line:
  assumes "legal_move s t" and "\<And>n. triple (open_at c t) (k n) Q failed_ok"
  shows "triple (open_at c s) (bind (record_line E c et t p) k) Q failed_ok"
  by (rule triple_bind [OF triple_record_line [OF assms(1)]]) (rule assms(2))

lemma bind_transition:
  assumes "\<And>t. transition s ev tgt = Inr t \<Longrightarrow> triple (open_at c t) (k t) Q failed_ok"
  shows "triple (open_at c s) (bind (record_transition E c ev tgt p) k) Q failed_ok"
  by (rule triple_bind [OF triple_transition], rule triple_pure) (rule assms)

lemma bind_current:
  assumes "triple (open_at c s) (k s) Q failed_ok"
  shows "triple (open_at c s) (bind (current_state c) k) Q failed_ok"
  by (rule triple_bind [OF triple_current_state(1)], rule triple_pure) (simp add: assms)

lemma bind_now:
  assumes "\<And>x. triple (open_at c s) (k x) Q failed_ok"
  shows "triple (open_at c s) (bind (now_iso E) k) Q failed_ok"
  by (rule triple_bind [OF triple_port_any(1) [OF keeps_now(1)]]) (rule assms)

lemma bind_now_us:
  assumes "\<And>x. triple (open_at c s) (k x) Q failed_ok"
  shows "triple (open_at c s) (bind (now_us E) k) Q failed_ok"
  by (rule triple_bind [OF triple_port_any(1) [OF keeps_now(2)]]) (rule assms)

lemma triple_confirmed:
  "triple (open_at c FILLED) (bind (with_sl_confirmed E r) (store_and_return E c)) (answered c) failed_ok"
  by (rule triple_bind [OF triple_port(1) [OF keeps_with_sl_confirmed post_with_sl_confirmed]],
      rule triple_pure) (rule triple_store)

text \<open>Starting a method: what the stored command says about the invariant.\<close>

lemma bind_stored:
  assumes "triple (\<lambda>w. engine_ok w \<and> get_command (w_journal w) cid = None) (k None) Q E"
    and "\<And>stored. triple (\<lambda>w. engine_ok w \<and> get_command (w_journal w) cid = Some stored) (k (Some stored)) Q E"
  shows "triple engine_ok (bind (stored_command cid) k) Q E"
proof (rule triple_bind)
  show "triple engine_ok (stored_command cid)
      (\<lambda>x w. engine_ok w \<and> get_command (w_journal w) cid = x) E"
    by (simp add: triple_def stored_command_def gets_def)
  show "triple (\<lambda>w. engine_ok w \<and> get_command (w_journal w) cid = x) (k x) Q E" for x
    using assms by (cases x) auto
qed

lemma stored_inv:
  assumes "engine_ok w" and "get_command (w_journal w) (c_command_id c) = Some stored"
  shows "at_state c (s_state stored) w"
    and "s_result stored = None \<or> s_state stored = UNKNOWN \<Longrightarrow> open_at c (s_state stored) w"
proof -
  have st: "state_of (w_journal w) (c_command_id c) = Some (s_state stored)"
    using assms(2) by (rule get_command_Some_state)
  then show 1: "at_state c (s_state stored) w" using assms(1) by (simp add: at_state_def cur_def)
  have "r_status r = R_UNKNOWN" if "s_state stored = UNKNOWN" "s_result stored = Some r" for r
    using results_agreeD [OF _ st, of r] assms that
    by (cases "r_status r") (auto simp: engine_ok_def get_result_def agrees_def)
  then show "open_at c (s_state stored) w" if "s_result stored = None \<or> s_state stored = UNKNOWN"
    using that 1 assms(2) by (auto simp: open_at_def open_result_def get_result_def split: option.splits)
qed

lemma stored_unknown:
  "engine_ok w \<Longrightarrow> get_command (w_journal w) (c_command_id c) = Some stored \<Longrightarrow> s_state stored = UNKNOWN \<Longrightarrow>
   open_at c UNKNOWN w"
  using stored_inv(2) by fastforce

lemma stored_replay:
  assumes "engine_ok w" and "get_command (w_journal w) (c_command_id c) = Some stored"
    and "s_result stored = Some r"
  shows "answered c r w"
proof -
  have res: "get_result (w_journal w) (c_command_id c) = Some r"
    using assms(2,3) by (simp add: get_result_def)
  have st: "state_of (w_journal w) (c_command_id c) = Some (s_state stored)"
    using assms(2) by (rule get_command_Some_state)
  show ?thesis
    using assms(1) res st results_agreeD [OF _ st res] by (auto simp: answered_def engine_ok_def cur_def)
qed

lemma triple_unknown:
  "triple (open_at c s) (unknown_result E c code msg) (answered c) failed_ok"
  by (rule triple_conseq [OF triple_port(1) [OF keeps_unknown_result post_unknown_result]])
    (auto simp: inv_defs agrees_unknown)

lemma store_then_read_eq:
  assumes "open_at c s w"
  shows "bind (store_result E c r) (\<lambda>_.
      bind (gets (\<lambda>w. get_result (w_journal w) (c_command_id c))) (\<lambda>again.
      ret (case again of None \<Rightarrow> r | Some r \<Rightarrow> r))) w = store_and_return E c r w"
proof -
  have "state_of (w_journal w) (c_command_id c) \<noteq> None" using assms by (simp add: inv_defs)
  from get_result_store [OF this, of c r "clock_text E (w_clock w)"] show ?thesis
    by (cases "write_end E (w_clock w)")
      (simp_all add: store_and_return_def store_result_def bind_def write_stamp_def on_journal_def ret_def gets_def
        journal_store_result_def)
qed

lemma triple_cong: "(\<And>s. P s \<Longrightarrow> m s = n s) \<Longrightarrow> triple P n Q E \<Longrightarrow> triple P m Q E"
  by (auto simp: triple_def)

lemma triple_split: "(\<And>x y. z = (x, y) \<Longrightarrow> triple P (f x y) Q E) \<Longrightarrow> triple P (case z of (x, y) \<Rightarrow> f x y) Q E"
  by (cases z) simp

text \<open>The executor's own CLOSED, stored with the state UNKNOWN.\<close>

lemma triple_store_closed:
  fixes G :: "'a engine"
  assumes "r_status r = R_CLOSED" and "\<not> never_closes (eng_ports G)"
  shows "triple (loose_at c UNKNOWN) (store_and_return E c r) (submitted G c) failed_ok"
proof (rule tripleI)
  fix w :: "'a world" and e w' assume w: "loose_at c UNKNOWN w" and "store_and_return E c r w = (Inl e, w')"
  then show "failed_ok e w'"
    using triple_Inl [OF triple_store_fails] by blast
next
  fix w :: "'a world" and x w' assume w: "loose_at c UNKNOWN w" and run: "store_and_return E c r w = (Inr x, w')"
  define j' where "j' = snd (journal_store_result c r (clock_text E (w_clock w)) Committed (w_journal w))"
  have x: "x = r" and w': "w_journal w' = j'"
    using run by (auto simp: store_and_return_def store_result_def bind_def write_stamp_def on_journal_def
      journal_store_result_def ret_def j'_def split: write_outcome.splits)
  have "state_of (w_journal w) (c_command_id c) = Some UNKNOWN" using w by (simp add: loose_at_def cur_def)
  then show "submitted G c x w'"
    using w assms get_result_store [of "w_journal w" "c_command_id c" c r]
    by (simp add: submitted_def cur_def w' x j'_def state_of_store_result journal_store_result_ok loose_at_def)
qed

lemma triple_engine_ok:
  "triple engine_ok (now_us E) (\<lambda>_. engine_ok) failed_ok"
  "triple engine_ok (gets f) (\<lambda>_. engine_ok) failed_ok"
  "triple engine_ok (new_command_id E) (\<lambda>_. engine_ok) failed_ok"
  "triple engine_ok (now_iso E) (\<lambda>_. engine_ok) failed_ok"
  "triple engine_ok (write_stamp E) (\<lambda>_. engine_ok) failed_ok"
  by (simp_all add: triple_def now_us_def gets_def new_command_id_def now_iso_def write_stamp_def engine_ok_def)

lemma triple_journal_create:
  "triple engine_ok (on_journal (journal_create_command c ts x)) (\<lambda>_. open_at c CREATED) failed_ok"
proof (rule tripleI)
  fix w e w' assume "engine_ok w" and "on_journal (journal_create_command c ts x) w = (Inl e, w')"
  then show "failed_ok e w'"
    using journal_create_error by (fastforce simp: on_journal_def inv_defs split: prod.splits)
next
  fix w w' and y :: unit
  assume w: "engine_ok w" and "on_journal (journal_create_command c ts x) w = (Inr y, w')"
  then have run: "journal_create_command c ts x (w_journal w) = (Inr (), w_journal w')"
    by (auto simp: on_journal_def split: prod.splits)
  note new = create_command_rows [OF run]
  have jok: "journal_ok (w_journal w')" using create_command_ok [OF _ run] w by (simp add: engine_ok_def)
  have none: "find_by row_command_id (c_command_id c) (j_commands (w_journal w)) = None"
    using new(1) by (simp add: find_by_None)
  have "state_of (w_journal w') (c_command_id c) = Some CREATED"
    "get_result (w_journal w') (c_command_id c) = None"
    using new(4) none
    by (auto simp: state_of_def get_result_def get_command_def find_by_append find_by_Cons row_to_stored_def)
  moreover have "results_agree (w_journal w')"
    using w new(4) by (auto simp: results_agree_def engine_ok_def)
  ultimately show "open_at c CREATED w'"
    using jok by (simp add: inv_defs open_result_def)
qed

section \<open>The methods keep the invariant\<close>

context executor_contract
begin

lemmas bind_ports =
  triple_bind [OF triple_port_any(1) [OF submit_journal]]
  triple_bind [OF triple_port_any(1) [OF position_journal]]
  triple_bind [OF triple_port_any(1) [OF attach_journal]]
  triple_bind [OF triple_port_any(1) [OF close_journal]]
  triple_bind [OF triple_port_any(1) [OF reconcile_journal]]

lemma emergency_close_triple:
  "triple (open_at c MODIFYING) (emergency_close G c pid) (answered c) failed_ok"
  unfolding emergency_close_def Let_def
  by (intro bind_line bind_ports legal_move_refl triple_if triple_give_up triple_transition_store)
    (auto dest!: transition_known simp: agrees_def)

lemma attach_loop_triple:
  "triple (open_at c MODIFYING) (attach_loop G c r pos n k) (answered c) failed_ok"
proof (induction k arbitrary: n)
  case 0
  show ?case by simp (intro bind_line legal_move_refl emergency_close_triple)
next
  case (Suc k)
  show ?case
    by simp (intro bind_line bind_ports legal_move_refl triple_if bind_transition Suc.IH,
        drule transition_known, simp add: triple_confirmed)
qed

lemma ensure_sl_protection_triple:
  assumes "s = FILLED \<or> s = PARTIALLY_FILLED"
  shows "triple (open_at c s) (ensure_sl_protection G c r) (answered c) failed_ok"
proof -
  have legal: "legal_move s FILLED" using assms by (auto simp: legal_move_def exec_step_iff)
  show ?thesis
    unfolding ensure_sl_protection_def Let_def
    by (intro bind_ports triple_case_option triple_give_up triple_if bind_line [OF legal]
        triple_confirmed bind_transition)
      (drule transition_known, simp add: attach_loop_triple)
qed

lemma post_fill_triple:
  "triple (open_at c SUBMITTED) (post_fill G c r) (answered c) failed_ok"
proof -
  let ?Q = "\<lambda>_ w. \<exists>s. open_at c s w \<and> (s = FILLED \<or> s = PARTIALLY_FILLED)"
  have part: "triple (open_at c SUBMITTED)
       (bind (record_transition (eng_env G) c PARTIAL_FILL None []) (\<lambda>_.
        bind (record_line (eng_env G) c et PARTIALLY_FILLED p) (\<lambda>_. ret ()))) ?Q failed_ok" for et p
    by (intro bind_transition bind_line triple_ret) (auto dest: transition_known)
  have full: "triple (open_at c SUBMITTED)
       (bind (record_transition (eng_env G) c FULL_FILL None []) (\<lambda>_. ret ())) ?Q failed_ok"
    by (intro bind_transition triple_ret) (auto dest: transition_known)
  show ?thesis
    unfolding post_fill_def Let_def
    by (rule triple_bind [OF triple_if [OF part full]])
      (intro triple_ex triple_pure ensure_sl_protection_triple)
qed

lemma evidence_float_triple:
  "triple (open_at c s) (evidence_float d k) (\<lambda>_. open_at c s) failed_ok"
  by (auto simp: evidence_float_def triple_def ret_def raise_def inv_defs split: option.splits)

lemma result_for_discovered_triple:
  "triple (open_at c s) (bind (result_for_discovered G c s) (store_and_return (eng_env G) c))
     (answered c) failed_ok"
proof -
  have "post (result_for_discovered G c s) (\<lambda>r. agrees r s)"
    unfolding result_for_discovered_def Let_def unknown_result_def
    by (intro post_rules) (auto simp: result_defs agrees_def)
  moreover have "pres keeps_journal (result_for_discovered G c s)"
    unfolding result_for_discovered_def Let_def by (intro pres_rules keeps_journal_preorder)
  ultimately show ?thesis
    by (intro triple_bind [OF triple_port(1)] triple_pure triple_store)
qed

lemma resolve_triple:
  "triple (open_at c UNKNOWN) (resolve_reconciliation G c out st hint) (answered c) failed_ok"
proof -
  let ?fresh = "bind (now_iso (eng_env G)) (\<lambda>ts.
      bind (evidence_float (o_evidence out) ''filled_volume'') (\<lambda>vol.
      bind (evidence_float (o_evidence out) ''fill_price'') (\<lambda>price.
      ret (result_filled (c_command_id c) (c_trade_id c) ts None 0 vol price False))))"
  have fresh: "triple (open_at c s) ?fresh (\<lambda>_. open_at c s) failed_ok" for s
    by (intro bind_now triple_bind [OF evidence_float_triple] triple_ret)
  have fill: "triple (open_at c s)
     (bind (case hint of Some h \<Rightarrow> if r_status h = R_FILLED \<or> r_status h = R_PARTIALLY_FILLED then ret h else ?fresh
            | None \<Rightarrow> ?fresh) (ensure_sl_protection G c)) (answered c) failed_ok"
    if "s = FILLED \<or> s = PARTIALLY_FILLED" for s
    by (rule triple_bind [where Q = "\<lambda>_. open_at c s"])
      (intro triple_case_option triple_if triple_ret fresh ensure_sl_protection_triple that, assumption?)+
  have pending: "triple (open_at c SUBMITTED)
     (bind (record_line (eng_env G) c et SUBMITTED p) (\<lambda>_. unknown_result (eng_env G) c code msg))
     (answered c) failed_ok" for et p code msg
  proof (intro bind_line legal_move_refl)
    show "triple (open_at c SUBMITTED) (unknown_result (eng_env G) c code msg) (answered c) failed_ok"
      by (rule triple_conseq [OF triple_port(1) [OF keeps_unknown_result post_unknown_result]])
        (auto simp: inv_defs agrees_unknown)
  qed
  have "triple (open_at c st)
     (if st = FILLED \<or> st = PARTIALLY_FILLED then
        bind (case hint of Some h \<Rightarrow> if r_status h = R_FILLED \<or> r_status h = R_PARTIALLY_FILLED then ret h else ?fresh
              | None \<Rightarrow> ?fresh) (ensure_sl_protection G c)
      else if st = SUBMITTED then
        bind (record_line (eng_env G) c et SUBMITTED p) (\<lambda>_. unknown_result (eng_env G) c code msg)
      else bind (result_for_discovered G c st) (store_and_return (eng_env G) c)) (answered c) failed_ok"
    for et p code msg
    by (intro triple_if fill result_for_discovered_triple) (simp_all add: pending)
  then show ?thesis
    unfolding resolve_reconciliation_def Let_def
    by (intro bind_transition) (auto dest!: transition_known)
qed

lemma triple_submitted: "triple P m (answered c) failed_ok \<Longrightarrow> triple P m (submitted G c) failed_ok"
  by (erule triple_conseq) (auto simp: submitted_def)

lemma reconcile_then_retry_triple:
  assumes "triple (open_at c SUBMITTED) again (submitted G c) failed_ok"
  shows "triple (open_at c SUBMITTED) (reconcile_then_retry G c r again) (submitted G c) failed_ok"
  unfolding reconcile_then_retry_def Let_def
  by (intro bind_ports bind_current bind_line legal_move_refl triple_if triple_submitted [OF triple_give_up]
      triple_case_option assms bind_transition) (drule transition_known, simp add: triple_submitted [OF resolve_triple])

lemma status_event_agrees:
  "status_event (r_status r) = Some e \<Longrightarrow> transition s e None = Inr t \<Longrightarrow> agrees r t"
  by (cases "r_status r") (auto simp: status_event_def agrees_def dest!: transition_known)

lemma submit_closed:
  "post (port_submit (eng_ports G) c) (\<lambda>r. r_status r = R_CLOSED \<longrightarrow> \<not> never_closes (eng_ports G))"
  by (auto simp: never_closes_def post_def split: prod.splits sum.splits)

lemma submit_attempt_triple:
  assumes "\<And>k. again = Some k \<Longrightarrow> triple (open_at c SUBMITTED) k (submitted G c) failed_ok"
  shows "triple (open_at c SUBMITTED) (submit_attempt G c n again) (submitted G c) failed_ok"
  unfolding submit_attempt_def Let_def
proof (rule triple_bind [OF triple_port(1) [OF submit_journal submit_closed]], rule triple_pure,
    intro bind_current bind_line legal_move_refl triple_if triple_submitted [OF post_fill_triple])
  fix r :: result
  assume r: "r_status r = R_CLOSED \<longrightarrow> \<not> never_closes (eng_ports G)"
    "\<not> (r_status r = R_FILLED \<or> r_status r = R_PARTIALLY_FILLED)"
  have give_up: "triple (open_at c SUBMITTED)
      (bind (record_transition (eng_env G) c EV_UNKNOWN None p) (\<lambda>_. store_and_return (eng_env G) c r))
      (submitted G c) failed_ok" if "status_event (r_status r) = None" for p
  proof (cases "r_status r = R_CLOSED")
    case True
    show ?thesis
      by (rule triple_bind [OF triple_transition_loose], rule triple_pure, drule transition_known(2))
        (use True r(1) triple_store_closed in simp)
  next
    case False
    show ?thesis
      by (rule triple_submitted, rule triple_transition_store)
        (use False r that in \<open>cases "r_status r"; auto simp: status_event_def agrees_def\<close>)
  qed
  show "triple (open_at c SUBMITTED)
     (case status_event (r_status r) of
        None \<Rightarrow> (case again of
            None \<Rightarrow> bind (record_transition (eng_env G) c EV_UNKNOWN None
                [(''retry_class'', PStr (retry_class_value (classify_error (r_error_code r))))])
                (\<lambda>_. store_and_return (eng_env G) c r)
          | Some next \<Rightarrow>
              if classify_error (r_error_code r) = SAFE then reconcile_then_retry G c r next
              else bind (record_transition (eng_env G) c EV_UNKNOWN None
                [(''retry_class'', PStr (retry_class_value (classify_error (r_error_code r))))])
                (\<lambda>_. store_and_return (eng_env G) c r))
      | Some event \<Rightarrow>
          bind (record_transition (eng_env G) c event None [(''result'', PDict (result_to_dict r))])
            (\<lambda>_. store_and_return (eng_env G) c r)) (submitted G c) failed_ok"
    by (intro triple_case_option triple_if give_up reconcile_then_retry_triple
        triple_submitted [OF triple_transition_store] assms)
      (auto elim: status_event_agrees)
qed

lemma submit_loop_triple:
  "triple (open_at c SUBMITTED) (submit_loop G c n k) (submitted G c) failed_ok"
  by (induction k arbitrary: n) (auto intro!: submit_attempt_triple)

lemma submit_gates_triple:
  assumes "triple (open_at c SUBMITTED) go (submitted G c) failed_ok"
  shows "triple (open_at c s) (submit_gates G c stored go) (submitted G c) failed_ok"
proof -
  have first: "triple (open_at c s)
     (if s_state stored = CREATED
      then bind (record_transition (eng_env G) c VALIDATE_OK None []) (\<lambda>_. ret ()) else ret ())
     (\<lambda>_ w. \<exists>s. open_at c s w) failed_ok"
    by (intro triple_if bind_transition triple_ret) auto
  have rest: "triple (open_at c u)
     (bind (now_us (eng_env G)) (\<lambda>now.
        if is_expired_command (eng_env G) c now then
          bind (record_transition (eng_env G) c EXPIRE None []) (\<lambda>_.
          bind (now_iso (eng_env G)) (\<lambda>ts.
          store_and_return (eng_env G) c (result_expired (c_command_id c) (c_trade_id c) ts ''command expired'')))
        else bind (record_transition (eng_env G) c SUBMIT None []) (\<lambda>_. go))) (submitted G c) failed_ok" for u
    by (intro bind_now_us triple_if bind_transition bind_now triple_submitted [OF triple_store])
      (auto dest!: transition_known simp: agrees_def result_defs assms)
  show ?thesis
    unfolding submit_gates_def Let_def
    by (intro triple_if bind_transition bind_now triple_submitted [OF triple_store] triple_bind [OF first]
        triple_ex rest)
      (auto dest!: transition_known simp: agrees_def result_defs)
qed

lemma submit_triple: "triple engine_ok (submit G c) (submitted G c) failed_ok"
  unfolding submit_def Let_def
proof (rule bind_stored)
  show "triple (\<lambda>w. engine_ok w \<and> get_command (w_journal w) (c_command_id c) = None)
     (case None of None \<Rightarrow> raise not_journaled
      | Some stored \<Rightarrow> k stored) (submitted G c) failed_ok" for k
    by (simp, rule triple_raise, simp add: engine_ok_failed)
next
  fix stored
  let ?P = "\<lambda>w. engine_ok w \<and> get_command (w_journal w) (c_command_id c) = Some stored"
  show "triple ?P
     (case Some stored of None \<Rightarrow> raise not_journaled
      | Some stored \<Rightarrow> (case s_result stored of
          None \<Rightarrow>
            if is_terminal_state (s_state stored) then
              raise (ExecutionError DUPLICATE_COMMAND
                [Lit (''command already terminal ('' @ cmd_state_value (s_state stored) @ '') without stored result'')])
            else if s_state stored = SUBMITTED \<or> s_state stored = UNKNOWN then
              unknown_result (eng_env G) c AMBIGUOUS_RESPONSE
                (''command is '' @ cmd_state_value (s_state stored) @ ''; reconciliation required before any action'')
            else submit_gates G c stored (submit_loop G c 0 (submit_budget G))
        | Some r \<Rightarrow> ret r)) (submitted G c) failed_ok"
  proof (cases "s_result stored")
    case None
    have main: "triple ?P
      (if is_terminal_state (s_state stored) then raise e
       else if s_state stored = SUBMITTED \<or> s_state stored = UNKNOWN then unknown_result (eng_env G) c code msg
       else submit_gates G c stored (submit_loop G c 0 (submit_budget G))) (submitted G c) failed_ok" for e code msg
      by (rule triple_pre [where P = "open_at c (s_state stored)"],
          intro triple_if triple_raise submit_gates_triple submit_loop_triple triple_submitted [OF triple_unknown])
        (use None in \<open>auto intro: stored_inv open_at_failed\<close>)
    then show ?thesis using None by simp
  next
    case (Some r)
    then show ?thesis by (auto intro!: triple_ret triple_submitted stored_replay)
  qed
qed

lemma close_loop_triple:
  "triple (at_state c s) (close_loop G c pid reason n k) (answered c) failed_ok"
proof (induction k arbitrary: n)
  case 0
  show ?case
    by simp (rule triple_transition_then, rule triple_unknown_store)
next
  case (Suc k)
  have store: "triple (at_state c s)
     (bind (record_transition (eng_env G) c EV_CLOSED None p) (\<lambda>_. store_and_return (eng_env G) c r))
     (answered c) failed_ok" if "r_status r = R_CLOSED" for p r
    by (rule triple_transition_then, rule triple_store_loose)
      (use that in \<open>auto dest: transition_known simp: agrees_def\<close>)
  show ?case
    by simp (intro triple_bind [OF triple_port_any(2) [OF close_journal]]
        triple_bind [OF triple_current_state(2)] triple_pure, hypsubst,
        intro triple_bind [OF triple_record_same] triple_if store Suc.IH)
qed

lemma close_triple: "triple engine_ok (close G c pid reason) (answered c) failed_ok"
proof -
  have loop: "triple (\<lambda>w. engine_ok w \<and> get_command (w_journal w) (c_command_id c) = Some stored)
      (close_loop G c pid reason n k) (answered c) failed_ok" for stored n k
    by (rule triple_pre [OF close_loop_triple [where s = "s_state stored"]]) (auto intro: stored_inv)
  have replay: "triple (\<lambda>w. engine_ok w \<and> get_command (w_journal w) (c_command_id c) = Some stored)
      (ret r) (answered c) failed_ok" if "s_result stored = Some r" for stored r
    by (rule triple_ret) (use that in \<open>auto intro: stored_replay\<close>)
  show ?thesis
    unfolding close_def
    by (rule bind_stored; simp add: triple_raise engine_ok_failed split: option.split)
      (auto intro!: loop replay triple_raise engine_ok_failed)
qed

lemma reconcile_triple: "triple engine_ok (reconcile G c) (answered c) failed_ok"
proof -
  have conclude: "triple (open_at c UNKNOWN)
     (bind (unknown_result (eng_env G) c code msg) (\<lambda>fallback.
      bind (store_result (eng_env G) c fallback) (\<lambda>_.
      bind (gets (\<lambda>w. get_result (w_journal w) (c_command_id c))) (\<lambda>again.
      ret (case again of None \<Rightarrow> fallback | Some r \<Rightarrow> r))))) (answered c) failed_ok" for code msg
  proof (rule triple_bind [OF triple_port(1) [OF keeps_unknown_result post_unknown_result]], rule triple_pure)
    fix r :: result assume "r_status r = R_UNKNOWN"
    then have st: "triple (open_at c UNKNOWN) (store_and_return (eng_env G) c r) (answered c) failed_ok"
      by (intro triple_store agrees_unknown)
    show "triple (open_at c UNKNOWN)
     (bind (store_result (eng_env G) c r) (\<lambda>_.
      bind (gets (\<lambda>w. get_result (w_journal w) (c_command_id c))) (\<lambda>again.
      ret (case again of None \<Rightarrow> r | Some r \<Rightarrow> r)))) (answered c) failed_ok"
      by (rule triple_cong [OF store_then_read_eq st])
  qed
  have body: "triple (open_at c UNKNOWN)
     (bind (port_reconcile (eng_ports G) c None) (\<lambda>out.
      bind (record_line (eng_env G) c ''RECONCILIATION_QUERY'' UNKNOWN
        [(''outcome'', PDict (o_evidence out)), (''ambiguous'', PBool (o_ambiguous out))]) (\<lambda>_.
      case (if o_ambiguous out then None else o_discovered_state out) of
        None \<Rightarrow>
          bind (record_line (eng_env G) c ''RECONCILIATION_AMBIGUOUS'' UNKNOWN
            [(''evidence'', PDict (o_evidence out))]) (\<lambda>_.
          bind (unknown_result (eng_env G) c RECONCILIATION_PENDING
            ''reconciliation inconclusive; broker truth unreachable'') (\<lambda>fallback.
          bind (store_result (eng_env G) c fallback) (\<lambda>_.
          bind (gets (\<lambda>w. get_result (w_journal w) (c_command_id c))) (\<lambda>again.
          ret (case again of None \<Rightarrow> fallback | Some r \<Rightarrow> r)))))
      | Some st \<Rightarrow> resolve_reconciliation G c out st None))) (answered c) failed_ok"
    by (intro bind_ports bind_line legal_move_refl triple_case_option conclude resolve_triple)
  show ?thesis
    unfolding reconcile_def Let_def
    by (rule bind_stored; simp add: triple_raise engine_ok_failed)
      (auto intro!: triple_raise triple_pre [OF body] engine_ok_failed intro: stored_unknown)
qed

lemma create_command_triple:
  "triple engine_ok (create_command G p) (\<lambda>c. open_at c CREATED) failed_ok"
  unfolding create_command_def Let_def
  by (intro triple_if triple_raise triple_bind [OF triple_engine_ok(1)] triple_bind [OF triple_engine_ok(2)]
      triple_bind [OF triple_engine_ok(3)] triple_bind [OF triple_engine_ok(4)]
      triple_bind [OF triple_engine_ok(5)] triple_split
      triple_bind [OF triple_journal_create] bind_line legal_move_refl triple_ret engine_ok_failed)

end

end
