(* ===== verification/ExecSim.thy ===== *)
theory ExecSim
  imports ExecEngineProps
begin

text \<open>
  The two boundaries that the repository implements: the deterministic broker stand-in
  \<open>SimulatedExecutor\<close> of \<open>src/execution/simulated.py\<close>, with its in-memory book of orders and
  positions, and \<open>StaticReconciliation\<close> of \<open>src/execution/reconciliation.py\<close>. Dictionaries are maps;
  the order and position objects they share are updated in the dictionary. The interpretations show
  that both honour the contract the engine relies on.
\<close>

section \<open>Broker book\<close>

datatype submit_mode =
    M_FULL_FILL | M_PARTIAL_FILL | M_REJECT | M_TIMEOUT | M_AMBIGUOUS | M_REQUOTE | M_EXPIRED
  | M_STALE_FEED | M_POSITION_EXISTS

record scenario =
  sc_mode :: submit_mode
  sc_fill_ratio :: pyfloat
  sc_slippage_points :: pyfloat
  sc_entry_price :: pyfloat
  sc_retcode :: int
  sc_rejected_reason :: "string option"
  sc_timeout_landed :: bool

definition default_scenario :: scenario where
  "default_scenario =
     \<lparr>sc_mode = M_FULL_FILL, sc_fill_ratio = flit 6 1, sc_slippage_points = Fin 0,
      sc_entry_price = Fin 4400, sc_retcode = 0, sc_rejected_reason = None, sc_timeout_landed = False\<rparr>"

datatype order_state = PLACED | O_FILLED | PARTIAL | CANCELED | O_REJECTED

fun order_state_value :: "order_state \<Rightarrow> string" where
  "order_state_value PLACED = ''PLACED''"
| "order_state_value O_FILLED = ''FILLED''"
| "order_state_value PARTIAL = ''PARTIAL''"
| "order_state_value CANCELED = ''CANCELED''"
| "order_state_value O_REJECTED = ''REJECTED''"

record sim_order =
  so_order_id :: string
  so_command_id :: string
  so_symbol :: string
  so_direction :: string
  so_requested_volume :: pyfloat
  so_filled_volume :: pyfloat
  so_fill_price :: pyfloat
  so_sl :: "pyfloat option"
  so_state :: order_state

record sim_position =
  sp_position_id :: string
  sp_command_id :: string
  sp_symbol :: string
  sp_direction :: string
  sp_volume :: pyfloat
  sp_open_price :: pyfloat
  sp_sl :: "pyfloat option"
  sp_open_ts :: string
  sp_closed :: bool

record sim =
  sim_default :: scenario
  sim_scenarios :: "string \<Rightarrow> scenario option"
  sim_sl_attach_fail :: bool
  sim_close_fail :: bool
  sim_seq :: nat
  sim_orders :: "string \<Rightarrow> sim_order option"
  sim_positions :: "string \<Rightarrow> sim_position option"
  sim_position_by_command :: "string \<Rightarrow> string option"
  sim_submit_calls :: "command list"
  sim_attach_calls :: "(command \<times> string \<times> pyfloat) list"
  sim_close_calls :: "(command \<times> string) list"
  sim_query_calls :: "command list"
  static_outcome :: "outcome option"
  static_calls :: "command list"

definition new_sim :: "scenario \<Rightarrow> bool \<Rightarrow> bool \<Rightarrow> outcome option \<Rightarrow> sim" where
  "new_sim d attach_fail close_fail out =
     \<lparr>sim_default = d, sim_scenarios = Map.empty, sim_sl_attach_fail = attach_fail,
      sim_close_fail = close_fail, sim_seq = 0, sim_orders = Map.empty, sim_positions = Map.empty,
      sim_position_by_command = Map.empty, sim_submit_calls = [], sim_attach_calls = [],
      sim_close_calls = [], sim_query_calls = [], static_outcome = out, static_calls = []\<rparr>"

definition set_scenario :: "string \<Rightarrow> scenario \<Rightarrow> sim \<Rightarrow> sim" where
  "set_scenario cid sc b = b\<lparr>sim_scenarios := (sim_scenarios b)(cid \<mapsto> sc)\<rparr>"

definition scenario_of :: "sim \<Rightarrow> command \<Rightarrow> scenario" where
  "scenario_of b c = (case sim_scenarios b (c_command_id c) of None \<Rightarrow> sim_default b | Some sc \<Rightarrow> sc)"

definition on_sim :: "(sim \<Rightarrow> sim) \<Rightarrow> (sim, unit) act" where
  "on_sim f w = (Inr (), w\<lparr>w_broker := f (w_broker w)\<rparr>)"

definition get_sim :: "(sim \<Rightarrow> 'a) \<Rightarrow> (sim, 'a) act" where
  "get_sim f = gets (\<lambda>w. f (w_broker w))"

definition numbered :: "string \<Rightarrow> nat \<Rightarrow> string" where
  "numbered tag n = tag @ pad_zero 6 (show_nat n)"

section \<open>Orders and fills\<close>

definition placed_order :: "sim \<Rightarrow> command \<Rightarrow> order_state \<Rightarrow> sim_order" where
  "placed_order b c st =
     \<lparr>so_order_id = numbered ''ORD-'' (sim_seq b), so_command_id = c_command_id c,
      so_symbol = c_symbol c, so_direction = c_direction c, so_requested_volume = c_volume c,
      so_filled_volume = Fin 0, so_fill_price = Fin 0, so_sl = None, so_state = st\<rparr>"

definition put_order :: "sim_order \<Rightarrow> sim \<Rightarrow> sim" where
  "put_order x b = b\<lparr>sim_orders := (sim_orders b)(so_command_id x \<mapsto> x)\<rparr>"

definition place_order :: "command \<Rightarrow> order_state \<Rightarrow> (sim, sim_order) act" where
  "place_order c st =
     bind (get_sim (\<lambda>b. placed_order b c st)) (\<lambda>x.
     bind (on_sim (put_order x)) (\<lambda>_. ret x))"

definition fill_price_of :: "scenario \<Rightarrow> command \<Rightarrow> pyfloat" where
  "fill_price_of sc c =
     (let slippage = fmul (sc_slippage_points sc) (flit 1 2); base = sc_entry_price sc in
      fround 5 (if c_direction c = direction_value BUY then fadd base slippage else fsub base slippage))"

definition fill_order ::
  "env \<Rightarrow> sim_order \<Rightarrow> command \<Rightarrow> scenario \<Rightarrow> pyfloat \<Rightarrow> (sim, sim_order) act" where
  "fill_order E x c sc volume =
     bind (get_sim sim_sl_attach_fail) (\<lambda>fail.
     let price = fill_price_of sc c;
         x' = x\<lparr>so_filled_volume := volume, so_fill_price := price, so_state := O_FILLED,
               so_sl := (if fail then so_sl x else Some (c_sl c))\<rparr> in
     bind (on_sim (\<lambda>b. put_order x' (b\<lparr>sim_seq := Suc (sim_seq b)\<rparr>))) (\<lambda>_.
     bind (get_sim sim_seq) (\<lambda>seq.
     bind (now_iso E) (\<lambda>ts.
     let pid = numbered ''POS-'' seq;
         pos = \<lparr>sp_position_id = pid, sp_command_id = c_command_id c, sp_symbol = c_symbol c,
                sp_direction = c_direction c, sp_volume = volume, sp_open_price = price,
                sp_sl = so_sl x', sp_open_ts = ts, sp_closed = False\<rparr> in
     bind (on_sim (\<lambda>b. b\<lparr>sim_positions := (sim_positions b)(pid \<mapsto> pos),
                         sim_position_by_command := (sim_position_by_command b)(c_command_id c \<mapsto> pid)\<rparr>)) (\<lambda>_.
     ret x')))))"

section \<open>The executor operations\<close>

definition or_default :: "int \<Rightarrow> int \<Rightarrow> int" where
  "or_default n d = (if n = 0 then d else n)"

definition reject ::
  "command \<Rightarrow> string \<Rightarrow> error_code \<Rightarrow> string \<Rightarrow> int \<Rightarrow> string option \<Rightarrow> (sim, result) act" where
  "reject c ts code msg retcode req =
     ret (result_rejected (c_command_id c) (c_trade_id c) ts (error_code_value code) msg retcode req)"

definition sim_fill :: "env \<Rightarrow> command \<Rightarrow> scenario \<Rightarrow> string \<Rightarrow> (sim, result) act" where
  \<comment> \<open>the FULL_FILL and PARTIAL_FILL modes\<close>
  "sim_fill E c sc ts =
     bind (place_order c PLACED) (\<lambda>x.
     if sc_mode sc = M_PARTIAL_FILL then
       (let vol = fround 2 (fmul (c_volume c) (sc_fill_ratio sc)) in
        bind (fill_order E (x\<lparr>so_state := PARTIAL\<rparr>) c sc vol) (\<lambda>x'.
        bind (on_sim (put_order (x'\<lparr>so_state := CANCELED\<rparr>))) (\<lambda>_.
        ret (result_partial (c_command_id c) (c_trade_id c) ts vol (so_fill_price x')
               (Some (so_order_id x')) (so_sl x' \<noteq> None)))))
     else
       bind (fill_order E x c sc (c_volume c)) (\<lambda>x'.
       ret (result_filled (c_command_id c) (c_trade_id c) ts (Some (so_order_id x')) 0
              (c_volume c) (so_fill_price x') (so_sl x' \<noteq> None))))"

definition sim_mode :: "env \<Rightarrow> command \<Rightarrow> scenario \<Rightarrow> string \<Rightarrow> (sim, result) act" where
  "sim_mode E c sc ts =
     (let cid = c_command_id c; tid = c_trade_id c in
      case sc_mode sc of
        M_REJECT \<Rightarrow>
          reject c ts BROKER_REJECT
            (case sc_rejected_reason sc of Some (ch # m) \<Rightarrow> ch # m | _ \<Rightarrow> ''broker rejected request'')
            (or_default (sc_retcode sc) 10016) None
      | M_REQUOTE \<Rightarrow>
          reject c ts REQUOTE_SLIPPAGE ''requote: price moved beyond tolerance''
            (or_default (sc_retcode sc) 10022) None
      | M_STALE_FEED \<Rightarrow> reject c ts STALE_FEED ''market feed is stale'' 0 None
      | M_POSITION_EXISTS \<Rightarrow> reject c ts POSITION_EXISTS ''position already exists for this account'' 0 None
      | M_EXPIRED \<Rightarrow> ret (result_expired cid tid ts ''scenario: expired'')
      | M_TIMEOUT \<Rightarrow>
          bind (if sc_timeout_landed sc
                then bind (place_order c PLACED) (\<lambda>x. bind (fill_order E x c sc (c_volume c)) (\<lambda>_. ret ()))
                else ret ()) (\<lambda>_.
          ret (result_unknown cid tid ts (error_code_value NETWORK_TIMEOUT) ''request timed out; outcome unknown''))
      | M_AMBIGUOUS \<Rightarrow>
          bind (place_order c PLACED) (\<lambda>_.
          ret (result_unknown cid tid ts (error_code_value AMBIGUOUS_RESPONSE)
                 ''accepted but no deal evidence; outcome ambiguous''))
      | _ \<Rightarrow> sim_fill E c sc ts)"

definition sim_submit :: "env \<Rightarrow> command \<Rightarrow> (sim, result) act" where
  "sim_submit E c =
     bind (on_sim (\<lambda>b. b\<lparr>sim_submit_calls := sim_submit_calls b @ [c], sim_seq := Suc (sim_seq b)\<rparr>)) (\<lambda>_.
     bind (get_sim (\<lambda>b. scenario_of b c)) (\<lambda>sc.
     bind (now_iso E) (\<lambda>ts.
     bind (get_sim (\<lambda>b. sim_orders b (c_command_id c))) (\<lambda>known.
     case known of
       Some x \<Rightarrow>
         reject c ts DUPLICATE_COMMAND ''broker already holds this command_id'' 0 (Some (so_order_id x))
     | None \<Rightarrow>
         bind (if c_expires_at c = [] then ret False
               else bind (now_us E) (\<lambda>now. ret (is_expired E (c_expires_at c) now))) (\<lambda>past.
         if past then ret (result_expired (c_command_id c) (c_trade_id c) ts ''broker refused expired command'')
         else sim_mode E c sc ts)))))"

text \<open>The position of a command: \<open>self._positions[position_id]\<close> of a recorded id is always present.\<close>

definition position_of :: "sim \<Rightarrow> command \<Rightarrow> sim_position option" where
  "position_of b c = Option.bind (sim_position_by_command b (c_command_id c)) (sim_positions b)"

definition sim_get_position :: "env \<Rightarrow> command \<Rightarrow> (sim, position option) act" where
  "sim_get_position E c =
     bind (get_sim (\<lambda>b. position_of b c)) (\<lambda>found.
     case found of None \<Rightarrow> ret None
     | Some p \<Rightarrow>
         bind (now_iso E) (\<lambda>ts.
         ret (Some \<lparr>p_position_id = sp_position_id p, p_symbol = sp_symbol p, p_direction = sp_direction p,
                    p_volume = sp_volume p, p_open_price = sp_open_price p, p_sl = sp_sl p, p_ts = ts\<rparr>)))"

definition fail_with :: "env \<Rightarrow> command \<Rightarrow> error_code \<Rightarrow> string \<Rightarrow> (sim, result) act" where
  "fail_with E c code msg =
     bind (now_iso E) (\<lambda>ts.
     ret (result_failed (c_command_id c) (c_trade_id c) ts (error_code_value code) msg))"

definition sim_attach_sl :: "env \<Rightarrow> command \<Rightarrow> string \<Rightarrow> pyfloat \<Rightarrow> (sim, result) act" where
  "sim_attach_sl E c pid sl =
     bind (on_sim (\<lambda>b. b\<lparr>sim_attach_calls := sim_attach_calls b @ [(c, pid, sl)]\<rparr>)) (\<lambda>_.
     bind (get_sim (\<lambda>b. sim_positions b pid)) (\<lambda>found.
     bind (get_sim sim_sl_attach_fail) (\<lambda>fail.
     case found of None \<Rightarrow> fail_with E c SL_ATTACH_FAILED ''position unavailable for SL attach''
     | Some p \<Rightarrow>
         if sp_closed p then fail_with E c SL_ATTACH_FAILED ''position unavailable for SL attach''
         else if fail then fail_with E c SL_ATTACH_FAILED ''simulated SL attach failure''
         else
           bind (on_sim (\<lambda>b. b\<lparr>sim_positions := (sim_positions b)(pid \<mapsto> p\<lparr>sp_sl := Some sl\<rparr>),
             sim_orders := (case sim_orders b (c_command_id c) of None \<Rightarrow> sim_orders b
               | Some x \<Rightarrow> (sim_orders b)(c_command_id c \<mapsto> x\<lparr>so_sl := Some sl\<rparr>))\<rparr>)) (\<lambda>_.
           bind (now_iso E) (\<lambda>ts.
           ret (result_filled (c_command_id c) (c_trade_id c) ts (Some (sp_position_id p)) 0
                  (sp_volume p) (sp_open_price p) True))))))"

definition sim_close_position :: "env \<Rightarrow> command \<Rightarrow> string \<Rightarrow> (sim, result) act" where
  "sim_close_position E c pid =
     bind (on_sim (\<lambda>b. b\<lparr>sim_close_calls := sim_close_calls b @ [(c, pid)]\<rparr>)) (\<lambda>_.
     bind (get_sim (\<lambda>b. sim_positions b pid)) (\<lambda>found.
     bind (get_sim sim_close_fail) (\<lambda>fail.
     case found of None \<Rightarrow> fail_with E c CLOSE_FAILED ''position already closed or missing''
     | Some p \<Rightarrow>
         if sp_closed p then fail_with E c CLOSE_FAILED ''position already closed or missing''
         else if fail then fail_with E c CLOSE_FAILED ''simulated close failure''
         else
           bind (on_sim (\<lambda>b. b\<lparr>sim_positions := (sim_positions b)(pid \<mapsto> p\<lparr>sp_closed := True\<rparr>)\<rparr>)) (\<lambda>_.
           bind (now_iso E) (\<lambda>ts.
           ret (result_closed (c_command_id c) (c_trade_id c) ts (Some (sp_position_id p)) 0))))))"

definition order_to_command_state :: "sim_order \<Rightarrow> sim_position option \<Rightarrow> cmd_state" where
  "order_to_command_state x pos =
     (if (case pos of None \<Rightarrow> False | Some p \<Rightarrow> sp_closed p) then CLOSED
      else case so_state x of
        O_FILLED \<Rightarrow> FILLED | PLACED \<Rightarrow> SUBMITTED | PARTIAL \<Rightarrow> PARTIALLY_FILLED
      | CANCELED \<Rightarrow> REJECTED | O_REJECTED \<Rightarrow> REJECTED)"

definition sim_query :: "env \<Rightarrow> command \<Rightarrow> (sim, outcome) act" where
  "sim_query E c =
     bind (on_sim (\<lambda>b. b\<lparr>sim_query_calls := sim_query_calls b @ [c]\<rparr>)) (\<lambda>_.
     bind (get_sim (\<lambda>b. (sim_orders b (c_command_id c), position_of b c, scenario_of b c))) (\<lambda>(known, pos, sc).
     bind (now_iso E) (\<lambda>ts.
     ret (case known of
       None \<Rightarrow>
         \<lparr>o_discovered_state = None, o_ambiguous = False,
          o_evidence = [(''found'', PBool False), (''command_id'', PStr (c_command_id c))], o_ts = ts\<rparr>
     | Some x \<Rightarrow>
         (let evidence =
            [(''found'', PBool True), (''broker_order_id'', PStr (so_order_id x)),
             (''order_state'', PStr (order_state_value (so_state x))),
             (''filled_volume'', PFloat (so_filled_volume x)), (''fill_price'', PFloat (so_fill_price x))]
            @ (case pos of None \<Rightarrow> []
               | Some p \<Rightarrow> [(''broker_position_id'', PStr (sp_position_id p)),
                           (''position_volume'', PFloat (sp_volume p)), (''position_sl'', opt_float (sp_sl p)),
                           (''position_closed'', PBool (sp_closed p))])
          in if sc_mode sc = M_AMBIGUOUS
             then \<lparr>o_discovered_state = None, o_ambiguous = True, o_evidence = evidence, o_ts = ts\<rparr>
             else \<lparr>o_discovered_state = Some (order_to_command_state x pos), o_ambiguous = False,
                   o_evidence = evidence, o_ts = ts\<rparr>)))))"

section \<open>The static reconciliation boundary\<close>

definition static_reconcile :: "env \<Rightarrow> command \<Rightarrow> result option \<Rightarrow> (sim, outcome) act" where
  "static_reconcile E c hint =
     bind (on_sim (\<lambda>b. b\<lparr>static_calls := static_calls b @ [c]\<rparr>)) (\<lambda>_.
     bind (get_sim static_outcome) (\<lambda>out.
     case out of
       None \<Rightarrow>
         bind (now_iso E) (\<lambda>ts.
         ret \<lparr>o_discovered_state = None, o_ambiguous = True,
              o_evidence = [(''hint'', case hint of None \<Rightarrow> PNone | Some r \<Rightarrow> PObj ''ExecutionResult'')],
              o_ts = ts\<rparr>)
     | Some x \<Rightarrow> ret x))"

definition sim_ports :: "env \<Rightarrow> sim ports" where
  "sim_ports E =
     \<lparr>port_submit = sim_submit E, port_position = sim_get_position E, port_attach = sim_attach_sl E,
      port_close = sim_close_position E, port_reconcile = static_reconcile E\<rparr>"

text \<open>The boundary that asks the broker book (\<open>Executor.query\<close>) and ignores the hint.\<close>

definition query_ports :: "env \<Rightarrow> sim ports" where
  "query_ports E = (sim_ports E)\<lparr>port_reconcile := (\<lambda>c hint. sim_query E c)\<rparr>"

definition sim_engine :: "env \<Rightarrow> exec_config \<Rightarrow> sim engine" where
  "sim_engine E cfg = \<lparr>eng_env = E, eng_ports = sim_ports E, eng_config = cfg\<rparr>"

definition query_engine :: "env \<Rightarrow> exec_config \<Rightarrow> sim engine" where
  "query_engine E cfg = \<lparr>eng_env = E, eng_ports = query_ports E, eng_config = cfg\<rparr>"

section \<open>The boundaries honour the contract\<close>

lemma keeps_on_sim [pres_rules]: "pres keeps_journal (on_sim f)"
  by (simp add: pres_def keeps_journal_def on_sim_def)

lemma keeps_get_sim [pres_rules]: "pres keeps_journal (get_sim f)"
  by (simp add: pres_def keeps_journal_def get_sim_def gets_def)

lemma keeps_place_order [pres_rules]: "pres keeps_journal (place_order c st)"
  unfolding place_order_def by (intro pres_rules keeps_journal_preorder)

lemma keeps_fill_order [pres_rules]: "pres keeps_journal (fill_order E x c sc v)"
  unfolding fill_order_def Let_def by (intro pres_rules keeps_journal_preorder)

lemma keeps_fail_with [pres_rules]: "pres keeps_journal (fail_with E c code msg)"
  unfolding fail_with_def by (intro pres_rules keeps_journal_preorder)

lemma keeps_sim_fill [pres_rules]: "pres keeps_journal (sim_fill E c sc ts)"
  unfolding sim_fill_def Let_def by (intro pres_rules keeps_journal_preorder)

lemma keeps_sim_mode [pres_rules]: "pres keeps_journal (sim_mode E c sc ts)"
  unfolding sim_mode_def Let_def reject_def
  by (cases "sc_mode sc"; simp split del: if_split; intro pres_rules keeps_journal_preorder)

lemma keeps_sim_submit: "pres keeps_journal (sim_submit E c)"
  unfolding sim_submit_def reject_def by (intro pres_rules keeps_journal_preorder)

lemma keeps_sim_get_position: "pres keeps_journal (sim_get_position E c)"
  unfolding sim_get_position_def by (intro pres_rules keeps_journal_preorder)

lemma keeps_sim_attach_sl: "pres keeps_journal (sim_attach_sl E c pid sl)"
  unfolding sim_attach_sl_def by (intro pres_rules keeps_journal_preorder)

lemma keeps_sim_close: "pres keeps_journal (sim_close_position E c pid)"
  unfolding sim_close_position_def by (intro pres_rules keeps_journal_preorder)

lemma keeps_sim_query: "pres keeps_journal (sim_query E c)"
  unfolding sim_query_def by (intro pres_rules keeps_journal_preorder) (auto intro!: pres_rules keeps_journal_preorder)

lemma keeps_static_reconcile: "pres keeps_journal (static_reconcile E c h)"
  unfolding static_reconcile_def by (intro pres_rules keeps_journal_preorder)

lemma post_sim_submit: "post (sim_submit E c) (\<lambda>r. r_status r \<noteq> R_CLOSED)"
proof -
  have "post (sim_mode E c sc ts) (\<lambda>r. r_status r \<noteq> R_CLOSED)" for sc ts
    unfolding sim_mode_def sim_fill_def Let_def reject_def
    by (cases "sc_mode sc"; simp split del: if_split; intro post_rules; simp add: result_defs)
  then show ?thesis
    unfolding sim_submit_def reject_def by (intro post_rules) (simp_all add: result_defs)
qed

interpretation sim_exec: executor_contract "sim_engine E cfg" for E cfg
  by unfold_locales
    (simp_all add: sim_engine_def sim_ports_def keeps_sim_submit keeps_sim_get_position
      keeps_sim_attach_sl keeps_sim_close keeps_static_reconcile)

interpretation query_exec: executor_contract "query_engine E cfg" for E cfg
  by unfold_locales
    (simp_all add: query_engine_def query_ports_def sim_ports_def keeps_sim_submit keeps_sim_get_position
      keeps_sim_attach_sl keeps_sim_close keeps_sim_query)

lemma sim_never_closes: "never_closes (eng_ports (sim_engine E cfg))"
  by (simp add: never_closes_def sim_engine_def sim_ports_def post_sim_submit)

end
