(* ===== verification/ExecSound.thy ===== *)
theory ExecSound
  imports ExecEngineProps
begin

text \<open>
  The part of the engine's invariant that survives a failing journal: from any well-formed journal, with
  stored results that agree with the states or not, every method leaves a well-formed journal, whatever
  the executor answers and whichever write fails. One triple per method, over the state of the command
  only.
\<close>

section \<open>Triples over the state of the command\<close>

definition sound :: "'b world \<Rightarrow> bool" where
  "sound w \<longleftrightarrow> journal_ok (w_journal w)"

definition sound_at :: "command \<Rightarrow> cmd_state \<Rightarrow> 'b world \<Rightarrow> bool" where
  "sound_at c s w \<longleftrightarrow> sound w \<and> cur c w = Some s"

abbreviation keeps_sound :: "command \<Rightarrow> cmd_state \<Rightarrow> ('b, 'a) act \<Rightarrow> bool" where
  "keeps_sound c s m \<equiv> triple (sound_at c s) m (\<lambda>_. sound) (\<lambda>_. sound)"

lemma sound_atD: "sound_at c s w \<Longrightarrow> sound w"
  by (simp add: sound_at_def)

lemma sound_journal_only:
  "w_journal w' = w_journal w \<Longrightarrow> sound_at c s w \<Longrightarrow> sound_at c s w'"
  "w_journal w' = w_journal w \<Longrightarrow> sound w \<Longrightarrow> sound w'"
  by (simp_all add: sound_at_def sound_def cur_def)

lemma sound_record:
  assumes "sound_at c s w" and "legal_move s t"
    and "journal_record c et t p ts Committed (w_journal w) = (Inr n, w_journal w')"
  shows "sound_at c t w'"
  using assms journal_record_ok [OF _ _ assms(2,3)] state_of_record [OF assms(3)]
  by (simp add: sound_at_def sound_def cur_def)

lemma sound_line:
  fixes k :: "nat \<Rightarrow> ('b, 'a) act"
  assumes "legal_move s t" and "\<And>n. triple (sound_at c t) (k n) Q (\<lambda>_. sound)"
  shows "triple (sound_at c s) (bind (record_line E c et t p) k) Q (\<lambda>_. sound)"
proof (rule triple_bind)
  show "triple (sound_at c s) (record_line E c et t p :: ('b, nat) act) (\<lambda>_. sound_at c t) (\<lambda>_. sound)"
  proof (rule tripleI)
    fix w :: "'b world" and e w' assume w: "sound_at c s w" and "record_line E c et t p w = (Inl e, w')"
    then show "sound w'"
      using record_line_cases sound_record [OF w assms(1)] sound_journal_only(2) sound_atD by blast
  next
    fix w :: "'b world" and n w' assume w: "sound_at c s w" and "record_line E c et t p w = (Inr n, w')"
    then show "sound_at c t w'" using record_line_cases sound_record [OF w assms(1)] by blast
  qed
qed (rule assms(2))

lemma sound_transition:
  fixes k :: "cmd_state \<Rightarrow> ('b, 'a) act"
  assumes "\<And>t. transition s ev tgt = Inr t \<Longrightarrow> triple (sound_at c t) (k t) Q (\<lambda>_. sound)"
  shows "triple (sound_at c s) (bind (record_transition E c ev tgt p) k) Q (\<lambda>_. sound)"
proof (rule triple_cong)
  fix w :: "'b world" assume "sound_at c s w"
  then show "bind (record_transition E c ev tgt p) k w =
     (case transition s ev tgt of Inl e \<Rightarrow> raise e
      | Inr t \<Rightarrow> bind (record_line E c (exec_event_value ev) t p) (\<lambda>_. k t)) w"
    by (simp add: bind_def record_transition_run [of c w s] sound_at_def raise_def ret_def
        split: sum.split prod.split)
next
  show "triple (sound_at c s)
     (case transition s ev tgt of Inl e \<Rightarrow> raise e
      | Inr t \<Rightarrow> bind (record_line E c (exec_event_value ev) t p) (\<lambda>_. k t)) Q (\<lambda>_. sound)"
  proof (cases "transition s ev tgt")
    case (Inl e)
    then show ?thesis by (simp add: triple_raise sound_atD)
  next
    case (Inr t)
    then show ?thesis using assms by (simp add: sound_line legal_move_transition)
  qed
qed

lemma sound_keeps:
  assumes "pres keeps_journal m" and "\<And>x. triple (sound_at c s) (k x) Q (\<lambda>_. sound)"
  shows "triple (sound_at c s) (bind m k) Q (\<lambda>_. sound)"
proof (rule triple_bind)
  show "triple (sound_at c s) m (\<lambda>_. sound_at c s) (\<lambda>_. sound)"
    using presD [OF assms(1)]
    by (intro tripleI) (auto simp: keeps_journal_def intro: sound_journal_only dest: sound_atD)
qed (rule assms(2))

lemma sound_current:
  assumes "triple (sound_at c s) (k s) Q (\<lambda>_. sound)"
  shows "triple (sound_at c s) (bind (current_state c) k) Q (\<lambda>_. sound)"
  by (rule triple_cong [OF _ assms]) (simp add: bind_Inr current_state_at sound_at_def)

lemma sound_store_result: "triple (sound_at c s) (store_result E c r) (\<lambda>_. sound_at c s) (\<lambda>_. sound)"
  unfolding store_result_def
proof (rule triple_bind)
  show "triple (sound_at c s) (write_stamp E) (\<lambda>_. sound_at c s) (\<lambda>_. sound)"
    by (auto simp: triple_def write_stamp_def intro: sound_journal_only)
  show "triple (sound_at c s) (case x of (ts, ending) \<Rightarrow> on_journal (journal_store_result c r ts ending))
      (\<lambda>_. sound_at c s) (\<lambda>_. sound)" for x
    using journal_store_result_ok state_of_store_result
    by (intro triple_split tripleI)
      (force simp: on_journal_def sound_at_def sound_def cur_def split: prod.splits dest: arg_cong [where f = snd])+
qed

lemma sound_store: "keeps_sound c s (store_and_return E c r)"
  unfolding store_and_return_def
  by (rule triple_bind [OF sound_store_result]) (auto intro: triple_ret dest: sound_atD)

lemma sound_unknown_store: "keeps_sound c s (bind (unknown_result E c code msg) (store_and_return E c))"
  by (intro sound_keeps keeps_unknown_result sound_store)

lemma sound_ret: "keeps_sound c s (ret x)"
  by (rule triple_ret) (erule sound_atD)

lemma sound_raise: "keeps_sound c s (raise e)"
  by (rule triple_raise) (erule sound_atD)

lemma sound_only: "pres keeps_journal m \<Longrightarrow> keeps_sound c s m"
  using presD by (intro tripleI) (fastforce simp: keeps_journal_def sound_at_def sound_def)+

lemma keeps_evidence_float [pres_rules]: "pres keeps_journal (evidence_float d k)"
  unfolding evidence_float_def by (intro pres_rules keeps_journal_preorder)

lemma keeps_result_for_discovered: "pres keeps_journal (result_for_discovered G c s)"
  unfolding result_for_discovered_def Let_def by (intro pres_rules keeps_journal_preorder)

text \<open>Starting a method.\<close>

lemma sound_stored:
  assumes "k None = raise e" and "\<And>stored. keeps_sound c (s_state stored) (k (Some stored))"
  shows "triple sound (bind (stored_command (c_command_id c)) k) (\<lambda>_. sound) (\<lambda>_. sound)"
proof (rule triple_bind)
  show "triple sound (stored_command (c_command_id c))
      (\<lambda>x w. sound w \<and> get_command (w_journal w) (c_command_id c) = x) (\<lambda>_. sound)"
    by (simp add: triple_def stored_command_def gets_def)
  show "triple (\<lambda>w. sound w \<and> get_command (w_journal w) (c_command_id c) = x) (k x) (\<lambda>_. sound) (\<lambda>_. sound)" for x
  proof (cases x)
    case None
    then show ?thesis using assms(1) by (auto intro: triple_raise)
  next
    case (Some stored)
    show ?thesis
      unfolding Some
      by (rule triple_pre [OF assms(2)]) (auto simp: sound_at_def cur_def dest: get_command_Some_state)
  qed
qed

section \<open>The methods\<close>

context executor_contract
begin

lemmas sound_ports = sound_keeps [OF submit_journal] sound_keeps [OF position_journal]
  sound_keeps [OF attach_journal] sound_keeps [OF close_journal] sound_keeps [OF reconcile_journal]

lemma emergency_close_sound: "keeps_sound c MODIFYING (emergency_close G c pid)"
  unfolding emergency_close_def Let_def
  by (intro sound_line sound_ports legal_move_refl triple_if sound_transition sound_store sound_unknown_store)

lemma attach_loop_sound: "keeps_sound c MODIFYING (attach_loop G c r pos n k)"
proof (induction k arbitrary: n)
  case 0
  show ?case by simp (intro sound_line legal_move_refl emergency_close_sound)
next
  case (Suc k)
  show ?case
    by simp (intro sound_line sound_ports legal_move_refl triple_if sound_transition Suc.IH
        sound_keeps [OF keeps_with_sl_confirmed] sound_store)
qed

lemma ensure_sl_protection_sound:
  assumes "s = FILLED \<or> s = PARTIALLY_FILLED"
  shows "keeps_sound c s (ensure_sl_protection G c r)"
proof -
  have legal: "legal_move s FILLED" using assms by (auto simp: legal_move_def exec_step_iff)
  show ?thesis
    unfolding ensure_sl_protection_def Let_def
    by (intro sound_ports triple_case_option triple_if sound_line [OF legal] sound_unknown_store
        sound_keeps [OF keeps_with_sl_confirmed] sound_store sound_transition)
      (drule transition_known, simp add: attach_loop_sound)
qed

lemma post_fill_sound: "keeps_sound c SUBMITTED (post_fill G c r)"
proof -
  let ?Q = "\<lambda>_ w. \<exists>s. sound_at c s w \<and> (s = FILLED \<or> s = PARTIALLY_FILLED)"
  have part: "triple (sound_at c SUBMITTED)
       (bind (record_transition (eng_env G) c PARTIAL_FILL None []) (\<lambda>_.
        bind (record_line (eng_env G) c et PARTIALLY_FILLED p) (\<lambda>_. ret ()))) ?Q (\<lambda>_. sound)" for et p
    by (intro sound_transition sound_line triple_ret) (auto dest: transition_known)
  have full: "triple (sound_at c SUBMITTED)
       (bind (record_transition (eng_env G) c FULL_FILL None []) (\<lambda>_. ret ())) ?Q (\<lambda>_. sound)"
    by (intro sound_transition triple_ret) (auto dest: transition_known)
  show ?thesis
    unfolding post_fill_def Let_def
    by (rule triple_bind [OF triple_if [OF part full]])
      (intro triple_ex triple_pure ensure_sl_protection_sound)
qed

lemma resolve_sound: "keeps_sound c UNKNOWN (resolve_reconciliation G c out st hint)"
proof -
  let ?fresh = "bind (now_iso (eng_env G)) (\<lambda>ts.
      bind (evidence_float (o_evidence out) ''filled_volume'') (\<lambda>vol.
      bind (evidence_float (o_evidence out) ''fill_price'') (\<lambda>price.
      ret (result_filled (c_command_id c) (c_trade_id c) ts None 0 vol price False))))"
  have fill: "keeps_sound c s
     (bind (case hint of Some h \<Rightarrow> if r_status h = R_FILLED \<or> r_status h = R_PARTIALLY_FILLED then ret h else ?fresh
            | None \<Rightarrow> ?fresh) (ensure_sl_protection G c))" if "s = FILLED \<or> s = PARTIALLY_FILLED" for s
    by (rule sound_keeps) (intro pres_rules keeps_journal_preorder, rule ensure_sl_protection_sound [OF that])
  have pending: "keeps_sound c SUBMITTED
     (bind (record_line (eng_env G) c et SUBMITTED p) (\<lambda>_. unknown_result (eng_env G) c code msg))" for et p code msg
    by (intro sound_line legal_move_refl sound_only keeps_unknown_result)
  have "keeps_sound c st
     (if st = FILLED \<or> st = PARTIALLY_FILLED then
        bind (case hint of Some h \<Rightarrow> if r_status h = R_FILLED \<or> r_status h = R_PARTIALLY_FILLED then ret h else ?fresh
              | None \<Rightarrow> ?fresh) (ensure_sl_protection G c)
      else if st = SUBMITTED then
        bind (record_line (eng_env G) c et SUBMITTED p) (\<lambda>_. unknown_result (eng_env G) c code msg)
      else bind (result_for_discovered G c st) (store_and_return (eng_env G) c))" for et p code msg
    by (intro triple_if fill sound_keeps [OF keeps_result_for_discovered] sound_store) (simp_all add: pending)
  then show ?thesis
    unfolding resolve_reconciliation_def Let_def
    by (intro sound_transition) (auto dest!: transition_known)
qed

lemma reconcile_then_retry_sound:
  assumes "keeps_sound c SUBMITTED again"
  shows "keeps_sound c SUBMITTED (reconcile_then_retry G c r again)"
  unfolding reconcile_then_retry_def Let_def
  by (intro sound_ports sound_current sound_line legal_move_refl triple_if triple_case_option
      assms sound_transition sound_unknown_store) (drule transition_known, simp add: resolve_sound)

lemma submit_attempt_sound:
  assumes "\<And>k. again = Some k \<Longrightarrow> keeps_sound c SUBMITTED k"
  shows "keeps_sound c SUBMITTED (submit_attempt G c n again)"
  unfolding submit_attempt_def Let_def
  by (intro sound_ports sound_current sound_line legal_move_refl triple_if triple_case_option post_fill_sound
      sound_transition sound_store reconcile_then_retry_sound assms)

lemma submit_loop_sound: "keeps_sound c SUBMITTED (submit_loop G c n k)"
  by (induction k arbitrary: n) (auto intro!: submit_attempt_sound)

lemma submit_gates_sound:
  assumes "keeps_sound c SUBMITTED go"
  shows "keeps_sound c s (submit_gates G c stored go)"
proof -
  have first: "triple (sound_at c s)
     (if s_state stored = CREATED
      then bind (record_transition (eng_env G) c VALIDATE_OK None []) (\<lambda>_. ret ()) else ret ())
     (\<lambda>_ w. \<exists>s. sound_at c s w) (\<lambda>_. sound)"
    by (intro triple_if sound_transition triple_ret) auto
  have rest: "keeps_sound c u
     (bind (now_us (eng_env G)) (\<lambda>now.
        if is_expired_command (eng_env G) c now then
          bind (record_transition (eng_env G) c EXPIRE None []) (\<lambda>_.
          bind (now_iso (eng_env G)) (\<lambda>ts.
          store_and_return (eng_env G) c (result_expired (c_command_id c) (c_trade_id c) ts ''command expired'')))
        else bind (record_transition (eng_env G) c SUBMIT None []) (\<lambda>_. go)))" for u
    by (intro sound_keeps [OF keeps_now(2)] sound_keeps [OF keeps_now(1)] triple_if sound_transition sound_store)
      (drule transition_known, simp add: assms)
  show ?thesis
    unfolding submit_gates_def Let_def
    by (intro triple_if sound_transition sound_keeps [OF keeps_now(1)] sound_store triple_bind [OF first]
        triple_ex rest)
qed

lemma submit_sound: "triple sound (submit G c) (\<lambda>_. sound) (\<lambda>_. sound)"
  unfolding submit_def Let_def
  by (rule sound_stored, simp)
    (auto intro!: triple_case_option triple_if sound_raise sound_ret sound_only keeps_unknown_result submit_gates_sound
      submit_loop_sound split: option.split)

lemma close_loop_sound: "keeps_sound c s (close_loop G c pid reason n k)"
proof (induction k arbitrary: n)
  case 0
  show ?case by simp (intro sound_transition sound_unknown_store)
next
  case (Suc k)
  show ?case
    by simp (intro sound_ports sound_current sound_line legal_move_refl triple_if sound_transition sound_store Suc.IH)
qed

lemma close_sound: "triple sound (close G c pid reason) (\<lambda>_. sound) (\<lambda>_. sound)"
  unfolding close_def
  by (rule sound_stored, simp) (auto intro!: triple_if sound_raise sound_ret close_loop_sound split: option.split)

lemma reconcile_sound: "triple sound (reconcile G c) (\<lambda>_. sound) (\<lambda>_. sound)"
proof -
  have body: "keeps_sound c UNKNOWN
     (bind (port_reconcile (eng_ports G) c None) (\<lambda>out.
      bind (record_line (eng_env G) c ''RECONCILIATION_QUERY'' UNKNOWN
        [(''outcome'', PDict (o_evidence out)), (''ambiguous'', PBool (o_ambiguous out))]) (\<lambda>_.
      case (if o_ambiguous out then None else o_discovered_state out) of
        None \<Rightarrow>
          bind (record_line (eng_env G) c ''RECONCILIATION_AMBIGUOUS'' UNKNOWN
            [(''evidence'', PDict (o_evidence out))]) (\<lambda>_.
          bind (unknown_result (eng_env G) c RECONCILIATION_PENDING
            ''reconciliation inconclusive; broker truth unreachable'') (\<lambda>fallback.
          bind (store_result (eng_env G) c fallback) (\<lambda>_.
          bind (gets (\<lambda>w. get_result (w_journal w) (c_command_id c))) (\<lambda>again.
          ret (case again of None \<Rightarrow> fallback | Some r \<Rightarrow> r)))))
      | Some st \<Rightarrow> resolve_reconciliation G c out st None)))"
    by (intro sound_ports sound_line legal_move_refl triple_case_option resolve_sound
        sound_keeps [OF keeps_unknown_result] triple_bind [OF sound_store_result] sound_only pres_rules
        keeps_journal_preorder)
  show ?thesis
    unfolding reconcile_def Let_def
    by (rule sound_stored, simp) (auto intro!: triple_if sound_raise body)
qed

lemma create_command_sound: "triple sound (create_command G p) (\<lambda>_. sound) (\<lambda>_. sound)"
proof -
  have reads: "triple sound m (\<lambda>_. sound) (\<lambda>_. sound)" if "pres keeps_journal m" for m :: "('a, 'x) act"
    using presD [OF that] by (intro tripleI) (fastforce simp: keeps_journal_def sound_def)+
  have keeps: "pres keeps_journal (gets f)" "pres keeps_journal (new_command_id E)"
    for f :: "'a world \<Rightarrow> 'x" and E
    by (simp_all add: pres_def keeps_journal_def gets_def new_command_id_def)
  have insert: "triple sound (on_journal (journal_create_command c ts x)) (\<lambda>_. sound_at c CREATED) (\<lambda>_. sound)"
    for c ts x
  proof (rule tripleI)
    fix w :: "'a world" and e w' assume "sound w" and "on_journal (journal_create_command c ts x) w = (Inl e, w')"
    then show "sound w'" using journal_create_error by (fastforce simp: on_journal_def sound_def split: prod.splits)
  next
    fix w :: "'a world" and y :: unit and w'
    assume w: "sound w" and "on_journal (journal_create_command c ts x) w = (Inr y, w')"
    then have run: "journal_create_command c ts x (w_journal w) = (Inr (), w_journal w')"
      by (auto simp: on_journal_def split: prod.splits)
    have "journal_ok (w_journal w')" using create_command_ok [OF _ run] w by (simp add: sound_def)
    moreover have "cur c w' = Some CREATED"
      using create_command_rows(1,4) [OF run]
      by (auto simp: cur_def state_of_def find_by_append find_by_Cons find_by_None [THEN iffD2])
    ultimately show "sound_at c CREATED w'" by (simp add: sound_at_def sound_def)
  qed
  show ?thesis
    unfolding create_command_def Let_def
    by (intro triple_if triple_raise triple_bind [OF reads [OF keeps_now(2)]] triple_bind [OF reads [OF keeps(1)]]
        triple_bind [OF reads [OF keeps(2)]] triple_bind [OF reads [OF keeps_now(1)]]
        triple_bind [OF reads [OF keeps_now(3)]] triple_split triple_bind [OF insert] sound_line legal_move_refl sound_ret)
qed

end

end
