(* ===== verification/ExecClaims.thy ===== *)
theory ExecClaims
  imports ExecSim ExecSound
begin

text \<open>
  The properties of the execution layer, over every executor that honours the contract and, where
  the broker's book matters, over the simulated one: one invariant for the whole life of a command,
  idempotent replay, commands in flight and the append-only audit.
\<close>

section \<open>A concrete world for the witnesses\<close>

definition demo_env :: env where
  "demo_env = \<lparr>clock_text = (\<lambda>n. ''2026-01-01''), clock_us = (\<lambda>n. 0),
     uuid_text = (\<lambda>n. ''00000000-0000-4000-8000-000000000001''),
     parse_iso = (\<lambda>s. if s = ''2026-01-01'' then Some 0 else if s = ''2026-01-02'' then Some 86400000000 else None),
     write_end = (\<lambda>n. Committed)\<rparr>"

definition demo_command :: command where
  "demo_command =
     \<lparr>c_command_id = ''00000000-0000-4000-8000-000000000001'',
      c_trade_id = ''00000000-0000-4000-8000-000000000002'', c_symbol = ''XAUUSD'', c_direction = ''BUY'',
      c_volume = Fin (1 / 8), c_entry_type = MARKET, c_sl = Fin 4390, c_created_at = ''2026-01-01'',
      c_expires_at = ''2026-01-02''\<rparr>"

definition demo_journal :: journal where
  "demo_journal = snd (journal_create_command demo_command ''2026-01-01'' Committed empty_journal)"

definition demo_world :: "sim world" where
  "demo_world = \<lparr>w_journal = demo_journal, w_clock = 0, w_uuids = 1,
     w_broker = new_sim default_scenario False False None\<rparr>"

definition demo_engine :: "sim engine" where
  "demo_engine = sim_engine demo_env default_exec_config"

lemma demo_ports_ok: "ports_ok (eng_ports demo_engine)"
  unfolding demo_engine_def using sim_exec.executor_contract_axioms by (simp add: executor_contract_iff)

lemma demo_world_open: "open_at demo_command CREATED demo_world"
proof -
  have run: "journal_create_command demo_command ''2026-01-01'' Committed empty_journal = (Inr (), demo_journal)"
    by (simp add: demo_journal_def journal_create_command_def empty_journal_def)
  have "journal_ok demo_journal" using create_command_ok [OF empty_journal_ok run] .
  moreover have "results_agree demo_journal"
    by (simp add: results_agree_def demo_journal_def journal_create_command_def empty_journal_def)
  moreover have "find_by row_command_id (c_command_id demo_command) (j_commands demo_journal)
      = Some (hd (j_commands demo_journal))"
    by (simp add: demo_journal_def journal_create_command_def empty_journal_def find_by_Cons)
  ultimately show ?thesis
    by (simp add: inv_defs open_result_def state_of_def get_result_def get_command_def row_to_stored_def
      demo_world_def) (simp add: demo_journal_def journal_create_command_def empty_journal_def)
qed

lemma demo_world_ok: "engine_ok demo_world"
  using demo_world_open by (rule open_at_engine_ok)

section \<open>The invariant of every operation\<close>

text \<open>What an operation leaves behind: a well-formed journal in any case; and where the stored results
  agreed with the states, they still do, unless the operation was ended by a failure of the journal.\<close>

definition invariant_after :: "('b, 'a) act \<Rightarrow> 'b world \<Rightarrow> bool" where
  "invariant_after m w \<longleftrightarrow> journal_ok (w_journal (snd (m w)))
     \<and> (engine_ok w \<longrightarrow> engine_ok (snd (m w)) \<or> (\<exists>e. fst (m w) = Inl e \<and> journal_failure e))"

lemma sound_run:
  assumes "triple sound m (\<lambda>_. sound) (\<lambda>_. sound)" and "journal_ok (w_journal w)"
  shows "journal_ok (w_journal (snd (m w)))"
proof (cases "m w")
  case (Pair r w')
  have "sound w" using assms(2) by (simp add: sound_def)
  then have "sound w'"
    using Pair triple_Inr [OF assms(1)] triple_Inl [OF assms(1)] by (cases r) blast+
  then show ?thesis using Pair by (simp add: sound_def)
qed

lemma invariant_run:
  assumes "triple sound m (\<lambda>_. sound) (\<lambda>_. sound)" and "triple engine_ok m Q failed_ok"
    and "\<And>x w. Q x w \<Longrightarrow> engine_ok w" and "journal_ok (w_journal w)"
  shows "invariant_after m w"
proof (cases "m w")
  case (Pair r w')
  have "engine_ok w' \<or> (\<exists>e. r = Inl e \<and> journal_failure e)" if w: "engine_ok w"
    using Pair assms(3) triple_Inr [OF assms(2) w] triple_Inl [OF assms(2) w]
    by (cases r) (auto simp: failed_ok_def engine_ok_def)
  then show ?thesis using Pair sound_run [OF assms(1,4)] by (simp add: invariant_after_def)
qed

lemma answered_ok: "answered c r w \<Longrightarrow> engine_ok w"
  by (simp add: answered_def)

lemma engine_contract: "ports_ok (eng_ports G) \<Longrightarrow> executor_contract G"
  by (simp add: executor_contract_iff)

text \<open>C1. Over any executor whose operations leave the journal's tables alone (the hypothesis
  \<open>ports_ok\<close>), every engine operation, whether it returns or raises at any point and whichever write of
  the journal fails on the way, leaves the journal well formed: unique ids, one active command per trade,
  gap-free sequence, projection equal to the last audited state, every audited history a run of the
  lifecycle. Where every stored final result agreed with the journaled state before, it does after, with
  two exceptions, both disclosed as findings: a write of the journal that fails raises \<open>JournalError\<close> out
  of the operation and may leave a stored result behind the recorded state; and a submission that the
  executor itself answers CLOSED, which the protocol does not forbid, is stored with the state UNKNOWN.\<close>

theorem engine_operations_keep_invariant:
  fixes G :: "'a engine"
  assumes "ports_ok (eng_ports G)" and "journal_ok (w_journal w)"
  shows "invariant_after (create_command G p) w \<and> invariant_after (close G c pid reason) w
    \<and> invariant_after (reconcile G c) w
    \<and> (invariant_after (submit G c) w
       \<or> \<not> never_closes (eng_ports G) \<and> journal_ok (w_journal (snd (submit G c w)))
         \<and> (\<exists>r. fst (submit G c w) = Inr r \<and> r_status r = R_CLOSED \<and> cur c (snd (submit G c w)) = Some UNKNOWN))"
proof -
  note ec = engine_contract [OF assms(1)]
  note submit = executor_contract.submit_triple [OF ec]
    and jok = sound_run [OF executor_contract.submit_sound [OF ec] assms(2), of c]
  have create: "invariant_after (create_command G p) w"
    by (rule invariant_run [OF executor_contract.create_command_sound [OF ec]
        executor_contract.create_command_triple [OF ec] open_at_engine_ok assms(2)])
  moreover have "invariant_after (close G c pid reason) w"
    by (rule invariant_run [OF executor_contract.close_sound [OF ec]
        executor_contract.close_triple [OF ec] answered_ok assms(2)])
  moreover have "invariant_after (reconcile G c) w"
    by (rule invariant_run [OF executor_contract.reconcile_sound [OF ec]
        executor_contract.reconcile_triple [OF ec] answered_ok assms(2)])
  moreover have "invariant_after (submit G c) w
       \<or> \<not> never_closes (eng_ports G)
         \<and> (\<exists>r. fst (submit G c w) = Inr r \<and> r_status r = R_CLOSED \<and> cur c (snd (submit G c w)) = Some UNKNOWN)"
  proof (cases "submit G c w")
    case (Pair r w')
    then show ?thesis
      using jok triple_Inr [OF submit, of w c _ w'] triple_Inl [OF submit, of w c _ w']
      by (cases r) (auto simp: invariant_after_def submitted_def failed_ok_def engine_ok_def answered_def)
  qed
  ultimately show ?thesis using jok by blast
qed

theorem engine_operations_keep_invariant_witness:
  "invariant_after (submit demo_engine demo_command) demo_world
   \<and> invariant_after (close demo_engine demo_command ''POS-000002'' SL_STOP) demo_world"
proof -
  have "journal_ok (w_journal demo_world)" using demo_world_ok by (simp add: engine_ok_def)
  moreover have "never_closes (eng_ports demo_engine)" by (simp add: demo_engine_def sim_never_closes)
  ultimately show ?thesis using engine_operations_keep_invariant [OF demo_ports_ok, of demo_world] by blast
qed

text \<open>C2. What a submission answers is what is journaled, over any executor that leaves the journal alone
  and from a journal whose results agree with its states: FILLED is only ever answered with the stop loss
  confirmed and the command in state FILLED, REJECTED, FAILED and EXPIRED only in the state of that name,
  a partial fill is never a final answer, and every answer but UNKNOWN is the stored result. CLOSED is
  answered only in state CLOSED, unless the executor itself answers CLOSED to a submission, which the
  \<open>Executor\<close> protocol does not forbid: that answer is stored while the command is UNKNOWN.\<close>

theorem submit_answer_is_journaled:
  assumes "ports_ok (eng_ports G)" and "engine_ok w" and "submit G c w = (Inr r, w')"
  shows "r_status r \<noteq> R_PARTIALLY_FILLED
    \<and> (r_status r = R_FILLED \<longrightarrow> r_sl_applied r \<and> cur c w' = Some FILLED)
    \<and> (r_status r = R_CLOSED \<longrightarrow> cur c w' = Some CLOSED
         \<or> \<not> never_closes (eng_ports G) \<and> cur c w' = Some UNKNOWN)
    \<and> (r_status r = R_REJECTED \<longrightarrow> cur c w' = Some REJECTED)
    \<and> (r_status r = R_FAILED \<longrightarrow> cur c w' = Some FAILED)
    \<and> (r_status r = R_EXPIRED \<longrightarrow> cur c w' = Some EXPIRED)
    \<and> (r_status r \<noteq> R_UNKNOWN \<longrightarrow> get_result (w_journal w') (c_command_id c) = Some r)"
proof -
  have "submitted G c r w'"
    by (rule triple_Inr [OF executor_contract.submit_triple [OF engine_contract [OF assms(1)]] assms(2,3)])
  then show ?thesis by (cases "r_status r") (auto simp: submitted_def answered_def agrees_def)
qed

lemma get_result_command:
  "get_result j cid = Some r \<Longrightarrow> \<exists>st. get_command j cid = Some st \<and> s_result st = Some r"
  by (auto simp: get_result_def split: option.splits)

lemma submit_replay:
  assumes "get_result (w_journal w) (c_command_id c) = Some r"
  shows "submit G c w = (Inr r, w)"
  using get_result_command [OF assms] by (auto simp: submit_def Let_def stored_command_def eff_simps)

text \<open>C5. Idempotency: once a submission has answered anything but UNKNOWN, submitting the command
  again, any number of times, returns the same result and touches neither the journal nor the broker.\<close>

theorem submit_is_idempotent:
  assumes "ports_ok (eng_ports G)" and "engine_ok w" and "submit G c w = (Inr r, w')"
    and "r_status r \<noteq> R_UNKNOWN"
  shows "((\<lambda>v. snd (submit G c v)) ^^ n) w' = w' \<and> submit G c w' = (Inr r, w')"
proof -
  have "submitted G c r w'"
    by (rule triple_Inr [OF executor_contract.submit_triple [OF engine_contract [OF assms(1)]] assms(2,3)])
  then have "submit G c w' = (Inr r, w')" using assms(4) by (auto simp: submitted_def answered_def submit_replay)
  then show ?thesis by (induction n) simp_all
qed

text \<open>C7. A command that is in flight (SUBMITTED or UNKNOWN, no result yet) is never sent again:
  submitting it answers UNKNOWN with AMBIGUOUS_RESPONSE and leaves journal and broker untouched.\<close>

theorem in_flight_never_resent:
  assumes "cur c w = Some s" and "s = SUBMITTED \<or> s = UNKNOWN"
    and "get_result (w_journal w) (c_command_id c) = None"
  shows "\<exists>r w'. submit G c w = (Inr r, w') \<and> r_status r = R_UNKNOWN
    \<and> r_error_code r = Some ''AMBIGUOUS_RESPONSE'' \<and> w_journal w' = w_journal w \<and> w_broker w' = w_broker w"
proof -
  obtain st where st: "get_command (w_journal w) (c_command_id c) = Some st" "s_state st = s"
    using assms(1) get_command_state [of "w_journal w" "c_command_id c"] by (auto simp: cur_def)
  then have "s_result st = None" using assms(3) by (simp add: get_result_def)
  then show ?thesis
    using st assms(2)
    by (auto simp: submit_def Let_def stored_command_def eff_simps unknown_result_def now_iso_def bind_def ret_def
      is_terminal_state_def terminal_states_def result_defs)
qed

section \<open>Append-only audit\<close>

definition log_extends :: "'b world \<Rightarrow> 'b world \<Rightarrow> bool" where
  "log_extends w w' \<longleftrightarrow> prefix (j_log (w_journal w)) (j_log (w_journal w'))"

lemma log_extends_preorder [pres_rules]: "preorder_rel log_extends"
  by (auto simp: preorder_rel_def log_extends_def)

lemma keeps_log: "pres keeps_journal m \<Longrightarrow> pres log_extends m"
  by (simp add: pres_def keeps_journal_def log_extends_def)

lemma log_record_line [pres_rules]: "pres log_extends (record_line E c et st p)"
proof (rule presI)
  fix w
  obtain r w' where run: "record_line E c et st p w = (r, w')" by fastforce
  then show "log_extends w (snd (record_line E c et st p w))"
    using record_line_cases [OF run] journal_record_log(2) by (fastforce simp: log_extends_def)
qed

lemma log_store [pres_rules]: "pres log_extends (store_result E c r)"
  by (simp add: pres_def log_extends_def store_result_def bind_def write_stamp_def on_journal_def
    journal_store_result_def split: write_outcome.split)

lemma log_create [pres_rules]: "pres log_extends (on_journal (journal_create_command c ts x))"
  by (simp add: pres_def log_extends_def on_journal_def journal_create_command_def
    split: prod.split write_outcome.split)

lemma log_reads [pres_rules]:
  "pres log_extends (now_iso E)" "pres log_extends (now_us E)" "pres log_extends (new_command_id E)"
  "pres log_extends (write_stamp E)"
  by (simp_all add: pres_def log_extends_def now_iso_def now_us_def new_command_id_def write_stamp_def)

lemma pres_of_sum [pres_rules]: "preorder_rel R \<Longrightarrow> pres R (of_sum x)"
  unfolding of_sum_def by (intro pres_rules)

lemma log_transition [pres_rules]: "pres log_extends (record_transition E c ev t p)"
  unfolding record_transition_def current_state_def by (intro pres_rules)

lemma log_results [pres_rules]:
  "pres log_extends (unknown_result E c code msg)" "pres log_extends (with_sl_confirmed E r)"
  "pres log_extends (store_and_return E c r)" "pres log_extends (current_state c)"
  "pres log_extends (stored_command cid)" "pres log_extends (evidence_float d k)"
  unfolding unknown_result_def with_sl_confirmed_def store_and_return_def current_state_def
    stored_command_def evidence_float_def
  by (intro pres_rules)+

context executor_contract
begin

lemmas log_ports = submit_journal [THEN keeps_log] position_journal [THEN keeps_log]
  attach_journal [THEN keeps_log] close_journal [THEN keeps_log] reconcile_journal [THEN keeps_log]

lemma log_emergency: "pres log_extends (emergency_close G c pid)"
  unfolding emergency_close_def Let_def by (intro pres_rules log_ports)

lemma log_attach: "pres log_extends (attach_loop G c r pos n k)"
  by (induction k arbitrary: n) (simp_all, (intro pres_rules log_ports log_emergency | assumption)+)

lemma log_ensure: "pres log_extends (ensure_sl_protection G c r)"
  unfolding ensure_sl_protection_def Let_def by (intro pres_rules log_ports log_attach)

lemma log_post_fill: "pres log_extends (post_fill G c r)"
  unfolding post_fill_def Let_def by (intro pres_rules log_ensure)

lemma log_resolve: "pres log_extends (resolve_reconciliation G c out st h)"
  unfolding resolve_reconciliation_def result_for_discovered_def Let_def
  by (intro pres_rules log_ensure)

lemma log_attempt:
  "(\<And>k. again = Some k \<Longrightarrow> pres log_extends k) \<Longrightarrow> pres log_extends (submit_attempt G c n again)"
proof (cases again)
  case None
  show ?thesis
    unfolding submit_attempt_def Let_def None option.case by (intro pres_rules log_ports log_post_fill)
next
  case (Some k)
  assume "\<And>k. again = Some k \<Longrightarrow> pres log_extends k"
  then have k: "pres log_extends k" using Some by simp
  show ?thesis
    unfolding submit_attempt_def reconcile_then_retry_def Let_def Some option.case
    by (intro pres_rules log_ports log_post_fill log_resolve k)
qed

lemma log_submit_loop: "pres log_extends (submit_loop G c n k)"
  by (induction k arbitrary: n) (auto intro!: log_attempt)

lemma log_submit: "pres log_extends (submit G c)"
  unfolding submit_def submit_gates_def Let_def by (intro pres_rules log_submit_loop)

lemma log_close_loop: "pres log_extends (close_loop G c pid reason n k)"
  by (induction k arbitrary: n) (simp_all, (intro pres_rules log_ports | assumption)+)

lemma log_close: "pres log_extends (close G c pid reason)"
  unfolding close_def by (intro pres_rules log_close_loop)

lemma log_reconcile: "pres log_extends (reconcile G c)"
  unfolding reconcile_def Let_def by (intro pres_rules log_ports log_resolve)

lemma log_create_command: "pres log_extends (create_command G p)"
  unfolding create_command_def Let_def by (intro pres_rules) (auto intro!: pres_rules)

end

text \<open>The audit is append-only: whatever an operation of the engine does, and however it ends,
  every journal line written before is still there, unchanged and in its place.\<close>

theorem audit_is_append_only:
  assumes "ports_ok (eng_ports G)"
  shows "prefix (j_log (w_journal w)) (j_log (w_journal (snd (create_command G p w))))
    \<and> prefix (j_log (w_journal w)) (j_log (w_journal (snd (submit G c w))))
    \<and> prefix (j_log (w_journal w)) (j_log (w_journal (snd (close G c pid reason w))))
    \<and> prefix (j_log (w_journal w)) (j_log (w_journal (snd (reconcile G c w))))"
  using executor_contract.log_create_command [OF engine_contract [OF assms]]
    executor_contract.log_submit [OF engine_contract [OF assms]]
    executor_contract.log_close [OF engine_contract [OF assms]]
    executor_contract.log_reconcile [OF engine_contract [OF assms]]
  by (simp add: pres_def log_extends_def)

theorem audit_is_append_only_witness:
  "prefix (j_log (w_journal demo_world)) (j_log (w_journal (snd (submit demo_engine demo_command demo_world))))"
  using audit_is_append_only [OF demo_ports_ok, of demo_world] by blast

end
