(* ===== verification/ExecSafety.thy ===== *)
theory ExecSafety
  imports ExecClaims
begin

text \<open>
  Safety of the execution engine towards the broker: the executor is called only while SUBMITTED is
  the durable state (write-ahead), a bounded number of times, new entries are refused while any
  command is unresolved, restart recovery never classifies a command as safe to send that may have
  been sent, and the one path on which a position stays open without a stop loss.
\<close>

section \<open>Write-ahead submission\<close>

text \<open>The same engine with an executor that refuses to submit unless the journaled state of the
  command is SUBMITTED at the moment of the call.\<close>

definition guarded :: "'b engine \<Rightarrow> 'b engine" where
  "guarded G = G\<lparr>eng_ports := (eng_ports G)\<lparr>port_submit :=
     (\<lambda>c w. if cur c w = Some SUBMITTED then port_submit (eng_ports G) c w else (Inl PyTypeError, w))\<rparr>\<rparr>"

lemma guarded_simps [simp]:
  "eng_env (guarded G) = eng_env G" "eng_config (guarded G) = eng_config G"
  "port_position (eng_ports (guarded G)) = port_position (eng_ports G)"
  "port_attach (eng_ports (guarded G)) = port_attach (eng_ports G)"
  "port_close (eng_ports (guarded G)) = port_close (eng_ports G)"
  "port_reconcile (eng_ports (guarded G)) = port_reconcile (eng_ports G)"
  "submit_budget (guarded G) = submit_budget G"
  by (simp_all add: guarded_def submit_budget_def)

lemma guarded_emergency: "emergency_close (guarded G) = emergency_close G"
  by (intro ext) (unfold emergency_close_def guarded_simps, rule refl)

lemma guarded_attach: "attach_loop (guarded G) c r pos n k = attach_loop G c r pos n k"
proof (induction k arbitrary: n)
  case 0
  show ?case unfolding attach_loop.simps guarded_simps guarded_emergency ..
next
  case (Suc k)
  show ?case unfolding attach_loop.simps guarded_simps Suc.IH ..
qed

lemma guarded_ensure: "ensure_sl_protection (guarded G) = ensure_sl_protection G"
  by (intro ext) (unfold ensure_sl_protection_def guarded_simps guarded_attach, rule refl)

lemma guarded_post_fill: "post_fill (guarded G) = post_fill G"
  by (intro ext) (unfold post_fill_def guarded_simps guarded_ensure, rule refl)

lemma guarded_resolve: "resolve_reconciliation (guarded G) = resolve_reconciliation G"
  by (intro ext) (unfold resolve_reconciliation_def result_for_discovered_def guarded_simps guarded_ensure, rule refl)

lemma bind_eq:
  assumes "triple P m Q E" and "\<And>x s. Q x s \<Longrightarrow> f x s = g x s" and "P s"
  shows "bind m f s = bind m g s"
proof (cases "m s")
  case (Pair r s')
  then show ?thesis
    using assms(2) triple_Inr [OF assms(1,3)] by (cases r) (auto simp: bind_def)
qed

text \<open>Two programs that agree wherever the command is journaled in a state.\<close>

definition eq_at :: "command \<Rightarrow> cmd_state \<Rightarrow> ('b, 'a) act \<Rightarrow> ('b, 'a) act \<Rightarrow> bool" where
  "eq_at c s m n \<longleftrightarrow> (\<forall>w. open_at c s w \<longrightarrow> m w = n w)"

lemma eq_at_refl [intro]: "eq_at c s m m"
  by (simp add: eq_at_def)

lemma eq_at_line:
  assumes "legal_move s t" and "\<And>x. eq_at c t (f x) (g x)"
  shows "eq_at c s (bind (record_line E c et t p) f) (bind (record_line E c et t p) g)"
  unfolding eq_at_def
  by (intro allI impI, rule bind_eq [OF triple_record_line [OF assms(1)]]) (use assms(2) in \<open>auto simp: eq_at_def\<close>)

lemma eq_at_keeps:
  assumes "pres keeps_journal m" and "\<And>x. eq_at c s (f x) (g x)"
  shows "eq_at c s (bind m f) (bind m g)"
  unfolding eq_at_def
  by (intro allI impI, rule bind_eq [OF triple_port_any(1) [OF assms(1)]]) (use assms(2) in \<open>auto simp: eq_at_def\<close>)

lemma eq_at_transition:
  assumes "\<And>t. transition s ev tgt = Inr t \<Longrightarrow> eq_at c t (f t) (g t)"
  shows "eq_at c s (bind (record_transition E c ev tgt p) f) (bind (record_transition E c ev tgt p) g)"
  unfolding eq_at_def
proof (intro allI impI)
  fix w :: "'a world" assume "open_at c s w"
  then show "bind (record_transition E c ev tgt p) f w = bind (record_transition E c ev tgt p) g w"
    by (rule bind_eq [OF triple_transition, rotated]) (use assms in \<open>auto simp: eq_at_def\<close>)
qed

lemma eq_at_if: "(b \<Longrightarrow> eq_at c s m m') \<Longrightarrow> (\<not> b \<Longrightarrow> eq_at c s n n') \<Longrightarrow>
    eq_at c s (if b then m else n) (if b then m' else n')"
  by simp

lemma eq_at_case_option:
  "(z = None \<Longrightarrow> eq_at c s m m') \<Longrightarrow> (\<And>x. z = Some x \<Longrightarrow> eq_at c s (f x) (f' x)) \<Longrightarrow>
   eq_at c s (case z of None \<Rightarrow> m | Some x \<Rightarrow> f x) (case z of None \<Rightarrow> m' | Some x \<Rightarrow> f' x)"
  by (cases z) auto

lemma eq_at_current:
  assumes "eq_at c s (f s) (g s)"
  shows "eq_at c s (bind (current_state c) f) (bind (current_state c) g)"
  unfolding eq_at_def
proof (intro allI impI)
  fix w :: "'a world" assume w: "open_at c s w"
  then have "current_state c w = (Inr s, w)" by (simp add: inv_defs current_state_at)
  then show "bind (current_state c) f w = bind (current_state c) g w"
    using assms w by (simp add: bind_Inr eq_at_def)
qed

context executor_contract
begin

lemma guarded_retry:
  assumes "eq_at c SUBMITTED k' k"
  shows "eq_at c SUBMITTED (reconcile_then_retry (guarded G) c r k') (reconcile_then_retry G c r k)"
  unfolding reconcile_then_retry_def Let_def guarded_resolve guarded_simps
  by (intro eq_at_keeps [OF reconcile_journal] eq_at_current eq_at_line legal_move_refl eq_at_if
      eq_at_case_option eq_at_refl assms)

lemma guarded_submit_step:
  assumes "\<And>x. eq_at c SUBMITTED (f x) (g x)"
  shows "eq_at c SUBMITTED (bind (port_submit (eng_ports (guarded G)) c) f)
           (bind (port_submit (eng_ports G) c) g)"
  using eq_at_keeps [where m = "port_submit (eng_ports G) c", OF submit_journal assms]
  by (simp add: eq_at_def bind_def guarded_def inv_defs)

lemma guarded_attempt:
  assumes "rel_option (eq_at c SUBMITTED) again' again"
  shows "eq_at c SUBMITTED (submit_attempt (guarded G) c n again') (submit_attempt G c n again)"
proof -
  have tail: "eq_at c SUBMITTED
       (case again' of None \<Rightarrow> u | Some next \<Rightarrow> if b then reconcile_then_retry (guarded G) c r next else u)
       (case again of None \<Rightarrow> u | Some next \<Rightarrow> if b then reconcile_then_retry G c r next else u)" for u b r
    using assms by (cases again; cases again') (auto intro: guarded_retry)
  show ?thesis
    unfolding submit_attempt_def Let_def guarded_post_fill guarded_simps
    by (intro guarded_submit_step eq_at_current eq_at_line legal_move_refl eq_at_if
        eq_at_case_option eq_at_refl tail)
qed

lemma guarded_loop: "eq_at c SUBMITTED (submit_loop (guarded G) c n k) (submit_loop G c n k)"
  by (induction k arbitrary: n) (simp_all add: guarded_attempt)

lemma guarded_gates:
  assumes "eq_at c SUBMITTED go' go"
  shows "eq_at c s (submit_gates (guarded G) c stored go') (submit_gates G c stored go)"
proof -
  have rest: "eq_at c u
     (bind (now_us (eng_env G)) (\<lambda>now. if b now then m
        else bind (record_transition (eng_env G) c SUBMIT None []) (\<lambda>_. go')))
     (bind (now_us (eng_env G)) (\<lambda>now. if b now then m
        else bind (record_transition (eng_env G) c SUBMIT None []) (\<lambda>_. go)))" for u b m
    by (intro eq_at_keeps [OF keeps_now(2)] eq_at_if eq_at_refl eq_at_transition)
      (auto dest!: transition_known intro: assms)
  have first: "eq_at c s (bind (if v then bind (record_transition E c VALIDATE_OK None []) (\<lambda>_. ret ()) else ret ()) f)
      (bind (if v then bind (record_transition E c VALIDATE_OK None []) (\<lambda>_. ret ()) else ret ()) g)"
    if "\<And>u x. eq_at c u (f x) (g x)" for v E and f g :: "unit \<Rightarrow> ('a, result) act"
  proof -
    have "triple (open_at c s) (if v then bind (record_transition E c VALIDATE_OK None []) (\<lambda>_. ret ()) else ret ())
       (\<lambda>_ w. \<exists>s. open_at c s w) failed_ok"
      by (intro triple_if bind_transition triple_ret) auto
    from bind_eq [OF this] show ?thesis using that unfolding eq_at_def by blast
  qed
  show ?thesis
    unfolding submit_gates_def Let_def guarded_simps
    by (intro eq_at_if eq_at_refl first rest)
qed

lemma guarded_submit:
  assumes "engine_ok w"
  shows "submit (guarded G) c w = submit G c w"
proof -
  have "submit_gates (guarded G) c stored (submit_loop (guarded G) c 0 (submit_budget G)) w
      = submit_gates G c stored (submit_loop G c 0 (submit_budget G)) w"
    if "get_command (w_journal w) (c_command_id c) = Some stored" "s_result stored = None" for stored
    using guarded_gates [OF guarded_loop] stored_inv(2) [OF assms that(1)] that(2)
    by (simp add: eq_at_def)
  then show ?thesis
    by (simp add: submit_def Let_def bind_def stored_command_def gets_def split: option.split)
qed

end

text \<open>C3. Write-ahead: the executor is only ever asked to submit a command while SUBMITTED is already
  the durable journaled state of that command. Replacing the executor by one that refuses every other
  call changes nothing: not the answer, the journal, nor the broker, on any path.\<close>

theorem submission_is_write_ahead:
  assumes "ports_ok (eng_ports G)" and "engine_ok w"
  shows "submit (guarded G) c w = submit G c w"
  by (rule executor_contract.guarded_submit [OF engine_contract [OF assms(1)] assms(2)])

theorem submission_is_write_ahead_witness:
  "submit (guarded demo_engine) demo_command demo_world = submit demo_engine demo_command demo_world"
  by (rule submission_is_write_ahead [OF demo_ports_ok demo_world_ok])

section \<open>Bounded broker calls\<close>

definition grows :: "('b \<Rightarrow> nat) \<Rightarrow> nat \<Rightarrow> ('b, 'a) act \<Rightarrow> bool" where
  "grows f n m \<longleftrightarrow> (\<forall>w. f (w_broker (snd (m w))) \<le> f (w_broker w) + n)"

definition steady :: "('b \<Rightarrow> nat) \<Rightarrow> 'b world \<Rightarrow> 'b world \<Rightarrow> bool" where
  "steady f w w' \<longleftrightarrow> f (w_broker w') \<le> f (w_broker w)"

lemma steady_preorder [pres_rules]: "preorder_rel (steady f)"
  by (auto simp: preorder_rel_def steady_def)

lemma grows_0: "grows f 0 m \<longleftrightarrow> pres (steady f) m"
  by (simp add: grows_def pres_def steady_def)

lemma grows_mono: "grows f n m \<Longrightarrow> n \<le> k \<Longrightarrow> grows f k m"
  by (auto simp: grows_def intro: order_trans)

lemma grows_bind:
  assumes "grows f a m" and "\<And>x. grows f b (g x)"
  shows "grows f (a + b) (bind m g)"
  unfolding grows_def
proof
  fix w
  obtain r v where m: "m w = (r, v)" by fastforce
  have a: "f (w_broker v) \<le> f (w_broker w) + a" using assms(1) m by (metis grows_def snd_conv)
  show "f (w_broker (snd (bind m g w))) \<le> f (w_broker w) + (a + b)"
  proof (cases r)
    case (Inl e)
    then show ?thesis using a by (simp add: bind_Inl [of m w e v] m)
  next
    case (Inr x)
    have "f (w_broker (snd (g x v))) \<le> f (w_broker v) + b" using assms(2) by (simp add: grows_def)
    then show ?thesis using a Inr by (simp add: bind_Inr [of m w x v] m)
  qed
qed

lemma grows_bind_0: "pres (steady f) m \<Longrightarrow> (\<And>x. grows f b (g x)) \<Longrightarrow> grows f b (bind m g)"
  using grows_bind [of f 0 m b g] by (simp add: grows_0)

lemma grows_pres: "pres (steady f) m \<Longrightarrow> grows f n m"
  using grows_mono [of f 0 m n] by (simp add: grows_0)

lemma steady_base [pres_rules]:
  "pres (steady f) (record_line E c et st p)" "pres (steady f) (store_result E c r)"
  "pres (steady f) (now_iso E)" "pres (steady f) (now_us E)"
  by (simp_all add: pres_def steady_def record_line_def store_result_def bind_def now_iso_def now_us_def
    write_stamp_def on_journal_def journal_store_result_def split: prod.split write_outcome.split)

lemma steady_ops [pres_rules]:
  "pres (steady f) (record_transition E c ev t p)" "pres (steady f) (unknown_result E c code msg)"
  "pres (steady f) (with_sl_confirmed E r)" "pres (steady f) (store_and_return E c r)"
  "pres (steady f) (current_state c)" "pres (steady f) (stored_command cid)"
  "pres (steady f) (evidence_float d k)"
  unfolding unknown_result_def with_sl_confirmed_def store_and_return_def current_state_def
    stored_command_def evidence_float_def record_transition_def of_sum_def
  by (intro pres_rules)+

text \<open>What is assumed of the counter: a submission or a close request counts at most once, and the
  other boundary operations not at all.\<close>

definition counts_submits :: "('b \<Rightarrow> nat) \<Rightarrow> 'b ports \<Rightarrow> bool" where
  "counts_submits f P \<longleftrightarrow>
     (\<forall>c. grows f 1 (port_submit P c)) \<and> (\<forall>c. grows f 0 (port_position P c))
     \<and> (\<forall>c pid sl. grows f 0 (port_attach P c pid sl)) \<and> (\<forall>c pid. grows f 0 (port_close P c pid))
     \<and> (\<forall>c h. grows f 0 (port_reconcile P c h))"

lemma steady_ports:
  assumes "counts_submits f P"
  shows "pres (steady f) (port_position P c)" "pres (steady f) (port_attach P c pid sl)"
    "pres (steady f) (port_close P c pid)" "pres (steady f) (port_reconcile P c h)"
    "grows f 1 (port_submit P c)"
  using assms by (simp_all add: counts_submits_def grows_0)

lemma steady_post_fill:
  assumes f: "counts_submits f (eng_ports G)"
  shows "pres (steady f) (post_fill G c r)" "pres (steady f) (resolve_reconciliation G c out st h)"
proof -
  have "pres (steady f) (emergency_close G c pid)" for pid
    unfolding emergency_close_def Let_def by (intro pres_rules steady_ports [OF f])
  then have "pres (steady f) (attach_loop G c r pos n k)" for r pos n k
    by (induction k arbitrary: n) (simp_all, (intro pres_rules steady_ports [OF f] | assumption)+)
  then have ensure: "pres (steady f) (ensure_sl_protection G c r)" for r
    unfolding ensure_sl_protection_def Let_def by (intro pres_rules steady_ports [OF f])
  show "pres (steady f) (post_fill G c r)"
    unfolding post_fill_def Let_def by (intro pres_rules ensure)
  show "pres (steady f) (resolve_reconciliation G c out st h)"
    unfolding resolve_reconciliation_def result_for_discovered_def Let_def by (intro pres_rules ensure)
qed

lemma grows_if: "(b \<Longrightarrow> grows f n m) \<Longrightarrow> (\<not> b \<Longrightarrow> grows f n m') \<Longrightarrow> grows f n (if b then m else m')"
  by simp

lemma grows_case_option:
  "(z = None \<Longrightarrow> grows f n m) \<Longrightarrow> (\<And>x. z = Some x \<Longrightarrow> grows f n (g x)) \<Longrightarrow>
   grows f n (case z of None \<Rightarrow> m | Some x \<Rightarrow> g x)"
  by (cases z) auto

lemma grows_attempt:
  assumes f: "counts_submits f (eng_ports G)" and again: "\<And>k. again = Some k \<Longrightarrow> grows f n k"
  shows "grows f (1 + n) (submit_attempt G c i again)"
proof -
  have plain: "pres (steady f) m \<Longrightarrow> grows f n m" for m :: "('a, result) act" by (rule grows_pres)
  have retry: "grows f n (reconcile_then_retry G c r k)" if "again = Some k" for r k
  proof -
    have k: "grows f n k" by (rule again [OF that])
    show ?thesis
      unfolding reconcile_then_retry_def Let_def
      by (intro grows_bind_0 [OF steady_ports(4) [OF f]] grows_bind_0 [OF steady_ops(5)]
          grows_bind_0 [OF steady_base(1)] grows_if grows_case_option k)
        (intro plain pres_rules steady_post_fill [OF f])+
  qed
  show ?thesis
    unfolding submit_attempt_def Let_def
    by (intro grows_bind [OF steady_ports(5) [OF f]] grows_bind_0 [OF steady_ops(5)]
        grows_bind_0 [OF steady_base(1)] grows_if grows_case_option retry)
      (assumption | intro plain pres_rules steady_post_fill [OF f])+
qed

lemma grows_loop:
  assumes f: "counts_submits f (eng_ports G)"
  shows "grows f (1 + k) (submit_loop G c i k)"
proof (induction k arbitrary: i)
  case 0
  show ?case using grows_attempt [OF f, of None 0 c i] by simp
next
  case (Suc k)
  show ?case using grows_attempt [OF f, of "Some (submit_loop G c (Suc i) k)" "1 + k" c i] Suc by simp
qed

text \<open>C11. One call of submit sends the command to the executor at most submit_retries + 1 times
  (once, where submit_retries is negative), whatever the executor answers, whatever reconciliation says and
  whichever journal write fails: any number read off the state behind the boundary that an executor
  submission raises by at most one and that no other executor or reconciliation operation raises (the
  hypothesis counts_submits, which the simulated executor's list of submissions meets) grows by at most that
  much.\<close>

theorem submit_calls_bounded:
  assumes "counts_submits f (eng_ports G)"
  shows "f (w_broker (snd (submit G c w))) \<le> f (w_broker w) + 1 + nat (submit_retries (exec_retry (eng_config G)))"
proof -
  have loop: "grows f (1 + submit_budget G) (submit_loop G c 0 (submit_budget G))"
    by (rule grows_loop [OF assms])
  have plain: "pres (steady f) m \<Longrightarrow> grows f (1 + submit_budget G) m" for m :: "('a, result) act"
    by (rule grows_pres)
  have "grows f (1 + submit_budget G) (submit G c)"
    unfolding submit_def submit_gates_def Let_def
    by (intro grows_bind_0 [OF steady_ops(6)] grows_bind_0 [OF steady_base(4)] grows_bind_0 [OF steady_ops(1)]
        grows_bind_0 [OF pres_if] grows_if grows_case_option loop)
      (intro plain pres_rules)+
  then show ?thesis by (simp add: grows_def submit_budget_def)
qed

lemma demo_counts: "counts_submits (\<lambda>b. length (sim_submit_calls b)) (eng_ports demo_engine)"
proof -
  let ?f = "\<lambda>b. length (sim_submit_calls b)"
  have mode: "pres (steady ?f) (on_sim h)" if "\<And>b. sim_submit_calls (h b) = sim_submit_calls b" for h
    by (simp add: pres_def steady_def on_sim_def that)
  have get: "pres (steady ?f) (get_sim g)" for g :: "sim \<Rightarrow> 'x"
    unfolding get_sim_def by (intro pres_rules)
  have fill: "pres (steady ?f) (fill_order E x c sc v)" "pres (steady ?f) (place_order c st)" for E x c sc v st
    unfolding fill_order_def place_order_def Let_def
    by (intro pres_rules get mode; simp add: put_order_def)+
  have fail: "pres (steady ?f) (fail_with E c code msg)" for E c code msg
    unfolding fail_with_def by (intro pres_rules)
  have sim_mode: "pres (steady ?f) (sim_mode E c sc ts)" for E c sc ts
    unfolding sim_mode_def sim_fill_def Let_def reject_def
    by (cases "sc_mode sc"; simp split del: if_split; (intro pres_rules fill mode; simp add: put_order_def)?)
  have "grows ?f (1 + 0) (sim_submit demo_env c)" for c
    unfolding sim_submit_def reject_def
  proof (rule grows_bind)
    show "grows ?f 1 (on_sim (\<lambda>b. b\<lparr>sim_submit_calls := sim_submit_calls b @ [c], sim_seq := Suc (sim_seq b)\<rparr>))"
      by (simp add: grows_def on_sim_def)
  qed (unfold grows_0, intro pres_rules get sim_mode)
  moreover have "pres (steady ?f) (sim_get_position demo_env c)" for c
    unfolding sim_get_position_def by (intro pres_rules get)
  moreover have "pres (steady ?f) (sim_attach_sl demo_env c pid sl)" for c pid sl
    unfolding sim_attach_sl_def by (intro pres_rules get fail mode) simp_all
  moreover have "pres (steady ?f) (sim_close_position demo_env c pid)" for c pid
    unfolding sim_close_position_def by (intro pres_rules get fail mode) simp_all
  moreover have "pres (steady ?f) (static_reconcile demo_env c h)" for c h
    unfolding static_reconcile_def by (intro pres_rules get mode) simp_all
  ultimately show ?thesis
    by (simp add: counts_submits_def grows_0 demo_engine_def sim_engine_def sim_ports_def)
qed

theorem submit_calls_bounded_witness:
  "length (sim_submit_calls (w_broker (snd (submit demo_engine demo_command demo_world)))) \<le> 3"
  using submit_calls_bounded [OF demo_counts, of demo_command demo_world]
  by (simp add: demo_engine_def sim_engine_def default_exec_config_def default_retry_policy_def
    demo_world_def new_sim_def)

end
