(* ===== verification/ExecEntry.thy ===== *)
theory ExecEntry
  imports ExecSafety
begin

text \<open>
  Entry, recovery and end-to-end runs of the execution layer: which plans become commands, which
  commands restart recovery may send, a complete run against the simulated broker, and the run that
  leaves a partially filled position without a stop loss.
\<close>

definition demo_plan :: trade_plan where
  "demo_plan = \<lparr>tp_trade_id = ''00000000-0000-4000-8000-000000000002'',
     tp_correlation_id = ''00000000-0000-4000-8000-000000000003'', tp_inference_id = None,
     tp_risk_evaluation_id = ''00000000-0000-4000-8000-000000000004'', tp_direction = ''BUY'',
     tp_lot = Fin (1 / 8), tp_entry_reference = Fin 4400, tp_sl = Fin 4390, tp_risk_amount = Fin 100,
     tp_risk_percent = Fin 1, tp_exposure = Fin 1000, tp_symbol = ''XAUUSD'',
     tp_generated_at = ''2026-01-01'', tp_expires_at = ''2026-01-02'', tp_policy_profile = ''default''\<rparr>"

section \<open>From plan to command\<close>

lemma recover_active:
  assumes "r \<in> set (j_commands j)" and "row_active r"
  shows "\<exists>i \<in> set (recover j). ri_command_id i = row_command_id r \<and> ri_action i = recovery_action_of (row_state r)"
  using assms by (force simp: recover_def active_commands_def row_to_stored_def)

lemma recover_members:
  "i \<in> set (recover j) \<longleftrightarrow> (\<exists>r \<in> set (j_commands j). row_active r \<and>
     i = \<lparr>ri_command_id = row_command_id r, ri_trade_id = row_trade_id r, ri_state = row_state r,
          ri_action = recovery_action_of (row_state r)\<rparr>)"
  by (auto simp: recover_def active_commands_def row_to_stored_def)

lemma pending_ids_Nil:
  "pending_reconciliation_ids j = [] \<longleftrightarrow> (\<forall>i \<in> set (recover j). ri_action i = A_NONE)"
  unfolding pending_reconciliation_ids_def
  by (auto simp: filter_empty_conv intro: recovery_action.exhaust)

text \<open>A created command is the plan, verbatim: no value is recomputed, the entry type is MARKET,
  the id is the fresh UUID, and the plan had passed every validation and was not past its expiry at
  the moment of the check; the broker is not touched and the audit gets exactly one line.\<close>

theorem create_command_verbatim:
  assumes "create_command G p w = (Inr c, w')"
  shows "c_trade_id c = tp_trade_id p \<and> c_symbol c = tp_symbol p \<and> c_direction c = tp_direction p
    \<and> c_volume c = tp_lot p \<and> c_sl c = tp_sl p \<and> c_expires_at c = tp_expires_at p \<and> c_entry_type c = MARKET
    \<and> c_command_id c = uuid_text (eng_env G) (w_uuids w)
    \<and> validate_plan (eng_env G) p = [] \<and> \<not> is_expired_plan (eng_env G) p (clock_us (eng_env G) (w_clock w))
    \<and> w_broker w' = w_broker w
    \<and> map je_event_type (j_log (w_journal w')) = map je_event_type (j_log (w_journal w)) @ [''COMMAND_CREATED'']"
  using assms
  by (auto simp: create_command_def Let_def bind_def raise_def ret_def gets_def now_us_def now_iso_def
    new_command_id_def command_of_plan_def record_line_def write_stamp_def on_journal_def
    journal_create_command_def journal_record_def split: if_splits prod.splits sum.splits write_outcome.splits)

text \<open>Fail closed: while any command is journaled as CREATED, VALIDATED, SUBMITTED or UNKNOWN, no
  plan becomes a command; every attempt raises and leaves the journal and the broker as they were.\<close>

theorem entry_blocked_while_unresolved:
  assumes "state_of (w_journal w) cid = Some s" and "s \<in> {CREATED, VALIDATED, SUBMITTED, UNKNOWN}"
  shows "\<exists>code m w'. create_command G p w = (Inl (ExecutionError code m), w')
           \<and> w_journal w' = w_journal w \<and> w_broker w' = w_broker w"
proof -
  obtain r where r: "r \<in> set (j_commands (w_journal w))" "row_state r = s"
    using assms(1) find_by_Some by (fastforce simp: state_of_def)
  have "row_active r" using r(2) assms(2) by (auto simp: row_active_def is_terminal_state_def terminal_states_def)
  moreover have "recovery_action_of (row_state r) \<noteq> A_NONE"
    using r(2) assms(2) by (auto simp: recovery_action_of_def)
  ultimately have "pending_reconciliation_ids (w_journal w) \<noteq> []"
    using recover_active [OF r(1)] unfolding pending_ids_Nil by metis
  then show ?thesis
    by (auto simp: create_command_def Let_def bind_def raise_def gets_def now_us_def)
qed

theorem entry_blocked_while_unresolved_witness:
  "\<exists>code m w'. create_command demo_engine demo_plan demo_world = (Inl (ExecutionError code m), w')
     \<and> w_journal w' = w_journal demo_world \<and> w_broker w' = w_broker demo_world"
proof (rule entry_blocked_while_unresolved)
  show "state_of (w_journal demo_world) (c_command_id demo_command) = Some CREATED"
    using demo_world_open by (simp add: inv_defs)
qed simp

section \<open>Restart recovery\<close>

lemma legal_run_early:
  assumes "legal_run ss" and "ss \<noteq> []" and "last ss \<in> {CREATED, VALIDATED}"
  shows "set ss \<subseteq> {CREATED, VALIDATED}"
  using assms
proof (induction ss rule: legal_run.induct)
  case (1 s t ss)
  then have rest: "set (t # ss) \<subseteq> {CREATED, VALIDATED}" by simp
  moreover have "legal_move s t" using 1 by simp
  ultimately show ?case by (auto simp: legal_move_def exec_step_iff)
qed auto

text \<open>Restart recovery lists exactly the active commands. One it calls safe to submit has no audit
  line beyond VALIDATED, so, submissions being write-ahead, the executor was never asked for it; every
  command that may be at the broker unresolved is listed for reconciliation.\<close>

theorem recover_is_sound:
  assumes "journal_ok j" and "i \<in> set (recover j)"
  shows "state_of j (ri_command_id i) = Some (ri_state i)
    \<and> (ri_action i = A_SUBMIT_SAFE \<longrightarrow>
        (\<forall>e \<in> set (j_log j). je_command_id e = ri_command_id i \<longrightarrow> je_state e \<in> {CREATED, VALIDATED}))
    \<and> (ri_action i = A_RECONCILE \<longleftrightarrow> ri_state i \<in> {SUBMITTED, UNKNOWN})"
proof -
  obtain r where r: "r \<in> set (j_commands j)" and i: "i = \<lparr>ri_command_id = row_command_id r,
      ri_trade_id = row_trade_id r, ri_state = row_state r, ri_action = recovery_action_of (row_state r)\<rparr>"
    using assms(2) by (auto simp: recover_members)
  have st: "state_of j (row_command_id r) = Some (row_state r)" by (rule row_state_of [OF assms(1) r])
  note hist = journal_ok_state [OF assms(1) st]
  have "je_state e \<in> {CREATED, VALIDATED}"
    if "recovery_action_of (row_state r) = A_SUBMIT_SAFE" "e \<in> set (j_log j)" "je_command_id e = row_command_id r" for e
  proof -
    have "last (history j (row_command_id r)) \<in> {CREATED, VALIDATED}"
      using that(1) hist(1) by (auto simp: recovery_action_of_def split: if_splits)
    moreover have "je_state e \<in> set (history j (row_command_id r))" using that by (auto simp: history_def)
    ultimately show ?thesis using legal_run_early [OF hist(2)] by auto
  qed
  then show ?thesis using st by (auto simp: i recovery_action_of_def)
qed

theorem recover_is_sound_witness:
  "\<exists>i \<in> set (recover demo_journal). ri_action i = A_SUBMIT_SAFE
     \<and> state_of demo_journal (ri_command_id i) = Some (ri_state i)
     \<and> (\<forall>e \<in> set (j_log demo_journal). je_command_id e = ri_command_id i \<longrightarrow> je_state e \<in> {CREATED, VALIDATED})"
proof -
  have ok: "journal_ok demo_journal" using demo_world_ok by (simp add: engine_ok_def demo_world_def)
  have "\<exists>i \<in> set (recover demo_journal). ri_action i = A_SUBMIT_SAFE"
    by (simp add: recover_def active_commands_def demo_journal_def journal_create_command_def
      empty_journal_def row_active_def is_terminal_state_def terminal_states_def row_to_stored_def
      recovery_action_of_def)
  then show ?thesis using recover_is_sound [OF ok] by blast
qed

section \<open>A partial fill without stop loss\<close>

text \<open>When a partially filled position is observed without the System stop loss, the engine
  raises \<open>ExecutionStateError\<close> right there (SL_ATTACHING is not a transition of PARTIALLY_FILLED): no
  attach, no emergency close and no other request reaches the broker, no result is stored, and the
  command stays PARTIALLY_FILLED with the position unprotected.\<close>

theorem partial_fill_unprotected:
  assumes "cur c w = Some PARTIALLY_FILLED"
    and "port_position (eng_ports G) c w = (Inr (Some pos), w1)" and "w_journal w1 = w_journal w"
    and "\<not> sl_matches pos c"
  shows "\<exists>m. ensure_sl_protection G c r w = (Inl (ExecutionStateError m), w1)"
proof -
  have cur1: "cur c w1 = Some PARTIALLY_FILLED" using assms(1,3) by (simp add: cur_def)
  have "\<exists>m. transition PARTIALLY_FILLED SL_ATTACHING None = Inl (ExecutionStateError m)"
    by (simp add: transition_def transition_table_def transitions_def reconcilable_states_def)
  then obtain m where "transition PARTIALLY_FILLED SL_ATTACHING None = Inl (ExecutionStateError m)" by blast
  then have "record_transition (eng_env G) c SL_ATTACHING None [] w1 = (Inl (ExecutionStateError m), w1)"
    by (simp add: record_transition_run [OF cur1])
  then show ?thesis
    using assms(2,4) by (simp add: ensure_sl_protection_def Let_def bind_def)
qed

section \<open>Runs that cannot fail\<close>

text \<open>A triple with no exceptional outcome, over a state of the command and a fact about the broker.\<close>

definition at_broker :: "command \<Rightarrow> cmd_state \<Rightarrow> ('b \<Rightarrow> bool) \<Rightarrow> 'b world \<Rightarrow> bool" where
  "at_broker c s B w \<longleftrightarrow> open_at c s w \<and> B (w_broker w)"

definition runs :: "('b world \<Rightarrow> bool) \<Rightarrow> ('b, 'a) act \<Rightarrow> ('a \<Rightarrow> 'b world \<Rightarrow> bool) \<Rightarrow> bool" where
  "runs P m Q \<longleftrightarrow> (\<forall>w. P w \<longrightarrow> (\<exists>x w'. m w = (Inr x, w') \<and> Q x w'))"

lemma runs_bind:
  assumes "runs P m Q" and "\<And>x. runs (Q x) (f x) R"
  shows "runs P (bind m f) R"
  using assms unfolding runs_def by (metis bind_Inr)

lemma runs_line:
  assumes "journal_never_fails E" and "legal_move s t" and "json_ok (PDict p)"
    and "\<And>n. runs (at_broker c t B) (k n) Q"
  shows "runs (at_broker c s B) (bind (record_line E c et t p) k) Q"
proof (rule runs_bind)
  show "runs (at_broker c s B) (record_line E c et t p) (\<lambda>_. at_broker c t B)"
    unfolding runs_def
  proof (intro allI impI)
    fix w assume w: "at_broker c s B w"
    let ?ts = "clock_text E (w_clock w)"
    have jok: "journal_ok (w_journal w)" and st: "state_of (w_journal w) (c_command_id c) = Some s"
      using w by (auto simp: at_broker_def inv_defs)
    obtain n j where run: "journal_record c et t p ?ts Committed (w_journal w) = (Inr n, j)"
      using journal_record_defined [OF jok st assms(2,3)] by blast
    define w' where "w' = w\<lparr>w_clock := Suc (w_clock w), w_journal := j\<rparr>"
    have line: "record_line E c et t p w = (Inr n, w')"
      using assms(1)
      by (simp add: record_line_def bind_def write_stamp_def on_journal_def journal_never_fails_def run w'_def)
    have "open_at c t w'"
      using triple_Inr [OF triple_record_line [OF assms(2)] _ line] w by (simp add: at_broker_def)
    then show "\<exists>x w'. record_line E c et t p w = (Inr x, w') \<and> at_broker c t B w'"
      using line w by (auto simp: at_broker_def w'_def)
  qed
qed (rule assms(4))

lemma runs_current:
  assumes "runs (at_broker c s B) (k s) Q"
  shows "runs (at_broker c s B) (bind (current_state c) k) Q"
  using assms unfolding runs_def by (metis at_broker_def at_state_def bind_Inr current_state_at open_at_def)

lemma runs_transition:
  assumes "journal_never_fails E" and "transition s ev tgt = Inr t" and "json_ok (PDict p)"
    and "runs (at_broker c t B) (k t) Q"
  shows "runs (at_broker c s B) (bind (record_transition E c ev tgt p) k) Q"
proof -
  have "runs (at_broker c s B) (bind (record_line E c (exec_event_value ev) t p) (\<lambda>_. k t)) Q"
    by (rule runs_line [OF assms(1) legal_move_transition [OF assms(2)] assms(3,4)])
  moreover have "bind (record_transition E c ev tgt p) k w
      = bind (record_line E c (exec_event_value ev) t p) (\<lambda>_. k t) w" if "at_broker c s B w" for w
  proof -
    have "cur c w = Some s" using that by (simp add: at_broker_def inv_defs)
    then show ?thesis
      by (simp add: bind_def record_transition_run assms(2) ret_def split: prod.split sum.split)
  qed
  ultimately show ?thesis by (simp add: runs_def)
qed

lemma at_broker_clock: "at_broker c s B w \<Longrightarrow> at_broker c s B (w\<lparr>w_clock := n\<rparr>)"
  by (auto simp: at_broker_def intro: inv_journal_only)

lemma runs_now_iso:
  "(\<And>x. runs (at_broker c s B) (k x) Q) \<Longrightarrow> runs (at_broker c s B) (bind (now_iso E) k) Q"
  by (auto simp: runs_def bind_def now_iso_def at_broker_clock)

lemma runs_now_us:
  "(\<And>n. runs (at_broker c s B) (k (clock_us E n)) Q) \<Longrightarrow> runs (at_broker c s B) (bind (now_us E) k) Q"
  by (auto simp: runs_def bind_def now_us_def at_broker_clock)

lemma runs_store:
  assumes "journal_never_fails E" and "agrees r s"
  shows "runs (at_broker c s B) (store_and_return E c r)
           (\<lambda>x w. x = r \<and> cur c w = Some s \<and> engine_ok w \<and> B (w_broker w))"
  unfolding runs_def
proof (intro allI impI)
  fix w assume w: "at_broker c s B w"
  obtain w' where run: "store_and_return E c r w = (Inr r, w')" and b: "w_broker w' = w_broker w"
    and st: "cur c w' = cur c w"
    using state_of_store_result [of c r _ Committed "w_journal w" "c_command_id c"] assms(1)
    by (auto simp: store_and_return_def store_result_def bind_def write_stamp_def on_journal_def
      journal_store_result_def journal_never_fails_def ret_def cur_def)
  have "answered c r w'"
    using triple_Inr [OF triple_store [OF assms(2)] _ run] w by (simp add: at_broker_def)
  then show "\<exists>x w'. store_and_return E c r w = (Inr x, w')
      \<and> x = r \<and> cur c w' = Some s \<and> engine_ok w' \<and> B (w_broker w')"
    using run b st w by (auto simp: answered_def at_broker_def inv_defs)
qed

lemma runs_port:
  assumes "\<And>w. open_at c s w \<Longrightarrow> B (w_broker w) \<Longrightarrow>
     \<exists>x w'. m w = (Inr x, w') \<and> w_journal w' = w_journal w \<and> F x \<and> B' x (w_broker w')"
    and "\<And>x. F x \<Longrightarrow> runs (at_broker c s (B' x)) (k x) Q"
  shows "runs (at_broker c s B) (bind m k) Q"
  unfolding runs_def
proof (intro allI impI)
  fix w assume w: "at_broker c s B w"
  obtain x w' where m: "m w = (Inr x, w')" and j: "w_journal w' = w_journal w" and F: "F x" and B: "B' x (w_broker w')"
    using assms(1) [of w] w unfolding at_broker_def by blast
  have "at_broker c s (B' x) w'" using w inv_journal_only(1) [OF j] B by (auto simp: at_broker_def)
  then show "\<exists>y v. bind m k w = (Inr y, v) \<and> Q y v"
    using assms(2) [OF F] bind_Inr [of m w x w' k] m by (auto simp: runs_def)
qed

section \<open>Submission against the simulated broker\<close>

lemma current_CREATED_gates:
  assumes valid: "validate_command E c = []" and fresh: "\<And>n. \<not> is_expired E (c_expires_at c) (clock_us E n)"
    and stored: "s_state stored = CREATED" and go: "runs (at_broker c SUBMITTED B) go Q"
    and E: "E = eng_env G" and never: "journal_never_fails E"
  shows "runs (at_broker c CREATED B) (submit_gates G c stored go) Q"
proof -
  have tr: "transition CREATED VALIDATE_OK None = Inr VALIDATED" "transition VALIDATED SUBMIT None = Inr SUBMITTED"
    by (simp_all add: transition_iff_step exec_step_iff)
  have rest: "runs (at_broker c VALIDATED B)
     (bind (now_us E) (\<lambda>now. if is_expired_command E c now then m
        else bind (record_transition E c SUBMIT None []) (\<lambda>_. go))) Q" for m
    by (intro runs_now_us) (simp add: is_expired_command_def fresh, intro runs_transition [OF never tr(2)] go, simp)
  have first: "runs (at_broker c CREATED B)
     (bind (record_transition E c VALIDATE_OK None []) (\<lambda>_. ret ())) (\<lambda>_. at_broker c VALIDATED B)"
    by (intro runs_transition [OF never tr(1)]) (simp_all add: runs_def ret_def)
  show ?thesis
    unfolding submit_gates_def Let_def E [symmetric] using valid stored
    by (simp, intro runs_bind [OF first] rest)
qed

lemma runs_submit:
  assumes "runs (at_broker c CREATED B) (submit_gates G c stored (submit_loop G c 0 (submit_budget G))) Q"
    and "at_broker c CREATED B w" and "get_command (w_journal w) (c_command_id c) = Some stored"
    and "s_result stored = None" and "s_state stored = CREATED"
  shows "\<exists>r w'. submit G c w = (Inr r, w') \<and> Q r w'"
  using assms
  by (simp add: submit_def Let_def bind_def stored_command_def gets_def is_terminal_state_def
    terminal_states_def runs_def)

text \<open>What the broker book holds after a full fill of the command.\<close>

definition held :: "command \<Rightarrow> (sim_position \<Rightarrow> bool) \<Rightarrow> sim \<Rightarrow> bool" where
  "held c F b \<longleftrightarrow> (\<exists>pid pos. sim_position_by_command b (c_command_id c) = Some pid
     \<and> sim_positions b pid = Some pos \<and> sp_position_id pos = pid
     \<and> sp_volume pos = c_volume c \<and> sp_direction pos = c_direction c \<and> F pos)"

lemma sim_full_fill:
  assumes "sc_mode (scenario_of (w_broker w) c) = M_FULL_FILL" and "sim_orders (w_broker w) (c_command_id c) = None"
    and "\<And>n. \<not> is_expired E (c_expires_at c) (clock_us E n)"
  shows "\<exists>r w'. sim_submit E c w = (Inr r, w') \<and> w_journal w' = w_journal w \<and> r_status r = R_FILLED
    \<and> sim_sl_attach_fail (w_broker w') = sim_sl_attach_fail (w_broker w)
    \<and> sim_close_fail (w_broker w') = sim_close_fail (w_broker w)
    \<and> sim_submit_calls (w_broker w') = sim_submit_calls (w_broker w) @ [c]
    \<and> held c (\<lambda>pos. \<not> sp_closed pos
        \<and> sp_sl pos = (if sim_sl_attach_fail (w_broker w) then None else Some (c_sl c))) (w_broker w')"
proof -
  have sc: "scenario_of (b\<lparr>sim_submit_calls := x, sim_seq := y\<rparr>) c = scenario_of b c" for b x y
    by (simp add: scenario_of_def split: option.split)
  show ?thesis
    using assms
    by (simp add: sim_submit_def sim_mode_def sim_fill_def place_order_def fill_order_def Let_def bind_def
      on_sim_def get_sim_def gets_def now_iso_def now_us_def ret_def put_order_def placed_order_def
      result_defs held_def position_of_def sc)
qed

lemma sim_position_held:
  assumes "held c F (w_broker w)"
  shows "\<exists>x w'. sim_get_position E c w = (Inr (Some x), w') \<and> w_journal w' = w_journal w
    \<and> w_broker w' = w_broker w
    \<and> (\<exists>pos. position_of (w_broker w) c = Some pos \<and> F pos \<and> p_sl x = sp_sl pos
         \<and> p_position_id x = sp_position_id pos)"
  using assms
  by (auto simp: held_def position_of_def sim_get_position_def bind_def get_sim_def gets_def now_iso_def ret_def)

lemma sl_matches_same: "c_sl c = Fin a \<Longrightarrow> p_sl x = Some (c_sl c) \<Longrightarrow> sl_matches x c"
  by (simp add: sl_matches_def fsub_def) code_simp

lemma validate_finite_sl:
  assumes "validate_command E c = []"
  shows "\<exists>a. c_sl c = Fin a"
  using assms by (auto simp: validate_command_eq command_validate_def bad_positive_def is_finite_iff)

section \<open>End to end\<close>

lemma sim_engine_simps [simp]:
  "eng_env (sim_engine E cfg) = E" "eng_config (sim_engine E cfg) = cfg"
  "port_submit (eng_ports (sim_engine E cfg)) = sim_submit E"
  "port_position (eng_ports (sim_engine E cfg)) = sim_get_position E"
  "port_attach (eng_ports (sim_engine E cfg)) = sim_attach_sl E"
  "port_close (eng_ports (sim_engine E cfg)) = sim_close_position E"
  by (simp_all add: sim_engine_def sim_ports_def)

lemma post_fill_filled:
  "r_status r = R_FILLED \<Longrightarrow> post_fill G c r =
     bind (record_transition (eng_env G) c FULL_FILL None []) (\<lambda>_. ensure_sl_protection G c r)"
proof -
  have assoc: "bind (bind m (\<lambda>_. ret ())) k = bind m (\<lambda>_. k ())" for m :: "('a, 'x) act" and k :: "unit \<Rightarrow> ('a, result) act"
    by (rule ext) (simp add: bind_def ret_def split: prod.split sum.split)
  assume "r_status r = R_FILLED"
  then show ?thesis by (simp add: post_fill_def Let_def assoc)
qed

lemma json_position: "json_ok (PDict [(''position_id'', PStr s), (''sl'', opt_float x)])"
  by (cases x) simp_all

lemma known_transitions:
  "transition SUBMITTED FULL_FILL None = Inr FILLED" "transition FILLED SL_ATTACHING None = Inr MODIFYING"
  "transition MODIFYING EV_CLOSED None = Inr CLOSED" "transition MODIFYING EV_UNKNOWN None = Inr UNKNOWN"
  by (simp_all add: transition_iff_step exec_step_iff)

lemma protect_filled:
  assumes sl: "c_sl c = Fin a" and r: "r_status r = R_FILLED" and never: "journal_never_fails E"
  shows "runs (at_broker c FILLED (held c (\<lambda>pos. sp_sl pos = Some (c_sl c) \<and> \<not> sp_closed pos)))
    (ensure_sl_protection (sim_engine E cfg) c r)
    (\<lambda>x w. r_status x = R_FILLED \<and> r_sl_applied x \<and> cur c w = Some FILLED
       \<and> held c (\<lambda>pos. sp_sl pos = Some (c_sl c) \<and> \<not> sp_closed pos) (w_broker w))"
proof -
  let ?B = "held c (\<lambda>pos. sp_sl pos = Some (c_sl c) \<and> \<not> sp_closed pos)"
  have fin: "runs (at_broker c FILLED ?B) (bind (with_sl_confirmed E r) (store_and_return E c))
    (\<lambda>x w. r_status x = R_FILLED \<and> r_sl_applied x \<and> cur c w = Some FILLED \<and> ?B (w_broker w))"
  proof (rule runs_port [where F = "\<lambda>x. agrees x FILLED \<and> r_status x = R_FILLED \<and> r_sl_applied x" and B' = "\<lambda>_. ?B"])
    fix x :: result assume "agrees x FILLED \<and> r_status x = R_FILLED \<and> r_sl_applied x"
    then show "runs (at_broker c FILLED ?B) (store_and_return E c x)
      (\<lambda>x w. r_status x = R_FILLED \<and> r_sl_applied x \<and> cur c w = Some FILLED \<and> ?B (w_broker w))"
      using runs_store [OF never, of x FILLED c ?B] by (fastforce simp: runs_def)
  qed (auto simp: with_sl_confirmed_def bind_def now_iso_def ret_def result_defs agrees_def)
  show ?thesis
    unfolding ensure_sl_protection_def Let_def sim_engine_simps
  proof (rule runs_port [where F = "\<lambda>x. \<exists>p. x = Some p \<and> sl_matches p c" and B' = "\<lambda>_. ?B"])
    fix w :: "sim world" assume B: "?B (w_broker w)"
    from sim_position_held [OF B, of E] obtain x w' pos where
      run: "sim_get_position E c w = (Inr (Some x), w')" "w_journal w' = w_journal w" "w_broker w' = w_broker w"
      and "position_of (w_broker w) c = Some pos" "sp_sl pos = Some (c_sl c)" "p_sl x = sp_sl pos" by blast
    then have "sl_matches x c" using sl_matches_same [OF sl] by simp
    then show "\<exists>x w'. sim_get_position E c w = (Inr x, w') \<and> w_journal w' = w_journal w
        \<and> (\<exists>p. x = Some p \<and> sl_matches p c) \<and> ?B (w_broker w')"
      using run B by simp
  next
    fix x assume "\<exists>p. x = Some p \<and> sl_matches p c"
    then obtain p where p: "x = Some p" "sl_matches p c" by blast
    show "runs (at_broker c FILLED ?B)
       (case x of None \<Rightarrow> bind (record_transition E c EV_UNKNOWN None [])
           (\<lambda>_. bind (unknown_result E c AMBIGUOUS_RESPONSE ''fill reported but position not observable'')
             (store_and_return E c))
        | Some pos \<Rightarrow>
            if sl_matches pos c then
              bind (record_line E c ''SL_CONFIRMED'' FILLED
                [(''position_id'', PStr (p_position_id pos)), (''sl'', opt_float (p_sl pos))])
                (\<lambda>_. bind (with_sl_confirmed E r) (store_and_return E c))
            else bind (record_transition E c SL_ATTACHING None [])
              (\<lambda>_. attach_loop (sim_engine E cfg) c r pos 0 (nat (sl_attach_retries (exec_retry cfg) + 1))))
       (\<lambda>x w. r_status x = R_FILLED \<and> r_sl_applied x \<and> cur c w = Some FILLED \<and> ?B (w_broker w))"
      unfolding p(1) option.case using p(2)
      by (simp, intro runs_line never legal_move_refl json_position fin)
  qed
qed

section \<open>Stop loss refused: emergency close\<close>

text \<open>The broker holds the command's position open without stop loss and refuses to attach one. Whether
  it accepts a close is not said.\<close>

definition refuses_sl :: "command \<Rightarrow> string \<Rightarrow> sim \<Rightarrow> bool" where
  "refuses_sl c pid b \<longleftrightarrow> sim_sl_attach_fail b
     \<and> held c (\<lambda>pos. sp_sl pos = None \<and> \<not> sp_closed pos \<and> sp_position_id pos = pid) b"

text \<open>The two ends of an emergency close: closed, or refused (\<open>f\<close>) with the command UNKNOWN.\<close>

definition unprotected_end :: "command \<Rightarrow> bool \<Rightarrow> result \<Rightarrow> sim world \<Rightarrow> bool" where
  "unprotected_end c f x w \<longleftrightarrow>
     (if f then r_status x = R_UNKNOWN \<and> r_error_code x = Some ''EMERGENCY_CLOSE_FAILED'' \<and> cur c w = Some UNKNOWN
        \<and> held c (\<lambda>pos. sp_sl pos = None \<and> \<not> sp_closed pos) (w_broker w)
      else r_status x = R_CLOSED \<and> cur c w = Some CLOSED \<and> held c sp_closed (w_broker w))"

abbreviation refusing :: "command \<Rightarrow> string \<Rightarrow> bool \<Rightarrow> sim \<Rightarrow> bool" where
  "refusing c pid f \<equiv> (\<lambda>b. refuses_sl c pid b \<and> sim_close_fail b = f)"

lemma attach_refused:
  assumes "refusing c pid f (w_broker w)"
  shows "\<exists>r w'. sim_attach_sl E c pid sl w = (Inr r, w') \<and> w_journal w' = w_journal w
    \<and> \<not> r_sl_applied r \<and> refusing c pid f (w_broker w')"
  using assms
  by (auto simp: refuses_sl_def held_def position_of_def sim_attach_sl_def bind_def on_sim_def get_sim_def
    gets_def fail_with_def now_iso_def ret_def result_defs)

lemma close_answered:
  assumes "refusing c pid f (w_broker w)"
  shows "\<exists>r w'. sim_close_position E c pid w = (Inr r, w') \<and> w_journal w' = w_journal w
    \<and> (r_status r = R_CLOSED) = (\<not> f)
    \<and> (if f then held c (\<lambda>pos. sp_sl pos = None \<and> \<not> sp_closed pos) (w_broker w') else held c sp_closed (w_broker w'))"
  using assms
  by (auto simp: refuses_sl_def held_def sim_close_position_def bind_def on_sim_def get_sim_def
    gets_def fail_with_def now_iso_def ret_def result_defs)

lemma emergency_runs:
  assumes never: "journal_never_fails E"
  shows "runs (at_broker c MODIFYING (refusing c pid f)) (emergency_close (sim_engine E cfg) c pid) (unprotected_end c f)"
  unfolding emergency_close_def Let_def sim_engine_simps
proof (rule runs_line [OF never legal_move_refl], simp,
    rule runs_port [where F = "\<lambda>r. (r_status r = R_CLOSED) = (\<not> f)" and B' = "\<lambda>_ b.
      if f then held c (\<lambda>pos. sp_sl pos = None \<and> \<not> sp_closed pos) b else held c sp_closed b"])
  fix w :: "sim world" assume "refusing c pid f (w_broker w)"
  then show "\<exists>x w'. sim_close_position E c pid w = (Inr x, w') \<and> w_journal w' = w_journal w
      \<and> (r_status x = R_CLOSED) = (\<not> f)
      \<and> (if f then held c (\<lambda>pos. sp_sl pos = None \<and> \<not> sp_closed pos) (w_broker w') else held c sp_closed (w_broker w'))"
    by (rule close_answered)
next
  fix r :: result assume r: "(r_status r = R_CLOSED) = (\<not> f)"
  let ?B = "\<lambda>b. if f then held c (\<lambda>pos. sp_sl pos = None \<and> \<not> sp_closed pos) b else held c sp_closed b"
  have json: "json_ok (PDict [(''result'', PDict (result_to_dict r))])"
    using result_to_dict_json [of r] by simp
  have closed: "runs (at_broker c MODIFYING ?B)
     (bind (record_transition E c EV_CLOSED None p) (\<lambda>_. store_and_return E c r)) (unprotected_end c f)"
    if "json_ok (PDict p)" "r_status r = R_CLOSED" for p
    using runs_store [OF never, of r CLOSED c ?B] that r
    by (intro runs_transition [OF never known_transitions(3)]) (fastforce simp: runs_def agrees_def unprotected_end_def)+
  have unknown: "runs (at_broker c MODIFYING ?B)
     (bind (record_transition E c EV_UNKNOWN None []) (\<lambda>_.
      bind (unknown_result E c EMERGENCY_CLOSE_FAILED msg) (store_and_return E c))) (unprotected_end c f)"
    if "r_status r \<noteq> R_CLOSED" for msg
  proof (rule runs_transition [OF never known_transitions(4)], simp,
      rule runs_port [where F = "\<lambda>x. r_status x = R_UNKNOWN \<and> r_error_code x = Some ''EMERGENCY_CLOSE_FAILED''"
        and B' = "\<lambda>_. ?B"])
    fix x :: result assume x: "r_status x = R_UNKNOWN \<and> r_error_code x = Some ''EMERGENCY_CLOSE_FAILED''"
    then show "runs (at_broker c UNKNOWN ?B) (store_and_return E c x) (unprotected_end c f)"
      using runs_store [OF never, of x UNKNOWN c ?B] that r
      by (fastforce simp: runs_def agrees_def unprotected_end_def)
  qed (auto simp: unknown_result_def bind_def now_iso_def ret_def result_defs)
  show "runs (at_broker c MODIFYING ?B)
     (bind (record_line E c ''EMERGENCY_CLOSE_RESULT'' MODIFYING [(''result'', PDict (result_to_dict r))]) (\<lambda>_.
      if r_status r = R_CLOSED then
        bind (record_transition E c EV_CLOSED None [(''reason'', PStr (exit_reason_value EMERGENCY_CLOSE))])
          (\<lambda>_. store_and_return E c r)
      else
        bind (record_transition E c EV_UNKNOWN None []) (\<lambda>_.
        bind (unknown_result E c EMERGENCY_CLOSE_FAILED ''emergency close failed; reconciliation required'')
          (store_and_return E c))))
     (unprotected_end c f)"
    by (intro runs_line [OF never legal_move_refl json]) (simp add: closed unknown)
qed

lemma attach_loop_runs:
  assumes never: "journal_never_fails E"
  shows "runs (at_broker c MODIFYING (refusing c (p_position_id pos) f)) (attach_loop (sim_engine E cfg) c r pos n k)
     (unprotected_end c f)"
proof (induction k arbitrary: n)
  case 0
  show ?case
    unfolding attach_loop.simps sim_engine_simps
    by (intro runs_line [OF never legal_move_refl] emergency_runs never) simp
next
  case (Suc k)
  show ?case
    unfolding attach_loop.simps sim_engine_simps
  proof (rule runs_port [where F = "\<lambda>r. \<not> r_sl_applied r" and B' = "\<lambda>_. refusing c (p_position_id pos) f"])
    fix w :: "sim world" assume "refusing c (p_position_id pos) f (w_broker w)"
    then show "\<exists>x w'. sim_attach_sl E c (p_position_id pos) (c_sl c) w = (Inr x, w') \<and> w_journal w' = w_journal w
        \<and> \<not> r_sl_applied x \<and> refusing c (p_position_id pos) f (w_broker w')"
      by (rule attach_refused)
  next
    fix x :: result assume x: "\<not> r_sl_applied x"
    have json: "json_ok (PDict [(''attempt'', PInt (int n)), (''result'', PDict (result_to_dict x))])"
      using result_to_dict_json [of x] by simp
    show "runs (at_broker c MODIFYING (refusing c (p_position_id pos) f))
       (bind (record_line E c ''SL_ATTACH_RESULT'' MODIFYING
          [(''attempt'', PInt (int n)), (''result'', PDict (result_to_dict x))]) (\<lambda>_.
        if r_sl_applied x then m else attach_loop (sim_engine E cfg) c r pos (Suc n) k)) (unprotected_end c f)" for m
      by (intro runs_line [OF never legal_move_refl json]) (simp add: x Suc.IH)
  qed
qed

lemma refused_runs:
  assumes never: "journal_never_fails E"
  shows "runs (at_broker c FILLED (refusing c pid f)) (ensure_sl_protection (sim_engine E cfg) c r) (unprotected_end c f)"
  unfolding ensure_sl_protection_def Let_def sim_engine_simps
proof (rule runs_port [where F = "\<lambda>x. \<exists>p. x = Some p \<and> p_sl p = None \<and> p_position_id p = pid"
      and B' = "\<lambda>_. refusing c pid f"])
  fix w :: "sim world" assume B: "refusing c pid f (w_broker w)"
  then show "\<exists>x w'. sim_get_position E c w = (Inr x, w') \<and> w_journal w' = w_journal w
      \<and> (\<exists>p. x = Some p \<and> p_sl p = None \<and> p_position_id p = pid) \<and> refusing c pid f (w_broker w')"
    by (auto simp: refuses_sl_def held_def position_of_def sim_get_position_def bind_def get_sim_def
      gets_def now_iso_def ret_def)
next
  fix x :: "position option" assume "\<exists>p. x = Some p \<and> p_sl p = None \<and> p_position_id p = pid"
  then obtain p where p: "x = Some p" "p_sl p = None" "pid = p_position_id p" by blast
  show "runs (at_broker c FILLED (refusing c pid f))
     (case x of None \<Rightarrow> m
      | Some pos \<Rightarrow> if sl_matches pos c then g pos
          else bind (record_transition E c SL_ATTACHING None [])
            (\<lambda>_. attach_loop (sim_engine E cfg) c r pos 0 n)) (unprotected_end c f)" for m g n
    unfolding p(1) option.case p(3) using p(2)
    by (simp add: sl_matches_def) (intro runs_transition [OF never known_transitions(2)] attach_loop_runs never, simp)
qed

text \<open>C9. A filled position whose stop loss the simulated broker refuses to attach is closed, where the
  broker accepts the close: after the bounded attach attempts, whatever the retry budget, the answer is
  CLOSED, the command is in state CLOSED and the broker's position is closed. Where the broker refuses the
  close as well, the position stays open without a stop loss; the answer is then UNKNOWN with
  EMERGENCY_CLOSE_FAILED and the command is UNKNOWN, so that it waits for reconciliation and is never
  reported as filled. Stated for journal writes that succeed; a failing one ends the operation with
  JournalError.\<close>

theorem refused_stop_loss_is_closed:
  assumes "open_at c FILLED w" and "refuses_sl c pid (w_broker w)" and "journal_never_fails E"
  shows "\<exists>x w' pos. ensure_sl_protection (sim_engine E cfg) c r w = (Inr x, w')
    \<and> position_of (w_broker w') c = Some pos
    \<and> (if sim_close_fail (w_broker w)
       then r_status x = R_UNKNOWN \<and> r_error_code x = Some ''EMERGENCY_CLOSE_FAILED'' \<and> cur c w' = Some UNKNOWN
         \<and> \<not> sp_closed pos \<and> sp_sl pos = None
       else r_status x = R_CLOSED \<and> cur c w' = Some CLOSED \<and> sp_closed pos)"
proof -
  have "at_broker c FILLED (refusing c pid (sim_close_fail (w_broker w))) w"
    using assms by (simp add: at_broker_def)
  then obtain x w' where "ensure_sl_protection (sim_engine E cfg) c r w = (Inr x, w')"
      "unprotected_end c (sim_close_fail (w_broker w)) x w'"
    using refused_runs [OF assms(3), of c pid "sim_close_fail (w_broker w)" cfg r] by (auto simp: runs_def)
  then show ?thesis by (auto simp: unprotected_end_def held_def position_of_def split: if_splits)
qed

lemma stored_open:
  assumes "open_at c CREATED w" and "get_result (w_journal w) (c_command_id c) = None"
  shows "\<exists>stored. get_command (w_journal w) (c_command_id c) = Some stored \<and> s_result stored = None
    \<and> s_state stored = CREATED"
  using assms get_command_state [of "w_journal w" "c_command_id c"]
  by (auto simp: inv_defs get_result_def)

text \<open>The three ends of a complete fill: protected, or without stop loss (\<open>g\<close>) and then closed or, where
  the close is refused too (\<open>f\<close>), unknown.\<close>

definition fill_end :: "command \<Rightarrow> bool \<Rightarrow> bool \<Rightarrow> result \<Rightarrow> sim world \<Rightarrow> bool" where
  "fill_end c g f x w \<longleftrightarrow>
     (if g then unprotected_end c f x w
      else r_status x = R_FILLED \<and> r_sl_applied x \<and> cur c w = Some FILLED
        \<and> held c (\<lambda>pos. sp_sl pos = Some (c_sl c) \<and> \<not> sp_closed pos) (w_broker w))"

definition filled_book :: "command \<Rightarrow> bool \<Rightarrow> bool \<Rightarrow> sim \<Rightarrow> bool" where
  "filled_book c g f b \<longleftrightarrow>
     (if g then \<exists>pid. refuses_sl c pid b \<and> sim_close_fail b = f
      else held c (\<lambda>pos. sp_sl pos = Some (c_sl c) \<and> \<not> sp_closed pos) b)"

lemma runs_pre_ex: "(\<And>x. runs (P x) m Q) \<Longrightarrow> (\<And>w. P' w \<Longrightarrow> \<exists>x. P x w) \<Longrightarrow> runs P' m Q"
  by (fastforce simp: runs_def)

lemma filled_runs:
  assumes "c_sl c = Fin a" and "r_status r = R_FILLED" and "journal_never_fails E"
  shows "runs (at_broker c FILLED (filled_book c g f)) (ensure_sl_protection (sim_engine E cfg) c r) (fill_end c g f)"
proof (cases g)
  case True
  have "fill_end c g f = unprotected_end c f" using True by (simp add: fill_end_def fun_eq_iff)
  then show ?thesis
    by (simp only:) (rule runs_pre_ex [OF refused_runs [OF assms(3)]],
        use True in \<open>auto simp: at_broker_def filled_book_def\<close>)
next
  case False
  then show ?thesis
    using protect_filled [OF assms, of cfg] by (simp add: runs_def at_broker_def filled_book_def fill_end_def)
qed

lemma full_fill_run:
  assumes "open_at c CREATED w" and "get_result (w_journal w) (c_command_id c) = None"
    and valid: "validate_command E c = []" and fresh: "\<And>n. \<not> is_expired E (c_expires_at c) (clock_us E n)"
    and "sc_mode (scenario_of (w_broker w) c) = M_FULL_FILL" and "sim_orders (w_broker w) (c_command_id c) = None"
    and never: "journal_never_fails E"
  shows "\<exists>r w'. submit (sim_engine E cfg) c w = (Inr r, w')
    \<and> fill_end c (sim_sl_attach_fail (w_broker w)) (sim_close_fail (w_broker w)) r w'"
proof -
  obtain a where sl: "c_sl c = Fin a" using validate_finite_sl [OF valid] by blast
  let ?g = "sim_sl_attach_fail (w_broker w)" and ?f = "sim_close_fail (w_broker w)"
  let ?G = "sim_engine E cfg" and ?H = "filled_book c ?g ?f" and ?Q = "fill_end c ?g ?f"
  let ?B = "\<lambda>b. sc_mode (scenario_of b c) = M_FULL_FILL \<and> sim_orders b (c_command_id c) = None
      \<and> sim_sl_attach_fail b = ?g \<and> sim_close_fail b = ?f"
  have attempt: "runs (at_broker c SUBMITTED ?B) (submit_attempt ?G c n again) ?Q" for n again
    unfolding submit_attempt_def Let_def sim_engine_simps
  proof (rule runs_port [where F = "\<lambda>r. r_status r = R_FILLED" and B' = "\<lambda>_. ?H"])
    fix v :: "sim world" assume B: "?B (w_broker v)"
    then obtain r v' where run: "sim_submit E c v = (Inr r, v')" "w_journal v' = w_journal v" "r_status r = R_FILLED"
      "sim_sl_attach_fail (w_broker v') = ?g" "sim_close_fail (w_broker v') = ?f"
      "held c (\<lambda>pos. \<not> sp_closed pos \<and> sp_sl pos = (if ?g then None else Some (c_sl c))) (w_broker v')"
      using sim_full_fill [of v c E] fresh by auto
    then have "?H (w_broker v')"
      by (cases ?g) (auto simp: filled_book_def refuses_sl_def held_def)
    then show "\<exists>x w'. sim_submit E c v = (Inr x, w') \<and> w_journal w' = w_journal v \<and> r_status x = R_FILLED
        \<and> ?H (w_broker w')"
      using run by blast
  next
    fix r :: result assume r: "r_status r = R_FILLED"
    have json: "json_ok (PDict [(''result'', PDict (result_to_dict r)), (''attempt'', PInt (int n))])"
      using result_to_dict_json [of r] by simp
    have post: "runs (at_broker c SUBMITTED ?H) (post_fill ?G c r) ?Q"
      unfolding post_fill_filled [OF r] sim_engine_simps
      by (intro runs_transition [OF never known_transitions(1)] filled_runs [OF sl r never]) simp
    show "runs (at_broker c SUBMITTED ?H)
       (bind (current_state c) (\<lambda>cur. bind (record_line E c ''EXECUTOR_RESULT'' cur
          [(''result'', PDict (result_to_dict r)), (''attempt'', PInt (int n))])
        (\<lambda>_. if r_status r = R_FILLED \<or> r_status r = R_PARTIALLY_FILLED then post_fill ?G c r else m))) ?Q" for m
      by (intro runs_current runs_line [OF never legal_move_refl json]) (simp add: r post)
  qed
  then have loop: "runs (at_broker c SUBMITTED ?B) (submit_loop ?G c n k) ?Q" for n k
    by (cases k) simp_all
  obtain stored where st: "get_command (w_journal w) (c_command_id c) = Some stored" "s_result stored = None"
      "s_state stored = CREATED"
    using stored_open [OF assms(1,2)] by blast
  have "at_broker c CREATED ?B w" using assms by (simp add: at_broker_def)
  then show ?thesis
    using runs_submit [where G = ?G, OF current_CREATED_gates [OF valid fresh st(3) loop _ never] _ st] by simp
qed

text \<open>C10. End to end, with journal writes that succeed: what becomes of a journaled, valid, unexpired
  command that the simulated broker has not seen and fills completely. Where the broker takes the stop
  loss, the answer is FILLED with the stop loss confirmed, the command is in state FILLED, and the broker
  holds one open position with the volume, the direction and the stop loss of the command. Where it
  refuses the stop loss, the same fill ends with the position closed and the command CLOSED; where it
  refuses the close as well, with the command UNKNOWN and the position left open without a stop loss.\<close>

theorem full_fill_end_to_end:
  assumes "open_at c CREATED w" and "get_result (w_journal w) (c_command_id c) = None"
    and "validate_command E c = []" and "\<And>n. \<not> is_expired E (c_expires_at c) (clock_us E n)"
    and "sc_mode (scenario_of (w_broker w) c) = M_FULL_FILL" and "sim_orders (w_broker w) (c_command_id c) = None"
    and "journal_never_fails E"
  shows "\<exists>r w' pos. submit (sim_engine E cfg) c w = (Inr r, w') \<and> position_of (w_broker w') c = Some pos
    \<and> sp_volume pos = c_volume c \<and> sp_direction pos = c_direction c
    \<and> (if \<not> sim_sl_attach_fail (w_broker w)
       then r_status r = R_FILLED \<and> r_sl_applied r \<and> cur c w' = Some FILLED
         \<and> sp_sl pos = Some (c_sl c) \<and> \<not> sp_closed pos
       else if \<not> sim_close_fail (w_broker w)
       then r_status r = R_CLOSED \<and> cur c w' = Some CLOSED \<and> sp_closed pos
       else r_status r = R_UNKNOWN \<and> cur c w' = Some UNKNOWN \<and> sp_sl pos = None \<and> \<not> sp_closed pos)"
proof -
  obtain r w' where "submit (sim_engine E cfg) c w = (Inr r, w')"
      "fill_end c (sim_sl_attach_fail (w_broker w)) (sim_close_fail (w_broker w)) r w'"
    using full_fill_run [OF assms, of cfg] by blast
  then show ?thesis
    by (auto simp: fill_end_def unprotected_end_def held_def position_of_def split: if_splits)
qed

lemma demo_hyps:
  "validate_command demo_env demo_command = []"
  "\<not> is_expired demo_env (c_expires_at demo_command) (clock_us demo_env n)"
  "get_result (w_journal demo_world) (c_command_id demo_command) = None"
  "sc_mode (scenario_of (w_broker demo_world) demo_command) = M_FULL_FILL"
  "sim_orders (w_broker demo_world) (c_command_id demo_command) = None"
  "journal_never_fails demo_env"
proof -
  show "sc_mode (scenario_of (w_broker demo_world) demo_command) = M_FULL_FILL"
    "sim_orders (w_broker demo_world) (c_command_id demo_command) = None"
    by (simp_all add: demo_world_def new_sim_def scenario_of_def default_scenario_def)
  show "journal_never_fails demo_env" by (simp add: journal_never_fails_def demo_env_def)
  show "validate_command demo_env demo_command = []"
    unfolding validate_command_eq by code_simp
  show "\<not> is_expired demo_env (c_expires_at demo_command) (clock_us demo_env n)"
    by (simp add: is_expired_def demo_env_def demo_command_def)
  show "get_result (w_journal demo_world) (c_command_id demo_command) = None"
    by (simp add: get_result_def get_command_def demo_world_def demo_journal_def journal_create_command_def
      empty_journal_def find_by_Cons row_to_stored_def)
qed

theorem full_fill_end_to_end_witness:
  "\<exists>r w' pos. submit demo_engine demo_command demo_world = (Inr r, w') \<and> r_status r = R_FILLED \<and> r_sl_applied r
    \<and> cur demo_command w' = Some FILLED \<and> position_of (w_broker w') demo_command = Some pos
    \<and> sp_sl pos = Some (Fin 4390) \<and> \<not> sp_closed pos"
proof -
  have "\<not> sim_sl_attach_fail (w_broker demo_world)" by (simp add: demo_world_def new_sim_def)
  then show ?thesis
    using full_fill_end_to_end [OF demo_world_open demo_hyps(3,1,2,4,5,6), of default_exec_config]
    by (auto simp: demo_engine_def demo_command_def)
qed

lemma demo_filled_run:
  "\<exists>r w'. submit demo_engine demo_command demo_world = (Inr r, w') \<and> r_status r = R_FILLED"
proof -
  have "\<not> sim_sl_attach_fail (w_broker demo_world)" by (simp add: demo_world_def new_sim_def)
  then show ?thesis
    using full_fill_run [OF demo_world_open demo_hyps(3,1,2,4,5,6), of default_exec_config]
    by (auto simp: demo_engine_def fill_end_def)
qed

theorem submit_answer_is_journaled_witness:
  "\<exists>r w'. submit demo_engine demo_command demo_world = (Inr r, w') \<and> r_sl_applied r
     \<and> cur demo_command w' = Some FILLED \<and> get_result (w_journal w') (c_command_id demo_command) = Some r"
  using demo_filled_run submit_answer_is_journaled [OF demo_ports_ok demo_world_ok, of demo_command] by fastforce

theorem submit_is_idempotent_witness:
  "\<exists>r w'. submit demo_engine demo_command demo_world = (Inr r, w')
     \<and> submit demo_engine demo_command w' = (Inr r, w')"
proof -
  obtain r w' where run: "submit demo_engine demo_command demo_world = (Inr r, w')" "r_status r = R_FILLED"
    using demo_filled_run by blast
  then have "submit demo_engine demo_command w' = (Inr r, w')"
    using submit_is_idempotent [OF demo_ports_ok demo_world_ok run(1)] by simp
  then show ?thesis using run(1) by blast
qed

text \<open>A world with a filled command whose position the broker keeps without stop loss.\<close>

definition demo_position :: sim_position where
  "demo_position = \<lparr>sp_position_id = ''POS-000002'', sp_command_id = c_command_id demo_command,
     sp_symbol = ''XAUUSD'', sp_direction = ''BUY'', sp_volume = Fin (1 / 8), sp_open_price = Fin 4400,
     sp_sl = None, sp_open_ts = ''2026-01-01'', sp_closed = False\<rparr>"

definition demo_state_journal :: "cmd_state list \<Rightarrow> journal" where
  "demo_state_journal ss = foldl (\<lambda>j s. snd (journal_record demo_command ''STEP'' s [] ''2026-01-01'' Committed j)) demo_journal ss"

definition demo_unprotected :: "cmd_state list \<Rightarrow> sim world" where
  "demo_unprotected ss = \<lparr>w_journal = demo_state_journal ss, w_clock = 0, w_uuids = 1,
     w_broker = (new_sim default_scenario True False None)
       \<lparr>sim_positions := [''POS-000002'' \<mapsto> demo_position],
        sim_position_by_command := [c_command_id demo_command \<mapsto> ''POS-000002'']\<rparr>\<rparr>"

lemma demo_filled_open: "open_at demo_command FILLED (demo_unprotected [VALIDATED, SUBMITTED, FILLED])"
proof -
  have step: "open_at demo_command t (w\<lparr>w_journal := snd (journal_record demo_command et t [] ts Committed (w_journal w))\<rparr>)"
    if o: "open_at demo_command s w" and lm: "legal_move s t" for s t et ts and w :: "sim world"
  proof -
    have "journal_ok (w_journal w)" "state_of (w_journal w) (c_command_id demo_command) = Some s"
      using o by (auto simp: inv_defs)
    then obtain n j where "journal_record demo_command et t [] ts Committed (w_journal w) = (Inr n, j)"
      using journal_record_defined [OF _ _ lm, of "w_journal w" demo_command "[]" et ts] by auto
    then show ?thesis
      using at_state_record(2) [OF _ lm, of demo_command w et "[]" ts Committed n "w\<lparr>w_journal := j\<rparr>"] o
      by (simp add: open_at_def)
  qed
  have m: "legal_move CREATED VALIDATED" "legal_move VALIDATED SUBMITTED" "legal_move SUBMITTED FILLED"
    by (auto simp: legal_move_def exec_step_iff)
  show ?thesis
    using step [OF step [OF step [OF demo_world_open m(1)] m(2)] m(3), of "''STEP''" "''2026-01-01''" "''STEP''" "''2026-01-01''" "''STEP''" "''2026-01-01''"]
    by (simp add: inv_defs open_result_def demo_world_def demo_unprotected_def demo_state_journal_def)
qed

theorem refused_stop_loss_is_closed_witness:
  "\<exists>x w' pos. ensure_sl_protection demo_engine demo_command
       (result_filled ''c'' ''t'' ''2026-01-01'' None 0 (Fin (1 / 8)) (Fin 4400) False) (demo_unprotected [VALIDATED, SUBMITTED, FILLED]) = (Inr x, w')
    \<and> r_status x = R_CLOSED \<and> cur demo_command w' = Some CLOSED
    \<and> position_of (w_broker w') demo_command = Some pos \<and> sp_closed pos"
proof -
  have "refuses_sl demo_command ''POS-000002'' (w_broker (demo_unprotected [VALIDATED, SUBMITTED, FILLED]))"
    by (simp add: refuses_sl_def held_def demo_unprotected_def demo_position_def new_sim_def demo_command_def)
  moreover have "\<not> sim_close_fail (w_broker (demo_unprotected [VALIDATED, SUBMITTED, FILLED]))"
    by (simp add: demo_unprotected_def new_sim_def)
  ultimately show ?thesis
    using refused_stop_loss_is_closed [OF demo_filled_open _ demo_hyps(6)]
    unfolding demo_engine_def by fastforce
qed

theorem partial_fill_unprotected_witness:
  "\<exists>w1 m. ensure_sl_protection demo_engine demo_command
       (result_filled ''c'' ''t'' ''2026-01-01'' None 0 (Fin (1 / 8)) (Fin 4400) False) (demo_unprotected [VALIDATED, SUBMITTED, PARTIALLY_FILLED])
      = (Inl (ExecutionStateError m), w1)
    \<and> (\<exists>pos. position_of (w_broker w1) demo_command = Some pos \<and> \<not> sp_closed pos \<and> sp_sl pos = None)"
proof -
  let ?w = "demo_unprotected [VALIDATED, SUBMITTED, PARTIALLY_FILLED]"
  have cur: "cur demo_command ?w = Some PARTIALLY_FILLED"
    by (simp add: cur_def demo_unprotected_def demo_state_journal_def demo_journal_def journal_create_command_def
      empty_journal_def journal_record_def Let_def index_violated_def state_of_def find_by_Cons set_row_state_def)
  obtain pos w1 where pos: "port_position (eng_ports demo_engine) demo_command ?w = (Inr (Some pos), w1)"
      "w_journal w1 = w_journal ?w" "w_broker w1 = w_broker ?w" "p_sl pos = None"
    by (simp add: demo_engine_def sim_get_position_def bind_def get_sim_def gets_def position_of_def
      demo_unprotected_def now_iso_def ret_def demo_position_def)
  have "\<not> sl_matches pos demo_command" using pos(4) by (simp add: sl_matches_def)
  then obtain m where "ensure_sl_protection demo_engine demo_command
       (result_filled ''c'' ''t'' ''2026-01-01'' None 0 (Fin (1 / 8)) (Fin 4400) False) ?w = (Inl (ExecutionStateError m), w1)"
    using partial_fill_unprotected [OF cur pos(1,2)] by blast
  then show ?thesis
    using pos(3) by (simp add: position_of_def demo_unprotected_def demo_position_def)
qed

theorem in_flight_never_resent_witness:
  "\<exists>r w'. submit demo_engine demo_command (demo_unprotected [VALIDATED, SUBMITTED]) = (Inr r, w')
     \<and> r_status r = R_UNKNOWN \<and> w_broker w' = w_broker (demo_unprotected [VALIDATED, SUBMITTED])"
proof -
  let ?w = "demo_unprotected [VALIDATED, SUBMITTED]"
  have "cur demo_command ?w = Some SUBMITTED" "get_result (w_journal ?w) (c_command_id demo_command) = None"
    by (simp_all add: cur_def demo_unprotected_def demo_state_journal_def demo_journal_def journal_create_command_def
      empty_journal_def journal_record_def Let_def index_violated_def state_of_def find_by_Cons set_row_state_def
      get_result_def get_command_def row_to_stored_def)
  then show ?thesis using in_flight_never_resent [of demo_command ?w SUBMITTED demo_engine] by blast
qed

theorem create_command_verbatim_witness:
  "\<exists>c w'. create_command demo_engine demo_plan (demo_world\<lparr>w_journal := empty_journal\<rparr>) = (Inr c, w')
     \<and> c_volume c = Fin (1 / 8) \<and> c_sl c = Fin 4390 \<and> c_direction c = ''BUY''"
proof -
  let ?w = "demo_world\<lparr>w_journal := empty_journal\<rparr>"
  have valid: "validate_plan demo_env demo_plan = []" unfolding validate_plan_eq by code_simp
  have fresh: "\<not> is_expired_plan demo_env demo_plan n" if "n = 0" for n
    using that by (simp add: is_expired_plan_def is_expired_def demo_env_def demo_plan_def)
  have "\<exists>c w'. create_command demo_engine demo_plan ?w = (Inr c, w')"
    by (simp add: create_command_def demo_engine_def sim_engine_def valid Let_def bind_def now_us_def gets_def
      ret_def new_command_id_def now_iso_def on_journal_def record_line_def journal_create_command_def
      journal_record_def index_violated_def empty_journal_def pending_reconciliation_ids_def recover_def
      active_commands_def fresh demo_env_def [THEN arg_cong, of clock_us] demo_env_def [THEN arg_cong, of write_end]
      write_stamp_def demo_world_def)
  then obtain c w' where "create_command demo_engine demo_plan ?w = (Inr c, w')" by blast
  then show ?thesis using create_command_verbatim [of demo_engine demo_plan ?w c w'] by (auto simp: demo_plan_def)
qed

end
