(* ===== verification/ExecDict.thy ===== *)
theory ExecDict
  imports ExecModels
begin

text \<open>
  Reading execution contracts from dictionaries: \<open>TradePlan.from_dict\<close>, \<open>TradePlan.to_dict\<close> and
  \<open>ExecutionCommand.from_dict\<close> of \<open>src/execution/models.py\<close>. \<open>to_str\<close> is \<open>str\<close> on a value that is no string.
  The code also keeps an \<open>inference_id\<close> that is neither a string nor \<open>None\<close>; the record of the plan has no
  place for one, and the model answers \<open>Untyped_inference_id\<close>.
\<close>

datatype dict_error = Absent_field string | Not_numeric string | Not_an_entry_type string | Untyped_inference_id

definition read_text :: "(pyval \<Rightarrow> string) \<Rightarrow> pydict \<Rightarrow> string \<Rightarrow> dict_error + string" where
  "read_text to_str d k =
     (case dget d k of None \<Rightarrow> Inl (Absent_field k) | Some v \<Rightarrow> Inr (case v of PStr s \<Rightarrow> s | _ \<Rightarrow> to_str v))"

definition read_float :: "pydict \<Rightarrow> string \<Rightarrow> dict_error + pyfloat" where
  "read_float d k =
     (case dget d k of
        None \<Rightarrow> Inl (Absent_field k)
      | Some v \<Rightarrow> (case py_float v of None \<Rightarrow> Inl (Not_numeric k) | Some x \<Rightarrow> Inr x))"

definition and_then :: "'e + 'a \<Rightarrow> ('a \<Rightarrow> 'e + 'b) \<Rightarrow> 'e + 'b" where
  "and_then x f = (case x of Inl e \<Rightarrow> Inl e | Inr y \<Rightarrow> f y)"

lemma and_then_simps [simp]: "and_then (Inl e) f = Inl e" "and_then (Inr y) f = f y"
  by (simp_all add: and_then_def)

lemma and_then_Inr: "and_then x f = Inr z \<longleftrightarrow> (\<exists>y. x = Inr y \<and> f y = Inr z)"
  by (cases x) auto

definition read_inference_id :: "pydict \<Rightarrow> dict_error + string option" where
  "read_inference_id d =
     (case dget d ''inference_id'' of
        None \<Rightarrow> Inr None
      | Some PNone \<Rightarrow> Inr None
      | Some (PStr s) \<Rightarrow> Inr (Some s)
      | Some v \<Rightarrow> Inl Untyped_inference_id)"

definition trade_plan_to_dict :: "trade_plan \<Rightarrow> pydict" where
  "trade_plan_to_dict p =
     [(''trade_id'', PStr (tp_trade_id p)), (''correlation_id'', PStr (tp_correlation_id p)),
      (''inference_id'', opt_pystr (tp_inference_id p)), (''risk_evaluation_id'', PStr (tp_risk_evaluation_id p)),
      (''direction'', PStr (tp_direction p)), (''lot'', PFloat (tp_lot p)), (''entry_reference'', PFloat (tp_entry_reference p)),
      (''sl'', PFloat (tp_sl p)), (''risk_amount'', PFloat (tp_risk_amount p)), (''risk_percent'', PFloat (tp_risk_percent p)),
      (''exposure'', PFloat (tp_exposure p)), (''symbol'', PStr (tp_symbol p)), (''generated_at'', PStr (tp_generated_at p)),
      (''expires_at'', PStr (tp_expires_at p)), (''policy_profile'', PStr (tp_policy_profile p))]"

definition trade_plan_from_dict :: "(pyval \<Rightarrow> string) \<Rightarrow> pydict \<Rightarrow> dict_error + trade_plan" where
  "trade_plan_from_dict to_str d =
     and_then (read_text to_str d ''trade_id'') (\<lambda>trade_id.
     and_then (read_text to_str d ''correlation_id'') (\<lambda>correlation_id.
     and_then (read_inference_id d) (\<lambda>inference_id.
     and_then (read_text to_str d ''risk_evaluation_id'') (\<lambda>risk_evaluation_id.
     and_then (read_text to_str d ''direction'') (\<lambda>direction.
     and_then (read_float d ''lot'') (\<lambda>lot.
     and_then (read_float d ''entry_reference'') (\<lambda>entry_reference.
     and_then (read_float d ''sl'') (\<lambda>sl.
     and_then (read_float d ''risk_amount'') (\<lambda>risk_amount.
     and_then (read_float d ''risk_percent'') (\<lambda>risk_percent.
     and_then (read_float d ''exposure'') (\<lambda>exposure.
     and_then (read_text to_str d ''symbol'') (\<lambda>symbol.
     and_then (read_text to_str d ''generated_at'') (\<lambda>generated_at.
     and_then (read_text to_str d ''expires_at'') (\<lambda>expires_at.
     and_then (read_text to_str d ''policy_profile'') (\<lambda>policy_profile.
       Inr \<lparr>tp_trade_id = trade_id, tp_correlation_id = correlation_id, tp_inference_id = inference_id,
         tp_risk_evaluation_id = risk_evaluation_id, tp_direction = direction, tp_lot = lot,
         tp_entry_reference = entry_reference, tp_sl = sl, tp_risk_amount = risk_amount, tp_risk_percent = risk_percent,
         tp_exposure = exposure, tp_symbol = symbol, tp_generated_at = generated_at, tp_expires_at = expires_at,
         tp_policy_profile = policy_profile\<rparr>)))))))))))))))"

text \<open>An absent entry type is \<open>MARKET\<close>, the only member; any other text raises \<open>ValueError\<close>.\<close>

definition read_entry_type :: "(pyval \<Rightarrow> string) \<Rightarrow> pydict \<Rightarrow> dict_error + entry_type" where
  "read_entry_type to_str d =
     (if dhas d ''entry_type'' then
        and_then (read_text to_str d ''entry_type'') (\<lambda>s.
          if s = entry_type_value MARKET then Inr MARKET else Inl (Not_an_entry_type s))
      else Inr MARKET)"

definition command_from_dict :: "(pyval \<Rightarrow> string) \<Rightarrow> pydict \<Rightarrow> dict_error + command" where
  "command_from_dict to_str d =
     and_then (read_text to_str d ''command_id'') (\<lambda>command_id.
     and_then (read_text to_str d ''trade_id'') (\<lambda>trade_id.
     and_then (read_text to_str d ''symbol'') (\<lambda>symbol.
     and_then (read_text to_str d ''direction'') (\<lambda>direction.
     and_then (read_float d ''volume'') (\<lambda>volume.
     and_then (read_entry_type to_str d) (\<lambda>kind.
     and_then (read_float d ''sl'') (\<lambda>sl.
     and_then (read_text to_str d ''created_at'') (\<lambda>created_at.
     and_then (read_text to_str d ''expires_at'') (\<lambda>expires_at.
       Inr \<lparr>c_command_id = command_id, c_trade_id = trade_id, c_symbol = symbol, c_direction = direction,
         c_volume = volume, c_entry_type = kind, c_sl = sl, c_created_at = created_at, c_expires_at = expires_at\<rparr>)))))))))"

text \<open>Both contracts survive the way through a dictionary.\<close>

lemma trade_plan_round_trip: "trade_plan_from_dict to_str (trade_plan_to_dict p) = Inr p"
  by (cases "tp_inference_id p")
    (simp_all add: trade_plan_from_dict_def trade_plan_to_dict_def read_text_def read_float_def read_inference_id_def dget_def)

lemma command_round_trip: "command_from_dict to_str (command_to_dict c) = Inr c"
  by (cases "c_entry_type c")
    (simp add: command_from_dict_def command_to_dict_def read_text_def read_float_def read_entry_type_def dget_def dhas_def
      dkeys_def)

end
