(* ===== verification/AiRecord.thy ===== *)
theory AiRecord
  imports PyValue
begin

text \<open>
  The audited output of the AI decision engine (\<open>src/ai_decision/record.py\<close>): the decision record
  and its fail-closed constructor. Fresh ids and the time are arguments.
\<close>

record decision_record =
  dr_inference_id :: string
  dr_model_id :: string
  dr_provider :: string
  dr_request_ts :: string
  dr_latency_ms :: pyfloat
  dr_context_snapshot_id :: "string option"
  dr_prompt_version :: string
  dr_correlation_id :: "string option"
  dr_direction :: string
  dr_confidence :: pyfloat
  dr_reason :: string
  dr_validation_ok :: bool
  dr_schema_errors :: "string list"
  dr_error_class :: "string option"
  dr_error_detail :: "string option"
  dr_repair :: "string option"
  dr_fallback_level :: int
  dr_attempts :: int
  dr_retried :: bool
  dr_total_latency_ms :: pyfloat

text \<open>\<open>x or default\<close> for an optional string: an empty string counts as absent.\<close>

definition or_str :: "string option \<Rightarrow> string \<Rightarrow> string" where
  "or_str x d = (case x of None \<Rightarrow> d | Some s \<Rightarrow> if s = [] then d else s)"

text \<open>\<open>DecisionRecord.fail_closed\<close>: \<open>fresh\<close> is a new inference id and \<open>now\<close> the time, both used
  only when the caller gives none.\<close>

definition fail_closed ::
  "string \<Rightarrow> string \<Rightarrow> string \<Rightarrow> string option \<Rightarrow> string \<Rightarrow> string \<Rightarrow> string option \<Rightarrow> string option
   \<Rightarrow> string \<Rightarrow> string option \<Rightarrow> pyfloat \<Rightarrow> pyfloat \<Rightarrow> int \<Rightarrow> int \<Rightarrow> bool \<Rightarrow> string option \<Rightarrow> string list
   \<Rightarrow> decision_record" where
  "fail_closed fresh now error_class inference_id model_id provider request_ts snapshot prompt_version
     correlation_id latency total_latency fallback_level attempts retried error_detail schema_errors =
     \<lparr>dr_inference_id = or_str inference_id fresh, dr_model_id = model_id, dr_provider = provider,
      dr_request_ts = or_str request_ts now, dr_latency_ms = fround 1 latency,
      dr_context_snapshot_id = snapshot, dr_prompt_version = prompt_version,
      dr_correlation_id = correlation_id, dr_direction = ''NO-TRADE'', dr_confidence = Fin 0, dr_reason = [],
      dr_validation_ok = False, dr_schema_errors = schema_errors, dr_error_class = Some error_class,
      dr_error_detail = error_detail, dr_repair = None, dr_fallback_level = fallback_level,
      dr_attempts = attempts, dr_retried = retried, dr_total_latency_ms = fround 1 total_latency\<rparr>"

end
