(* ===== verification/RiskModels.thy ===== *)
theory RiskModels
  imports AiRecord ExecModels
begin

text \<open>
  The inputs and records of the risk engine: \<open>src/risk_engine/config.py\<close>, \<open>models.py\<close>,
  \<open>reason_codes.py\<close>. Every \<open>validate\<close> method is a definition that returns the list of its error
  tags in the source's order; a NaN fails every comparison, as in Python.
\<close>

section \<open>Reason codes\<close>

datatype reason_code =
    APPROVED | AI_NO_TRADE | INVALID_MARKET_CONTEXT | INVALID_ACCOUNT_STATE | SPREAD_TOO_HIGH
  | DRAWDOWN_LIMIT | EXPOSURE_LIMIT | RC_INSUFFICIENT_MARGIN | LOT_OUT_OF_RANGE | LOT_STEP_INVALID
  | RISK_LIMIT | INVALID_SL | BROKER_CONSTRAINT | STALE_CONTEXT | UNKNOWN_RISK_INPUT
  | AUTHORITY_VIOLATION

fun reason_code_value :: "reason_code \<Rightarrow> string" where
  "reason_code_value APPROVED = ''APPROVED''"
| "reason_code_value AI_NO_TRADE = ''AI_NO_TRADE''"
| "reason_code_value INVALID_MARKET_CONTEXT = ''INVALID_MARKET_CONTEXT''"
| "reason_code_value INVALID_ACCOUNT_STATE = ''INVALID_ACCOUNT_STATE''"
| "reason_code_value SPREAD_TOO_HIGH = ''SPREAD_TOO_HIGH''"
| "reason_code_value DRAWDOWN_LIMIT = ''DRAWDOWN_LIMIT''"
| "reason_code_value EXPOSURE_LIMIT = ''EXPOSURE_LIMIT''"
| "reason_code_value RC_INSUFFICIENT_MARGIN = ''INSUFFICIENT_MARGIN''"
| "reason_code_value LOT_OUT_OF_RANGE = ''LOT_OUT_OF_RANGE''"
| "reason_code_value LOT_STEP_INVALID = ''LOT_STEP_INVALID''"
| "reason_code_value RISK_LIMIT = ''RISK_LIMIT''"
| "reason_code_value INVALID_SL = ''INVALID_SL''"
| "reason_code_value BROKER_CONSTRAINT = ''BROKER_CONSTRAINT''"
| "reason_code_value STALE_CONTEXT = ''STALE_CONTEXT''"
| "reason_code_value UNKNOWN_RISK_INPUT = ''UNKNOWN_RISK_INPUT''"
| "reason_code_value AUTHORITY_VIOLATION = ''AUTHORITY_VIOLATION''"

section \<open>Configuration\<close>

record risk_config =
  rc_profile_name :: string
  rc_is_production :: bool
  rc_requires_paper_validation :: bool
  rc_risk_basis :: string
  rc_risk_per_trade :: pyfloat
  rc_max_simultaneous_positions :: int
  rc_max_drawdown :: pyfloat
  rc_sl_distance_points :: pyfloat
  rc_max_spread_points :: pyfloat
  rc_max_exposure_equity_ratio :: pyfloat
  rc_min_free_margin_equity_ratio :: pyfloat
  rc_margin_risk_budget_multiplier :: pyfloat
  rc_leverage_fallback :: pyfloat
  rc_compounding_reinvestment_ratio :: pyfloat
  rc_observed_spread_points :: pyfloat
  rc_max_stale_seconds :: pyfloat
  rc_min_ai_confidence :: pyfloat
  rc_confidence_policy_locked :: bool
  rc_target_broker :: string
  rc_target_account_type :: string
  rc_target_symbol :: string

definition default_risk_config :: risk_config where
  "default_risk_config =
     \<lparr>rc_profile_name = ''PAPER_VALIDATION_V0.1'', rc_is_production = False,
      rc_requires_paper_validation = True, rc_risk_basis = ''EQUITY'', rc_risk_per_trade = flit 5 3,
      rc_max_simultaneous_positions = 1, rc_max_drawdown = flit 5 2, rc_sl_distance_points = Fin 50,
      rc_max_spread_points = Fin 45, rc_max_exposure_equity_ratio = Fin 1,
      rc_min_free_margin_equity_ratio = flit 1 1, rc_margin_risk_budget_multiplier = Fin 1,
      rc_leverage_fallback = Fin 2000, rc_compounding_reinvestment_ratio = Fin 0,
      rc_observed_spread_points = Fin 36, rc_max_stale_seconds = Fin 10,
      rc_min_ai_confidence = Fin (1 / 2), rc_confidence_policy_locked = False,
      rc_target_broker = ''HFM'', rc_target_account_type = ''Cent'', rc_target_symbol = ''XAUUSDc''\<rparr>"

definition risk_config_validate :: "risk_config \<Rightarrow> ftext list" where
  "risk_config_validate c =
     opt (rc_risk_basis c \<notin> {''EQUITY'', ''BALANCE''}) [Lit (''config.risk_basis:invalid:'' @ rc_risk_basis c)]
     @ opt (\<not> (flt (Fin 0) (rc_risk_per_trade c) \<and> fle (rc_risk_per_trade c) (Fin 1)))
         [Lit ''config.risk_per_trade:invalid:'', Flt (rc_risk_per_trade c)]
     @ opt (rc_max_simultaneous_positions c < 1)
         [Lit ''config.max_simultaneous_positions:invalid:'', IntP (rc_max_simultaneous_positions c)]
     @ opt (\<not> (flt (Fin 0) (rc_max_drawdown c) \<and> flt (rc_max_drawdown c) (Fin 1)))
         [Lit ''config.max_drawdown:invalid:'', Flt (rc_max_drawdown c)]
     @ opt (fle (rc_sl_distance_points c) (Fin 0))
         [Lit ''config.sl_distance_points:invalid:'', Flt (rc_sl_distance_points c)]
     @ opt (fle (rc_sl_distance_points c) (rc_observed_spread_points c))
         [Lit ''config.sl_distance_points:below_observed_spread:'', Flt (rc_sl_distance_points c), Lit ''<='',
          Flt (rc_observed_spread_points c)]
     @ opt (fle (rc_max_spread_points c) (Fin 0))
         [Lit ''config.max_spread_points:invalid:'', Flt (rc_max_spread_points c)]
     @ opt (fle (rc_max_exposure_equity_ratio c) (Fin 0))
         [Lit ''config.max_exposure_equity_ratio:invalid:'', Flt (rc_max_exposure_equity_ratio c)]
     @ opt (flt (rc_min_free_margin_equity_ratio c) (Fin 0))
         [Lit ''config.min_free_margin_equity_ratio:invalid:'', Flt (rc_min_free_margin_equity_ratio c)]
     @ opt (flt (rc_margin_risk_budget_multiplier c) (Fin 0))
         [Lit ''config.margin_risk_budget_multiplier:invalid:'', Flt (rc_margin_risk_budget_multiplier c)]
     @ opt (fle (rc_leverage_fallback c) (Fin 0))
         [Lit ''config.leverage_fallback:invalid:'', Flt (rc_leverage_fallback c)]
     @ opt (\<not> (fle (Fin 0) (rc_compounding_reinvestment_ratio c) \<and> fle (rc_compounding_reinvestment_ratio c) (Fin 1)))
         [Lit ''config.compounding_reinvestment_ratio:invalid:'', Flt (rc_compounding_reinvestment_ratio c)]
     @ opt (flt (rc_observed_spread_points c) (Fin 0))
         [Lit ''config.observed_spread_points:invalid:'', Flt (rc_observed_spread_points c)]
     @ opt (fle (rc_max_stale_seconds c) (Fin 0))
         [Lit ''config.max_stale_seconds:invalid:'', Flt (rc_max_stale_seconds c)]"

text \<open>\<open>from_env\<close>: \<open>getenv\<close> is the process environment; a number that does not parse raises
  \<open>ValueError\<close> (\<open>None\<close>).\<close>

definition risk_config_from_env :: "(string \<Rightarrow> string option) \<Rightarrow> risk_config option" where
  "risk_config_from_env getenv =
     Option.bind (env_float getenv ''ABC_RISK_PER_TRADE'' ''0.005'') (\<lambda>risk_per_trade.
     Option.bind (parse_int (env_str getenv ''ABC_MAX_POSITIONS'' ''1'')) (\<lambda>max_positions.
     Option.bind (env_float getenv ''ABC_MAX_DRAWDOWN'' ''0.05'') (\<lambda>max_drawdown.
     Option.bind (env_float getenv ''ABC_SL_DISTANCE_POINTS'' ''50.0'') (\<lambda>sl_distance.
     Option.bind (env_float getenv ''ABC_MAX_SPREAD_POINTS'' ''45.0'') (\<lambda>max_spread.
     Option.bind (env_float getenv ''ABC_MAX_EXPOSURE_EQUITY_RATIO'' ''1.0'') (\<lambda>max_exposure.
     Option.bind (env_float getenv ''ABC_MIN_FREE_MARGIN_EQUITY_RATIO'' ''0.10'') (\<lambda>min_margin.
     Option.bind (env_float getenv ''ABC_MARGIN_RISK_BUDGET_MULTIPLIER'' ''1.0'') (\<lambda>multiplier.
     Option.bind (env_float getenv ''ABC_LEVERAGE_FALLBACK'' ''2000.0'') (\<lambda>leverage.
     Option.bind (env_float getenv ''ABC_COMPOUNDING_REINVESTMENT_RATIO'' ''0.0'') (\<lambda>compounding.
     Option.bind (env_float getenv ''ABC_OBSERVED_SPREAD_POINTS'' ''36.0'') (\<lambda>observed.
     Option.bind (env_float getenv ''ABC_MAX_STALE_SECONDS'' ''10.0'') (\<lambda>stale.
     Option.bind (env_float getenv ''ABC_MIN_AI_CONFIDENCE'' ''0.5'') (\<lambda>confidence.
     Some (default_risk_config
       \<lparr>rc_profile_name := env_str getenv ''ABC_RISK_PROFILE_NAME'' ''PAPER_VALIDATION_V0.1'',
        rc_is_production := (env_str getenv ''ABC_RISK_IS_PRODUCTION'' ''0'' = ''1''),
        rc_requires_paper_validation := (env_str getenv ''ABC_RISK_REQUIRES_PAPER_VALIDATION'' ''1'' = ''1''),
        rc_risk_basis := str_upper (env_str getenv ''ABC_RISK_BASIS'' ''EQUITY''),
        rc_risk_per_trade := risk_per_trade, rc_max_simultaneous_positions := max_positions,
        rc_max_drawdown := max_drawdown, rc_sl_distance_points := sl_distance,
        rc_max_spread_points := max_spread, rc_max_exposure_equity_ratio := max_exposure,
        rc_min_free_margin_equity_ratio := min_margin, rc_margin_risk_budget_multiplier := multiplier,
        rc_leverage_fallback := leverage, rc_compounding_reinvestment_ratio := compounding,
        rc_observed_spread_points := observed, rc_max_stale_seconds := stale,
        rc_min_ai_confidence := confidence\<rparr>))))))))))))))"

section \<open>Snapshots\<close>

record account_state =
  ac_balance :: pyfloat
  ac_equity :: pyfloat
  ac_free_margin :: pyfloat
  ac_margin :: pyfloat
  ac_existing_positions_count :: int
  ac_current_exposure_usd :: pyfloat
  ac_current_drawdown_pct :: pyfloat

record market_state =
  mk_bid :: pyfloat
  mk_ask :: pyfloat
  mk_spread :: pyfloat
  mk_mid :: pyfloat
  mk_symbol :: string
  mk_timestamp_iso :: string

record symbol_spec =
  sy_symbol :: string
  sy_contract_size :: pyfloat
  sy_tick_size :: pyfloat
  sy_tick_value :: pyfloat
  sy_volume_min :: pyfloat
  sy_volume_max :: pyfloat
  sy_volume_step :: pyfloat
  sy_point :: pyfloat
  sy_stops_level :: pyfloat
  sy_freeze_level :: pyfloat
  sy_margin_initial :: pyfloat

definition invalid_numbers :: "string \<Rightarrow> (string \<times> pyfloat) list \<Rightarrow> string list" where
  "invalid_numbers scope vals =
     concat (map (\<lambda>(name, v). opt (\<not> is_finite v) (scope @ name @ '':invalid_number'')) vals)"

definition account_validate :: "account_state \<Rightarrow> string list" where
  "account_validate a =
     invalid_numbers ''account.''
       [(''balance'', ac_balance a), (''equity'', ac_equity a), (''free_margin'', ac_free_margin a),
        (''margin'', ac_margin a), (''current_exposure_usd'', ac_current_exposure_usd a),
        (''current_drawdown_pct'', ac_current_drawdown_pct a)]
     @ opt (flt (ac_balance a) (Fin 0)) ''account.balance:negative''
     @ opt (flt (ac_equity a) (Fin 0)) ''account.equity:negative''
     @ opt (ac_existing_positions_count a < 0) ''account.existing_positions_count:negative''"

definition market_validate :: "market_state \<Rightarrow> string list" where
  "market_validate m =
     invalid_numbers ''market.''
       [(''bid'', mk_bid m), (''ask'', mk_ask m), (''spread'', mk_spread m), (''mid'', mk_mid m)]
     @ opt (fle (mk_bid m) (Fin 0) \<or> fle (mk_ask m) (Fin 0) \<or> fle (mk_mid m) (Fin 0)) ''market.prices:non_positive''
     @ opt (flt (mk_ask m) (mk_bid m)) ''market.ask_below_bid''
     @ opt (flt (mk_spread m) (Fin 0)) ''market.spread:negative''
     @ opt (mk_symbol m = []) ''market.symbol:empty''
     @ opt (mk_timestamp_iso m = []) ''market.timestamp:empty''"

definition symbol_validate :: "symbol_spec \<Rightarrow> string list" where
  "symbol_validate s =
     invalid_numbers ''symbol_spec.''
       [(''contract_size'', sy_contract_size s), (''tick_size'', sy_tick_size s),
        (''tick_value'', sy_tick_value s), (''volume_min'', sy_volume_min s),
        (''volume_max'', sy_volume_max s), (''volume_step'', sy_volume_step s), (''point'', sy_point s),
        (''stops_level'', sy_stops_level s), (''freeze_level'', sy_freeze_level s),
        (''margin_initial'', sy_margin_initial s)]
     @ opt (fle (sy_contract_size s) (Fin 0)) ''symbol_spec.contract_size:non_positive''
     @ opt (fle (sy_tick_size s) (Fin 0)) ''symbol_spec.tick_size:non_positive''
     @ opt (fle (sy_tick_value s) (Fin 0)) ''symbol_spec.tick_value:non_positive''
     @ opt (fle (sy_point s) (Fin 0)) ''symbol_spec.point:non_positive''
     @ opt (fle (sy_volume_min s) (Fin 0)) ''symbol_spec.volume_min:non_positive''
     @ opt (flt (sy_volume_max s) (sy_volume_min s)) ''symbol_spec.volume_max_below_min''
     @ opt (fle (sy_volume_step s) (Fin 0)) ''symbol_spec.volume_step:non_positive''"

section \<open>Decisions\<close>

datatype risk_verdict = APPROVE | REJECT

fun risk_verdict_value :: "risk_verdict \<Rightarrow> string" where
  "risk_verdict_value APPROVE = ''APPROVE''"
| "risk_verdict_value REJECT = ''REJECT''"

record risk_decision =
  rd_decision :: risk_verdict
  rd_direction :: string
  rd_lot :: pyfloat
  rd_sl :: pyfloat
  rd_risk_amount :: pyfloat
  rd_risk_percent :: pyfloat
  rd_exposure :: pyfloat
  rd_reason_code :: reason_code
  rd_reason :: ftext

record risk_record =
  rr_risk_evaluation_id :: string
  rr_correlation_id :: pyval
  rr_inference_id :: pyval
  rr_decision :: risk_verdict
  rr_direction :: string
  rr_risk_amount :: pyfloat
  rr_risk_percent :: pyfloat
  rr_lot :: pyfloat
  rr_exposure :: pyfloat
  rr_sl :: pyfloat
  rr_reason_code :: reason_code
  rr_reason :: ftext
  rr_validation_failures :: "ftext list"
  rr_timestamp_iso :: string

definition reject_record ::
  "string \<Rightarrow> string \<Rightarrow> reason_code \<Rightarrow> ftext \<Rightarrow> pyval \<Rightarrow> pyval \<Rightarrow> string \<Rightarrow> ftext list \<Rightarrow> risk_record" where
  \<comment> \<open>the new evaluation id and the time come first\<close>
  "reject_record eid now code reason corr infer direction failures =
     \<lparr>rr_risk_evaluation_id = eid, rr_correlation_id = corr, rr_inference_id = infer, rr_decision = REJECT,
      rr_direction = direction, rr_risk_amount = Fin 0, rr_risk_percent = Fin 0, rr_lot = Fin 0,
      rr_exposure = Fin 0, rr_sl = Fin 0, rr_reason_code = code, rr_reason = reason,
      rr_validation_failures = failures, rr_timestamp_iso = now\<rparr>"

definition to_decision :: "risk_record \<Rightarrow> risk_decision" where
  "to_decision r =
     \<lparr>rd_decision = rr_decision r, rd_direction = rr_direction r, rd_lot = rr_lot r, rd_sl = rr_sl r,
      rd_risk_amount = rr_risk_amount r, rd_risk_percent = rr_risk_percent r, rd_exposure = rr_exposure r,
      rd_reason_code = rr_reason_code r, rd_reason = rr_reason r\<rparr>"

section \<open>What an empty error list means\<close>

lemma invalid_numbers_Nil: "invalid_numbers scope fs = [] \<longleftrightarrow> (\<forall>(n, v) \<in> set fs. is_finite v)"
  by (auto simp: invalid_numbers_def)

lemma account_validate_Nil:
  "account_validate a = [] \<longleftrightarrow>
     is_finite (ac_balance a) \<and> is_finite (ac_equity a) \<and> is_finite (ac_free_margin a) \<and> is_finite (ac_margin a)
     \<and> is_finite (ac_current_exposure_usd a) \<and> is_finite (ac_current_drawdown_pct a)
     \<and> \<not> flt (ac_balance a) (Fin 0) \<and> \<not> flt (ac_equity a) (Fin 0) \<and> 0 \<le> ac_existing_positions_count a"
  by (auto simp: account_validate_def invalid_numbers_Nil opt_def)

lemma market_validate_Nil:
  "market_validate m = [] \<longleftrightarrow>
     is_finite (mk_bid m) \<and> is_finite (mk_ask m) \<and> is_finite (mk_spread m) \<and> is_finite (mk_mid m)
     \<and> \<not> fle (mk_bid m) (Fin 0) \<and> \<not> fle (mk_ask m) (Fin 0) \<and> \<not> fle (mk_mid m) (Fin 0)
     \<and> \<not> flt (mk_ask m) (mk_bid m) \<and> \<not> flt (mk_spread m) (Fin 0) \<and> mk_symbol m \<noteq> [] \<and> mk_timestamp_iso m \<noteq> []"
  by (auto simp: market_validate_def invalid_numbers_Nil opt_def)

lemma symbol_validate_Nil:
  "symbol_validate s = [] \<Longrightarrow>
     is_finite (sy_contract_size s) \<and> is_finite (sy_tick_size s) \<and> is_finite (sy_tick_value s)
     \<and> is_finite (sy_volume_min s) \<and> is_finite (sy_volume_max s) \<and> is_finite (sy_volume_step s)
     \<and> is_finite (sy_point s) \<and> is_finite (sy_stops_level s) \<and> is_finite (sy_margin_initial s)
     \<and> \<not> fle (sy_contract_size s) (Fin 0) \<and> \<not> fle (sy_tick_size s) (Fin 0) \<and> \<not> fle (sy_tick_value s) (Fin 0)
     \<and> \<not> fle (sy_point s) (Fin 0) \<and> \<not> fle (sy_volume_min s) (Fin 0)
     \<and> \<not> flt (sy_volume_max s) (sy_volume_min s) \<and> \<not> fle (sy_volume_step s) (Fin 0)"
  by (auto simp: symbol_validate_def invalid_numbers_Nil opt_def split: if_splits)

end
