(* ===== verification/RiskCalc.thy ===== *)
theory RiskCalc
  imports RiskModels
begin

text \<open>
  The calculators and validators of the risk engine: \<open>src/risk_engine/calculators.py\<close> and
  \<open>validators.py\<close>. Where the Python code may raise (a division by zero, \<open>math.floor\<close> of an
  infinity or a NaN) the definition returns an option.
\<close>

section \<open>Lot quantisation\<close>

definition round_down_step :: "pyfloat \<Rightarrow> pyfloat \<Rightarrow> pyfloat option" where
  "round_down_step value step =
     (if fle step (Fin 0) then Some (Fin 0)
      else
        Option.bind (fdiv (Fin 1) step) (\<lambda>inv.
        Option.bind (ffloor (fround 8 (fmul value (fround 8 inv)))) (\<lambda>units.
        Some (fround 8 (fmul (of_int_f units) step)))))"

section \<open>Stop loss\<close>

definition effective_sl_points :: "pyfloat \<Rightarrow> pyfloat \<Rightarrow> pyfloat" where
  "effective_sl_points sl_points stops = (if flt (Fin 0) stops then fmax sl_points stops else sl_points)"

definition calculate_sl_price ::
  "string \<Rightarrow> pyfloat \<Rightarrow> pyfloat \<Rightarrow> pyfloat \<Rightarrow> pyfloat \<times> pyfloat \<times> string option" where
  "calculate_sl_price direction entry_price sl_points stops_level_points =
     (if fle sl_points (Fin 0) then (Fin 0, Fin 0, Some ''sl_points_non_positive'')
      else
        (let eff = effective_sl_points sl_points stops_level_points in
         if direction = ''BUY'' then
           (let sl = fsub entry_price eff in
            if fle sl (Fin 0) then (Fin 0, Fin 0, Some ''sl_price_non_positive'')
            else (fround 5 sl, fround 5 eff, None))
         else if direction = ''SELL'' then (fround 5 (fadd entry_price eff), fround 5 eff, None)
         else (Fin 0, Fin 0, Some ''invalid_direction_for_sl'')))"

section \<open>Trade plan\<close>

record lot_calc =
  lc_candidate_lot :: pyfloat
  lc_final_lot :: pyfloat
  lc_raw_lot :: pyfloat
  lc_sl_price :: pyfloat
  lc_sl_distance_points :: pyfloat
  lc_risk_amount_usd :: pyfloat
  lc_risk_pct :: pyfloat
  lc_exposure_usd :: pyfloat
  lc_required_margin_usd :: pyfloat
  lc_ok :: bool
  lc_error :: "ftext option"

definition calc_error :: "pyfloat \<Rightarrow> pyfloat \<Rightarrow> pyfloat \<Rightarrow> pyfloat \<Rightarrow> ftext \<Rightarrow> lot_calc" where
  \<comment> \<open>the early returns: candidate lot, raw lot, stop loss price and distance, the error\<close>
  "calc_error cand raw sl pts e =
     \<lparr>lc_candidate_lot = cand, lc_final_lot = Fin 0, lc_raw_lot = raw, lc_sl_price = sl,
      lc_sl_distance_points = pts, lc_risk_amount_usd = Fin 0, lc_risk_pct = Fin 0,
      lc_exposure_usd = Fin 0, lc_required_margin_usd = Fin 0, lc_ok = False, lc_error = Some e\<rparr>"

definition capital_basis :: "account_state \<Rightarrow> risk_config \<Rightarrow> pyfloat" where
  "capital_basis a c = (if rc_risk_basis c = ''EQUITY'' then ac_equity a else ac_balance a)"

definition entry_price_of :: "string \<Rightarrow> market_state \<Rightarrow> pyfloat" where
  "entry_price_of direction m = (if direction = ''BUY'' then mk_ask m else mk_bid m)"

text \<open>The last stage: the numbers of an accepted lot.\<close>

definition accepted_plan ::
  "account_state \<Rightarrow> symbol_spec \<Rightarrow> risk_config \<Rightarrow> pyfloat \<Rightarrow> pyfloat \<Rightarrow> pyfloat \<Rightarrow> pyfloat \<Rightarrow> pyfloat
   \<Rightarrow> pyfloat \<Rightarrow> lot_calc option" where
  "accepted_plan a s c entry sl pts loss raw cand =
     (let final_lot = fmin cand (sy_volume_max s);
          risk = fmul final_lot loss;
          exposure = fmul (fmul final_lot (sy_contract_size s)) entry in
      Option.bind (fdiv risk (capital_basis a c)) (\<lambda>ratio.
      Option.bind (if flt (Fin 0) (sy_margin_initial s) then Some (fmul final_lot (sy_margin_initial s))
                   else fdiv exposure (rc_leverage_fallback c)) (\<lambda>margin.
      Some \<lparr>lc_candidate_lot = cand, lc_final_lot = final_lot, lc_raw_lot = raw, lc_sl_price = sl,
            lc_sl_distance_points = pts, lc_risk_amount_usd = fround 4 risk,
            lc_risk_pct = fround 4 (fmul ratio (Fin 100)), lc_exposure_usd = fround 2 exposure,
            lc_required_margin_usd = fround 2 margin, lc_ok = True, lc_error = None\<rparr>)))"

definition calculate_trade_plan ::
  "string \<Rightarrow> account_state \<Rightarrow> market_state \<Rightarrow> symbol_spec \<Rightarrow> risk_config \<Rightarrow> lot_calc option" where
  "calculate_trade_plan direction a m s c =
     (if direction \<notin> {''BUY'', ''SELL''} then
        Some (calc_error (Fin 0) (Fin 0) (Fin 0) (Fin 0) [Lit (''invalid_direction:'' @ direction)])
      else if fle (capital_basis a c) (Fin 0) then
        Some (calc_error (Fin 0) (Fin 0) (Fin 0) (Fin 0) [Lit ''capital_basis_non_positive''])
      else
        (let target = fmul (capital_basis a c) (rc_risk_per_trade c);
             entry = entry_price_of direction m in
         case calculate_sl_price direction entry (fmul (rc_sl_distance_points c) (sy_point s))
                (fmul (sy_stops_level s) (sy_point s)) of
           (sl, dist_price, Some e) \<Rightarrow> Some (calc_error (Fin 0) (Fin 0) (Fin 0) (Fin 0) [Lit e])
         | (sl, dist_price, None) \<Rightarrow>
             Option.bind (fdiv dist_price (sy_point s)) (\<lambda>pts.
             if fle pts (rc_observed_spread_points c) then
               Some (calc_error (Fin 0) (Fin 0) sl pts
                 [Lit ''sl_distance_not_above_observed_spread:'', Flt pts, Lit ''<='',
                  Flt (rc_observed_spread_points c)])
             else
               Option.bind (fdiv pts (sy_tick_size s)) (\<lambda>ticks.
               let loss = fmul ticks (sy_tick_value s) in
               if fle loss (Fin 0) then
                 Some (calc_error (Fin 0) (Fin 0) sl pts [Lit ''loss_per_lot_non_positive''])
               else
                 Option.bind (fdiv target loss) (\<lambda>raw.
                 Option.bind (round_down_step raw (sy_volume_step s)) (\<lambda>cand.
                 if flt cand (sy_volume_min s) then
                   Some (calc_error cand raw sl pts
                     [Lit ''candidate_lot_below_min:'', Flt cand, Lit ''<'', Flt (sy_volume_min s)])
                 else accepted_plan a s c entry sl pts loss raw cand))))))"

section \<open>Preconditions\<close>

type_synonym check = "bool \<times> reason_code option \<times> ftext \<times> ftext list"

definition refuse :: "reason_code \<Rightarrow> ftext \<Rightarrow> ftext list \<Rightarrow> check" where
  "refuse code msg failures = (False, Some code, msg, failures)"

definition plain :: "string list \<Rightarrow> ftext list" where
  "plain = map (\<lambda>s. [Lit s])"

text \<open>\<open>validate_all_inputs\<close>, in its order of checks. \<open>parse_ts\<close> is \<open>parse_iso_ts\<close> in microseconds and
  \<open>now\<close> the current time; \<open>None\<close> is the \<open>ZeroDivisionError\<close> of the spread in points.\<close>

definition validate_spread_on ::
  "account_state \<Rightarrow> market_state \<Rightarrow> symbol_spec \<Rightarrow> risk_config \<Rightarrow> check option" where
  \<comment> \<open>checks 7 to 9: spread, drawdown, positions\<close>
  "validate_spread_on a m s c =
     Option.bind (fdiv (mk_spread m) (sy_point s)) (\<lambda>spread_points. Some (
     if flt (rc_max_spread_points c) spread_points then
       refuse SPREAD_TOO_HIGH
         [Lit ''Market spread '', Flt spread_points, Lit '' points exceeds limit '', Flt (rc_max_spread_points c)]
         [[Lit ''market.spread:exceeds_max:'', Flt spread_points, Lit ''>'', Flt (rc_max_spread_points c)]]
     else if fle (rc_max_drawdown c) (ac_current_drawdown_pct a) then
       refuse DRAWDOWN_LIMIT
         [Lit ''Account drawdown '', Flt (ac_current_drawdown_pct a), Lit '' exceeds max '', Flt (rc_max_drawdown c)]
         [[Lit ''account.drawdown:exceeds_max:'', Flt (ac_current_drawdown_pct a), Lit ''>='', Flt (rc_max_drawdown c)]]
     else if rc_max_simultaneous_positions c \<le> ac_existing_positions_count a then
       refuse EXPOSURE_LIMIT
         [Lit ''Existing positions ('', IntP (ac_existing_positions_count a), Lit '') at or above limit'']
         [[Lit ''account.positions:limit_reached:'', IntP (ac_existing_positions_count a), Lit ''>='',
           IntP (rc_max_simultaneous_positions c)]]
     else (True, None, [Lit ''Preconditions OK''], [])))"

definition stale :: "pyfloat \<Rightarrow> risk_config \<Rightarrow> bool" where
  "stale delta c \<longleftrightarrow> flt delta (Fin (- 5)) \<or> flt (rc_max_stale_seconds c) delta"

definition validate_all_inputs ::
  "(string \<Rightarrow> int option) \<Rightarrow> int \<Rightarrow> string \<Rightarrow> pyfloat \<Rightarrow> account_state \<Rightarrow> market_state \<Rightarrow> symbol_spec
   \<Rightarrow> risk_config \<Rightarrow> check option" where
  "validate_all_inputs parse_ts now direction confidence a m s c =
     (if direction \<notin> {''BUY'', ''SELL'', ''NO-TRADE''} then
        Some (refuse AUTHORITY_VIOLATION [Lit ''Invalid AI direction'']
          [[Lit (''ai.direction:invalid:'' @ direction)]])
      else if direction = ''NO-TRADE'' then Some (refuse AI_NO_TRADE [Lit ''AI proposed NO-TRADE''] [])
      else if flt confidence (rc_min_ai_confidence c) then
        Some (refuse AUTHORITY_VIOLATION
          [Lit ''AI confidence '', Flt confidence, Lit '' below minimum '', Flt (rc_min_ai_confidence c)]
          [[Lit ''ai.confidence:below_min:'', Flt confidence, Lit ''<'', Flt (rc_min_ai_confidence c)]])
      else if account_validate a \<noteq> [] then
        Some (refuse INVALID_ACCOUNT_STATE [Lit ''Account state contains invalid fields'']
          (plain (account_validate a)))
      else if market_validate m \<noteq> [] then
        Some (refuse INVALID_MARKET_CONTEXT [Lit ''Market state contains invalid fields'']
          (plain (market_validate m)))
      else if symbol_validate s \<noteq> [] then
        Some (refuse BROKER_CONSTRAINT [Lit ''Symbol specification contains invalid fields'']
          (plain (symbol_validate s)))
      else if risk_config_validate c \<noteq> [] then
        Some (refuse UNKNOWN_RISK_INPUT [Lit ''Risk configuration is invalid''] (risk_config_validate c))
      else
        (case parse_ts (mk_timestamp_iso m) of
           None \<Rightarrow>
             Some (refuse STALE_CONTEXT [Lit ''Unparseable market timestamp''] [[Lit ''market.timestamp:unparseable'']])
         | Some ts \<Rightarrow>
             (let delta = rnd (Fract (now - ts) 1000000) in
              if stale delta c then
                Some (refuse STALE_CONTEXT [Lit ''Market context is stale ('', Fix 1 delta, Lit ''s old)'']
                  [[Lit ''market.timestamp:stale_or_future:delta='', Fix 1 delta, Lit ''s'']])
              else validate_spread_on a m s c)))"

section \<open>Lemmas on the calculators\<close>

text \<open>A float that rounding leaves alone: every value a Python float can hold.\<close>

definition representable :: "pyfloat \<Rightarrow> bool" where
  "representable x \<longleftrightarrow> (case x of Fin a \<Rightarrow> rnd a = Fin a | _ \<Rightarrow> True)"

lemma calc_error_not_ok [simp]: "lc_ok (calc_error cand raw sl pts e) = False"
  by (simp add: calc_error_def)

lemma sl_price_BUY:
  assumes "calculate_sl_price ''BUY'' entry sl_pts stops = (sl, d, None)" and "entry = Fin x" and "representable entry"
    and "effective_sl_points sl_pts stops = Fin e" and "0 \<le> e"
  shows "fle sl (fround 5 entry)" "\<not> fle (fsub entry (Fin e)) (Fin 0)" "d = fround 5 (Fin e)"
proof -
  have sl: "sl = fround 5 (fsub entry (Fin e))" and pos: "\<not> fle (fsub entry (Fin e)) (Fin 0)"
    and d: "d = fround 5 (Fin e)"
    using assms(1,4) by (auto simp: calculate_sl_price_def Let_def split: if_splits)
  have "fle (rnd (x - e)) (rnd x)" using assms(5) by (intro rnd_mono) simp
  then have "fle (fsub entry (Fin e)) entry"
    using assms(2,3) by (simp add: fsub_def representable_def)
  then show "fle sl (fround 5 entry)" unfolding sl by (rule fround_mono)
  show "\<not> fle (fsub entry (Fin e)) (Fin 0)" "d = fround 5 (Fin e)" using pos d by simp_all
qed

lemma sl_price_SELL:
  assumes "calculate_sl_price ''SELL'' entry sl_pts stops = (sl, d, None)" and "entry = Fin x" and "representable entry"
    and "effective_sl_points sl_pts stops = Fin e" and "0 \<le> e"
  shows "fle (fround 5 entry) sl"
proof -
  have sl: "sl = fround 5 (fadd entry (Fin e))"
    using assms(1,4) by (auto simp: calculate_sl_price_def Let_def split: if_splits)
  have "fle (rnd x) (rnd (x + e))" using assms(5) by (intro rnd_mono) simp
  then have "fle entry (fadd entry (Fin e))" using assms(2,3) by (simp add: representable_def)
  then show ?thesis unfolding sl by (rule fround_mono)
qed

lemma plan_okE:
  assumes "calculate_trade_plan direction a m s c = Some p" and "lc_ok p"
  obtains dist_price pts ticks raw cand where
    "direction = ''BUY'' \<or> direction = ''SELL''" and "\<not> fle (capital_basis a c) (Fin 0)"
    and "calculate_sl_price direction (entry_price_of direction m) (fmul (rc_sl_distance_points c) (sy_point s))
           (fmul (sy_stops_level s) (sy_point s)) = (lc_sl_price p, dist_price, None)"
    and "fdiv dist_price (sy_point s) = Some pts" and "\<not> fle pts (rc_observed_spread_points c)"
    and "fdiv pts (sy_tick_size s) = Some ticks"
    and "fdiv (fmul (capital_basis a c) (rc_risk_per_trade c)) (fmul ticks (sy_tick_value s)) = Some raw"
    and "round_down_step raw (sy_volume_step s) = Some cand" and "\<not> flt cand (sy_volume_min s)"
    and "lc_final_lot p = fmin cand (sy_volume_max s)"
    and "accepted_plan a s c (entry_price_of direction m) (lc_sl_price p) pts (fmul ticks (sy_tick_value s)) raw cand = Some p"
proof -
  have dir: "direction = ''BUY'' \<or> direction = ''SELL''" and cap: "\<not> fle (capital_basis a c) (Fin 0)"
    using assms by (auto simp: calculate_trade_plan_def split: if_splits)
  obtain sl dp e where sl: "calculate_sl_price direction (entry_price_of direction m)
      (fmul (rc_sl_distance_points c) (sy_point s)) (fmul (sy_stops_level s) (sy_point s)) = (sl, dp, e)"
    using prod_cases3 by blast
  have e: "e = None" using assms dir cap sl by (auto simp: calculate_trade_plan_def Let_def split: option.splits)
  note run = assms(1) [unfolded calculate_trade_plan_def Let_def sl e prod.case option.case]
  obtain pts where pts: "fdiv dp (sy_point s) = Some pts" "\<not> fle pts (rc_observed_spread_points c)"
    using run dir cap assms(2) by (auto simp: bind_eq_Some_conv split: if_splits)
  obtain ticks where ticks: "fdiv pts (sy_tick_size s) = Some ticks" "\<not> fle (fmul ticks (sy_tick_value s)) (Fin 0)"
    using run dir cap assms(2) pts by (auto simp: bind_eq_Some_conv split: if_splits)
  obtain raw where raw: "fdiv (fmul (capital_basis a c) (rc_risk_per_trade c)) (fmul ticks (sy_tick_value s)) = Some raw"
    using run dir cap assms(2) pts ticks by (auto simp: bind_eq_Some_conv split: if_splits)
  obtain cand where cand: "round_down_step raw (sy_volume_step s) = Some cand" "\<not> flt cand (sy_volume_min s)"
    using run dir cap assms(2) pts ticks raw by (auto simp: bind_eq_Some_conv split: if_splits)
  have acc: "accepted_plan a s c (entry_price_of direction m) sl pts (fmul ticks (sy_tick_value s)) raw cand = Some p"
    using run dir cap assms(2) pts ticks raw cand by (auto split: if_splits)
  have "lc_sl_price p = sl" "lc_final_lot p = fmin cand (sy_volume_max s)"
    using acc by (auto simp: accepted_plan_def Let_def bind_eq_Some_conv)
  then show thesis using that dir cap sl e pts ticks raw cand acc by blast
qed

end
