(* ===== verification/RiskClaims.thy ===== *)
theory RiskClaims
  imports RiskEngine
begin

text \<open>
  The properties of the risk engine: an approval implies every limit, the stop loss is on the losing
  side of the entry price, a rejection carries no tradable number, lot quantisation is monotone, and
  where a NaN slips past the checks.
\<close>

section \<open>Finite numbers\<close>

definition finite_config :: "risk_config \<Rightarrow> bool" where
  "finite_config c \<longleftrightarrow> list_all is_finite
     [rc_risk_per_trade c, rc_max_drawdown c, rc_sl_distance_points c, rc_max_spread_points c,
      rc_max_exposure_equity_ratio c, rc_min_free_margin_equity_ratio c, rc_margin_risk_budget_multiplier c,
      rc_leverage_fallback c, rc_observed_spread_points c, rc_max_stale_seconds c, rc_min_ai_confidence c]"

lemma finE: assumes "is_finite x" obtains a where "x = Fin a"
  using assms by (cases x) auto

lemma fmul_fin: "fmul (Fin a) (Fin b) = rnd (a * b)"
  by simp

lemma fround_not_NaN: "x \<noteq> NaN \<Longrightarrow> fround n x \<noteq> NaN"
  by (cases x) (simp_all del: rnd_0)

lemma fmul_not_NaN: "x \<noteq> NaN \<Longrightarrow> 0 < b \<Longrightarrow> fmul x (Fin b) \<noteq> NaN"
  by (cases x) (simp_all add: inf_of_sgn_def)

lemma fadd_not_NaN: "x \<noteq> NaN \<Longrightarrow> fadd (Fin a) x \<noteq> NaN"
  by (cases x) simp_all

lemma capital_finite: "account_validate a = [] \<Longrightarrow> is_finite (capital_basis a c)"
  by (simp add: account_validate_Nil capital_basis_def)

text \<open>The final lot of a plan made for a valid symbol is a finite number within the broker's limits.\<close>

lemma round_down_step_not_NaN:
  assumes "round_down_step v step = Some x" and "is_finite step" and "\<not> fle step (Fin 0)"
  shows "x \<noteq> NaN"
proof -
  obtain q where q: "step = Fin q" using assms(2) by (rule finE)
  then have "0 < q" using assms(3) by simp
  moreover have "of_int_f u \<noteq> NaN" for u by (simp add: of_int_f_def)
  ultimately have "fmul (of_int_f u) step \<noteq> NaN" for u unfolding q by (rule fmul_not_NaN [rotated])
  then show ?thesis
    using assms(1,3) fround_not_NaN by (auto simp: round_down_step_def bind_eq_Some_conv)
qed

lemma plan_lot:
  assumes "calculate_trade_plan direction a m s c = Some p" and "lc_ok p" and "symbol_validate s = []"
  shows "fle (sy_volume_min s) (lc_final_lot p)" "fle (lc_final_lot p) (sy_volume_max s)"
    "\<exists>l. lc_final_lot p = Fin l \<and> 0 < l"
proof -
  obtain cand raw where cand: "round_down_step raw (sy_volume_step s) = Some cand"
      "\<not> flt cand (sy_volume_min s)" "lc_final_lot p = fmin cand (sy_volume_max s)"
    using plan_okE [OF assms(1,2)] by metis
  note sv = symbol_validate_Nil [OF assms(3)]
  have "cand \<noteq> NaN" using round_down_step_not_NaN [OF cand(1)] sv by blast
  obtain mn mx where fin: "sy_volume_min s = Fin mn" "sy_volume_max s = Fin mx" using sv by (metis finE)
  show 1: "fle (lc_final_lot p) (sy_volume_max s)"
    unfolding cand(3) using fmin_le [of cand "sy_volume_max s"] \<open>cand \<noteq> NaN\<close> fin by simp
  have "\<not> flt (lc_final_lot p) (sy_volume_min s)"
    unfolding cand(3) fmin_def using cand(2) sv by simp
  then show 2: "fle (sy_volume_min s) (lc_final_lot p)"
    using not_flt_fle fin 1 fle_not_NaN by fastforce
  have "0 < mn" using sv fin by simp
  then show "\<exists>l. lc_final_lot p = Fin l \<and> 0 < l"
    using 1 2 fin by (cases "lc_final_lot p") auto
qed

lemma accepted_plan_exposure:
  assumes "accepted_plan a s c entry sl pts loss raw cand = Some p"
  shows "lc_exposure_usd p = fround 2 (fmul (fmul (lc_final_lot p) (sy_contract_size s)) entry)"
  using assms by (auto simp: accepted_plan_def Let_def bind_eq_Some_conv)

lemma plan_exposure_not_NaN:
  assumes "calculate_trade_plan direction a m s c = Some p" and "lc_ok p" and "symbol_validate s = []"
    and "market_validate m = []"
  shows "lc_exposure_usd p \<noteq> NaN"
proof -
  obtain l where l: "lc_final_lot p = Fin l" "0 < l" using plan_lot(3) [OF assms(1-3)] by blast
  have cs: "is_finite (sy_contract_size s)" using symbol_validate_Nil [OF assms(3)] by blast
  have en: "is_finite (entry_price_of direction m)" "\<not> fle (entry_price_of direction m) (Fin 0)"
    using assms(4) by (auto simp: market_validate_Nil entry_price_of_def)
  obtain k where k: "sy_contract_size s = Fin k" using cs by (rule finE)
  obtain e where e: "entry_price_of direction m = Fin e" using en(1) by (rule finE)
  have "0 < e" using en(2) e by simp
  have "lc_exposure_usd p = fround 2 (fmul (fmul (lc_final_lot p) (sy_contract_size s)) (entry_price_of direction m))"
  proof -
    obtain pts ticks raw cand where "accepted_plan a s c (entry_price_of direction m) (lc_sl_price p) pts
        (fmul ticks (sy_tick_value s)) raw cand = Some p"
      using plan_okE [OF assms(1,2)] by metis
    then show ?thesis by (rule accepted_plan_exposure)
  qed
  then have eq: "lc_exposure_usd p = fround 2 (fmul (rnd (l * k)) (Fin e))" unfolding l k e fmul_fin .
  show ?thesis
    unfolding eq by (intro fround_not_NaN fmul_not_NaN) (simp_all add: \<open>0 < e\<close>)
qed

section \<open>What an approval guarantees\<close>

lemma not_flt_imp_fle: "x \<noteq> NaN \<Longrightarrow> y \<noteq> NaN \<Longrightarrow> \<not> flt x y \<Longrightarrow> fle y x"
  using not_flt_fle by blast

lemma not_fle_imp_flt: "is_finite x \<Longrightarrow> is_finite y \<Longrightarrow> \<not> fle x y \<Longrightarrow> flt y x"
  by (cases x; cases y) simp_all

text \<open>C4. An approved proposal satisfies every limit of a configuration of finite numbers: all inputs
  were valid; the timestamp of the market could be read and was at most five seconds ahead of the present
  and at most the configured number of seconds behind it; the direction is BUY or SELL, the lot lies within
  the broker's minimum and maximum, the drawdown is below the circuit breaker, a position slot is free, and
  the exposure already open plus the approved one stays within the cap.\<close>

theorem approval_respects_limits:
  assumes "evaluate E c p a m s corr = Some r" and "rr_decision r = APPROVE" and "finite_config c"
  shows "(rr_direction r = ''BUY'' \<or> rr_direction r = ''SELL'')
    \<and> account_validate a = [] \<and> market_validate m = [] \<and> symbol_validate s = [] \<and> risk_config_validate c = []
    \<and> (\<exists>ts. re_parse_ts E (mk_timestamp_iso m) = Some ts
         \<and> fle (Fin (- 5)) (rnd (Fract (re_now_us E - ts) 1000000))
         \<and> fle (rnd (Fract (re_now_us E - ts) 1000000)) (rc_max_stale_seconds c))
    \<and> fle (sy_volume_min s) (rr_lot r) \<and> fle (rr_lot r) (sy_volume_max s)
    \<and> flt (ac_current_drawdown_pct a) (rc_max_drawdown c)
    \<and> ac_existing_positions_count a + 1 \<le> rc_max_simultaneous_positions c
    \<and> fle (fadd (ac_current_exposure_usd a) (rr_exposure r))
          (fmul (capital_basis a c) (rc_max_exposure_equity_ratio c))"
proof -
  obtain v plan code msg fs where v: "view_proposal E corr p = Some v"
    and val: "validate_all_inputs (re_parse_ts E) (re_now_us E) (pv_direction v) (pv_confidence v) a m s c
           = Some (True, code, msg, fs)"
    and plan: "calculate_trade_plan (pv_direction v) a m s c = Some plan" "lc_ok plan"
    and r: "r = approved_record E (re_uuid E 0) v plan"
    and exp: "\<not> flt (fmul (capital_basis a c) (rc_max_exposure_equity_ratio c))
         (fadd (ac_current_exposure_usd a) (lc_exposure_usd plan))"
    using evaluate_approveE [OF assms(1,2)] by metis
  obtain ts spread where dir: "pv_direction v = ''BUY'' \<or> pv_direction v = ''SELL''"
    and valid: "account_validate a = []" "market_validate m = []" "symbol_validate s = []" "risk_config_validate c = []"
    and ts: "re_parse_ts E (mk_timestamp_iso m) = Some ts" "\<not> stale (rnd (Fract (re_now_us E - ts) 1000000)) c"
    and dd: "\<not> fle (rc_max_drawdown c) (ac_current_drawdown_pct a)"
    and pos: "ac_existing_positions_count a < rc_max_simultaneous_positions c"
    using validate_okE [OF val] by metis
  have fin: "is_finite (rc_max_drawdown c)" "is_finite (rc_max_exposure_equity_ratio c)"
      "rc_max_stale_seconds c \<noteq> NaN"
    using assms(3) by (auto simp: finite_config_def)
  have fresh: "fle (Fin (- 5)) (rnd (Fract (re_now_us E - ts) 1000000))"
      "fle (rnd (Fract (re_now_us E - ts) 1000000)) (rc_max_stale_seconds c)"
    using ts(2) fin(3) unfolding stale_def by (auto intro!: not_flt_imp_fle)
  have acc: "is_finite (ac_current_drawdown_pct a)" "is_finite (ac_current_exposure_usd a)"
    using valid(1) by (simp_all add: account_validate_Nil)
  obtain x y z where xyz: "capital_basis a c = Fin x" "rc_max_exposure_equity_ratio c = Fin y"
      "ac_current_exposure_usd a = Fin z"
    using capital_finite [OF valid(1)] fin(2) acc(2) by (metis finE)
  have cap: "fle (fadd (ac_current_exposure_usd a) (lc_exposure_usd plan))
      (fmul (capital_basis a c) (rc_max_exposure_equity_ratio c))"
    using exp fadd_not_NaN [OF plan_exposure_not_NaN [OF plan valid(3,2)]]
    unfolding xyz fmul_fin by (intro not_flt_imp_fle) simp_all
  show ?thesis
    using dir valid plan_lot(1,2) [OF plan valid(3)] not_fle_imp_flt [OF fin(1) acc(1) dd] pos cap ts(1) fresh
    by (simp add: r approved_record_def)
qed

section \<open>The stop loss\<close>

lemma effective_cases:
  assumes "\<not> fle sl_pts (Fin 0)" and "sl_pts \<noteq> NaN" and "stops \<noteq> NaN"
  shows "effective_sl_points sl_pts stops = PInf \<or> (\<exists>e. effective_sl_points sl_pts stops = Fin e \<and> 0 \<le> e)"
  using assms by (cases sl_pts; cases stops) (auto simp: effective_sl_points_def fmax_def)



lemma fneg_not_NaN [simp]: "fneg x = NaN \<longleftrightarrow> x = NaN"
  by (cases x) simp_all








text \<open>The approved stop loss lies on the losing side of the entry price: for a BUY it is not above the
  ask (to five decimals), for a SELL not below the bid, for every configuration of finite numbers and
  every price that a float can hold.\<close>

theorem approved_stop_loss_side:
  assumes "evaluate E c p a m s corr = Some r" and "rr_decision r = APPROVE" and "finite_config c"
    and "representable (mk_ask m)" and "representable (mk_bid m)"
  shows "if rr_direction r = ''BUY'' then fle (rr_sl r) (fround 5 (mk_ask m))
         else fle (fround 5 (mk_bid m)) (rr_sl r)"
proof -
  obtain v plan code msg fs where
    val: "validate_all_inputs (re_parse_ts E) (re_now_us E) (pv_direction v) (pv_confidence v) a m s c
           = Some (True, code, msg, fs)"
    and plan: "calculate_trade_plan (pv_direction v) a m s c = Some plan" "lc_ok plan"
    and r: "r = approved_record E (re_uuid E 0) v plan"
    using evaluate_approveE [OF assms(1,2)] by metis
  let ?pts = "fmul (rc_sl_distance_points c) (sy_point s)" and ?stops = "fmul (sy_stops_level s) (sy_point s)"
  let ?entry = "entry_price_of (pv_direction v) m"
  have valid: "market_validate m = []" "symbol_validate s = []" using validate_okE [OF val] by metis+
  obtain d dir where dir: "pv_direction v = ''BUY'' \<or> pv_direction v = ''SELL''"
    and sl: "calculate_sl_price (pv_direction v) ?entry ?pts ?stops = (lc_sl_price plan, d, None)"
    using plan_okE [OF plan] by metis
  obtain q w u where q: "sy_point s = Fin q" "sy_stops_level s = Fin w" "rc_sl_distance_points c = Fin u"
    using symbol_validate_Nil [OF valid(2)] assms(3) by (auto simp: finite_config_def elim!: finE)
  have nn: "?pts \<noteq> NaN" "?stops \<noteq> NaN" by (simp_all add: q)
  have pos: "\<not> fle ?pts (Fin 0)" using sl by (auto simp: calculate_sl_price_def split: if_splits)
  have "is_finite ?entry" using valid(1) by (simp add: market_validate_Nil entry_price_of_def)
  then obtain x where x: "?entry = Fin x" by (rule finE)
  have rep: "representable ?entry" using assms(4,5) by (simp add: entry_price_of_def)
  consider (inf) "effective_sl_points ?pts ?stops = PInf" | (fin) e where "effective_sl_points ?pts ?stops = Fin e" "0 \<le> e"
    using effective_cases [OF pos nn] by blast
  then have "if pv_direction v = ''BUY'' then fle (lc_sl_price plan) (fround 5 ?entry) else fle (fround 5 ?entry) (lc_sl_price plan)"
  proof cases
    case inf
    have "lc_sl_price plan = PInf" "pv_direction v \<noteq> ''BUY''"
      using sl dir inf x by (auto simp: calculate_sl_price_def Let_def fsub_def split: if_splits)
    then show ?thesis using fle_PInf [OF fround_not_NaN [of ?entry 5]] x by simp
  next
    case fin
    show ?thesis
    proof (cases "pv_direction v = ''BUY''")
      case True
      then show ?thesis using sl_price_BUY(1) [OF _ x rep fin] sl by simp
    next
      case False
      then have "pv_direction v = ''SELL''" using dir by simp
      then show ?thesis using sl_price_SELL [OF _ x rep fin] sl by simp
    qed
  qed
  then show ?thesis by (simp add: r approved_record_def entry_price_of_def split: if_splits)
qed

section \<open>Rejections\<close>

lemma refusal_code:
  "validate_all_inputs pts now d conf a m s c = Some (b, Some k, msg, fs) \<Longrightarrow> k \<noteq> APPROVED"
  by (auto simp: validate_all_inputs_def validate_spread_on_def refuse_def Let_def bind_eq_Some_conv
    split: if_splits option.splits)

lemma plan_error_not_approved: "plan_error_code e \<noteq> APPROVED"
  by (simp add: plan_error_code_def)

lemma post_checks_cases:
  "post_checks a c plan rej ok = ok \<or> (\<exists>k msg fs. post_checks a c plan rej ok = rej k msg fs \<and> k \<noteq> APPROVED)"
  unfolding post_checks_def Let_def by (simp, blast)

text \<open>Fail closed: every outcome that is not an approval is a rejection whose lot, stop loss, risk and
  exposure are all zero and whose reason is not APPROVED; nothing downstream can trade on it.\<close>

theorem rejection_carries_nothing:
  assumes "evaluate E c p a m s corr = Some r" and "rr_decision r \<noteq> APPROVE"
  shows "rr_decision r = REJECT \<and> rr_lot r = Fin 0 \<and> rr_sl r = Fin 0 \<and> rr_risk_amount r = Fin 0
    \<and> rr_risk_percent r = Fin 0 \<and> rr_exposure r = Fin 0 \<and> rr_reason_code r \<noteq> APPROVED"
proof -
  show ?thesis
  proof (cases "view_proposal E corr p")
    case None
    then show ?thesis using assms(1) by (auto simp: evaluate_def reject_record_def)
  next
    case (Some v)
    let ?rej = "\<lambda>code msg failures.
       reject_record (re_uuid E 1) (re_now_text E) code msg (pv_correlation_id v) (pv_inference_id v) (pv_direction v) failures"
    have "\<exists>k msg fs. r = ?rej k msg fs \<and> k \<noteq> APPROVED"
    proof (cases "pv_ok v")
      case False
      then show ?thesis using assms(1) Some by (auto simp: evaluate_def Let_def)
    next
      case True
      obtain b code msg fs where val: "validate_all_inputs (re_parse_ts E) (re_now_us E) (pv_direction v) (pv_confidence v) a m s c
          = Some (b, code, msg, fs)"
        using assms(1) Some True by (auto simp: evaluate_def Let_def bind_eq_Some_conv)
      show ?thesis
      proof (cases b)
        case False
        then have "map_option (\<lambda>k. ?rej k msg fs) code = Some r"
          using assms(1) Some True val by (simp add: evaluate_def Let_def)
        then show ?thesis using refusal_code val by fastforce
      next
        case b: True
        obtain plan where plan: "calculate_trade_plan (pv_direction v) a m s c = Some plan"
          using assms(1) Some True val b by (auto simp: evaluate_def Let_def bind_eq_Some_conv)
        show ?thesis
        proof (cases "lc_ok plan")
          case False
          then show ?thesis
            using assms(1) Some True val b plan plan_error_not_approved
            by (auto simp: evaluate_def Let_def)
        next
          case lok: True
          have "r = post_checks a c plan ?rej (approved_record E (re_uuid E 0) v plan)"
            using assms(1) Some True val b plan lok by (simp add: evaluate_def Let_def)
          moreover have "rr_decision (approved_record E (re_uuid E 0) v plan) = APPROVE"
            by (simp add: approved_record_def)
          ultimately show ?thesis
            using assms(2) post_checks_cases [of a c plan ?rej "approved_record E (re_uuid E 0) v plan"] by auto
        qed
      qed
    qed
    then show ?thesis by (auto simp: reject_record_def)
  qed
qed

section \<open>Lot quantisation\<close>

lemma rnd_fmul_mono: "fle x y \<Longrightarrow> 0 < b \<Longrightarrow> fle (fmul x (Fin b)) (fmul y (Fin b))"
proof (cases x; cases y)
  fix a a' assume "fle x y" "0 < b" "x = Fin a" "y = Fin a'"
  then show ?thesis using rnd_mono [of "a * b" "a' * b"] by (simp add: mult_right_mono)
qed (auto simp: inf_of_sgn_def intro!: fle_PInf fle_NInf)

lemma ffloor_mono: "fle x y \<Longrightarrow> ffloor x = Some m \<Longrightarrow> ffloor y = Some n \<Longrightarrow> m \<le> n"
  by (cases x; cases y) (auto intro: floor_mono)

text \<open>Quantising to the volume step never turns a smaller lot into a larger one: for a finite positive
  step whose inverse does not underflow, a smaller raw lot gives a lot that is not larger.\<close>

theorem round_down_step_monotone:
  assumes "fle v w" and "step = Fin q" and "0 < q" and "fdiv (Fin 1) step = Some iv" and "fround 8 iv = Fin i" and "0 < i"
    and "round_down_step v step = Some x" and "round_down_step w step = Some y"
  shows "fle x y"
proof -
  obtain m n where m: "ffloor (fround 8 (fmul v (Fin i))) = Some m" "x = fround 8 (fmul (of_int_f m) step)"
    and n: "ffloor (fround 8 (fmul w (Fin i))) = Some n" "y = fround 8 (fmul (of_int_f n) step)"
    using assms by (auto simp: round_down_step_def bind_eq_Some_conv)
  have "fle (fround 8 (fmul v (Fin i))) (fround 8 (fmul w (Fin i)))"
    by (intro fround_mono rnd_fmul_mono assms(1,6))
  then have "m \<le> n" using m(1) n(1) by (rule ffloor_mono)
  then have "fle (of_int_f m) (of_int_f n)" by (simp add: of_int_f_def rnd_mono)
  then show ?thesis unfolding m(2) n(2) assms(2) by (intro fround_mono rnd_fmul_mono assms(3))
qed

theorem round_down_step_monotone_witness:
  "\<exists>x y. round_down_step (Fin (3 / 8)) (Fin (1 / 4)) = Some x \<and> round_down_step (Fin 1) (Fin (1 / 4)) = Some y \<and> fle x y"
proof -
  have "fdiv (Fin 1) (Fin (1 / 4)) = Some (Fin 4)" "fround 8 (Fin 4) = Fin 4"
    "round_down_step (Fin (3 / 8)) (Fin (1 / 4)) = Some (Fin (1 / 4))"
    "round_down_step (Fin 1) (Fin (1 / 4)) = Some (Fin 1)" by code_simp+
  moreover have "fle (Fin (3 / 8)) (Fin 1)" by simp
  ultimately show ?thesis
    using round_down_step_monotone [of "Fin (3 / 8)" "Fin 1" "Fin (1 / 4)" "1 / 4" "Fin 4" 4] by simp
qed

section \<open>Where a NaN passes\<close>

lemma fmul_NaN [simp]: "fmul x NaN = NaN"
  by (cases x) simp_all

lemma fadd_NaN [simp]: "fadd NaN x = NaN"
  by (cases x) simp_all

lemma flt_NaN [simp]: "\<not> flt NaN x" "\<not> flt x NaN"
  by (cases x; simp)+



text \<open>A NaN confidence is never below the minimum: the checks treat it exactly like full confidence
  whenever the configured minimum is at most one.\<close>

theorem nan_confidence_passes:
  assumes "fle (rc_min_ai_confidence c) (Fin 1)"
  shows "validate_all_inputs parse_ts now d NaN a m s c = validate_all_inputs parse_ts now d (Fin 1) a m s c"
proof -
  have "\<not> flt (Fin 1) (rc_min_ai_confidence c)" using assms by (cases "rc_min_ai_confidence c") auto
  then show ?thesis by (cases "rc_min_ai_confidence c") (simp_all add: validate_all_inputs_def)
qed

text \<open>The configuration read from an empty environment is the documented default profile, it is valid,
  and it stays valid when the free-margin ratio and the exposure ratio are NaN, with which the
  exposure and margin checks of the engine can no longer reject.\<close>

theorem default_config_valid_and_nan_ratios_pass:
  "risk_config_from_env (\<lambda>_. None) = Some default_risk_config
   \<and> risk_config_validate default_risk_config = []
   \<and> risk_config_validate (default_risk_config\<lparr>rc_min_free_margin_equity_ratio := NaN, rc_max_exposure_equity_ratio := NaN\<rparr>) = []
   \<and> (\<forall>a plan approve e n cr i d.
        rr_reason_code (post_checks a (default_risk_config\<lparr>rc_min_free_margin_equity_ratio := NaN,
            rc_max_exposure_equity_ratio := NaN\<rparr>) plan
          (\<lambda>k msg fs. reject_record e n k msg cr i d fs) approve) \<in> {RISK_LIMIT, rr_reason_code approve})"
proof (intro conjI allI)
  show "risk_config_from_env (\<lambda>_. None) = Some default_risk_config" by code_simp
  show "risk_config_validate default_risk_config = []" by code_simp
  show "risk_config_validate (default_risk_config\<lparr>rc_min_free_margin_equity_ratio := NaN,
      rc_max_exposure_equity_ratio := NaN\<rparr>) = []" by code_simp
qed (auto simp: post_checks_def Let_def reject_record_def fmul_NaN fadd_NaN flt_NaN)

section \<open>A concrete approval\<close>

definition demo_risk_env :: risk_env where
  "demo_risk_env = \<lparr>re_parse_ts = (\<lambda>s. Some 0), re_now_us = 1000000, re_now_text = ''2026-01-01'',
     re_uuid = (\<lambda>n. ''e''), re_str = (\<lambda>v. ''None'')\<rparr>"

definition demo_risk_config :: risk_config where
  "demo_risk_config = default_risk_config\<lparr>rc_risk_per_trade := Fin (1 / 64), rc_max_drawdown := Fin (1 / 16),
     rc_min_free_margin_equity_ratio := Fin (1 / 8)\<rparr>"

definition demo_account :: account_state where
  "demo_account = \<lparr>ac_balance = Fin 65536, ac_equity = Fin 65536, ac_free_margin = Fin 65536, ac_margin = Fin 0,
     ac_existing_positions_count = 0, ac_current_exposure_usd = Fin 0, ac_current_drawdown_pct = Fin 0\<rparr>"

definition demo_market :: market_state where
  "demo_market = \<lparr>mk_bid = Fin (17599 / 4), mk_ask = Fin 4400, mk_spread = Fin (1 / 4), mk_mid = Fin (35199 / 8),
     mk_symbol = ''XAUUSD'', mk_timestamp_iso = ''2026-01-01''\<rparr>"

definition demo_symbol :: symbol_spec where
  "demo_symbol = \<lparr>sy_symbol = ''XAUUSD'', sy_contract_size = Fin 1, sy_tick_size = Fin (1 / 4), sy_tick_value = Fin 1,
     sy_volume_min = Fin (1 / 2), sy_volume_max = Fin 100, sy_volume_step = Fin (1 / 2), sy_point = Fin (1 / 4),
     sy_stops_level = Fin 0, sy_freeze_level = Fin 0, sy_margin_initial = Fin 0\<rparr>"

definition demo_proposal :: ai_proposal where
  "demo_proposal = P_dict [(''direction'', PStr ''BUY''), (''confidence'', PFloat (Fin (3 / 4)))]"

definition demo_evaluation :: "risk_record option" where
  "demo_evaluation = evaluate demo_risk_env demo_risk_config demo_proposal demo_account demo_market demo_symbol None"

lemma demo_approved:
  "\<exists>r. evaluate demo_risk_env demo_risk_config demo_proposal demo_account demo_market demo_symbol None = Some r
     \<and> rr_decision r = APPROVE \<and> rr_direction r = ''BUY'' \<and> rr_lot r = Fin 5"
proof -
  have "case demo_evaluation of None \<Rightarrow> False
    | Some r \<Rightarrow> rr_decision r = APPROVE \<and> rr_direction r = ''BUY'' \<and> rr_lot r = Fin 5"
    by code_simp
  then show ?thesis by (auto simp: demo_evaluation_def split: option.splits)
qed

lemma demo_finite: "finite_config demo_risk_config"
  by code_simp

lemma demo_representable: "representable (mk_ask demo_market)" "representable (mk_bid demo_market)"
  by code_simp+

theorem approval_respects_limits_witness:
  "\<exists>r. evaluate demo_risk_env demo_risk_config demo_proposal demo_account demo_market demo_symbol None = Some r
     \<and> fle (sy_volume_min demo_symbol) (rr_lot r) \<and> fle (rr_lot r) (sy_volume_max demo_symbol)"
  using demo_approved approval_respects_limits [OF _ _ demo_finite] by blast


theorem approved_stop_loss_side_witness:
  "\<exists>r. evaluate demo_risk_env demo_risk_config demo_proposal demo_account demo_market demo_symbol None = Some r
     \<and> fle (rr_sl r) (fround 5 (mk_ask demo_market))"
proof -
  obtain r where r: "evaluate demo_risk_env demo_risk_config demo_proposal demo_account demo_market demo_symbol None = Some r"
     "rr_decision r = APPROVE" "rr_direction r = ''BUY''" using demo_approved by blast
  from approved_stop_loss_side [OF r(1,2) demo_finite demo_representable] r show ?thesis by auto
qed

theorem rejection_carries_nothing_witness:
  "\<exists>r. evaluate demo_risk_env demo_risk_config P_other demo_account demo_market demo_symbol None = Some r
     \<and> rr_lot r = Fin 0 \<and> rr_decision r = REJECT"
proof -
  obtain r where r: "evaluate demo_risk_env demo_risk_config P_other demo_account demo_market demo_symbol None = Some r"
    "rr_decision r = REJECT"
    by (simp add: evaluate_def view_proposal_def)
  then show ?thesis using rejection_carries_nothing [OF r(1)] by auto
qed

theorem nan_confidence_passes_witness:
  "validate_all_inputs (\<lambda>s. Some 0) 0 ''BUY'' NaN demo_account demo_market demo_symbol demo_risk_config
   = validate_all_inputs (\<lambda>s. Some 0) 0 ''BUY'' (Fin 1) demo_account demo_market demo_symbol demo_risk_config"
  by (rule nan_confidence_passes) (simp add: demo_risk_config_def default_risk_config_def)

end
