(* ===== verification/AiParse.thy ===== *)
theory AiParse
  imports AiRecord
begin

text \<open>
  Response parsing of the AI decision engine: \<open>src/ai_decision/parsing.py\<close>. Model output reaches the
  engine as the text of a completion body, of a server-sent event stream, or of a body with a
  trailing stream marker.

  \<open>loads\<close> stands for \<open>json.loads\<close>: it returns a value, raises \<open>JSONDecodeError\<close> (which the code
  catches), or raises something else (\<open>RecursionError\<close>, the \<open>ValueError\<close> of an integer with too
  many digits), which the code does not catch. An outer \<open>None\<close> of a definition is an exception that
  escapes it.
\<close>

datatype json_result = Loaded pyval | Decode_error | Other_error

definition direction_map :: "(string \<times> string) list" where
  "direction_map =
     [(''buy'', ''BUY''), (''sell'', ''SELL''), (''no-trade'', ''NO-TRADE''), (''no trade'', ''NO-TRADE''),
      (''notrade'', ''NO-TRADE''), (''none'', ''NO-TRADE''), (''neutral'', ''NO-TRADE''),
      (''hold'', ''NO-TRADE''), (''wait'', ''NO-TRADE''), (''observe'', ''NO-TRADE''), (''flat'', ''NO-TRADE'')]"

definition fail_closed_output :: pydict where
  "fail_closed_output =
     [(''direction'', PStr ''NO-TRADE''), (''confidence'', PFloat (Fin 0)),
      (''reason'', PStr ''fail-closed: benchmark error'')]"

record parse_result =
  pr_ok :: bool
  pr_error :: "string option"
  pr_output :: pydict
  pr_payload_keys :: "string list"
  pr_repair :: "string option"

section \<open>Text\<close>

text \<open>\<open>text[: i + 1]\<close> and \<open>text[i + 1 :]\<close> for \<open>i = text.rfind(c)\<close>; \<open>None\<close> when \<open>i < 0\<close>.\<close>

definition split_last :: "char \<Rightarrow> string \<Rightarrow> (string \<times> string) option" where
  "split_last c s =
     (let r = rev s in
      if c \<in> set s then Some (rev (dropWhile (\<lambda>x. x \<noteq> c) r), rev (takeWhile (\<lambda>x. x \<noteq> c) r)) else None)"

fun suffixes_of :: "string \<Rightarrow> string list" where
  "suffixes_of [] = [[]]"
| "suffixes_of (c # cs) = (c # cs) # suffixes_of cs"

definition starts_with :: "string \<Rightarrow> string \<Rightarrow> bool" where
  "starts_with p s \<longleftrightarrow> take (length p) s = p"

text \<open>The search for \<open>\s*data:\s*(?:\[DONE\])?\s*$\<close>: a marker followed by blanks, at most one
  \<open>[DONE]\<close> and blanks up to the end.\<close>

definition sse_tail :: "string \<Rightarrow> bool" where
  "sse_tail tail =
     list_ex (\<lambda>t. starts_with ''data:'' t \<and> strip (drop 5 t) \<in> {[], ''[DONE]''}) (suffixes_of tail)"

definition strip_trailing_sse :: "string \<Rightarrow> string" where
  "strip_trailing_sse text =
     (case split_last (CHR ''}'') text of
        None \<Rightarrow> text
      | Some (body, tail) \<Rightarrow> if tail = [] then text else if sse_tail tail then body else text)"

text \<open>\<open>str.splitlines\<close> on the line boundaries of ASCII; a carriage return and line feed is one.\<close>

definition is_line_end :: "char \<Rightarrow> bool" where
  "is_line_end c \<longleftrightarrow> of_char c \<in> {10, 11, 12, 13, 28, 29, 30 :: nat}"

fun lines_from :: "string \<Rightarrow> string \<Rightarrow> string list" where
  "lines_from acc [] = (if acc = [] then [] else [rev acc])"
| "lines_from acc (c # cs) =
     (if of_char c = (13 :: nat) then
        (case cs of
           d # ds \<Rightarrow> (if of_char d = (10 :: nat) then rev acc # lines_from [] ds else rev acc # lines_from [] cs)
         | [] \<Rightarrow> [rev acc])
      else if is_line_end c then rev acc # lines_from [] cs
      else lines_from (c # acc) cs)"

definition splitlines :: "string \<Rightarrow> string list" where
  "splitlines = lines_from []"

section \<open>JSON objects in text\<close>

definition valid_json_object :: "(string \<Rightarrow> json_result) \<Rightarrow> string \<Rightarrow> pydict option option" where
  "valid_json_object loads text =
     (case loads text of
        Loaded v \<Rightarrow> Some (case v of PDict d \<Rightarrow> Some d | _ \<Rightarrow> None)
      | Decode_error \<Rightarrow> Some None
      | Other_error \<Rightarrow> None)"

text \<open>The content of one chunk of a stream. \<open>chunk.get\<close> and \<open>delta.get\<close> raise \<open>AttributeError\<close> on a
  value that is no dictionary.\<close>

definition as_dict :: "pyval \<Rightarrow> pydict option" where
  "as_dict v = (case v of PDict d \<Rightarrow> Some d | _ \<Rightarrow> None)"

definition chunk_delta :: "pydict \<Rightarrow> pyval option" where
  "chunk_delta chunk =
     (case dget_default chunk ''choices'' PNone of
        PList (c # cs) \<Rightarrow> map_option (\<lambda>d. dget_default d ''delta'' (PDict [])) (as_dict c)
      | _ \<Rightarrow> Some (PDict []))"

definition chunk_text :: "pyval \<Rightarrow> string option" where
  "chunk_text v =
     Option.bind (as_dict v) (\<lambda>chunk.
     Option.bind (chunk_delta chunk) (\<lambda>dv.
     Option.bind (as_dict dv) (\<lambda>delta. Some (
       case dget_default delta ''content'' PNone of
         PStr s \<Rightarrow> s
       | _ \<Rightarrow> (case dget_default delta ''reasoning_content'' PNone of PStr s \<Rightarrow> s | _ \<Rightarrow> [])))))"

fun join_chunks :: "(string \<Rightarrow> json_result) \<Rightarrow> string list \<Rightarrow> string option" where
  "join_chunks loads [] = Some []"
| "join_chunks loads (l # ls) =
     (let line = strip l; payload = strip (drop 5 line) in
      if \<not> starts_with ''data:'' line \<or> payload = ''[DONE]'' then join_chunks loads ls
      else
        (case loads payload of
           Decode_error \<Rightarrow> join_chunks loads ls
         | Other_error \<Rightarrow> None
         | Loaded v \<Rightarrow>
             Option.bind (chunk_text v) (\<lambda>s. map_option (\<lambda>r. s @ r) (join_chunks loads ls))))"

definition reassemble_sse :: "(string \<Rightarrow> json_result) \<Rightarrow> string \<Rightarrow> string option" where
  "reassemble_sse loads text = join_chunks loads (splitlines text)"

definition extract_json_object ::
  "(string \<Rightarrow> json_result) \<Rightarrow> string \<Rightarrow> (pydict option \<times> string option) option" where
  "extract_json_object loads text =
     (if strip text = [] then Some (None, Some ''empty'')
      else
        Option.bind (if starts_with ''data:'' (strip text) then reassemble_sse loads (strip text) else Some []) (\<lambda>rejoined.
        let (text', repair) = (if strip rejoined \<noteq> [] then (rejoined, Some ''sse_reassemble'') else (text, None));
            candidate = (case split_last (CHR ''}'') text' of None \<Rightarrow> [] | Some (b, _) \<Rightarrow> dropWhile (\<lambda>x. x \<noteq> CHR ''{'') b);
            direct = map_option (\<lambda>p. case p of None \<Rightarrow> (None, Some ''invalid_json'') | Some d \<Rightarrow> (Some d, Some ''json_direct''))
                       (valid_json_object loads text') in
        if candidate = [] then direct
        else
          Option.bind (valid_json_object loads candidate) (\<lambda>p.
          case p of
            Some d \<Rightarrow> Some (Some d, Some (case repair of None \<Rightarrow> ''json_extract'' | Some r \<Rightarrow> r))
          | None \<Rightarrow> direct)))"

section \<open>Normalisation\<close>

definition normalize_direction :: "pyval \<Rightarrow> string option" where
  "normalize_direction v =
     (case v of PStr s \<Rightarrow> map_of direction_map (str_lower (strip s)) | _ \<Rightarrow> None)"

text \<open>The outer \<open>None\<close> is the \<open>OverflowError\<close> of an integer beyond the range of a float, which the
  code does not catch; a text that is no number raises \<open>ValueError\<close>, which it does.\<close>

definition normalize_confidence :: "pyval \<Rightarrow> pyfloat option option" where
  "normalize_confidence v =
     (let judge = (\<lambda>x. if \<not> is_finite x \<or> flt x (Fin 0) \<or> flt (Fin 1) x then None else Some (fround 4 x)) in
      case v of
        PInt i \<Rightarrow> map_option judge (py_float v)
      | PFloat x \<Rightarrow> Some (judge x)
      | PStr s \<Rightarrow> Some (Option.bind (parse_float s) judge)
      | _ \<Rightarrow> Some None)"

definition normalize_payload :: "pydict \<Rightarrow> (pydict \<times> string list) option" where
  "normalize_payload payload =
     (let direction = normalize_direction (dget_default payload ''direction'' PNone);
          reason = dget_default payload ''reason'' PNone;
          reason_ok = (case reason of PStr s \<Rightarrow> True | _ \<Rightarrow> False) in
      map_option (\<lambda>confidence.
        ([(''direction'', PStr (case direction of None \<Rightarrow> ''NO-TRADE'' | Some d \<Rightarrow> d)),
          (''confidence'', case confidence of None \<Rightarrow> PNone | Some x \<Rightarrow> PFloat x),
          (''reason'', if reason_ok then reason else PNone)],
         (if direction = None then [''direction_normalized_to_no_trade''] else [])
         @ (if confidence = None then [''confidence_rejected_or_missing''] else [])
         @ (if reason_ok then [] else [''reason_rejected_or_missing''])))
        (normalize_confidence (dget_default payload ''confidence'' PNone)))"

definition parse_message :: "(string \<Rightarrow> json_result) \<Rightarrow> pydict \<Rightarrow> (pydict option \<times> string) option" where
  "parse_message loads message =
     (let blank = (case dget_default message ''reasoning_content'' PNone of
                     PStr r \<Rightarrow>
                       (if strip r = [] then Some (None, ''empty_content'')
                        else map_option (\<lambda>(obj, rep). case obj of
                               Some d \<Rightarrow> (Some d, ''reasoning_content'')
                             | None \<Rightarrow> (None, ''empty_content'')) (extract_json_object loads r))
                   | _ \<Rightarrow> Some (None, ''empty_content'')) in
      case dget_default message ''content'' PNone of
        PDict d \<Rightarrow> Some (Some d, ''content_object'')
      | PStr s \<Rightarrow>
          (if strip s = [] then blank
           else map_option (\<lambda>(obj, rep). case obj of
                  Some d \<Rightarrow> (Some d, ''content_string'')
                | None \<Rightarrow> (None, ''extraction_failed'')) (extract_json_object loads s))
      | PNone \<Rightarrow> blank
      | _ \<Rightarrow> Some (None, ''unexpected_content_shape''))"

section \<open>The parse chain\<close>

definition parse_error :: "string \<Rightarrow> parse_result" where
  "parse_error e =
     \<lparr>pr_ok = False, pr_error = Some e, pr_output = fail_closed_output, pr_payload_keys = [], pr_repair = None\<rparr>"

text \<open>The last stage, on the payload and its path; an error path is never empty.\<close>

definition finish_parse :: "pydict option \<times> string \<Rightarrow> parse_result option" where
  "finish_parse r =
     (case r of
        (None, path) \<Rightarrow> Some (parse_error path)
      | (Some payload, path) \<Rightarrow>
          map_option (\<lambda>(normalized, repairs).
            \<lparr>pr_ok = True, pr_error = None, pr_output = normalized, pr_payload_keys = dkeys payload,
             pr_repair = (if repairs = [] then None else Some (join '','' repairs))\<rparr>)
            (normalize_payload payload))"

definition parse_and_normalize :: "(string \<Rightarrow> json_result) \<Rightarrow> string \<Rightarrow> parse_result option" where
  "parse_and_normalize loads raw =
     (if strip raw = [] then Some (parse_error ''empty_response'')
      else
        Option.bind (valid_json_object loads (strip_trailing_sse raw)) (\<lambda>body.
        case body of
          Some b \<Rightarrow>
            (case dget b ''choices'' of
               None \<Rightarrow> finish_parse (Some b, ''direct_object'')
             | Some (PList (c # cs)) \<Rightarrow>
                 Option.bind (as_dict c) (\<lambda>choice.
                 case dget_default choice ''message'' PNone of
                   PDict message \<Rightarrow> Option.bind (parse_message loads message) finish_parse
                 | _ \<Rightarrow> Some (parse_error ''missing_message''))
             | Some v \<Rightarrow> Some (parse_error ''missing_choices''))
        | None \<Rightarrow>
            Option.bind (reassemble_sse loads raw) (\<lambda>rejoined.
            if strip rejoined = [] then finish_parse (None, ''invalid_json'')
            else
              Option.bind (parse_message loads [(''content'', PStr rejoined)]) (\<lambda>(payload, path).
              finish_parse (payload, ''sse_body/'' @ path)))))"

end
