(* ===== verification/AiValidation.thy ===== *)
theory AiValidation
  imports AiParse "HOL-Library.Char_ord" "HOL-Library.List_Lexorder"
begin

text \<open>
  The validators of AI output, the configuration of the decision engine and the boundary gate:
  \<open>src/ai_decision/validation.py\<close>, \<open>config.py\<close> and \<open>gate.py\<close>. A validator returns the clean
  value and an error, as in the code; an outer \<open>None\<close> is an exception.
\<close>

section \<open>Validators\<close>

definition valid_directions :: "string list" where
  "valid_directions = [''BUY'', ''SELL'', ''NO-TRADE'']"

definition forbidden_output_keys :: "string list" where
  "forbidden_output_keys =
     [''lot'', ''lots'', ''position_size'', ''position'', ''risk_percent'', ''risk_amount'', ''risk'', ''sl'',
      ''stop_loss'', ''stoploss'', ''tp'', ''take_profit'', ''takeprofit'', ''exposure'', ''margin'',
      ''order'', ''orders'', ''order_type'', ''volume'', ''entry_price'', ''execution'', ''exit'',
      ''compounding'', ''broker'', ''broker_id'', ''trade_id'']"

definition forbidden_reason_phrases :: "string list" where
  "forbidden_reason_phrases =
     [''stop loss'', ''take profit'', ''lot size'', ''position size'', ''margin call'', ''compounding'',
      ''place order'', ''execute'', ''buy limit'', ''sell stop'', ''entry order'']"

definition reason_max_length :: nat where
  "reason_max_length = 2000"

definition validate_direction :: "pyval \<Rightarrow> string option \<times> string option" where
  "validate_direction v =
     (case v of
        PStr s \<Rightarrow>
          (let direction = str_upper (strip s) in
           if direction \<in> set valid_directions then (Some direction, None)
           else (None, Some ''direction_invalid''))
      | _ \<Rightarrow> (None, Some ''direction_not_string''))"

text \<open>\<open>math.isfinite\<close> raises \<open>OverflowError\<close> on an integer beyond the range of a float.\<close>

definition validate_confidence :: "pyval \<Rightarrow> (pyfloat option \<times> string option) option" where
  "validate_confidence v =
     (let judge = (\<lambda>x exact.
        if \<not> is_finite x then (None, Some ''confidence_not_finite'')
        else if flt exact (Fin 0) \<or> flt (Fin 1) exact then (None, Some ''confidence_out_of_range'')
        else (Some (fround 4 x), None)) in
      case v of
        PInt i \<Rightarrow> map_option (\<lambda>x. judge x (Fin (of_int i))) (py_float v)
      | PFloat x \<Rightarrow> Some (judge x x)
      | _ \<Rightarrow> Some (None, Some ''confidence_not_number''))"

definition validate_reason :: "pyval \<Rightarrow> string option \<times> string option" where
  "validate_reason v =
     (case v of
        PStr s \<Rightarrow> if reason_max_length < length s then (None, Some ''reason_too_long'') else (Some (strip s), None)
      | _ \<Rightarrow> (None, Some ''reason_not_string''))"

definition validate_authority_boundary :: "string list \<Rightarrow> string list" where
  "validate_authority_boundary payload_keys =
     (let bad = filter (\<lambda>k. k \<in> set (map str_lower payload_keys)) forbidden_output_keys in
      if bad = [] then [] else [''forbidden_output_key:'' @ join '','' (sort bad)])"

text \<open>\<open>str(output.get("reason") or "").lower()\<close>; \<open>show\<close> is \<open>str\<close> on a value that is no string.\<close>

definition reason_lower :: "(pyval \<Rightarrow> string) \<Rightarrow> pyval \<Rightarrow> string" where
  "reason_lower to_str v =
     (if truthy v then str_lower (case v of PStr s \<Rightarrow> s | _ \<Rightarrow> to_str v) else [])"

definition opt_list :: "'a option \<Rightarrow> 'a list" where
  "opt_list x = (case x of None \<Rightarrow> [] | Some y \<Rightarrow> [y])"

definition validate_schema ::
  "(pyval \<Rightarrow> string) \<Rightarrow> pydict \<Rightarrow> string list
   \<Rightarrow> (bool \<times> string list \<times> (string \<times> pyfloat \<times> string) option) option" where
  "validate_schema to_str output payload_keys =
     map_option (\<lambda>(confidence, confidence_err).
       (let (direction, direction_err) = validate_direction (dget_default output ''direction'' PNone);
            (reason, reason_err) = validate_reason (dget_default output ''reason'' PNone);
            violations = validate_authority_boundary payload_keys;
            lowered = reason_lower to_str (dget_default output ''reason'' PNone);
            errors = opt_list direction_err @ opt_list confidence_err @ opt_list reason_err
              @ (if violations = [] then [] else [''AUTHORITY_VIOLATION:'' @ join '';'' violations])
              @ map (\<lambda>p. ''AUTHORITY_VIOLATION:forbidden_reason_phrase:'' @ p)
                  (filter (\<lambda>p. str_in p lowered) forbidden_reason_phrases) in
        if errors \<noteq> [] then (False, errors, None)
        else (True, [],
          (case (direction, confidence, reason) of
             (Some d, Some c, Some r) \<Rightarrow> Some (d, c, r)
           | _ \<Rightarrow> None))))
       (validate_confidence (dget_default output ''confidence'' PNone))"

section \<open>Configuration\<close>

record model_config =
  mc_model_id :: string
  mc_provider :: string

text \<open>\<open>model_id.split("/", 1)[0]\<close> when there is a slash.\<close>

definition model_config_of :: "string \<Rightarrow> model_config" where
  "model_config_of model_id =
     \<lparr>mc_model_id = model_id,
      mc_provider = (if CHR ''/'' \<in> set model_id then takeWhile (\<lambda>c. c \<noteq> CHR ''/'') model_id else ''unknown'')\<rparr>"

record engine_config =
  ec_primary :: model_config
  ec_secondary :: model_config
  ec_fallback :: model_config
  ec_base_url :: string
  ec_timeout_s :: pyfloat
  ec_max_attempts :: int
  ec_retry_429_sleep_s :: pyfloat
  ec_max_tokens :: int
  ec_temperature :: pyfloat

definition chain :: "engine_config \<Rightarrow> model_config list" where
  "chain c = [ec_primary c, ec_secondary c, ec_fallback c]"

definition rstrip_slash :: "string \<Rightarrow> string" where
  "rstrip_slash s = rev (dropWhile (\<lambda>c. c = CHR ''/'') (rev s))"

definition default_config :: "(string \<Rightarrow> string option) \<Rightarrow> engine_config option" where
  "default_config getenv =
     Option.bind (env_float getenv ''ABC_AI_TIMEOUT_S'' ''60.0'') (\<lambda>timeout.
     Option.bind (parse_int (env_str getenv ''ABC_AI_MAX_ATTEMPTS'' ''2'')) (\<lambda>max_attempts.
     Option.bind (env_float getenv ''ABC_AI_RETRY_429_SLEEP_S'' ''10.0'') (\<lambda>sleep.
     Option.bind (parse_int (env_str getenv ''ABC_AI_MAX_TOKENS'' ''512'')) (\<lambda>max_tokens.
     Option.bind (env_float getenv ''ABC_AI_TEMPERATURE'' ''0.0'') (\<lambda>temperature.
     Some \<lparr>ec_primary = model_config_of ''cf/@cf/meta/llama-3.1-8b-instruct-fp8-fast'',
       ec_secondary = model_config_of ''groq/llama-3.3-70b-versatile'',
       ec_fallback = model_config_of ''cf/@cf/qwen/qwen2.5-coder-32b-instruct'',
       ec_base_url = rstrip_slash (env_str getenv ''ABC_AI_BASE_URL'' ''http://10.197.141.202:20128/v1''),
       ec_timeout_s = timeout, ec_max_attempts = max_attempts, ec_retry_429_sleep_s = sleep,
       ec_max_tokens = max_tokens, ec_temperature = temperature\<rparr>)))))"

text \<open>\<open>load_secrets\<close>; \<open>None\<close> is the \<open>RuntimeError\<close> of a missing key.\<close>

definition load_secrets :: "(string \<Rightarrow> string option) \<Rightarrow> string option" where
  "load_secrets getenv =
     (let key = strip (env_str getenv ''ABC_AI_API_KEY'' []) in if key = [] then None else Some key)"

definition load_config :: "(string \<Rightarrow> string option) \<Rightarrow> (engine_config \<times> string) option" where
  "load_config getenv =
     Option.bind (default_config getenv) (\<lambda>c. map_option (\<lambda>k. (c, k)) (load_secrets getenv))"

section \<open>The boundary gate\<close>

record gate_verdict =
  gv_approve :: bool
  gv_reason :: string
  gv_rejection_code :: "string option"

definition gate_evaluate :: "decision_record \<Rightarrow> gate_verdict" where
  "gate_evaluate r =
     (if \<not> dr_validation_ok r then
        \<lparr>gv_approve = False, gv_reason = ''AI proposal failed validation'', gv_rejection_code = dr_error_class r\<rparr>
      else if dr_direction r = ''NO-TRADE'' then
        \<lparr>gv_approve = True,
         gv_reason = ''NO-TRADE proposal acknowledged (non-executable, no order path)'',
         gv_rejection_code = None\<rparr>
      else
        \<lparr>gv_approve = True,
         gv_reason = ''structurally valid AI proposal; full risk gate pending (separate task)'',
         gv_rejection_code = None\<rparr>)"

section \<open>Lemmas\<close>

lemma dropWhile_suffix_ex: "\<exists>a. s = a @ dropWhile P s"
  by (metis takeWhile_dropWhile_id)

lemma strip_sublist: "\<exists>a b. s = a @ strip s @ b"
proof -
  obtain a where a: "s = a @ dropWhile is_space s" using dropWhile_suffix_ex by blast
  obtain b where "rev (dropWhile is_space s) = b @ dropWhile is_space (rev (dropWhile is_space s))"
    using dropWhile_suffix_ex by blast
  then have "dropWhile is_space s = strip s @ rev b"
    unfolding strip_def by (metis rev_append rev_rev_ident)
  then show ?thesis using a by metis
qed

lemma str_in_lower_strip: "str_in p (str_lower (strip s)) \<Longrightarrow> str_in p (str_lower s)"
proof -
  assume p: "str_in p (str_lower (strip s))"
  obtain a b where "s = a @ strip s @ b" using strip_sublist by blast
  then have "str_lower s = str_lower a @ str_lower (strip s) @ str_lower b"
    unfolding str_lower_def by (metis map_append)
  then show ?thesis using p unfolding str_in_def sublist_def by (metis append.assoc)
qed

lemma strip_length: "length (strip s) \<le> length s"
proof -
  obtain a b where "s = a @ strip s @ b" using strip_sublist by blast
  then have "length s = length a + (length (strip s) + length b)" by (metis length_append)
  then show ?thesis by simp
qed

lemma opt_list_Nil [simp]: "opt_list x = [] \<longleftrightarrow> x = None"
  by (simp add: opt_list_def split: option.splits)

lemma validate_direction_ok:
  "validate_direction v = (d, None) \<Longrightarrow> \<exists>x. d = Some x \<and> x \<in> set valid_directions"
  by (auto simp: validate_direction_def Let_def split: pyval.splits if_splits)

lemma fround_unit:
  assumes "\<not> flt x (Fin 0)" and "\<not> flt (Fin 1) x" and "is_finite x"
  shows "fle (Fin 0) (fround 4 x) \<and> fle (fround 4 x) (Fin 1)"
proof -
  have x: "fle (Fin 0) x" "fle x (Fin 1)" using assms by (auto simp: is_finite_iff not_less)
  have "fround 4 (Fin 0) = Fin 0" "fround 4 (Fin 1) = Fin 1" by code_simp+
  with fround_mono [OF x(1), of 4] fround_mono [OF x(2), of 4] show ?thesis by simp
qed

end
