(* ===== verification/AiEngine.thy ===== *)
theory AiEngine
  imports AiValidation
begin

text \<open>
  The decision engine: \<open>src/ai_decision/engine.py\<close>. \<open>decide\<close> runs the chain of three models, with at
  most \<open>max_attempts\<close> calls each, over a transport that is a parameter: \<open>ae_transport n\<close> is what
  the \<open>n\<close>-th call of this decision (from 0) returns, or \<open>None\<close> when it raises, as \<open>chat_completion\<close> of
  \<open>AiClient\<close> can; so every service and every sequence of failures is an instance. The state logs the calls and the sleeps; the exceptions that escape
  \<open>decide\<close> are values of \<open>escape\<close>. Logging is left out.
\<close>

record transport_result =
  tr_status :: string
  tr_latency_ms :: pyfloat
  tr_raw :: string
  tr_error :: "string option"

record ai_call =
  cl_base_url :: string
  cl_api_key :: string
  cl_model_id :: string
  cl_messages :: "(string \<times> string) list"
  cl_timeout_s :: pyfloat
  cl_max_tokens :: int
  cl_temperature :: pyfloat

record ai_env =
  ae_transport :: "nat \<Rightarrow> ai_call \<Rightarrow> transport_result option"
  ae_loads :: "string \<Rightarrow> json_result"
  ae_dumps :: "pydict \<Rightarrow> string"
  ae_str :: "pyval \<Rightarrow> string"
  ae_uuid :: "nat \<Rightarrow> string"
  ae_now :: "nat \<Rightarrow> string"
  ae_elapsed_ms :: "nat \<Rightarrow> pyfloat"
  ae_api_key :: string

text \<open>\<open>ae_elapsed_ms n\<close> is \<open>(time.monotonic() - t0) * 1000\<close> read after \<open>n\<close> calls; \<open>ae_dumps\<close> is
  \<open>json.dumps(context, sort_keys=True)\<close> where it succeeds.\<close>

record ai_state =
  as_calls :: "ai_call list"
  as_slept :: "pyfloat list"
  as_last :: "string option \<times> string option"

datatype escape = Parse_escape | Schema_escape | Sleep_escape | Prompt_escape | Transport_escape

type_synonym 'a ai = "(ai_state, escape, 'a) eff"

section \<open>Contexts and statuses\<close>

definition required_context_keys :: "string list" where
  "required_context_keys = [''symbol'', ''bid'', ''ask'', ''spread'', ''mid'', ''atr_m1'', ''m1'', ''m5'']"

definition numeric_context_keys :: "string list" where
  "numeric_context_keys = [''bid'', ''ask'', ''spread'', ''mid'', ''atr_m1'']"

definition retryable_statuses :: "string list" where
  "retryable_statuses = [''TIMEOUT'', ''TRANSPORT_ERROR'', ''HTTP429'', ''HTTP5XX'']"

definition classify_http :: "string \<Rightarrow> string" where
  "classify_http status =
     (if starts_with ''HTTP'' status \<and> 6 \<le> length status then
        (let code = take 3 (drop 4 status) in
         if list_all is_digit code \<and> hd code = CHR ''5'' then ''HTTP5XX'' else status)
      else status)"

fun bad_number :: "string \<Rightarrow> pyval \<Rightarrow> string list" where
  "bad_number key (PInt i) = []"
| "bad_number key (PFloat x) = (if x = NaN then [key @ '':nan''] else [])"
| "bad_number key v = [key @ '':not_number'']"

fun is_dict :: "pyval \<Rightarrow> bool" where
  "is_dict (PDict d) \<longleftrightarrow> True"
| "is_dict v \<longleftrightarrow> False"

definition validate_context :: "pydict \<Rightarrow> string list" where
  "validate_context context =
     (let missing = filter (\<lambda>k. \<not> dhas context k) required_context_keys in
      if missing \<noteq> [] then missing
      else
        concat (map (\<lambda>k. bad_number k (dget_default context k PNone)) numeric_context_keys)
        @ (if is_dict (dget_default context ''m1'' PNone) then [] else [''m1:not_dict''])
        @ (let m5 = dget_default context ''m5'' PNone in
           if m5 = PNone \<or> is_dict m5 then [] else [''m5:not_dict'']))"

definition snapshot_of :: "pydict \<Rightarrow> string option" where
  "snapshot_of context =
     (case dget_default context ''context_snapshot_id'' PNone of
        PStr s \<Rightarrow> if s = [] then None else Some s
      | _ \<Rightarrow> None)"

section \<open>Prompt\<close>

definition prompt_version :: string where
  "prompt_version = ''v1.0.0''"

definition newline :: string where
  "newline = [char_of (10 :: nat)]"

definition system_prompt :: string where
  "system_prompt =
     ''You are the market-context analysis module of a paper-trading research system. ''
     @ ''You ONLY propose directional entries. You NEVER control risk, lot size, exposure, ''
     @ ''margin, execution, exit, or compounding - those belong to the system.'' @ newline
     @ ''Respond with EXACTLY one valid JSON object and nothing else: ''
     @ ''{\"direction\": \"BUY\"|\"SELL\"|\"NO-TRADE\", ''
     @ ''\"confidence\": 0.0, \"reason\": \"short string\"}'' @ newline
     @ ''- direction: BUY or SELL only when the supplied context clearly ''
     @ ''supports it; otherwise NO-TRADE.'' @ newline
     @ ''- confidence: number 0.0 to 1.0.'' @ newline
     @ ''- reason: cite only facts present in the supplied context. ''
     @ ''Never invent prices, levels, or news.'' @ newline
     @ ''- If context is insufficient, conflicting, or ambiguous -> NO-TRADE with low confidence.''"

definition build_user_prompt :: "(pydict \<Rightarrow> string) \<Rightarrow> pydict \<Rightarrow> string option" where
  "build_user_prompt dumps context =
     (if json_ok (PDict context) then
        Some (''Market context JSON:'' @ newline @ dumps context @ newline @ newline
              @ ''Output the JSON decision object now.'')
      else None)"

definition messages_for :: "string \<Rightarrow> (string \<times> string) list" where
  "messages_for user = [(''system'', system_prompt), (''user'', user)]"

section \<open>One call\<close>

definition ai_call_of :: "ai_env \<Rightarrow> engine_config \<Rightarrow> (string \<times> string) list \<Rightarrow> model_config \<Rightarrow> ai_call" where
  "ai_call_of E c messages m =
     \<lparr>cl_base_url = ec_base_url c, cl_api_key = ae_api_key E, cl_model_id = mc_model_id m,
      cl_messages = messages, cl_timeout_s = ec_timeout_s c, cl_max_tokens = ec_max_tokens c,
      cl_temperature = ec_temperature c\<rparr>"

definition call_model ::
  "ai_env \<Rightarrow> engine_config \<Rightarrow> (string \<times> string) list \<Rightarrow> model_config \<Rightarrow> transport_result ai" where
  "call_model E c messages m s =
     (let call = ai_call_of E c messages m in
      case ae_transport E (length (as_calls s)) call of
        None \<Rightarrow> (Inl Transport_escape, s\<lparr>as_calls := as_calls s @ [call]\<rparr>)
      | Some result \<Rightarrow>
          (Inr result, s\<lparr>as_calls := as_calls s @ [call], as_last := (Some (tr_status result), tr_error result)\<rparr>))"

text \<open>\<open>time.sleep\<close> raises on a negative or infinite time, on NaN and beyond the range of its clock.\<close>

definition sleep_ok :: "pyfloat \<Rightarrow> bool" where
  "sleep_ok x \<longleftrightarrow> fle (Fin 0) x \<and> flt x (Fin 9223372036)"

definition sleep_for :: "pyfloat \<Rightarrow> unit ai" where
  "sleep_for x s = (if sleep_ok x then (Inr (), s\<lparr>as_slept := as_slept s @ [x]\<rparr>) else (Inl Sleep_escape, s))"

section \<open>A response\<close>

text \<open>What the engine returns for a response with status \<open>OK\<close>, from call \<open>n - 1\<close> of the decision.\<close>

record ai_request =
  rq_request_ts :: string
  rq_snapshot :: "string option"
  rq_correlation_id :: "string option"

definition refused_response ::
  "ai_env \<Rightarrow> ai_request \<Rightarrow> model_config \<Rightarrow> int \<Rightarrow> int \<Rightarrow> nat \<Rightarrow> pyfloat \<Rightarrow> string \<Rightarrow> string option \<Rightarrow> string list
   \<Rightarrow> decision_record" where
  "refused_response E q m level attempt n latency error_class detail errors =
     fail_closed (ae_uuid E 1) (ae_now E 1) error_class None (mc_model_id m) (mc_provider m)
       (Some (rq_request_ts q)) (rq_snapshot q) prompt_version (rq_correlation_id q) latency
       (ae_elapsed_ms E n) level (attempt + 1) (0 < attempt) detail errors"

definition accepted_response ::
  "ai_env \<Rightarrow> ai_request \<Rightarrow> model_config \<Rightarrow> int \<Rightarrow> int \<Rightarrow> nat \<Rightarrow> pyfloat \<Rightarrow> string \<times> pyfloat \<times> string \<Rightarrow> string option
   \<Rightarrow> decision_record" where
  "accepted_response E q m level attempt n latency clean repair =
     (case clean of (direction, confidence, reason) \<Rightarrow>
       \<lparr>dr_inference_id = ae_uuid E 0, dr_model_id = mc_model_id m, dr_provider = mc_provider m,
        dr_request_ts = rq_request_ts q, dr_latency_ms = fround 1 latency,
        dr_context_snapshot_id = rq_snapshot q, dr_prompt_version = prompt_version,
        dr_correlation_id = rq_correlation_id q, dr_direction = direction, dr_confidence = confidence,
        dr_reason = reason, dr_validation_ok = True, dr_schema_errors = [], dr_error_class = None,
        dr_error_detail = None, dr_repair = repair, dr_fallback_level = level, dr_attempts = attempt + 1,
        dr_retried = (0 < attempt), dr_total_latency_ms = fround 1 (ae_elapsed_ms E n)\<rparr>)"

definition judge_response ::
  "ai_env \<Rightarrow> ai_request \<Rightarrow> model_config \<Rightarrow> int \<Rightarrow> int \<Rightarrow> nat \<Rightarrow> transport_result \<Rightarrow> escape + decision_record" where
  "judge_response E q m level attempt n result =
     (case parse_and_normalize (ae_loads E) (tr_raw result) of
        None \<Rightarrow> Inl Parse_escape
      | Some p \<Rightarrow>
          (if \<not> pr_ok p then
             Inr (refused_response E q m level attempt n (tr_latency_ms result) ''PARSE_ERROR'' (pr_error p) [])
           else
             (case validate_schema (ae_str E) (pr_output p) (pr_payload_keys p) of
                None \<Rightarrow> Inl Schema_escape
              | Some (ok, errors, clean) \<Rightarrow>
                  (if \<not> ok then
                     Inr (refused_response E q m level attempt n (tr_latency_ms result)
                       (if list_ex (str_in ''AUTHORITY_VIOLATION'') errors then ''AUTHORITY_VIOLATION'' else ''SCHEMA_ERROR'')
                       (Some (join '';'' errors)) errors)
                   else
                     (case clean of
                        None \<Rightarrow> Inl Schema_escape
                      | Some t \<Rightarrow> Inr (accepted_response E q m level attempt n (tr_latency_ms result) t (pr_repair p)))))))"

section \<open>The chain\<close>

text \<open>The inner loop with \<open>k\<close> attempts left: \<open>None\<close> is the \<open>break\<close> to the next model.\<close>

definition lift_sum :: "escape + 'a \<Rightarrow> 'a ai" where
  "lift_sum r = (case r of Inl e \<Rightarrow> raise e | Inr x \<Rightarrow> ret x)"

fun attempts_loop ::
  "ai_env \<Rightarrow> engine_config \<Rightarrow> ai_request \<Rightarrow> (string \<times> string) list \<Rightarrow> int \<Rightarrow> model_config \<Rightarrow> nat \<Rightarrow> int
   \<Rightarrow> decision_record option ai" where
  "attempts_loop E c q messages level m 0 attempt = ret None"
| "attempts_loop E c q messages level m (Suc k) attempt =
     bind (call_model E c messages m) (\<lambda>result.
     if tr_status result = ''OK'' then
       bind (gets (\<lambda>s. length (as_calls s))) (\<lambda>n.
       bind (lift_sum (judge_response E q m level attempt n result)) (\<lambda>r. ret (Some r)))
     else if classify_http (tr_status result) \<in> set retryable_statuses \<and> 0 < k then
       bind (if tr_status result = ''HTTP429'' then sleep_for (ec_retry_429_sleep_s c) else ret ()) (\<lambda>_.
       attempts_loop E c q messages level m k (attempt + 1))
     else ret None)"

fun chain_loop ::
  "ai_env \<Rightarrow> engine_config \<Rightarrow> ai_request \<Rightarrow> (string \<times> string) list \<Rightarrow> int \<Rightarrow> model_config list
   \<Rightarrow> decision_record option ai" where
  "chain_loop E c q messages level [] = ret None"
| "chain_loop E c q messages level (m # ms) =
     bind (attempts_loop E c q messages level m (nat (ec_max_attempts c)) 0) (\<lambda>r.
     case r of
       Some d \<Rightarrow> ret (Some d)
     | None \<Rightarrow> chain_loop E c q messages (level + 1) ms)"

definition show_opt :: "string option \<Rightarrow> string" where
  "show_opt x = (case x of None \<Rightarrow> ''None'' | Some s \<Rightarrow> s)"

definition exhausted :: "ai_env \<Rightarrow> engine_config \<Rightarrow> ai_request \<Rightarrow> ai_state \<Rightarrow> decision_record" where
  "exhausted E c q s =
     fail_closed (ae_uuid E 1) (ae_now E 1) ''PROVIDER_FAILURE'' None (mc_model_id (ec_fallback c))
       (mc_provider (ec_fallback c)) (Some (rq_request_ts q)) (rq_snapshot q) prompt_version
       (rq_correlation_id q) (Fin 0) (ae_elapsed_ms E (length (as_calls s))) 3 (ec_max_attempts c) True
       (Some (''last_status='' @ show_opt (fst (as_last s)) @ '' detail='' @ show_opt (snd (as_last s)))) []"

definition invalid_context_record :: "ai_env \<Rightarrow> engine_config \<Rightarrow> pydict \<Rightarrow> string option \<Rightarrow> decision_record" where
  "invalid_context_record E c context correlation_id =
     fail_closed (ae_uuid E 1) (ae_now E 1) ''INVALID_CONTEXT'' None (mc_model_id (ec_primary c))
       (mc_provider (ec_primary c)) None (snapshot_of context) prompt_version correlation_id (Fin 0) (Fin 0)
       0 0 False (Some (''missing keys: '' @ join '','' (sort (validate_context context)))) []"

definition decide :: "ai_env \<Rightarrow> engine_config \<Rightarrow> pydict \<Rightarrow> string option \<Rightarrow> decision_record ai" where
  "decide E c context correlation_id =
     (if validate_context context \<noteq> [] then ret (invalid_context_record E c context correlation_id)
      else
        (case build_user_prompt (ae_dumps E) context of
           None \<Rightarrow> raise Prompt_escape
         | Some user \<Rightarrow>
             (let q = \<lparr>rq_request_ts = ae_now E 0, rq_snapshot = snapshot_of context,
                       rq_correlation_id = correlation_id\<rparr> in
              bind (chain_loop E c q (messages_for user) 0 (chain c)) (\<lambda>r.
              case r of
                Some d \<Rightarrow> ret d
              | None \<Rightarrow> gets (exhausted E c q)))))"

definition ai_start :: ai_state where
  "ai_start = \<lparr>as_calls = [], as_slept = [], as_last = (None, None)\<rparr>"

end
