(* ===== verification/AiClaims.thy ===== *)
theory AiClaims
  imports AiEngine
begin

text \<open>
  Properties of the AI decision engine. The locale \<open>decision_contract\<close> is what the engine promises of
  its records, given that each of the three ways to build one keeps it; it is interpreted by the
  proposal contract (what a record may propose) and by the audit contract (where it comes from). The
  call log is described exactly, as a number of calls per model of the chain.
\<close>

section \<open>Accepted output\<close>

lemma validate_confidence_ok:
  assumes "validate_confidence v = Some (c, None)"
  shows "\<exists>x. c = Some x \<and> fle (Fin 0) x \<and> fle x (Fin 1)"
proof (cases v)
  case (PInt i)
  then obtain x where x: "of_int_f i = x" "is_finite x" "c = Some (fround 4 x)" "0 \<le> i" "i \<le> 1"
    using assms by (auto simp: validate_confidence_def Let_def not_less split: if_splits)
  then have "i = 0 \<or> i = 1" by auto
  then have "x = Fin 0 \<or> x = Fin 1" using x(1) of_int_f_eq [of i] by auto
  then show ?thesis using x(3) fround_unit [of x] by auto
next
  case (PFloat x)
  then have "c = Some (fround 4 x)" "is_finite x" "\<not> flt x (Fin 0)" "\<not> flt (Fin 1) x"
    using assms by (auto simp: validate_confidence_def Let_def split: if_splits)
  then show ?thesis using fround_unit by blast
qed (use assms in \<open>simp_all add: validate_confidence_def Let_def\<close>)

lemma validate_reason_ok:
  assumes "validate_reason v = (r, None)"
  shows "\<exists>s. v = PStr s \<and> r = Some (strip s) \<and> length s \<le> reason_max_length"
  using assms by (auto simp: validate_reason_def split: pyval.splits if_splits)

lemma validate_schema_ok:
  assumes "validate_schema to_str out keys = Some (True, errs, clean)"
  shows "errs = [] \<and> (\<exists>d c r. clean = Some (d, c, r) \<and> d \<in> set valid_directions
    \<and> fle (Fin 0) c \<and> fle c (Fin 1) \<and> length r \<le> reason_max_length
    \<and> list_all (\<lambda>p. \<not> str_in p (str_lower r)) forbidden_reason_phrases)
    \<and> validate_authority_boundary keys = []"
proof -
  obtain d de where d: "validate_direction (dget_default out ''direction'' PNone) = (d, de)" by fastforce
  obtain r re where r: "validate_reason (dget_default out ''reason'' PNone) = (r, re)" by fastforce
  obtain c ce where c: "validate_confidence (dget_default out ''confidence'' PNone) = Some (c, ce)"
    using assms by (auto simp: validate_schema_def)
  let ?low = "reason_lower to_str (dget_default out ''reason'' PNone)"
  have none: "de = None" "ce = None" "re = None" and auth: "validate_authority_boundary keys = []"
    and phr: "filter (\<lambda>p. str_in p ?low) forbidden_reason_phrases = []"
    and res: "errs = []" "clean = (case (d, c, r) of (Some d, Some c, Some r) \<Rightarrow> Some (d, c, r) | _ \<Rightarrow> None)"
    using assms by (auto simp: validate_schema_def d r c Let_def split: if_splits)
  obtain dx where dx: "d = Some dx" "dx \<in> set valid_directions" using validate_direction_ok d none by blast
  obtain cx where cx: "c = Some cx" "fle (Fin 0) cx" "fle cx (Fin 1)" using validate_confidence_ok c none by blast
  obtain s where s: "dget_default out ''reason'' PNone = PStr s" "r = Some (strip s)" "length s \<le> reason_max_length"
    using validate_reason_ok r none by blast
  have "str_in p (str_lower (strip s)) \<Longrightarrow> str_in p ?low" for p
    using str_in_lower_strip [of p s] s(1) by (cases s) (auto simp: reason_lower_def strip_def str_lower_def)
  then have "list_all (\<lambda>p. \<not> str_in p (str_lower (strip s))) forbidden_reason_phrases"
    using phr by (auto simp: list_all_iff filter_empty_conv)
  moreover have "length (strip s) \<le> reason_max_length" using strip_length [of s] s(3) by simp
  ultimately show ?thesis using dx cx s(2) res auth by auto
qed

lemma judge_responseE:
  assumes "judge_response E q m level attempt n result = Inr r"
  obtains (refuse) cls detail errors where
      "r = refused_response E q m level attempt n (tr_latency_ms result) cls detail errors"
      "cls \<in> {''PARSE_ERROR'', ''AUTHORITY_VIOLATION'', ''SCHEMA_ERROR''}"
    | (accept) p d c reason where
      "parse_and_normalize (ae_loads E) (tr_raw result) = Some p" "pr_ok p"
      "validate_authority_boundary (pr_payload_keys p) = []"
      "r = accepted_response E q m level attempt n (tr_latency_ms result) (d, c, reason) (pr_repair p)"
      "d \<in> set valid_directions" "fle (Fin 0) c" "fle c (Fin 1)" "length reason \<le> reason_max_length"
      "list_all (\<lambda>p. \<not> str_in p (str_lower reason)) forbidden_reason_phrases"
proof -
  obtain p where p: "parse_and_normalize (ae_loads E) (tr_raw result) = Some p"
    using assms by (auto simp: judge_response_def split: option.splits)
  show thesis
  proof (cases "pr_ok p")
    case False
    then have "r = refused_response E q m level attempt n (tr_latency_ms result) ''PARSE_ERROR'' (pr_error p) []"
      using assms p by (simp add: judge_response_def)
    then show thesis by (rule refuse) simp
  next
    case True
    obtain ok errors clean where v: "validate_schema (ae_str E) (pr_output p) (pr_payload_keys p) = Some (ok, errors, clean)"
      using assms p True by (auto simp: judge_response_def split: option.splits)
    show thesis
    proof (cases ok)
      case False
      have "r = refused_response E q m level attempt n (tr_latency_ms result)
          (if list_ex (str_in ''AUTHORITY_VIOLATION'') errors then ''AUTHORITY_VIOLATION'' else ''SCHEMA_ERROR'')
          (Some (join '';'' errors)) errors"
        using assms p \<open>pr_ok p\<close> v False by (simp add: judge_response_def)
      then show thesis by (rule refuse) simp
    next
      case ok: True
      then have v': "validate_schema (ae_str E) (pr_output p) (pr_payload_keys p) = Some (True, errors, clean)"
        using v by simp
      obtain d c reason where clean: "clean = Some (d, c, reason)" "d \<in> set valid_directions"
        "fle (Fin 0) c" "fle c (Fin 1)" "length reason \<le> reason_max_length"
        "list_all (\<lambda>p. \<not> str_in p (str_lower reason)) forbidden_reason_phrases"
        "validate_authority_boundary (pr_payload_keys p) = []"
        using validate_schema_ok [OF v'] by blast
      show thesis
        by (rule accept [OF p True clean(7) _ clean(2-6)])
          (use assms p True v' clean(1) in \<open>simp add: judge_response_def\<close>)
    qed
  qed
qed

section \<open>Calls\<close>

text \<open>What a run of one model does to the log: \<open>n\<close> calls and \<open>j\<close> sleeps, fewer than the calls.\<close>

definition logged :: "ai_call \<Rightarrow> pyfloat \<Rightarrow> nat \<Rightarrow> nat \<Rightarrow> ai_state \<Rightarrow> ai_state \<Rightarrow> bool" where
  "logged call z n j s s' \<longleftrightarrow> as_calls s' = as_calls s @ replicate n call \<and> as_slept s' = as_slept s @ replicate j z"

lemma logged_0 [simp]: "logged call z 0 0 s s"
  by (simp add: logged_def)

lemma logged_Suc:
  assumes "as_calls s1 = as_calls s @ [call]" and "as_slept s1 = as_slept s @ replicate i z" and "logged call z n j s1 s'"
  shows "logged call z (Suc n) (i + j) s s'"
  using assms by (simp add: logged_def replicate_add replicate_app_Cons_same)

definition called :: "ai_env \<Rightarrow> ai_call \<Rightarrow> ai_state \<Rightarrow> transport_result option" where
  "called E call s = ae_transport E (length (as_calls s)) call"

definition after_call :: "ai_env \<Rightarrow> ai_call \<Rightarrow> ai_state \<Rightarrow> ai_state" where
  "after_call E call s =
     s\<lparr>as_calls := as_calls s @ [call],
       as_last := (case called E call s of None \<Rightarrow> as_last s | Some res \<Rightarrow> (Some (tr_status res), tr_error res))\<rparr>"

lemma after_call_sel [simp]:
  "as_calls (after_call E call s) = as_calls s @ [call]" "as_slept (after_call E call s) = as_slept s"
  by (simp_all add: after_call_def)

lemma call_model_run [eff_simps]:
  "call_model E c messages m s =
     (case called E (ai_call_of E c messages m) s of None \<Rightarrow> Inl Transport_escape | Some res \<Rightarrow> Inr res,
      after_call E (ai_call_of E c messages m) s)"
  by (simp add: call_model_def called_def after_call_def Let_def split: option.split)

lemma bind_call [eff_simps]:
  "bind (call_model E c messages m) f s =
     (case called E (ai_call_of E c messages m) s of
        None \<Rightarrow> (Inl Transport_escape, after_call E (ai_call_of E c messages m) s)
      | Some res \<Rightarrow> f res (after_call E (ai_call_of E c messages m) s))"
  by (simp add: bind_def call_model_run split: option.split)

text \<open>One round of the inner loop, as a run.\<close>

lemma attempts_loop_raised:
  "called E (ai_call_of E c messages m) s = None \<Longrightarrow>
   attempts_loop E c q messages level m (Suc k) attempt s = (Inl Transport_escape, after_call E (ai_call_of E c messages m) s)"
  by (simp add: bind_call)

lemma attempts_loop_run:
  assumes "called E (ai_call_of E c messages m) s = Some res" and "s1 = after_call E (ai_call_of E c messages m) s"
  shows "attempts_loop E c q messages level m (Suc k) attempt s =
    (if tr_status res = ''OK'' then
       (case judge_response E q m level attempt (Suc (length (as_calls s))) res of
          Inl e \<Rightarrow> (Inl e, s1) | Inr r \<Rightarrow> (Inr (Some r), s1))
     else if classify_http (tr_status res) \<in> set retryable_statuses \<and> 0 < k then
       (if tr_status res = ''HTTP429'' then
          (if sleep_ok (ec_retry_429_sleep_s c) then
             attempts_loop E c q messages level m k (attempt + 1)
               (s1\<lparr>as_slept := as_slept s1 @ [ec_retry_429_sleep_s c]\<rparr>)
           else (Inl Sleep_escape, s1))
        else attempts_loop E c q messages level m k (attempt + 1) s1)
     else (Inr None, s1))"
  using assms
  by (simp add: bind_call bind_gets bind_ret ret_run lift_sum_def raise_run bind_def [of "raise e" for e]
    sleep_for_def bind_def [of "sleep_for x" for x] split: sum.splits)

declare attempts_loop.simps(2) [simp del]

lemma attempts_log:
  assumes "attempts_loop E c q messages level m k attempt s = (r, s')"
  shows "\<exists>n j. n \<le> k \<and> (0 < k \<longrightarrow> 0 < n) \<and> j \<le> n - 1
    \<and> logged (ai_call_of E c messages m) (ec_retry_429_sleep_s c) n j s s'"
  using assms
proof (induction k arbitrary: attempt s)
  case 0
  then show ?case by (auto simp: ret_run)
next
  case (Suc k)
  let ?call = "ai_call_of E c messages m" and ?z = "ec_retry_429_sleep_s c"
  let ?s1 = "after_call E ?call s"
  let ?logged = "\<exists>n j. n \<le> Suc k \<and> (0 < Suc k \<longrightarrow> 0 < n) \<and> j \<le> n - 1 \<and> logged ?call ?z n j s s'"
  have one: ?logged if "s' = ?s1"
    using that by (intro exI [of _ 1] exI [of _ 0]) (simp add: logged_def)
  have step: ?logged
    if again: "attempts_loop E c q messages level m k (attempt + 1) s2 = (r, s')" "0 < k"
      and s2: "as_calls s2 = as_calls s @ [?call]" "as_slept s2 = as_slept s @ replicate i ?z" "i \<le> 1" for s2 i
  proof -
    obtain n j where n: "n \<le> k" "0 < n" "j \<le> n - 1" "logged ?call ?z n j s2 s'"
      using Suc.IH [OF again(1)] again(2) by blast
    then show ?thesis
      using logged_Suc [OF s2(1,2) n(4)] s2(3) by (intro exI [of _ "Suc n"] exI [of _ "i + j"]) simp
  qed
  show ?case
  proof (cases "called E ?call s")
    case None
    then show ?thesis using Suc.prems one by (simp add: attempts_loop_raised)
  next
    case (Some res)
    then show ?thesis
      using Suc.prems [unfolded attempts_loop_run [OF Some refl]] one step [of ?s1 0]
        step [of "?s1\<lparr>as_slept := as_slept ?s1 @ [?z]\<rparr>" 1]
      by (auto split: if_splits sum.splits)
  qed
qed

lemma chain_log:
  assumes "chain_loop E c q messages level ms s = (r, s')"
  shows "\<exists>ns js. length ns = length ms \<and> length js = length ms \<and> (\<forall>n \<in> set ns. n \<le> nat (ec_max_attempts c))
    \<and> list_all2 (\<lambda>j n. j \<le> n - 1) js ns
    \<and> as_calls s' = as_calls s @ concat (map2 (\<lambda>n m. replicate n (ai_call_of E c messages m)) ns ms)
    \<and> as_slept s' = as_slept s @ replicate (sum_list js) (ec_retry_429_sleep_s c)"
  using assms
proof (induction ms arbitrary: level s)
  case Nil
  then show ?case by (auto simp: ret_run)
next
  case (Cons m ms)
  obtain r1 s1 where run: "attempts_loop E c q messages level m (nat (ec_max_attempts c)) 0 s = (r1, s1)"
    by fastforce
  obtain n j where n: "n \<le> nat (ec_max_attempts c)" "j \<le> n - 1"
    "logged (ai_call_of E c messages m) (ec_retry_429_sleep_s c) n j s s1"
    using attempts_log [OF run] by blast
  show ?case
  proof (cases "r1 = Inr None")
    case True
    then have "chain_loop E c q messages (level + 1) ms s1 = (r, s')" using Cons.prems run by (simp add: bind_Inr)
    from Cons.IH [OF this] obtain ns js where ns: "length ns = length ms" "length js = length ms"
      "\<forall>n \<in> set ns. n \<le> nat (ec_max_attempts c)" "list_all2 (\<lambda>j n. j \<le> n - 1) js ns"
      "as_calls s' = as_calls s1 @ concat (map2 (\<lambda>n m. replicate n (ai_call_of E c messages m)) ns ms)"
      "as_slept s' = as_slept s1 @ replicate (sum_list js) (ec_retry_429_sleep_s c)" by blast
    show ?thesis
      using n ns by - (rule exI [of _ "n # ns"], rule exI [of _ "j # js"], simp add: logged_def replicate_add)
  next
    case False
    then have "s' = s1"
      using Cons.prems run by (cases r1) (auto simp: bind_def ret_def split: option.splits)
    then show ?thesis
      using n by - (rule exI [of _ "n # replicate (length ms) 0"], rule exI [of _ "j # replicate (length ms) 0"],
        auto simp: logged_def zip_replicate1 comp_def list_all2_conv_all_nth sum_list_replicate nth_Cons')
  qed
qed

lemma decide_run:
  assumes "validate_context context = []" and "build_user_prompt (ae_dumps E) context = Some user"
    and "q = \<lparr>rq_request_ts = ae_now E 0, rq_snapshot = snapshot_of context, rq_correlation_id = corr\<rparr>"
    and "chain_loop E c q (messages_for user) 0 (chain c) s = (r1, s1)"
  shows "decide E c context corr s =
    (case r1 of Inl e \<Rightarrow> (Inl e, s1) | Inr None \<Rightarrow> (Inr (exhausted E c q s1), s1) | Inr (Some d) \<Rightarrow> (Inr d, s1))"
  using assms by (auto simp: decide_def Let_def bind_def ret_run gets_run split: sum.splits option.splits)

section \<open>Contracts of the records\<close>

locale decision_contract =
  fixes good :: "ai_env \<Rightarrow> engine_config \<Rightarrow> string option \<Rightarrow> string option \<Rightarrow> decision_record \<Rightarrow> bool"
  assumes invalid: "good E c (snapshot_of context) corr (invalid_context_record E c context corr)"
    and refused: "0 \<le> level \<Longrightarrow> level < 3 \<Longrightarrow> m = chain c ! nat level \<Longrightarrow> 0 \<le> attempt \<Longrightarrow> attempt < ec_max_attempts c
      \<Longrightarrow> cls \<in> {''PARSE_ERROR'', ''AUTHORITY_VIOLATION'', ''SCHEMA_ERROR''}
      \<Longrightarrow> good E c (rq_snapshot q) (rq_correlation_id q)
            (refused_response E q m level attempt n latency cls detail errors)"
    and accepted: "0 \<le> level \<Longrightarrow> level < 3 \<Longrightarrow> m = chain c ! nat level \<Longrightarrow> 0 \<le> attempt \<Longrightarrow> attempt < ec_max_attempts c
      \<Longrightarrow> d \<in> set valid_directions \<Longrightarrow> fle (Fin 0) x \<Longrightarrow> fle x (Fin 1) \<Longrightarrow> length reason \<le> reason_max_length
      \<Longrightarrow> list_all (\<lambda>p. \<not> str_in p (str_lower reason)) forbidden_reason_phrases
      \<Longrightarrow> good E c (rq_snapshot q) (rq_correlation_id q)
            (accepted_response E q m level attempt n latency (d, x, reason) repair)"
    and exhausted: "good E c (rq_snapshot q) (rq_correlation_id q) (exhausted E c q s)"
begin

lemma attempts_good:
  assumes "attempts_loop E c q messages level m k attempt s = (Inr (Some r), s')"
    and "0 \<le> level" "level < 3" "m = chain c ! nat level" "0 \<le> attempt" "attempt + int k \<le> ec_max_attempts c"
  shows "good E c (rq_snapshot q) (rq_correlation_id q) r"
  using assms
proof (induction k arbitrary: attempt s)
  case 0
  then show ?case by (simp add: ret_run)
next
  case (Suc k)
  obtain res where res: "called E (ai_call_of E c messages m) s = Some res"
    using Suc.prems(1) attempts_loop_raised by (cases "called E (ai_call_of E c messages m) s") fastforce+
  show ?case
  proof (cases "tr_status res = ''OK''")
    case True
    then have j: "judge_response E q m level attempt (Suc (length (as_calls s))) res = Inr r"
      using Suc.prems(1) unfolding attempts_loop_run [OF res refl] by (auto split: sum.splits)
    have a: "attempt < ec_max_attempts c" using Suc.prems by simp
    from j show ?thesis
    proof (cases rule: judge_responseE)
      case refuse
      then show ?thesis using refused [OF Suc.prems(2-5) a refuse(2)] by simp
    next
      case accept
      then show ?thesis using accepted [OF Suc.prems(2-5) a accept(5-9)] by simp
    qed
  next
    case False
    then obtain s2 where "attempts_loop E c q messages level m k (attempt + 1) s2 = (Inr (Some r), s')"
      using Suc.prems(1) unfolding attempts_loop_run [OF res refl] by (auto split: if_splits)
    then show ?thesis using Suc.IH Suc.prems by simp
  qed
qed

lemma chain_good:
  assumes "chain_loop E c q messages level ms s = (Inr (Some r), s')"
    and "0 \<le> level" and "ms = drop (nat level) (chain c)"
  shows "good E c (rq_snapshot q) (rq_correlation_id q) r"
  using assms
proof (induction ms arbitrary: level s)
  case Nil
  then show ?case by (simp add: ret_run)
next
  case (Cons m ms)
  have len: "nat level < 3"
    using Cons.prems(3) by (metis chain_def drop_eq_Nil2 length_Cons list.distinct(1) list.size(3) not_less
      numeral_3_eq_3)
  then have m: "m = chain c ! nat level" "ms = drop (nat (level + 1)) (chain c)"
    using Cons.prems(2,3) by (auto simp: chain_def nat_add_distrib Cons_nth_drop_Suc [symmetric])
  obtain r1 s1 where run: "attempts_loop E c q messages level m (nat (ec_max_attempts c)) 0 s = (r1, s1)"
    by fastforce
  consider "r1 = Inr None" | d where "r1 = Inr (Some d)" | e where "r1 = Inl e" by (metis obj_sumE option.exhaust)
  then show ?case
  proof cases
    case 1
    then show ?thesis using Cons.IH [of "level + 1" s1] Cons.prems run m(2) by (simp add: bind_Inr)
  next
    case 2
    then have d: "r = d" using Cons.prems(1) run by (simp add: bind_def ret_def)
    show ?thesis
    proof (cases "0 < ec_max_attempts c")
      case True
      then show ?thesis
        using attempts_good [OF run [unfolded 2]] Cons.prems(2) len m(1) d by simp
    next
      case False
      then show ?thesis using run 2 by (simp add: ret_run)
    qed
  next
    case 3
    then show ?thesis using Cons.prems(1) run by (simp add: bind_def)
  qed
qed

lemma decide_good:
  assumes "decide E c context corr s = (Inr r, s')"
  shows "good E c (snapshot_of context) corr r"
proof (cases "validate_context context = []")
  case False
  then have "r = invalid_context_record E c context corr" using assms by (simp add: decide_def ret_run)
  then show ?thesis using invalid by simp
next
  case True
  then obtain user where user: "build_user_prompt (ae_dumps E) context = Some user"
    using assms by (auto simp: decide_def raise_run split: option.splits)
  define q where "q = \<lparr>rq_request_ts = ae_now E 0, rq_snapshot = snapshot_of context, rq_correlation_id = corr\<rparr>"
  obtain r1 s1 where run: "chain_loop E c q (messages_for user) 0 (chain c) s = (r1, s1)" by fastforce
  note res = assms [unfolded decide_run [OF True user q_def run]]
  show ?thesis
  proof (cases "r1 = Inr None")
    case True
    then have "r = exhausted E c q s1" using res by auto
    then show ?thesis using exhausted [of E c q s1] by (simp add: q_def)
  next
    case False
    then have "r1 = Inr (Some r)" using res by (auto split: sum.splits option.splits)
    then show ?thesis using chain_good [OF run [unfolded \<open>r1 = Inr (Some r)\<close>]] by (simp add: q_def)
  qed
qed

end

definition proposal_contract ::
  "ai_env \<Rightarrow> engine_config \<Rightarrow> string option \<Rightarrow> string option \<Rightarrow> decision_record \<Rightarrow> bool" where
  "proposal_contract E c snapshot corr r \<longleftrightarrow>
     (if dr_validation_ok r then
        dr_direction r \<in> {''BUY'', ''SELL'', ''NO-TRADE''} \<and> fle (Fin 0) (dr_confidence r)
        \<and> fle (dr_confidence r) (Fin 1) \<and> length (dr_reason r) \<le> 2000
        \<and> list_all (\<lambda>p. \<not> str_in p (str_lower (dr_reason r))) forbidden_reason_phrases
        \<and> dr_error_class r = None \<and> dr_schema_errors r = []
      else
        dr_direction r = ''NO-TRADE'' \<and> dr_confidence r = Fin 0 \<and> dr_reason r = []
        \<and> dr_error_class r \<in> Some ` {''INVALID_CONTEXT'', ''PARSE_ERROR'', ''SCHEMA_ERROR'', ''AUTHORITY_VIOLATION'',
                                   ''PROVIDER_FAILURE''})"

definition audit_contract ::
  "ai_env \<Rightarrow> engine_config \<Rightarrow> string option \<Rightarrow> string option \<Rightarrow> decision_record \<Rightarrow> bool" where
  "audit_contract E c snapshot corr r \<longleftrightarrow>
     dr_correlation_id r = corr \<and> dr_context_snapshot_id r = snapshot \<and> dr_prompt_version r = prompt_version
     \<and> dr_inference_id r = ae_uuid E (if dr_validation_ok r then 0 else 1)
     \<and> (if dr_error_class r = Some ''INVALID_CONTEXT'' then
          dr_model_id r = mc_model_id (ec_primary c) \<and> dr_fallback_level r = 0 \<and> dr_attempts r = 0
        else if dr_error_class r = Some ''PROVIDER_FAILURE'' then
          dr_model_id r = mc_model_id (ec_fallback c) \<and> dr_fallback_level r = 3 \<and> dr_attempts r = ec_max_attempts c
        else
          0 \<le> dr_fallback_level r \<and> dr_fallback_level r < 3
          \<and> dr_model_id r = mc_model_id (chain c ! nat (dr_fallback_level r))
          \<and> dr_provider r = mc_provider (chain c ! nat (dr_fallback_level r))
          \<and> 1 \<le> dr_attempts r \<and> dr_attempts r \<le> ec_max_attempts c \<and> (dr_retried r \<longleftrightarrow> 1 < dr_attempts r))"

lemmas record_builders = invalid_context_record_def refused_response_def accepted_response_def exhausted_def
  fail_closed_def

interpretation proposal: decision_contract proposal_contract
  by unfold_locales
    (auto simp: proposal_contract_def record_builders valid_directions_def reason_max_length_def)

interpretation audit: decision_contract audit_contract
  by unfold_locales (auto simp: audit_contract_def record_builders or_str_def)

section \<open>Outages\<close>

text \<open>No call succeeds, and the failures are all worth a retry, or none is.\<close>

definition outage :: "ai_env \<Rightarrow> bool \<Rightarrow> bool" where
  "outage E retry \<longleftrightarrow>
     (\<forall>n call. \<exists>res. ae_transport E n call = Some res \<and> tr_status res \<noteq> ''OK''
        \<and> (classify_http (tr_status res) \<in> set retryable_statuses) = retry)"

lemma attempts_outage:
  assumes "outage E retry" and "sleep_ok (ec_retry_429_sleep_s c)"
  shows "\<exists>s'. attempts_loop E c q messages level m (Suc k) attempt s = (Inr None, s')
    \<and> as_calls s' = as_calls s @ replicate (if retry then Suc k else 1) (ai_call_of E c messages m)"
proof (induction k arbitrary: attempt s)
  case 0
  obtain res where "called E (ai_call_of E c messages m) s = Some res" "tr_status res \<noteq> ''OK''"
    using assms(1) unfolding outage_def called_def by blast
  then show ?case by (simp add: attempts_loop_run [OF _ refl])
next
  case (Suc k)
  let ?call = "ai_call_of E c messages m" and ?s1 = "after_call E (ai_call_of E c messages m) s"
  obtain res where res: "called E ?call s = Some res" and out: "tr_status res \<noteq> ''OK''"
    "(classify_http (tr_status res) \<in> set retryable_statuses) = retry"
    using assms(1) unfolding outage_def called_def by blast
  show ?case
  proof (cases retry)
    case False
    then show ?thesis using out unfolding attempts_loop_run [OF res refl, of _ _ "Suc k"] by simp
  next
    case True
    have "\<exists>s'. attempts_loop E c q messages level m (Suc (Suc k)) attempt s = (Inr None, s')
        \<and> as_calls s' = as_calls ?s1 @ replicate (Suc k) ?call"
      using out True assms(2) Suc.IH [of "attempt + 1" ?s1]
        Suc.IH [of "attempt + 1" "?s1\<lparr>as_slept := as_slept ?s1 @ [ec_retry_429_sleep_s c]\<rparr>"]
      unfolding attempts_loop_run [OF res refl, of _ _ "Suc k"] by auto
    then show ?thesis using True by (simp add: replicate_app_Cons_same)
  qed
qed

lemma chain_outage:
  assumes "outage E retry" and "sleep_ok (ec_retry_429_sleep_s c)" and "0 < ec_max_attempts c"
  shows "\<exists>s'. chain_loop E c q messages level ms s = (Inr None, s')
    \<and> as_calls s' = as_calls s @ concat (map (\<lambda>m. replicate (if retry then nat (ec_max_attempts c) else 1)
        (ai_call_of E c messages m)) ms)"
proof (induction ms arbitrary: level s)
  case Nil
  then show ?case by (simp add: ret_run)
next
  case (Cons m ms)
  obtain k where k: "nat (ec_max_attempts c) = Suc k" using assms(3) by (cases "nat (ec_max_attempts c)") auto
  obtain s1 where s1: "attempts_loop E c q messages level m (Suc k) 0 s = (Inr None, s1)"
    "as_calls s1 = as_calls s @ replicate (if retry then Suc k else 1) (ai_call_of E c messages m)"
    using attempts_outage [OF assms(1,2)] by blast
  then show ?case using Cons.IH [of "level + 1" s1] k by (cases retry) (auto simp: bind_Inr)
qed

section \<open>Properties\<close>

text \<open>C6. A decision that is marked valid stays within the authority of the AI: it proposes BUY, SELL
  or NO-TRADE with a confidence between 0 and 1, its reason is at most 2,000 characters long and
  contains none of the forbidden phrases (lot size, stop loss, place order, ...), and no error is
  recorded. This holds whatever the provider answers and whatever the JSON parser makes of it.\<close>

theorem decision_within_authority:
  assumes "decide E c context corr s = (Inr r, s')" and "dr_validation_ok r"
  shows "dr_direction r \<in> {''BUY'', ''SELL'', ''NO-TRADE''}
    \<and> fle (Fin 0) (dr_confidence r) \<and> fle (dr_confidence r) (Fin 1)
    \<and> length (dr_reason r) \<le> 2000
    \<and> list_all (\<lambda>p. \<not> str_in p (str_lower (dr_reason r))) forbidden_reason_phrases
    \<and> dr_error_class r = None \<and> dr_schema_errors r = []"
  using proposal.decide_good [OF assms(1)] assms(2) by (simp add: proposal_contract_def)

text \<open>C14. Every decision that is not marked valid is a NO-TRADE with confidence 0 and no reason, and
  names one of the five failure classes.\<close>

theorem decision_fails_closed:
  assumes "decide E c context corr s = (Inr r, s')" and "dr_validation_ok r = False"
  shows "dr_direction r = ''NO-TRADE'' \<and> dr_confidence r = Fin 0 \<and> dr_reason r = []
    \<and> dr_error_class r \<in> Some ` {''INVALID_CONTEXT'', ''PARSE_ERROR'', ''SCHEMA_ERROR'', ''AUTHORITY_VIOLATION'',
                                ''PROVIDER_FAILURE''}"
  using proposal.decide_good [OF assms(1)] assms(2) by (simp add: proposal_contract_def)

text \<open>The audit trail of a decision is right: it carries the caller's correlation id, the snapshot
  id of the context and the prompt version; unless the context was refused or the whole chain was
  exhausted it names the model of the level it reports, and reports between one and
  \<open>max_attempts\<close> attempts at that level, being marked as retried exactly when there was more than
  one. A failed decision has a fresh inference id, not the one taken when the cycle began.\<close>

theorem decision_audit_trail:
  assumes "decide E c context corr s = (Inr r, s')"
  shows "dr_correlation_id r = corr \<and> dr_context_snapshot_id r = snapshot_of context
    \<and> dr_prompt_version r = prompt_version
    \<and> dr_inference_id r = ae_uuid E (if dr_validation_ok r then 0 else 1)
    \<and> (if dr_error_class r = Some ''INVALID_CONTEXT'' then
         dr_model_id r = mc_model_id (ec_primary c) \<and> dr_fallback_level r = 0 \<and> dr_attempts r = 0
       else if dr_error_class r = Some ''PROVIDER_FAILURE'' then
         dr_model_id r = mc_model_id (ec_fallback c) \<and> dr_fallback_level r = 3 \<and> dr_attempts r = ec_max_attempts c
       else
         0 \<le> dr_fallback_level r \<and> dr_fallback_level r < 3
         \<and> dr_model_id r = mc_model_id (chain c ! nat (dr_fallback_level r))
         \<and> dr_provider r = mc_provider (chain c ! nat (dr_fallback_level r))
         \<and> 1 \<le> dr_attempts r \<and> dr_attempts r \<le> ec_max_attempts c \<and> (dr_retried r \<longleftrightarrow> 1 < dr_attempts r))"
  using audit.decide_good [OF assms] by (simp add: audit_contract_def)

text \<open>C13. The provider is called within a budget and in the order of the chain: whatever happens,
  escaping exceptions included, the calls of a decision are some calls to the primary model, then
  some to the secondary, then some to the fallback, at most \<open>max_attempts\<close> of each and all with the
  configured parameters; a context that fails validation causes no call, and the engine sleeps only
  between two calls of a model, each time for the configured time.\<close>

theorem provider_calls_bounded:
  assumes "decide E c context corr ai_start = (r, s')"
  shows "(\<exists>ns js messages. length ns = 3 \<and> length js = 3 \<and> list_all (\<lambda>n. n \<le> nat (ec_max_attempts c)) ns
      \<and> list_all2 (\<lambda>j n. j \<le> n - 1) js ns
      \<and> as_calls s' = concat (map2 (\<lambda>n m. replicate n (ai_call_of E c messages m)) ns (chain c))
      \<and> as_slept s' = replicate (sum_list js) (ec_retry_429_sleep_s c))
    \<and> (validate_context context = [] \<or> as_calls s' = [])"
proof (cases "validate_context context = [] \<and> (\<exists>user. build_user_prompt (ae_dumps E) context = Some user)")
  case True
  then obtain user where user: "validate_context context = []" "build_user_prompt (ae_dumps E) context = Some user"
    by blast
  define q where "q = \<lparr>rq_request_ts = ae_now E 0, rq_snapshot = snapshot_of context, rq_correlation_id = corr\<rparr>"
  obtain r1 s1 where run: "chain_loop E c q (messages_for user) 0 (chain c) ai_start = (r1, s1)" by fastforce
  have "s' = s1" using assms unfolding decide_run [OF user q_def run] by (auto split: sum.splits option.splits)
  moreover have "length (chain c) = 3" by (simp add: chain_def)
  moreover obtain ns js where "length ns = length (chain c)" "length js = length (chain c)" "list_all (\<lambda>n. n \<le> nat (ec_max_attempts c)) ns"
    "list_all2 (\<lambda>j n. j \<le> n - 1) js ns"
    "as_calls s1 = concat (map2 (\<lambda>n m. replicate n (ai_call_of E c (messages_for user) m)) ns (chain c))"
    "as_slept s1 = replicate (sum_list js) (ec_retry_429_sleep_s c)"
    using chain_log [OF run] unfolding ai_start_def list_all_iff by auto
  ultimately show ?thesis using user(1) by metis
next
  case False
  then have "s' = ai_start" using assms by (auto simp: decide_def ret_run raise_run split: option.splits if_splits)
  then show ?thesis
    by - (rule conjI, rule exI [of _ "[0, 0, 0]"], rule exI [of _ "[0, 0, 0]"], simp_all add: ai_start_def chain_def)
qed

text \<open>In an outage every model is tried and the failure is reported: when no call succeeds, the
  decision ends as PROVIDER_FAILURE after exactly \<open>max_attempts\<close> calls to each of the three models
  if the failures are retryable (timeout, transport error, 429, 5xx), and after exactly one call to
  each if they are not (400, 401, 403, ...).\<close>

theorem outage_exhausts_the_chain:
  assumes "validate_context context = []" and "build_user_prompt (ae_dumps E) context = Some user"
    and "outage E retry" and "sleep_ok (ec_retry_429_sleep_s c)" and "0 < ec_max_attempts c"
  shows "\<exists>r s'. decide E c context corr ai_start = (Inr r, s') \<and> dr_error_class r = Some ''PROVIDER_FAILURE''
    \<and> as_calls s' = concat (map (\<lambda>m. replicate (if retry then nat (ec_max_attempts c) else 1)
        (ai_call_of E c (messages_for user) m)) (chain c))"
proof -
  define q where "q = \<lparr>rq_request_ts = ae_now E 0, rq_snapshot = snapshot_of context, rq_correlation_id = corr\<rparr>"
  obtain s1 where run: "chain_loop E c q (messages_for user) 0 (chain c) ai_start = (Inr None, s1)"
    and calls: "as_calls s1 = concat (map (\<lambda>m. replicate (if retry then nat (ec_max_attempts c) else 1)
        (ai_call_of E c (messages_for user) m)) (chain c))"
    using chain_outage [OF assms(3-5), of q "messages_for user" 0 "chain c" ai_start] by (auto simp: ai_start_def)
  show ?thesis
    using decide_run [OF assms(1,2) q_def run] calls by (simp add: exhausted_def fail_closed_def)
qed

text \<open>Not every malformed answer fails closed: when the first call returns a JSON object whose
  \<open>choices\<close> list starts with something that is no object, \<open>decide\<close> raises instead of
  returning a NO-TRADE record (\<open>choices[0].get\<close> in \<open>parse_and_normalize\<close> is outside any handler).\<close>

theorem malformed_choices_escape:
  assumes "validate_context context = []" and "build_user_prompt (ae_dumps E) context = Some user"
    and "0 < ec_max_attempts c" and "as_dict v = None"
    and "ae_transport E 0 (ai_call_of E c (messages_for user) (ec_primary c)) = Some result"
    and "tr_status result = ''OK''" and "strip (tr_raw result) \<noteq> []"
    and "ae_loads E (strip_trailing_sse (tr_raw result)) = Loaded (PDict [(''choices'', PList [v])])"
  shows "fst (decide E c context corr ai_start) = Inl Parse_escape"
proof -
  define q where "q = \<lparr>rq_request_ts = ae_now E 0, rq_snapshot = snapshot_of context, rq_correlation_id = corr\<rparr>"
  obtain k where k: "nat (ec_max_attempts c) = Suc k" using assms(3) by (cases "nat (ec_max_attempts c)") auto
  have res: "called E (ai_call_of E c (messages_for user) (ec_primary c)) ai_start = Some result"
    using assms(5) by (simp add: called_def ai_start_def)
  have "parse_and_normalize (ae_loads E) (tr_raw result) = None"
    using assms(4,7,8) by (simp add: parse_and_normalize_def valid_json_object_def dget_def)
  then have "attempts_loop E c q (messages_for user) 0 (ec_primary c) (Suc k) 0 ai_start
      = (Inl Parse_escape, after_call E (ai_call_of E c (messages_for user) (ec_primary c)) ai_start)"
    using assms(6) unfolding attempts_loop_run [OF res refl] by (simp add: judge_response_def)
  then show ?thesis
    using decide_run [OF assms(1,2) q_def] k by (simp add: chain_def bind_Inl)
qed

section \<open>The hypotheses hold at concrete inputs\<close>

text \<open>A provider whose primary model answers 503 once and then proposes BUY.\<close>

definition demo_config :: engine_config where
  "demo_config =
     \<lparr>ec_primary = model_config_of ''cf/a'', ec_secondary = model_config_of ''groq/b'', ec_fallback = model_config_of ''c'',
      ec_base_url = ''http://x'', ec_timeout_s = Fin 60, ec_max_attempts = 2, ec_retry_429_sleep_s = Fin 10,
      ec_max_tokens = 512, ec_temperature = Fin 0\<rparr>"

definition demo_ai_env :: "(nat \<Rightarrow> transport_result) \<Rightarrow> (string \<Rightarrow> json_result) \<Rightarrow> ai_env" where
  "demo_ai_env answer loads =
     \<lparr>ae_transport = (\<lambda>n call. Some (answer n)), ae_loads = loads, ae_dumps = (\<lambda>d. ''{}''), ae_str = (\<lambda>v. ''v''),
      ae_uuid = (\<lambda>n. if n = 0 then ''id0'' else ''id1''), ae_now = (\<lambda>n. ''now''), ae_elapsed_ms = (\<lambda>n. Fin 5),
      ae_api_key = ''k''\<rparr>"

definition answer_of :: "string \<Rightarrow> string \<Rightarrow> transport_result" where
  "answer_of status raw = \<lparr>tr_status = status, tr_latency_ms = Fin 3, tr_raw = raw, tr_error = None\<rparr>"

definition demo_context :: pydict where
  "demo_context =
     [(''symbol'', PStr ''XAUUSDc''), (''bid'', PFloat (Fin 2000)), (''ask'', PFloat (Fin 2001)),
      (''spread'', PInt 1), (''mid'', PFloat (Fin 2000)), (''atr_m1'', PInt 2), (''m1'', PDict []), (''m5'', PNone)]"

definition demo_buy :: ai_env where
  "demo_buy = demo_ai_env (\<lambda>n. if n = 0 then answer_of ''HTTP503'' [] else answer_of ''OK'' ''{buy}'')
     (\<lambda>t. if t = ''{buy}'' then
        Loaded (PDict [(''direction'', PStr ''buy''), (''confidence'', PFloat (Fin (1 / 2))), (''reason'', PStr '' trend up '')])
      else Decode_error)"

definition demo_prose :: ai_env where
  "demo_prose = demo_ai_env (\<lambda>n. answer_of ''OK'' ''hello'') (\<lambda>t. Decode_error)"

definition demo_request :: ai_request where
  "demo_request = \<lparr>rq_request_ts = ''now'', rq_snapshot = None, rq_correlation_id = Some ''corr''\<rparr>"

lemma demo_buy_run:
  "fst (decide demo_buy demo_config demo_context (Some ''corr'') ai_start)
   = Inr (accepted_response demo_buy demo_request (model_config_of ''cf/a'') 0 1 2 (Fin 3)
       (''BUY'', Fin (1 / 2), ''trend up'') None)"
  by code_simp

lemma demo_prose_run:
  "fst (decide demo_prose demo_config demo_context (Some ''corr'') ai_start)
   = Inr (refused_response demo_prose demo_request (model_config_of ''cf/a'') 0 0 1 (Fin 3) ''PARSE_ERROR''
       (Some ''invalid_json'') [])"
  by code_simp

lemma run_obtain: "fst p = Inr r \<Longrightarrow> \<exists>s'. p = (Inr r, s')"
  by (cases p) simp

theorem decision_within_authority_witness:
  "\<exists>r s'. decide demo_buy demo_config demo_context (Some ''corr'') ai_start = (Inr r, s')
    \<and> dr_direction r \<in> {''BUY'', ''SELL'', ''NO-TRADE''} \<and> fle (dr_confidence r) (Fin 1)"
proof -
  obtain s' where run: "decide demo_buy demo_config demo_context (Some ''corr'') ai_start
      = (Inr (accepted_response demo_buy demo_request (model_config_of ''cf/a'') 0 1 2 (Fin 3)
         (''BUY'', Fin (1 / 2), ''trend up'') None), s')"
    using run_obtain [OF demo_buy_run] by blast
  then show ?thesis using decision_within_authority [OF run] by (auto simp: accepted_response_def)
qed

theorem decision_fails_closed_witness:
  "\<exists>r s'. decide demo_prose demo_config demo_context (Some ''corr'') ai_start = (Inr r, s')
    \<and> dr_direction r = ''NO-TRADE'' \<and> dr_confidence r = Fin 0"
proof -
  obtain s' where run: "decide demo_prose demo_config demo_context (Some ''corr'') ai_start
      = (Inr (refused_response demo_prose demo_request (model_config_of ''cf/a'') 0 0 1 (Fin 3) ''PARSE_ERROR''
         (Some ''invalid_json'') []), s')"
    using run_obtain [OF demo_prose_run] by blast
  then show ?thesis using decision_fails_closed [OF run] by (auto simp: refused_response_def fail_closed_def)
qed

theorem decision_audit_trail_witness:
  "\<exists>r s'. decide demo_buy demo_config demo_context (Some ''corr'') ai_start = (Inr r, s')
    \<and> dr_correlation_id r = Some ''corr'' \<and> dr_attempts r \<le> 2"
proof -
  obtain s' where run: "decide demo_buy demo_config demo_context (Some ''corr'') ai_start
      = (Inr (accepted_response demo_buy demo_request (model_config_of ''cf/a'') 0 1 2 (Fin 3)
         (''BUY'', Fin (1 / 2), ''trend up'') None), s')"
    using run_obtain [OF demo_buy_run] by blast
  then show ?thesis
    using decision_audit_trail [OF run] by (auto simp: accepted_response_def demo_config_def)
qed

theorem provider_calls_bounded_witness:
  "\<exists>ns. length ns = (3 :: nat) \<and> list_all (\<lambda>n. n \<le> 2) ns
    \<and> length (as_calls (snd (decide demo_buy demo_config demo_context None ai_start))) = sum_list ns"
proof -
  obtain r s' where run: "decide demo_buy demo_config demo_context None ai_start = (r, s')" by fastforce
  from provider_calls_bounded [OF run] obtain ns messages where ns: "length ns = 3"
    "list_all (\<lambda>n. n \<le> nat (ec_max_attempts demo_config)) ns"
    "as_calls s' = concat (map2 (\<lambda>n m. replicate n (ai_call_of demo_buy demo_config messages m)) ns (chain demo_config))"
    by blast
  then obtain a b d where abd: "ns = [a, b, d]" by (auto simp: numeral_3_eq_3 length_Suc_conv)
  show ?thesis
    using ns run unfolding abd by (intro exI [of _ "[a, b, d]"]) (simp add: demo_config_def chain_def)
qed

definition demo_down :: ai_env where
  "demo_down = demo_ai_env (\<lambda>n. answer_of ''HTTP429'' []) (\<lambda>t. Decode_error)"

lemma demo_context_ok: "validate_context demo_context = []"
  by code_simp

lemma demo_prompt: "\<exists>user. build_user_prompt (ae_dumps E) demo_context = Some user"
  by (simp add: build_user_prompt_def demo_context_def)

theorem outage_exhausts_the_chain_witness:
  "\<exists>r s'. decide demo_down demo_config demo_context None ai_start = (Inr r, s')
    \<and> dr_error_class r = Some ''PROVIDER_FAILURE'' \<and> length (as_calls s') = 6"
proof -
  obtain user where user: "build_user_prompt (ae_dumps demo_down) demo_context = Some user"
    using demo_prompt by blast
  have out: "outage demo_down True"
  proof -
    have "classify_http ''HTTP429'' \<in> set retryable_statuses" by code_simp
    then show ?thesis by (simp add: outage_def demo_down_def demo_ai_env_def answer_of_def)
  qed
  have "sleep_ok (ec_retry_429_sleep_s demo_config)" "0 < ec_max_attempts demo_config" by code_simp+
  from outage_exhausts_the_chain [OF demo_context_ok user out this, of None]
  show ?thesis by (auto simp: chain_def demo_config_def)
qed

definition demo_broken :: ai_env where
  "demo_broken = demo_ai_env (\<lambda>n. answer_of ''OK'' ''{...}'')
     (\<lambda>t. Loaded (PDict [(''choices'', PList [PInt 1])]))"

theorem malformed_choices_escape_witness:
  "fst (decide demo_broken demo_config demo_context None ai_start) = Inl Parse_escape"
proof -
  obtain user where user: "build_user_prompt (ae_dumps demo_broken) demo_context = Some user"
    using demo_prompt by blast
  have "strip ''{...}'' \<noteq> []" by code_simp
  then show ?thesis
    by (intro malformed_choices_escape [OF demo_context_ok user, where v = "PInt 1" and result = "answer_of ''OK'' ''{...}''"])
      (simp_all add: demo_config_def demo_broken_def demo_ai_env_def answer_of_def as_dict_def)
qed

end
