(* ===== verification/AiClient.thy ===== *)
theory AiClient
  imports AiEngine
begin

text \<open>
  The HTTP client of the decision engine: \<open>src/ai_decision/client.py\<close>. What \<open>urllib\<close> makes of a request is one
  of six outcomes: a body, an HTTP error with its code and body, an HTTP error whose body cannot be read (the
  \<open>exc.read()\<close> in its handler raises), a \<open>TimeoutError\<close>, a \<open>URLError\<close> with its reason, or another exception
  with its class name and text. The time spent is an argument. The request is
  built by the library from the fields of \<open>ai_call\<close>.
\<close>

datatype http_reply =
    Body string
  | Http_error nat string
  | Unreadable_error nat
  | Timed_out string
  | Url_error string
  | Other_exception string string

definition failed_transport :: "pyfloat \<Rightarrow> string \<Rightarrow> string \<Rightarrow> transport_result" where
  "failed_transport ms status detail =
     \<lparr>tr_status = status, tr_latency_ms = ms, tr_raw = [], tr_error = Some (status @ '':'' @ detail)\<rparr>"

text \<open>\<open>None\<close> is the exception of \<open>exc.read()\<close>: it is raised inside a handler, which the other handlers of the
  statement do not cover, so it leaves \<open>chat_completion\<close>.\<close>

definition chat_completion :: "pyfloat \<Rightarrow> http_reply \<Rightarrow> transport_result option" where
  "chat_completion ms reply =
     (case reply of
        Body raw \<Rightarrow> Some \<lparr>tr_status = ''OK'', tr_latency_ms = ms, tr_raw = raw, tr_error = None\<rparr>
      | Http_error code body \<Rightarrow> Some (failed_transport ms (''HTTP'' @ show_nat code) (take 500 body))
      | Unreadable_error code \<Rightarrow> None
      | Timed_out detail \<Rightarrow> Some (failed_transport ms ''TIMEOUT'' detail)
      | Url_error reason \<Rightarrow> Some (failed_transport ms ''TRANSPORT_ERROR'' reason)
      | Other_exception name detail \<Rightarrow> Some (failed_transport ms ''TRANSPORT_ERROR'' (name @ '':'' @ detail)))"

text \<open>\<open>infer_usage\<close>; \<open>None\<close> is an exception: \<open>AttributeError\<close> on a value that is no object, or an error of
  \<open>json.loads\<close> other than \<open>JSONDecodeError\<close>.\<close>

definition infer_usage :: "(string \<Rightarrow> json_result) \<Rightarrow> string \<Rightarrow> pydict option" where
  "infer_usage loads raw =
     (case split_last (CHR ''}'') raw of
        None \<Rightarrow> Some []
      | Some (body, _) \<Rightarrow>
          (case loads body of
             Decode_error \<Rightarrow> Some []
           | Other_error \<Rightarrow> None
           | Loaded v \<Rightarrow>
               map_option (\<lambda>d. case dget_default d ''usage'' PNone of PDict u \<Rightarrow> u | _ \<Rightarrow> []) (as_dict v)))"

section \<open>What the engine retries\<close>

lemma show_nat_three:
  assumes "100 \<le> n" and "n < 1000"
  shows "show_nat n = [digit_char (n div 100), digit_char (n div 10 mod 10), digit_char (n mod 10)]"
proof -
  have "show_nat n = show_nat (n div 10) @ [digit_char (n mod 10)]" using assms by (simp add: show_nat.simps [of n])
  moreover have "show_nat (n div 10) = show_nat (n div 10 div 10) @ [digit_char (n div 10 mod 10)]"
    using assms by (simp add: show_nat.simps [of "n div 10"])
  moreover have "show_nat (n div 100) = [digit_char (n div 100)]" using assms by (simp add: show_nat.simps [of "n div 100"])
  ultimately show ?thesis by (simp add: div_mult2_eq [symmetric])
qed

definition transient :: "http_reply \<Rightarrow> bool" where
  "transient reply \<longleftrightarrow>
     (case reply of Body raw \<Rightarrow> False | Http_error code body \<Rightarrow> code = 429 \<or> code div 100 = 5
      | Unreadable_error code \<Rightarrow> False | _ \<Rightarrow> True)"

lemma digit_chars:
  "\<forall>a\<in>set [0..<10]. is_digit (digit_char a) \<and> (digit_char a = CHR ''5'' \<longleftrightarrow> a = 5) \<and> (digit_char a = CHR ''4'' \<longleftrightarrow> a = 4)
     \<and> (digit_char a = CHR ''2'' \<longleftrightarrow> a = 2) \<and> (digit_char a = CHR ''9'' \<longleftrightarrow> a = 9) \<and> digit_char a \<noteq> CHR ''X''"
  by code_simp

lemma digit_charD:
  assumes "a < 10"
  shows "is_digit (digit_char a)" "digit_char a = CHR ''5'' \<longleftrightarrow> a = 5" "digit_char a = CHR ''4'' \<longleftrightarrow> a = 4"
    "digit_char a = CHR ''2'' \<longleftrightarrow> a = 2" "digit_char a = CHR ''9'' \<longleftrightarrow> a = 9" "digit_char a \<noteq> CHR ''X''"
  using digit_chars assms by (simp_all only: set_upt ball_simps atLeastLessThan_iff) auto

text \<open>Exactly the transient outcomes are retried: timeouts, transport errors, 429 and the 5xx codes.\<close>

lemma retried_iff_transient:
  assumes "\<And>code body. reply = Http_error code body \<Longrightarrow> 100 \<le> code \<and> code < 1000"
  shows "(\<exists>r. chat_completion ms reply = Some r \<and> classify_http (tr_status r) \<in> set retryable_statuses) \<longleftrightarrow> transient reply"
proof (cases reply)
  case (Http_error code body)
  have c: "100 \<le> code" "code < 1000" using assms Http_error by auto
  define a b d where "a = code div 100" and "b = code div 10 mod 10" and "d = code mod 10"
  have lt: "a < 10" "b < 10" "d < 10" using c by (auto simp: a_def b_def d_def)
  have "code div 10 = 10 * a + b" "code = 10 * (code div 10) + d"
    using div_mult_mod_eq [of "code div 10" 10] by (simp_all add: a_def b_def d_def div_mult2_eq [symmetric])
  then have code: "code = 100 * a + 10 * b + d" by linarith
  have sh: "show_nat code = [digit_char a, digit_char b, digit_char d]"
    using show_nat_three [OF c] by (simp add: a_def b_def d_def)
  have "chat_completion ms reply =
      Some (failed_transport ms (''HTTP'' @ [digit_char a, digit_char b, digit_char d]) (take 500 body))"
    by (simp add: Http_error chat_completion_def sh)
  then have st: "(\<exists>r. chat_completion ms reply = Some r \<and> classify_http (tr_status r) \<in> set retryable_statuses)
      \<longleftrightarrow> classify_http (''HTTP'' @ [digit_char a, digit_char b, digit_char d]) \<in> set retryable_statuses"
    by (simp only: option.inject) (simp only: failed_transport_def transport_result.simps simp_thms)
  have cl: "classify_http (''HTTP'' @ [digit_char a, digit_char b, digit_char d])
      = (if a = 5 then ''HTTP5XX'' else ''HTTP'' @ [digit_char a, digit_char b, digit_char d])"
    by (simp add: classify_http_def starts_with_def digit_charD lt)
  have "''HTTP'' @ [digit_char a, digit_char b, digit_char d] \<in> set retryable_statuses \<longleftrightarrow> a = 4 \<and> b = 2 \<and> d = 9"
    by (simp add: retryable_statuses_def digit_charD lt)
  moreover have "code = 429 \<longleftrightarrow> a = 4 \<and> b = 2 \<and> d = 9"
  proof
    assume n: "code = 429"
    then have a: "a = 4" using code lt by linarith
    then have "b = 2" using n code lt by linarith
    with n a show "a = 4 \<and> b = 2 \<and> d = 9" using code by simp
  qed (simp add: code)
  ultimately show ?thesis
    unfolding st cl by (auto simp: Http_error transient_def a_def [symmetric] retryable_statuses_def)
qed (simp_all add: chat_completion_def failed_transport_def transient_def classify_http_def starts_with_def retryable_statuses_def)

end
