(* ===== verification/EvTypes.thy ===== *)
theory EvTypes
  imports ExecModels
begin

text \<open>
  The event taxonomy, identities and the per-trade lifecycle of the canonical event stream:
  \<open>src/shared/contracts/types.py\<close>, \<open>identity.py\<close> and \<open>lifecycle.py\<close>. The lifecycle object is a
  record; \<open>apply_event\<close> returns the updated one or the contract error. Errors are values that carry
  what the message of the code names.
\<close>

section \<open>Event types\<close>

datatype event_type =
    TICK_RECEIVED | TRIGGER_DETECTED | CONTEXT_BUILT | AI_REQUEST | AI_RESPONSE | RISK_GATE
  | ORDER_SUBMITTED | ORDER_ACKNOWLEDGED | ORDER_FILLED | POSITION_OPENED | POSITION_UPDATED
  | NET_PROFIT_POSITIVE | EXIT_SUBMITTED | POSITION_CLOSED | RECONCILIATION | ET_ERROR | ET_TIMEOUT

definition all_event_types :: "event_type list" where
  "all_event_types =
     [TICK_RECEIVED, TRIGGER_DETECTED, CONTEXT_BUILT, AI_REQUEST, AI_RESPONSE, RISK_GATE, ORDER_SUBMITTED,
      ORDER_ACKNOWLEDGED, ORDER_FILLED, POSITION_OPENED, POSITION_UPDATED, NET_PROFIT_POSITIVE,
      EXIT_SUBMITTED, POSITION_CLOSED, RECONCILIATION, ET_ERROR, ET_TIMEOUT]"

text \<open>The type is finite, so that statements about all event types can be evaluated.\<close>

instantiation event_type :: enum
begin

definition enum_event_type :: "event_type list" where
  "enum_event_type = all_event_types"

definition enum_all_event_type :: "(event_type \<Rightarrow> bool) \<Rightarrow> bool" where
  "enum_all_event_type P = list_all P all_event_types"

definition enum_ex_event_type :: "(event_type \<Rightarrow> bool) \<Rightarrow> bool" where
  "enum_ex_event_type P = list_ex P all_event_types"

instance
proof
  show univ: "(UNIV :: event_type set) = set Enum.enum"
  proof
    show "(UNIV :: event_type set) \<subseteq> set Enum.enum"
    proof
      fix t :: event_type
      show "t \<in> set Enum.enum" by (cases t) (simp_all add: enum_event_type_def all_event_types_def)
    qed
  qed simp
  show "distinct (Enum.enum :: event_type list)"
    by (simp add: enum_event_type_def all_event_types_def)
  show "Enum.enum_all P = Ball (UNIV :: event_type set) P" for P
    unfolding univ by (simp add: enum_all_event_type_def enum_event_type_def list_all_iff)
  show "Enum.enum_ex P = Bex (UNIV :: event_type set) P" for P
    unfolding univ by (simp add: enum_ex_event_type_def enum_event_type_def list_ex_iff)
qed

end

fun event_type_value :: "event_type \<Rightarrow> string" where
  "event_type_value TICK_RECEIVED = ''TICK_RECEIVED''"
| "event_type_value TRIGGER_DETECTED = ''TRIGGER_DETECTED''"
| "event_type_value CONTEXT_BUILT = ''CONTEXT_BUILT''"
| "event_type_value AI_REQUEST = ''AI_REQUEST''"
| "event_type_value AI_RESPONSE = ''AI_RESPONSE''"
| "event_type_value RISK_GATE = ''RISK_GATE''"
| "event_type_value ORDER_SUBMITTED = ''ORDER_SUBMITTED''"
| "event_type_value ORDER_ACKNOWLEDGED = ''ORDER_ACKNOWLEDGED''"
| "event_type_value ORDER_FILLED = ''ORDER_FILLED''"
| "event_type_value POSITION_OPENED = ''POSITION_OPENED''"
| "event_type_value POSITION_UPDATED = ''POSITION_UPDATED''"
| "event_type_value NET_PROFIT_POSITIVE = ''NET_PROFIT_POSITIVE''"
| "event_type_value EXIT_SUBMITTED = ''EXIT_SUBMITTED''"
| "event_type_value POSITION_CLOSED = ''POSITION_CLOSED''"
| "event_type_value RECONCILIATION = ''RECONCILIATION''"
| "event_type_value ET_ERROR = ''ERROR''"
| "event_type_value ET_TIMEOUT = ''TIMEOUT''"

definition event_type_of :: "string \<Rightarrow> event_type option" where
  "event_type_of s = find (\<lambda>t. event_type_value t = s) all_event_types"

lemma event_type_of_value: "event_type_of (event_type_value t) = Some t"
  by (cases t) (simp_all add: event_type_of_def all_event_types_def)

lemma event_type_value_inj [simp]: "event_type_value t = event_type_value u \<longleftrightarrow> t = u"
  by (metis event_type_of_value option.inject)

lemma event_type_of_Some: "event_type_of s = Some t \<longleftrightarrow> s = event_type_value t"
  using event_type_of_value by (auto simp: event_type_of_def find_Some_iff)

definition severity_levels :: "string list" where
  "severity_levels = [''INFO'', ''WARN'', ''ERROR'', ''CRITICAL'']"

section \<open>Identities\<close>

definition is_system_id :: "pyval \<Rightarrow> bool" where
  "is_system_id v \<longleftrightarrow> (case v of PStr s \<Rightarrow> is_valid_system_id s | _ \<Rightarrow> False)"

definition broker_id_max_length :: nat where
  "broker_id_max_length = 128"

definition is_control :: "char \<Rightarrow> bool" where
  "is_control c \<longleftrightarrow> (of_char c :: nat) < 32 \<or> of_char c = (127 :: nat)"

definition is_valid_broker_id :: "pyval \<Rightarrow> bool" where
  "is_valid_broker_id v \<longleftrightarrow>
     (case v of
        PStr s \<Rightarrow> s \<noteq> [] \<and> length s \<le> broker_id_max_length \<and> \<not> list_ex is_control s
      | _ \<Rightarrow> False)"

section \<open>Errors of the contract\<close>

datatype contract_error =
    Not_in_flow event_type event_type
  | Illegal_transition event_type event_type
  | Gate_rejected event_type
  | Terminal_trade string event_type
  | First_event_required
  | Clock_went_back int int
  | Needs_correlation_id
  | Needs_trade_id event_type
  | Payload_not_dict
  | Unknown_fields "string list"
  | Missing_fields "string list"
  | Wrong_type event_type string
  | Not_allowed event_type string
  | Required_when event_type string string
  | Forbidden_when event_type string string
  | Out_of_bounds event_type string
  | Bad_event
  | Bad_uuid string
  | Bad_event_type
  | Bad_field string
  | Checksum_mismatch string
  | Py_overflow
  | Py_type_error

section \<open>Lifecycle\<close>

definition out_of_band_events :: "event_type list" where
  "out_of_band_events = [TICK_RECEIVED, RECONCILIATION, ET_ERROR, ET_TIMEOUT]"

definition trade_flow :: "event_type list" where
  "trade_flow =
     [TRIGGER_DETECTED, CONTEXT_BUILT, AI_REQUEST, AI_RESPONSE, RISK_GATE, ORDER_SUBMITTED,
      ORDER_ACKNOWLEDGED, ORDER_FILLED, POSITION_OPENED, POSITION_UPDATED, NET_PROFIT_POSITIVE,
      EXIT_SUBMITTED, POSITION_CLOSED]"

definition terminal_events :: "event_type list" where
  "terminal_events = [POSITION_CLOSED, ET_ERROR, ET_TIMEOUT]"

fun next_allowed :: "event_type \<Rightarrow> event_type list" where
  "next_allowed TRIGGER_DETECTED = [CONTEXT_BUILT, RISK_GATE]"
| "next_allowed CONTEXT_BUILT = [AI_REQUEST]"
| "next_allowed AI_REQUEST = [AI_RESPONSE]"
| "next_allowed AI_RESPONSE = [RISK_GATE]"
| "next_allowed RISK_GATE = [ORDER_SUBMITTED]"
| "next_allowed ORDER_SUBMITTED = [ORDER_ACKNOWLEDGED]"
| "next_allowed ORDER_ACKNOWLEDGED = [ORDER_FILLED]"
| "next_allowed ORDER_FILLED = [POSITION_OPENED]"
| "next_allowed POSITION_OPENED = [POSITION_UPDATED, NET_PROFIT_POSITIVE, EXIT_SUBMITTED]"
| "next_allowed POSITION_UPDATED = [POSITION_UPDATED, NET_PROFIT_POSITIVE, EXIT_SUBMITTED]"
| "next_allowed NET_PROFIT_POSITIVE = [POSITION_UPDATED, EXIT_SUBMITTED]"
| "next_allowed EXIT_SUBMITTED = [POSITION_CLOSED]"
| "next_allowed _ = []"

definition gate_rejects :: "pydict \<Rightarrow> bool" where
  "gate_rejects payload \<longleftrightarrow> dget_default payload ''gate_result'' PNone = PStr ''REJECT''"

definition validate_transition ::
  "event_type \<Rightarrow> event_type \<Rightarrow> pydict option \<Rightarrow> contract_error + unit" where
  "validate_transition previous next_event previous_payload =
     (if next_event \<in> set out_of_band_events then Inr ()
      else if previous \<notin> set trade_flow then Inl (Not_in_flow previous next_event)
      else if next_event \<notin> set (next_allowed previous) then Inl (Illegal_transition previous next_event)
      else if previous = RISK_GATE \<and> gate_rejects (case previous_payload of None \<Rightarrow> [] | Some p \<Rightarrow> p)
      then Inl (Gate_rejected next_event)
      else Inr ())"

record lifecycle =
  lf_trade_id :: string
  lf_state :: "event_type option"
  lf_last_payload :: "pydict option"
  lf_terminal :: bool
  lf_reason :: "string option"

definition new_lifecycle :: "string \<Rightarrow> lifecycle" where
  "new_lifecycle trade_id =
     \<lparr>lf_trade_id = trade_id, lf_state = None, lf_last_payload = None, lf_terminal = False, lf_reason = None\<rparr>"

definition apply_special_rules :: "event_type \<Rightarrow> pydict \<Rightarrow> lifecycle \<Rightarrow> lifecycle" where
  "apply_special_rules t payload l =
     (if t = RISK_GATE \<and> gate_rejects payload then
        l\<lparr>lf_terminal := True, lf_reason := Some ''risk gate rejected''\<rparr>
      else if t = RECONCILIATION \<and> lf_state l \<in> {Some ORDER_SUBMITTED, Some ORDER_ACKNOWLEDGED} then
        l\<lparr>lf_terminal := True,
          lf_reason := Some ''reconciliation found an order failure; no position may be opened''\<rparr>
      else if t \<in> set terminal_events then
        l\<lparr>lf_terminal := True, lf_reason := Some (event_type_value t @ '' reached'')\<rparr>
      else l)"

text \<open>\<open>TradeLifecycle.apply\<close>: the guards, then the special rules, then the new state and payload.\<close>

definition apply_guard :: "event_type \<Rightarrow> lifecycle \<Rightarrow> contract_error + unit" where
  "apply_guard t l =
     (if t \<notin> set out_of_band_events \<and> lf_terminal l then Inl (Terminal_trade (lf_trade_id l) t)
      else
        (case lf_state l of
           None \<Rightarrow>
             (if t \<notin> set out_of_band_events \<and> t \<noteq> TRIGGER_DETECTED then Inl First_event_required else Inr ())
         | Some st \<Rightarrow>
             (if t \<notin> set out_of_band_events then validate_transition st t (lf_last_payload l) else Inr ())))"

definition apply_event :: "event_type \<Rightarrow> pydict \<Rightarrow> lifecycle \<Rightarrow> contract_error + lifecycle" where
  "apply_event t payload l =
     (case apply_guard t l of
        Inl e \<Rightarrow> Inl e
      | Inr _ \<Rightarrow>
          (let l1 = apply_special_rules t payload l;
               l2 = (if t \<notin> set out_of_band_events \<or> t \<in> set terminal_events then l1\<lparr>lf_state := Some t\<rparr> else l1)
           in Inr (if t \<in> set trade_flow then l2\<lparr>lf_last_payload := Some payload\<rparr> else l2)))"

text \<open>Every event type is in the trade flow or out of band, and never both.\<close>

lemma flow_or_band: "(t \<in> set out_of_band_events) = (t \<notin> set trade_flow)"
  by (cases t) (simp_all add: out_of_band_events_def trade_flow_def)

lemma terminal_next: "t \<in> set terminal_events \<Longrightarrow> next_allowed t = []"
  by (auto simp: terminal_events_def)

lemma next_in_flow: "u \<in> set (next_allowed t) \<Longrightarrow> t \<in> set trade_flow \<and> u \<in> set trade_flow \<and> u \<noteq> TRIGGER_DETECTED"
  by (cases t) (auto simp: trade_flow_def)

end
