(* ===== verification/EvSpecs.thy ===== *)
theory EvSpecs
  imports EvTypes
begin

text \<open>
  The declarative payload contract of every event type: \<open>src/shared/contracts/payload_specs.py\<close>. A
  dictionary of the source is an association list in its order; \<open>get_spec\<close> is the registry.
\<close>

datatype type_token = T_str | T_number | T_int | T_bool | T_dict | T_uuid | T_broker_id | T_iso_ts

datatype bound_op = Op_gt | Op_ge | Op_lt | Op_le

definition unknown_field_placeholder :: string where
  "unknown_field_placeholder = ''_unknown''"

record conditional_rule =
  cr_trigger_field :: string
  cr_trigger_value :: pyval
  cr_requires :: "string list"
  cr_forbids :: "string list"

record numeric_bound =
  nb_field :: string
  nb_op :: bound_op
  nb_value :: pyfloat

record payload_spec =
  ps_required :: "string list"
  ps_optional :: "string list"
  ps_types :: "(string \<times> type_token) list"
  ps_enums :: "(string \<times> string list) list"
  ps_consts :: "(string \<times> string) list"
  ps_conditional :: "conditional_rule list"
  ps_numeric :: "numeric_bound list"

definition known_fields :: "payload_spec \<Rightarrow> string list" where
  "known_fields s =
     ps_required s @ ps_optional s @ map fst (ps_types s)
     @ concat (map (\<lambda>r. cr_requires r @ cr_forbids r) (ps_conditional s))"

definition allowed_fields :: "payload_spec \<Rightarrow> string list" where
  "allowed_fields s = known_fields s @ [unknown_field_placeholder]"

section \<open>The registry\<close>

definition spec_tick_received :: payload_spec where
  "spec_tick_received =
     \<lparr>ps_required =
        [''symbol'', ''bid'', ''ask'', ''mid'', ''spread'', ''ts_source''],
      ps_optional = [''tick_volume'', ''tick_id''],
      ps_types =
        [(''symbol'', T_str), (''bid'', T_number), (''ask'', T_number), (''mid'', T_number),
         (''spread'', T_number), (''ts_source'', T_iso_ts), (''tick_volume'', T_int),
         (''tick_id'', T_str)],
      ps_enums = [],
      ps_consts = [],
      ps_conditional = [],
      ps_numeric = []\<rparr>"

definition spec_trigger_detected :: payload_spec where
  "spec_trigger_detected =
     \<lparr>ps_required =
        [''trigger_source'', ''trigger_category'', ''trigger_metadata'', ''context_reference''],
      ps_optional = [],
      ps_types =
        [(''trigger_source'', T_str), (''trigger_category'', T_str), (''trigger_metadata'', T_dict),
         (''context_reference'', T_str)],
      ps_enums = [(''trigger_source'', [''TECHNICAL'', ''MARKET_EVENT'', ''SAFETY_FILTER'', ''HYBRID''])],
      ps_consts = [],
      ps_conditional = [],
      ps_numeric = []\<rparr>"

definition spec_context_built :: payload_spec where
  "spec_context_built =
     \<lparr>ps_required =
        [''symbol'', ''m1_context_ref'', ''m5_context_ref'', ''atr_m1'', ''context_snapshot_id''],
      ps_optional = [''atr_m5'', ''derived_features''],
      ps_types =
        [(''symbol'', T_str), (''m1_context_ref'', T_str), (''m5_context_ref'', T_str),
         (''atr_m1'', T_number), (''context_snapshot_id'', T_str), (''atr_m5'', T_number),
         (''derived_features'', T_dict)],
      ps_enums = [],
      ps_consts = [],
      ps_conditional = [],
      ps_numeric = []\<rparr>"

definition spec_ai_request :: payload_spec where
  "spec_ai_request =
     \<lparr>ps_required =
        [''inference_id'', ''request_ts'', ''context_snapshot_id''],
      ps_optional = [''model_ref''],
      ps_types =
        [(''inference_id'', T_uuid), (''request_ts'', T_iso_ts), (''context_snapshot_id'', T_str),
         (''model_ref'', T_str)],
      ps_enums = [],
      ps_consts = [],
      ps_conditional = [],
      ps_numeric = []\<rparr>"

definition spec_ai_response :: payload_spec where
  "spec_ai_response =
     \<lparr>ps_required =
        [''inference_id'', ''decision'', ''confidence'', ''reason'', ''latency_ms'', ''valid''],
      ps_optional = [''error''],
      ps_types =
        [(''inference_id'', T_uuid), (''decision'', T_str), (''confidence'', T_number),
         (''reason'', T_str), (''latency_ms'', T_number), (''valid'', T_bool), (''error'', T_str)],
      ps_enums = [(''decision'', [''BUY'', ''SELL'', ''NO-TRADE''])],
      ps_consts = [],
      ps_conditional =
        [\<lparr>cr_trigger_field = ''valid'', cr_trigger_value = PBool False, cr_requires = [''error''], cr_forbids = []\<rparr>,
         \<lparr>cr_trigger_field = ''valid'', cr_trigger_value = PBool True, cr_requires = [], cr_forbids = [''error'']\<rparr>],
      ps_numeric =
        [\<lparr>nb_field = ''confidence'', nb_op = Op_ge, nb_value = Fin 0\<rparr>,
         \<lparr>nb_field = ''confidence'', nb_op = Op_le, nb_value = Fin 1\<rparr>,
         \<lparr>nb_field = ''latency_ms'', nb_op = Op_ge, nb_value = Fin 0\<rparr>]\<rparr>"

definition spec_risk_gate :: payload_spec where
  "spec_risk_gate =
     \<lparr>ps_required =
        [''gate_result'', ''risk_budget_usd'', ''candidate_lot'', ''final_lot'', ''aggregate_risk_usd'',
         ''aggregate_exposure_usd'', ''free_margin_usd''],
      ps_optional = [],
      ps_types =
        [(''gate_result'', T_str), (''risk_budget_usd'', T_number), (''candidate_lot'', T_number),
         (''final_lot'', T_number), (''aggregate_risk_usd'', T_number),
         (''aggregate_exposure_usd'', T_number), (''free_margin_usd'', T_number),
         (''rejection_reason'', T_str)],
      ps_enums = [(''gate_result'', [''ALLOW'', ''REJECT''])],
      ps_consts = [],
      ps_conditional =
        [\<lparr>cr_trigger_field = ''gate_result'', cr_trigger_value = PStr ''REJECT'', cr_requires = [''rejection_reason''], cr_forbids = []\<rparr>,
         \<lparr>cr_trigger_field = ''gate_result'', cr_trigger_value = PStr ''ALLOW'', cr_requires = [], cr_forbids = [''rejection_reason'']\<rparr>],
      ps_numeric = []\<rparr>"

definition spec_order_submitted :: payload_spec where
  "spec_order_submitted =
     \<lparr>ps_required =
        [''requested_price'', ''requested_volume'', ''direction'', ''order_type'', ''submission_ts''],
      ps_optional = [],
      ps_types =
        [(''requested_price'', T_number), (''requested_volume'', T_number), (''direction'', T_str),
         (''order_type'', T_str), (''submission_ts'', T_iso_ts)],
      ps_enums = [],
      ps_consts = [],
      ps_conditional = [],
      ps_numeric = []\<rparr>"

definition spec_order_acknowledged :: payload_spec where
  "spec_order_acknowledged =
     \<lparr>ps_required =
        [''broker_order_id'', ''broker_state'', ''ack_ts''],
      ps_optional = [],
      ps_types =
        [(''broker_order_id'', T_broker_id), (''broker_state'', T_str), (''ack_ts'', T_iso_ts)],
      ps_enums = [],
      ps_consts = [],
      ps_conditional = [],
      ps_numeric = []\<rparr>"

definition spec_order_filled :: payload_spec where
  "spec_order_filled =
     \<lparr>ps_required =
        [''broker_order_id'', ''broker_deal_id'', ''fill_price'', ''fill_volume'', ''slippage'',
         ''fill_ts''],
      ps_optional = [],
      ps_types =
        [(''broker_order_id'', T_broker_id), (''broker_deal_id'', T_broker_id),
         (''fill_price'', T_number), (''fill_volume'', T_number), (''slippage'', T_number),
         (''fill_ts'', T_iso_ts)],
      ps_enums = [],
      ps_consts = [],
      ps_conditional = [],
      ps_numeric = []\<rparr>"

definition spec_position_opened :: payload_spec where
  "spec_position_opened =
     \<lparr>ps_required =
        [''broker_position_id'', ''direction'', ''volume'', ''open_price'', ''open_ts'', ''state''],
      ps_optional = [],
      ps_types =
        [(''broker_position_id'', T_broker_id), (''direction'', T_str), (''volume'', T_number),
         (''open_price'', T_number), (''open_ts'', T_iso_ts), (''state'', T_str)],
      ps_enums = [],
      ps_consts = [(''state'', ''OPEN'')],
      ps_conditional = [],
      ps_numeric = []\<rparr>"

definition spec_position_updated :: payload_spec where
  "spec_position_updated =
     \<lparr>ps_required =
        [''broker_position_id'', ''current_price'', ''running_pnl_usd'', ''running_net_pnl_usd'',
         ''mfe_usd'', ''mae_usd'', ''spread_current''],
      ps_optional = [],
      ps_types =
        [(''broker_position_id'', T_broker_id), (''current_price'', T_number),
         (''running_pnl_usd'', T_number), (''running_net_pnl_usd'', T_number), (''mfe_usd'', T_number),
         (''mae_usd'', T_number), (''spread_current'', T_number)],
      ps_enums = [],
      ps_consts = [],
      ps_conditional = [],
      ps_numeric = []\<rparr>"

definition spec_net_profit_positive :: payload_spec where
  "spec_net_profit_positive =
     \<lparr>ps_required =
        [''broker_position_id'', ''trade_id'', ''running_net_pnl_usd'', ''detection_ts'',
         ''observed_bid'', ''observed_ask'', ''spread_at_detection'', ''reason''],
      ps_optional = [],
      ps_types =
        [(''broker_position_id'', T_broker_id), (''trade_id'', T_uuid),
         (''running_net_pnl_usd'', T_number), (''detection_ts'', T_iso_ts),
         (''observed_bid'', T_number), (''observed_ask'', T_number),
         (''spread_at_detection'', T_number), (''reason'', T_str)],
      ps_enums = [],
      ps_consts = [(''reason'', ''NET_PROFIT_THRESHOLD_CROSSED'')],
      ps_conditional = [],
      ps_numeric =
        [\<lparr>nb_field = ''running_net_pnl_usd'', nb_op = Op_gt, nb_value = Fin 0\<rparr>]\<rparr>"

definition spec_exit_submitted :: payload_spec where
  "spec_exit_submitted =
     \<lparr>ps_required =
        [''broker_position_id'', ''requested_close_price'', ''close_volume'', ''submission_ts''],
      ps_optional = [],
      ps_types =
        [(''broker_position_id'', T_broker_id), (''requested_close_price'', T_number),
         (''close_volume'', T_number), (''submission_ts'', T_iso_ts)],
      ps_enums = [],
      ps_consts = [],
      ps_conditional = [],
      ps_numeric = []\<rparr>"

definition spec_position_closed :: payload_spec where
  "spec_position_closed =
     \<lparr>ps_required =
        [''broker_position_id'', ''exit_fill_price'', ''exit_fill_volume'', ''exit_fill_ts'',
         ''realized_pnl_usd'', ''transaction_cost_usd'', ''net_pnl_usd'', ''exit_reason'',
         ''final_state''],
      ps_optional = [],
      ps_types =
        [(''broker_position_id'', T_broker_id), (''exit_fill_price'', T_number),
         (''exit_fill_volume'', T_number), (''exit_fill_ts'', T_iso_ts),
         (''realized_pnl_usd'', T_number), (''transaction_cost_usd'', T_number),
         (''net_pnl_usd'', T_number), (''exit_reason'', T_str), (''final_state'', T_str)],
      ps_enums = [],
      ps_consts = [(''final_state'', ''CLOSED'')],
      ps_conditional = [],
      ps_numeric = []\<rparr>"

definition spec_reconciliation :: payload_spec where
  "spec_reconciliation =
     \<lparr>ps_required =
        [''reconciliation_id'', ''trigger'', ''local_state'', ''broker_state'', ''mismatch'',
         ''result'', ''action'', ''ts''],
      ps_optional = [''mismatch_details''],
      ps_types =
        [(''reconciliation_id'', T_uuid), (''trigger'', T_str), (''local_state'', T_str),
         (''broker_state'', T_str), (''mismatch'', T_bool), (''result'', T_str), (''action'', T_str),
         (''ts'', T_iso_ts), (''mismatch_details'', T_dict)],
      ps_enums = [(''trigger'', [''STARTUP'', ''POST_EXECUTION'', ''HEARTBEAT'', ''MISMATCH'']),
                  (''result'', [''SYNCED'', ''ADOPTED_BROKER'', ''ESCALATED''])],
      ps_consts = [],
      ps_conditional =
        [\<lparr>cr_trigger_field = ''mismatch'', cr_trigger_value = PBool False, cr_requires = [], cr_forbids = [''mismatch_details'']\<rparr>],
      ps_numeric = []\<rparr>"

definition spec_error :: payload_spec where
  "spec_error =
     \<lparr>ps_required =
        [''error_code'', ''component'', ''severity'', ''message''],
      ps_optional = [''trade_id'', ''recovery_action''],
      ps_types =
        [(''error_code'', T_str), (''component'', T_str), (''severity'', T_str), (''message'', T_str),
         (''trade_id'', T_uuid), (''recovery_action'', T_str)],
      ps_enums = [(''severity'', [''INFO'', ''WARN'', ''ERROR'', ''CRITICAL''])],
      ps_consts = [],
      ps_conditional = [],
      ps_numeric = []\<rparr>"

definition spec_timeout :: payload_spec where
  "spec_timeout =
     \<lparr>ps_required =
        [''timeout_code'', ''component'', ''severity'', ''message''],
      ps_optional = [''trade_id'', ''recovery_action''],
      ps_types =
        [(''timeout_code'', T_str), (''component'', T_str), (''severity'', T_str), (''message'', T_str),
         (''trade_id'', T_uuid), (''recovery_action'', T_str)],
      ps_enums = [(''severity'', [''INFO'', ''WARN'', ''ERROR'', ''CRITICAL''])],
      ps_consts = [],
      ps_conditional = [],
      ps_numeric = []\<rparr>"

fun get_spec :: "event_type \<Rightarrow> payload_spec" where
  "get_spec TICK_RECEIVED = spec_tick_received"
| "get_spec TRIGGER_DETECTED = spec_trigger_detected"
| "get_spec CONTEXT_BUILT = spec_context_built"
| "get_spec AI_REQUEST = spec_ai_request"
| "get_spec AI_RESPONSE = spec_ai_response"
| "get_spec RISK_GATE = spec_risk_gate"
| "get_spec ORDER_SUBMITTED = spec_order_submitted"
| "get_spec ORDER_ACKNOWLEDGED = spec_order_acknowledged"
| "get_spec ORDER_FILLED = spec_order_filled"
| "get_spec POSITION_OPENED = spec_position_opened"
| "get_spec POSITION_UPDATED = spec_position_updated"
| "get_spec NET_PROFIT_POSITIVE = spec_net_profit_positive"
| "get_spec EXIT_SUBMITTED = spec_exit_submitted"
| "get_spec POSITION_CLOSED = spec_position_closed"
| "get_spec RECONCILIATION = spec_reconciliation"
| "get_spec ET_ERROR = spec_error"
| "get_spec ET_TIMEOUT = spec_timeout"

lemmas spec_defs =
  spec_tick_received_def spec_trigger_detected_def spec_context_built_def spec_ai_request_def
  spec_ai_response_def spec_risk_gate_def spec_order_submitted_def spec_order_acknowledged_def
  spec_order_filled_def spec_position_opened_def spec_position_updated_def spec_net_profit_positive_def
  spec_exit_submitted_def spec_position_closed_def spec_reconciliation_def spec_error_def
  spec_timeout_def

end
