(* ===== verification/EvValidation.thy ===== *)
theory EvValidation
  imports EvSpecs "HOL-Library.Char_ord" "HOL-Library.List_Lexorder"
begin

text \<open>
  Timestamps, payload validation and envelope validation of the collector's event model:
  \<open>src/collector/event_model/timestamps.py\<close> and \<open>validation.py\<close>. Validation raises the first
  violation; here it returns it. \<open>Py_overflow\<close> is the \<open>OverflowError\<close> of \<open>math.isfinite\<close> on an
  integer beyond the range of a float, which the validators do not catch.
\<close>

section \<open>Timestamps\<close>

fun digits_n :: "nat \<Rightarrow> string \<Rightarrow> (nat \<times> string) option" where
  "digits_n 0 s = Some (0, s)"
| "digits_n (Suc n) [] = None"
| "digits_n (Suc n) (c # cs) =
     (if is_digit c then map_option (\<lambda>(v, r). (digit_val c * 10 ^ n + v, r)) (digits_n n cs) else None)"

definition sep_char :: "char \<Rightarrow> string \<Rightarrow> string option" where
  "sep_char c s = (case s of d # ds \<Rightarrow> if d = c then Some ds else None | [] \<Rightarrow> None)"

text \<open>\<open>YYYY-MM-DDTHH:MM:SS\<close>: the six numbers and what follows.\<close>

definition iso_fields :: "string \<Rightarrow> ((nat \<times> nat \<times> nat) \<times> (nat \<times> nat \<times> nat) \<times> string) option" where
  "iso_fields s =
     Option.bind (digits_n 4 s) (\<lambda>(y, s1). Option.bind (sep_char (CHR ''-'') s1) (\<lambda>s2.
     Option.bind (digits_n 2 s2) (\<lambda>(mo, s3). Option.bind (sep_char (CHR ''-'') s3) (\<lambda>s4.
     Option.bind (digits_n 2 s4) (\<lambda>(d, s5). Option.bind (sep_char (CHR ''T'') s5) (\<lambda>s6.
     Option.bind (digits_n 2 s6) (\<lambda>(h, s7). Option.bind (sep_char (CHR '':'') s7) (\<lambda>s8.
     Option.bind (digits_n 2 s8) (\<lambda>(mi, s9). Option.bind (sep_char (CHR '':'') s9) (\<lambda>s10.
     Option.bind (digits_n 2 s10) (\<lambda>(sec, r). Some ((y, mo, d), (h, mi, sec), r))))))))))))"

definition leap_year :: "nat \<Rightarrow> bool" where
  "leap_year y \<longleftrightarrow> (y mod 4 = 0 \<and> y mod 100 \<noteq> 0) \<or> y mod 400 = 0"

definition days_in_month :: "nat \<Rightarrow> nat \<Rightarrow> nat" where
  "days_in_month y m =
     (if m = 2 then (if leap_year y then 29 else 28) else if m \<in> {4, 6, 9, 11} then 30 else 31)"

definition calendar_ok :: "nat \<times> nat \<times> nat \<Rightarrow> nat \<times> nat \<times> nat \<Rightarrow> bool" where
  "calendar_ok day clock \<longleftrightarrow>
     (case day of (y, m, d) \<Rightarrow> 1 \<le> y \<and> 1 \<le> m \<and> m \<le> 12 \<and> 1 \<le> d \<and> d \<le> days_in_month y m)
     \<and> (case clock of (h, mi, s) \<Rightarrow> h < 24 \<and> mi < 60 \<and> s < 60)"

definition millis_tail :: "string \<Rightarrow> bool" where
  "millis_tail r \<longleftrightarrow>
     (case Option.bind (sep_char (CHR ''.'') r) (digits_n 3) of Some (v, r') \<Rightarrow> r' = ''Z'' | None \<Rightarrow> False)"

definition iso_with :: "(string \<Rightarrow> bool) \<Rightarrow> pyval \<Rightarrow> bool" where
  "iso_with tail v \<longleftrightarrow>
     (case v of
        PStr s \<Rightarrow> (case iso_fields s of Some (day, clock, r) \<Rightarrow> tail r \<and> calendar_ok day clock | None \<Rightarrow> False)
      | _ \<Rightarrow> False)"

definition is_valid_iso_utc :: "pyval \<Rightarrow> bool" where
  "is_valid_iso_utc v \<longleftrightarrow> iso_with (\<lambda>r. r = ''Z'' \<or> millis_tail r) v"

definition is_valid_iso_utc_ms :: "pyval \<Rightarrow> bool" where
  "is_valid_iso_utc_ms v \<longleftrightarrow> iso_with millis_tail v"

section \<open>Payloads\<close>

fun is_number_token :: "pyval \<Rightarrow> contract_error + bool" where
  "is_number_token (PInt i) = (if py_float (PInt i) = None then Inl Py_overflow else Inr True)"
| "is_number_token (PFloat x) = Inr (is_finite x)"
| "is_number_token v = Inr False"

fun is_dict_value :: "pyval \<Rightarrow> bool" where
  "is_dict_value (PDict d) \<longleftrightarrow> True"
| "is_dict_value v \<longleftrightarrow> False"

fun is_bool_value :: "pyval \<Rightarrow> bool" where
  "is_bool_value (PBool b) \<longleftrightarrow> True"
| "is_bool_value v \<longleftrightarrow> False"

definition nonempty_str :: "pyval \<Rightarrow> bool" where
  "nonempty_str v \<longleftrightarrow> (case v of PStr s \<Rightarrow> s \<noteq> [] | _ \<Rightarrow> False)"

fun has_type :: "type_token \<Rightarrow> pyval \<Rightarrow> contract_error + bool" where
  "has_type T_str v = Inr (nonempty_str v)"
| "has_type T_number v = is_number_token v"
| "has_type T_int v = Inr (is_int v)"
| "has_type T_bool v = Inr (is_bool_value v)"
| "has_type T_dict v = Inr (is_dict_value v)"
| "has_type T_uuid v = Inr (is_system_id v)"
| "has_type T_broker_id v = Inr (is_valid_broker_id v)"
| "has_type T_iso_ts v = Inr (is_valid_iso_utc v)"

definition in_texts :: "pyval \<Rightarrow> string list \<Rightarrow> bool" where
  "in_texts v xs \<longleftrightarrow> list_ex (\<lambda>x. py_eq v (PStr x)) xs"

text \<open>One field of the payload: its type, then its enumeration, then its constant.\<close>

definition check_field :: "event_type \<Rightarrow> payload_spec \<Rightarrow> string \<times> pyval \<Rightarrow> contract_error option" where
  "check_field t spec kv =
     (case kv of (k, v) \<Rightarrow>
        if k = unknown_field_placeholder then (if is_dict_value v then None else Some (Wrong_type t k))
        else
          (case (case map_of (ps_types spec) k of None \<Rightarrow> Inr True | Some tok \<Rightarrow> has_type tok v) of
             Inl e \<Rightarrow> Some e
           | Inr ok \<Rightarrow>
               if \<not> ok then Some (Wrong_type t k)
               else if (case map_of (ps_enums spec) k of None \<Rightarrow> False | Some xs \<Rightarrow> \<not> in_texts v xs)
               then Some (Not_allowed t k)
               else if (case map_of (ps_consts spec) k of None \<Rightarrow> False | Some x \<Rightarrow> \<not> py_eq v (PStr x))
               then Some (Not_allowed t k)
               else None))"

fun first_error :: "('a \<Rightarrow> contract_error option) \<Rightarrow> 'a list \<Rightarrow> contract_error option" where
  "first_error f [] = None"
| "first_error f (x # xs) = (case f x of None \<Rightarrow> first_error f xs | Some e \<Rightarrow> Some e)"

lemma first_error_None: "first_error f xs = None \<longleftrightarrow> (\<forall>x \<in> set xs. f x = None)"
  by (induction xs) (auto split: option.splits)

definition check_rule :: "event_type \<Rightarrow> pydict \<Rightarrow> conditional_rule \<Rightarrow> contract_error option" where
  "check_rule t payload r =
     (if \<not> py_eq (dget_default payload (cr_trigger_field r) PNone) (cr_trigger_value r) then None
      else
        (case find (\<lambda>f. \<not> dhas payload f) (cr_requires r) of
           Some f \<Rightarrow> Some (Required_when t f (cr_trigger_field r))
         | None \<Rightarrow>
             map_option (\<lambda>f. Forbidden_when t f (cr_trigger_field r)) (find (dhas payload) (cr_forbids r))))"

fun holds_bound :: "bound_op \<Rightarrow> pyfloat \<Rightarrow> pyfloat \<Rightarrow> bool" where
  "holds_bound Op_gt x b \<longleftrightarrow> flt b x"
| "holds_bound Op_ge x b \<longleftrightarrow> fle b x"
| "holds_bound Op_lt x b \<longleftrightarrow> flt x b"
| "holds_bound Op_le x b \<longleftrightarrow> fle x b"

definition check_bound :: "event_type \<Rightarrow> pydict \<Rightarrow> numeric_bound \<Rightarrow> contract_error option" where
  "check_bound t payload b =
     (case dget payload (nb_field b) of
        None \<Rightarrow> None
      | Some v \<Rightarrow>
          (if is_bool_value v then None
           else
             (case num_val v of
                None \<Rightarrow> None
              | Some x \<Rightarrow> if holds_bound (nb_op b) x (nb_value b) then None else Some (Out_of_bounds t (nb_field b)))))"

definition validate_payload :: "event_type \<Rightarrow> pyval \<Rightarrow> contract_error + unit" where
  "validate_payload t v =
     (case v of
        PDict payload \<Rightarrow>
          (let spec = get_spec t;
               unknown = filter (\<lambda>k. k \<notin> set (allowed_fields spec)) (dkeys payload);
               missing = filter (\<lambda>k. \<not> dhas payload k) (ps_required spec) in
           if unknown \<noteq> [] then Inl (Unknown_fields (sort unknown))
           else if missing \<noteq> [] then Inl (Missing_fields missing)
           else
             (case first_error (check_field t spec) payload of
                Some e \<Rightarrow> Inl e
              | None \<Rightarrow>
                  (case first_error (check_rule t payload) (ps_conditional spec) of
                     Some e \<Rightarrow> Inl e
                   | None \<Rightarrow>
                       (case first_error (check_bound t payload) (ps_numeric spec) of
                          Some e \<Rightarrow> Inl e
                        | None \<Rightarrow> Inr ()))))
      | _ \<Rightarrow> Inl Payload_not_dict)"

section \<open>Envelopes\<close>

definition envelope_fields :: "string list" where
  "envelope_fields =
     [''event_id'', ''event_type'', ''ts_event'', ''ts_collected'', ''ts_monotonic'', ''component'',
      ''severity'', ''schema_version'', ''payload'', ''checksum'']"

definition optional_envelope_fields :: "string list" where
  "optional_envelope_fields = [''correlation_id'', ''trade_id'']"

definition supported_schema_version :: string where
  "supported_schema_version = ''1.0.0''"

definition checksum_prefix :: string where
  "checksum_prefix = ''sha256:''"

definition checksum_hex_length :: nat where
  "checksum_hex_length = 64"

definition checksum_shape :: "pyval \<Rightarrow> bool" where
  "checksum_shape v \<longleftrightarrow>
     (case v of
        PStr s \<Rightarrow>
          take (length checksum_prefix) s = checksum_prefix
          \<and> length (drop (length checksum_prefix) s) = checksum_hex_length
          \<and> list_all is_hex_lower (drop (length checksum_prefix) s)
      | _ \<Rightarrow> False)"

fun nonneg_int :: "pyval \<Rightarrow> bool" where
  "nonneg_int (PInt i) \<longleftrightarrow> 0 \<le> i"
| "nonneg_int v \<longleftrightarrow> False"

definition coerce_event_type :: "pyval \<Rightarrow> event_type option" where
  "coerce_event_type v = (case v of PStr s \<Rightarrow> event_type_of s | _ \<Rightarrow> None)"

definition validate_event_dict :: "pyval \<Rightarrow> contract_error + event_type" where
  "validate_event_dict ev =
     (case ev of
        PDict d \<Rightarrow>
          (let missing = filter (\<lambda>k. \<not> dhas d k) envelope_fields;
               unknown = filter (\<lambda>k. k \<notin> set (envelope_fields @ optional_envelope_fields)) (dkeys d);
               val = (\<lambda>k. dget_default d k PNone) in
           if missing \<noteq> [] then Inl (Missing_fields missing)
           else if unknown \<noteq> [] then Inl (Unknown_fields (sort unknown))
           else if \<not> is_system_id (val ''event_id'') then Inl (Bad_uuid ''event_id'')
           else
             (case coerce_event_type (val ''event_type'') of
                None \<Rightarrow> Inl Bad_event_type
              | Some t \<Rightarrow>
                  if \<not> is_valid_iso_utc (val ''ts_event'') then Inl (Bad_field ''ts_event'')
                  else if \<not> is_valid_iso_utc_ms (val ''ts_collected'') then Inl (Bad_field ''ts_collected'')
                  else if \<not> nonneg_int (val ''ts_monotonic'') then Inl (Bad_field ''ts_monotonic'')
                  else if \<not> nonempty_str (val ''component'') then Inl (Bad_field ''component'')
                  else if \<not> in_texts (val ''severity'') severity_levels then Inl (Bad_field ''severity'')
                  else if \<not> py_eq (val ''schema_version'') (PStr supported_schema_version)
                  then Inl (Bad_field ''schema_version'')
                  else if \<not> checksum_shape (val ''checksum'') then Inl (Bad_field ''checksum'')
                  else if dhas d ''correlation_id'' \<and> \<not> is_system_id (val ''correlation_id'')
                  then Inl (Bad_uuid ''correlation_id'')
                  else if dhas d ''trade_id'' \<and> \<not> is_system_id (val ''trade_id'') then Inl (Bad_uuid ''trade_id'')
                  else if t = TRIGGER_DETECTED \<and> \<not> dhas d ''correlation_id'' then Inl Needs_correlation_id
                  else if t \<in> set trade_flow \<and> \<not> dhas d ''trade_id'' then Inl (Needs_trade_id t)
                  else
                    (case validate_payload t (val ''payload'') of Inl e \<Rightarrow> Inl e | Inr _ \<Rightarrow> Inr t)))
      | _ \<Rightarrow> Inl Bad_event)"

section \<open>Lemmas\<close>

text \<open>What a validated payload is known to contain.\<close>

definition field_ok :: "payload_spec \<Rightarrow> string \<Rightarrow> pyval \<Rightarrow> bool" where
  "field_ok spec k v \<longleftrightarrow>
     (case map_of (ps_types spec) k of None \<Rightarrow> True | Some tok \<Rightarrow> has_type tok v = Inr True)
     \<and> (case map_of (ps_enums spec) k of None \<Rightarrow> True | Some xs \<Rightarrow> in_texts v xs)
     \<and> (case map_of (ps_consts spec) k of None \<Rightarrow> True | Some x \<Rightarrow> v = PStr x)"

lemma check_field_None:
  "k \<noteq> unknown_field_placeholder \<Longrightarrow> check_field t spec (k, v) = None \<longleftrightarrow> field_ok spec k v"
  by (auto simp: check_field_def field_ok_def py_eq_str split: option.splits sum.splits if_splits)

lemma validate_payload_dict:
  assumes "validate_payload t v = Inr ()"
  obtains payload where "v = PDict payload" and "set (dkeys payload) \<subseteq> set (allowed_fields (get_spec t))"
    and "\<And>k. k \<in> set (ps_required (get_spec t)) \<Longrightarrow> dhas payload k"
    and "\<And>k x. (k, x) \<in> set payload \<Longrightarrow> k \<noteq> unknown_field_placeholder \<Longrightarrow> field_ok (get_spec t) k x"
    and "\<And>r. r \<in> set (ps_conditional (get_spec t)) \<Longrightarrow> check_rule t payload r = None"
    and "\<And>b. b \<in> set (ps_numeric (get_spec t)) \<Longrightarrow> check_bound t payload b = None"
proof -
  from assms obtain payload where v: "v = PDict payload"
    by (auto simp: validate_payload_def split: pyval.splits)
  show thesis
  proof (rule that [OF v])
    show "set (dkeys payload) \<subseteq> set (allowed_fields (get_spec t))"
      using assms by (auto simp: v validate_payload_def Let_def filter_empty_conv split: if_splits)
    show "dhas payload k" if "k \<in> set (ps_required (get_spec t))" for k
      using assms that by (auto simp: v validate_payload_def Let_def filter_empty_conv split: if_splits)
    show "field_ok (get_spec t) k x" if "(k, x) \<in> set payload" "k \<noteq> unknown_field_placeholder" for k x
      using assms that
      by (auto simp: v validate_payload_def Let_def first_error_None check_field_None
        split: if_splits option.splits)
    show "check_rule t payload r = None" if "r \<in> set (ps_conditional (get_spec t))" for r
      using assms that
      by (auto simp: v validate_payload_def Let_def first_error_None split: if_splits option.splits)
    show "check_bound t payload b = None" if "b \<in> set (ps_numeric (get_spec t))" for b
      using assms that
      by (auto simp: v validate_payload_def Let_def first_error_None split: if_splits option.splits)
  qed
qed

lemma dget_in: "dget d k = Some v \<Longrightarrow> (k, v) \<in> set d"
  by (simp add: dget_def map_of_SomeD)

end
