(* ===== verification/EvEnvelope.thy ===== *)
theory EvEnvelope
  imports EvValidation "HOL-Library.Multiset"
begin

text \<open>
  Checksums, envelopes and their construction: \<open>src/collector/event_model/checksum.py\<close>,
  \<open>envelope.py\<close> and \<open>serialization.py\<close>. The canonical form of a value drops every \<open>checksum\<close> key
  and sorts the keys of every dictionary; \<open>digest\<close> stands for the hexadecimal SHA-256 of its compact
  JSON text. A string that \<open>json.dumps\<close> writes and \<open>json.loads\<close> reads back is the value itself.
\<close>

section \<open>Checksum\<close>

fun strip_checksum :: "pyval \<Rightarrow> pyval" where
  "strip_checksum (PDict d) =
     PDict (map (\<lambda>kv. (fst kv, strip_checksum (snd kv))) (filter (\<lambda>kv. fst kv \<noteq> ''checksum'') d))"
| "strip_checksum (PList vs) = PList (map strip_checksum vs)"
| "strip_checksum v = v"

text \<open>\<open>sort_keys=True\<close>: the keys of a dictionary are distinct, so the order is unique.\<close>

fun sort_keys :: "pyval \<Rightarrow> pyval" where
  "sort_keys (PDict d) = PDict (sort_key fst (map (\<lambda>kv. (fst kv, sort_keys (snd kv))) d))"
| "sort_keys (PList vs) = PList (map sort_keys vs)"
| "sort_keys v = v"

definition canonical :: "pydict \<Rightarrow> pyval" where
  "canonical d = sort_keys (strip_checksum (PDict d))"

definition compute_checksum :: "(pyval \<Rightarrow> string) \<Rightarrow> pydict \<Rightarrow> string" where
  "compute_checksum digest d = checksum_prefix @ digest (canonical d)"

definition verify_checksum :: "(pyval \<Rightarrow> string) \<Rightarrow> pydict \<Rightarrow> bool" where
  "verify_checksum digest d \<longleftrightarrow> dget d ''checksum'' = Some (PStr (compute_checksum digest d))"

section \<open>Envelope\<close>

record envelope =
  e_event_id :: string
  e_event_type :: event_type
  e_ts_event :: string
  e_ts_collected :: string
  e_ts_monotonic :: int
  e_component :: string
  e_severity :: string
  e_schema_version :: string
  e_payload :: pydict
  e_checksum :: string
  e_correlation_id :: "string option"
  e_trade_id :: "string option"

definition optional_entry :: "string \<Rightarrow> string option \<Rightarrow> pydict" where
  "optional_entry k x = (case x of None \<Rightarrow> [] | Some s \<Rightarrow> [(k, PStr s)])"

definition envelope_to_dict :: "envelope \<Rightarrow> pydict" where
  "envelope_to_dict e =
     [(''event_id'', PStr (e_event_id e)), (''event_type'', PStr (event_type_value (e_event_type e))),
      (''ts_event'', PStr (e_ts_event e)), (''ts_collected'', PStr (e_ts_collected e)),
      (''ts_monotonic'', PInt (e_ts_monotonic e)), (''component'', PStr (e_component e)),
      (''severity'', PStr (e_severity e)), (''schema_version'', PStr (e_schema_version e)),
      (''payload'', PDict (e_payload e))]
     @ optional_entry ''correlation_id'' (e_correlation_id e) @ optional_entry ''trade_id'' (e_trade_id e)
     @ [(''checksum'', PStr (e_checksum e))]"

text \<open>Reading a field whose shape validation has established.\<close>

definition str_field :: "pydict \<Rightarrow> string \<Rightarrow> string" where
  "str_field d k = (case dget d k of Some (PStr s) \<Rightarrow> s | _ \<Rightarrow> [])"

definition opt_str_field :: "pydict \<Rightarrow> string \<Rightarrow> string option" where
  "opt_str_field d k = (case dget d k of Some (PStr s) \<Rightarrow> Some s | _ \<Rightarrow> None)"

definition int_field :: "pydict \<Rightarrow> string \<Rightarrow> int" where
  "int_field d k = (case dget d k of Some (PInt i) \<Rightarrow> i | _ \<Rightarrow> 0)"

definition dict_field :: "pydict \<Rightarrow> string \<Rightarrow> pydict" where
  "dict_field d k = (case dget d k of Some (PDict x) \<Rightarrow> x | _ \<Rightarrow> [])"

definition envelope_of :: "pydict \<Rightarrow> event_type \<Rightarrow> envelope" where
  "envelope_of d t =
     \<lparr>e_event_id = str_field d ''event_id'', e_event_type = t, e_ts_event = str_field d ''ts_event'',
      e_ts_collected = str_field d ''ts_collected'', e_ts_monotonic = int_field d ''ts_monotonic'',
      e_component = str_field d ''component'', e_severity = str_field d ''severity'',
      e_schema_version = str_field d ''schema_version'', e_payload = dict_field d ''payload'',
      e_checksum = str_field d ''checksum'', e_correlation_id = opt_str_field d ''correlation_id'',
      e_trade_id = opt_str_field d ''trade_id''\<rparr>"

definition envelope_from_dict :: "(pyval \<Rightarrow> string) \<Rightarrow> pyval \<Rightarrow> contract_error + envelope" where
  "envelope_from_dict digest v =
     (case validate_event_dict v of
        Inl e \<Rightarrow> Inl e
      | Inr t \<Rightarrow>
          (case v of
             PDict d \<Rightarrow>
               (if verify_checksum digest d then Inr (envelope_of d t)
                else Inl (Checksum_mismatch (str_field d ''event_id'')))
           | _ \<Rightarrow> Inl Bad_event))"

definition envelope_verifies :: "(pyval \<Rightarrow> string) \<Rightarrow> envelope \<Rightarrow> bool" where
  "envelope_verifies digest e \<longleftrightarrow> verify_checksum digest (envelope_to_dict e)"

text \<open>\<open>build_event\<close>: the fresh id, the clock reading and the monotonic reading are arguments.\<close>

record event_env =
  ev_digest :: "pyval \<Rightarrow> string"
  ev_uuid :: string
  ev_now_ms :: string
  ev_monotonic :: int

record event_args =
  ea_ts_event :: "string option"
  ea_ts_collected :: "string option"
  ea_ts_monotonic :: "int option"
  ea_component :: string
  ea_severity :: string
  ea_correlation_id :: "string option"
  ea_trade_id :: "string option"

definition default_args :: event_args where
  "default_args =
     \<lparr>ea_ts_event = None, ea_ts_collected = None, ea_ts_monotonic = None, ea_component = ''collector'',
      ea_severity = ''INFO'', ea_correlation_id = None, ea_trade_id = None\<rparr>"

definition or_else :: "'a option \<Rightarrow> 'a \<Rightarrow> 'a" where
  "or_else x d = (case x of None \<Rightarrow> d | Some y \<Rightarrow> y)"

definition event_dict :: "event_env \<Rightarrow> event_type \<Rightarrow> pydict \<Rightarrow> event_args \<Rightarrow> pydict" where
  "event_dict E t payload a =
     [(''event_id'', PStr (ev_uuid E)), (''event_type'', PStr (event_type_value t)),
      (''ts_event'', PStr (or_else (ea_ts_event a) (ev_now_ms E))),
      (''ts_collected'', PStr (or_else (ea_ts_collected a) (ev_now_ms E))),
      (''ts_monotonic'', PInt (or_else (ea_ts_monotonic a) (ev_monotonic E))),
      (''component'', PStr (ea_component a)), (''severity'', PStr (ea_severity a)),
      (''schema_version'', PStr supported_schema_version), (''payload'', PDict payload)]
     @ optional_entry ''correlation_id'' (ea_correlation_id a) @ optional_entry ''trade_id'' (ea_trade_id a)"

definition build_event :: "event_env \<Rightarrow> event_type \<Rightarrow> pydict \<Rightarrow> event_args \<Rightarrow> contract_error + envelope" where
  "build_event E t payload a =
     (case validate_payload t (PDict payload) of
        Inl e \<Rightarrow> Inl e
      | Inr _ \<Rightarrow>
          (let d = event_dict E t payload a in
           envelope_from_dict (ev_digest E)
             (PDict (d @ [(''checksum'', PStr (compute_checksum (ev_digest E) d))]))))"

text \<open>\<open>to_json\<close> and \<open>from_json\<close>. The text of a value and the value of a text are the standard \<open>json\<close>
  module's, whose float and Unicode tables are outside the model: \<open>json_dumps\<close> is \<open>json.dumps\<close> with the
  separators and the \<open>ensure_ascii\<close> of \<open>to_json\<close>, \<open>json_loads\<close> is \<open>json.loads\<close>, with \<open>None\<close> for a
  \<open>JSONDecodeError\<close>. \<open>event_json_value\<close> is the value that \<open>to_json\<close> writes and \<open>event_of_json_value\<close> what
  \<open>from_json\<close> makes of a parsed value.\<close>

record json_codec =
  json_dumps :: "pyval \<Rightarrow> string"
  json_loads :: "string \<Rightarrow> pyval option"

text \<open>What the documentation of \<open>json\<close> promises of a value made of dictionaries with string keys, lists,
  strings, numbers, booleans and \<open>None\<close>.\<close>

definition json_reads_back :: "json_codec \<Rightarrow> pyval \<Rightarrow> bool" where
  "json_reads_back J v \<longleftrightarrow> json_loads J (json_dumps J v) = Some v"

definition event_json_value :: "envelope \<Rightarrow> pyval" where
  "event_json_value e = PDict (envelope_to_dict e)"

definition event_of_json_value :: "(pyval \<Rightarrow> string) \<Rightarrow> pyval option \<Rightarrow> contract_error + envelope" where
  "event_of_json_value digest parsed =
     (case parsed of
        None \<Rightarrow> Inl Bad_event
      | Some (PDict d) \<Rightarrow> envelope_from_dict digest (PDict d)
      | Some v \<Rightarrow> Inl Bad_event)"

definition event_to_json :: "json_codec \<Rightarrow> envelope \<Rightarrow> string" where
  "event_to_json J e = json_dumps J (event_json_value e)"

definition event_from_json :: "json_codec \<Rightarrow> (pyval \<Rightarrow> string) \<Rightarrow> string \<Rightarrow> contract_error + envelope" where
  "event_from_json J digest data = event_of_json_value digest (json_loads J data)"

section \<open>Lemmas\<close>

text \<open>The dictionary of an envelope read back.\<close>

lemma envelope_dget:
  "dget (envelope_to_dict e) ''event_id'' = Some (PStr (e_event_id e))"
  "dget (envelope_to_dict e) ''event_type'' = Some (PStr (event_type_value (e_event_type e)))"
  "dget (envelope_to_dict e) ''ts_event'' = Some (PStr (e_ts_event e))"
  "dget (envelope_to_dict e) ''ts_collected'' = Some (PStr (e_ts_collected e))"
  "dget (envelope_to_dict e) ''ts_monotonic'' = Some (PInt (e_ts_monotonic e))"
  "dget (envelope_to_dict e) ''component'' = Some (PStr (e_component e))"
  "dget (envelope_to_dict e) ''severity'' = Some (PStr (e_severity e))"
  "dget (envelope_to_dict e) ''schema_version'' = Some (PStr (e_schema_version e))"
  "dget (envelope_to_dict e) ''payload'' = Some (PDict (e_payload e))"
  "dget (envelope_to_dict e) ''checksum'' = Some (PStr (e_checksum e))"
  "dget (envelope_to_dict e) ''correlation_id'' = map_option PStr (e_correlation_id e)"
  "dget (envelope_to_dict e) ''trade_id'' = map_option PStr (e_trade_id e)"
  by (simp_all add: dget_def envelope_to_dict_def optional_entry_def split: option.splits)

lemma envelope_of_to_dict: "envelope_of (envelope_to_dict e) (e_event_type e) = e"
  by (simp add: envelope_of_def str_field_def int_field_def dict_field_def opt_str_field_def envelope_dget
    split: option.splits)

text \<open>The canonical form does not see the order of the keys or the checksum.\<close>

lemma strip_checksum_dict:
  "strip_checksum (PDict d) = PDict (map (map_prod id strip_checksum) (filter (\<lambda>kv. fst kv \<noteq> ''checksum'') d))"
  by (simp add: map_prod_def case_prod_beta')

lemma sort_keys_dict: "sort_keys (PDict d) = PDict (sort_key fst (map (map_prod id sort_keys) d))"
  by (simp add: map_prod_def case_prod_beta')

lemma sort_key_unique:
  assumes "mset xs = mset ys" and "distinct (map f xs)"
  shows "sort_key f xs = sort_key f ys"
proof (rule sort_key_inj_key_eq)
  show "mset xs = mset (sort_key f ys)" using assms(1) by simp
  show "inj_on f (set xs)" using assms(2) by (simp add: distinct_map)
qed simp

lemma canonical_perm:
  assumes "mset d = mset d'" and "distinct (dkeys d)"
  shows "canonical d = canonical d'"
proof -
  let ?strip = "\<lambda>d. map (map_prod id sort_keys) (map (map_prod id strip_checksum) (filter (\<lambda>kv. fst kv \<noteq> ''checksum'') d))"
  have "mset (?strip d) = mset (?strip d')" using assms(1) by simp
  moreover have "distinct (map fst (?strip d))"
    using assms(2) by (simp add: dkeys_def comp_def distinct_map_filter)
  ultimately have "sort_key fst (?strip d) = sort_key fst (?strip d')" by (rule sort_key_unique)
  then show ?thesis by (simp only: canonical_def strip_checksum_dict sort_keys_dict)
qed

lemma canonical_checksum: "canonical (d @ [(''checksum'', v)]) = canonical d"
  by (simp add: canonical_def)

lemma canonical_unchecked:
  assumes "mset (filter (\<lambda>kv. fst kv \<noteq> ''checksum'') d) = mset (filter (\<lambda>kv. fst kv \<noteq> ''checksum'') d')"
    and "distinct (dkeys d)"
  shows "canonical d' = canonical d"
proof -
  have strip: "canonical (filter (\<lambda>kv. fst kv \<noteq> ''checksum'') x) = canonical x" for x
    by (simp add: canonical_def)
  have "distinct (dkeys (filter (\<lambda>kv. fst kv \<noteq> ''checksum'') d))"
    using assms(2) by (simp add: dkeys_def distinct_map_filter)
  from canonical_perm [OF assms(1) this] show ?thesis by (simp only: strip)
qed

text \<open>Envelope validation as one condition. A validated dictionary is, up to the order of its keys, the
  dictionary of its envelope.\<close>

lemma sum_unit_Inr: "(case x of Inl e \<Rightarrow> Inl e | Inr _ \<Rightarrow> Inr t) = Inr u \<longleftrightarrow> x = Inr () \<and> t = u"
  by (cases x) auto

lemma if_Inl: "(if b then Inl e else x) = Inr y \<longleftrightarrow> \<not> b \<and> x = Inr y"
  by simp

lemma validate_event_dict_iff:
  "validate_event_dict (PDict d) = Inr t \<longleftrightarrow>
     (\<forall>k \<in> set envelope_fields. dhas d k) \<and> set (dkeys d) \<subseteq> set (envelope_fields @ optional_envelope_fields)
     \<and> is_system_id (dget_default d ''event_id'' PNone)
     \<and> dget_default d ''event_type'' PNone = PStr (event_type_value t)
     \<and> is_valid_iso_utc (dget_default d ''ts_event'' PNone)
     \<and> is_valid_iso_utc_ms (dget_default d ''ts_collected'' PNone)
     \<and> nonneg_int (dget_default d ''ts_monotonic'' PNone)
     \<and> nonempty_str (dget_default d ''component'' PNone)
     \<and> in_texts (dget_default d ''severity'' PNone) severity_levels
     \<and> dget_default d ''schema_version'' PNone = PStr supported_schema_version
     \<and> checksum_shape (dget_default d ''checksum'' PNone)
     \<and> (dhas d ''correlation_id'' \<longrightarrow> is_system_id (dget_default d ''correlation_id'' PNone))
     \<and> (dhas d ''trade_id'' \<longrightarrow> is_system_id (dget_default d ''trade_id'' PNone))
     \<and> (t = TRIGGER_DETECTED \<longrightarrow> dhas d ''correlation_id'')
     \<and> (t \<in> set trade_flow \<longrightarrow> dhas d ''trade_id'')
     \<and> validate_payload t (dget_default d ''payload'' PNone) = Inr ()"
proof (cases "coerce_event_type (dget_default d ''event_type'' PNone)")
  case None
  then have "dget_default d ''event_type'' PNone \<noteq> PStr (event_type_value t)"
    by (auto simp: coerce_event_type_def event_type_of_value)
  then show ?thesis unfolding validate_event_dict_def Let_def pyval.case if_Inl None by simp
next
  case (Some u)
  then have u: "dget_default d ''event_type'' PNone = PStr (event_type_value t) \<longleftrightarrow> t = u"
    by (auto simp: coerce_event_type_def event_type_of_Some split: pyval.splits)
  show ?thesis
    unfolding validate_event_dict_def Let_def pyval.case if_Inl Some option.case sum_unit_Inr u py_eq_str
      filter_empty_conv
    by blast
qed

text \<open>Dictionaries with distinct keys and the same entries are permutations of each other.\<close>

lemma dget_ext_mset:
  assumes "distinct (dkeys d)" and "distinct (dkeys d')" and "\<And>k. dget d k = dget d' k"
  shows "mset d = mset d'"
proof -
  have "map_of d = map_of d'" using assms(3) by (auto simp: dget_def fun_eq_iff)
  then have "set d = set d'"
    using assms(1,2) map_of_inject_set unfolding dkeys_def by blast
  moreover have "distinct d" "distinct d'" using assms(1,2) by (auto simp: dkeys_def distinct_map)
  ultimately show ?thesis using set_eq_iff_mset_eq_distinct by blast
qed

lemma distinct_envelope_keys: "distinct (dkeys (envelope_to_dict e))"
  by (auto simp: envelope_to_dict_def optional_entry_def dkeys_def split: option.splits)

lemma envelope_keys: "set (dkeys (envelope_to_dict e)) \<subseteq> set (envelope_fields @ optional_envelope_fields)"
  by (auto simp: envelope_to_dict_def optional_entry_def dkeys_def envelope_fields_def
    optional_envelope_fields_def split: option.splits)

lemma str_field_eq: "dhas d k \<Longrightarrow> (\<exists>s. dget_default d k PNone = PStr s) \<Longrightarrow> dget d k = Some (PStr (str_field d k))"
  by (auto simp: dhas_iff dget_default_def str_field_def)

lemma is_system_id_str: "is_system_id v \<Longrightarrow> \<exists>s. v = PStr s"
  by (auto simp: is_system_id_def split: pyval.splits)

lemma iso_str: "iso_with tail v \<Longrightarrow> \<exists>s. v = PStr s"
  by (auto simp: iso_with_def split: pyval.splits)

lemma envelope_of_dget:
  assumes "validate_event_dict (PDict d) = Inr t"
  shows "dget (envelope_to_dict (envelope_of d t)) k = dget d k"
proof -
  note ok = assms [unfolded validate_event_dict_iff]
  have req: "dhas d k" if "k \<in> set envelope_fields" for k using ok that by blast
  have strs: "dget d k = Some (PStr (str_field d k))"
    if "k \<in> {''event_id'', ''ts_event'', ''ts_collected'', ''component'', ''severity'', ''schema_version'', ''checksum''}" for k
  proof (rule str_field_eq)
    show "dhas d k" using that req by (auto simp: envelope_fields_def)
    show "\<exists>s. dget_default d k PNone = PStr s"
      using that ok is_system_id_str iso_str
      by (auto simp: is_valid_iso_utc_def is_valid_iso_utc_ms_def nonempty_str_def checksum_shape_def in_texts_def
        list_ex_iff py_eq_str split: pyval.splits)
  qed
  have opts: "dget d k = map_option PStr (opt_str_field d k)" if "k \<in> {''correlation_id'', ''trade_id''}" for k
  proof (cases "dget d k")
    case (Some v)
    then have "is_system_id v" using that ok by (auto simp: dhas_iff dget_default_def)
    then obtain s where "v = PStr s" using is_system_id_str by blast
    then show ?thesis using Some by (simp add: opt_str_field_def)
  qed (simp add: opt_str_field_def)
  have ty: "dget d ''event_type'' = Some (PStr (event_type_value t))"
    using ok req [of "''event_type''"] by (auto simp: envelope_fields_def dhas_iff dget_default_def)
  have mono: "dget d ''ts_monotonic'' = Some (PInt (int_field d ''ts_monotonic''))"
    using ok req [of "''ts_monotonic''"]
    by (auto simp: envelope_fields_def dhas_iff dget_default_def int_field_def elim: nonneg_int.elims)
  have pay: "dget d ''payload'' = Some (PDict (dict_field d ''payload''))"
    using ok req [of "''payload''"]
    by (auto simp: envelope_fields_def dhas_iff dget_default_def dict_field_def elim: validate_payload_dict)
  show ?thesis
  proof (cases "k \<in> set (envelope_fields @ optional_envelope_fields)")
    case True
    then show ?thesis
      by (auto simp: envelope_fields_def optional_envelope_fields_def envelope_dget envelope_of_def strs opts ty mono pay)
  next
    case False
    then have "\<not> dhas d k" "\<not> dhas (envelope_to_dict (envelope_of d t)) k"
      using ok envelope_keys [of "envelope_of d t"] by (auto simp: dhas_def)
    then show ?thesis by (simp add: dget_None [symmetric])
  qed
qed

lemma validate_event_dict_cong:
  assumes "\<And>k. dget d k = dget d' k"
  shows "validate_event_dict (PDict d) = Inr t \<longleftrightarrow> validate_event_dict (PDict d') = Inr t"
proof -
  have h: "dhas d = dhas d'" using assms by (simp add: fun_eq_iff dhas_iff)
  have g: "dget_default d k v = dget_default d' k v" for k v using assms by (simp add: dget_default_def)
  have keys: "set (dkeys d) = set (dkeys d')" using h unfolding dhas_def fun_eq_iff by blast
  show ?thesis unfolding validate_event_dict_iff by (simp only: h g keys)
qed

lemma from_dict_round_trip:
  assumes "envelope_from_dict digest (PDict d) = Inr e" and "distinct (dkeys d)"
  shows "envelope_from_dict digest (PDict (envelope_to_dict e)) = Inr e"
    and "canonical (envelope_to_dict e) = canonical d" and "mset (envelope_to_dict e) = mset d"
    and "envelope_verifies digest e"
proof -
  obtain t where t: "validate_event_dict (PDict d) = Inr t" "verify_checksum digest d" "e = envelope_of d t"
    using assms(1) by (auto simp: envelope_from_dict_def split: sum.splits if_splits)
  have same: "dget (envelope_to_dict e) k = dget d k" for k
    using envelope_of_dget [OF t(1)] t(3) by simp
  show m: "mset (envelope_to_dict e) = mset d"
    by (rule dget_ext_mset [OF distinct_envelope_keys assms(2) same])
  show c: "canonical (envelope_to_dict e) = canonical d" by (rule canonical_perm [OF m distinct_envelope_keys])
  have v: "verify_checksum digest (envelope_to_dict e)"
    using t(2) by (simp add: verify_checksum_def compute_checksum_def c same)
  then show "envelope_verifies digest e" by (simp add: envelope_verifies_def)
  have "validate_event_dict (PDict (envelope_to_dict e)) = Inr t"
    using t(1) validate_event_dict_cong [OF same] by simp
  moreover have "e_event_type e = t" using t(3) by (simp add: envelope_of_def)
  ultimately show "envelope_from_dict digest (PDict (envelope_to_dict e)) = Inr e"
    using v envelope_of_to_dict [of e] by (simp add: envelope_from_dict_def)
qed

lemma from_dict_cong:
  assumes "\<And>k. dget d k = dget d' k" and "distinct (dkeys d)" and "distinct (dkeys d')"
    and "envelope_from_dict digest (PDict d) = Inr e"
  shows "envelope_from_dict digest (PDict d') = Inr e"
proof -
  obtain t where t: "validate_event_dict (PDict d) = Inr t" "verify_checksum digest d" "e = envelope_of d t"
    using assms(4) by (auto simp: envelope_from_dict_def split: sum.splits if_splits)
  have "canonical d = canonical d'"
    using canonical_perm [OF dget_ext_mset [OF assms(2,3,1)] assms(2)] .
  then have "verify_checksum digest d'" using t(2) assms(1) by (simp add: verify_checksum_def compute_checksum_def)
  moreover have "validate_event_dict (PDict d') = Inr t"
    using t(1) validate_event_dict_cong [where d = d and d' = d', OF assms(1)] by simp
  moreover have "envelope_of d' t = envelope_of d t"
    using assms(1) by (simp add: envelope_of_def str_field_def opt_str_field_def int_field_def dict_field_def)
  ultimately show ?thesis using t(3) by (simp add: envelope_from_dict_def)
qed

end
