(* ===== verification/PsTables.thy ===== *)
theory PsTables
  imports EvEnvelope "HOL-Library.Option_ord" "HOL-Library.Product_Lexorder"
begin

text \<open>
  The SQLite database of the collector as the persistence layer uses it: storage classes, column
  affinity, primary keys, \<open>INSERT OR IGNORE\<close>, upserts, and the connection with its transactions
  (\<open>src/collector/persistence/schema.py\<close>, \<open>errors.py\<close>, and \<open>transaction\<close>, \<open>open\<close>, \<open>close\<close> of
  \<open>repository.py\<close>). A table is the list of its rows in insertion order; a column a row does not
  have is \<open>NULL\<close>. A text column that holds the output of \<open>json.dumps\<close> is \<open>SqlJson\<close> of the value.
\<close>

section \<open>Values and rows\<close>

datatype sqlval = SqlNull | SqlInt int | SqlReal pyfloat | SqlText string | SqlJson pyval

text \<open>A parameter of a statement: a Python value, or the text that \<open>json.dumps\<close> gives for one.\<close>

datatype sqlparam = Param pyval | Dumps pyval

datatype db_error =
    Not_open
  | Already_open
  | Nested_transaction
  | Cannot_begin
  | Contract contract_error
  | Refused_checksum string
  | Conflicting_event string
  | Lost_insert string
  | Stored_event_invalid string
  | Int_too_large
  | Unsupported_value
  | Missing_key string
  | Unexpected_payload string
  | Commit_failed

text \<open>The exceptions of class \<open>PersistenceError\<close>; the others are \<open>ContractValidationError\<close>,
  \<open>OverflowError\<close>, a \<open>sqlite3\<close> error, \<open>KeyError\<close>, \<open>AssertionError\<close>, and the \<open>sqlite3.DatabaseError\<close> of a
  \<open>COMMIT\<close>, which \<open>transaction\<close> raises again as it is.\<close>

fun is_persistence_error :: "db_error \<Rightarrow> bool" where
  "is_persistence_error (Contract e) \<longleftrightarrow> False"
| "is_persistence_error Int_too_large \<longleftrightarrow> False"
| "is_persistence_error Unsupported_value \<longleftrightarrow> False"
| "is_persistence_error (Missing_key k) \<longleftrightarrow> False"
| "is_persistence_error (Unexpected_payload k) \<longleftrightarrow> False"
| "is_persistence_error Commit_failed \<longleftrightarrow> False"
| "is_persistence_error e \<longleftrightarrow> True"

type_synonym sqlrow = "(string \<times> sqlval) list"
type_synonym database = "string \<Rightarrow> sqlrow list"

definition primary_keys :: "(string \<times> string) list" where
  "primary_keys =
     [(''events'', ''event_id''), (''trades'', ''trade_id''), (''orders'', ''broker_order_id''),
      (''positions'', ''broker_position_id''), (''market_snapshots'', ''snapshot_id''),
      (''reconciliation_events'', ''reconciliation_id''), (''invalid_trades'', ''trade_id''),
      (''ingestion_cursor'', ''source_path''), (''reconciliation_runs'', ''reconciliation_id''),
      (''reconciliation_adoptions'', ''adoption_id'')]"

definition primary_key :: "string \<Rightarrow> string" where
  "primary_key t = (case map_of primary_keys t of None \<Rightarrow> [] | Some k \<Rightarrow> k)"

definition real_columns :: "(string \<times> string list) list" where
  "real_columns =
     [(''trades'', [''lot'', ''entry_price'', ''exit_price'', ''mfe'', ''mae'', ''net_pnl'', ''tx_cost'']),
      (''orders'', [''requested_price'', ''requested_lot'']),
      (''positions'', [''lot'', ''open_price'', ''close_price'']),
      (''market_snapshots'', [''atr_m1'', ''atr_m5'']),
      (''reconciliation_adoptions'', [''volume'', ''open_price''])]"

definition is_real_column :: "string \<Rightarrow> string \<Rightarrow> bool" where
  "is_real_column t c = (case map_of real_columns t of None \<Rightarrow> False | Some cs \<Rightarrow> c \<in> set cs)"

text \<open>Binding: integers outside 64 bits raise, a NaN becomes \<open>NULL\<close>, a boolean is 0 or 1. Storing: an
  integer in a \<open>REAL\<close> column becomes a float.\<close>

fun bind_param :: "sqlparam \<Rightarrow> db_error + sqlval" where
  "bind_param (Dumps v) = Inr (SqlJson v)"
| "bind_param (Param PNone) = Inr SqlNull"
| "bind_param (Param (PBool b)) = Inr (SqlInt (if b then 1 else 0))"
| "bind_param (Param (PInt i)) = (if - (2 ^ 63) \<le> i \<and> i < 2 ^ 63 then Inr (SqlInt i) else Inl Int_too_large)"
| "bind_param (Param (PFloat x)) = Inr (if x = NaN then SqlNull else SqlReal x)"
| "bind_param (Param (PStr s)) = Inr (SqlText s)"
| "bind_param (Param v) = Inl Unsupported_value"

fun affinity :: "bool \<Rightarrow> sqlval \<Rightarrow> sqlval" where
  "affinity True (SqlInt i) = SqlReal (of_int_f i)"
| "affinity r v = v"

fun bind_row :: "string \<Rightarrow> (string \<times> sqlparam) list \<Rightarrow> db_error + sqlrow" where
  "bind_row t [] = Inr []"
| "bind_row t ((c, p) # ps) =
     (case bind_param p of
        Inl e \<Rightarrow> Inl e
      | Inr v \<Rightarrow>
          (case bind_row t ps of Inl e \<Rightarrow> Inl e | Inr row \<Rightarrow> Inr ((c, affinity (is_real_column t c) v) # row)))"

definition cell :: "sqlrow \<Rightarrow> string \<Rightarrow> sqlval" where
  "cell row c = (case map_of row c of None \<Rightarrow> SqlNull | Some v \<Rightarrow> v)"

definition set_cells :: "sqlrow \<Rightarrow> sqlrow \<Rightarrow> sqlrow" where
  "set_cells new row = new @ filter (\<lambda>cv. fst cv \<notin> fst ` set new) row"

definition has_key :: "string \<Rightarrow> sqlval \<Rightarrow> sqlrow list \<Rightarrow> bool" where
  "has_key pk v tab = list_ex (\<lambda>row. cell row pk = v) tab"

definition select_key :: "string \<Rightarrow> sqlval \<Rightarrow> sqlrow list \<Rightarrow> sqlrow option" where
  "select_key pk v tab = find_by (\<lambda>row. cell row pk) v tab"

definition insert_ignore :: "string \<Rightarrow> sqlrow \<Rightarrow> sqlrow list \<Rightarrow> bool \<times> sqlrow list" where
  "insert_ignore pk new tab = (if has_key pk (cell new pk) tab then (False, tab) else (True, tab @ [new]))"

definition upsert_row :: "string \<Rightarrow> sqlrow \<Rightarrow> sqlrow list \<Rightarrow> sqlrow list" where
  "upsert_row pk new tab =
     (if has_key pk (cell new pk) tab
      then map (\<lambda>row. if cell row pk = cell new pk then set_cells new row else row) tab
      else tab @ [new])"

section \<open>The connection\<close>

text \<open>\<open>rp_disk\<close> is what is committed, \<open>rp_work\<close> the open transaction of the connection, \<open>rp_busy\<close> the
  flag \<open>_in_transaction\<close>, and \<open>rp_ticks\<close> counts the readings of the wall clock. \<open>rp_faults\<close> says what
  SQLite does with the transaction statements still to come, one entry for each call of \<open>transaction\<close>
  that reaches its \<open>BEGIN\<close>, and nothing fails after the last entry: \<open>BEGIN\<close> can raise (the database stays
  locked), \<open>COMMIT\<close> can raise and leave the SQLite transaction open or not, and the \<open>ROLLBACK\<close> after an
  exception of the body can raise with the transaction still open.\<close>

datatype tx_fault = No_fault | Begin_fails | Commit_fails bool | Rollback_fails

record repo =
  rp_open :: bool
  rp_busy :: bool
  rp_disk :: database
  rp_work :: "database option"
  rp_ticks :: nat
  rp_faults :: "tx_fault list"

record db_env =
  db_digest :: "pyval \<Rightarrow> string"
  db_clock :: "nat \<Rightarrow> string"

definition view :: "repo \<Rightarrow> database" where
  "view r = (case rp_work r of None \<Rightarrow> rp_disk r | Some d \<Rightarrow> d)"

text \<open>A statement that writes: \<open>sqlite3\<close> opens a transaction before it when none is open, and leaves
  that one open.\<close>

definition execute :: "(database \<Rightarrow> db_error + 'a \<times> database) \<Rightarrow> (repo, db_error, 'a) eff" where
  "execute f r =
     (case f (view r) of
        Inl e \<Rightarrow> (Inl e, r\<lparr>rp_work := Some (view r)\<rparr>)
      | Inr (x, d) \<Rightarrow> (Inr x, r\<lparr>rp_work := Some d\<rparr>))"

definition connection :: "(repo, db_error, unit) eff" where
  "connection r = (if rp_open r then (Inr (), r) else (Inl Not_open, r))"

definition next_fault :: "repo \<Rightarrow> tx_fault" where
  "next_fault r = (case rp_faults r of [] \<Rightarrow> No_fault | f # fs \<Rightarrow> f)"

text \<open>After \<open>BEGIN IMMEDIATE\<close>; then the end of the transaction when the body returned and when it raised.\<close>

definition begun :: "repo \<Rightarrow> repo" where
  "begun r = r\<lparr>rp_busy := True, rp_work := Some (rp_disk r), rp_faults := tl (rp_faults r)\<rparr>"

definition commit :: "tx_fault \<Rightarrow> 'a \<Rightarrow> repo \<Rightarrow> (db_error + 'a) \<times> repo" where
  "commit fault x r =
     (case fault of
        Commit_fails still_open \<Rightarrow>
          (Inl Commit_failed, r\<lparr>rp_busy := False, rp_work := (if still_open then rp_work r else None)\<rparr>)
      | _ \<Rightarrow> (Inr x, r\<lparr>rp_busy := False, rp_disk := view r, rp_work := None\<rparr>))"

definition rollback :: "tx_fault \<Rightarrow> repo \<Rightarrow> repo" where
  "rollback fault r = r\<lparr>rp_busy := False, rp_work := (if fault = Rollback_fails then rp_work r else None)\<rparr>"

definition transaction :: "(repo, db_error, 'a) eff \<Rightarrow> (repo, db_error, 'a) eff" where
  "transaction body r =
     (if rp_busy r then (Inl Nested_transaction, r)
      else if \<not> rp_open r then (Inl Not_open, r)
      else if rp_work r \<noteq> None \<or> next_fault r = Begin_fails
      then (Inl Cannot_begin, r\<lparr>rp_faults := tl (rp_faults r)\<rparr>)
      else
        (case body (begun r) of
           (Inl e, r') \<Rightarrow> (Inl e, rollback (next_fault r) r')
         | (Inr x, r') \<Rightarrow> commit (next_fault r) x r'))"

definition now_utc_ms :: "db_env \<Rightarrow> (repo, db_error, string) eff" where
  "now_utc_ms E r = (Inr (db_clock E (rp_ticks r)), r\<lparr>rp_ticks := Suc (rp_ticks r)\<rparr>)"

definition open_repo :: "(repo, db_error, unit) eff" where
  "open_repo r = (if rp_open r then (Inl Already_open, r) else (Inr (), r\<lparr>rp_open := True, rp_work := None\<rparr>))"

definition close_repo :: "(repo, db_error, unit) eff" where
  "close_repo r = (if rp_open r then (Inr (), r\<lparr>rp_open := False, rp_busy := False, rp_work := None\<rparr>) else (Inr (), r))"

section \<open>Lemmas on rows and tables\<close>

lemma cell_set_cells: "cell (set_cells new row) c = (if c \<in> fst ` set new then cell new c else cell row c)"
proof (cases "c \<in> fst ` set new")
  case True
  then obtain v where "map_of new c = Some v" by (metis map_of_eq_None_iff not_None_eq)
  then show ?thesis using True by (simp add: cell_def set_cells_def map_add_def)
next
  case False
  then have "map_of new c = None" by (simp add: map_of_eq_None_iff)
  moreover have "map_of (filter (\<lambda>cv. fst cv \<notin> fst ` set new) row) c = map_of row c"
    using False by (induction row) auto
  ultimately show ?thesis using False by (simp add: cell_def set_cells_def map_add_def)
qed

lemma has_key_iff: "has_key pk v tab \<longleftrightarrow> v \<in> (\<lambda>row. cell row pk) ` set tab"
  by (auto simp: has_key_def list_ex_iff)

lemma bind_row_columns: "bind_row t ps = Inr row \<Longrightarrow> map fst row = map fst ps"
  by (induction ps arbitrary: row) (auto split: sum.splits)

lemma bind_row_cell:
  "bind_row t ps = Inr row \<Longrightarrow> map_of ps c = Some p \<Longrightarrow> bind_param p = Inr v \<Longrightarrow>
   cell row c = affinity (is_real_column t c) v"
  by (induction ps arbitrary: row) (auto simp: cell_def split: sum.splits if_splits)

lemma bind_row_None: "bind_row t ps = Inr row \<Longrightarrow> map_of ps c = None \<Longrightarrow> cell row c = SqlNull"
  by (induction ps arbitrary: row) (auto simp: cell_def split: sum.splits if_splits)

text \<open>Keys stay unique, and the rows of other keys are untouched.\<close>

definition keyed :: "string \<Rightarrow> sqlrow list \<Rightarrow> bool" where
  "keyed pk tab \<longleftrightarrow> distinct (map (\<lambda>row. cell row pk) tab)"

lemma keyed_insert: "keyed pk tab \<Longrightarrow> keyed pk (snd (insert_ignore pk new tab))"
  by (auto simp: keyed_def insert_ignore_def has_key_iff)

lemma keys_upsert:
  assumes "pk \<in> fst ` set new"
  shows "map (\<lambda>row. cell row pk) (upsert_row pk new tab)
    = map (\<lambda>row. cell row pk) tab @ (if has_key pk (cell new pk) tab then [] else [cell new pk])"
  using assms by (auto simp: upsert_row_def cell_set_cells)

lemma keyed_upsert: "pk \<in> fst ` set new \<Longrightarrow> keyed pk tab \<Longrightarrow> keyed pk (upsert_row pk new tab)"
  by (auto simp: keyed_def keys_upsert has_key_iff)

lemma select_upsert:
  assumes "pk \<in> fst ` set new"
  shows "select_key pk v (upsert_row pk new tab) =
    (if v = cell new pk
     then Some (case select_key pk v tab of None \<Rightarrow> new | Some row \<Rightarrow> set_cells new row)
     else select_key pk v tab)"
proof (cases "has_key pk (cell new pk) tab")
  case True
  let ?f = "\<lambda>row. if cell row pk = cell new pk then set_cells new row else row"
  have key: "cell (?f row) pk = cell row pk" for row using assms by (simp add: cell_set_cells)
  have "select_key pk v (upsert_row pk new tab) = map_option ?f (select_key pk v tab)"
    using True find_by_map [where key = "\<lambda>row. cell row pk" and f = ?f, OF key]
    by (simp add: select_key_def upsert_row_def)
  moreover have "\<exists>row. select_key pk (cell new pk) tab = Some row"
    using True find_by_None [of "\<lambda>row. cell row pk" "cell new pk" tab]
    by (auto simp: select_key_def has_key_iff)
  moreover have "cell row pk = v" if "select_key pk v tab = Some row" for row
    using find_by_Some that unfolding select_key_def by fastforce
  ultimately show ?thesis by (cases "select_key pk v tab") (auto split: option.splits)
next
  case False
  then have "select_key pk (cell new pk) tab = None"
    by (simp add: select_key_def find_by_None has_key_iff)
  then show ?thesis
    using False by (auto simp: select_key_def upsert_row_def find_by_append find_by_Cons split: option.splits)
qed

section \<open>Lemmas on transactions\<close>

text \<open>A transaction that raises leaves the committed data as they were. Every transaction leaves the
  connection ready for the next one, except when its \<open>COMMIT\<close> or its \<open>ROLLBACK\<close> fails and SQLite keeps
  the transaction open.\<close>

definition settled :: "repo \<Rightarrow> bool" where
  "settled r \<longleftrightarrow> \<not> rp_busy r \<and> rp_work r = None"

definition idle :: "repo \<Rightarrow> bool" where
  "idle r \<longleftrightarrow> rp_open r \<and> settled r"

definition on_work :: "(repo \<Rightarrow> repo \<Rightarrow> bool)" where
  "on_work r r' \<longleftrightarrow> rp_open r' = rp_open r \<and> rp_busy r' = rp_busy r \<and> rp_disk r' = rp_disk r
     \<and> rp_faults r' = rp_faults r"

lemma on_work_preorder [pres_rules]: "preorder_rel on_work"
  by (auto simp: preorder_rel_def on_work_def)

lemma on_work_execute [pres_rules]: "pres on_work (execute f)"
  by (auto simp: pres_def execute_def on_work_def split: sum.splits)

lemma on_work_now [pres_rules]: "pres on_work (now_utc_ms E)"
  by (auto simp: pres_def now_utc_ms_def on_work_def)

lemma begun_simps [simp]:
  "rp_open (begun r) = rp_open r" "rp_busy (begun r)" "rp_disk (begun r) = rp_disk r"
  "rp_work (begun r) = Some (rp_disk r)" "view (begun r) = rp_disk r" "rp_faults (begun r) = tl (rp_faults r)"
  by (simp_all add: begun_def view_def)

lemma no_fault [simp]: "rp_faults r = [] \<Longrightarrow> next_fault r = No_fault"
  by (simp add: next_fault_def)

definition stuck :: "tx_fault \<Rightarrow> bool" where
  "stuck fault \<longleftrightarrow> fault \<in> {Commit_fails True, Rollback_fails}"

lemma transaction_Inl:
  assumes "pres on_work body" and "transaction body r = (Inl e, r')"
  shows "rp_disk r' = rp_disk r \<and> rp_open r' = rp_open r \<and> (\<not> rp_busy r \<longrightarrow> \<not> rp_busy r')
    \<and> (rp_faults r = [] \<longrightarrow> rp_faults r' = []) \<and> (idle r \<and> \<not> stuck (next_fault r) \<longrightarrow> idle r')"
proof -
  have "on_work (begun r) (snd (body (begun r)))"
    using assms(1) by (simp add: pres_def)
  then show ?thesis
    using assms(2)
    by (auto simp: transaction_def on_work_def idle_def settled_def commit_def rollback_def stuck_def
        split: if_splits prod.splits sum.splits tx_fault.splits)
qed

lemma transaction_Inr:
  assumes "pres on_work body" and "transaction body r = (Inr x, r')"
  shows "idle r \<and> idle r' \<and> rp_faults r' = tl (rp_faults r)
    \<and> (\<exists>r1. body (begun r) = (Inr x, r1) \<and> rp_disk r' = view r1)"
proof -
  have "on_work (begun r) (snd (body (begun r)))"
    using assms(1) by (simp add: pres_def)
  then show ?thesis
    using assms(2)
    by (auto simp: transaction_def on_work_def idle_def settled_def commit_def
        split: if_splits prod.splits sum.splits tx_fault.splits)
qed

end
