(* ===== verification/PsRecords.thy ===== *)
theory PsRecords
  imports PsTables
begin

text \<open>
  The typed records of the derived tables and the statements that write and read them:
  \<open>src/collector/persistence/records.py\<close>, \<open>reconciling.py\<close> and \<open>cursor.py\<close>. A number of a record is
  the Python value it was given (an integer or a float); \<open>broker_response\<close>, \<open>payload_json\<close>,
  \<open>local_state_json\<close>, \<open>broker_state_json\<close> and \<open>details\<close> hold the value whose JSON text is stored.
\<close>

section \<open>Records\<close>

record trade_record =
  tr_trade_id :: string
  tr_correlation_id :: "string option"
  tr_inference_id :: "string option"
  tr_order_id :: "string option"
  tr_position_id :: "string option"
  tr_direction :: "string option"
  tr_lot :: "pyval option"
  tr_entry_price :: "pyval option"
  tr_exit_price :: "pyval option"
  tr_entry_ts :: "string option"
  tr_exit_ts :: "string option"
  tr_mfe :: "pyval option"
  tr_mae :: "pyval option"
  tr_net_pnl :: "pyval option"
  tr_tx_cost :: "pyval option"
  tr_exit_reason :: "string option"
  tr_valid_flag :: bool
  tr_invalid_reason :: "string option"
  tr_updated_at :: "string option"

record order_record =
  or_broker_order_id :: string
  or_trade_id :: "string option"
  or_requested_price :: "pyval option"
  or_requested_lot :: "pyval option"
  or_order_state :: "string option"
  or_submit_ts :: "string option"
  or_ack_ts :: "string option"
  or_done_ts :: "string option"
  or_broker_response :: "pyval option"
  or_updated_at :: "string option"

record position_record =
  po_broker_position_id :: string
  po_trade_id :: "string option"
  po_direction :: "string option"
  po_lot :: "pyval option"
  po_open_price :: "pyval option"
  po_close_price :: "pyval option"
  po_open_ts :: "string option"
  po_close_ts :: "string option"
  po_state :: "string option"
  po_updated_at :: "string option"

record invalid_trade_record =
  iv_trade_id :: string
  iv_invalid_reason :: string
  iv_detected_ts :: string
  iv_payload_json :: "pyval option"

record reconciliation_record =
  re_reconciliation_id :: string
  re_ts :: string
  re_trade_id :: "string option"
  re_local_state_json :: "pyval option"
  re_broker_state_json :: "pyval option"
  re_result :: "string option"
  re_details :: "pyval option"

record run_record =
  ru_reconciliation_id :: string
  ru_trigger :: string
  ru_signature :: string
  ru_result :: string
  ru_action :: string
  ru_mismatch :: bool
  ru_run_ts :: string

record adoption_record =
  ad_adoption_id :: string
  ad_reconciliation_id :: string
  ad_entity_type :: string
  ad_broker_id :: string
  ad_symbol :: "string option"
  ad_direction :: "string option"
  ad_volume :: "pyval option"
  ad_open_price :: "pyval option"
  ad_broker_state :: "string option"
  ad_reason :: string
  ad_adopted_ts :: string

record ingestion_cursor =
  ic_source_path :: string
  ic_byte_offset :: int
  ic_line_number :: "int option"
  ic_last_event_id :: "string option"
  ic_updated_ts :: string

text \<open>A record with everything but its key left at the default.\<close>

definition new_trade :: "string \<Rightarrow> trade_record" where
  "new_trade tid =
     \<lparr>tr_trade_id = tid, tr_correlation_id = None, tr_inference_id = None, tr_order_id = None,
      tr_position_id = None, tr_direction = None, tr_lot = None, tr_entry_price = None,
      tr_exit_price = None, tr_entry_ts = None, tr_exit_ts = None, tr_mfe = None, tr_mae = None,
      tr_net_pnl = None, tr_tx_cost = None, tr_exit_reason = None, tr_valid_flag = True,
      tr_invalid_reason = None, tr_updated_at = None\<rparr>"

definition new_order :: "string \<Rightarrow> order_record" where
  "new_order oid =
     \<lparr>or_broker_order_id = oid, or_trade_id = None, or_requested_price = None, or_requested_lot = None,
      or_order_state = None, or_submit_ts = None, or_ack_ts = None, or_done_ts = None,
      or_broker_response = None, or_updated_at = None\<rparr>"

definition new_position :: "string \<Rightarrow> position_record" where
  "new_position pid =
     \<lparr>po_broker_position_id = pid, po_trade_id = None, po_direction = None, po_lot = None,
      po_open_price = None, po_close_price = None, po_open_ts = None, po_close_ts = None,
      po_state = None, po_updated_at = None\<rparr>"

section \<open>Upserts\<close>

definition text_param :: "string \<Rightarrow> sqlparam" where
  "text_param s = Param (PStr s)"

definition opt_text :: "string option \<Rightarrow> sqlparam option" where
  "opt_text x = map_option text_param x"

definition trade_fields :: "trade_record \<Rightarrow> (string \<times> sqlparam option) list" where
  "trade_fields t =
     [(''trade_id'', Some (text_param (tr_trade_id t))), (''correlation_id'', opt_text (tr_correlation_id t)),
      (''inference_id'', opt_text (tr_inference_id t)), (''order_id'', opt_text (tr_order_id t)),
      (''position_id'', opt_text (tr_position_id t)), (''direction'', opt_text (tr_direction t)),
      (''lot'', map_option Param (tr_lot t)), (''entry_price'', map_option Param (tr_entry_price t)),
      (''exit_price'', map_option Param (tr_exit_price t)), (''entry_ts'', opt_text (tr_entry_ts t)),
      (''exit_ts'', opt_text (tr_exit_ts t)), (''mfe'', map_option Param (tr_mfe t)),
      (''mae'', map_option Param (tr_mae t)), (''net_pnl'', map_option Param (tr_net_pnl t)),
      (''tx_cost'', map_option Param (tr_tx_cost t)), (''exit_reason'', opt_text (tr_exit_reason t)),
      (''valid_flag'', Some (Param (PBool (tr_valid_flag t)))),
      (''invalid_reason'', opt_text (tr_invalid_reason t)), (''updated_at'', opt_text (tr_updated_at t))]"

definition order_fields :: "order_record \<Rightarrow> (string \<times> sqlparam option) list" where
  "order_fields r =
     [(''broker_order_id'', Some (text_param (or_broker_order_id r))), (''trade_id'', opt_text (or_trade_id r)),
      (''requested_price'', map_option Param (or_requested_price r)),
      (''requested_lot'', map_option Param (or_requested_lot r)), (''order_state'', opt_text (or_order_state r)),
      (''submit_ts'', opt_text (or_submit_ts r)), (''ack_ts'', opt_text (or_ack_ts r)),
      (''done_ts'', opt_text (or_done_ts r)), (''broker_response'', map_option Dumps (or_broker_response r)),
      (''updated_at'', opt_text (or_updated_at r))]"

definition position_fields :: "position_record \<Rightarrow> (string \<times> sqlparam option) list" where
  "position_fields p =
     [(''broker_position_id'', Some (text_param (po_broker_position_id p))), (''trade_id'', opt_text (po_trade_id p)),
      (''direction'', opt_text (po_direction p)), (''lot'', map_option Param (po_lot p)),
      (''open_price'', map_option Param (po_open_price p)), (''close_price'', map_option Param (po_close_price p)),
      (''open_ts'', opt_text (po_open_ts p)), (''close_ts'', opt_text (po_close_ts p)),
      (''state'', opt_text (po_state p)), (''updated_at'', opt_text (po_updated_at p))]"

definition invalid_trade_fields :: "invalid_trade_record \<Rightarrow> (string \<times> sqlparam option) list" where
  "invalid_trade_fields v =
     [(''trade_id'', Some (text_param (iv_trade_id v))), (''invalid_reason'', Some (text_param (iv_invalid_reason v))),
      (''detected_ts'', Some (text_param (iv_detected_ts v))), (''payload_json'', map_option Dumps (iv_payload_json v))]"

fun supplied :: "(string \<times> sqlparam option) list \<Rightarrow> (string \<times> sqlparam) list" where
  "supplied [] = []"
| "supplied ((c, None) # fs) = supplied fs"
| "supplied ((c, Some p) # fs) = (c, p) # supplied fs"

definition updated_at_tables :: "string list" where
  "updated_at_tables = [''trades'', ''orders'', ''positions'']"

definition upsert_params :: "string \<Rightarrow> string \<Rightarrow> (string \<times> sqlparam) list \<Rightarrow> database \<Rightarrow> db_error + unit \<times> database" where
  "upsert_params t pk ps d =
     (case bind_row t ps of
        Inl e \<Rightarrow> Inl e
      | Inr row \<Rightarrow> Inr ((), d(t := upsert_row pk row (d t))))"

definition upsert_record ::
  "db_env \<Rightarrow> string \<Rightarrow> string \<Rightarrow> (string \<times> sqlparam option) list \<Rightarrow> (repo, db_error, unit) eff" where
  "upsert_record E t pk fs =
     (let values = supplied fs in
      if t \<in> set updated_at_tables \<and> ''updated_at'' \<notin> fst ` set values
      then bind (now_utc_ms E) (\<lambda>now. execute (upsert_params t pk (values @ [(''updated_at'', text_param now)])))
      else execute (upsert_params t pk values))"

section \<open>Inserts\<close>

definition insert_params :: "string \<Rightarrow> (string \<times> sqlparam) list \<Rightarrow> database \<Rightarrow> db_error + bool \<times> database" where
  "insert_params t ps d =
     (case bind_row t ps of
        Inl e \<Rightarrow> Inl e
      | Inr row \<Rightarrow>
          (case insert_ignore (primary_key t) row (d t) of (inserted, tab) \<Rightarrow> Inr (inserted, d(t := tab))))"

definition or_null :: "sqlparam option \<Rightarrow> sqlparam" where
  "or_null x = (case x of None \<Rightarrow> Param PNone | Some p \<Rightarrow> p)"

definition reconciliation_params :: "reconciliation_record \<Rightarrow> (string \<times> sqlparam) list" where
  "reconciliation_params r =
     [(''reconciliation_id'', text_param (re_reconciliation_id r)), (''ts'', text_param (re_ts r)),
      (''trade_id'', or_null (opt_text (re_trade_id r))),
      (''local_state_json'', or_null (map_option Dumps (re_local_state_json r))),
      (''broker_state_json'', or_null (map_option Dumps (re_broker_state_json r))),
      (''result'', or_null (opt_text (re_result r))), (''details'', or_null (map_option Dumps (re_details r)))]"

definition run_params :: "run_record \<Rightarrow> (string \<times> sqlparam) list" where
  "run_params r =
     [(''reconciliation_id'', text_param (ru_reconciliation_id r)), (''trigger'', text_param (ru_trigger r)),
      (''signature'', text_param (ru_signature r)), (''result'', text_param (ru_result r)),
      (''action'', text_param (ru_action r)), (''mismatch'', Param (PInt (if ru_mismatch r then 1 else 0))),
      (''run_ts'', text_param (ru_run_ts r))]"

definition adoption_params :: "adoption_record \<Rightarrow> (string \<times> sqlparam) list" where
  "adoption_params a =
     [(''adoption_id'', text_param (ad_adoption_id a)),
      (''reconciliation_id'', text_param (ad_reconciliation_id a)),
      (''entity_type'', text_param (ad_entity_type a)), (''broker_id'', text_param (ad_broker_id a)),
      (''symbol'', or_null (opt_text (ad_symbol a))), (''direction'', or_null (opt_text (ad_direction a))),
      (''volume'', or_null (map_option Param (ad_volume a))),
      (''open_price'', or_null (map_option Param (ad_open_price a))),
      (''broker_state'', or_null (opt_text (ad_broker_state a))), (''reason'', text_param (ad_reason a)),
      (''adopted_ts'', text_param (ad_adopted_ts a))]"

definition write_reconciliation_run :: "run_record \<Rightarrow> (repo, db_error, bool) eff" where
  "write_reconciliation_run r = execute (insert_params ''reconciliation_runs'' (run_params r))"

definition write_reconciliation_adoption :: "adoption_record \<Rightarrow> (repo, db_error, bool) eff" where
  "write_reconciliation_adoption a = execute (insert_params ''reconciliation_adoptions'' (adoption_params a))"

definition cursor_params :: "ingestion_cursor \<Rightarrow> (string \<times> sqlparam) list" where
  "cursor_params c =
     [(''source_path'', text_param (ic_source_path c)), (''byte_offset'', Param (PInt (ic_byte_offset c))),
      (''line_number'', or_null (map_option (\<lambda>i. Param (PInt i)) (ic_line_number c))),
      (''last_event_id'', or_null (opt_text (ic_last_event_id c))), (''updated_ts'', text_param (ic_updated_ts c))]"

definition write_ingestion_cursor :: "ingestion_cursor \<Rightarrow> (repo, db_error, unit) eff" where
  "write_ingestion_cursor c = execute (upsert_params ''ingestion_cursor'' ''source_path'' (cursor_params c))"

definition cursor_of ::
  "db_env \<Rightarrow> string \<Rightarrow> int \<Rightarrow> int option \<Rightarrow> string option \<Rightarrow> (repo, db_error, ingestion_cursor) eff" where
  "cursor_of E path offset line eid =
     bind (now_utc_ms E) (\<lambda>now. ret
       \<lparr>ic_source_path = path, ic_byte_offset = offset, ic_line_number = line, ic_last_event_id = eid,
        ic_updated_ts = now\<rparr>)"

section \<open>Reading rows\<close>

fun cell_text :: "sqlval \<Rightarrow> string option" where
  "cell_text (SqlText s) = Some s"
| "cell_text v = None"

fun cell_number :: "sqlval \<Rightarrow> pyval option" where
  "cell_number (SqlReal x) = Some (PFloat x)"
| "cell_number (SqlInt i) = Some (PInt i)"
| "cell_number v = None"

fun cell_int :: "sqlval \<Rightarrow> int option" where
  "cell_int (SqlInt i) = Some i"
| "cell_int v = None"

fun cell_json :: "sqlval \<Rightarrow> pyval option" where
  "cell_json (SqlJson v) = Some v"
| "cell_json v = None"

definition text_of :: "sqlrow \<Rightarrow> string \<Rightarrow> string" where
  "text_of row c = (case cell_text (cell row c) of None \<Rightarrow> [] | Some s \<Rightarrow> s)"

definition flag_of :: "sqlrow \<Rightarrow> string \<Rightarrow> bool" where
  "flag_of row c \<longleftrightarrow> cell row c \<noteq> SqlNull \<and> cell row c \<noteq> SqlInt 0"

definition trade_from_row :: "sqlrow \<Rightarrow> trade_record" where
  "trade_from_row row =
     \<lparr>tr_trade_id = text_of row ''trade_id'', tr_correlation_id = cell_text (cell row ''correlation_id''),
      tr_inference_id = cell_text (cell row ''inference_id''), tr_order_id = cell_text (cell row ''order_id''),
      tr_position_id = cell_text (cell row ''position_id''), tr_direction = cell_text (cell row ''direction''),
      tr_lot = cell_number (cell row ''lot''), tr_entry_price = cell_number (cell row ''entry_price''),
      tr_exit_price = cell_number (cell row ''exit_price''), tr_entry_ts = cell_text (cell row ''entry_ts''),
      tr_exit_ts = cell_text (cell row ''exit_ts''), tr_mfe = cell_number (cell row ''mfe''),
      tr_mae = cell_number (cell row ''mae''), tr_net_pnl = cell_number (cell row ''net_pnl''),
      tr_tx_cost = cell_number (cell row ''tx_cost''), tr_exit_reason = cell_text (cell row ''exit_reason''),
      tr_valid_flag = flag_of row ''valid_flag'', tr_invalid_reason = cell_text (cell row ''invalid_reason''),
      tr_updated_at = cell_text (cell row ''updated_at'')\<rparr>"

definition order_from_row :: "sqlrow \<Rightarrow> order_record" where
  "order_from_row row =
     \<lparr>or_broker_order_id = text_of row ''broker_order_id'', or_trade_id = cell_text (cell row ''trade_id''),
      or_requested_price = cell_number (cell row ''requested_price''),
      or_requested_lot = cell_number (cell row ''requested_lot''),
      or_order_state = cell_text (cell row ''order_state''), or_submit_ts = cell_text (cell row ''submit_ts''),
      or_ack_ts = cell_text (cell row ''ack_ts''), or_done_ts = cell_text (cell row ''done_ts''),
      or_broker_response = cell_json (cell row ''broker_response''),
      or_updated_at = cell_text (cell row ''updated_at'')\<rparr>"

definition position_from_row :: "sqlrow \<Rightarrow> position_record" where
  "position_from_row row =
     \<lparr>po_broker_position_id = text_of row ''broker_position_id'', po_trade_id = cell_text (cell row ''trade_id''),
      po_direction = cell_text (cell row ''direction''), po_lot = cell_number (cell row ''lot''),
      po_open_price = cell_number (cell row ''open_price''), po_close_price = cell_number (cell row ''close_price''),
      po_open_ts = cell_text (cell row ''open_ts''), po_close_ts = cell_text (cell row ''close_ts''),
      po_state = cell_text (cell row ''state''), po_updated_at = cell_text (cell row ''updated_at'')\<rparr>"

definition run_from_row :: "sqlrow \<Rightarrow> run_record" where
  "run_from_row row =
     \<lparr>ru_reconciliation_id = text_of row ''reconciliation_id'', ru_trigger = text_of row ''trigger'',
      ru_signature = text_of row ''signature'', ru_result = text_of row ''result'',
      ru_action = text_of row ''action'', ru_mismatch = flag_of row ''mismatch'', ru_run_ts = text_of row ''run_ts''\<rparr>"

definition adoption_from_row :: "sqlrow \<Rightarrow> adoption_record" where
  "adoption_from_row row =
     \<lparr>ad_adoption_id = text_of row ''adoption_id'', ad_reconciliation_id = text_of row ''reconciliation_id'',
      ad_entity_type = text_of row ''entity_type'', ad_broker_id = text_of row ''broker_id'',
      ad_symbol = cell_text (cell row ''symbol''), ad_direction = cell_text (cell row ''direction''),
      ad_volume = cell_number (cell row ''volume''), ad_open_price = cell_number (cell row ''open_price''),
      ad_broker_state = cell_text (cell row ''broker_state''), ad_reason = text_of row ''reason'',
      ad_adopted_ts = text_of row ''adopted_ts''\<rparr>"

definition cursor_from_row :: "sqlrow \<Rightarrow> ingestion_cursor" where
  "cursor_from_row row =
     \<lparr>ic_source_path = text_of row ''source_path'',
      ic_byte_offset = (case cell_int (cell row ''byte_offset'') of None \<Rightarrow> 0 | Some i \<Rightarrow> i),
      ic_line_number = cell_int (cell row ''line_number''),
      ic_last_event_id = cell_text (cell row ''last_event_id''), ic_updated_ts = text_of row ''updated_ts''\<rparr>"

definition read_ingestion_cursor :: "database \<Rightarrow> string \<Rightarrow> ingestion_cursor option" where
  "read_ingestion_cursor d path =
     map_option cursor_from_row (select_key ''source_path'' (SqlText path) (d ''ingestion_cursor''))"

text \<open>\<open>ORDER BY run_ts DESC, reconciliation_id DESC\<close>.\<close>

definition read_reconciliation_runs :: "database \<Rightarrow> nat \<Rightarrow> run_record list" where
  "read_reconciliation_runs d limit =
     take limit (rev (sort_key (\<lambda>r. (ru_run_ts r, ru_reconciliation_id r)) (map run_from_row (d ''reconciliation_runs''))))"

definition read_latest_reconciliation_run :: "database \<Rightarrow> run_record option" where
  "read_latest_reconciliation_run d = (case read_reconciliation_runs d 1 of [] \<Rightarrow> None | r # rs \<Rightarrow> Some r)"

definition read_adoptions_for :: "database \<Rightarrow> string \<Rightarrow> adoption_record list" where
  "read_adoptions_for d rid =
     sort_key (\<lambda>a. (ad_entity_type a, ad_broker_id a))
       (map adoption_from_row (filter (\<lambda>row. cell row ''reconciliation_id'' = SqlText rid) (d ''reconciliation_adoptions'')))"

end
