(* ===== verification/PsProject.thy ===== *)
theory PsProject
  imports PsRecords
begin

text \<open>
  The projection of an event into the derived tables: \<open>src/collector/persistence/projector.py\<close>.
  \<open>payload[k]\<close> raises \<open>Missing_key\<close> where the key is absent. \<open>str(payload[k])\<close> is only modelled for a
  string, which is what every field it is applied to holds once the event is validated
  (\<open>projection_total\<close> below): any other value raises \<open>Unexpected_payload\<close>, as do the assertions.
\<close>

definition payload_field :: "pydict \<Rightarrow> string \<Rightarrow> (repo, db_error, pyval) eff" where
  "payload_field p k = (case dget p k of None \<Rightarrow> raise (Missing_key k) | Some v \<Rightarrow> ret v)"

definition text_field :: "pydict \<Rightarrow> string \<Rightarrow> (repo, db_error, string) eff" where
  "text_field p k =
     bind (payload_field p k) (\<lambda>v. case v of PStr s \<Rightarrow> ret s | _ \<Rightarrow> raise (Unexpected_payload k))"

fun int_or_float :: "pyval \<Rightarrow> bool" where
  "int_or_float (PInt i) \<longleftrightarrow> True"
| "int_or_float (PFloat x) \<longleftrightarrow> True"
| "int_or_float v \<longleftrightarrow> False"

definition number_field :: "pydict \<Rightarrow> string \<Rightarrow> (repo, db_error, pyval) eff" where
  "number_field p k =
     bind (payload_field p k) (\<lambda>v. if int_or_float v then ret v else raise (Unexpected_payload k))"

definition trade_key :: "envelope \<Rightarrow> string" where
  "trade_key e = or_else (e_trade_id e) []"

section \<open>Handlers\<close>

definition apply_order_acknowledged :: "db_env \<Rightarrow> envelope \<Rightarrow> pydict \<Rightarrow> (repo, db_error, unit) eff" where
  "apply_order_acknowledged E e p =
     bind (text_field p ''broker_order_id'') (\<lambda>oid.
     bind (text_field p ''broker_state'') (\<lambda>st.
     bind (text_field p ''ack_ts'') (\<lambda>ts.
       upsert_record E ''orders'' ''broker_order_id''
         (order_fields ((new_order oid)\<lparr>or_trade_id := e_trade_id e, or_order_state := Some st, or_ack_ts := Some ts\<rparr>)))))"

definition apply_order_filled :: "db_env \<Rightarrow> envelope \<Rightarrow> pydict \<Rightarrow> (repo, db_error, unit) eff" where
  "apply_order_filled E e p =
     bind (text_field p ''broker_order_id'') (\<lambda>oid.
     bind (text_field p ''fill_ts'') (\<lambda>ts.
     bind (payload_field p ''broker_deal_id'') (\<lambda>deal.
     bind (payload_field p ''fill_price'') (\<lambda>price.
     bind (payload_field p ''fill_volume'') (\<lambda>volume.
     bind (payload_field p ''slippage'') (\<lambda>slip.
       upsert_record E ''orders'' ''broker_order_id''
         (order_fields ((new_order oid)
            \<lparr>or_order_state := Some ''FILLED'', or_done_ts := Some ts,
             or_broker_response := Some (PDict
               [(''broker_deal_id'', deal), (''fill_price'', price), (''fill_volume'', volume), (''slippage'', slip)])\<rparr>))))))))"

definition apply_position_opened :: "db_env \<Rightarrow> envelope \<Rightarrow> pydict \<Rightarrow> (repo, db_error, unit) eff" where
  "apply_position_opened E e p =
     bind (text_field p ''broker_position_id'') (\<lambda>pid.
     bind (number_field p ''volume'') (\<lambda>lot.
     bind (text_field p ''direction'') (\<lambda>dir.
     bind (payload_field p ''open_price'') (\<lambda>price.
     bind (text_field p ''open_ts'') (\<lambda>ts.
     bind (upsert_record E ''positions'' ''broker_position_id''
        (position_fields ((new_position pid)
           \<lparr>po_trade_id := e_trade_id e, po_direction := Some dir, po_lot := Some lot,
            po_open_price := Some price, po_open_ts := Some ts, po_state := Some ''OPEN''\<rparr>))) (\<lambda>_.
       upsert_record E ''trades'' ''trade_id''
         (trade_fields ((new_trade (trade_key e))
            \<lparr>tr_position_id := Some pid, tr_direction := Some dir, tr_lot := Some lot,
             tr_entry_price := Some price, tr_entry_ts := Some ts\<rparr>))))))))"

definition apply_position_updated :: "db_env \<Rightarrow> envelope \<Rightarrow> pydict \<Rightarrow> (repo, db_error, unit) eff" where
  "apply_position_updated E e p =
     bind (payload_field p ''mfe_usd'') (\<lambda>mfe.
     bind (payload_field p ''mae_usd'') (\<lambda>mae.
       upsert_record E ''trades'' ''trade_id''
         (trade_fields ((new_trade (trade_key e))\<lparr>tr_mfe := Some mfe, tr_mae := Some mae\<rparr>))))"

definition apply_position_closed :: "db_env \<Rightarrow> envelope \<Rightarrow> pydict \<Rightarrow> (repo, db_error, unit) eff" where
  "apply_position_closed E e p =
     bind (text_field p ''broker_position_id'') (\<lambda>pid.
     bind (payload_field p ''exit_fill_price'') (\<lambda>price.
     bind (text_field p ''exit_fill_ts'') (\<lambda>ts.
     bind (upsert_record E ''positions'' ''broker_position_id''
        (position_fields ((new_position pid)
           \<lparr>po_close_price := Some price, po_close_ts := Some ts, po_state := Some ''CLOSED''\<rparr>))) (\<lambda>_.
     bind (payload_field p ''net_pnl_usd'') (\<lambda>net.
     bind (payload_field p ''transaction_cost_usd'') (\<lambda>cost.
     bind (text_field p ''exit_reason'') (\<lambda>reason.
       upsert_record E ''trades'' ''trade_id''
         (trade_fields ((new_trade (trade_key e))
            \<lparr>tr_exit_price := Some price, tr_exit_ts := Some ts, tr_net_pnl := Some net,
             tr_tx_cost := Some cost, tr_exit_reason := Some reason\<rparr>)))))))))"

definition apply_risk_gate_reject :: "db_env \<Rightarrow> envelope \<Rightarrow> pydict \<Rightarrow> (repo, db_error, unit) eff" where
  "apply_risk_gate_reject E e p =
     bind (text_field p ''rejection_reason'') (\<lambda>reason.
       upsert_record E ''invalid_trades'' ''trade_id''
         (invalid_trade_fields
            \<lparr>iv_trade_id = trade_key e, iv_invalid_reason = reason, iv_detected_ts = e_ts_collected e,
             iv_payload_json = Some (PDict p)\<rparr>))"

definition apply_reconciliation :: "envelope \<Rightarrow> pydict \<Rightarrow> (repo, db_error, unit) eff" where
  "apply_reconciliation e p =
     bind (text_field p ''reconciliation_id'') (\<lambda>rid.
     bind (payload_field p ''trigger'') (\<lambda>trig.
     bind (payload_field p ''mismatch'') (\<lambda>mis.
     bind (payload_field p ''action'') (\<lambda>act.
     let details = [(''trigger'', trig), (''mismatch'', mis), (''action'', act)]
           @ (case dget p ''mismatch_details'' of None \<Rightarrow> [] | Some v \<Rightarrow> [(''mismatch_details'', v)]) in
     bind (text_field p ''ts'') (\<lambda>ts.
     bind (payload_field p ''local_state'') (\<lambda>loc.
     bind (payload_field p ''broker_state'') (\<lambda>bro.
     bind (text_field p ''result'') (\<lambda>res.
     bind (execute (insert_params ''reconciliation_events''
        (reconciliation_params
           \<lparr>re_reconciliation_id = rid, re_ts = ts, re_trade_id = e_trade_id e, re_local_state_json = Some loc,
            re_broker_state_json = Some bro, re_result = Some res, re_details = Some (PDict details)\<rparr>))) (\<lambda>_.
       ret ())))))))))"

definition snapshot_params :: "envelope \<Rightarrow> pydict \<Rightarrow> string \<Rightarrow> string \<Rightarrow> string \<Rightarrow> pyval \<Rightarrow> (string \<times> sqlparam) list" where
  "snapshot_params e p sid m1 m5 atr =
     [(''snapshot_id'', text_param sid), (''trade_id'', or_null (opt_text (e_trade_id e))),
      (''ts'', text_param (e_ts_event e)), (''bar_m1'', text_param m1), (''bar_m5'', text_param m5),
      (''atr_m1'', Param atr), (''atr_m5'', Param (dget_default p ''atr_m5'' PNone)),
      (''features_json'',
        (case dget_default p ''derived_features'' PNone of PNone \<Rightarrow> Param PNone | v \<Rightarrow> Dumps v))]"

definition apply_context_built :: "envelope \<Rightarrow> pydict \<Rightarrow> (repo, db_error, unit) eff" where
  "apply_context_built e p =
     bind (text_field p ''context_snapshot_id'') (\<lambda>sid.
     bind (text_field p ''m1_context_ref'') (\<lambda>m1.
     bind (text_field p ''m5_context_ref'') (\<lambda>m5.
     bind (payload_field p ''atr_m1'') (\<lambda>atr.
     bind (execute (insert_params ''market_snapshots'' (snapshot_params e p sid m1 m5 atr))) (\<lambda>_.
       ret ())))))"

definition apply_derived_state :: "db_env \<Rightarrow> envelope \<Rightarrow> (repo, db_error, unit) eff" where
  "apply_derived_state E e =
     (let p = e_payload e in
      case e_event_type e of
        ORDER_ACKNOWLEDGED \<Rightarrow> apply_order_acknowledged E e p
      | ORDER_FILLED \<Rightarrow> apply_order_filled E e p
      | POSITION_OPENED \<Rightarrow> apply_position_opened E e p
      | POSITION_UPDATED \<Rightarrow> apply_position_updated E e p
      | POSITION_CLOSED \<Rightarrow> apply_position_closed E e p
      | RISK_GATE \<Rightarrow> (if gate_rejects p then apply_risk_gate_reject E e p else ret ())
      | RECONCILIATION \<Rightarrow> apply_reconciliation e p
      | CONTEXT_BUILT \<Rightarrow> apply_context_built e p
      | _ \<Rightarrow> ret ())"

section \<open>A validated event is projected\<close>

text \<open>The values a column accepts; only an integer beyond 64 bits is refused.\<close>

fun plain :: "sqlparam \<Rightarrow> bool" where
  "plain (Dumps v) \<longleftrightarrow> True"
| "plain (Param (PList vs)) \<longleftrightarrow> False"
| "plain (Param (PDict d)) \<longleftrightarrow> False"
| "plain (Param (PObj n)) \<longleftrightarrow> False"
| "plain (Param v) \<longleftrightarrow> True"

definition only_overflow :: "(repo, db_error, 'a) eff \<Rightarrow> bool" where
  "only_overflow m \<longleftrightarrow> (\<forall>r e r'. m r = (Inl e, r') \<longrightarrow> e = Int_too_large)"

lemma only_overflow_ret: "only_overflow (ret x)"
  by (simp add: only_overflow_def ret_def)

lemma only_overflow_bind: "only_overflow m \<Longrightarrow> (\<And>x. only_overflow (f x)) \<Longrightarrow> only_overflow (bind m f)"
  by (fastforce simp: only_overflow_def bind_def split: prod.splits sum.splits)

lemma bind_param_plain: "plain p \<Longrightarrow> bind_param p = Inl e \<Longrightarrow> e = Int_too_large"
  by (cases p rule: bind_param.cases) (auto split: if_splits)

lemma bind_row_plain: "list_all (plain \<circ> snd) ps \<Longrightarrow> bind_row t ps = Inl e \<Longrightarrow> e = Int_too_large"
  by (induction ps rule: bind_row.induct) (auto split: sum.splits dest: bind_param_plain)

lemma only_overflow_upsert_params: "list_all (plain \<circ> snd) ps \<Longrightarrow> only_overflow (execute (upsert_params t pk ps))"
  by (auto simp: only_overflow_def execute_def upsert_params_def split: sum.splits dest: bind_row_plain)

lemma only_overflow_insert_params: "list_all (plain \<circ> snd) ps \<Longrightarrow> only_overflow (execute (insert_params t ps))"
  by (auto simp: only_overflow_def execute_def insert_params_def split: sum.splits prod.splits dest: bind_row_plain)

lemma supplied_plain: "list_all (\<lambda>cf. case snd cf of None \<Rightarrow> True | Some p \<Rightarrow> plain p) fs \<Longrightarrow> list_all (plain \<circ> snd) (supplied fs)"
  by (induction fs rule: supplied.induct) auto

lemma only_overflow_upsert:
  assumes "list_all (\<lambda>cf. case snd cf of None \<Rightarrow> True | Some p \<Rightarrow> plain p) fs"
  shows "only_overflow (upsert_record E t pk fs)"
proof -
  have "only_overflow (now_utc_ms E)" by (simp add: only_overflow_def now_utc_ms_def)
  then show ?thesis
    using supplied_plain [OF assms] unfolding upsert_record_def Let_def
    by (auto intro!: only_overflow_bind only_overflow_upsert_params simp: text_param_def)
qed

lemma opt_text_plain [simp]: "case_option True plain (opt_text x)" "plain (or_null (opt_text x))" "plain (text_param s)"
  by (cases x; simp add: opt_text_def or_null_def text_param_def)+

text \<open>A required field of a validated payload is there and has its type.\<close>

lemma required_field:
  assumes "validate_payload t (PDict p) = Inr ()" and "k \<in> set (ps_required (get_spec t))"
    and "k \<noteq> unknown_field_placeholder"
  shows "\<exists>v. dget p k = Some v \<and> field_ok (get_spec t) k v"
proof -
  from validate_payload_dict [OF assms(1)] have "dhas p k \<and> (\<forall>x. (k, x) \<in> set p \<longrightarrow> field_ok (get_spec t) k x)"
    using assms(2,3) by (metis pyval.inject(6))
  then show ?thesis using dget_in by (metis dhas_iff)
qed

lemma present_field:
  assumes "validate_payload t (PDict p) = Inr ()" and "dget p k = Some v" and "k \<noteq> unknown_field_placeholder"
  shows "field_ok (get_spec t) k v"
  using validate_payload_dict [OF assms(1)] dget_in [OF assms(2)] assms(3) by (metis pyval.inject(6))

lemma typed_text:
  assumes "field_ok spec k v" and "map_of (ps_types spec) k = Some tok" and "tok \<in> {T_str, T_uuid, T_broker_id, T_iso_ts}"
  shows "\<exists>s. v = PStr s"
  using assms
  by (auto simp: field_ok_def nonempty_str_def is_system_id_def is_valid_broker_id_def is_valid_iso_utc_def iso_with_def
    split: pyval.splits)

lemma typed_number:
  assumes "field_ok spec k v" and "map_of (ps_types spec) k = Some T_number"
  shows "int_or_float v"
  using assms by (cases v) (auto simp: field_ok_def)

lemma text_field_typed:
  assumes "validate_payload t (PDict p) = Inr ()" and "k \<in> set (ps_required (get_spec t))"
    and "map_of (ps_types (get_spec t)) k = Some tok" and "tok \<in> {T_str, T_uuid, T_broker_id, T_iso_ts}"
    and "k \<noteq> unknown_field_placeholder"
  shows "\<exists>s. text_field p k = ret s \<and> dget p k = Some (PStr s)"
  using required_field [OF assms(1,2,5)] typed_text [OF _ assms(3,4)]
  by (fastforce simp: text_field_def payload_field_def bind_ret)

lemma number_field_typed:
  assumes "validate_payload t (PDict p) = Inr ()" and "k \<in> set (ps_required (get_spec t))"
    and "map_of (ps_types (get_spec t)) k = Some T_number" and "k \<noteq> unknown_field_placeholder"
  shows "\<exists>v. payload_field p k = ret v \<and> number_field p k = ret v \<and> plain (Param v)"
proof -
  obtain v where v: "dget p k = Some v" "field_ok (get_spec t) k v" using required_field [OF assms(1,2,4)] by blast
  then have "int_or_float v" using typed_number assms(3) by blast
  then show ?thesis using v by (cases v) (auto simp: payload_field_def number_field_def bind_ret)
qed

lemma any_field: "validate_payload t (PDict p) = Inr () \<Longrightarrow> k \<in> set (ps_required (get_spec t)) \<Longrightarrow>
    k \<noteq> unknown_field_placeholder \<Longrightarrow> \<exists>v. payload_field p k = ret v"
  using required_field [of t p k] by (auto simp: payload_field_def)

lemmas spec_defs = spec_order_acknowledged_def spec_order_filled_def spec_position_opened_def
  spec_position_updated_def spec_position_closed_def spec_risk_gate_def spec_reconciliation_def
  spec_context_built_def unknown_field_placeholder_def

lemmas record_fields = order_fields_def position_fields_def trade_fields_def invalid_trade_fields_def
  new_order_def new_position_def new_trade_def

lemma projects_order_acknowledged:
  assumes "validate_payload ORDER_ACKNOWLEDGED (PDict p) = Inr ()"
  shows "only_overflow (apply_order_acknowledged E e p)"
proof -
  note texts = text_field_typed [OF assms]
  obtain a b c where f: "text_field p ''broker_order_id'' = ret a" "text_field p ''broker_state'' = ret b"
      "text_field p ''ack_ts'' = ret c"
    using texts [of "''broker_order_id''" T_broker_id] texts [of "''broker_state''" T_str] texts [of "''ack_ts''" T_iso_ts]
    by (auto simp: spec_defs)
  show ?thesis unfolding apply_order_acknowledged_def f bind_ret
    by (rule only_overflow_upsert) (simp add: record_fields opt_text_def split: option.splits)
qed

lemma projects_order_filled:
  assumes "validate_payload ORDER_FILLED (PDict p) = Inr ()"
  shows "only_overflow (apply_order_filled E e p)"
proof -
  note texts = text_field_typed [OF assms] and any = any_field [OF assms]
  obtain a b c d x y where f: "text_field p ''broker_order_id'' = ret a" "text_field p ''fill_ts'' = ret b"
      "payload_field p ''broker_deal_id'' = ret c" "payload_field p ''fill_price'' = ret d"
      "payload_field p ''fill_volume'' = ret x" "payload_field p ''slippage'' = ret y"
    using texts [of "''broker_order_id''" T_broker_id] texts [of "''fill_ts''" T_iso_ts]
      any [of "''broker_deal_id''"] any [of "''fill_price''"] any [of "''fill_volume''"] any [of "''slippage''"]
    by (auto simp: spec_defs)
  show ?thesis unfolding apply_order_filled_def f bind_ret
    by (rule only_overflow_upsert) (simp add: record_fields opt_text_def split: option.splits)
qed

lemma projects_position_opened:
  assumes "validate_payload POSITION_OPENED (PDict p) = Inr ()"
  shows "only_overflow (apply_position_opened E e p)"
proof -
  note texts = text_field_typed [OF assms] and number = number_field_typed [OF assms]
  obtain a b c where f: "text_field p ''broker_position_id'' = ret a" "text_field p ''direction'' = ret b"
      "text_field p ''open_ts'' = ret c"
    using texts [of "''broker_position_id''" T_broker_id] texts [of "''direction''" T_str] texts [of "''open_ts''" T_iso_ts]
    by (auto simp: spec_defs)
  obtain x y where n: "number_field p ''volume'' = ret x" "plain (Param x)"
      "payload_field p ''open_price'' = ret y" "plain (Param y)"
    using number [of "''volume''"] number [of "''open_price''"] by (auto simp: spec_defs)
  show ?thesis unfolding apply_position_opened_def f n(1,3) bind_ret
    by (intro only_overflow_bind only_overflow_upsert)
      (simp_all add: record_fields n(2,4) opt_text_def split: option.splits)
qed

lemma projects_position_updated:
  assumes "validate_payload POSITION_UPDATED (PDict p) = Inr ()"
  shows "only_overflow (apply_position_updated E e p)"
proof -
  note number = number_field_typed [OF assms]
  obtain x y where n: "payload_field p ''mfe_usd'' = ret x" "plain (Param x)"
      "payload_field p ''mae_usd'' = ret y" "plain (Param y)"
    using number [of "''mfe_usd''"] number [of "''mae_usd''"] by (auto simp: spec_defs)
  show ?thesis unfolding apply_position_updated_def n(1,3) bind_ret
    by (rule only_overflow_upsert) (simp add: record_fields n(2,4) opt_text_def split: option.splits)
qed

lemma projects_position_closed:
  assumes "validate_payload POSITION_CLOSED (PDict p) = Inr ()"
  shows "only_overflow (apply_position_closed E e p)"
proof -
  note texts = text_field_typed [OF assms] and number = number_field_typed [OF assms]
  obtain a b c where f: "text_field p ''broker_position_id'' = ret a" "text_field p ''exit_fill_ts'' = ret b"
      "text_field p ''exit_reason'' = ret c"
    using texts [of "''broker_position_id''" T_broker_id] texts [of "''exit_fill_ts''" T_iso_ts]
      texts [of "''exit_reason''" T_str]
    by (auto simp: spec_defs)
  obtain x y z where n: "payload_field p ''exit_fill_price'' = ret x" "plain (Param x)"
      "payload_field p ''net_pnl_usd'' = ret y" "plain (Param y)"
      "payload_field p ''transaction_cost_usd'' = ret z" "plain (Param z)"
    using number [of "''exit_fill_price''"] number [of "''net_pnl_usd''"] number [of "''transaction_cost_usd''"]
    by (auto simp: spec_defs)
  show ?thesis unfolding apply_position_closed_def f n(1,3,5) bind_ret
    by (intro only_overflow_bind only_overflow_upsert)
      (simp_all add: record_fields n(2,4,6) opt_text_def split: option.splits)
qed

lemma projects_risk_gate:
  assumes "validate_payload RISK_GATE (PDict p) = Inr ()" and "gate_rejects p"
  shows "only_overflow (apply_risk_gate_reject E e p)"
proof -
  have "\<forall>r \<in> set (ps_conditional (get_spec RISK_GATE)). check_rule RISK_GATE p r = None"
    using validate_payload_dict [OF assms(1)] by (metis pyval.inject(6))
  then have "dhas p ''rejection_reason''"
    using assms(2) by (auto simp: spec_defs check_rule_def gate_rejects_def dget_default_def py_eq_str split: option.splits if_splits)
  then obtain v where v: "dget p ''rejection_reason'' = Some v" by (auto simp: dhas_iff)
  then have "field_ok (get_spec RISK_GATE) ''rejection_reason'' v" using present_field [OF assms(1)] by (simp add: spec_defs)
  then obtain s where "v = PStr s" using typed_text [where tok = T_str] by (force simp: spec_defs)
  then have "text_field p ''rejection_reason'' = ret s" using v by (simp add: text_field_def payload_field_def bind_ret)
  then show ?thesis unfolding apply_risk_gate_reject_def
    by (simp only: bind_ret) (rule only_overflow_upsert, simp add: record_fields)
qed

lemma projects_reconciliation:
  assumes "validate_payload RECONCILIATION (PDict p) = Inr ()"
  shows "only_overflow (apply_reconciliation e p)"
proof -
  note texts = text_field_typed [OF assms] and any = any_field [OF assms]
  obtain a b c where f: "text_field p ''reconciliation_id'' = ret a" "text_field p ''ts'' = ret b"
      "text_field p ''result'' = ret c"
    using texts [of "''reconciliation_id''" T_uuid] texts [of "''ts''" T_iso_ts] texts [of "''result''" T_str]
    by (auto simp: spec_defs)
  obtain d x y z w where g: "payload_field p ''trigger'' = ret d" "payload_field p ''mismatch'' = ret x"
      "payload_field p ''action'' = ret y" "payload_field p ''local_state'' = ret z" "payload_field p ''broker_state'' = ret w"
    using any [of "''trigger''"] any [of "''mismatch''"] any [of "''action''"] any [of "''local_state''"]
      any [of "''broker_state''"]
    by (auto simp: spec_defs)
  show ?thesis unfolding apply_reconciliation_def f g bind_ret Let_def
    by (intro only_overflow_bind only_overflow_insert_params only_overflow_ret)
      (simp add: reconciliation_params_def or_null_def opt_text_def split: option.splits)
qed

lemma projects_context_built:
  assumes "validate_payload CONTEXT_BUILT (PDict p) = Inr ()"
  shows "only_overflow (apply_context_built e p)"
proof -
  note texts = text_field_typed [OF assms] and number = number_field_typed [OF assms]
  obtain a b c where f: "text_field p ''context_snapshot_id'' = ret a" "text_field p ''m1_context_ref'' = ret b"
      "text_field p ''m5_context_ref'' = ret c"
    using texts [of "''context_snapshot_id''" T_str] texts [of "''m1_context_ref''" T_str] texts [of "''m5_context_ref''" T_str]
    by (auto simp: spec_defs)
  obtain x where n: "payload_field p ''atr_m1'' = ret x" "plain (Param x)"
    using number [of "''atr_m1''"] by (auto simp: spec_defs)
  have "plain (Param (dget_default p ''atr_m5'' PNone))"
  proof (cases "dget p ''atr_m5''")
    case None
    then show ?thesis by (simp add: dget_default_def)
  next
    case (Some v)
    then have "field_ok (get_spec CONTEXT_BUILT) ''atr_m5'' v" using present_field [OF assms] by (simp add: spec_defs)
    then have "int_or_float v" using typed_number by (force simp: spec_defs)
    then show ?thesis using Some by (cases v) (simp_all add: dget_default_def)
  qed
  then show ?thesis unfolding apply_context_built_def snapshot_params_def f n(1) bind_ret
    by (intro only_overflow_bind only_overflow_insert_params only_overflow_ret) (simp add: n(2) split: pyval.splits)
qed

lemma projection_total:
  assumes "validate_payload (e_event_type e) (PDict (e_payload e)) = Inr ()"
  shows "only_overflow (apply_derived_state E e)"
  using assms
  by (cases "e_event_type e")
    (auto simp: apply_derived_state_def Let_def only_overflow_ret projects_order_acknowledged projects_order_filled
      projects_position_opened projects_position_updated projects_position_closed projects_risk_gate
      projects_reconciliation projects_context_built)

text \<open>A handler only writes to the open transaction.\<close>

lemma on_work_upsert [pres_rules]: "pres on_work (upsert_record E t pk fs)"
  by (simp add: upsert_record_def Let_def pres_rules)

lemma on_work_fields [pres_rules]:
  "pres on_work (payload_field p k)" "pres on_work (text_field p k)" "pres on_work (number_field p k)"
proof -
  show one: "pres on_work (payload_field p k)" for p k by (auto simp: payload_field_def pres_rules)
  show "pres on_work (text_field p k)"
    by (auto simp: text_field_def intro!: pres_bind on_work_preorder one pres_ret pres_raise split: pyval.splits)
  show "pres on_work (number_field p k)"
    by (auto simp: number_field_def intro!: pres_bind on_work_preorder one pres_ret pres_raise)
qed

lemma on_work_projection [pres_rules]: "pres on_work (apply_derived_state E e)"
  by (cases "e_event_type e")
    (simp_all add: apply_derived_state_def apply_order_acknowledged_def apply_order_filled_def apply_position_opened_def
      apply_position_updated_def apply_position_closed_def apply_risk_gate_reject_def apply_reconciliation_def
      apply_context_built_def Let_def pres_rules)

end
