(* ===== verification/PsRepository.thy ===== *)
theory PsRepository
  imports PsProject
begin

text \<open>
  The repository: the append-only event table, the derived tables, queries, and every transaction of
  \<open>src/collector/persistence/repository.py\<close>.
\<close>

section \<open>Events as rows\<close>

record insert_result =
  ir_inserted :: bool
  ir_duplicate :: bool
  ir_identical :: bool

definition event_params :: "envelope \<Rightarrow> (string \<times> sqlparam) list" where
  "event_params e =
     [(''event_id'', text_param (e_event_id e)), (''event_type'', text_param (event_type_value (e_event_type e))),
      (''ts_event'', text_param (e_ts_event e)), (''ts_collected'', text_param (e_ts_collected e)),
      (''ts_monotonic'', Param (PInt (e_ts_monotonic e))),
      (''correlation_id'', or_null (opt_text (e_correlation_id e))), (''trade_id'', or_null (opt_text (e_trade_id e))),
      (''component'', text_param (e_component e)), (''severity'', text_param (e_severity e)),
      (''schema_version'', text_param (e_schema_version e)), (''payload_json'', Dumps (PDict (e_payload e))),
      (''checksum'', text_param (e_checksum e))]"

fun cell_value :: "sqlval \<Rightarrow> pyval" where
  "cell_value SqlNull = PNone"
| "cell_value (SqlInt i) = PInt i"
| "cell_value (SqlReal x) = PFloat x"
| "cell_value (SqlText s) = PStr s"
| "cell_value (SqlJson v) = PObj ''json text''"

definition unless_null :: "sqlrow \<Rightarrow> string \<Rightarrow> pydict" where
  "unless_null row c = (if cell row c = SqlNull then [] else [(c, cell_value (cell row c))])"

definition row_data :: "sqlrow \<Rightarrow> pydict" where
  "row_data row =
     map (\<lambda>c. (c, cell_value (cell row c)))
       [''event_id'', ''event_type'', ''ts_event'', ''ts_collected'', ''ts_monotonic'', ''component'',
        ''severity'', ''schema_version'', ''checksum'']
     @ unless_null row ''correlation_id'' @ unless_null row ''trade_id''"

definition row_to_event :: "(pyval \<Rightarrow> string) \<Rightarrow> sqlrow \<Rightarrow> contract_error + envelope" where
  "row_to_event digest row =
     (case cell_json (cell row ''payload_json'') of
        None \<Rightarrow> Inl Bad_event
      | Some p \<Rightarrow> envelope_from_dict digest (PDict (row_data row @ [(''payload'', p)])))"

section \<open>The audit stream\<close>

definition insert_event_row :: "envelope \<Rightarrow> (repo, db_error, insert_result) eff" where
  "insert_event_row e =
     bind (execute (insert_params ''events'' (event_params e))) (\<lambda>inserted.
       if inserted then ret \<lparr>ir_inserted = True, ir_duplicate = False, ir_identical = True\<rparr>
       else
         bind (gets (\<lambda>r. select_key ''event_id'' (SqlText (e_event_id e)) (view r ''events''))) (\<lambda>existing.
           case existing of
             None \<Rightarrow> raise (Lost_insert (e_event_id e))
           | Some row \<Rightarrow>
               if cell row ''checksum'' = SqlText (e_checksum e)
               then ret \<lparr>ir_inserted = False, ir_duplicate = True, ir_identical = True\<rparr>
               else raise (Conflicting_event (e_event_id e))))"

definition check_event :: "db_env \<Rightarrow> envelope \<Rightarrow> (repo, db_error, unit) eff" where
  "check_event E e =
     bind connection (\<lambda>_.
       case validate_event_dict (PDict (envelope_to_dict e)) of
         Inl x \<Rightarrow> raise (Contract x)
       | Inr _ \<Rightarrow> if envelope_verifies (db_digest E) e then ret () else raise (Refused_checksum (e_event_id e)))"

definition insert_event :: "db_env \<Rightarrow> envelope \<Rightarrow> (repo, db_error, insert_result) eff" where
  "insert_event E e = bind (check_event E e) (\<lambda>_. transaction (insert_event_row e))"

definition insert_event_with_derived :: "db_env \<Rightarrow> envelope \<Rightarrow> (repo, db_error, insert_result) eff" where
  "insert_event_with_derived E e =
     bind (check_event E e) (\<lambda>_. transaction
       (bind (insert_event_row e) (\<lambda>result. bind (apply_derived_state E e) (\<lambda>_. ret result))))"

definition insert_event_with_cursor ::
  "db_env \<Rightarrow> envelope \<Rightarrow> ingestion_cursor \<Rightarrow> (repo, db_error, insert_result) eff" where
  "insert_event_with_cursor E e c =
     bind (check_event E e) (\<lambda>_. transaction
       (bind (insert_event_row e) (\<lambda>result. bind (write_ingestion_cursor c) (\<lambda>_. ret result))))"

fun write_adoptions :: "adoption_record list \<Rightarrow> (repo, db_error, unit) eff" where
  "write_adoptions [] = ret ()"
| "write_adoptions (a # as) = bind (write_reconciliation_adoption a) (\<lambda>_. write_adoptions as)"

definition save_reconciliation_run ::
  "db_env \<Rightarrow> envelope \<Rightarrow> run_record \<Rightarrow> adoption_record list \<Rightarrow> (repo, db_error, insert_result) eff" where
  "save_reconciliation_run E e run adoptions =
     bind (check_event E e) (\<lambda>_. transaction
       (bind (insert_event_row e) (\<lambda>result.
        bind (apply_derived_state E e) (\<lambda>_.
        bind (write_reconciliation_run run) (\<lambda>_.
        bind (write_adoptions adoptions) (\<lambda>_. ret result))))))"

definition get_event :: "db_env \<Rightarrow> string \<Rightarrow> (repo, db_error, envelope option) eff" where
  "get_event E eid =
     bind connection (\<lambda>_. bind (gets (\<lambda>r. select_key ''event_id'' (SqlText eid) (view r ''events''))) (\<lambda>row.
       case row of
         None \<Rightarrow> ret None
       | Some x \<Rightarrow>
           (case row_to_event (db_digest E) x of
              Inl _ \<Rightarrow> raise (Stored_event_invalid eid)
            | Inr e \<Rightarrow> ret (Some e))))"

record event_query =
  eq_trade_id :: "string option"
  eq_correlation_id :: "string option"
  eq_event_type :: "string option"
  eq_ts_start :: "string option"
  eq_ts_end :: "string option"
  eq_limit :: nat

definition column_is :: "sqlrow \<Rightarrow> string \<Rightarrow> string option \<Rightarrow> bool" where
  "column_is row c x = (case x of None \<Rightarrow> True | Some s \<Rightarrow> cell row c = SqlText s)"

definition query_matches :: "event_query \<Rightarrow> sqlrow \<Rightarrow> bool" where
  "query_matches q row \<longleftrightarrow>
     column_is row ''trade_id'' (eq_trade_id q) \<and> column_is row ''correlation_id'' (eq_correlation_id q)
     \<and> column_is row ''event_type'' (eq_event_type q)
     \<and> (case eq_ts_start q of None \<Rightarrow> True | Some s \<Rightarrow> s \<le> text_of row ''ts_collected'')
     \<and> (case eq_ts_end q of None \<Rightarrow> True | Some s \<Rightarrow> text_of row ''ts_collected'' \<le> s)"

fun rows_to_events :: "(pyval \<Rightarrow> string) \<Rightarrow> sqlrow list \<Rightarrow> db_error + envelope list" where
  "rows_to_events digest [] = Inr []"
| "rows_to_events digest (row # rows) =
     (case row_to_event digest row of
        Inl _ \<Rightarrow> Inl (Stored_event_invalid (text_of row ''event_id''))
      | Inr e \<Rightarrow> (case rows_to_events digest rows of Inl x \<Rightarrow> Inl x | Inr es \<Rightarrow> Inr (e # es)))"

definition of_result :: "'e + 'a \<Rightarrow> ('s, 'e, 'a) eff" where
  "of_result x = (case x of Inl e \<Rightarrow> raise e | Inr v \<Rightarrow> ret v)"

definition query_events :: "db_env \<Rightarrow> event_query \<Rightarrow> (repo, db_error, envelope list) eff" where
  "query_events E q =
     bind connection (\<lambda>_. bind (gets (\<lambda>r.
       take (eq_limit q)
         (sort_key (\<lambda>row. (text_of row ''ts_collected'', text_of row ''ts_event'', text_of row ''event_id''))
           (filter (query_matches q) (view r ''events''))))) (\<lambda>rows.
       of_result (rows_to_events (db_digest E) rows)))"

definition count_events :: "(repo, db_error, nat) eff" where
  "count_events = bind connection (\<lambda>_. gets (\<lambda>r. length (view r ''events'')))"

section \<open>Cursors and derived tables\<close>

definition get_ingestion_cursor :: "string \<Rightarrow> (repo, db_error, ingestion_cursor option) eff" where
  "get_ingestion_cursor path = bind connection (\<lambda>_. gets (\<lambda>r. read_ingestion_cursor (view r) path))"

definition save_ingestion_cursor :: "ingestion_cursor \<Rightarrow> (repo, db_error, unit) eff" where
  "save_ingestion_cursor c = transaction (write_ingestion_cursor c)"

definition upsert_trade :: "db_env \<Rightarrow> trade_record \<Rightarrow> (repo, db_error, unit) eff" where
  "upsert_trade E t = bind connection (\<lambda>_. upsert_record E ''trades'' ''trade_id'' (trade_fields t))"

definition upsert_order :: "db_env \<Rightarrow> order_record \<Rightarrow> (repo, db_error, unit) eff" where
  "upsert_order E x = bind connection (\<lambda>_. upsert_record E ''orders'' ''broker_order_id'' (order_fields x))"

definition upsert_position :: "db_env \<Rightarrow> position_record \<Rightarrow> (repo, db_error, unit) eff" where
  "upsert_position E p = bind connection (\<lambda>_. upsert_record E ''positions'' ''broker_position_id'' (position_fields p))"

definition get_trade :: "string \<Rightarrow> (repo, db_error, trade_record option) eff" where
  "get_trade tid =
     bind connection (\<lambda>_. gets (\<lambda>r. map_option trade_from_row (select_key ''trade_id'' (SqlText tid) (view r ''trades''))))"

definition ignored_result :: "bool \<Rightarrow> insert_result" where
  "ignored_result inserted = \<lparr>ir_inserted = inserted, ir_duplicate = \<not> inserted, ir_identical = True\<rparr>"

definition insert_reconciliation :: "reconciliation_record \<Rightarrow> (repo, db_error, insert_result) eff" where
  "insert_reconciliation x =
     transaction (bind (execute (insert_params ''reconciliation_events'' (reconciliation_params x))) (\<lambda>inserted.
       ret (ignored_result inserted)))"

definition invalid_trade_params :: "invalid_trade_record \<Rightarrow> (string \<times> sqlparam) list" where
  "invalid_trade_params x =
     [(''trade_id'', text_param (iv_trade_id x)), (''invalid_reason'', text_param (iv_invalid_reason x)),
      (''detected_ts'', text_param (iv_detected_ts x)),
      (''payload_json'', or_null (map_option Dumps (iv_payload_json x)))]"

definition insert_invalid_trade :: "invalid_trade_record \<Rightarrow> (repo, db_error, insert_result) eff" where
  "insert_invalid_trade x =
     transaction (bind (execute (insert_params ''invalid_trades'' (invalid_trade_params x))) (\<lambda>inserted.
       ret (ignored_result inserted)))"

definition select_open_positions :: "database \<Rightarrow> position_record list" where
  "select_open_positions d =
     map position_from_row
       (sort_key (\<lambda>row. (cell_text (cell row ''open_ts''), text_of row ''broker_position_id''))
         (filter (\<lambda>row. cell row ''state'' = SqlText ''OPEN'') (d ''positions'')))"

definition select_open_orders :: "database \<Rightarrow> order_record list" where
  "select_open_orders d =
     map order_from_row
       (sort_key (\<lambda>row. (cell_text (cell row ''submit_ts''), text_of row ''broker_order_id''))
         (filter (\<lambda>row. cell row ''order_state'' \<notin> SqlText ` {''FILLED'', ''CANCELLED'', ''REJECTED''}) (d ''orders'')))"

definition open_positions :: "(repo, db_error, position_record list) eff" where
  "open_positions = bind connection (\<lambda>_. gets (\<lambda>r. select_open_positions (view r)))"

definition open_orders :: "(repo, db_error, order_record list) eff" where
  "open_orders = bind connection (\<lambda>_. gets (\<lambda>r. select_open_orders (view r)))"

definition get_latest_reconciliation_run :: "(repo, db_error, run_record option) eff" where
  "get_latest_reconciliation_run = bind connection (\<lambda>_. gets (\<lambda>r. read_latest_reconciliation_run (view r)))"

definition recent_reconciliation_runs :: "nat \<Rightarrow> (repo, db_error, run_record list) eff" where
  "recent_reconciliation_runs limit = bind connection (\<lambda>_. gets (\<lambda>r. read_reconciliation_runs (view r) limit))"

definition adoptions_for :: "string \<Rightarrow> (repo, db_error, adoption_record list) eff" where
  "adoptions_for rid = bind connection (\<lambda>_. gets (\<lambda>r. read_adoptions_for (view r) rid))"

definition reconciliation_from_row :: "sqlrow \<Rightarrow> reconciliation_record" where
  "reconciliation_from_row row =
     \<lparr>re_reconciliation_id = text_of row ''reconciliation_id'', re_ts = text_of row ''ts'',
      re_trade_id = cell_text (cell row ''trade_id''), re_local_state_json = cell_json (cell row ''local_state_json''),
      re_broker_state_json = cell_json (cell row ''broker_state_json''), re_result = cell_text (cell row ''result''),
      re_details = cell_json (cell row ''details'')\<rparr>"

definition recent_reconciliations :: "nat \<Rightarrow> (repo, db_error, reconciliation_record list) eff" where
  "recent_reconciliations limit =
     bind connection (\<lambda>_. gets (\<lambda>r.
       take limit (rev (sort_key (\<lambda>x. (re_ts x, re_reconciliation_id x))
         (map reconciliation_from_row (view r ''reconciliation_events''))))))"

section \<open>Calls of the repository\<close>

datatype repo_call =
    Open_repo
  | Close_repo
  | Insert_event envelope
  | Insert_event_with_derived envelope
  | Insert_event_with_cursor envelope ingestion_cursor
  | Save_reconciliation_run envelope run_record "adoption_record list"
  | Save_ingestion_cursor ingestion_cursor
  | Upsert_trade trade_record
  | Upsert_order order_record
  | Upsert_position position_record
  | Insert_reconciliation reconciliation_record
  | Insert_invalid_trade invalid_trade_record

fun perform :: "db_env \<Rightarrow> repo_call \<Rightarrow> repo \<Rightarrow> repo" where
  "perform E Open_repo r = snd (open_repo r)"
| "perform E Close_repo r = snd (close_repo r)"
| "perform E (Insert_event e) r = snd (insert_event E e r)"
| "perform E (Insert_event_with_derived e) r = snd (insert_event_with_derived E e r)"
| "perform E (Insert_event_with_cursor e c) r = snd (insert_event_with_cursor E e c r)"
| "perform E (Save_reconciliation_run e run as) r = snd (save_reconciliation_run E e run as r)"
| "perform E (Save_ingestion_cursor c) r = snd (save_ingestion_cursor c r)"
| "perform E (Upsert_trade t) r = snd (upsert_trade E t r)"
| "perform E (Upsert_order x) r = snd (upsert_order E x r)"
| "perform E (Upsert_position p) r = snd (upsert_position E p r)"
| "perform E (Insert_reconciliation x) r = snd (insert_reconciliation x r)"
| "perform E (Insert_invalid_trade x) r = snd (insert_invalid_trade x r)"

section \<open>Checking an event\<close>

definition event_ok :: "(pyval \<Rightarrow> string) \<Rightarrow> envelope \<Rightarrow> bool" where
  "event_ok digest e \<longleftrightarrow>
     validate_event_dict (PDict (envelope_to_dict e)) = Inr (e_event_type e) \<and> envelope_verifies digest e"

lemma event_ok_from_dict: "event_ok digest e \<longleftrightarrow> envelope_from_dict digest (PDict (envelope_to_dict e)) = Inr e"
proof
  assume "event_ok digest e"
  then show "envelope_from_dict digest (PDict (envelope_to_dict e)) = Inr e"
    by (simp add: event_ok_def envelope_from_dict_def envelope_verifies_def envelope_of_to_dict)
next
  assume ok: "envelope_from_dict digest (PDict (envelope_to_dict e)) = Inr e"
  then obtain t where "validate_event_dict (PDict (envelope_to_dict e)) = Inr t" "e = envelope_of (envelope_to_dict e) t"
    by (auto simp: envelope_from_dict_def split: sum.splits if_splits)
  moreover from this(2) have "t = e_event_type e" by (metis envelope_of_def envelope.select_convs(2))
  ultimately show "event_ok digest e" using from_dict_round_trip(4) [OF ok distinct_envelope_keys] by (simp add: event_ok_def)
qed

lemma event_ok_payload: "event_ok digest e \<Longrightarrow> validate_payload (e_event_type e) (PDict (e_payload e)) = Inr ()"
  by (simp add: event_ok_def validate_event_dict_iff dget_default_def envelope_dget)

lemma check_event_cases:
  obtains (accepted) "check_event E e r = (Inr (), r)" and "event_ok (db_digest E) e" and "rp_open r"
    | (refused) x where "check_event E e r = (Inl x, r)"
proof (cases "rp_open r \<and> event_ok (db_digest E) e")
  case True
  then show thesis using accepted by (simp add: check_event_def connection_def bind_def event_ok_def ret_def)
next
  case False
  have "validate_event_dict (PDict (envelope_to_dict e)) = Inr u \<Longrightarrow> u = e_event_type e" for u
    by (simp add: validate_event_dict_iff dget_default_def envelope_dget event_type_value_inj)
  then have "\<exists>x. check_event E e r = (Inl x, r)"
    using False by (auto simp: check_event_def connection_def bind_def event_ok_def ret_def raise_def split: sum.splits)
  then show thesis using refused by blast
qed

end
