(* ===== verification/RcClassify.thy ===== *)
theory RcClassify
  imports PsRepository "HOL-Library.AList"
begin

text \<open>
  Comparison of the derived local state with one broker snapshot: \<open>src/collector/reconciliation/types.py\<close>,
  \<open>broker.py\<close>, \<open>mock.py\<close> and \<open>classifier.py\<close>. \<open>fmt\<close> is the text that an f-string makes of a number or of
  \<open>None\<close>.
\<close>

section \<open>Types\<close>

datatype trigger = STARTUP | POST_EXECUTION | HEARTBEAT | MISMATCH

fun trigger_value :: "trigger \<Rightarrow> string" where
  "trigger_value STARTUP = ''STARTUP''"
| "trigger_value POST_EXECUTION = ''POST_EXECUTION''"
| "trigger_value HEARTBEAT = ''HEARTBEAT''"
| "trigger_value MISMATCH = ''MISMATCH''"

datatype rec_result = RR_SYNCED | RR_ADOPTED_BROKER | RR_ESCALATED

fun rec_result_value :: "rec_result \<Rightarrow> string" where
  "rec_result_value RR_SYNCED = ''SYNCED''"
| "rec_result_value RR_ADOPTED_BROKER = ''ADOPTED_BROKER''"
| "rec_result_value RR_ESCALATED = ''ESCALATED''"

datatype shadow_state = SH_UNKNOWN | SH_SYNCED | SH_ADOPTED_BROKER | SH_ESCALATED

datatype diff_class =
    NO_MISMATCH | MISSING_LOCAL | MISSING_BROKER | CONFLICTING_STATE | DC_UNKNOWN | RECOVERABLE | UNRECOVERABLE

fun diff_class_value :: "diff_class \<Rightarrow> string" where
  "diff_class_value NO_MISMATCH = ''NO_MISMATCH''"
| "diff_class_value MISSING_LOCAL = ''MISSING_LOCAL''"
| "diff_class_value MISSING_BROKER = ''MISSING_BROKER''"
| "diff_class_value CONFLICTING_STATE = ''CONFLICTING_STATE''"
| "diff_class_value DC_UNKNOWN = ''UNKNOWN''"
| "diff_class_value RECOVERABLE = ''RECOVERABLE''"
| "diff_class_value UNRECOVERABLE = ''UNRECOVERABLE''"

record entity_diff =
  ed_entity_type :: string
  ed_broker_id :: string
  ed_class :: diff_class
  ed_reason :: string
  ed_local_summary :: string
  ed_broker_summary :: string

definition diff_to_dict :: "entity_diff \<Rightarrow> pydict" where
  "diff_to_dict d =
     [(''entity_type'', PStr (ed_entity_type d)), (''broker_id'', PStr (ed_broker_id d)),
      (''classification'', PStr (diff_class_value (ed_class d))), (''reason'', PStr (ed_reason d)),
      (''local_summary'', PStr (ed_local_summary d)), (''broker_summary'', PStr (ed_broker_summary d))]"

record rec_outcome =
  oc_result :: rec_result
  oc_action :: string
  oc_mismatch :: bool
  oc_local_state :: string
  oc_broker_state :: string
  oc_diffs :: "entity_diff list"
  oc_broker_orphans :: nat
  oc_local_orphans :: nat
  oc_state_conflicts :: nat

definition signature :: "(pyval \<Rightarrow> string) \<Rightarrow> rec_outcome \<Rightarrow> trigger \<Rightarrow> string" where
  "signature digest oc trig =
     digest (sort_keys (PDict
       [(''trigger'', PStr (trigger_value trig)), (''result'', PStr (rec_result_value (oc_result oc))),
        (''action'', PStr (oc_action oc)), (''mismatch'', PBool (oc_mismatch oc)),
        (''local_state'', PStr (oc_local_state oc)), (''broker_state'', PStr (oc_broker_state oc)),
        (''diffs'', PList (map (\<lambda>d. PDict (diff_to_dict d)) (oc_diffs oc)))]))"

section \<open>The broker\<close>

record broker_position =
  bp_id :: string
  bp_symbol :: string
  bp_direction :: string
  bp_volume :: pyfloat
  bp_open_price :: pyfloat
  bp_state :: string
  bp_current_price :: "pyfloat option"
  bp_timestamps :: "string option"

record broker_order =
  bo_id :: string
  bo_state :: string
  bo_symbol :: "string option"
  bo_order_type :: "string option"
  bo_volume :: "pyfloat option"
  bo_price :: "pyfloat option"
  bo_timestamps :: "string option"

record broker_snapshot =
  bs_positions :: "broker_position list"
  bs_orders :: "broker_order list"

text \<open>The provider in memory: a snapshot, or unavailable.\<close>

record static_provider =
  sp_snapshot :: broker_snapshot
  sp_unavailable :: bool

definition provider_snapshot :: "static_provider \<Rightarrow> string + broker_snapshot" where
  "provider_snapshot p =
     (if sp_unavailable p then Inl ''mock broker provider is unavailable'' else Inr (sp_snapshot p))"

section \<open>Comparison of one entity\<close>

definition float_tolerance :: pyfloat where
  "float_tolerance = flit 1 6"

definition math_isclose :: "pyfloat \<Rightarrow> pyfloat \<Rightarrow> bool" where
  "math_isclose a b \<longleftrightarrow>
     feq a b \<or>
     (\<not> (a = PInf \<or> a = NInf) \<and> \<not> (b = PInf \<or> b = NInf)
      \<and> (let diff = fabs (fsub b a) in
         fle diff (fabs (fmul float_tolerance b)) \<or> fle diff (fabs (fmul float_tolerance a))
         \<or> fle diff float_tolerance))"

text \<open>A local number is a float once it has been read from the database.\<close>

definition local_number :: "pyval \<Rightarrow> pyfloat" where
  "local_number v = (case v of PFloat x \<Rightarrow> x | PInt i \<Rightarrow> of_int_f i | _ \<Rightarrow> NaN)"

definition is_close :: "pyval option \<Rightarrow> pyfloat option \<Rightarrow> bool" where
  "is_close left right =
     (case left of
        None \<Rightarrow> True
      | Some l \<Rightarrow> (case right of None \<Rightarrow> True | Some r \<Rightarrow> math_isclose (local_number l) r))"

definition token :: "string option \<Rightarrow> string" where
  "token x = str_upper (strip (or_else x []))"

definition opt_value :: "pyval option \<Rightarrow> pyval" where
  "opt_value x = or_else x PNone"

definition position_summary :: "(pyval \<Rightarrow> string) \<Rightarrow> position_record \<Rightarrow> string" where
  "position_summary fmt p =
     ''direction='' @ token (po_direction p) @ '';lot='' @ fmt (opt_value (po_lot p)) @ '';open_price=''
     @ fmt (opt_value (po_open_price p)) @ '';state='' @ token (po_state p)"

definition broker_position_summary :: "(pyval \<Rightarrow> string) \<Rightarrow> broker_position \<Rightarrow> string" where
  "broker_position_summary fmt b =
     join '';'' [''symbol='' @ bp_symbol b, ''direction='' @ token (Some (bp_direction b)),
       ''volume='' @ fmt (PFloat (bp_volume b)), ''open_price='' @ fmt (PFloat (bp_open_price b)),
       ''state='' @ token (Some (bp_state b))]"

definition opt_item :: "string \<Rightarrow> string option \<Rightarrow> string list" where
  "opt_item k x = (case x of None \<Rightarrow> [] | Some s \<Rightarrow> [k @ s])"

definition order_summary :: "(pyval \<Rightarrow> string) \<Rightarrow> order_record \<Rightarrow> string" where
  "order_summary fmt x =
     join '';'' ([''state='' @ token (or_order_state x)]
       @ opt_item ''volume='' (map_option fmt (or_requested_lot x))
       @ opt_item ''price='' (map_option fmt (or_requested_price x)))"

definition broker_order_summary :: "(pyval \<Rightarrow> string) \<Rightarrow> broker_order \<Rightarrow> string" where
  "broker_order_summary fmt b =
     join '';'' ([''state='' @ token (Some (bo_state b))]
       @ opt_item ''symbol='' (bo_symbol b)
       @ opt_item ''order_type='' (map_option (\<lambda>s. token (Some s)) (bo_order_type b))
       @ opt_item ''volume='' (map_option (\<lambda>x. fmt (PFloat x)) (bo_volume b))
       @ opt_item ''price='' (map_option (\<lambda>x. fmt (PFloat x)) (bo_price b)))"

definition position_diff :: "(pyval \<Rightarrow> string) \<Rightarrow> position_record \<Rightarrow> broker_position \<Rightarrow> diff_class \<Rightarrow> string \<Rightarrow> entity_diff" where
  "position_diff fmt l b c reason =
     \<lparr>ed_entity_type = ''POSITION'', ed_broker_id = bp_id b, ed_class = c, ed_reason = reason,
      ed_local_summary = position_summary fmt l, ed_broker_summary = broker_position_summary fmt b\<rparr>"

definition classify_position :: "(pyval \<Rightarrow> string) \<Rightarrow> position_record \<Rightarrow> broker_position \<Rightarrow> entity_diff option" where
  "classify_position fmt l b =
     (if token (po_direction l) \<noteq> token (Some (bp_direction b))
      then Some (position_diff fmt l b CONFLICTING_STATE ''direction differs between local and broker'')
      else if \<not> is_close (po_lot l) (Some (bp_volume b))
      then Some (position_diff fmt l b CONFLICTING_STATE ''volume differs between local and broker'')
      else if \<not> is_close (po_open_price l) (Some (bp_open_price b))
      then Some (position_diff fmt l b CONFLICTING_STATE ''open price differs between local and broker'')
      else None)"

definition order_diff :: "(pyval \<Rightarrow> string) \<Rightarrow> order_record \<Rightarrow> broker_order \<Rightarrow> diff_class \<Rightarrow> string \<Rightarrow> entity_diff" where
  "order_diff fmt l b c reason =
     \<lparr>ed_entity_type = ''ORDER'', ed_broker_id = bo_id b, ed_class = c, ed_reason = reason,
      ed_local_summary = order_summary fmt l, ed_broker_summary = broker_order_summary fmt b\<rparr>"

definition classify_order :: "(pyval \<Rightarrow> string) \<Rightarrow> order_record \<Rightarrow> broker_order \<Rightarrow> entity_diff option" where
  "classify_order fmt l b =
     (if \<not> is_close (or_requested_lot l) (bo_volume b)
      then Some (order_diff fmt l b CONFLICTING_STATE ''volume differs between local and broker'')
      else if \<not> is_close (or_requested_price l) (bo_price b)
      then Some (order_diff fmt l b CONFLICTING_STATE ''price differs between local and broker'')
      else None)"

section \<open>The whole snapshot\<close>

text \<open>The diffs collected so far and the three counters.\<close>

record tally =
  ta_diffs :: "entity_diff list"
  ta_broker_orphans :: nat
  ta_local_orphans :: nat
  ta_state_conflicts :: nat

definition no_tally :: tally where
  "no_tally = \<lparr>ta_diffs = [], ta_broker_orphans = 0, ta_local_orphans = 0, ta_state_conflicts = 0\<rparr>"

definition add_diff :: "entity_diff \<Rightarrow> tally \<Rightarrow> tally" where
  "add_diff d t = t\<lparr>ta_diffs := ta_diffs t @ [d]\<rparr>"

definition add_broker_orphan :: "entity_diff \<Rightarrow> tally \<Rightarrow> tally" where
  "add_broker_orphan d t = add_diff d (t\<lparr>ta_broker_orphans := Suc (ta_broker_orphans t)\<rparr>)"

definition add_local_orphan :: "entity_diff \<Rightarrow> tally \<Rightarrow> tally" where
  "add_local_orphan d t = add_diff d (t\<lparr>ta_local_orphans := Suc (ta_local_orphans t)\<rparr>)"

definition add_conflict :: "entity_diff \<Rightarrow> tally \<Rightarrow> tally" where
  "add_conflict d t = add_diff d (t\<lparr>ta_state_conflicts := Suc (ta_state_conflicts t)\<rparr>)"

definition by_id :: "('a \<Rightarrow> string) \<Rightarrow> 'a list \<Rightarrow> (string \<times> 'a) list" where
  "by_id key xs = fold (\<lambda>x d. AList.update (key x) x d) xs []"

definition step_broker_position ::
  "(pyval \<Rightarrow> string) \<Rightarrow> (string \<times> position_record) list \<Rightarrow> broker_position \<Rightarrow> tally \<Rightarrow> tally" where
  "step_broker_position fmt locals b t =
     (case map_of locals (bp_id b) of
        None \<Rightarrow> add_broker_orphan
          \<lparr>ed_entity_type = ''POSITION'', ed_broker_id = bp_id b, ed_class = RECOVERABLE,
           ed_reason = ''broker position has no local mapping; broker evidence adopted'',
           ed_local_summary = [], ed_broker_summary = broker_position_summary fmt b\<rparr> t
      | Some l \<Rightarrow>
          (case classify_position fmt l b of
             Some d \<Rightarrow> add_conflict d t
           | None \<Rightarrow> add_diff (position_diff fmt l b NO_MISMATCH ''local and broker position match'') t))"

definition step_broker_order ::
  "(pyval \<Rightarrow> string) \<Rightarrow> (string \<times> order_record) list \<Rightarrow> broker_order \<Rightarrow> tally \<Rightarrow> tally" where
  "step_broker_order fmt locals b t =
     (case map_of locals (bo_id b) of
        None \<Rightarrow> add_broker_orphan
          \<lparr>ed_entity_type = ''ORDER'', ed_broker_id = bo_id b, ed_class = RECOVERABLE,
           ed_reason = ''broker order has no local mapping; broker evidence adopted'',
           ed_local_summary = [], ed_broker_summary = broker_order_summary fmt b\<rparr> t
      | Some l \<Rightarrow>
          (case classify_order fmt l b of
             Some d \<Rightarrow> add_conflict d t
           | None \<Rightarrow> add_diff (order_diff fmt l b NO_MISMATCH ''local and broker order match'') t))"

definition step_local_position ::
  "(pyval \<Rightarrow> string) \<Rightarrow> string set \<Rightarrow> string \<times> position_record \<Rightarrow> tally \<Rightarrow> tally" where
  "step_local_position fmt ids kp t =
     (if fst kp \<in> ids then t
      else add_local_orphan
        \<lparr>ed_entity_type = ''POSITION'', ed_broker_id = fst kp, ed_class = MISSING_BROKER,
         ed_reason = ''local position absent from broker snapshot; not auto-closed'',
         ed_local_summary = position_summary fmt (snd kp), ed_broker_summary = []\<rparr> t)"

definition step_local_order ::
  "(pyval \<Rightarrow> string) \<Rightarrow> string set \<Rightarrow> string \<times> order_record \<Rightarrow> tally \<Rightarrow> tally" where
  "step_local_order fmt ids kx t =
     (if fst kx \<in> ids then t
      else add_local_orphan
        \<lparr>ed_entity_type = ''ORDER'', ed_broker_id = fst kx, ed_class = MISSING_BROKER,
         ed_reason = ''local order absent from broker snapshot; investigated, not modified'',
         ed_local_summary = order_summary fmt (snd kx), ed_broker_summary = []\<rparr> t)"

definition orphans_of :: "string \<Rightarrow> entity_diff list \<Rightarrow> nat" where
  "orphans_of kind ds = length (filter (\<lambda>d. ed_entity_type d = kind \<and> ed_class d = MISSING_BROKER) ds)"

definition compare_all ::
  "(pyval \<Rightarrow> string) \<Rightarrow> (string \<times> position_record) list \<Rightarrow> (string \<times> order_record) list \<Rightarrow>
   broker_position list \<Rightarrow> broker_order list \<Rightarrow> tally" where
  "compare_all fmt lps los bps bos =
     fold (step_local_order fmt (bo_id ` set bos)) los
     (fold (step_local_position fmt (bp_id ` set bps)) lps
     (fold (step_broker_order fmt los) bos
     (fold (step_broker_position fmt lps) bps no_tally)))"

definition classify ::
  "(pyval \<Rightarrow> string) \<Rightarrow> position_record list \<Rightarrow> order_record list \<Rightarrow> broker_snapshot \<Rightarrow> rec_outcome" where
  "classify fmt local_positions local_orders snapshot =
     (let lps = by_id po_broker_position_id local_positions;
          los = by_id or_broker_order_id local_orders;
          bps = sort_key bp_id (bs_positions snapshot);
          bos = sort_key bo_id (bs_orders snapshot);
          t = compare_all fmt lps los bps bos;
          ordered = sort_key (\<lambda>d. (ed_entity_type d, ed_broker_id d)) (ta_diffs t);
          forces_escalation =
            (ta_state_conflicts t > 0 \<or> orphans_of ''POSITION'' ordered > 0
             \<or> (orphans_of ''ORDER'' ordered > 0 \<and> ta_broker_orphans t = 0));
          result =
            (if forces_escalation then RR_ESCALATED
             else if ta_broker_orphans t > 0 then RR_ADOPTED_BROKER else RR_SYNCED)
      in \<lparr>oc_result = result,
          oc_action =
            (if forces_escalation then ''ESCALATE'' else if ta_broker_orphans t > 0 then ''ADOPT_BROKER'' else ''NONE''),
          oc_mismatch = (result \<noteq> RR_SYNCED),
          oc_local_state = ''open_positions='' @ show_nat (length lps) @ '';open_orders='' @ show_nat (length los),
          oc_broker_state = ''positions='' @ show_nat (length bps) @ '';orders='' @ show_nat (length bos),
          oc_diffs = ordered, oc_broker_orphans = ta_broker_orphans t, oc_local_orphans = ta_local_orphans t,
          oc_state_conflicts = ta_state_conflicts t\<rparr>)"

section \<open>Closed form of the loops\<close>

definition position_entry :: "(pyval \<Rightarrow> string) \<Rightarrow> (string \<times> position_record) list \<Rightarrow> broker_position \<Rightarrow> entity_diff" where
  "position_entry fmt lps b = hd (ta_diffs (step_broker_position fmt lps b no_tally))"

definition order_entry :: "(pyval \<Rightarrow> string) \<Rightarrow> (string \<times> order_record) list \<Rightarrow> broker_order \<Rightarrow> entity_diff" where
  "order_entry fmt los b = hd (ta_diffs (step_broker_order fmt los b no_tally))"

definition positions_agree :: "position_record \<Rightarrow> broker_position \<Rightarrow> bool" where
  "positions_agree l b \<longleftrightarrow>
     token (po_direction l) = token (Some (bp_direction b)) \<and> is_close (po_lot l) (Some (bp_volume b))
     \<and> is_close (po_open_price l) (Some (bp_open_price b))"

definition orders_agree :: "order_record \<Rightarrow> broker_order \<Rightarrow> bool" where
  "orders_agree l b \<longleftrightarrow> is_close (or_requested_lot l) (bo_volume b) \<and> is_close (or_requested_price l) (bo_price b)"

lemma classify_position_None: "classify_position fmt l b = None \<longleftrightarrow> positions_agree l b"
  by (simp add: classify_position_def positions_agree_def)

lemma classify_order_None: "classify_order fmt l b = None \<longleftrightarrow> orders_agree l b"
  by (simp add: classify_order_def orders_agree_def)

lemmas adds = add_diff_def add_broker_orphan_def add_local_orphan_def add_conflict_def

lemma classify_position_Some:
  "classify_position fmt l b = Some d \<Longrightarrow> ed_entity_type d = ''POSITION'' \<and> ed_broker_id d = bp_id b \<and> ed_class d = CONFLICTING_STATE"
  by (auto simp: classify_position_def position_diff_def split: if_splits)

lemma classify_order_Some:
  "classify_order fmt l b = Some d \<Longrightarrow> ed_entity_type d = ''ORDER'' \<and> ed_broker_id d = bo_id b \<and> ed_class d = CONFLICTING_STATE"
  by (auto simp: classify_order_def order_diff_def split: if_splits)

definition position_orphan :: "(string \<times> position_record) list \<Rightarrow> broker_position \<Rightarrow> bool" where
  "position_orphan lps b \<longleftrightarrow> map_of lps (bp_id b) = None"

definition position_conflict :: "(string \<times> position_record) list \<Rightarrow> broker_position \<Rightarrow> bool" where
  "position_conflict lps b \<longleftrightarrow> (\<exists>l. map_of lps (bp_id b) = Some l \<and> \<not> positions_agree l b)"

definition order_orphan :: "(string \<times> order_record) list \<Rightarrow> broker_order \<Rightarrow> bool" where
  "order_orphan los b \<longleftrightarrow> map_of los (bo_id b) = None"

definition order_conflict :: "(string \<times> order_record) list \<Rightarrow> broker_order \<Rightarrow> bool" where
  "order_conflict los b \<longleftrightarrow> (\<exists>l. map_of los (bo_id b) = Some l \<and> \<not> orders_agree l b)"

definition count :: "('a \<Rightarrow> bool) \<Rightarrow> 'a list \<Rightarrow> nat" where
  "count P xs = length (filter P xs)"

lemma count_simps [simp]:
  "count P [] = 0" "count P (x # xs) = (if P x then Suc (count P xs) else count P xs)"
  by (simp_all add: count_def)

lemma count_pos: "0 < count P xs \<longleftrightarrow> (\<exists>x \<in> set xs. P x)"
  by (auto simp: count_def filter_empty_conv)

lemma step_broker_position_eq:
  "step_broker_position fmt lps b t =
     \<lparr>ta_diffs = ta_diffs t @ [position_entry fmt lps b],
      ta_broker_orphans = ta_broker_orphans t + (if position_orphan lps b then 1 else 0),
      ta_local_orphans = ta_local_orphans t,
      ta_state_conflicts = ta_state_conflicts t + (if position_conflict lps b then 1 else 0)\<rparr>"
  by (cases t) (auto simp: step_broker_position_def position_entry_def position_orphan_def position_conflict_def
    no_tally_def adds classify_position_None [of fmt, symmetric] split: option.splits)

lemma step_broker_order_eq:
  "step_broker_order fmt los b t =
     \<lparr>ta_diffs = ta_diffs t @ [order_entry fmt los b],
      ta_broker_orphans = ta_broker_orphans t + (if order_orphan los b then 1 else 0),
      ta_local_orphans = ta_local_orphans t,
      ta_state_conflicts = ta_state_conflicts t + (if order_conflict los b then 1 else 0)\<rparr>"
  by (cases t) (auto simp: step_broker_order_def order_entry_def order_orphan_def order_conflict_def
    no_tally_def adds classify_order_None [of fmt, symmetric] split: option.splits)

lemma fold_broker_positions:
  "fold (step_broker_position fmt lps) bps t =
     \<lparr>ta_diffs = ta_diffs t @ map (position_entry fmt lps) bps,
      ta_broker_orphans = ta_broker_orphans t + count (position_orphan lps) bps,
      ta_local_orphans = ta_local_orphans t,
      ta_state_conflicts = ta_state_conflicts t + count (position_conflict lps) bps\<rparr>"
  by (induction bps arbitrary: t) (simp_all add: step_broker_position_eq)

lemma fold_broker_orders:
  "fold (step_broker_order fmt los) bos t =
     \<lparr>ta_diffs = ta_diffs t @ map (order_entry fmt los) bos,
      ta_broker_orphans = ta_broker_orphans t + count (order_orphan los) bos,
      ta_local_orphans = ta_local_orphans t,
      ta_state_conflicts = ta_state_conflicts t + count (order_conflict los) bos\<rparr>"
  by (induction bos arbitrary: t) (simp_all add: step_broker_order_eq)

definition local_position_entry :: "(pyval \<Rightarrow> string) \<Rightarrow> string \<times> position_record \<Rightarrow> entity_diff" where
  "local_position_entry fmt kp = hd (ta_diffs (step_local_position fmt {} kp no_tally))"

definition local_order_entry :: "(pyval \<Rightarrow> string) \<Rightarrow> string \<times> order_record \<Rightarrow> entity_diff" where
  "local_order_entry fmt kx = hd (ta_diffs (step_local_order fmt {} kx no_tally))"

lemma fold_local_positions:
  "fold (step_local_position fmt ids) lps t =
     t\<lparr>ta_diffs := ta_diffs t @ map (local_position_entry fmt) (filter (\<lambda>kp. fst kp \<notin> ids) lps),
       ta_local_orphans := ta_local_orphans t + count (\<lambda>kp. fst kp \<notin> ids) lps\<rparr>"
  by (induction lps arbitrary: t) (simp_all add: step_local_position_def local_position_entry_def no_tally_def adds)

lemma fold_local_orders:
  "fold (step_local_order fmt ids) los t =
     t\<lparr>ta_diffs := ta_diffs t @ map (local_order_entry fmt) (filter (\<lambda>kx. fst kx \<notin> ids) los),
       ta_local_orphans := ta_local_orphans t + count (\<lambda>kx. fst kx \<notin> ids) los\<rparr>"
  by (induction los arbitrary: t) (simp_all add: step_local_order_def local_order_entry_def no_tally_def adds)

lemma compare_all_eq:
  "compare_all fmt lps los bps bos =
     \<lparr>ta_diffs = map (position_entry fmt lps) bps @ map (order_entry fmt los) bos
        @ map (local_position_entry fmt) (filter (\<lambda>kp. fst kp \<notin> bp_id ` set bps) lps)
        @ map (local_order_entry fmt) (filter (\<lambda>kx. fst kx \<notin> bo_id ` set bos) los),
      ta_broker_orphans = count (position_orphan lps) bps + count (order_orphan los) bos,
      ta_local_orphans = count (\<lambda>kp. fst kp \<notin> bp_id ` set bps) lps + count (\<lambda>kx. fst kx \<notin> bo_id ` set bos) los,
      ta_state_conflicts = count (position_conflict lps) bps + count (order_conflict los) bos\<rparr>"
  by (simp add: compare_all_def fold_broker_positions fold_broker_orders fold_local_positions fold_local_orders no_tally_def)

lemma entry_keys:
  "ed_entity_type (position_entry fmt lps b) = ''POSITION''" "ed_broker_id (position_entry fmt lps b) = bp_id b"
  "ed_entity_type (order_entry fmt los x) = ''ORDER''" "ed_broker_id (order_entry fmt los x) = bo_id x"
  "ed_entity_type (local_position_entry fmt kp) = ''POSITION''" "ed_broker_id (local_position_entry fmt kp) = fst kp"
  "ed_entity_type (local_order_entry fmt kx) = ''ORDER''" "ed_broker_id (local_order_entry fmt kx) = fst kx"
  by (auto simp: position_entry_def order_entry_def local_position_entry_def local_order_entry_def step_broker_position_def
    step_broker_order_def step_local_position_def step_local_order_def no_tally_def adds position_diff_def order_diff_def
    dest: classify_position_Some classify_order_Some split: option.splits)

lemma entry_classes:
  "ed_class (position_entry fmt lps b) =
     (if position_orphan lps b then RECOVERABLE else if position_conflict lps b then CONFLICTING_STATE else NO_MISMATCH)"
  "ed_class (order_entry fmt los x) =
     (if order_orphan los x then RECOVERABLE else if order_conflict los x then CONFLICTING_STATE else NO_MISMATCH)"
  "ed_class (local_position_entry fmt kp) = MISSING_BROKER" "ed_class (local_order_entry fmt kx) = MISSING_BROKER"
  by (auto simp: classify_position_None [of fmt, symmetric] classify_order_None [of fmt, symmetric]
    position_entry_def order_entry_def local_position_entry_def local_order_entry_def step_broker_position_def
    step_broker_order_def step_local_position_def step_local_order_def no_tally_def adds position_diff_def order_diff_def
    position_orphan_def position_conflict_def order_orphan_def order_conflict_def
    dest: classify_position_Some classify_order_Some split: option.splits)

lemma update_fresh: "k \<notin> fst ` set al \<Longrightarrow> AList.update k v al = al @ [(k, v)]"
  by (induction al) auto

lemma by_id_fresh:
  "distinct (map key xs) \<Longrightarrow> set (map key xs) \<inter> fst ` set d = {} \<Longrightarrow>
   fold (\<lambda>x d. AList.update (key x) x d) xs d = d @ map (\<lambda>x. (key x, x)) xs"
proof (induction xs arbitrary: d)
  case (Cons x xs)
  have "AList.update (key x) x d = d @ [(key x, x)]" using Cons.prems(2) by (simp add: update_fresh)
  then show ?case using Cons.IH [of "d @ [(key x, x)]"] Cons.prems by auto
qed simp

lemma by_id_distinct: "distinct (map key xs) \<Longrightarrow> by_id key xs = map (\<lambda>x. (key x, x)) xs"
  using by_id_fresh [of key xs "[]"] by (simp add: by_id_def)

end
