(* ===== verification/PsAudit.thy ===== *)
theory PsAudit
  imports PsRepository
begin

text \<open>
  What every operation of the repository keeps of the audit stream: the committed events are a prefix of
  the committed events afterwards, event ids are unique, and every stored row reads back as a valid event
  whose checksum verifies.
\<close>

section \<open>A stored row reads back\<close>

lemma bound_cells:
  assumes "bind_row ''events'' (event_params e) = Inr row"
  shows "cell row ''event_id'' = SqlText (e_event_id e)"
    and "cell row ''event_type'' = SqlText (event_type_value (e_event_type e))"
    and "cell row ''ts_event'' = SqlText (e_ts_event e)" and "cell row ''ts_collected'' = SqlText (e_ts_collected e)"
    and "cell row ''ts_monotonic'' = SqlInt (e_ts_monotonic e)"
    and "cell row ''correlation_id'' = (case e_correlation_id e of None \<Rightarrow> SqlNull | Some s \<Rightarrow> SqlText s)"
    and "cell row ''trade_id'' = (case e_trade_id e of None \<Rightarrow> SqlNull | Some s \<Rightarrow> SqlText s)"
    and "cell row ''component'' = SqlText (e_component e)" and "cell row ''severity'' = SqlText (e_severity e)"
    and "cell row ''schema_version'' = SqlText (e_schema_version e)"
    and "cell row ''payload_json'' = SqlJson (PDict (e_payload e))" and "cell row ''checksum'' = SqlText (e_checksum e)"
proof -
  have nr: "is_real_column ''events'' c = False" for c by (simp add: is_real_column_def real_columns_def)
  note at = bind_row_cell [OF assms, simplified nr event_params_def]
  have mono: "bind_param (Param (PInt (e_ts_monotonic e))) = Inr (SqlInt (e_ts_monotonic e))"
    using assms by (auto simp: event_params_def split: sum.splits if_splits)
  show "cell row ''event_id'' = SqlText (e_event_id e)"
    "cell row ''event_type'' = SqlText (event_type_value (e_event_type e))"
    "cell row ''ts_event'' = SqlText (e_ts_event e)" "cell row ''ts_collected'' = SqlText (e_ts_collected e)"
    "cell row ''component'' = SqlText (e_component e)" "cell row ''severity'' = SqlText (e_severity e)"
    "cell row ''schema_version'' = SqlText (e_schema_version e)" "cell row ''checksum'' = SqlText (e_checksum e)"
    by (auto simp: text_param_def intro: at [THEN trans])
  show "cell row ''payload_json'' = SqlJson (PDict (e_payload e))" by (auto intro: at [THEN trans])
  show "cell row ''ts_monotonic'' = SqlInt (e_ts_monotonic e)" using at [OF _ mono] by simp
  show "cell row ''correlation_id'' = (case e_correlation_id e of None \<Rightarrow> SqlNull | Some s \<Rightarrow> SqlText s)"
    by (rule at [THEN trans]) (auto simp: or_null_def opt_text_def text_param_def split: option.splits)
  show "cell row ''trade_id'' = (case e_trade_id e of None \<Rightarrow> SqlNull | Some s \<Rightarrow> SqlText s)"
    by (rule at [THEN trans]) (auto simp: or_null_def opt_text_def text_param_def split: option.splits)
qed

lemma stored_row_reads_back:
  assumes "bind_row ''events'' (event_params e) = Inr row" and "event_ok digest e"
  shows "row_to_event digest row = Inr e"
proof -
  note cells = bound_cells [OF assms(1)]
  let ?d = "row_data row @ [(''payload'', PDict (e_payload e))]"
  have d: "?d = [(''event_id'', PStr (e_event_id e)), (''event_type'', PStr (event_type_value (e_event_type e))),
      (''ts_event'', PStr (e_ts_event e)), (''ts_collected'', PStr (e_ts_collected e)),
      (''ts_monotonic'', PInt (e_ts_monotonic e)), (''component'', PStr (e_component e)),
      (''severity'', PStr (e_severity e)), (''schema_version'', PStr (e_schema_version e)),
      (''checksum'', PStr (e_checksum e))]
    @ optional_entry ''correlation_id'' (e_correlation_id e) @ optional_entry ''trade_id'' (e_trade_id e)
    @ [(''payload'', PDict (e_payload e))]"
    by (simp add: row_data_def unless_null_def cells optional_entry_def split: option.splits)
  have "envelope_from_dict digest (PDict ?d) = Inr e"
  proof (rule from_dict_cong)
    show "dget (envelope_to_dict e) k = dget ?d k" for k
      unfolding d by (simp add: dget_def envelope_to_dict_def optional_entry_def split: option.splits)
    show "distinct (dkeys ?d)"
      unfolding d by (simp add: dkeys_def optional_entry_def split: option.splits)
  qed (use distinct_envelope_keys assms(2) in \<open>simp_all add: event_ok_from_dict\<close>)
  then show ?thesis by (simp add: row_to_event_def cells)
qed

section \<open>The invariant\<close>

definition audit_ok :: "(pyval \<Rightarrow> string) \<Rightarrow> database \<Rightarrow> bool" where
  "audit_ok digest d \<longleftrightarrow>
     keyed ''event_id'' (d ''events'')
     \<and> (\<forall>row \<in> set (d ''events''). \<exists>e. row_to_event digest row = Inr e \<and> cell row ''event_id'' = SqlText (e_event_id e))"

definition db_grows :: "(pyval \<Rightarrow> string) \<Rightarrow> database \<Rightarrow> database \<Rightarrow> bool" where
  "db_grows digest d d' \<longleftrightarrow> prefix (d ''events'') (d' ''events'') \<and> (audit_ok digest d \<longrightarrow> audit_ok digest d')"

definition repo_ok :: "db_env \<Rightarrow> repo \<Rightarrow> bool" where
  "repo_ok E r \<longleftrightarrow> audit_ok (db_digest E) (rp_disk r) \<and> db_grows (db_digest E) (rp_disk r) (view r)"

definition repo_grows :: "db_env \<Rightarrow> repo \<Rightarrow> repo \<Rightarrow> bool" where
  "repo_grows E r r' \<longleftrightarrow>
     (repo_ok E r \<longrightarrow> repo_ok E r' \<and> prefix (rp_disk r ''events'') (rp_disk r' ''events''))"

lemma db_grows_refl: "db_grows digest d d"
  by (simp add: db_grows_def)

lemma db_grows_trans: "db_grows digest d d' \<Longrightarrow> db_grows digest d' d'' \<Longrightarrow> db_grows digest d d''"
  unfolding db_grows_def by (meson prefix_order.trans)

lemma db_grows_other: "t \<noteq> ''events'' \<Longrightarrow> db_grows digest d (d(t := tab))"
  by (simp add: db_grows_def audit_ok_def)

lemma repo_grows_preorder [pres_rules]: "preorder_rel (repo_grows E)"
  unfolding preorder_rel_def repo_grows_def by (meson prefix_order.refl prefix_order.trans)

lemma grows_execute:
  assumes "\<And>d x d'. f d = Inr (x, d') \<Longrightarrow> db_grows (db_digest E) d d'"
  shows "pres (repo_grows E) (execute f)"
proof (rule presI)
  fix r :: repo
  show "repo_grows E r (snd (execute f r))"
  proof (cases "f (view r)")
    case (Inl x)
    then show ?thesis by (simp add: execute_def repo_grows_def repo_ok_def view_def)
  next
    case (Inr y)
    obtain x d where y: "y = (x, d)" by fastforce
    then have "db_grows (db_digest E) (view r) d" using assms Inr by blast
    then show ?thesis
      using Inr y db_grows_trans by (simp add: execute_def repo_grows_def repo_ok_def) (simp add: view_def, blast)
  qed
qed

lemma grows_now [pres_rules]: "pres (repo_grows E) (now_utc_ms E')"
  by (simp add: pres_def now_utc_ms_def repo_grows_def repo_ok_def view_def split: option.splits)

lemma repo_grows_faults: "repo_grows E r (r\<lparr>rp_faults := fs\<rparr>)"
  by (simp add: repo_grows_def repo_ok_def view_def split: option.splits)

lemma grows_rollback: "repo_grows E r (rollback f r)"
  by (cases "rp_work r") (auto simp: repo_grows_def rollback_def repo_ok_def db_grows_def view_def)

lemma grows_commit: "repo_grows E r (snd (commit f x r))"
  by (cases "rp_work r")
    (auto simp: repo_grows_def commit_def repo_ok_def db_grows_def view_def split: tx_fault.split)

lemma grows_transaction [pres_rules]:
  assumes "pres (repo_grows E) body"
  shows "pres (repo_grows E) (transaction body)"
proof (rule presI)
  fix r :: repo
  define r1 where "r1 = begun r"
  obtain z r2 where z: "body r1 = (z, r2)" by fastforce
  have r1: "rp_disk r1 = rp_disk r" "repo_ok E r \<Longrightarrow> repo_ok E r1"
    by (simp_all add: r1_def repo_ok_def db_grows_refl)
  have g: "repo_ok E r \<Longrightarrow> repo_ok E r2 \<and> prefix (rp_disk r ''events'') (rp_disk r2 ''events'')"
    using presD [OF assms z] r1 by (simp add: repo_grows_def)
  have ended: "repo_grows E r2 (rollback f r2)" "repo_grows E r2 (snd (commit f x r2))"
    for f and x :: 'b
    by (rule grows_rollback, rule grows_commit)
  show "repo_grows E r (snd (transaction body r))"
  proof (cases "rp_busy r \<or> \<not> rp_open r \<or> rp_work r \<noteq> None \<or> next_fault r = Begin_fails")
    case True
    then show ?thesis
      using preorder_relD(1) [OF repo_grows_preorder] by (auto simp: transaction_def repo_grows_faults)
  next
    case False
    have "repo_grows E r r2" using g by (simp add: repo_grows_def)
    moreover have "repo_grows E r2 (snd (transaction body r))"
      using False z [unfolded r1_def] ended by (cases z) (simp_all add: transaction_def)
    ultimately show ?thesis by (rule preorder_relD(2) [OF repo_grows_preorder])
  qed
qed

lemma grows_upsert_params: "t \<noteq> ''events'' \<Longrightarrow> pres (repo_grows E) (execute (upsert_params t pk ps))"
  by (rule grows_execute) (auto simp: upsert_params_def db_grows_other split: sum.splits)

lemma grows_insert_params: "t \<noteq> ''events'' \<Longrightarrow> pres (repo_grows E) (execute (insert_params t ps))"
  by (rule grows_execute) (auto simp: insert_params_def db_grows_other split: sum.splits prod.splits)

lemma grows_upsert_record: "t \<noteq> ''events'' \<Longrightarrow> pres (repo_grows E) (upsert_record E' t pk fs)"
  by (simp add: upsert_record_def Let_def grows_upsert_params pres_rules)

lemma grows_insert_event_row:
  assumes "event_ok (db_digest E) e"
  shows "pres (repo_grows E) (insert_event_row e)"
proof -
  have "db_grows (db_digest E) d d'" if ins: "insert_params ''events'' (event_params e) d = Inr (x, d')" for d x d'
  proof -
    obtain row where row: "bind_row ''events'' (event_params e) = Inr row"
      using ins by (auto simp: insert_params_def split: sum.splits)
    have new: "row_to_event (db_digest E) row = Inr e \<and> cell row ''event_id'' = SqlText (e_event_id e)"
      using stored_row_reads_back [OF row assms] bound_cells(1) [OF row] by simp
    have "primary_key ''events'' = ''event_id''" by (simp add: primary_key_def primary_keys_def)
    then have "d' = d(''events'' := snd (insert_ignore ''event_id'' row (d ''events'')))"
      using ins row by (auto simp: insert_params_def split: prod.splits)
    then show ?thesis
      using new keyed_insert by (auto simp: db_grows_def audit_ok_def insert_ignore_def keyed_def has_key_iff)
  qed
  then have "pres (repo_grows E) (execute (insert_params ''events'' (event_params e)))" by (rule grows_execute)
  then show ?thesis unfolding insert_event_row_def
    by (intro pres_bind repo_grows_preorder) (auto intro!: pres_rules split: option.splits)
qed

lemma grows_fields [pres_rules]:
  "pres (repo_grows E) (payload_field p k)" "pres (repo_grows E) (text_field p k)" "pres (repo_grows E) (number_field p k)"
proof -
  show one: "pres (repo_grows E) (payload_field p k)" for p k by (auto simp: payload_field_def pres_rules)
  show "pres (repo_grows E) (text_field p k)"
    by (auto simp: text_field_def intro!: pres_bind repo_grows_preorder one pres_ret pres_raise split: pyval.splits)
  show "pres (repo_grows E) (number_field p k)"
    by (auto simp: number_field_def intro!: pres_bind repo_grows_preorder one pres_ret pres_raise)
qed

lemma grows_projection: "pres (repo_grows E) (apply_derived_state E' e)"
  by (cases "e_event_type e")
    (simp_all add: apply_derived_state_def apply_order_acknowledged_def apply_order_filled_def apply_position_opened_def
      apply_position_updated_def apply_position_closed_def apply_risk_gate_reject_def apply_reconciliation_def
      apply_context_built_def Let_def pres_rules grows_upsert_record grows_insert_params)

lemma grows_adoptions: "pres (repo_grows E) (write_adoptions as)"
  by (induction as) (simp_all add: write_reconciliation_adoption_def pres_rules grows_insert_params)

lemma grows_checked:
  assumes "event_ok (db_digest E) e \<Longrightarrow> pres (repo_grows E) m"
  shows "repo_grows E r (snd (bind (check_event E e) (\<lambda>_. m) r))"
proof (cases rule: check_event_cases [of E e r])
  case accepted
  then show ?thesis using assms by (simp add: bind_def pres_def)
next
  case (refused x)
  then show ?thesis using preorder_relD(1) [OF repo_grows_preorder] by (simp add: bind_def)
qed

lemma grows_perform: "repo_grows E r (perform E c r)"
proof -
  have conn: "pres (repo_grows E) connection"
    by (auto simp: pres_def connection_def preorder_relD(1) [OF repo_grows_preorder])
  have closed: "repo_grows E r (r\<lparr>rp_open := False, rp_busy := False, rp_work := None\<rparr>)"
    "repo_grows E r (r\<lparr>rp_open := True, rp_work := None\<rparr>)"
    by (simp_all add: repo_grows_def repo_ok_def view_def db_grows_refl)
  note rules = pres_rules grows_insert_event_row grows_projection grows_adoptions grows_upsert_params
    grows_insert_params grows_upsert_record conn
  show ?thesis
  proof (cases c)
    case Open_repo
    then show ?thesis using closed preorder_relD(1) [OF repo_grows_preorder] by (simp add: open_repo_def)
  next
    case Close_repo
    then show ?thesis using closed preorder_relD(1) [OF repo_grows_preorder] by (simp add: close_repo_def)
  next
    case (Insert_event e)
    then show ?thesis by (simp add: insert_event_def) (rule grows_checked, simp add: rules)
  next
    case (Insert_event_with_derived e)
    then show ?thesis by (simp add: insert_event_with_derived_def) (rule grows_checked, simp add: rules)
  next
    case (Insert_event_with_cursor e ic)
    then show ?thesis
      by (simp add: insert_event_with_cursor_def) (rule grows_checked, simp add: rules write_ingestion_cursor_def)
  next
    case (Save_reconciliation_run e run as)
    then show ?thesis
      by (simp add: save_reconciliation_run_def) (rule grows_checked, simp add: rules write_reconciliation_run_def)
  qed (simp_all add: save_ingestion_cursor_def write_ingestion_cursor_def upsert_trade_def upsert_order_def
      upsert_position_def insert_reconciliation_def insert_invalid_trade_def presD [OF _ prod.collapse [symmetric]] rules)
qed

lemma grows_calls: "repo_grows E r (fold (perform E) calls r)"
proof (induction calls arbitrary: r)
  case Nil
  then show ?case by (simp add: preorder_relD(1) [OF repo_grows_preorder])
next
  case (Cons c calls)
  show ?case
    using preorder_relD(2) [OF repo_grows_preorder grows_perform [of E r c] Cons.IH [of "perform E c r"]] by simp
qed

end
