(* ===== verification/PsStore.thy ===== *)
theory PsStore
  imports PsAudit
begin

text \<open>
  The interface between the event store and its clients (ingestion and reconciliation): an operation that
  takes an event either stores it or leaves the store as it was, and stored events are never lost or
  altered. The four operations of the repository that take an event provide it.
\<close>

section \<open>The interface\<close>

locale event_store =
  fixes put_event :: "'c \<Rightarrow> envelope \<Rightarrow> ('s, 'e, 'r) eff"
    and stored :: "'s \<Rightarrow> string \<Rightarrow> envelope option"
    and ready :: "'s \<Rightarrow> bool"
  assumes put_stores: "ready s \<Longrightarrow> put_event c e s = (Inr x, s') \<Longrightarrow>
      ready s' \<and> (\<exists>e'. stored s' (e_event_id e) = Some e' \<and> e_checksum e' = e_checksum e)"
    and put_refuses: "ready s \<Longrightarrow> put_event c e s = (Inl err, s') \<Longrightarrow> ready s' \<and> stored s' = stored s"
    and put_keeps: "ready s \<Longrightarrow> put_event c e s = (z, s') \<Longrightarrow> stored s k = Some e0 \<Longrightarrow> stored s' k = Some e0"
begin

fun put_all :: "('c \<times> envelope) list \<Rightarrow> ('s, 'e, unit) eff" where
  "put_all [] = ret ()"
| "put_all ((c, e) # ces) = bind (put_event c e) (\<lambda>_. put_all ces)"

lemma put_all_keeps:
  "ready s \<Longrightarrow> put_all ces s = (z, s') \<Longrightarrow> ready s' \<and> (\<forall>k e0. stored s k = Some e0 \<longrightarrow> stored s' k = Some e0)"
proof (induction ces arbitrary: s)
  case Nil
  then show ?case by (simp add: ret_def)
next
  case (Cons ce ces)
  obtain c e where ce: "ce = (c, e)" by fastforce
  obtain y s1 where y: "put_event c e s = (y, s1)" by fastforce
  show ?case
  proof (cases y)
    case (Inl x)
    then show ?thesis using Cons.prems y put_refuses [OF Cons.prems(1)] ce by (auto simp: bind_def)
  next
    case (Inr x)
    then have "ready s1" "put_all ces s1 = (z, s')"
      using Cons.prems y put_stores [OF Cons.prems(1)] ce by (auto simp: bind_def)
    then show ?thesis using Cons.IH put_keeps [OF Cons.prems(1) y] by blast
  qed
qed

lemma put_all_stores:
  "ready s \<Longrightarrow> put_all ces s = (Inr (), s') \<Longrightarrow> (c, e) \<in> set ces \<Longrightarrow>
   \<exists>e'. stored s' (e_event_id e) = Some e' \<and> e_checksum e' = e_checksum e"
proof (induction ces arbitrary: s)
  case (Cons ce ces)
  obtain c1 e1 where ce: "ce = (c1, e1)" by fastforce
  then obtain x s1 where y: "put_event c1 e1 s = (Inr x, s1)" and rest: "put_all ces s1 = (Inr (), s')"
    using Cons.prems(2) by (auto simp: bind_def split: prod.splits sum.splits)
  note first = put_stores [OF Cons.prems(1) y]
  show ?case
  proof (cases "(c, e) = ce")
    case True
    then show ?thesis using first put_all_keeps [OF _ rest] ce by blast
  next
    case False
    then show ?thesis using Cons.IH [OF _ rest] first Cons.prems(3) by simp
  qed
qed simp

end

section \<open>Inserting an event row\<close>

definition stored_event :: "db_env \<Rightarrow> repo \<Rightarrow> string \<Rightarrow> envelope option" where
  "stored_event E r eid =
     (case select_key ''event_id'' (SqlText eid) (rp_disk r ''events'') of
        None \<Rightarrow> None
      | Some row \<Rightarrow> (case row_to_event (db_digest E) row of Inl _ \<Rightarrow> None | Inr e \<Rightarrow> Some e))"

text \<open>An open repository between two transactions, whose transaction statements will not fail.\<close>

definition ready :: "db_env \<Rightarrow> repo \<Rightarrow> bool" where
  "ready E r \<longleftrightarrow> repo_ok E r \<and> idle r \<and> rp_faults r = []"

definition fresh_result :: insert_result where
  "fresh_result = \<lparr>ir_inserted = True, ir_duplicate = False, ir_identical = True\<rparr>"

definition duplicate_result :: insert_result where
  "duplicate_result = \<lparr>ir_inserted = False, ir_duplicate = True, ir_identical = True\<rparr>"

lemma events_key [simp]: "primary_key ''events'' = ''event_id''"
  by (simp add: primary_key_def primary_keys_def)

lemma select_has_key: "has_key pk v tab \<longleftrightarrow> (\<exists>row. select_key pk v tab = Some row)"
  using find_by_None [of "\<lambda>row. cell row pk" v tab] by (auto simp: select_key_def has_key_iff)

lemma insert_event_row_cases:
  assumes "rp_work r = Some d"
  obtains (overflow) "insert_event_row e r = (Inl Int_too_large, r)"
    | (fresh) row where "bind_row ''events'' (event_params e) = Inr row"
        and "select_key ''event_id'' (SqlText (e_event_id e)) (d ''events'') = None"
        and "insert_event_row e r = (Inr fresh_result, r\<lparr>rp_work := Some (d(''events'' := d ''events'' @ [row]))\<rparr>)"
    | (duplicate) row where "select_key ''event_id'' (SqlText (e_event_id e)) (d ''events'') = Some row"
        and "cell row ''checksum'' = SqlText (e_checksum e)" and "insert_event_row e r = (Inr duplicate_result, r)"
    | (conflict) "insert_event_row e r = (Inl (Conflicting_event (e_event_id e)), r)"
proof -
  have r: "r\<lparr>rp_work := Some d\<rparr> = r" "view r = d" using assms by (simp_all add: view_def)
  have plain: "list_all (plain \<circ> snd) (event_params e)" by (simp add: event_params_def)
  show thesis
  proof (cases "bind_row ''events'' (event_params e)")
    case (Inl x)
    then have "x = Int_too_large" using bind_row_plain [OF plain] by blast
    then have "insert_event_row e r = (Inl Int_too_large, r)"
      using Inl r by (simp add: insert_event_row_def bind_def execute_def insert_params_def)
    then show thesis by (rule overflow)
  next
    case (Inr row)
    note key = bound_cells(1) [OF Inr]
    show thesis
    proof (cases "select_key ''event_id'' (SqlText (e_event_id e)) (d ''events'')")
      case None
      then have "\<not> has_key ''event_id'' (SqlText (e_event_id e)) (d ''events'')" by (simp add: select_has_key)
      then have "insert_event_row e r = (Inr fresh_result, r\<lparr>rp_work := Some (d(''events'' := d ''events'' @ [row]))\<rparr>)"
        using Inr r key
        by (simp add: insert_event_row_def bind_def execute_def insert_params_def insert_ignore_def ret_def fresh_result_def)
      then show thesis using fresh Inr None by blast
    next
      case (Some row0)
      then have "has_key ''event_id'' (SqlText (e_event_id e)) (d ''events'')" by (simp add: select_has_key)
      then have "insert_event_row e r =
          (if cell row0 ''checksum'' = SqlText (e_checksum e) then (Inr duplicate_result, r)
           else (Inl (Conflicting_event (e_event_id e)), r))"
        using Inr r key Some
        by (simp add: insert_event_row_def bind_def execute_def insert_params_def insert_ignore_def ret_def raise_def
          gets_def duplicate_result_def)
      then show thesis using duplicate Some conflict by (cases "cell row0 ''checksum'' = SqlText (e_checksum e)") auto
    qed
  qed
qed

lemma on_work_insert_event_row [pres_rules]: "pres on_work (insert_event_row e)"
  unfolding insert_event_row_def
  by (intro pres_bind on_work_preorder on_work_execute) (auto intro!: pres_rules split: option.splits)

section \<open>Transactions that take an event\<close>

definition same_tables :: "string set \<Rightarrow> repo \<Rightarrow> repo \<Rightarrow> bool" where
  "same_tables T r r' \<longleftrightarrow> (\<forall>t \<in> T. view r' t = view r t)"

abbreviation same_events :: "repo \<Rightarrow> repo \<Rightarrow> bool" where
  "same_events \<equiv> same_tables {''events''}"

lemma same_tables_preorder [pres_rules]: "preorder_rel (same_tables T)"
  by (simp add: preorder_rel_def same_tables_def)

lemma same_tables_now [pres_rules]: "pres (same_tables T) (now_utc_ms E)"
  by (simp add: pres_def now_utc_ms_def same_tables_def view_def split: option.splits)

lemma same_tables_execute:
  "(\<And>d x d' t. f d = Inr (x, d') \<Longrightarrow> t \<in> T \<Longrightarrow> d' t = d t) \<Longrightarrow> pres (same_tables T) (execute f)"
  by (auto simp: pres_def execute_def same_tables_def view_def split: sum.splits)

lemma same_tables_params:
  "t \<notin> T \<Longrightarrow> pres (same_tables T) (execute (upsert_params t pk ps))"
  "t \<notin> T \<Longrightarrow> pres (same_tables T) (execute (insert_params t ps))"
  by (rule same_tables_execute; auto simp: upsert_params_def insert_params_def split: sum.splits prod.splits)+

lemma same_tables_upsert: "t \<notin> T \<Longrightarrow> pres (same_tables T) (upsert_record E t pk fs)"
  by (simp add: upsert_record_def Let_def same_tables_params pres_rules)

lemma same_tables_fields [pres_rules]:
  "pres (same_tables T) (payload_field p k)" "pres (same_tables T) (text_field p k)" "pres (same_tables T) (number_field p k)"
proof -
  show one: "pres (same_tables T) (payload_field p k)" for p k by (auto simp: payload_field_def pres_rules)
  show "pres (same_tables T) (text_field p k)"
    by (auto simp: text_field_def intro!: pres_bind same_tables_preorder one pres_ret pres_raise split: pyval.splits)
  show "pres (same_tables T) (number_field p k)"
    by (auto simp: number_field_def intro!: pres_bind same_tables_preorder one pres_ret pres_raise)
qed

lemma same_tables_reconciliation: "''reconciliation_events'' \<notin> T \<Longrightarrow> pres (same_tables T) (apply_reconciliation e p)"
  by (simp add: apply_reconciliation_def Let_def pres_rules same_tables_params)

lemma same_tables_insert_event_row: "''events'' \<notin> T \<Longrightarrow> pres (same_tables T) (insert_event_row e)"
  unfolding insert_event_row_def
  by (intro pres_bind same_tables_preorder same_tables_params) (auto intro!: pres_rules split: option.splits)

lemma same_events_projection: "pres same_events (apply_derived_state E e)"
  by (cases "e_event_type e")
    (simp_all add: apply_derived_state_def apply_order_acknowledged_def apply_order_filled_def apply_position_opened_def
      apply_position_updated_def apply_position_closed_def apply_risk_gate_reject_def apply_reconciliation_def
      apply_context_built_def Let_def pres_rules same_tables_upsert same_tables_params)

lemma same_tables_adoptions: "''reconciliation_adoptions'' \<notin> T \<Longrightarrow> pres (same_tables T) (write_adoptions as)"
  by (induction as) (simp_all add: write_reconciliation_adoption_def pres_rules same_tables_params)

lemma on_work_adoptions [pres_rules]: "pres on_work (write_adoptions as)"
  by (induction as) (simp_all add: write_reconciliation_adoption_def pres_rules)

definition event_transaction :: "db_env \<Rightarrow> (insert_result \<Rightarrow> (repo, db_error, insert_result) eff) \<Rightarrow> envelope \<Rightarrow>
    (repo, db_error, insert_result) eff" where
  "event_transaction E rest e = bind (check_event E e) (\<lambda>_. transaction (bind (insert_event_row e) rest))"

definition harmless :: "(insert_result \<Rightarrow> (repo, db_error, insert_result) eff) \<Rightarrow> bool" where
  "harmless rest \<longleftrightarrow> (\<forall>x. pres on_work (rest x)) \<and> (\<forall>x. pres same_events (rest x)) \<and> (\<forall>x. post (rest x) (\<lambda>y. y = x))"

lemma event_transaction_grows:
  assumes "\<And>x. pres (repo_grows E) (rest x)"
  shows "repo_grows E r (snd (event_transaction E rest e r))"
  unfolding event_transaction_def
  by (rule grows_checked) (simp add: pres_rules grows_insert_event_row assms)

lemma event_transaction_refused:
  assumes "harmless rest" and "event_transaction E rest e r = (Inl x, r')"
  shows "rp_disk r' = rp_disk r \<and> rp_open r' = rp_open r \<and> (\<not> rp_busy r \<longrightarrow> \<not> rp_busy r')
    \<and> (rp_faults r = [] \<longrightarrow> rp_faults r' = []) \<and> (idle r \<and> \<not> stuck (next_fault r) \<longrightarrow> idle r')"
proof (cases rule: check_event_cases [of E e r])
  case accepted
  then have "transaction (bind (insert_event_row e) rest) r = (Inl x, r')"
    using assms(2) by (simp add: event_transaction_def bind_def)
  moreover have "pres on_work (bind (insert_event_row e) rest)" using assms(1) by (auto simp: harmless_def intro!: pres_rules)
  ultimately show ?thesis using transaction_Inl by blast
next
  case (refused y)
  then show ?thesis using assms(2) by (simp add: event_transaction_def bind_def)
qed

text \<open>A transaction that returns: either the event is new and its row is appended, or a row with its id
  and its checksum was there already.\<close>

lemma event_transaction_accepted:
  assumes "harmless rest" and "event_transaction E rest e r = (Inr x, r')"
  shows "idle r \<and> idle r' \<and> rp_faults r' = tl (rp_faults r) \<and> event_ok (db_digest E) e
    \<and> ((\<exists>row. x = fresh_result \<and> bind_row ''events'' (event_params e) = Inr row
          \<and> select_key ''event_id'' (SqlText (e_event_id e)) (rp_disk r ''events'') = None
          \<and> rp_disk r' ''events'' = rp_disk r ''events'' @ [row])
      \<or> (\<exists>row. x = duplicate_result
          \<and> select_key ''event_id'' (SqlText (e_event_id e)) (rp_disk r ''events'') = Some row
          \<and> cell row ''checksum'' = SqlText (e_checksum e) \<and> rp_disk r' ''events'' = rp_disk r ''events''))"
proof (cases rule: check_event_cases [of E e r])
  case accepted
  define r1 where "r1 = begun r"
  have run: "transaction (bind (insert_event_row e) rest) r = (Inr x, r')"
    using assms(2) accepted by (simp add: event_transaction_def bind_def)
  have "pres on_work (bind (insert_event_row e) rest)" using assms(1) by (auto simp: harmless_def intro!: pres_rules)
  from transaction_Inr [OF this run, folded r1_def]
  obtain r3 where i: "idle r" "idle r'" "rp_faults r' = tl (rp_faults r)" and body: "bind (insert_event_row e) rest r1 = (Inr x, r3)"
    and disk: "rp_disk r' = view r3"
    by blast
  have w: "rp_work r1 = Some (rp_disk r)" by (simp add: r1_def)
  have rest: "view r3 ''events'' = view r2 ''events'' \<and> x = y" if "rest y r2 = (Inr x, r3)" for y r2
  proof -
    have h: "pres same_events (rest y)" "post (rest y) (\<lambda>z. z = y)" using assms(1) by (auto simp: harmless_def)
    show ?thesis using presD [OF h(1) that] postD [OF h(2) that] by (simp add: same_tables_def)
  qed
  from w show ?thesis
  proof (cases rule: insert_event_row_cases [where e = e])
    case (fresh row)
    then have "rest fresh_result (r1\<lparr>rp_work := Some ((rp_disk r)(''events'' := rp_disk r ''events'' @ [row]))\<rparr>) = (Inr x, r3)"
      using body by (simp add: bind_def)
    from rest [OF this] show ?thesis using i disk fresh accepted by (simp add: view_def)
  next
    case (duplicate row)
    then have "rest duplicate_result r1 = (Inr x, r3)" using body by (simp add: bind_def)
    from rest [OF this] show ?thesis using i disk duplicate accepted w by (simp add: view_def)
  qed (use body in \<open>simp_all add: bind_def\<close>)
next
  case (refused y)
  then show ?thesis using assms(2) by (simp add: event_transaction_def bind_def)
qed

section \<open>The repository provides the interface\<close>

lemma select_prefix: "select_key pk v tab = Some row \<Longrightarrow> prefix tab tab' \<Longrightarrow> select_key pk v tab' = Some row"
  by (auto simp: prefix_def select_key_def find_by_append)

lemma stored_row_checksum:
  assumes "row_to_event digest row = Inr e"
  shows "cell row ''checksum'' = SqlText c \<longrightarrow> c = e_checksum e"
proof
  assume c: "cell row ''checksum'' = SqlText c"
  obtain p t where e: "e = envelope_of (row_data row @ [(''payload'', p)]) t"
    using assms by (auto simp: row_to_event_def envelope_from_dict_def split: option.splits sum.splits if_splits)
  have "dget (row_data row @ [(''payload'', p)]) ''checksum'' = Some (PStr c)"
    using c by (simp add: dget_def row_data_def)
  then show "c = e_checksum e" by (simp add: e envelope_of_def str_field_def)
qed

lemma transaction_prefix:
  assumes "\<And>x. pres (repo_grows E) (rest x)" and "repo_ok E s" and "event_transaction E rest e s = (z, s')"
  shows "repo_ok E s' \<and> prefix (rp_disk s ''events'') (rp_disk s' ''events'')"
  using event_transaction_grows [where rest = rest and r = s and e = e, OF assms(1)] assms(2,3)
  by (simp add: repo_grows_def)

lemma transaction_keeps:
  assumes "\<And>x. pres (repo_grows E) (rest x)" and "repo_ok E s" and "event_transaction E rest e s = (z, s')"
    and "stored_event E s k = Some e0"
  shows "stored_event E s' k = Some e0"
proof -
  obtain row where "select_key ''event_id'' (SqlText k) (rp_disk s ''events'') = Some row"
    and row: "row_to_event (db_digest E) row = Inr e0"
    using assms(4) by (auto simp: stored_event_def split: option.splits sum.splits)
  then have "select_key ''event_id'' (SqlText k) (rp_disk s' ''events'') = Some row"
    using select_prefix transaction_prefix [OF assms(1-3)] by blast
  then show ?thesis using row by (simp add: stored_event_def)
qed

lemma transaction_refuses:
  assumes "harmless rest" and "\<And>x. pres (repo_grows E) (rest x)" and "ready E s"
    and "event_transaction E rest e s = (Inl err, s')"
  shows "ready E s' \<and> stored_event E s' = stored_event E s"
  using event_transaction_refused [OF assms(1,4)] transaction_prefix [OF assms(2) _ assms(4)] assms(3)
  by (auto simp: ready_def stored_event_def stuck_def fun_eq_iff)

lemma transaction_stores:
  assumes "harmless rest" and "\<And>x. pres (repo_grows E) (rest x)" and "repo_ok E s"
    and "event_transaction E rest e s = (Inr x, s')"
  shows "repo_ok E s' \<and> idle s' \<and> (ready E s \<longrightarrow> ready E s') \<and> (\<exists>e'. stored_event E s' (e_event_id e) = Some e' \<and> e_checksum e' = e_checksum e
    \<and> (ir_inserted x \<longrightarrow> e' = e))"
proof -
  note ok = transaction_prefix [OF assms(2-4)]
  note acc = event_transaction_accepted [OF assms(1,4)]
  from acc have "\<exists>e'. stored_event E s' (e_event_id e) = Some e' \<and> e_checksum e' = e_checksum e \<and> (ir_inserted x \<longrightarrow> e' = e)"
  proof (elim conjE disjE exE)
    fix row assume row: "bind_row ''events'' (event_params e) = Inr row" "event_ok (db_digest E) e"
      and fresh: "select_key ''event_id'' (SqlText (e_event_id e)) (rp_disk s ''events'') = None"
      "rp_disk s' ''events'' = rp_disk s ''events'' @ [row]"
    then have "select_key ''event_id'' (SqlText (e_event_id e)) (rp_disk s' ''events'') = Some row"
      by (simp add: select_key_def find_by_append find_by_Cons bound_cells(1) [OF row(1)])
    then show ?thesis using stored_row_reads_back [OF row] by (simp add: stored_event_def)
  next
    fix row assume row: "select_key ''event_id'' (SqlText (e_event_id e)) (rp_disk s ''events'') = Some row"
      "cell row ''checksum'' = SqlText (e_checksum e)" and same: "rp_disk s' ''events'' = rp_disk s ''events''"
      and x: "x = duplicate_result"
    have "row \<in> set (rp_disk s' ''events'')" using find_by_Some [OF row(1) [unfolded select_key_def]] same by simp
    then obtain e' where e': "row_to_event (db_digest E) row = Inr e'" using ok by (auto simp: repo_ok_def audit_ok_def)
    moreover have "e_checksum e' = e_checksum e" using stored_row_checksum [OF e'] row(2) by simp
    ultimately show ?thesis using row(1) same x by (simp add: stored_event_def duplicate_result_def)
  qed
  then show ?thesis using ok acc assms(3) by (simp add: ready_def)
qed

lemma provides_event_store:
  assumes "\<And>c e. harmless (rest c e)" and "\<And>c e x. pres (repo_grows E) (rest c e x)"
  shows "event_store (\<lambda>c e. event_transaction E (rest c e) e) (stored_event E) (ready E)"
proof unfold_locales
  fix s c e s' and x :: insert_result
  assume "ready E s" and run: "event_transaction E (rest c e) e s = (Inr x, s')"
  then have "repo_ok E s" by (simp add: ready_def)
  from transaction_stores [OF assms this run] \<open>ready E s\<close>
  show "ready E s' \<and> (\<exists>e'. stored_event E s' (e_event_id e) = Some e' \<and> e_checksum e' = e_checksum e)" by blast
next
  fix s c e s' and err :: db_error
  assume "ready E s" and "event_transaction E (rest c e) e s = (Inl err, s')"
  from transaction_refuses [OF assms this] show "ready E s' \<and> stored_event E s' = stored_event E s" .
next
  fix s c e s' k e0 and z :: "db_error + insert_result"
  assume "ready E s" and rest: "event_transaction E (rest c e) e s = (z, s')" "stored_event E s k = Some e0"
  then have "repo_ok E s" by (simp add: ready_def)
  from transaction_keeps [OF assms(2) this rest] show "stored_event E s' k = Some e0" .
qed

lemma insert_event_transaction: "insert_event E e = event_transaction E ret e"
proof -
  have "bind (insert_event_row e) ret = insert_event_row e"
    by (rule ext) (simp add: bind_def ret_def split: prod.splits sum.splits)
  then show ?thesis by (simp add: insert_event_def event_transaction_def)
qed

lemma harmless_ret: "harmless ret"
  by (simp add: harmless_def pres_rules post_rules)

lemma harmless_cursor: "harmless (\<lambda>x. bind (write_ingestion_cursor c) (\<lambda>_. ret x))"
  by (auto simp: harmless_def write_ingestion_cursor_def same_tables_params intro!: pres_rules post_rules)

lemma harmless_run:
  "harmless (\<lambda>x. bind (apply_derived_state E e) (\<lambda>_. bind (write_reconciliation_run run) (\<lambda>_.
     bind (write_adoptions as) (\<lambda>_. ret x))))"
  by (auto simp: harmless_def same_events_projection same_tables_adoptions write_reconciliation_run_def same_tables_params
    intro!: pres_rules post_rules)

lemma harmless_derived: "harmless (\<lambda>x. bind (apply_derived_state E e) (\<lambda>_. ret x))"
  by (auto simp: harmless_def same_events_projection intro!: pres_rules post_rules)

lemmas grows_rests = grows_projection grows_adoptions grows_insert_params grows_upsert_params pres_rules

interpretation plain_store: event_store "\<lambda>(c :: unit) e. insert_event E e" "stored_event E" "ready E"
  unfolding insert_event_transaction
  by (rule provides_event_store, rule harmless_ret) (simp add: grows_rests)

interpretation derived_store: event_store "\<lambda>(c :: unit) e. insert_event_with_derived E e" "stored_event E" "ready E"
  unfolding insert_event_with_derived_def event_transaction_def [symmetric]
  by (rule provides_event_store, rule harmless_derived) (simp add: grows_rests)

interpretation cursor_store: event_store "\<lambda>c e. insert_event_with_cursor E e c" "stored_event E" "ready E"
  unfolding insert_event_with_cursor_def event_transaction_def [symmetric]
  by (rule provides_event_store, rule harmless_cursor) (simp add: write_ingestion_cursor_def grows_rests)

interpretation run_store: event_store "\<lambda>ra e. save_reconciliation_run E e (fst ra) (snd ra)" "stored_event E" "ready E"
  unfolding save_reconciliation_run_def event_transaction_def [symmetric]
  by (rule provides_event_store, rule harmless_run) (simp add: write_reconciliation_run_def grows_rests)

section \<open>Tables a transaction leaves alone\<close>

definition same_disk :: "string set \<Rightarrow> repo \<Rightarrow> repo \<Rightarrow> bool" where
  "same_disk T r r' \<longleftrightarrow> (\<forall>t \<in> T. rp_disk r' t = rp_disk r t)"

lemma same_disk_preorder [pres_rules]: "preorder_rel (same_disk T)"
  by (simp add: preorder_rel_def same_disk_def)

lemma event_transaction_tables:
  assumes "harmless rest" and "\<And>x. pres (same_tables T) (rest x)" and "''events'' \<notin> T"
  shows "pres (same_disk T) (event_transaction E rest e)"
proof (rule presI)
  fix r :: repo
  obtain z r' where run: "event_transaction E rest e r = (z, r')" by fastforce
  show "same_disk T r (snd (event_transaction E rest e r))"
  proof (cases z)
    case (Inl x)
    then show ?thesis using event_transaction_refused [OF assms(1)] run by (auto simp: same_disk_def)
  next
    case (Inr x)
    show ?thesis
    proof (cases rule: check_event_cases [of E e r])
      case accepted
      let ?body = "bind (insert_event_row e) rest"
      have tx: "transaction ?body r = (Inr x, r')"
        using run Inr accepted by (simp add: event_transaction_def bind_def)
      have "pres on_work ?body" using assms(1) by (auto simp: harmless_def intro!: pres_rules)
      from transaction_Inr [OF this tx] obtain r3
        where body: "?body (begun r) = (Inr x, r3)" and disk: "rp_disk r' = view r3"
        by blast
      have "pres (same_tables T) ?body" using assms(2,3) by (intro pres_bind same_tables_preorder same_tables_insert_event_row)
      from presD [OF this body] show ?thesis using run disk by (simp add: same_disk_def same_tables_def view_def)
    next
      case (refused y)
      then show ?thesis using run Inr by (simp add: event_transaction_def bind_def)
    qed
  qed
qed

section \<open>The cursor reads back\<close>

lemma cursor_cells:
  assumes "bind_row ''ingestion_cursor'' (cursor_params c) = Inr row"
  shows "cell row ''source_path'' = SqlText (ic_source_path c)" and "cell row ''byte_offset'' = SqlInt (ic_byte_offset c)"
    and "cell row ''line_number'' = (case ic_line_number c of None \<Rightarrow> SqlNull | Some i \<Rightarrow> SqlInt i)"
    and "cell row ''last_event_id'' = (case ic_last_event_id c of None \<Rightarrow> SqlNull | Some x \<Rightarrow> SqlText x)"
    and "cell row ''updated_ts'' = SqlText (ic_updated_ts c)"
proof -
  have nr: "is_real_column ''ingestion_cursor'' k = False" for k by (simp add: is_real_column_def real_columns_def)
  note at = bind_row_cell [OF assms, simplified nr cursor_params_def]
  have off: "bind_param (Param (PInt (ic_byte_offset c))) = Inr (SqlInt (ic_byte_offset c))"
    and line: "\<And>i. ic_line_number c = Some i \<Longrightarrow> bind_param (Param (PInt i)) = Inr (SqlInt i)"
    using assms by (auto simp: cursor_params_def or_null_def split: sum.splits if_splits)
  show "cell row ''source_path'' = SqlText (ic_source_path c)" "cell row ''updated_ts'' = SqlText (ic_updated_ts c)"
    by (auto simp: text_param_def intro: at [THEN trans])
  show "cell row ''byte_offset'' = SqlInt (ic_byte_offset c)" using at [OF _ off] by simp
  show "cell row ''line_number'' = (case ic_line_number c of None \<Rightarrow> SqlNull | Some i \<Rightarrow> SqlInt i)"
    using at [of "''line_number''"] line by (cases "ic_line_number c") (simp_all add: or_null_def)
  show "cell row ''last_event_id'' = (case ic_last_event_id c of None \<Rightarrow> SqlNull | Some x \<Rightarrow> SqlText x)"
    by (rule at [THEN trans]) (auto simp: or_null_def opt_text_def text_param_def split: option.splits)
qed

lemma cursor_reads_back:
  assumes "write_ingestion_cursor c r = (Inr u, r')"
  shows "read_ingestion_cursor (view r') (ic_source_path c) = Some c"
proof -
  obtain row where row: "bind_row ''ingestion_cursor'' (cursor_params c) = Inr row"
    and vw: "view r' = (view r)(''ingestion_cursor'' := upsert_row ''source_path'' row (view r ''ingestion_cursor''))"
    using assms by (auto simp: write_ingestion_cursor_def execute_def upsert_params_def view_def split: sum.splits)
  have "map fst row = [''source_path'', ''byte_offset'', ''line_number'', ''last_event_id'', ''updated_ts'']"
    using bind_row_columns [OF row] by (simp add: cursor_params_def)
  then have cols: "fst ` set row = set [''source_path'', ''byte_offset'', ''line_number'', ''last_event_id'', ''updated_ts'']"
    by (metis list.set_map)
  note cells = cursor_cells [OF row]
  have "cursor_from_row row' = c" if "\<And>k. k \<in> fst ` set row \<Longrightarrow> cell row' k = cell row k" for row'
    using that [unfolded cols] by (simp add: cursor_from_row_def text_of_def cells split: option.splits)
  then show ?thesis
    using cols by (simp add: read_ingestion_cursor_def vw select_upsert cells(1) cell_set_cells split: option.splits)
qed

lemma inserted_cursor:
  assumes "insert_event_with_cursor E e c r = (z, r')"
  shows "(ready E r \<longrightarrow> ready E r') \<and> (case z of Inl err \<Rightarrow> rp_disk r' = rp_disk r
    | Inr x \<Rightarrow> read_ingestion_cursor (rp_disk r') (ic_source_path c) = Some c)"
proof (cases z)
  case (Inl err)
  have run: "event_transaction E (\<lambda>x. bind (write_ingestion_cursor c) (\<lambda>_. ret x)) e r = (Inl err, r')"
    using assms Inl by (simp add: insert_event_with_cursor_def event_transaction_def)
  show ?thesis
    using event_transaction_refused [OF harmless_cursor run] cursor_store.put_refuses assms Inl by fastforce
next
  case (Inr x)
  note stores = cursor_store.put_stores [OF _ assms [unfolded Inr]]
  have "read_ingestion_cursor (rp_disk r') (ic_source_path c) = Some c"
  proof (cases rule: check_event_cases [of E e r])
    case accepted
    let ?body = "bind (insert_event_row e) (\<lambda>x. bind (write_ingestion_cursor c) (\<lambda>_. ret x))"
    have "pres on_work ?body" by (simp add: pres_rules write_ingestion_cursor_def)
    moreover have "transaction ?body r = (Inr x, r')"
      using assms Inr accepted by (simp add: insert_event_with_cursor_def bind_def)
    ultimately obtain r3 where body: "?body (begun r) = (Inr x, r3)"
      and disk: "rp_disk r' = view r3"
      by (blast dest: transaction_Inr)
    then obtain r2 where "write_ingestion_cursor c r2 = (Inr (), r3)"
      by (auto simp: bind_def ret_def split: prod.splits sum.splits)
    then show ?thesis using disk cursor_reads_back by simp
  next
    case (refused y)
    then show ?thesis using assms Inr by (simp add: insert_event_with_cursor_def bind_def)
  qed
  then show ?thesis using stores Inr by simp
qed

section \<open>A transaction that stays open\<close>

lemma insert_while_open:
  assumes "rp_open r" and "\<not> rp_busy r" and "rp_work r \<noteq> None" and "event_ok (db_digest E) e"
  shows "fst (insert_event E e r) = Inl Cannot_begin"
proof (cases rule: check_event_cases [of E e r])
  case accepted
  then show ?thesis using assms by (simp add: insert_event_def bind_def transaction_def)
next
  case (refused x)
  then show ?thesis
    using assms(1,4) by (auto simp: check_event_def event_ok_def bind_def connection_def ret_def split: if_splits)
qed

end
