(* ===== verification/RcService.thy ===== *)
theory RcService
  imports RcClassify PsStore
begin

text \<open>
  The reconciliation service: \<open>src/collector/reconciliation/reconciler.py\<close>. A broker snapshot, or the
  message of \<open>BrokerUnavailableError\<close>, is an argument of a run, as are its clock readings and its fresh
  event id. \<open>rc_uuid5\<close> is \<open>uuid.uuid5(NAMESPACE_URL, name)\<close>, \<open>rc_schema_ok\<close> the verdict of the
  \<open>jsonschema\<close> package on an event. Logging is left out.
\<close>

record rc_env =
  rc_db :: db_env
  rc_fmt :: "pyval \<Rightarrow> string"
  rc_uuid5 :: "string \<Rightarrow> string"
  rc_schema_ok :: "pyval \<Rightarrow> bool"
  rc_component :: string

record run_clock =
  rn_run_ts :: string
  rn_uuid :: string
  rn_now_ms :: string
  rn_monotonic :: int
  rn_elapsed :: int

text \<open>\<open>ReconciliationError\<close> around a persistence error or for an event that violates the schema; any
  other exception of the layers below escapes.\<close>

datatype rc_error = Run_failed db_error | Schema_violation string | Escaped db_error

definition lift_db :: "(repo, db_error, 'a) eff \<Rightarrow> (repo, rc_error, 'a) eff" where
  "lift_db m r = (case m r of (z, r') \<Rightarrow> (case z of Inl e \<Rightarrow> (Inl (Escaped e), r') | Inr x \<Rightarrow> (Inr x, r')))"

definition wrap_db :: "(repo, db_error, 'a) eff \<Rightarrow> (repo, rc_error, 'a) eff" where
  "wrap_db m r =
     (case m r of (z, r') \<Rightarrow>
       (case z of
          Inl e \<Rightarrow> (Inl (if is_persistence_error e then Run_failed e else Escaped e), r')
        | Inr x \<Rightarrow> (Inr x, r')))"

record rc_stats =
  rs_runs :: nat
  rs_success :: nat
  rs_adopted :: nat
  rs_escalated :: nat
  rs_local_orphans :: nat
  rs_broker_orphans :: nat
  rs_state_conflicts :: nat
  rs_snapshot_available :: bool
  rs_skipped_identical :: nat
  rs_latency_ms :: int
  rs_last_successful :: "string option"
  rs_last_mismatch :: "string option"
  rs_latest_result :: "string option"
  rs_latest_id :: "string option"

section \<open>Shadow state\<close>

definition shadow_state_for :: "string \<Rightarrow> shadow_state" where
  "shadow_state_for s =
     (if s = ''SYNCED'' then SH_SYNCED else if s = ''ADOPTED_BROKER'' then SH_ADOPTED_BROKER
      else if s = ''ESCALATED'' then SH_ESCALATED else SH_UNKNOWN)"

definition shadow_of :: "database \<Rightarrow> shadow_state" where
  "shadow_of d =
     (case read_latest_reconciliation_run d of None \<Rightarrow> SH_UNKNOWN | Some run \<Rightarrow> shadow_state_for (ru_result run))"

definition service_shadow_state :: "(repo, rc_error, shadow_state) eff" where
  "service_shadow_state = bind (lift_db connection) (\<lambda>_. gets (\<lambda>r. shadow_of (view r)))"

definition is_synced :: "(repo, rc_error, bool) eff" where
  "is_synced = bind service_shadow_state (\<lambda>s. ret (s = SH_SYNCED))"

definition is_degraded :: "(repo, rc_error, bool) eff" where
  "is_degraded = bind service_shadow_state (\<lambda>s. ret (s \<in> {SH_UNKNOWN, SH_ESCALATED}))"

section \<open>The record of a run\<close>

definition event_env_of :: "rc_env \<Rightarrow> run_clock \<Rightarrow> event_env" where
  "event_env_of R n =
     \<lparr>ev_digest = db_digest (rc_db R), ev_uuid = rn_uuid n, ev_now_ms = rn_now_ms n, ev_monotonic = rn_monotonic n\<rparr>"

definition run_payload :: "trigger \<Rightarrow> rec_outcome \<Rightarrow> string \<Rightarrow> string \<Rightarrow> pydict" where
  "run_payload trig oc rid run_ts =
     [(''reconciliation_id'', PStr rid), (''trigger'', PStr (trigger_value trig)),
      (''local_state'', PStr (oc_local_state oc)), (''broker_state'', PStr (oc_broker_state oc)),
      (''mismatch'', PBool (oc_mismatch oc)), (''result'', PStr (rec_result_value (oc_result oc))),
      (''action'', PStr (oc_action oc)), (''ts'', PStr run_ts)]
     @ (if oc_mismatch oc then
          [(''mismatch_details'', PDict
             [(''diffs'', PList (map (\<lambda>d. PDict (diff_to_dict d)) (oc_diffs oc))),
              (''broker_orphans'', PInt (int (oc_broker_orphans oc))),
              (''local_orphans'', PInt (int (oc_local_orphans oc))),
              (''state_conflicts'', PInt (int (oc_state_conflicts oc)))])]
        else [])"

definition run_record_of :: "rc_env \<Rightarrow> trigger \<Rightarrow> rec_outcome \<Rightarrow> string \<Rightarrow> string \<Rightarrow> run_record" where
  "run_record_of R trig oc rid run_ts =
     \<lparr>ru_reconciliation_id = rid, ru_trigger = trigger_value trig,
      ru_signature = signature (db_digest (rc_db R)) oc trig, ru_result = rec_result_value (oc_result oc),
      ru_action = oc_action oc, ru_mismatch = oc_mismatch oc, ru_run_ts = run_ts\<rparr>"

definition check_event_schema :: "rc_env \<Rightarrow> envelope \<Rightarrow> (repo, rc_error, unit) eff" where
  "check_event_schema R e =
     (if rc_schema_ok R (PDict (envelope_to_dict e)) then ret () else raise (Schema_violation (e_event_id e)))"

definition built_event :: "event_env \<Rightarrow> event_type \<Rightarrow> pydict \<Rightarrow> string \<Rightarrow> (repo, rc_error, envelope) eff" where
  "built_event EE t payload ts =
     (case build_event EE t payload (default_args\<lparr>ea_ts_event := Some ts\<rparr>) of
        Inl e \<Rightarrow> raise (Escaped (Contract e))
      | Inr e \<Rightarrow> ret e)"

definition build_run ::
  "rc_env \<Rightarrow> run_clock \<Rightarrow> trigger \<Rightarrow> rec_outcome \<Rightarrow> string \<Rightarrow> (repo, rc_error, envelope \<times> run_record) eff" where
  "build_run R n trig oc rid =
     bind (built_event (event_env_of R n) RECONCILIATION (run_payload trig oc rid (rn_run_ts n)) (rn_run_ts n)) (\<lambda>e.
     bind (check_event_schema R e) (\<lambda>_. ret (e, run_record_of R trig oc rid (rn_run_ts n))))"

definition adoption_id :: "rc_env \<Rightarrow> entity_diff \<Rightarrow> string \<Rightarrow> string" where
  "adoption_id R d rid = rc_uuid5 R (''abc-bot:adoption:'' @ ed_entity_type d @ '':'' @ ed_broker_id d @ '':'' @ rid)"

definition adoption_of_diff ::
  "rc_env \<Rightarrow> broker_snapshot \<Rightarrow> string \<Rightarrow> string \<Rightarrow> entity_diff \<Rightarrow> adoption_record list" where
  "adoption_of_diff R snapshot rid run_ts d =
     (if ed_class d \<noteq> RECOVERABLE then []
      else if ed_entity_type d = ''POSITION'' then
        (case map_of (by_id bp_id (bs_positions snapshot)) (ed_broker_id d) of
           None \<Rightarrow> []
         | Some p \<Rightarrow>
             [\<lparr>ad_adoption_id = adoption_id R d rid, ad_reconciliation_id = rid, ad_entity_type = ''POSITION'',
               ad_broker_id = bp_id p, ad_symbol = Some (bp_symbol p), ad_direction = Some (bp_direction p),
               ad_volume = Some (PFloat (bp_volume p)), ad_open_price = Some (PFloat (bp_open_price p)),
               ad_broker_state = Some (bp_state p), ad_reason = ed_reason d, ad_adopted_ts = run_ts\<rparr>])
      else if ed_entity_type d = ''ORDER'' then
        (case map_of (by_id bo_id (bs_orders snapshot)) (ed_broker_id d) of
           None \<Rightarrow> []
         | Some x \<Rightarrow>
             [\<lparr>ad_adoption_id = adoption_id R d rid, ad_reconciliation_id = rid, ad_entity_type = ''ORDER'',
               ad_broker_id = bo_id x, ad_symbol = bo_symbol x, ad_direction = None,
               ad_volume = map_option PFloat (bo_volume x), ad_open_price = map_option PFloat (bo_price x),
               ad_broker_state = Some (bo_state x), ad_reason = ed_reason d, ad_adopted_ts = run_ts\<rparr>])
      else [])"

definition run_adoptions :: "rc_env \<Rightarrow> rec_outcome \<Rightarrow> broker_snapshot \<Rightarrow> string \<Rightarrow> string \<Rightarrow> adoption_record list" where
  "run_adoptions R oc snapshot rid run_ts =
     sort_key (\<lambda>a. (ad_entity_type a, ad_broker_id a))
       (concat (map (adoption_of_diff R snapshot rid run_ts) (oc_diffs oc)))"

definition stats_for ::
  "rec_outcome \<Rightarrow> run_clock \<Rightarrow> nat \<Rightarrow> run_record option \<Rightarrow> string option \<Rightarrow> rc_stats" where
  "stats_for oc n skipped latest rid =
     (let result = (case latest of None \<Rightarrow> rec_result_value (oc_result oc) | Some l \<Rightarrow> ru_result l);
          rid' = (case latest of None \<Rightarrow> rid | Some l \<Rightarrow> Some (ru_reconciliation_id l));
          run_ts = (case latest of None \<Rightarrow> rn_run_ts n | Some l \<Rightarrow> ru_run_ts l);
          success = result \<in> {''SYNCED'', ''ADOPTED_BROKER''}
      in \<lparr>rs_runs = 1, rs_success = (if success then 1 else 0),
          rs_adopted = (if result = ''ADOPTED_BROKER'' then 1 else 0),
          rs_escalated = (if result = ''ESCALATED'' then 1 else 0),
          rs_local_orphans = oc_local_orphans oc, rs_broker_orphans = oc_broker_orphans oc,
          rs_state_conflicts = oc_state_conflicts oc, rs_snapshot_available = True, rs_skipped_identical = skipped,
          rs_latency_ms = max 0 (rn_elapsed n), rs_last_successful = (if success then Some run_ts else None),
          rs_last_mismatch = (if oc_mismatch oc then Some run_ts else None), rs_latest_result = Some result,
          rs_latest_id = rid'\<rparr>)"

definition unavailable_stats :: "run_clock \<Rightarrow> rc_stats" where
  "unavailable_stats n =
     \<lparr>rs_runs = 1, rs_success = 0, rs_adopted = 0, rs_escalated = 0, rs_local_orphans = 0, rs_broker_orphans = 0,
      rs_state_conflicts = 0, rs_snapshot_available = False, rs_skipped_identical = 0,
      rs_latency_ms = max 0 (rn_elapsed n), rs_last_successful = None, rs_last_mismatch = Some (rn_run_ts n),
      rs_latest_result = None, rs_latest_id = None\<rparr>"

section \<open>A run\<close>

definition catch_persistence :: "(repo, rc_error, unit) eff \<Rightarrow> (repo, rc_error, unit) eff" where
  "catch_persistence m r =
     (case m r of (z, r') \<Rightarrow>
       (case z of Inl (Escaped e) \<Rightarrow> (if is_persistence_error e then Inr () else z, r') | _ \<Rightarrow> (z, r')))"

definition snapshot_unavailable :: "rc_env \<Rightarrow> run_clock \<Rightarrow> trigger \<Rightarrow> string \<Rightarrow> (repo, rc_error, rc_stats) eff" where
  "snapshot_unavailable R n trig message =
     bind (catch_persistence
       (bind (built_event (event_env_of R n) ET_TIMEOUT
          [(''timeout_code'', PStr ''RECONCILIATION_SNAPSHOT_UNAVAILABLE''), (''component'', PStr (rc_component R)),
           (''severity'', PStr ''WARN''), (''message'', PStr (trigger_value trig @ '': '' @ message))] (rn_run_ts n))
        (\<lambda>e. bind (lift_db (insert_event (rc_db R) e)) (\<lambda>_. ret ())))) (\<lambda>_.
     ret (unavailable_stats n))"

definition identical_run :: "run_record option \<Rightarrow> string \<Rightarrow> rec_outcome \<Rightarrow> bool" where
  "identical_run latest sig oc \<longleftrightarrow>
     (case latest of None \<Rightarrow> False | Some l \<Rightarrow> ru_signature l = sig \<and> ru_result l = rec_result_value (oc_result oc))"

definition reconciliation_id :: "rc_env \<Rightarrow> string \<Rightarrow> string" where
  "reconciliation_id R sig = rc_uuid5 R (''abc-bot:reconciliation:'' @ sig)"

definition record_run ::
  "rc_env \<Rightarrow> run_clock \<Rightarrow> trigger \<Rightarrow> rec_outcome \<Rightarrow> broker_snapshot \<Rightarrow> (repo, rc_error, rc_stats) eff" where
  "record_run R n trig oc snapshot =
     (let rid = reconciliation_id R (signature (db_digest (rc_db R)) oc trig) in
      bind (build_run R n trig oc rid) (\<lambda>er.
      bind (wrap_db (save_reconciliation_run (rc_db R) (fst er) (snd er)
              (run_adoptions R oc snapshot rid (rn_run_ts n)))) (\<lambda>_.
      ret (stats_for oc n 0 None (Some rid)))))"

definition run_reconcile ::
  "rc_env \<Rightarrow> run_clock \<Rightarrow> trigger \<Rightarrow> string + broker_snapshot \<Rightarrow> (repo, rc_error, rc_stats) eff" where
  "run_reconcile R n trig snap =
     (case snap of
        Inl message \<Rightarrow> snapshot_unavailable R n trig message
      | Inr snapshot \<Rightarrow>
          bind (lift_db open_positions) (\<lambda>lps.
          bind (lift_db open_orders) (\<lambda>los.
          let oc = classify (rc_fmt R) lps los snapshot;
              sig = signature (db_digest (rc_db R)) oc trig in
          bind (lift_db get_latest_reconciliation_run) (\<lambda>latest.
          if identical_run latest sig oc then ret (stats_for oc n 1 latest None)
          else record_run R n trig oc snapshot))))"

end
