(* ===== verification/RcRunner.thy ===== *)
theory RcRunner
  imports RcService
begin

text \<open>
  The reconciliation runner: \<open>src/collector/reconciliation/runner.py\<close>. One cycle of its loop brings the
  reading of \<open>time.monotonic\<close> and what the service needs for a run: its clock readings and the answer of
  the broker. The loop runs over the cycles until \<open>stop_check\<close> is true; sleeping is left out.
\<close>

datatype runner_error = Not_started | Service_missing | Open_failed db_error | Run_escaped rc_error

record rec_runner =
  qr_repo :: repo
  qr_interval_seconds :: pyfloat
  qr_service :: bool
  qr_last_heartbeat :: "pyfloat option"
  qr_startup_stats :: "rc_stats option"

record cycle =
  cy_now :: pyfloat
  cy_clock :: run_clock
  cy_snapshot :: "string + broker_snapshot"

definition new_rec_runner :: "repo \<Rightarrow> pyfloat \<Rightarrow> rec_runner" where
  "new_rec_runner r interval =
     \<lparr>qr_repo = r, qr_interval_seconds = fmax interval (flit 5 2), qr_service = False, qr_last_heartbeat = None,
      qr_startup_stats = None\<rparr>"

definition initial_stats :: rc_stats where
  "initial_stats =
     \<lparr>rs_runs = 0, rs_success = 0, rs_adopted = 0, rs_escalated = 0, rs_local_orphans = 0, rs_broker_orphans = 0,
      rs_state_conflicts = 0, rs_snapshot_available = True, rs_skipped_identical = 0, rs_latency_ms = 0,
      rs_last_successful = None, rs_last_mismatch = None, rs_latest_result = None, rs_latest_id = None\<rparr>"

definition failed_stats :: rc_stats where
  "failed_stats = initial_stats\<lparr>rs_runs := 1\<rparr>"

fun is_reconciliation_error :: "rc_error \<Rightarrow> bool" where
  "is_reconciliation_error (Run_failed e) \<longleftrightarrow> True"
| "is_reconciliation_error (Schema_violation m) \<longleftrightarrow> True"
| "is_reconciliation_error (Escaped e) \<longleftrightarrow> False"

definition runner_run :: "rc_env \<Rightarrow> trigger \<Rightarrow> cycle \<Rightarrow> (rec_runner, runner_error, rc_stats) eff" where
  "runner_run R trig c q =
     (if \<not> qr_service q then (Inl Service_missing, q)
      else case run_reconcile R (cy_clock c) trig (cy_snapshot c) (qr_repo q) of (z, r') \<Rightarrow>
        (case z of
           Inr st \<Rightarrow> Inr st
         | Inl e \<Rightarrow> if is_reconciliation_error e then Inr failed_stats else Inl (Run_escaped e),
         q\<lparr>qr_repo := r'\<rparr>))"

definition reconcile_post_execution :: "rc_env \<Rightarrow> cycle \<Rightarrow> (rec_runner, runner_error, rc_stats) eff" where
  "reconcile_post_execution R = runner_run R POST_EXECUTION"

definition reconcile_mismatch :: "rc_env \<Rightarrow> cycle \<Rightarrow> (rec_runner, runner_error, rc_stats) eff" where
  "reconcile_mismatch R = runner_run R MISMATCH"

definition open_runner :: "(rec_runner, runner_error, unit) eff" where
  "open_runner q =
     (case open_repo (qr_repo q) of (z, r') \<Rightarrow>
       (case z of
          Inl e \<Rightarrow> (Inl (Open_failed e), q\<lparr>qr_repo := r'\<rparr>)
        | Inr x \<Rightarrow> (Inr (), q\<lparr>qr_repo := r', qr_service := True\<rparr>)))"

definition started :: "pyfloat \<Rightarrow> rc_stats \<Rightarrow> (rec_runner, runner_error, rc_stats) eff" where
  "started now st q = (Inr st, q\<lparr>qr_startup_stats := Some st, qr_last_heartbeat := Some now\<rparr>)"

definition rec_start :: "rc_env \<Rightarrow> cycle \<Rightarrow> (rec_runner, runner_error, rc_stats) eff" where
  "rec_start R c = bind open_runner (\<lambda>_. bind (runner_run R STARTUP c) (started (cy_now c)))"

definition heartbeat_due :: "pyfloat \<Rightarrow> rec_runner \<Rightarrow> bool" where
  "heartbeat_due now q \<longleftrightarrow>
     (case qr_last_heartbeat q of
        None \<Rightarrow> True
      | Some l \<Rightarrow> \<not> flt (fsub now l) (qr_interval_seconds q))"

definition maybe_heartbeat :: "rc_env \<Rightarrow> cycle \<Rightarrow> (rec_runner, runner_error, rc_stats option) eff" where
  "maybe_heartbeat R c q =
     (if \<not> qr_service q then (Inl Not_started, q)
      else if \<not> heartbeat_due (cy_now c) q then (Inr None, q)
      else bind (runner_run R HEARTBEAT c) (\<lambda>st. ret (Some st)) (q\<lparr>qr_last_heartbeat := Some (cy_now c)\<rparr>))"

fun heartbeat_loop :: "rc_env \<Rightarrow> cycle list \<Rightarrow> rc_stats \<Rightarrow> (rec_runner, runner_error, rc_stats) eff" where
  "heartbeat_loop R [] st = ret st"
| "heartbeat_loop R (c # cs) st =
     bind (maybe_heartbeat R c) (\<lambda>h. heartbeat_loop R cs (case h of None \<Rightarrow> st | Some st' \<Rightarrow> st'))"

definition rec_run :: "rc_env \<Rightarrow> cycle \<Rightarrow> cycle list \<Rightarrow> (rec_runner, runner_error, rc_stats) eff" where
  "rec_run R c cs =
     bind (\<lambda>q. if qr_service q then (Inr (), q) else bind (rec_start R c) (\<lambda>_. ret ()) q) (\<lambda>_.
     bind (gets qr_startup_stats) (\<lambda>st.
     heartbeat_loop R cs (case st of None \<Rightarrow> initial_stats | Some st' \<Rightarrow> st')))"

definition rec_close :: "(rec_runner, runner_error, unit) eff" where
  "rec_close q = (Inr (), q\<lparr>qr_repo := snd (close_repo (qr_repo q))\<rparr>)"

section \<open>Spacing of the heartbeats\<close>

text \<open>The times at which the cycles of a loop do run a heartbeat.\<close>

fun heartbeat_times :: "rc_env \<Rightarrow> cycle list \<Rightarrow> rec_runner \<Rightarrow> pyfloat list" where
  "heartbeat_times R [] q = []"
| "heartbeat_times R (c # cs) q =
     (case maybe_heartbeat R c q of (z, q') \<Rightarrow>
       (case z of
          Inl e \<Rightarrow> if qr_service q \<and> heartbeat_due (cy_now c) q then [cy_now c] else []
        | Inr h \<Rightarrow> (if h = None then [] else [cy_now c]) @ heartbeat_times R cs q'))"

definition spaced :: "pyfloat \<Rightarrow> pyfloat list \<Rightarrow> bool" where
  "spaced i ts \<longleftrightarrow> successively (\<lambda>a b. \<not> flt (fsub b a) i) ts"

lemma runner_run_frame:
  "snd (runner_run R trig c q) = q\<lparr>qr_repo := qr_repo (snd (runner_run R trig c q))\<rparr>"
  by (simp add: runner_run_def split: prod.split)

lemma maybe_heartbeat_cases:
  assumes "maybe_heartbeat R c q = (z, q')"
  shows "qr_interval_seconds q' = qr_interval_seconds q \<and> qr_service q' = qr_service q
    \<and> (qr_service q \<and> heartbeat_due (cy_now c) q \<longrightarrow> qr_last_heartbeat q' = Some (cy_now c) \<and> z \<noteq> Inr None)
    \<and> (\<not> (qr_service q \<and> heartbeat_due (cy_now c) q) \<longrightarrow> q' = q \<and> (z = Inr None \<or> z = Inl Not_started))"
proof -
  let ?q = "q\<lparr>qr_last_heartbeat := Some (cy_now c)\<rparr>"
  have "snd (runner_run R HEARTBEAT c ?q) = ?q\<lparr>qr_repo := qr_repo (snd (runner_run R HEARTBEAT c ?q))\<rparr>"
    by (rule runner_run_frame)
  then have "snd (bind (runner_run R HEARTBEAT c) (\<lambda>st. ret (Some st)) ?q)
      = ?q\<lparr>qr_repo := qr_repo (snd (runner_run R HEARTBEAT c ?q))\<rparr>"
    and "fst (bind (runner_run R HEARTBEAT c) (\<lambda>st. ret (Some st)) ?q) \<noteq> Inr None"
    by (auto simp: bind_def ret_def split: prod.splits sum.splits)
  then show ?thesis
    using assms by (auto simp: maybe_heartbeat_def split: if_splits)
qed

lemma heartbeat_times_spaced:
  "qr_last_heartbeat q = Some t \<Longrightarrow> spaced (qr_interval_seconds q) (t # heartbeat_times R cs q)"
proof (induction cs arbitrary: q t)
  case Nil
  then show ?case by (simp add: spaced_def)
next
  case (Cons c cs)
  obtain z q' where m: "maybe_heartbeat R c q = (z, q')" by fastforce
  note facts = maybe_heartbeat_cases [OF m]
  show ?case
  proof (cases "qr_service q \<and> heartbeat_due (cy_now c) q")
    case True
    then have gap: "\<not> flt (fsub (cy_now c) t) (qr_interval_seconds q)"
      using Cons.prems by (simp add: heartbeat_due_def)
    have "spaced (qr_interval_seconds q) (cy_now c # heartbeat_times R cs q')"
      using Cons.IH [of q' "cy_now c"] facts True by simp
    then show ?thesis using gap m True facts by (cases z) (auto simp: spaced_def)
  next
    case False
    then show ?thesis using m facts Cons.IH [of q t] Cons.prems by (auto simp: spaced_def split: sum.splits)
  qed
qed

text \<open>A failed reconciliation is not an error of the runner, which goes on with its next cycle.\<close>

lemma runner_run_errors: "runner_run R trig c q = (Inl e, q') \<Longrightarrow> e = Service_missing \<or> (\<exists>d. e = Run_escaped (Escaped d))"
  by (auto simp: runner_run_def split: if_splits prod.splits sum.splits)
    (metis is_reconciliation_error.elims(3))

lemma maybe_heartbeat_errors:
  assumes "maybe_heartbeat R c q = (Inl e, q')" and "qr_service q"
  shows "\<exists>d. e = Run_escaped (Escaped d)"
proof -
  let ?q = "q\<lparr>qr_last_heartbeat := Some (cy_now c)\<rparr>"
  have "runner_run R HEARTBEAT c ?q = (Inl e, q')"
    using assms by (auto simp: maybe_heartbeat_def bind_def ret_def split: if_splits prod.splits sum.splits)
  then have "e = Service_missing \<or> (\<exists>d. e = Run_escaped (Escaped d))" by (rule runner_run_errors)
  moreover have "e \<noteq> Service_missing"
    using \<open>runner_run R HEARTBEAT c ?q = (Inl e, q')\<close> assms(2)
    by (auto simp: runner_run_def split: prod.splits sum.splits if_splits)
  ultimately show ?thesis by blast
qed

lemma heartbeat_loop_errors:
  "qr_service q \<Longrightarrow> heartbeat_loop R cs st q = (Inl e, q') \<Longrightarrow> \<exists>d. e = Run_escaped (Escaped d)"
proof (induction cs arbitrary: q st)
  case Nil
  then show ?case by (simp add: ret_def)
next
  case (Cons c cs)
  obtain z q1 where m: "maybe_heartbeat R c q = (z, q1)" by fastforce
  then show ?case
    using Cons.prems Cons.IH maybe_heartbeat_cases [OF m] maybe_heartbeat_errors
    by (cases z) (auto simp: bind_def)
qed

lemma rec_start_state:
  assumes "rec_start R c q = (Inr st, q')"
  shows "qr_last_heartbeat q' = Some (cy_now c) \<and> qr_interval_seconds q' = qr_interval_seconds q \<and> qr_service q'"
  using assms
  by (auto simp: rec_start_def open_runner_def runner_run_def started_def bind_def
    split: prod.splits sum.splits if_splits)

end
