(* ===== verification/PsClaims.thy ===== *)
theory PsClaims
  imports PsStore
begin

text \<open>Properties of the persistence layer, with the concrete databases that satisfy their hypotheses.\<close>

section \<open>Upserts\<close>

definition upsert_values :: "db_env \<Rightarrow> string \<Rightarrow> (string \<times> sqlparam option) list \<Rightarrow> repo \<Rightarrow> (string \<times> sqlparam) list" where
  "upsert_values E t fs r =
     (if t \<in> set updated_at_tables \<and> ''updated_at'' \<notin> fst ` set (supplied fs)
      then supplied fs @ [(''updated_at'', text_param (db_clock E (rp_ticks r)))] else supplied fs)"

lemma upsert_record_Inr:
  assumes "upsert_record E t pk fs r = (Inr u, r')"
  obtains row where "bind_row t (upsert_values E t fs r) = Inr row"
    and "view r' = (view r)(t := upsert_row pk row (view r t))"
proof -
  have v: "view (r\<lparr>rp_ticks := n\<rparr>) = view r" for n by (simp add: view_def split: option.splits)
  have "\<exists>row. bind_row t (upsert_values E t fs r) = Inr row \<and> view r' = (view r)(t := upsert_row pk row (view r t))"
    using assms
    by (auto simp: upsert_record_def upsert_values_def Let_def bind_def now_utc_ms_def execute_def upsert_params_def v
      split: if_splits sum.splits) (auto simp: view_def)
  then show thesis using that by blast
qed

lemma supplied_map_of: "distinct (map fst fs) \<Longrightarrow> map_of (supplied fs) c = Option.bind (map_of fs c) id"
proof (induction fs rule: supplied.induct)
  case (2 c' fs)
  then have "map_of fs c' = None" by (simp add: map_of_eq_None_iff)
  then show ?case using 2 by auto
qed auto

lemma upsert_values_map_of:
  assumes "distinct (map fst fs)"
  shows "map_of fs c = Some (Some p) \<Longrightarrow> map_of (upsert_values E t fs r) c = Some p"
    and "map_of fs c = None \<or> map_of fs c = Some None \<Longrightarrow> c \<noteq> ''updated_at'' \<Longrightarrow> map_of (upsert_values E t fs r) c = None"
  using supplied_map_of [OF assms, of c] by (auto simp: upsert_values_def map_add_def)

lemma upsert_effect:
  assumes "upsert_record E t pk fs r = (Inr u, r')" and "distinct (map fst fs)"
    and "map_of fs pk = Some (Some (Param (PStr key)))" and "\<not> is_real_column t pk"
  shows "\<exists>row. select_key pk (SqlText key) (view r' t) = Some row
      \<and> (\<forall>c p v. map_of fs c = Some (Some p) \<longrightarrow> bind_param p = Inr v \<longrightarrow> cell row c = affinity (is_real_column t c) v)
      \<and> (\<forall>c. map_of fs c = None \<or> map_of fs c = Some None \<longrightarrow> c \<noteq> ''updated_at'' \<longrightarrow>
           cell row c = (case select_key pk (SqlText key) (view r t) of None \<Rightarrow> SqlNull | Some old \<Rightarrow> cell old c))"
    and "\<forall>v. v \<noteq> SqlText key \<longrightarrow> select_key pk v (view r' t) = select_key pk v (view r t)"
    and "\<forall>t'. t' \<noteq> t \<longrightarrow> view r' t' = view r t'"
proof -
  obtain new where new: "bind_row t (upsert_values E t fs r) = Inr new" and vw: "view r' = (view r)(t := upsert_row pk new (view r t))"
    using upsert_record_Inr [OF assms(1)] by blast
  have key: "cell new pk = SqlText key"
    using bind_row_cell [OF new upsert_values_map_of(1) [OF assms(2,3)]] assms(4) by simp
  then have "map_of new pk \<noteq> None" by (auto simp: cell_def split: option.splits)
  then have "pk \<in> fst ` set new" by (simp add: map_of_eq_None_iff)
  note sel = select_upsert [OF this, of _ "view r t", unfolded key]
  have cols: "c \<in> fst ` set new \<longleftrightarrow> map_of (upsert_values E t fs r) c \<noteq> None" for c
    using bind_row_columns [OF new] by (metis list.set_map map_of_eq_None_iff)
  have given: "cell new c = affinity (is_real_column t c) v" "c \<in> fst ` set new"
    if "map_of fs c = Some (Some p)" "bind_param p = Inr v" for c p v
    using bind_row_cell [OF new upsert_values_map_of(1) [OF assms(2) that(1)] that(2)] cols
      upsert_values_map_of(1) [OF assms(2) that(1)] by auto
  have other: "cell new c = SqlNull" "c \<notin> fst ` set new"
    if "map_of fs c = None \<or> map_of fs c = Some None" "c \<noteq> ''updated_at''" for c
    using bind_row_None [OF new upsert_values_map_of(2) [OF assms(2) that]] cols
      upsert_values_map_of(2) [OF assms(2) that] by auto
  let ?row = "case select_key pk (SqlText key) (view r t) of None \<Rightarrow> new | Some old \<Rightarrow> set_cells new old"
  have "select_key pk (SqlText key) (view r' t) = Some ?row" by (simp add: vw sel)
  moreover have "cell ?row c = affinity (is_real_column t c) v"
    if "map_of fs c = Some (Some p)" "bind_param p = Inr v" for c p v
    using given [OF that] by (simp add: cell_set_cells split: option.splits)
  moreover have "cell ?row c = (case select_key pk (SqlText key) (view r t) of None \<Rightarrow> SqlNull | Some old \<Rightarrow> cell old c)"
    if "map_of fs c = None \<or> map_of fs c = Some None" "c \<noteq> ''updated_at''" for c
    using other [OF that] by (simp add: cell_set_cells split: option.splits)
  ultimately show "\<exists>row. select_key pk (SqlText key) (view r' t) = Some row
      \<and> (\<forall>c p v. map_of fs c = Some (Some p) \<longrightarrow> bind_param p = Inr v \<longrightarrow> cell row c = affinity (is_real_column t c) v)
      \<and> (\<forall>c. map_of fs c = None \<or> map_of fs c = Some None \<longrightarrow> c \<noteq> ''updated_at'' \<longrightarrow>
           cell row c = (case select_key pk (SqlText key) (view r t) of None \<Rightarrow> SqlNull | Some old \<Rightarrow> cell old c))"
    by (intro exI conjI allI impI) simp_all
  show "\<forall>v. v \<noteq> SqlText key \<longrightarrow> select_key pk v (view r' t) = select_key pk v (view r t)" by (simp add: vw sel)
  show "\<forall>t'. t' \<noteq> t \<longrightarrow> view r' t' = view r t'" by (simp add: vw)
qed

text \<open>An upsert merges: the row of the record's key afterwards holds every value the record supplies
  (converted to the type of its column) and keeps what it held before in every other column, except the
  time stamp of the update. All other rows of the table and all other tables stay as they are.\<close>

theorem upsert_merges:
  assumes "upsert_record E t pk fs r = (Inr u, r')" and "distinct (map fst fs)"
    and "map_of fs pk = Some (Some (Param (PStr key)))" and "\<not> is_real_column t pk"
  shows "(\<exists>row. select_key pk (SqlText key) (view r' t) = Some row
      \<and> (\<forall>c p v. map_of fs c = Some (Some p) \<longrightarrow> bind_param p = Inr v \<longrightarrow> cell row c = affinity (is_real_column t c) v)
      \<and> (\<forall>c. map_of fs c = None \<or> map_of fs c = Some None \<longrightarrow> c \<noteq> ''updated_at'' \<longrightarrow>
           cell row c = (case select_key pk (SqlText key) (view r t) of None \<Rightarrow> SqlNull | Some old \<Rightarrow> cell old c)))
    \<and> (\<forall>v. v \<noteq> SqlText key \<longrightarrow> select_key pk v (view r' t) = select_key pk v (view r t))
    \<and> (\<forall>t'. t' \<noteq> t \<longrightarrow> view r' t' = view r t')"
  using upsert_effect [OF assms] by blast

section \<open>Reading positions\<close>

section \<open>The audit stream\<close>

text \<open>C21. The audit stream is append-only: whatever sequence of calls is made on the repository, and
  whether they succeed or raise, the committed events before are a prefix of the committed events
  afterwards, event ids stay unique, and every committed row reads back as a valid event whose checksum
  verifies.\<close>

theorem audit_log_append_only:
  assumes "repo_ok E r"
  shows "repo_ok E (fold (perform E) calls r)
    \<and> prefix (rp_disk r ''events'') (rp_disk (fold (perform E) calls r) ''events'')"
  using assms grows_calls by (simp add: repo_grows_def)




text \<open>C22. The cursor never runs ahead of the audit stream: after a call that stores an event together with
  the reading position of its source, either the event is stored and the position is the new one, or the
  call raised and neither has changed, also when \<open>BEGIN\<close>, \<open>COMMIT\<close> or \<open>ROLLBACK\<close> fails. If no
  transaction statement is to fail, the repository is ready for the next call in both cases.\<close>

theorem cursor_never_ahead:
  assumes "repo_ok E r" and "insert_event_with_cursor E e c r = (z, r')"
  shows "repo_ok E r' \<and> (ready E r \<longrightarrow> ready E r') \<and>
    (case z of
       Inr x \<Rightarrow> (\<exists>e'. stored_event E r' (e_event_id e) = Some e' \<and> e_checksum e' = e_checksum e)
           \<and> read_ingestion_cursor (rp_disk r') (ic_source_path c) = Some c
     | Inl err \<Rightarrow> rp_disk r' = rp_disk r)"
proof -
  let ?rest = "\<lambda>x. bind (write_ingestion_cursor c) (\<lambda>_. ret x)"
  have run: "event_transaction E ?rest e r = (z, r')"
    using assms(2) by (simp add: insert_event_with_cursor_def event_transaction_def)
  have grows: "\<And>x. pres (repo_grows E) (?rest x)" by (simp add: write_ingestion_cursor_def grows_rests)
  show ?thesis
    using inserted_cursor [OF assms(2)] transaction_prefix [OF grows assms(1) run] run
      transaction_stores [OF harmless_cursor grows assms(1), of e _ r']
    by (cases z) (simp_all, blast)
qed

section \<open>Projection\<close>

text \<open>Projecting a validated event never meets a missing field or a value of the wrong type: storing an
  event together with its derived rows fails only because the event is invalid, its checksum does not
  verify, its id is taken by an event with another checksum, an integer does not fit 64 bits, or SQLite
  cannot begin or commit the transaction.\<close>

theorem derived_insert_errors:
  assumes "idle r" and "insert_event_with_derived E e r = (Inl err, r')"
  shows "(\<exists>x. err = Contract x) \<or> err \<in> {Refused_checksum (e_event_id e), Conflicting_event (e_event_id e), Int_too_large,
    Cannot_begin, Commit_failed}"
proof (cases "check_event E e r")
  case (Pair y r1)
  show ?thesis
  proof (cases y)
    case (Inl x)
    then show ?thesis
      using assms Pair
      by (auto simp: insert_event_with_derived_def bind_def check_event_def connection_def idle_def raise_def ret_def
        split: sum.splits if_splits)
  next
    case (Inr u)
    then have r1: "r1 = r" and ok: "event_ok (db_digest E) e" using Pair by (cases rule: check_event_cases [of E e r]; simp)+
    let ?body = "bind (insert_event_row e) (\<lambda>x. bind (apply_derived_state E e) (\<lambda>_. ret x))"
    have w: "rp_work (begun r) = Some (rp_disk r)" by simp
    have "transaction ?body r = (Inl err, r')"
      using assms(2) Pair Inr r1 by (simp add: insert_event_with_derived_def bind_def)
    then consider "err \<in> {Cannot_begin, Commit_failed}" | r3 where "?body (begun r) = (Inl err, r3)"
      using assms(1)
      by (auto simp: transaction_def idle_def settled_def commit_def split: if_splits prod.splits sum.splits tx_fault.splits)
    then show ?thesis
    proof cases
      case 1
      then show ?thesis by simp
    next
      case body: 2
    have proj: "err = Int_too_large" if "bind (apply_derived_state E e) (\<lambda>_. ret x) s = (Inl err, s')" for x :: insert_result and s s'
      using that projection_total [OF event_ok_payload [OF ok], of E]
      by (auto simp: bind_def ret_def only_overflow_def split: prod.splits sum.splits)
    from w show ?thesis
    proof (cases rule: insert_event_row_cases [where e = e])
      case (fresh row)
      then show ?thesis using body proj by (auto simp: bind_def)
    next
      case (duplicate row)
      then show ?thesis using body proj by (auto simp: bind_def)
    qed (use body in \<open>simp_all add: bind_def\<close>)
    qed
  qed
qed

lemma payload_field_Inr: "payload_field p k s = (Inr v, s') \<Longrightarrow> s' = s \<and> dget p k = Some v"
  by (auto simp: payload_field_def ret_def raise_def split: option.splits)

lemma bind_InrE:
  assumes "bind m f s = (Inr y, s')"
  obtains x s1 where "m s = (Inr x, s1)" and "f x s1 = (Inr y, s')"
  using assms by (auto simp: bind_def split: prod.splits sum.splits)

text \<open>A replayed event is projected again although it is not stored again: after POSITION_OPENED is
  delivered a second time, the position is open in the derived table whatever the table said before, also
  when the position has been closed in between.\<close>

theorem replayed_open_reopens:
  assumes "insert_event_with_derived E e r = (Inr x, r')" and "e_event_type e = POSITION_OPENED"
    and "dget (e_payload e) ''broker_position_id'' = Some (PStr pid)"
  shows "\<exists>row. select_key ''broker_position_id'' (SqlText pid) (rp_disk r' ''positions'') = Some row
    \<and> cell row ''state'' = SqlText ''OPEN''"
proof (cases rule: check_event_cases [of E e r])
  case accepted
  let ?body = "bind (insert_event_row e) (\<lambda>x. bind (apply_derived_state E e) (\<lambda>_. ret x))"
  have run: "transaction ?body r = (Inr x, r')"
    using assms(1) accepted by (simp add: insert_event_with_derived_def bind_def)
  have "pres on_work ?body" by (simp add: pres_rules)
  from transaction_Inr [OF this run] obtain r3
    where body: "?body (begun r) = (Inr x, r3)" and disk: "rp_disk r' = view r3"
    by blast
  from body obtain y r1 u where "apply_derived_state E e r1 = (Inr u, r3)"
    by (elim bind_InrE) (simp add: ret_def)
  then have opened: "apply_position_opened E e (e_payload e) r1 = (Inr u, r3)"
    by (simp add: apply_derived_state_def assms(2))
  have pid: "text_field (e_payload e) ''broker_position_id'' = ret pid"
    by (simp add: text_field_def payload_field_def assms(3) bind_ret)
  from opened obtain lot dir price ts s1 s2 s3 where
    one: "upsert_record E ''positions'' ''broker_position_id''
        (position_fields ((new_position pid)
           \<lparr>po_trade_id := e_trade_id e, po_direction := Some dir, po_lot := Some lot,
            po_open_price := Some price, po_open_ts := Some ts, po_state := Some ''OPEN''\<rparr>)) s1 = (Inr (), s2)"
    and two: "upsert_record E ''trades'' ''trade_id''
         (trade_fields ((new_trade (trade_key e))
            \<lparr>tr_position_id := Some pid, tr_direction := Some dir, tr_lot := Some lot,
             tr_entry_price := Some price, tr_entry_ts := Some ts\<rparr>)) s2 = (Inr (), r3)"
    unfolding apply_position_opened_def pid bind_ret by (elim bind_InrE) simp
  have "\<exists>row. select_key ''broker_position_id'' (SqlText pid) (view s2 ''positions'') = Some row
      \<and> cell row ''state'' = SqlText ''OPEN''"
    using upsert_effect(1) [OF one, of pid]
    by (auto simp: position_fields_def new_position_def text_param_def opt_text_def is_real_column_def real_columns_def)
  moreover have "view r3 ''positions'' = view s2 ''positions''"
    using upsert_effect(3) [OF two, of "trade_key e"]
    by (simp add: trade_fields_def new_trade_def text_param_def is_real_column_def real_columns_def)
  ultimately show ?thesis using disk by simp
next
  case (refused y)
  then show ?thesis using assms(1) by (simp add: insert_event_with_derived_def bind_def)
qed

text \<open>An upsert called outside a transaction is not committed and blocks the repository: the committed
  data stay as they were, every later attempt to store a valid event fails because the transaction that
  the driver opened is still there, and closing the repository discards the upsert.\<close>

theorem upsert_outside_transaction_is_lost:
  assumes "idle r" and "upsert_trade E t r = (z, r')"
  shows "rp_disk r' = rp_disk r \<and> (\<forall>e. event_ok (db_digest E) e \<longrightarrow> fst (insert_event E e r') = Inl Cannot_begin)
    \<and> view (snd (close_repo r')) = rp_disk r"
proof -
  have run: "upsert_record E ''trades'' ''trade_id'' (trade_fields t) r = (z, r')"
    using assms by (simp add: upsert_trade_def bind_def connection_def idle_def)
  have "on_work r r'" using presD [OF on_work_upsert run] .
  then have r': "rp_open r'" "\<not> rp_busy r'" "rp_disk r' = rp_disk r"
    using assms(1) by (simp_all add: on_work_def idle_def settled_def)
  have w: "rp_work r' \<noteq> None"
    using run by (auto simp: upsert_record_def Let_def bind_def now_utc_ms_def execute_def split: if_splits sum.splits prod.splits)
  show ?thesis using r' insert_while_open [OF r'(1,2) w] by (simp add: close_repo_def view_def)
qed

section \<open>The hypotheses hold at concrete inputs\<close>

definition sample_db_env :: db_env where
  "sample_db_env =
     \<lparr>db_digest = (\<lambda>v. replicate 64 (CHR ''a'')), db_clock = (\<lambda>n. ''2026-08-17T10:00:05.000Z'')\<rparr>"

definition sample_repo :: repo where
  "sample_repo = \<lparr>rp_open = True, rp_busy = False, rp_disk = (\<lambda>t. []), rp_work = None, rp_ticks = 0, rp_faults = []\<rparr>"

definition sample_id :: "char \<Rightarrow> string" where
  "sample_id c = ''00000000-0000-4000-8000-00000000000'' @ [c]"

definition stored_sample :: "char \<Rightarrow> event_type \<Rightarrow> pydict \<Rightarrow> envelope" where
  "stored_sample c t payload =
     \<lparr>e_event_id = sample_id c, e_event_type = t, e_ts_event = ''2026-08-17T10:00:00Z'',
      e_ts_collected = ''2026-08-17T10:00:00.000Z'', e_ts_monotonic = 7, e_component = ''collector'',
      e_severity = ''INFO'', e_schema_version = ''1.0.0'', e_payload = payload,
      e_checksum = ''sha256:'' @ replicate 64 (CHR ''a''), e_correlation_id = None, e_trade_id = Some (sample_id (CHR ''9''))\<rparr>"

definition sample_opened :: envelope where
  "sample_opened = stored_sample (CHR ''1'') POSITION_OPENED
     [(''broker_position_id'', PStr ''POS-1''), (''direction'', PStr ''BUY''), (''volume'', PInt 1),
      (''open_price'', PFloat (Fin 2000)), (''open_ts'', PStr ''2026-08-17T10:00:00Z''), (''state'', PStr ''OPEN'')]"

text \<open>The database after the position was opened and closed, and the event that opened it was stored.\<close>

definition sample_rows :: "string \<Rightarrow> (string \<times> sqlparam) list \<Rightarrow> sqlrow list" where
  "sample_rows t ps = (case bind_row t ps of Inl e \<Rightarrow> [] | Inr row \<Rightarrow> [row])"

definition sample_closed_position :: position_record where
  "sample_closed_position =
     (new_position ''POS-1'')\<lparr>po_state := Some ''CLOSED'', po_close_price := Some (PFloat (Fin 2001)),
        po_close_ts := Some ''2026-08-17T10:00:04Z'', po_updated_at := Some ''2026-08-17T10:00:05.000Z''\<rparr>"

definition sample_after_close :: repo where
  "sample_after_close = sample_repo\<lparr>rp_disk :=
     (\<lambda>t. if t = ''events'' then sample_rows ''events'' (event_params sample_opened)
          else if t = ''positions'' then sample_rows ''positions'' (supplied (position_fields sample_closed_position))
          else [])\<rparr>"

lemma sample_ready: "ready sample_db_env sample_repo"
  by (simp add: ready_def repo_ok_def audit_ok_def keyed_def db_grows_def view_def idle_def settled_def sample_repo_def)

lemma sample_ok: "repo_ok sample_db_env sample_repo" "idle sample_repo"
  using sample_ready by (simp_all add: ready_def)


lemma sample_position_rows:
  "map (\<lambda>row. cell row ''state'') (rp_disk sample_after_close ''positions'') = [SqlText ''CLOSED'']"
  by code_simp

lemma sample_replay:
  "case insert_event_with_derived sample_db_env sample_opened sample_after_close of
     (z, r') \<Rightarrow> (case z of Inl e \<Rightarrow> False | Inr x \<Rightarrow> \<not> ir_inserted x)"
  by code_simp

theorem replayed_open_reopens_witness:
  "\<exists>x r'. insert_event_with_derived sample_db_env sample_opened sample_after_close = (Inr x, r') \<and> \<not> ir_inserted x
     \<and> (\<exists>row. select_key ''broker_position_id'' (SqlText ''POS-1'') (rp_disk r' ''positions'') = Some row
          \<and> cell row ''state'' = SqlText ''OPEN'')"
proof -
  obtain x r' where run: "insert_event_with_derived sample_db_env sample_opened sample_after_close = (Inr x, r')"
    and "\<not> ir_inserted x"
    using sample_replay by (auto split: prod.splits sum.splits)
  then show ?thesis
    using replayed_open_reopens [OF run, of "''POS-1''"] by (auto simp: sample_opened_def stored_sample_def dget_def)
qed

theorem audit_log_append_only_witness:
  "prefix [] (rp_disk (fold (perform sample_db_env) [Insert_event sample_opened, Close_repo] sample_repo) ''events'')
   \<and> repo_ok sample_db_env (fold (perform sample_db_env) [Insert_event sample_opened, Close_repo] sample_repo)"
  using audit_log_append_only [OF sample_ok(1), of "[Insert_event sample_opened, Close_repo]"] by simp





definition sample_cursor :: ingestion_cursor where
  "sample_cursor =
     \<lparr>ic_source_path = ''events.jsonl'', ic_byte_offset = 120, ic_line_number = Some 1, ic_last_event_id = None,
      ic_updated_ts = ''2026-08-17T10:00:05.000Z''\<rparr>"

lemma sample_insert_cursor:
  "case insert_event_with_cursor sample_db_env sample_opened sample_cursor sample_repo of
     (z, r') \<Rightarrow> (case z of Inl e \<Rightarrow> False | Inr x \<Rightarrow> True)"
  by code_simp

theorem cursor_never_ahead_witness:
  "\<exists>x r'. insert_event_with_cursor sample_db_env sample_opened sample_cursor sample_repo = (Inr x, r')
     \<and> read_ingestion_cursor (rp_disk r') ''events.jsonl'' = Some sample_cursor"
proof -
  obtain x r' where run: "insert_event_with_cursor sample_db_env sample_opened sample_cursor sample_repo = (Inr x, r')"
    using sample_insert_cursor by (auto split: prod.splits sum.splits)
  then show ?thesis using cursor_never_ahead [OF sample_ok(1) run] by (simp add: sample_cursor_def)
qed

lemma sample_bad_event:
  "case insert_event_with_derived sample_db_env (sample_opened\<lparr>e_payload := []\<rparr>) sample_repo of
     (z, r') \<Rightarrow> (case z of Inl e \<Rightarrow> True | Inr x \<Rightarrow> False)"
  by code_simp

theorem derived_insert_errors_witness:
  "\<exists>err r'. insert_event_with_derived sample_db_env (sample_opened\<lparr>e_payload := []\<rparr>) sample_repo = (Inl err, r')
     \<and> err \<notin> {Missing_key ''volume'', Unexpected_payload ''volume'', Unsupported_value}"
proof -
  obtain err r' where run: "insert_event_with_derived sample_db_env (sample_opened\<lparr>e_payload := []\<rparr>) sample_repo = (Inl err, r')"
    using sample_bad_event by (auto split: prod.splits sum.splits)
  then show ?thesis using derived_insert_errors [OF sample_ok(2) run] by auto
qed

lemma sample_upsert:
  "case upsert_record sample_db_env ''trades'' ''trade_id'' (trade_fields ((new_trade ''T-1'')\<lparr>tr_lot := Some (PInt 2)\<rparr>))
     sample_repo of (z, r') \<Rightarrow> (case z of Inl e \<Rightarrow> False | Inr x \<Rightarrow> True)"
  by code_simp

theorem upsert_merges_witness:
  "\<exists>r' row. upsert_record sample_db_env ''trades'' ''trade_id'' (trade_fields ((new_trade ''T-1'')\<lparr>tr_lot := Some (PInt 2)\<rparr>))
        sample_repo = (Inr (), r')
     \<and> select_key ''trade_id'' (SqlText ''T-1'') (view r' ''trades'') = Some row \<and> cell row ''lot'' = SqlReal (of_int_f 2)"
proof -
  let ?fs = "trade_fields ((new_trade ''T-1'')\<lparr>tr_lot := Some (PInt 2)\<rparr>)"
  obtain u r' where run: "upsert_record sample_db_env ''trades'' ''trade_id'' ?fs sample_repo = (Inr u, r')"
    using sample_upsert by (auto split: prod.splits sum.splits)
  have fs: "distinct (map fst ?fs)" "map_of ?fs ''trade_id'' = Some (Some (Param (PStr ''T-1'')))"
    "map_of ?fs ''lot'' = Some (Some (Param (PInt 2)))" "\<not> is_real_column ''trades'' ''trade_id''"
    "is_real_column ''trades'' ''lot''"
    by (simp_all add: trade_fields_def new_trade_def text_param_def is_real_column_def real_columns_def)
  from upsert_merges [OF run fs(1,2,4)] obtain row
    where "select_key ''trade_id'' (SqlText ''T-1'') (view r' ''trades'') = Some row"
      and "cell row ''lot'' = affinity (is_real_column ''trades'' ''lot'') (SqlInt 2)"
    using fs(3) by (force simp del: affinity.simps)
  then show ?thesis using run fs(5) by auto
qed

theorem upsert_outside_transaction_is_lost_witness:
  "\<exists>z r'. upsert_trade sample_db_env (new_trade ''T-1'') sample_repo = (z, r') \<and> rp_disk r' ''trades'' = []"
proof -
  obtain z r' where run: "upsert_trade sample_db_env (new_trade ''T-1'') sample_repo = (z, r')" by fastforce
  then show ?thesis
    using upsert_outside_transaction_is_lost [OF sample_ok(2) run] by (simp add: sample_repo_def)
qed

end
