(* ===== verification/EvStream.thy ===== *)
theory EvStream
  imports EvEnvelope
begin

text \<open>
  Sequence validation of the event stream: \<open>src/collector/event_model/lifecycle.py\<close>, with an abstract
  specification of a trade as a step relation. \<open>validate_sequence\<close> keeps a dictionary of lifecycle
  objects; the specification looks at each trade by itself.
\<close>

section \<open>The validator\<close>

record stream_state =
  st_lifecycles :: "(string \<times> lifecycle) list"
  st_last :: "int option"

definition no_stream :: stream_state where
  "no_stream = \<lparr>st_lifecycles = [], st_last = None\<rparr>"

fun put :: "string \<Rightarrow> lifecycle \<Rightarrow> (string \<times> lifecycle) list \<Rightarrow> (string \<times> lifecycle) list" where
  "put k l [] = [(k, l)]"
| "put k l ((k', l') # m) = (if k = k' then (k, l) # m else (k', l') # put k l m)"

definition lifecycle_of :: "stream_state \<Rightarrow> string \<Rightarrow> lifecycle" where
  "lifecycle_of s tid = (case map_of (st_lifecycles s) tid of None \<Rightarrow> new_lifecycle tid | Some l \<Rightarrow> l)"

definition clock_back :: "int option \<Rightarrow> int \<Rightarrow> contract_error option" where
  "clock_back prev now =
     (case prev of None \<Rightarrow> None | Some m \<Rightarrow> if now < m then Some (Clock_went_back now m) else None)"

definition stream_step :: "envelope \<Rightarrow> stream_state \<Rightarrow> contract_error + stream_state" where
  "stream_step e s =
     (case clock_back (st_last s) (e_ts_monotonic e) of
        Some err \<Rightarrow> Inl err
      | None \<Rightarrow>
          (let s1 = s\<lparr>st_last := Some (e_ts_monotonic e)\<rparr> in
           if e_event_type e = TRIGGER_DETECTED \<and> e_correlation_id e = None then Inl Needs_correlation_id
           else
             (case e_trade_id e of
                None \<Rightarrow>
                  (if e_event_type e \<in> set trade_flow then Inl (Needs_trade_id (e_event_type e)) else Inr s1)
              | Some tid \<Rightarrow>
                  (case apply_event (e_event_type e) (e_payload e) (lifecycle_of s1 tid) of
                     Inl err \<Rightarrow> Inl err
                   | Inr l \<Rightarrow> Inr (s1\<lparr>st_lifecycles := put tid l (st_lifecycles s1)\<rparr>)))))"

fun validate_from :: "stream_state \<Rightarrow> envelope list \<Rightarrow> contract_error + unit" where
  "validate_from s [] = Inr ()"
| "validate_from s (e # es) = (case stream_step e s of Inl err \<Rightarrow> Inl err | Inr s' \<Rightarrow> validate_from s' es)"

definition validate_sequence :: "envelope list \<Rightarrow> contract_error + unit" where
  "validate_sequence es = validate_from no_stream es"

section \<open>The specification of a trade\<close>

text \<open>A trade has not started, is at a flow event with its payload, or is over.\<close>

datatype phase = Fresh | Flow event_type pydict | Over

definition phase_after :: "event_type \<Rightarrow> pydict \<Rightarrow> phase" where
  "phase_after t p = (if t = POSITION_CLOSED \<or> t = RISK_GATE \<and> gate_rejects p then Over else Flow t p)"

inductive trade_step :: "phase \<Rightarrow> event_type \<times> pydict \<Rightarrow> phase \<Rightarrow> bool" where
  start: "trade_step Fresh (TRIGGER_DETECTED, p) (Flow TRIGGER_DETECTED p)"
| advance: "u \<in> set (next_allowed t) \<Longrightarrow> trade_step (Flow t p) (u, q) (phase_after u q)"
| tick: "trade_step s (TICK_RECEIVED, p) s"
| reconciled: "s \<notin> Flow ORDER_SUBMITTED ` UNIV \<union> Flow ORDER_ACKNOWLEDGED ` UNIV \<Longrightarrow>
    trade_step s (RECONCILIATION, p) s"
| order_lost: "t \<in> {ORDER_SUBMITTED, ORDER_ACKNOWLEDGED} \<Longrightarrow> trade_step (Flow t p) (RECONCILIATION, q) Over"
| halt: "t \<in> {ET_ERROR, ET_TIMEOUT} \<Longrightarrow> trade_step s (t, p) Over"

inductive_cases fresh_stepE: "trade_step Fresh e s'"
inductive_cases flow_stepE: "trade_step (Flow t p) e s'"
inductive_cases over_stepE: "trade_step Over e s'"
inductive_simps trade_step_iff: "trade_step s (t, p) s'"

inductive trade_run :: "phase \<Rightarrow> (event_type \<times> pydict) list \<Rightarrow> phase \<Rightarrow> bool" where
  run_Nil: "trade_run s [] s"
| run_Cons: "trade_step s e s' \<Longrightarrow> trade_run s' es s'' \<Longrightarrow> trade_run s (e # es) s''"

inductive_simps run_Nil_iff [simp]: "trade_run s [] s'"
inductive_simps run_Cons_iff: "trade_run s (e # es) s'"

definition trade_events :: "string \<Rightarrow> envelope list \<Rightarrow> (event_type \<times> pydict) list" where
  "trade_events tid es =
     map (\<lambda>e. (e_event_type e, e_payload e)) (filter (\<lambda>e. e_trade_id e = Some tid) es)"

definition addressed :: "envelope \<Rightarrow> bool" where
  "addressed e \<longleftrightarrow>
     (e_event_type e = TRIGGER_DETECTED \<longrightarrow> e_correlation_id e \<noteq> None)
     \<and> (e_event_type e \<in> set trade_flow \<longrightarrow> e_trade_id e \<noteq> None)"

section \<open>The lifecycle implements the specification\<close>

definition phase_of :: "lifecycle \<Rightarrow> phase" where
  "phase_of l =
     (if lf_terminal l then Over
      else
        (case lf_state l of
           None \<Rightarrow> Fresh
         | Some t \<Rightarrow> Flow t (case lf_last_payload l of None \<Rightarrow> [] | Some p \<Rightarrow> p)))"

definition lifecycle_ok :: "lifecycle \<Rightarrow> bool" where
  "lifecycle_ok l \<longleftrightarrow>
     lf_terminal l \<or> lf_state l = None
     \<or> (\<exists>t p. lf_state l = Some t \<and> lf_last_payload l = Some p \<and> t \<in> set trade_flow
          \<and> t \<noteq> POSITION_CLOSED \<and> \<not> (t = RISK_GATE \<and> gate_rejects p))"

lemma new_lifecycle_ok: "lifecycle_ok (new_lifecycle tid)" "phase_of (new_lifecycle tid) = Fresh"
  by (simp_all add: lifecycle_ok_def phase_of_def new_lifecycle_def)

lemma guard_flow:
  assumes "t \<in> set trade_flow" and "lifecycle_ok l"
  shows "apply_guard t l = Inr () \<longleftrightarrow> (\<exists>s'. trade_step (phase_of l) (t, p) s')"
proof -
  have t: "t \<notin> set out_of_band_events" using assms(1) flow_or_band by blast
  then have nt: "t \<noteq> TICK_RECEIVED" "t \<noteq> RECONCILIATION" "t \<noteq> ET_ERROR" "t \<noteq> ET_TIMEOUT"
    by (auto simp: out_of_band_events_def)
  show ?thesis
    using assms t nt
    by (auto simp: apply_guard_def phase_of_def lifecycle_ok_def validate_transition_def trade_step_iff
      split: option.splits)
qed

lemma apply_flow:
  assumes "t \<in> set trade_flow" and "lifecycle_ok l" and "apply_event t p l = Inr l'"
  shows "lifecycle_ok l' \<and> phase_of l' = phase_after t p"
proof -
  have t: "t \<notin> set out_of_band_events" using assms(1) flow_or_band by blast
  have live: "\<not> lf_terminal l" using assms(3) t by (auto simp: apply_event_def apply_guard_def split: if_splits)
  have "t \<noteq> RECONCILIATION" "t \<in> set terminal_events \<longleftrightarrow> t = POSITION_CLOSED"
    using t by (auto simp: out_of_band_events_def terminal_events_def)
  then show ?thesis
    using assms(1,3) t live
    by (auto simp: apply_event_def apply_special_rules_def Let_def lifecycle_ok_def phase_of_def phase_after_def
      split: if_splits sum.splits)
qed

lemma apply_band:
  assumes "t \<in> set out_of_band_events" and "lifecycle_ok l"
  shows "\<exists>l'. apply_event t p l = Inr l' \<and> lifecycle_ok l' \<and> trade_step (phase_of l) (t, p) (phase_of l')"
proof -
  have g: "apply_guard t l = Inr ()"
    using assms(1) by (auto simp: apply_guard_def validate_transition_def split: option.splits)
  have f: "t \<notin> set trade_flow" using assms(1) flow_or_band by blast
  from assms(1) consider "t = TICK_RECEIVED" | "t = RECONCILIATION" | "t = ET_ERROR" | "t = ET_TIMEOUT"
    by (auto simp: out_of_band_events_def)
  then show ?thesis
  proof cases
    case 1
    then show ?thesis
      using g f assms(2)
      by (auto simp: apply_event_def apply_special_rules_def terminal_events_def out_of_band_events_def trade_step.tick)
  next
    case 2
    then show ?thesis
      using g f assms(2)
      by (auto simp: apply_event_def apply_special_rules_def terminal_events_def out_of_band_events_def phase_of_def
        lifecycle_ok_def trade_step_iff split: option.splits)
  next
    case 3
    then show ?thesis
      using g f by (auto simp: apply_event_def apply_special_rules_def terminal_events_def out_of_band_events_def
        phase_of_def lifecycle_ok_def trade_step.halt Let_def)
  next
    case 4
    then show ?thesis
      using g f by (auto simp: apply_event_def apply_special_rules_def terminal_events_def out_of_band_events_def
        phase_of_def lifecycle_ok_def trade_step.halt Let_def)
  qed
qed

text \<open>A step of a flow event always ends in \<open>phase_after\<close>, and the relation is deterministic.\<close>

lemma flow_step_phase:
  assumes "trade_step s (t, p) s'" and "t \<in> set trade_flow"
  shows "s' = phase_after t p"
  using assms by (auto simp: trade_step_iff trade_flow_def phase_after_def)

lemma band_not_next [simp]:
  "TICK_RECEIVED \<notin> set (next_allowed t)" "RECONCILIATION \<notin> set (next_allowed t)"
  "ET_ERROR \<notin> set (next_allowed t)" "ET_TIMEOUT \<notin> set (next_allowed t)"
  by (cases t; simp)+

lemma trade_step_deterministic: "trade_step s e s1 \<Longrightarrow> trade_step s e s2 \<Longrightarrow> s1 = s2"
  by (cases e) (auto simp: trade_step_iff)

lemma apply_simulates:
  assumes "lifecycle_ok l"
  shows "(\<exists>l'. apply_event t p l = Inr l' \<and> phase_of l' = s') \<longleftrightarrow> trade_step (phase_of l) (t, p) s'"
proof (cases "t \<in> set trade_flow")
  case True
  show ?thesis
  proof
    assume "\<exists>l'. apply_event t p l = Inr l' \<and> phase_of l' = s'"
    then obtain l' where l': "apply_event t p l = Inr l'" "phase_of l' = s'" by blast
    then have "apply_guard t l = Inr ()" by (auto simp: apply_event_def split: sum.splits)
    then obtain s2 where "trade_step (phase_of l) (t, p) s2" using guard_flow [OF True assms] by blast
    then show "trade_step (phase_of l) (t, p) s'"
      using flow_step_phase [OF _ True] apply_flow [OF True assms l'(1)] l'(2) by metis
  next
    assume step: "trade_step (phase_of l) (t, p) s'"
    then have "apply_guard t l = Inr ()" using guard_flow [OF True assms] by blast
    then obtain l' where "apply_event t p l = Inr l'" by (auto simp: apply_event_def Let_def)
    then show "\<exists>l'. apply_event t p l = Inr l' \<and> phase_of l' = s'"
      using apply_flow [OF True assms] flow_step_phase [OF step True] by blast
  qed
next
  case False
  then have "t \<in> set out_of_band_events" using flow_or_band by blast
  from apply_band [OF this assms, of p] show ?thesis using trade_step_deterministic by auto
qed

lemma apply_keeps_ok:
  assumes "lifecycle_ok l" and "apply_event t p l = Inr l'"
  shows "lifecycle_ok l'"
proof (cases "t \<in> set trade_flow")
  case True
  then show ?thesis using apply_flow assms by blast
next
  case False
  then have "t \<in> set out_of_band_events" using flow_or_band by blast
  then show ?thesis using apply_band [OF _ assms(1), of t p] assms(2) by auto
qed

section \<open>The stream\<close>

lemma map_of_put: "map_of (put k l m) k' = (if k' = k then Some l else map_of m k')"
  by (induction m) auto

lemma lifecycle_of_put:
  "lifecycle_of (s\<lparr>st_lifecycles := put tid l (st_lifecycles s)\<rparr>) k = (if k = tid then l else lifecycle_of s k)"
  by (simp add: lifecycle_of_def map_of_put)

lemma lifecycle_of_last [simp]: "lifecycle_of (s\<lparr>st_last := x\<rparr>) k = lifecycle_of s k"
  by (simp add: lifecycle_of_def)

definition from_clock :: "int option \<Rightarrow> int list \<Rightarrow> bool" where
  "from_clock prev ts \<longleftrightarrow> sorted (case prev of None \<Rightarrow> ts | Some m \<Rightarrow> m # ts)"

lemma from_clock_Cons: "from_clock prev (t # ts) \<longleftrightarrow> clock_back prev t = None \<and> from_clock (Some t) ts"
  by (auto simp: from_clock_def clock_back_def split: option.splits)

definition accepts :: "phase \<Rightarrow> (event_type \<times> pydict) list \<Rightarrow> bool" where
  "accepts s es \<longleftrightarrow> (\<exists>s'. trade_run s es s')"

lemma accepts_Nil [simp]: "accepts s []"
  by (simp add: accepts_def)

lemma accepts_Cons: "accepts s (e # es) \<longleftrightarrow> (\<exists>s'. trade_step s e s' \<and> accepts s' es)"
  by (auto simp: accepts_def run_Cons_iff)

lemma trade_events_Cons:
  "trade_events tid (e # es) =
     (if e_trade_id e = Some tid then (e_event_type e, e_payload e) # trade_events tid es else trade_events tid es)"
  by (simp add: trade_events_def)

lemma validate_from_iff:
  assumes "\<And>tid. lifecycle_ok (lifecycle_of s tid)"
  shows "validate_from s es = Inr () \<longleftrightarrow>
    from_clock (st_last s) (map e_ts_monotonic es) \<and> list_all addressed es
    \<and> (\<forall>tid. accepts (phase_of (lifecycle_of s tid)) (trade_events tid es))"
  using assms
proof (induction es arbitrary: s)
  case Nil
  then show ?case by (simp add: from_clock_def trade_events_def split: option.splits)
next
  case (Cons e es)
  let ?s1 = "s\<lparr>st_last := Some (e_ts_monotonic e)\<rparr>"
  show ?case
  proof (cases "clock_back (st_last s) (e_ts_monotonic e) = None \<and> addressed e")
    case False
    then show ?thesis
      by (auto simp: stream_step_def from_clock_Cons addressed_def Let_def split: option.splits sum.splits)
  next
    case ok: True
    show ?thesis
    proof (cases "e_trade_id e")
      case None
      then have "stream_step e s = Inr ?s1" using ok by (auto simp: stream_step_def addressed_def Let_def)
      then show ?thesis
        using Cons.IH [of ?s1] Cons.prems ok None by (simp add: from_clock_Cons trade_events_Cons)
    next
      case (Some tid)
      let ?l = "lifecycle_of s tid" and ?t = "e_event_type e" and ?p = "e_payload e"
      have step: "stream_step e s =
          (case apply_event ?t ?p ?l of Inl err \<Rightarrow> Inl err
           | Inr l \<Rightarrow> Inr (?s1\<lparr>st_lifecycles := put tid l (st_lifecycles ?s1)\<rparr>))"
        using ok Some by (auto simp: stream_step_def addressed_def Let_def)
      show ?thesis
      proof (cases "apply_event ?t ?p ?l")
        case (Inl err)
        then have "\<nexists>s'. trade_step (phase_of ?l) (?t, ?p) s'" using apply_simulates [OF Cons.prems] by force
        then have "\<not> accepts (phase_of ?l) (trade_events tid (e # es))"
          using Some by (simp add: trade_events_Cons accepts_Cons)
        then show ?thesis using step Inl by auto
      next
        case (Inr l)
        let ?s2 = "?s1\<lparr>st_lifecycles := put tid l (st_lifecycles ?s1)\<rparr>"
        have l2: "lifecycle_of ?s2 k = (if k = tid then l else lifecycle_of s k)" for k
          using lifecycle_of_put [where s = ?s1 and tid = tid and l = l and k = k] by simp
        have okl: "lifecycle_ok l" using apply_keeps_ok [OF Cons.prems Inr] .
        have ok2: "lifecycle_ok (lifecycle_of ?s2 k)" for k unfolding l2 using okl Cons.prems by auto
        have "trade_step (phase_of ?l) (?t, ?p) (phase_of l)" using apply_simulates [OF Cons.prems] Inr by blast
        then have acc: "accepts (phase_of ?l) (trade_events tid (e # es)) \<longleftrightarrow> accepts (phase_of l) (trade_events tid es)"
          using Some by (simp add: trade_events_Cons accepts_Cons) (metis trade_step_deterministic)
        have "(\<forall>k. accepts (phase_of (lifecycle_of ?s2 k)) (trade_events k es))
            \<longleftrightarrow> (\<forall>k. accepts (phase_of (lifecycle_of s k)) (trade_events k (e # es)))"
        proof -
          have "accepts (phase_of (lifecycle_of ?s2 k)) (trade_events k es)
              \<longleftrightarrow> accepts (phase_of (lifecycle_of s k)) (trade_events k (e # es))" for k
            unfolding l2 using acc Some by (cases "k = tid") (auto simp: trade_events_Cons)
          then show ?thesis by blast
        qed
        then show ?thesis
          using Cons.IH [OF ok2] step Inr ok by (simp add: from_clock_Cons)
      qed
    qed
  qed
qed

lemma validate_sequence_iff:
  "validate_sequence es = Inr () \<longleftrightarrow>
     sorted (map e_ts_monotonic es) \<and> list_all addressed es \<and> (\<forall>tid. accepts Fresh (trade_events tid es))"
  using validate_from_iff [of no_stream es] new_lifecycle_ok
  by (simp add: validate_sequence_def no_stream_def lifecycle_of_def from_clock_def)

section \<open>Runs of a trade\<close>

definition flow_events :: "(event_type \<times> pydict) list \<Rightarrow> (event_type \<times> pydict) list" where
  "flow_events es = filter (\<lambda>e. fst e \<in> set trade_flow) es"

lemma flow_events_simps [simp]:
  "flow_events [] = []"
  "flow_events (e # es) = (if fst e \<in> set trade_flow then e # flow_events es else flow_events es)"
  "flow_events (xs @ ys) = flow_events xs @ flow_events ys"
  by (simp_all add: flow_events_def)

text \<open>The phase remembers the last flow event, and a rejecting gate never is one.\<close>

definition phase_inv :: "phase \<Rightarrow> (event_type \<times> pydict) list \<Rightarrow> bool" where
  "phase_inv s fs \<longleftrightarrow>
     (case s of
        Fresh \<Rightarrow> fs = []
      | Flow t p \<Rightarrow> fs \<noteq> [] \<and> last fs = (t, p) \<and> \<not> (t = RISK_GATE \<and> gate_rejects p)
      | Over \<Rightarrow> True)"

lemma phase_inv_step:
  assumes "trade_step s e s'" and "phase_inv s fs"
  shows "phase_inv s' (fs @ flow_events [e])"
  using assms
proof (cases rule: trade_step.cases)
  case (advance u t p q)
  then have "u \<in> set trade_flow" using next_in_flow by blast
  then show ?thesis using advance by (auto simp: phase_inv_def phase_after_def)
qed (auto simp: phase_inv_def trade_flow_def split: phase.splits)

lemma phase_inv_run: "trade_run s es s' \<Longrightarrow> phase_inv s fs \<Longrightarrow> phase_inv s' (fs @ flow_events es)"
proof (induction arbitrary: fs rule: trade_run.induct)
  case (run_Cons s e s' es s'')
  have "phase_inv s' (fs @ flow_events [e])" using phase_inv_step run_Cons.hyps(1) run_Cons.prems by blast
  from run_Cons.IH [OF this] show ?case by (simp split: if_splits)
qed simp

lemma trade_run_append: "trade_run s (xs @ ys) s' \<longleftrightarrow> (\<exists>s1. trade_run s xs s1 \<and> trade_run s1 ys s')"
  by (induction xs arbitrary: s) (auto simp: run_Cons_iff)

lemma step_into_order:
  assumes "trade_step s (ORDER_SUBMITTED, p) s'"
  shows "\<exists>q. s = Flow RISK_GATE q"
proof -
  obtain t q where s: "s = Flow t q" "ORDER_SUBMITTED \<in> set (next_allowed t)"
    using assms by (auto simp: trade_step_iff)
  then have "t = RISK_GATE" by (cases t) simp_all
  then show ?thesis using s(1) by blast
qed

lemma order_after_gate:
  assumes "accepts Fresh (xs @ (ORDER_SUBMITTED, p) # ys)"
  shows "\<exists>fs q. flow_events xs = fs @ [(RISK_GATE, q)] \<and> \<not> gate_rejects q"
proof -
  obtain s1 s2 where run: "trade_run Fresh xs s1" and step: "trade_step s1 (ORDER_SUBMITTED, p) s2"
    using assms by (auto simp: accepts_def trade_run_append run_Cons_iff)
  obtain q where "s1 = Flow RISK_GATE q" using step_into_order [OF step] by blast
  then have "flow_events xs \<noteq> []" "last (flow_events xs) = (RISK_GATE, q)" "\<not> gate_rejects q"
    using phase_inv_run [OF run, of "[]"] by (auto simp: phase_inv_def)
  then show ?thesis by (metis append_butlast_last_id)
qed

text \<open>A trade that is over stays over: only events out of band are accepted.\<close>

lemma over_run: "trade_run Over es s' \<Longrightarrow> flow_events es = []"
proof (induction es)
  case (Cons e es)
  then obtain s1 where "trade_step Over e s1" "trade_run s1 es s'" by (auto simp: run_Cons_iff)
  moreover from this(1) have "s1 = Over \<and> fst e \<notin> set trade_flow"
    by (auto elim!: over_stepE simp: trade_flow_def)
  ultimately show ?case using Cons.IH by simp
qed simp

lemma closed_ends_flow:
  assumes "accepts Fresh (xs @ (POSITION_CLOSED, p) # ys)"
  shows "flow_events ys = []"
proof -
  obtain s s' r where run: "trade_step s (POSITION_CLOSED, p) s'" "trade_run s' ys r"
    using assms by (auto simp: accepts_def trade_run_append run_Cons_iff)
  have "s' = phase_after POSITION_CLOSED p" using flow_step_phase [OF run(1)] by (simp add: trade_flow_def)
  then have "s' = Over" by (simp add: phase_after_def)
  then show ?thesis using over_run run(2) by blast
qed

end
