(* ===== verification/EvClaims.thy ===== *)
theory EvClaims
  imports EvStream
begin

text \<open>Properties of the canonical event stream, with the concrete streams that satisfy their hypotheses.\<close>

lemma dkeys_event_dict: "distinct (dkeys (event_dict E t payload a @ [(''checksum'', v)]))"
  by (auto simp: event_dict_def optional_entry_def dkeys_def split: option.splits)

lemma event_dict_get:
  "dget (event_dict E t payload a @ [(''checksum'', v)]) ''payload'' = Some (PDict payload)"
  "dget (event_dict E t payload a @ [(''checksum'', v)]) ''event_type'' = Some (PStr (event_type_value t))"
  "dget (event_dict E t payload a @ [(''checksum'', v)]) ''correlation_id'' = map_option PStr (ea_correlation_id a)"
  "dget (event_dict E t payload a @ [(''checksum'', v)]) ''trade_id'' = map_option PStr (ea_trade_id a)"
  by (simp_all add: event_dict_def dget_def optional_entry_def split: option.splits)

lemma build_event_fields:
  assumes "build_event E t payload a = Inr e"
  shows "envelope_from_dict (ev_digest E) (PDict (envelope_to_dict e)) = Inr e"
    and "envelope_verifies (ev_digest E) e" and "e_event_type e = t" and "e_payload e = payload"
    and "e_correlation_id e = ea_correlation_id a" and "e_trade_id e = ea_trade_id a"
proof -
  let ?d = "event_dict E t payload a @ [(''checksum'', PStr (compute_checksum (ev_digest E) (event_dict E t payload a)))]"
  have e: "envelope_from_dict (ev_digest E) (PDict ?d) = Inr e"
    using assms by (auto simp: build_event_def Let_def split: sum.splits)
  then obtain u where u: "validate_event_dict (PDict ?d) = Inr u" "e = envelope_of ?d u"
    by (auto simp: envelope_from_dict_def split: sum.splits if_splits)
  then have "u = t" by (simp add: validate_event_dict_iff dget_default_def event_dict_get)
  then show "e_event_type e = t" "e_payload e = payload" "e_correlation_id e = ea_correlation_id a"
      "e_trade_id e = ea_trade_id a"
    using u(2) by (simp_all add: envelope_of_def dict_field_def opt_str_field_def event_dict_get split: option.splits)
  show "envelope_from_dict (ev_digest E) (PDict (envelope_to_dict e)) = Inr e" "envelope_verifies (ev_digest E) e"
    using from_dict_round_trip [OF e dkeys_event_dict] by simp_all
qed

text \<open>C15. An event that the model builds survives serialisation, provided that json.loads reads the text
  of its dictionary back as that dictionary, which the json module documents: reading the JSON text of the
  event gives the same envelope, its checksum verifies, and it carries the type, payload, correlation id and
  trade id it was built with. The checksum depends neither on the order of the fields nor on the checksum
  field: every dictionary with the same other entries in any order, and with any checksum entry or none, has
  that checksum. All this holds for every digest function.\<close>

theorem event_round_trip:
  assumes "build_event E t payload a = Inr e" and "json_reads_back J (event_json_value e)"
  shows "event_from_json J (ev_digest E) (event_to_json J e) = Inr e \<and> envelope_verifies (ev_digest E) e
    \<and> e_event_type e = t \<and> e_payload e = payload
    \<and> e_correlation_id e = ea_correlation_id a \<and> e_trade_id e = ea_trade_id a
    \<and> (\<forall>d. mset (filter (\<lambda>kv. fst kv \<noteq> ''checksum'') d)
           = mset (filter (\<lambda>kv. fst kv \<noteq> ''checksum'') (envelope_to_dict e)) \<longrightarrow>
         compute_checksum (ev_digest E) d = e_checksum e)"
proof -
  note fields = build_event_fields [OF assms(1)]
  have "compute_checksum (ev_digest E) (envelope_to_dict e) = e_checksum e"
    using fields(2) by (simp add: envelope_verifies_def verify_checksum_def envelope_dget)
  moreover have "canonical d = canonical (envelope_to_dict e)"
    if "mset (filter (\<lambda>kv. fst kv \<noteq> ''checksum'') d) = mset (filter (\<lambda>kv. fst kv \<noteq> ''checksum'') (envelope_to_dict e))" for d
    by (rule canonical_unchecked [OF that [symmetric] distinct_envelope_keys])
  ultimately have sum: "compute_checksum (ev_digest E) d = e_checksum e"
    if "mset (filter (\<lambda>kv. fst kv \<noteq> ''checksum'') d) = mset (filter (\<lambda>kv. fst kv \<noteq> ''checksum'') (envelope_to_dict e))" for d
    using that unfolding compute_checksum_def by metis
  have read: "event_from_json J (ev_digest E) (event_to_json J e) = Inr e"
    using fields(1) assms(2) unfolding json_reads_back_def event_from_json_def event_to_json_def
    by (simp add: event_of_json_value_def event_json_value_def)
  show ?thesis by (intro conjI allI impI read fields sum)
qed

text \<open>C16. Sequence validation implements the contract: a stream is accepted exactly when its monotonic
  clock never goes back, every trigger has a correlation id, every event of the trade flow has a trade
  id, and for every trade the events of that trade, taken by themselves, are a run of the step
  relation that starts with a trade not yet begun.\<close>

theorem validate_sequence_refines:
  "validate_sequence es = Inr () \<longleftrightarrow>
     sorted (map e_ts_monotonic es) \<and> list_all addressed es
     \<and> (\<forall>tid. \<exists>s. trade_run Fresh (trade_events tid es) s)"
  by (simp add: validate_sequence_iff accepts_def)

text \<open>C17. No order without the risk gate: in an accepted stream, the last event of the trade flow
  before an ORDER_SUBMITTED event of the same trade is a RISK_GATE event that did not reject, and no
  event of a trade follows its POSITION_CLOSED except those out of band.\<close>

theorem no_order_without_gate:
  assumes "validate_sequence (before @ e # after) = Inr ()" and "e_trade_id e = Some tid"
  shows "(e_event_type e \<noteq> ORDER_SUBMITTED
      \<or> (\<exists>fs q. flow_events (trade_events tid before) = fs @ [(RISK_GATE, q)] \<and> \<not> gate_rejects q))
    \<and> (e_event_type e \<noteq> POSITION_CLOSED \<or> flow_events (trade_events tid after) = [])"
proof -
  have acc: "accepts Fresh (trade_events tid before @ (e_event_type e, e_payload e) # trade_events tid after)"
    using assms(1) [unfolded validate_sequence_iff, THEN conjunct2, THEN conjunct2, THEN spec, of tid] assms(2)
    by (simp add: trade_events_def)
  show ?thesis using acc order_after_gate closed_ends_flow by metis
qed

section \<open>The hypotheses hold at concrete inputs\<close>

definition sample_uuid :: string where
  "sample_uuid = ''00000000-0000-4000-8000-000000000001''"

definition sample_event_env :: event_env where
  "sample_event_env =
     \<lparr>ev_digest = (\<lambda>v. replicate 64 (CHR ''a'')), ev_uuid = sample_uuid,
      ev_now_ms = ''2026-08-17T10:00:00.000Z'', ev_monotonic = 5\<rparr>"

definition sample_ack :: pydict where
  "sample_ack =
     [(''broker_order_id'', PStr ''ORD-1''), (''broker_state'', PStr ''PLACED''),
      (''ack_ts'', PStr ''2026-08-17T10:00:00Z'')]"

definition sample_args :: event_args where
  "sample_args = default_args\<lparr>ea_trade_id := Some sample_uuid\<rparr>"

lemma sample_build: "case build_event sample_event_env ORDER_ACKNOWLEDGED sample_ack sample_args of Inl x \<Rightarrow> False | Inr e \<Rightarrow> True"
  by code_simp

text \<open>A codec for the witness: the compact text of a value without characters to escape, and a reader that
  knows the text of one value.\<close>

fun plain_json :: "pyval \<Rightarrow> string" where
  "plain_json PNone = ''null''"
| "plain_json (PBool b) = (if b then ''true'' else ''false'')"
| "plain_json (PInt i) = (if i < 0 then ''-'' @ show_nat (nat (- i)) else show_nat (nat i))"
| "plain_json (PStr s) = [CHR 0x22] @ s @ [CHR 0x22]"
| "plain_json (PList vs) = ''['' @ join '','' (map plain_json vs) @ '']''"
| "plain_json (PDict d) =
     ''{'' @ join '','' (map (\<lambda>kv. [CHR 0x22] @ fst kv @ [CHR 0x22] @ '':'' @ plain_json (snd kv)) d) @ ''}''"
| "plain_json v = []"

definition codec_of :: "pyval \<Rightarrow> json_codec" where
  "codec_of v = \<lparr>json_dumps = plain_json, json_loads = (\<lambda>s. if s = plain_json v then Some v else None)\<rparr>"

theorem event_round_trip_witness:
  "\<exists>e J. build_event sample_event_env ORDER_ACKNOWLEDGED sample_ack sample_args = Inr e
     \<and> event_from_json J (ev_digest sample_event_env) (event_to_json J e) = Inr e \<and> e_payload e = sample_ack"
proof -
  obtain e where e: "build_event sample_event_env ORDER_ACKNOWLEDGED sample_ack sample_args = Inr e"
    using sample_build by (auto split: sum.splits)
  have "json_reads_back (codec_of (event_json_value e)) (event_json_value e)"
    by (simp add: json_reads_back_def codec_of_def)
  then show ?thesis using e event_round_trip [OF e] by blast
qed

definition sample_event :: "event_type \<Rightarrow> pydict \<Rightarrow> int \<Rightarrow> envelope" where
  "sample_event t payload clock =
     \<lparr>e_event_id = sample_uuid, e_event_type = t, e_ts_event = ''2026-08-17T10:00:00Z'',
      e_ts_collected = ''2026-08-17T10:00:00.000Z'', e_ts_monotonic = clock, e_component = ''collector'',
      e_severity = ''INFO'', e_schema_version = ''1.0.0'', e_payload = payload, e_checksum = [],
      e_correlation_id = Some sample_uuid, e_trade_id = Some sample_uuid\<rparr>"

theorem no_order_without_gate_witness:
  "\<exists>fs q. flow_events (trade_events sample_uuid
      [sample_event TRIGGER_DETECTED [] 1, sample_event RISK_GATE [(''gate_result'', PStr ''ALLOW'')] 2])
     = fs @ [(RISK_GATE, q)] \<and> \<not> gate_rejects q"
proof -
  have ok: "validate_sequence ([sample_event TRIGGER_DETECTED [] 1,
      sample_event RISK_GATE [(''gate_result'', PStr ''ALLOW'')] 2] @ sample_event ORDER_SUBMITTED [] 3 # []) = Inr ()"
    by code_simp
  show ?thesis using no_order_without_gate [OF ok, of sample_uuid] by (simp add: sample_event_def)
qed

end
