(* ===== verification/RcClaims.thy ===== *)
theory RcClaims
  imports RcRunner PsClaims EvClaims
begin

text \<open>Properties of reconciliation, with the concrete runs that satisfy their hypotheses.\<close>

section \<open>The classification against its reference\<close>









definition diff_key :: "entity_diff \<Rightarrow> string \<times> string" where
  "diff_key d = (ed_entity_type d, ed_broker_id d)"

lemma tagged_distinct: "distinct (map (\<lambda>x. (k, f x)) xs) \<longleftrightarrow> distinct (map f xs)"
  by (induction xs) auto

text \<open>The diffs of a comparison are complete: sorted by entity type and id, they name every position and
  every order that either side knows, each exactly once.\<close>

theorem classify_covers_all_entities:
  assumes "distinct (map po_broker_position_id lps)" and "distinct (map or_broker_order_id los)"
    and "distinct (map bp_id (bs_positions s))" and "distinct (map bo_id (bs_orders s))"
  shows "sorted (map diff_key (oc_diffs (classify fmt lps los s)))
    \<and> distinct (map diff_key (oc_diffs (classify fmt lps los s)))
    \<and> set (map diff_key (oc_diffs (classify fmt lps los s))) =
        {''POSITION''} \<times> (po_broker_position_id ` set lps \<union> bp_id ` set (bs_positions s))
        \<union> {''ORDER''} \<times> (or_broker_order_id ` set los \<union> bo_id ` set (bs_orders s))"
proof -
  let ?lps = "by_id po_broker_position_id lps" and ?los = "by_id or_broker_order_id los"
  let ?bps = "sort_key bp_id (bs_positions s)" and ?bos = "sort_key bo_id (bs_orders s)"
  let ?ds = "ta_diffs (compare_all fmt ?lps ?los ?bps ?bos)"
  have out: "oc_diffs (classify fmt lps los s) = sort_key diff_key ?ds"
    by (simp add: classify_def Let_def diff_key_def [abs_def])
  have keys: "map diff_key ?ds =
      map (\<lambda>b. (''POSITION'', bp_id b)) ?bps @ map (\<lambda>b. (''ORDER'', bo_id b)) ?bos
      @ map (\<lambda>l. (''POSITION'', po_broker_position_id l)) (filter (\<lambda>l. po_broker_position_id l \<notin> bp_id ` set ?bps) lps)
      @ map (\<lambda>l. (''ORDER'', or_broker_order_id l)) (filter (\<lambda>l. or_broker_order_id l \<notin> bo_id ` set ?bos) los)"
    using assms(1,2) by (simp add: compare_all_eq by_id_distinct diff_key_def entry_keys comp_def filter_map)
  have sorts: "distinct (map bp_id ?bps)" "distinct (map bo_id ?bos)"
    using assms(3,4) by (simp_all add: distinct_map)
  have "distinct (map diff_key ?ds)"
    unfolding keys distinct_append tagged_distinct set_append set_map
    using sorts assms(1,2) by (auto simp: distinct_map_filter) (metis image_eqI)+
  then have "distinct (map diff_key (sort_key diff_key ?ds))" by (simp add: distinct_map)
  moreover have "set (map diff_key ?ds) =
        {''POSITION''} \<times> (po_broker_position_id ` set lps \<union> bp_id ` set (bs_positions s))
        \<union> {''ORDER''} \<times> (or_broker_order_id ` set los \<union> bo_id ` set (bs_orders s))"
    unfolding keys by auto
  ultimately show ?thesis by (simp add: out)
qed

section \<open>What a run writes\<close>

lemma pres_lifted [pres_rules]:
  "pres Q m \<Longrightarrow> pres Q (lift_db m)" "pres Q m \<Longrightarrow> pres Q (wrap_db m)" "pres Q m' \<Longrightarrow> pres Q (catch_persistence m')"
  by (auto simp: pres_def lift_db_def wrap_db_def catch_persistence_def split: prod.splits sum.splits rc_error.splits)
    (metis snd_conv)+

definition reconciliation_tables :: "string set" where
  "reconciliation_tables = {''events'', ''reconciliation_events'', ''reconciliation_runs'', ''reconciliation_adoptions''}"

lemma save_run_transaction:
  "save_reconciliation_run E e run as = event_transaction E
     (\<lambda>x. bind (apply_derived_state E e) (\<lambda>_. bind (write_reconciliation_run run) (\<lambda>_. bind (write_adoptions as) (\<lambda>_. ret x)))) e"
  by (simp add: save_reconciliation_run_def event_transaction_def)

lemma save_run_tables:
  assumes "e_event_type e = RECONCILIATION"
  shows "pres (same_disk (- reconciliation_tables)) (save_reconciliation_run E e run as)"
proof -
  have "apply_derived_state E e = apply_reconciliation e (e_payload e)" by (simp add: apply_derived_state_def assms)
  then show ?thesis
    unfolding save_run_transaction
    by (intro event_transaction_tables harmless_run)
      (simp_all add: reconciliation_tables_def write_reconciliation_run_def pres_rules same_tables_reconciliation
        same_tables_params same_tables_adoptions)
qed

lemma built_event_type: "post (built_event EE t p ts) (\<lambda>e. e_event_type e = t)"
  using build_event_fields(3) by (auto simp: post_def built_event_def raise_def ret_def split: sum.splits)

lemma built_event_pure: "snd (built_event EE t p ts s) = s"
  by (simp add: built_event_def raise_def ret_def split: sum.splits)

lemma build_run_pure: "snd (build_run R n trig oc rid s) = s"
  using built_event_pure
  by (auto simp: build_run_def bind_def check_event_schema_def ret_def raise_def split: prod.splits sum.splits if_splits)
    (metis snd_conv)+

lemma build_run_type: "post (build_run R n trig oc rid) (\<lambda>er. e_event_type (fst er) = RECONCILIATION)"
  by (auto simp: post_def build_run_def bind_def ret_def split: prod.splits sum.splits dest: postD [OF built_event_type])

lemma reads_pure:
  "snd (open_positions s) = s" "snd (open_orders s) = s" "snd (get_latest_reconciliation_run s) = s"
  by (simp_all add: open_positions_def open_orders_def get_latest_reconciliation_run_def connection_def bind_def gets_def)

lemma lifted_pure: "snd (m s) = s \<Longrightarrow> snd (lift_db m s) = s"
  by (cases "m s") (auto simp: lift_db_def split: sum.splits)

lemma pres_run_reconcile: "pres (same_disk (- reconciliation_tables)) (run_reconcile R n trig snap)"
proof -
  note pure = pres_id [OF _ same_disk_preorder]
  have inserted: "pres (same_disk (- reconciliation_tables)) (insert_event E e)" for E e
    unfolding insert_event_transaction
    by (rule event_transaction_tables) (simp_all add: harmless_ret pres_rules reconciliation_tables_def)
  have recorded: "pres (same_disk (- reconciliation_tables)) (record_run R n trig oc s)" for oc s
    unfolding record_run_def Let_def
    by (rule pres_bind_post [OF same_disk_preorder pure build_run_type], rule build_run_pure)
      (intro pres_bind same_disk_preorder pres_ret pres_lifted save_run_tables)
  show ?thesis
  proof (cases snap)
    case (Inl m)
    then show ?thesis
      unfolding run_reconcile_def snapshot_unavailable_def
      by (simp add: pres_rules inserted pure built_event_pure)
  next
    case (Inr s)
    then show ?thesis
      unfolding run_reconcile_def Let_def
      by (simp add: pres_rules recorded pure lifted_pure reads_pure)
  qed
qed

text \<open>C26. Reconciliation has no execution authority over the database: whatever the snapshot and whatever
  fails, a run changes nothing but the event stream and the three reconciliation tables. Orders,
  positions, trades, snapshots, invalid trades and ingestion cursors stay as they were.\<close>

theorem reconcile_writes_only_its_records:
  assumes "t \<notin> reconciliation_tables"
  shows "rp_disk (snd (run_reconcile R n trig snap r)) t = rp_disk r t"
  using pres_run_reconcile [of R n trig snap] assms by (simp add: pres_def same_disk_def)

text \<open>The same holds of the runner: whatever its cycles bring and wherever it stops.\<close>

definition runner_same_disk :: "rec_runner \<Rightarrow> rec_runner \<Rightarrow> bool" where
  "runner_same_disk q q' \<longleftrightarrow> same_disk (- reconciliation_tables) (qr_repo q) (qr_repo q')"

lemma runner_same_disk_preorder [pres_rules]: "preorder_rel runner_same_disk"
  by (simp add: preorder_rel_def runner_same_disk_def same_disk_def)

lemma pres_runner_run [pres_rules]: "pres runner_same_disk (runner_run R trig c)"
proof (rule presI)
  fix q :: rec_runner
  have "same_disk (- reconciliation_tables) (qr_repo q) (snd (run_reconcile R (cy_clock c) trig (cy_snapshot c) (qr_repo q)))"
    using pres_run_reconcile by (simp add: pres_def)
  then show "runner_same_disk q (snd (runner_run R trig c q))"
    using preorder_relD(1) [OF runner_same_disk_preorder]
    by (auto simp: runner_run_def runner_same_disk_def split: prod.split)
qed

lemma pres_rec_start [pres_rules]: "pres runner_same_disk (rec_start R c)"
proof -
  have "pres runner_same_disk open_runner" "pres runner_same_disk (started now st)" for now st
    by (auto simp: pres_def open_runner_def open_repo_def started_def runner_same_disk_def same_disk_def)
  then show ?thesis by (simp add: rec_start_def pres_rules)
qed

lemma pres_maybe_heartbeat [pres_rules]: "pres runner_same_disk (maybe_heartbeat R c)"
proof (rule presI)
  fix q :: rec_runner
  have "pres runner_same_disk (bind (runner_run R HEARTBEAT c) (\<lambda>st. ret (Some st)))" by (simp add: pres_rules)
  then show "runner_same_disk q (snd (maybe_heartbeat R c q))"
    by (auto simp: maybe_heartbeat_def pres_def runner_same_disk_def same_disk_def)
qed

lemma pres_heartbeat_loop [pres_rules]: "pres runner_same_disk (heartbeat_loop R cs st)"
  by (induction cs arbitrary: st) (simp_all add: pres_rules)

theorem runner_writes_only_its_records:
  assumes "t \<notin> reconciliation_tables"
  shows "rp_disk (qr_repo (snd (rec_run R c cs q))) t = rp_disk (qr_repo q) t"
proof -
  have start: "pres runner_same_disk (bind (rec_start R c) (\<lambda>_. ret ()))" by (simp add: pres_rules)
  have "pres runner_same_disk (\<lambda>q. if qr_service q then (Inr (), q) else bind (rec_start R c) (\<lambda>_. ret ()) q)"
  proof (rule presI)
    fix q :: rec_runner
    have "runner_same_disk q (snd (bind (rec_start R c) (\<lambda>_. ret ()) q))" using start by (simp add: pres_def)
    then show "runner_same_disk q (snd (if qr_service q then (Inr (), q) else bind (rec_start R c) (\<lambda>_. ret ()) q))"
      using preorder_relD(1) [OF runner_same_disk_preorder] by (cases "qr_service q") simp_all
  qed
  then have "pres runner_same_disk (rec_run R c cs)" unfolding rec_run_def by (simp add: pres_rules)
  then show ?thesis using assms by (simp add: pres_def runner_same_disk_def same_disk_def)
qed

text \<open>After a start of the reconciliation runner its heartbeats are never closer to each other, nor
  the first one to the start, than the configured interval, and that is at least 0.05 seconds; a
  heartbeat that fails counts like any other. The loop ends with an error only where one other than
  \<open>ReconciliationError\<close> escapes from the service.\<close>

theorem heartbeats_are_spaced:
  assumes "rec_start R c (new_rec_runner r interval) = (Inr st, q)"
  shows "spaced (fmax interval (flit 5 2)) (cy_now c # heartbeat_times R cs q)
    \<and> (\<forall>e q'. heartbeat_loop R cs st q = (Inl e, q') \<longrightarrow> (\<exists>d. e = Run_escaped (Escaped d)))"
proof -
  have q: "qr_last_heartbeat q = Some (cy_now c) \<and> qr_interval_seconds q = fmax interval (flit 5 2) \<and> qr_service q"
    using assms rec_start_state by (simp add: new_rec_runner_def)
  then show ?thesis
    using heartbeat_times_spaced [of q "cy_now c" R cs] heartbeat_loop_errors [of q R cs st] by simp
qed

section \<open>Successive runs\<close>

definition run_row :: "run_record \<Rightarrow> sqlrow" where
  "run_row u =
     [(''reconciliation_id'', SqlText (ru_reconciliation_id u)), (''trigger'', SqlText (ru_trigger u)),
      (''signature'', SqlText (ru_signature u)), (''result'', SqlText (ru_result u)), (''action'', SqlText (ru_action u)),
      (''mismatch'', SqlInt (if ru_mismatch u then 1 else 0)), (''run_ts'', SqlText (ru_run_ts u))]"

lemma bind_run_row: "bind_row ''reconciliation_runs'' (run_params u) = Inr (run_row u)"
  by (simp add: run_params_def text_param_def run_row_def is_real_column_def real_columns_def)

lemma run_row_reads_back: "run_from_row (run_row u) = u"
  by (simp add: run_from_row_def run_row_def text_of_def cell_def flag_of_def)

lemma run_row_key: "cell (run_row u) ''reconciliation_id'' = SqlText (ru_reconciliation_id u)"
  by (simp add: run_row_def cell_def)

lemma runs_key: "primary_key ''reconciliation_runs'' = ''reconciliation_id''"
  by (simp add: primary_key_def primary_keys_def)

lemma save_run_effect:
  assumes "save_reconciliation_run E e run as r = (Inr x, r')" and "e_event_type e = RECONCILIATION"
  shows "idle r \<and> idle r' \<and> rp_disk r' ''reconciliation_runs'' =
    snd (insert_ignore ''reconciliation_id'' (run_row run) (rp_disk r ''reconciliation_runs''))"
proof (cases rule: check_event_cases [of E e r])
  case accepted
  let ?T = "{''reconciliation_runs''}"
  let ?rest = "\<lambda>x. bind (apply_derived_state E e) (\<lambda>_. bind (write_reconciliation_run run) (\<lambda>_. bind (write_adoptions as) (\<lambda>_. ret x)))"
  have tx: "transaction (bind (insert_event_row e) ?rest) r = (Inr x, r')"
    using assms(1) accepted by (simp add: save_reconciliation_run_def bind_def)
  have "pres on_work (bind (insert_event_row e) ?rest)"
    by (simp add: pres_rules write_reconciliation_run_def)
  from transaction_Inr [OF this tx] obtain r3 where idle: "idle r \<and> idle r'"
    and body: "bind (insert_event_row e) ?rest (begun r) = (Inr x, r3)"
    and disk: "rp_disk r' = view r3"
    by blast
  from body obtain y r1 u1 r2 u2 r4 u3 r5 where
    one: "insert_event_row e (begun r) = (Inr y, r1)"
    and two: "apply_derived_state E e r1 = (Inr u1, r2)" and three: "write_reconciliation_run run r2 = (Inr u2, r4)"
    and four: "write_adoptions as r4 = (Inr u3, r3)"
    by (elim bind_InrE) (simp add: ret_def)
  have "apply_derived_state E e = apply_reconciliation e (e_payload e)" by (simp add: apply_derived_state_def assms(2))
  then have p2: "pres (same_tables ?T) (apply_derived_state E e)" by (simp add: same_tables_reconciliation)
  have p1: "pres (same_tables ?T) (insert_event_row e)" by (rule same_tables_insert_event_row) simp
  have p4: "pres (same_tables ?T) (write_adoptions as)" by (rule same_tables_adoptions) simp
  have "view r2 ''reconciliation_runs'' = rp_disk r ''reconciliation_runs''"
    using presD [OF p1 one] presD [OF p2 two] by (simp add: same_tables_def view_def)
  moreover have "view r4 ''reconciliation_runs'' =
      snd (insert_ignore ''reconciliation_id'' (run_row run) (view r2 ''reconciliation_runs''))"
    using three by (simp add: write_reconciliation_run_def execute_def insert_params_def bind_run_row runs_key
      split: prod.splits) (auto simp: view_def)
  moreover have "view r3 ''reconciliation_runs'' = view r4 ''reconciliation_runs''"
    using presD [OF p4 four] by (simp add: same_tables_def)
  ultimately show ?thesis using idle disk by simp
next
  case (refused y)
  then show ?thesis using assms(1) by (simp add: save_reconciliation_run_def bind_def)
qed

lemma record_run_effect:
  assumes "record_run R n trig oc s r = (Inr st, r')"
  defines "rid \<equiv> reconciliation_id R (signature (db_digest (rc_db R)) oc trig)"
  shows "idle r \<and> idle r' \<and> st = stats_for oc n 0 None (Some rid)
    \<and> rp_disk r' ''reconciliation_runs'' = snd (insert_ignore ''reconciliation_id''
        (run_row (run_record_of R trig oc rid (rn_run_ts n))) (rp_disk r ''reconciliation_runs''))"
proof -
  from assms(1) obtain er r1 x r2 where
    built: "build_run R n trig oc rid r = (Inr er, r1)"
    and saved: "wrap_db (save_reconciliation_run (rc_db R) (fst er) (snd er) (run_adoptions R oc s rid (rn_run_ts n))) r1 = (Inr x, r2)"
    and returned: "st = stats_for oc n 0 None (Some rid)" "r' = r2"
    unfolding record_run_def Let_def rid_def [symmetric] by (elim bind_InrE) (simp add: ret_def)
  have r1: "r1 = r" using build_run_pure [of R n trig oc rid r] built by simp
  have run: "snd er = run_record_of R trig oc rid (rn_run_ts n)"
    using built by (auto simp: build_run_def bind_def ret_def split: prod.splits sum.splits)
  have "save_reconciliation_run (rc_db R) (fst er) (snd er) (run_adoptions R oc s rid (rn_run_ts n)) r = (Inr x, r2)"
    using saved r1 by (auto simp: wrap_db_def split: prod.splits sum.splits)
  from save_run_effect [OF this postD [OF build_run_type built]] show ?thesis
    using returned run by simp
qed

definition outcome_on :: "rc_env \<Rightarrow> database \<Rightarrow> broker_snapshot \<Rightarrow> rec_outcome" where
  "outcome_on R d s = classify (rc_fmt R) (select_open_positions d) (select_open_orders d) s"

definition signature_on :: "rc_env \<Rightarrow> trigger \<Rightarrow> database \<Rightarrow> broker_snapshot \<Rightarrow> string" where
  "signature_on R trig d s = signature (db_digest (rc_db R)) (outcome_on R d s) trig"

lemma reconcile_open:
  assumes "rp_open r"
  shows "run_reconcile R n trig (Inr s) r =
    (if identical_run (read_latest_reconciliation_run (view r)) (signature_on R trig (view r) s) (outcome_on R (view r) s)
     then (Inr (stats_for (outcome_on R (view r) s) n 1 (read_latest_reconciliation_run (view r)) None), r)
     else record_run R n trig (outcome_on R (view r) s) s r)"
  using assms
  by (simp add: run_reconcile_def lift_db_def bind_def open_positions_def open_orders_def get_latest_reconciliation_run_def
    connection_def gets_def ret_def Let_def outcome_on_def signature_on_def)

lemma reconcile_closed: "\<not> rp_open r \<Longrightarrow> run_reconcile R n trig (Inr s) r = (Inl (Escaped Not_open), r)"
  by (simp add: run_reconcile_def lift_db_def bind_def open_positions_def connection_def)

lemma insort_snoc: "f y \<le> f x \<Longrightarrow> insort_key f y (ys @ [x]) = insort_key f y ys @ [x]"
  by (induction ys) auto

lemma sort_snoc_max: "\<forall>y \<in> set xs. f y \<le> f x \<Longrightarrow> sort_key f (xs @ [x]) = sort_key f xs @ [x]"
  by (induction xs) (auto simp: insort_snoc)

text \<open>The run of the last row, when it is later than all others.\<close>

lemma latest_of_appended:
  assumes "\<forall>row \<in> set rows. ru_run_ts (run_from_row row) < ru_run_ts u" and "d ''reconciliation_runs'' = rows @ [run_row u]"
  shows "read_latest_reconciliation_run d = Some u"
proof -
  let ?f = "\<lambda>r. (ru_run_ts r, ru_reconciliation_id r)"
  have "sort_key ?f (map run_from_row (rows @ [run_row u])) = sort_key ?f (map run_from_row rows) @ [u]"
    using sort_snoc_max [of "map run_from_row rows" ?f u] assms(1) by (fastforce simp: run_row_reads_back)
  then show ?thesis by (simp add: read_latest_reconciliation_run_def read_reconciliation_runs_def assms(2))
qed

text \<open>Reconciliation is idempotent: after a run that returned, and whose time stamp is later than those
  of all recorded runs of which none has its id, the same run again (same trigger, same snapshot) writes
  nothing at all and reports the recorded run.\<close>

theorem repeated_run_is_skipped:
  assumes "run_reconcile R n trig (Inr s) r = (Inr st, r')" and "rp_work r = None"
    and "\<forall>row \<in> set (rp_disk r ''reconciliation_runs''). ru_run_ts (run_from_row row) < rn_run_ts n"
    and "\<not> has_key ''reconciliation_id'' (SqlText (reconciliation_id R (signature_on R trig (rp_disk r) s)))
           (rp_disk r ''reconciliation_runs'')"
  shows "\<exists>st'. run_reconcile R n' trig (Inr s) r' = (Inr st', r') \<and> rs_skipped_identical st' = 1
    \<and> rs_latest_id st' = rs_latest_id st \<and> rs_latest_result st' = rs_latest_result st"
proof -
  have op: "rp_open r" using assms(1) reconcile_closed by (metis sum.distinct(1) prod.inject)
  have vw: "view r = rp_disk r" using assms(2) by (simp add: view_def)
  let ?oc = "outcome_on R (rp_disk r) s" and ?sig = "signature_on R trig (rp_disk r) s"
  show ?thesis
  proof (cases "identical_run (read_latest_reconciliation_run (rp_disk r)) ?sig ?oc")
    case True
    then have "r' = r" "st = stats_for ?oc n 1 (read_latest_reconciliation_run (rp_disk r)) None"
      using assms(1) by (auto simp: reconcile_open [OF op] vw)
    then show ?thesis
      using True by (auto simp: reconcile_open [OF op] vw stats_for_def Let_def identical_run_def split: option.splits)
  next
    case False
    then have rec: "record_run R n trig ?oc s r = (Inr st, r')" using assms(1) by (simp add: reconcile_open [OF op] vw)
    let ?rid = "reconciliation_id R ?sig"
    let ?u = "run_record_of R trig ?oc ?rid (rn_run_ts n)"
    note eff = record_run_effect [OF rec, folded signature_on_def]
    have runs: "rp_disk r' ''reconciliation_runs'' = rp_disk r ''reconciliation_runs'' @ [run_row ?u]"
      using eff assms(4) by (simp add: insert_ignore_def run_row_key run_record_of_def)
    have latest: "read_latest_reconciliation_run (rp_disk r') = Some ?u"
      using latest_of_appended [where d = "rp_disk r'", OF _ runs] assms(3) by (simp add: run_record_of_def)
    have "rp_disk r' t = rp_disk r t" if "t \<notin> reconciliation_tables" for t
      using reconcile_writes_only_its_records [OF that, of R n trig "Inr s" r] assms(1) by simp
    then have "outcome_on R (rp_disk r') s = ?oc"
      by (simp add: outcome_on_def select_open_positions_def select_open_orders_def reconciliation_tables_def)
    moreover have "rp_open r'" "view r' = rp_disk r'" using eff by (auto simp: idle_def settled_def view_def)
    ultimately show ?thesis
      using latest eff by (simp add: reconcile_open signature_on_def identical_run_def run_record_of_def stats_for_def Let_def)
  qed
qed

text \<open>C27. A state that comes back is not recorded: when the database already holds a run with the id of the
  present outcome and the latest run is another one, a run that succeeds reports the present result but
  leaves the table of runs as it was, so the shadow state stays that of the other run.\<close>

theorem returning_state_leaves_shadow_stale:
  assumes "run_reconcile R n trig (Inr s) r = (Inr st, r')" and "rp_work r = None"
    and "\<not> identical_run (read_latest_reconciliation_run (rp_disk r)) (signature_on R trig (rp_disk r) s) (outcome_on R (rp_disk r) s)"
    and "has_key ''reconciliation_id'' (SqlText (reconciliation_id R (signature_on R trig (rp_disk r) s)))
           (rp_disk r ''reconciliation_runs'')"
  shows "rs_latest_result st = Some (rec_result_value (oc_result (outcome_on R (rp_disk r) s)))
    \<and> rp_disk r' ''reconciliation_runs'' = rp_disk r ''reconciliation_runs''
    \<and> shadow_of (rp_disk r') = shadow_of (rp_disk r)"
proof -
  have op: "rp_open r" using assms(1) reconcile_closed by (metis sum.distinct(1) prod.inject)
  have vw: "view r = rp_disk r" using assms(2) by (simp add: view_def)
  have rec: "record_run R n trig (outcome_on R (rp_disk r) s) s r = (Inr st, r')"
    using assms(1,3) by (simp add: reconcile_open [OF op] vw)
  note eff = record_run_effect [OF rec, folded signature_on_def]
  then have "rp_disk r' ''reconciliation_runs'' = rp_disk r ''reconciliation_runs''"
    using assms(4) by (simp add: insert_ignore_def run_row_key run_record_of_def)
  then show ?thesis
    using eff by (simp add: shadow_of_def read_latest_reconciliation_run_def read_reconciliation_runs_def stats_for_def Let_def)
qed

section \<open>The hypotheses hold at concrete inputs\<close>

definition sample_rc_env :: rc_env where
  "sample_rc_env =
     \<lparr>rc_db = sample_db_env, rc_fmt = (\<lambda>v. ''0.1''), rc_uuid5 = (\<lambda>name. sample_id (CHR ''5'')),
      rc_schema_ok = (\<lambda>v. True), rc_component = ''collector''\<rparr>"

definition sample_run_clock :: run_clock where
  "sample_run_clock =
     \<lparr>rn_run_ts = ''2026-08-17T10:05:00.000Z'', rn_uuid = sample_id (CHR ''6''),
      rn_now_ms = ''2026-08-17T10:05:00.000Z'', rn_monotonic = 9, rn_elapsed = 3\<rparr>"

definition flat_snapshot :: broker_snapshot where
  "flat_snapshot = \<lparr>bs_positions = [], bs_orders = []\<rparr>"


text \<open>A local order the broker does not know, beside a broker order that is unknown locally, is adopted.\<close>

definition other_order_snapshot :: broker_snapshot where
  "other_order_snapshot =
     \<lparr>bs_positions = [],
      bs_orders = [\<lparr>bo_id = ''ORD-2'', bo_state = ''PLACED'', bo_symbol = None, bo_order_type = None, bo_volume = None,
                    bo_price = None, bo_timestamps = None\<rparr>]\<rparr>"

lemma absent_order_beside_unmapped_order:
  "oc_result (classify (\<lambda>v. []) [] [new_order ''ORD-1''] other_order_snapshot) = RR_ADOPTED_BROKER"
  by code_simp

theorem classify_covers_all_entities_witness:
  "set (map diff_key (oc_diffs (classify (\<lambda>v. []) [new_position ''POS-1''] [new_order ''ORD-1''] flat_snapshot)))
    = {(''POSITION'', ''POS-1''), (''ORDER'', ''ORD-1'')}"
  using classify_covers_all_entities
    [of "[new_position ''POS-1'']" "[new_order ''ORD-1'']" flat_snapshot "\<lambda>v. []"]
  by (auto simp: flat_snapshot_def new_position_def new_order_def)

theorem reconcile_writes_only_its_records_witness:
  "rp_disk (snd (run_reconcile sample_rc_env sample_run_clock STARTUP (Inr flat_snapshot) sample_repo)) ''positions''
    = rp_disk sample_repo ''positions''"
  by (rule reconcile_writes_only_its_records) (simp add: reconciliation_tables_def)

definition sample_cycle :: "pyfloat \<Rightarrow> cycle" where
  "sample_cycle now = \<lparr>cy_now = now, cy_clock = sample_run_clock, cy_snapshot = Inl ''down''\<rparr>"

definition sample_cycles :: "cycle list" where
  "sample_cycles = map (\<lambda>k. sample_cycle (Fin (of_nat k))) [59, 60, 61]"

definition sample_rec_runner :: rec_runner where
  "sample_rec_runner = new_rec_runner (sample_repo\<lparr>rp_open := False\<rparr>) (Fin 60)"

lemma sample_heartbeats:
  "case rec_start sample_rc_env (sample_cycle (Fin 0)) sample_rec_runner of (z, q) \<Rightarrow>
    (case z of Inl e \<Rightarrow> False | Inr st \<Rightarrow> heartbeat_times sample_rc_env sample_cycles q = [Fin 60])"
  by code_simp

theorem heartbeats_are_spaced_witness:
  "\<exists>st q. rec_start sample_rc_env (sample_cycle (Fin 0)) sample_rec_runner = (Inr st, q)
     \<and> heartbeat_times sample_rc_env sample_cycles q = [Fin 60] \<and> spaced (Fin 60) [Fin 0, Fin 60]"
proof -
  obtain st q where run: "rec_start sample_rc_env (sample_cycle (Fin 0)) sample_rec_runner = (Inr st, q)"
    and times: "heartbeat_times sample_rc_env sample_cycles q = [Fin 60]"
    using sample_heartbeats by (auto split: prod.splits sum.splits)
  have interval: "fmax (Fin 60) (flit 5 2) = Fin 60" by code_simp
  from heartbeats_are_spaced [OF run [unfolded sample_rec_runner_def], of sample_cycles]
  have "spaced (Fin 60) [Fin 0, Fin 60]" unfolding times interval by (simp add: sample_cycle_def)
  then show ?thesis using run times by blast
qed

lemma sample_first_run:
  "case run_reconcile sample_rc_env sample_run_clock STARTUP (Inr flat_snapshot) sample_repo of
     (z, r') \<Rightarrow> (case z of Inl e \<Rightarrow> False | Inr st \<Rightarrow> rs_latest_result st = Some ''SYNCED'')"
  by code_simp

theorem repeated_run_is_skipped_witness:
  "\<exists>st r' st'. run_reconcile sample_rc_env sample_run_clock STARTUP (Inr flat_snapshot) sample_repo = (Inr st, r')
     \<and> run_reconcile sample_rc_env sample_run_clock STARTUP (Inr flat_snapshot) r' = (Inr st', r')
     \<and> rs_skipped_identical st' = 1 \<and> rs_latest_result st' = Some ''SYNCED''"
proof -
  obtain st r' where run: "run_reconcile sample_rc_env sample_run_clock STARTUP (Inr flat_snapshot) sample_repo = (Inr st, r')"
    and "rs_latest_result st = Some ''SYNCED''"
    using sample_first_run by (auto split: prod.splits sum.splits)
  then show ?thesis
    using repeated_run_is_skipped [OF run, of sample_run_clock] by (auto simp: sample_repo_def has_key_def)
qed

text \<open>SYNCED was recorded first, then an escalation; now the state is flat again.\<close>

definition sample_escalated_run :: run_record where
  "sample_escalated_run =
     \<lparr>ru_reconciliation_id = sample_id (CHR ''7''), ru_trigger = ''STARTUP'', ru_signature = ''other'',
      ru_result = ''ESCALATED'', ru_action = ''ESCALATE'', ru_mismatch = True, ru_run_ts = ''2026-08-17T10:04:00.000Z''\<rparr>"

definition sample_synced_run :: run_record where
  "sample_synced_run =
     \<lparr>ru_reconciliation_id = sample_id (CHR ''5''), ru_trigger = ''STARTUP'', ru_signature = replicate 64 (CHR ''a''),
      ru_result = ''SYNCED'', ru_action = ''NONE'', ru_mismatch = False, ru_run_ts = ''2026-08-17T10:03:00.000Z''\<rparr>"

definition sample_after_escalation :: repo where
  "sample_after_escalation = sample_repo\<lparr>rp_disk :=
     (\<lambda>t. if t = ''reconciliation_runs'' then [run_row sample_synced_run, run_row sample_escalated_run] else [])\<rparr>"

lemma sample_return:
  "case run_reconcile sample_rc_env sample_run_clock STARTUP (Inr flat_snapshot) sample_after_escalation of
     (z, r') \<Rightarrow> (case z of Inl e \<Rightarrow> False | Inr st \<Rightarrow> rs_latest_result st = Some ''SYNCED'')"
  by code_simp

lemma sample_latest: "read_latest_reconciliation_run (rp_disk sample_after_escalation) = Some sample_escalated_run"
  by code_simp

theorem returning_state_leaves_shadow_stale_witness:
  "\<exists>st r'. run_reconcile sample_rc_env sample_run_clock STARTUP (Inr flat_snapshot) sample_after_escalation = (Inr st, r')
     \<and> rs_latest_result st = Some ''SYNCED'' \<and> shadow_of (rp_disk r') = SH_ESCALATED"
proof -
  obtain st r' where run: "run_reconcile sample_rc_env sample_run_clock STARTUP (Inr flat_snapshot) sample_after_escalation = (Inr st, r')"
    and result: "rs_latest_result st = Some ''SYNCED''"
    using sample_return by (auto split: prod.splits sum.splits)
  have sig: "signature_on sample_rc_env STARTUP d s = replicate 64 (CHR ''a'')" for d s
    by (simp add: signature_on_def signature_def sample_rc_env_def sample_db_env_def)
  have other: "\<not> identical_run (read_latest_reconciliation_run (rp_disk sample_after_escalation))
      (signature_on sample_rc_env STARTUP (rp_disk sample_after_escalation) flat_snapshot)
      (outcome_on sample_rc_env (rp_disk sample_after_escalation) flat_snapshot)"
    unfolding sample_latest sig by (simp add: identical_run_def sample_escalated_run_def numeral_eq_Suc)
  have taken: "has_key ''reconciliation_id''
      (SqlText (reconciliation_id sample_rc_env (signature_on sample_rc_env STARTUP (rp_disk sample_after_escalation) flat_snapshot)))
      (rp_disk sample_after_escalation ''reconciliation_runs'')"
    by (simp add: has_key_def sample_after_escalation_def run_row_key reconciliation_id_def sample_rc_env_def
      sample_synced_run_def)
  have "rp_work sample_after_escalation = None" by (simp add: sample_after_escalation_def sample_repo_def)
  from returning_state_leaves_shadow_stale [OF run this other taken]
  have "shadow_of (rp_disk r') = shadow_of (rp_disk sample_after_escalation)" by blast
  also have "\<dots> = SH_ESCALATED"
    unfolding shadow_of_def sample_latest by (simp add: sample_escalated_run_def shadow_state_for_def)
  finally show ?thesis using run result by blast
qed

end
