(* ===== verification/InReader.thy ===== *)
theory InReader
  imports Prelude
begin

text \<open>
  The incremental line reader: \<open>src/collector/adapters/reader.py\<close>. A file is seen as one poll sees it:
  \<open>None\<close> when \<open>stat\<close> fails, otherwise its identity, its size and the bytes a read of it gives (\<open>None\<close> when
  the read fails), which may be more than the size that \<open>stat\<close> reported. Bytes are characters.

  The lemmas show that a reader neither drops nor repeats a byte of an append-only file, over any number
  of polls and from any line boundary, and what a second poll of an unchanged file does.
\<close>

section \<open>Lines\<close>

definition newline :: char where
  "newline = CHR 0x0A"

record raw_line =
  ln_data :: string
  ln_start_offset :: nat

definition end_offset :: "raw_line \<Rightarrow> nat" where
  "end_offset l = ln_start_offset l + length (ln_data l)"

text \<open>\<open>buffer.split(b"\n")\<close>, and \<open>buffer.rsplit(b"\n", 1)\<close> (\<open>None\<close> when there is no newline).\<close>

fun split_newline :: "string \<Rightarrow> string list" where
  "split_newline [] = [[]]"
| "split_newline (c # cs) =
     (if c = newline then [] # split_newline cs
      else (case split_newline cs of [] \<Rightarrow> [[c]] | w # ws \<Rightarrow> (c # w) # ws))"

definition rsplit_newline :: "string \<Rightarrow> (string \<times> string) option" where
  "rsplit_newline s =
     (if newline \<in> set s then
        (let tail = rev (takeWhile (\<lambda>c. c \<noteq> newline) (rev s)) in
         Some (take (length s - length tail - 1) s, tail))
      else None)"

fun frame_lines :: "nat \<Rightarrow> string list \<Rightarrow> raw_line list" where
  "frame_lines cursor [] = []"
| "frame_lines cursor (f # fs) =
     \<lparr>ln_data = f, ln_start_offset = cursor\<rparr> # frame_lines (cursor + length f + 1) fs"

section \<open>The reader\<close>

record poll_result =
  pr_lines :: "raw_line list"
  pr_offset :: nat
  pr_held_partial :: bool
  pr_rotation :: bool
  pr_unavailable :: bool
  pr_reads :: nat

record reader =
  rd_offset :: nat
  rd_partial :: string
  rd_identity :: "(nat \<times> nat) option"
  rd_gap :: bool

record source_stat =
  fs_identity :: "nat \<times> nat"
  fs_size :: nat
  fs_read :: "string option"

definition new_reader :: "int \<Rightarrow> reader" where
  "new_reader start = \<lparr>rd_offset = nat (max start 0), rd_partial = [], rd_identity = None, rd_gap = False\<rparr>"

definition holds_partial :: "reader \<Rightarrow> bool" where
  "holds_partial r \<longleftrightarrow> rd_partial r \<noteq> []"

definition reset_reader :: "reader \<Rightarrow> reader" where
  "reset_reader r = r\<lparr>rd_offset := 0, rd_partial := [], rd_identity := None, rd_gap := False\<rparr>"

text \<open>The three signs of a rotation: a gap, a new identity, a size below the cursor.\<close>

definition is_rotation :: "reader \<Rightarrow> source_stat \<Rightarrow> bool" where
  "is_rotation r f \<longleftrightarrow>
     rd_identity r \<noteq> None \<and> rd_gap r
     \<or> rd_identity r \<noteq> None \<and> rd_identity r \<noteq> Some (fs_identity f)
     \<or> fs_size f < rd_offset r"

definition nothing_read :: "reader \<Rightarrow> bool \<Rightarrow> bool \<Rightarrow> poll_result" where
  "nothing_read r rotation unavailable =
     \<lparr>pr_lines = [], pr_offset = rd_offset r, pr_held_partial = holds_partial r, pr_rotation = rotation,
      pr_unavailable = unavailable, pr_reads = 0\<rparr>"

definition frame_buffer :: "string \<Rightarrow> string list \<times> string" where
  "frame_buffer buffer =
     (if buffer \<noteq> [] \<and> last buffer = newline then (butlast (split_newline buffer), [])
      else
        (case rsplit_newline buffer of
           None \<Rightarrow> ([], buffer)
         | Some (before, tail) \<Rightarrow> ([before], tail)))"

definition take_chunk :: "reader \<Rightarrow> string \<Rightarrow> bool \<Rightarrow> poll_result \<times> reader" where
  "take_chunk r chunk rotation =
     (case frame_buffer (rd_partial r @ chunk) of (frames, new_partial) \<Rightarrow>
        (let new_offset = rd_offset r + length (rd_partial r) + length chunk - length new_partial;
             r' = r\<lparr>rd_partial := new_partial, rd_offset := new_offset\<rparr> in
         (\<lparr>pr_lines = frame_lines (rd_offset r) frames, pr_offset = new_offset,
           pr_held_partial = holds_partial r', pr_rotation = rotation, pr_unavailable = False,
           pr_reads = length chunk\<rparr>, r')))"

definition poll :: "source_stat option \<Rightarrow> reader \<Rightarrow> poll_result \<times> reader" where
  "poll source r =
     (case source of
        None \<Rightarrow>
          (\<lparr>pr_lines = [], pr_offset = rd_offset r, pr_held_partial = False, pr_rotation = False,
            pr_unavailable = True, pr_reads = 0\<rparr>, r\<lparr>rd_gap := True\<rparr>)
      | Some f \<Rightarrow>
          (let rotation = is_rotation r f;
               r1 = (if rotation then reset_reader r else r)\<lparr>rd_identity := Some (fs_identity f), rd_gap := False\<rparr> in
           if fs_size f \<le> rd_offset r1 then (nothing_read r1 rotation False, r1)
           else
             (case fs_read f of
                None \<Rightarrow> (nothing_read r1 rotation True, r1)
              | Some content \<Rightarrow>
                  (let chunk = drop (rd_offset r1 + length (rd_partial r1)) content in
                   if chunk = [] then (nothing_read r1 rotation False, r1)
                   else take_chunk r1 chunk rotation))))"

fun polls :: "source_stat option list \<Rightarrow> reader \<Rightarrow> poll_result list \<times> reader" where
  "polls [] r = ([], r)"
| "polls (s # ss) r =
     (case poll s r of (p, r') \<Rightarrow> (case polls ss r' of (ps, r'') \<Rightarrow> (p # ps, r'')))"

section \<open>Splitting and joining\<close>

definition join_lines :: "string list \<Rightarrow> string" where
  "join_lines fs = concat (map (\<lambda>f. f @ [newline]) fs)"

lemma join_lines_simps [simp]:
  "join_lines [] = []"
  "join_lines (f # fs) = f @ newline # join_lines fs"
  "join_lines (fs @ gs) = join_lines fs @ join_lines gs"
  by (simp_all add: join_lines_def)

lemma split_newline_not_Nil [simp]: "split_newline s \<noteq> []"
  by (induction s) (auto split: list.splits)

lemma split_newline_join: "join_lines (butlast (split_newline s)) @ last (split_newline s) = s"
  by (induction s) (auto split: list.splits)

lemma split_newline_free: "f \<in> set (split_newline s) \<Longrightarrow> newline \<notin> set f"
  by (induction s arbitrary: f) (auto split: list.splits if_splits)

lemma split_newline_end: "split_newline (s @ [newline]) = split_newline s @ [[]]"
  by (induction s) (auto split: list.splits)

lemma last_split_newline: "last (split_newline (s @ [newline])) = []"
  by (simp add: split_newline_end)

lemma rsplit_newline_join:
  assumes "rsplit_newline s = Some (before, tail)"
  shows "before @ newline # tail = s" and "newline \<notin> set tail"
proof -
  let ?w = "takeWhile (\<lambda>c. c \<noteq> newline) (rev s)"
  have nl: "newline \<in> set s" and tail: "tail = rev ?w" and before: "before = take (length s - length tail - 1) s"
    using assms by (auto simp: rsplit_newline_def Let_def split: if_splits)
  obtain a where d: "dropWhile (\<lambda>c. c \<noteq> newline) (rev s) = newline # a"
  proof (cases "dropWhile (\<lambda>c. c \<noteq> newline) (rev s)")
    case Nil
    then have "newline \<notin> set s" by (auto simp: dropWhile_eq_Nil_conv)
    then show ?thesis using nl by simp
  next
    case (Cons c cs)
    then show ?thesis using hd_dropWhile [of "\<lambda>c. c \<noteq> newline" "rev s"] that by auto
  qed
  have "rev s = ?w @ newline # a" using d by (metis takeWhile_dropWhile_id)
  then have s: "s = rev a @ newline # tail" unfolding tail by (metis append.assoc append_Cons append_Nil rev.simps(2) rev_append rev_rev_ident)
  then have "before = rev a" unfolding before by simp
  then show "before @ newline # tail = s" using s by simp
  show "newline \<notin> set tail" unfolding tail by (auto dest: set_takeWhileD)
qed

lemma frame_buffer_join:
  assumes "frame_buffer buffer = (frames, partial)"
  shows "join_lines frames @ partial = buffer" and "newline \<notin> set partial"
proof -
  have "join_lines frames @ partial = buffer \<and> newline \<notin> set partial"
  proof (cases "buffer \<noteq> [] \<and> last buffer = newline")
    case True
    then have b: "buffer = butlast buffer @ [newline]" by (metis append_butlast_last_id)
    then have "last (split_newline buffer) = []" by (metis last_split_newline)
    then show ?thesis using assms True split_newline_join [of buffer] by (auto simp: frame_buffer_def)
  next
    case False
    show ?thesis
    proof (cases "rsplit_newline buffer")
      case None
      then have "frames = [] \<and> partial = buffer" using assms False by (auto simp: frame_buffer_def)
      then show ?thesis using None by (auto simp: rsplit_newline_def Let_def split: if_splits)
    next
      case (Some bt)
      obtain b t where bt: "bt = (b, t)" by fastforce
      have "frames = [b] \<and> partial = t" using assms False Some bt by (auto simp: frame_buffer_def)
      then show ?thesis using rsplit_newline_join [of buffer b t] Some bt by simp
    qed
  qed
  then show "join_lines frames @ partial = buffer" and "newline \<notin> set partial" by auto
qed

lemma frame_lines_data [simp]: "map ln_data (frame_lines n fs) = fs"
  by (induction n fs rule: frame_lines.induct) auto

lemma frame_lines_append: "frame_lines n (fs @ gs) = frame_lines n fs @ frame_lines (n + length (join_lines fs)) gs"
  by (induction n fs rule: frame_lines.induct) (simp_all add: add.assoc)

section \<open>An append-only file\<close>

text \<open>The views that successive polls have of one file that only grows beyond \<open>seen\<close>; reads may fail.\<close>

fun append_only :: "nat \<times> nat \<Rightarrow> string \<Rightarrow> source_stat list \<Rightarrow> bool" where
  "append_only i seen [] \<longleftrightarrow> True"
| "append_only i seen (f # fs) \<longleftrightarrow>
     fs_identity f = i \<and> length seen \<le> fs_size f
     \<and> (case fs_read f of
          None \<Rightarrow> append_only i seen fs
        | Some c \<Rightarrow> prefix seen c \<and> fs_size f \<le> length c \<and> append_only i c fs)"

text \<open>What the last successful read saw.\<close>

fun content_after :: "string \<Rightarrow> source_stat list \<Rightarrow> string" where
  "content_after seen [] = seen"
| "content_after seen (f # fs) = content_after (case fs_read f of None \<Rightarrow> seen | Some c \<Rightarrow> c) fs"

text \<open>A reader that has taken in exactly \<open>seen\<close> of file \<open>i\<close>.\<close>

definition has_seen :: "nat \<times> nat \<Rightarrow> string \<Rightarrow> reader \<Rightarrow> bool" where
  "has_seen i seen r \<longleftrightarrow>
     rd_offset r \<le> length seen \<and> rd_partial r = drop (rd_offset r) seen \<and> \<not> rd_gap r
     \<and> rd_identity r \<in> {None, Some i}"

lemma has_seen_offset: "has_seen i seen r \<Longrightarrow> rd_offset r + length (rd_partial r) = length seen"
  by (simp add: has_seen_def)

lemma has_seen_append: "has_seen i seen r \<Longrightarrow> take (rd_offset r) seen @ rd_partial r = seen"
  by (simp add: has_seen_def)

lemma no_rotation: "has_seen i seen r \<Longrightarrow> fs_identity f = i \<Longrightarrow> length seen \<le> fs_size f \<Longrightarrow> \<not> is_rotation r f"
  by (auto simp: has_seen_def is_rotation_def)

lemma poll_same_stream:
  assumes "\<not> is_rotation r f"
  defines "r1 \<equiv> r\<lparr>rd_identity := Some (fs_identity f), rd_gap := False\<rparr>"
  shows "poll (Some f) r =
    (if fs_size f \<le> rd_offset r then (nothing_read r1 False False, r1)
     else
       (case fs_read f of
          None \<Rightarrow> (nothing_read r1 False True, r1)
        | Some content \<Rightarrow>
            if drop (rd_offset r + length (rd_partial r)) content = [] then (nothing_read r1 False False, r1)
            else take_chunk r1 (drop (rd_offset r + length (rd_partial r)) content) False))"
  using assms(1) by (simp add: poll_def r1_def Let_def split: option.split)

text \<open>One poll: either nothing new was read, or everything was.\<close>

lemma poll_step:
  assumes seen: "has_seen i seen r" and i: "fs_identity f = i" and size: "length seen \<le> fs_size f"
    and read: "\<And>c. fs_read f = Some c \<Longrightarrow> prefix seen c \<and> fs_size f \<le> length c"
    and poll: "poll (Some f) r = (p, r')"
  shows "\<exists>now. has_seen i now r' \<and> prefix seen now
    \<and> (now = seen \<or> fs_read f = Some now)
    \<and> (\<forall>c. fs_read f = Some c \<longrightarrow> fs_size f = length c \<longrightarrow> now = c)
    \<and> pr_lines p = frame_lines (rd_offset r) (map ln_data (pr_lines p))
    \<and> take (rd_offset r) seen @ join_lines (map ln_data (pr_lines p)) @ rd_partial r' = now
    \<and> rd_offset r' = rd_offset r + length (join_lines (map ln_data (pr_lines p)))
    \<and> \<not> pr_rotation p"
proof -
  define r1 where "r1 = r\<lparr>rd_identity := Some i, rd_gap := False\<rparr>"
  have seen1: "has_seen i seen r1" and off1: "rd_offset r1 = rd_offset r" "rd_partial r1 = rd_partial r"
    using seen by (simp_all add: r1_def has_seen_def)
  note rot = no_rotation [OF seen i size]
  note off = has_seen_offset [OF seen] and app = has_seen_append [OF seen]
  have quiet: ?thesis if "r' = r1 \<and> pr_lines p = [] \<and> \<not> pr_rotation p"
      "\<And>c. fs_read f = Some c \<Longrightarrow> fs_size f = length c \<Longrightarrow> c = seen"
    using that seen1 off1 app by (intro exI [of _ seen]) auto
  note step = poll [unfolded poll_same_stream [OF rot] i, folded r1_def]
  consider (old) "fs_size f \<le> rd_offset r" | (failed) "\<not> fs_size f \<le> rd_offset r" "fs_read f = None"
    | (same) c where "\<not> fs_size f \<le> rd_offset r" "fs_read f = Some c" "drop (length seen) c = []"
    | (new) c where "\<not> fs_size f \<le> rd_offset r" "fs_read f = Some c" "drop (length seen) c \<noteq> []"
    by (cases "fs_read f") blast+
  then show ?thesis
  proof cases
    case old
    have "c = seen" if c: "fs_read f = Some c" "fs_size f = length c" for c
    proof -
      have "prefix seen c" and "length c \<le> length seen" using read [OF c(1)] c(2) old off by auto
      then show ?thesis by (auto simp: prefix_def)
    qed
    moreover have "r' = r1 \<and> pr_lines p = [] \<and> \<not> pr_rotation p"
      using step old by (auto simp: nothing_read_def)
    ultimately show ?thesis using quiet by blast
  next
    case failed
    then have "r' = r1 \<and> pr_lines p = [] \<and> \<not> pr_rotation p" using step by (auto simp: nothing_read_def)
    then show ?thesis using quiet failed by simp
  next
    case same
    have "c = seen" using read [OF same(2)] same(3) by (auto simp: prefix_def)
    moreover have "r' = r1 \<and> pr_lines p = [] \<and> \<not> pr_rotation p"
      using step same off by (auto simp: nothing_read_def)
    ultimately show ?thesis using quiet same by simp
  next
    case new
    obtain chunk where c: "c = seen @ chunk" using read [OF new(2)] by (auto simp: prefix_def)
    obtain frames partial where fb: "frame_buffer (rd_partial r @ chunk) = (frames, partial)" by fastforce
    note join = frame_buffer_join(1) [OF fb]
    have len: "length (rd_partial r) + length chunk = length (join_lines frames) + length partial"
      by (metis join length_append)
    have p: "pr_lines p = frame_lines (rd_offset r) frames" "\<not> pr_rotation p"
      and r': "r' = r1\<lparr>rd_partial := partial, rd_offset := rd_offset r + length (join_lines frames)\<rparr>"
      using step new off off1 c len by (auto simp: take_chunk_def fb Let_def)
    have "take (rd_offset r) seen @ join_lines frames @ partial = c" using app join c by (metis append.assoc)
    moreover have "has_seen i c r'"
      using seen calculation by (auto simp: has_seen_def r' r1_def)
    ultimately show ?thesis
      using p r' c new by (intro exI [of _ c]) auto
  qed
qed

lemma append_only_prefix: "prefix seen' seen \<Longrightarrow> append_only i seen fs \<Longrightarrow> append_only i seen' fs"
  by (induction fs arbitrary: seen' seen) (fastforce split: option.splits dest: prefix_length_le intro: prefix_order.trans)+

lemma content_after_grows: "append_only i seen fs \<Longrightarrow> prefix seen (content_after seen fs)"
  by (induction fs arbitrary: seen) (auto split: option.splits intro: prefix_order.trans)

text \<open>Any number of polls.\<close>

lemma polls_from:
  assumes "has_seen i seen r" and "append_only i known fs" and "prefix seen known"
    and "polls (map Some fs) r = (ps, r')"
  shows "\<exists>now ls. has_seen i now r' \<and> ls = concat (map pr_lines ps)
    \<and> ls = frame_lines (rd_offset r) (map ln_data ls)
    \<and> take (rd_offset r) seen @ join_lines (map ln_data ls) @ rd_partial r' = now
    \<and> rd_offset r' = rd_offset r + length (join_lines (map ln_data ls))
    \<and> prefix seen now \<and> prefix now (content_after known fs) \<and> (\<forall>p \<in> set ps. \<not> pr_rotation p)
    \<and> (fs \<noteq> [] \<longrightarrow> (\<forall>c. fs_read (last fs) = Some c \<longrightarrow> fs_size (last fs) = length c \<longrightarrow> now = c))"
  using assms
proof (induction fs arbitrary: seen known r ps)
  case Nil
  then show ?case by (auto simp: has_seen_append)
next
  case (Cons f fs)
  obtain p r1 where p: "poll (Some f) r = (p, r1)" by fastforce
  obtain ps' where ps': "polls (map Some fs) r1 = (ps', r')" and ps: "ps = p # ps'"
    using Cons.prems(4) p by (auto split: prod.splits)
  have f: "fs_identity f = i" "length seen \<le> fs_size f"
    and read: "\<And>c. fs_read f = Some c \<Longrightarrow> prefix known c \<and> prefix seen c \<and> fs_size f \<le> length c"
    using Cons.prems(2,3) prefix_length_le [OF Cons.prems(3)]
    by (auto split: option.splits intro: prefix_order.trans)
  obtain now where now: "has_seen i now r1" "prefix seen now" "now = seen \<or> fs_read f = Some now"
      "\<And>c. fs_read f = Some c \<Longrightarrow> fs_size f = length c \<Longrightarrow> now = c"
    and l: "pr_lines p = frame_lines (rd_offset r) (map ln_data (pr_lines p))"
    and j: "take (rd_offset r) seen @ join_lines (map ln_data (pr_lines p)) @ rd_partial r1 = now"
    and o: "rd_offset r1 = rd_offset r + length (join_lines (map ln_data (pr_lines p)))" and "\<not> pr_rotation p"
    using poll_step [OF Cons.prems(1) f _ p] read by blast
  define known' where "known' = (case fs_read f of None \<Rightarrow> known | Some c \<Rightarrow> c)"
  have ao: "append_only i known' fs" and "prefix now known'"
    using Cons.prems(2,3) now(2,3) read by (auto simp: known'_def split: option.splits)
  from Cons.IH [OF now(1) this ps'] obtain now' ls where
    n': "has_seen i now' r'" "prefix now now'" "prefix now' (content_after known' fs)"
      "\<forall>p \<in> set ps'. \<not> pr_rotation p"
      "fs \<noteq> [] \<longrightarrow> (\<forall>c. fs_read (last fs) = Some c \<longrightarrow> fs_size (last fs) = length c \<longrightarrow> now' = c)"
    and ls: "ls = concat (map pr_lines ps')" "ls = frame_lines (rd_offset r1) (map ln_data ls)"
    and j': "take (rd_offset r1) now @ join_lines (map ln_data ls) @ rd_partial r' = now'"
    and o': "rd_offset r' = rd_offset r1 + length (join_lines (map ln_data ls))"
    by blast
  let ?all = "pr_lines p @ ls"
  have "take (rd_offset r1) now = take (rd_offset r) seen @ join_lines (map ln_data (pr_lines p))"
  proof -
    have "rd_offset r \<le> length seen" using Cons.prems(1) by (simp add: has_seen_def)
    then show ?thesis unfolding o j [symmetric] by simp
  qed
  then have join: "take (rd_offset r) seen @ join_lines (map ln_data ?all) @ rd_partial r' = now'"
    using j' by simp
  have frame: "?all = frame_lines (rd_offset r) (map ln_data ?all)"
    using l ls(2) o by (simp add: frame_lines_append)
  have "now' = c" if "fs_read (last (f # fs)) = Some c" "fs_size (last (f # fs)) = length c" for c
  proof (cases "fs = []")
    case True
    have "prefix now' now" using n'(3) True ao now(4) that \<open>prefix now known'\<close> by (auto simp: known'_def)
    then show ?thesis using n'(2) now(4) that True by (auto dest: prefix_order.antisym)
  qed (use n'(5) that in auto)
  then show ?case
    using n' join frame o o' ps ls(1) now(2) \<open>\<not> pr_rotation p\<close> prefix_order.trans [OF now(2) n'(2)]
    by (intro exI [of _ now'] exI [of _ ?all]) (simp add: known'_def)
qed

lemma take_chunk_end:
  assumes "take_chunk r chunk rot = (p, r')"
  shows "rd_offset r' + length (rd_partial r') = rd_offset r + length (rd_partial r) + length chunk"
    and "rd_identity r' = rd_identity r \<and> rd_gap r' = rd_gap r"
proof -
  obtain frames partial where fb: "frame_buffer (rd_partial r @ chunk) = (frames, partial)" by fastforce
  have "length partial \<le> length (rd_partial r) + length chunk"
    using frame_buffer_join(1) [OF fb] by (metis le_add2 length_append)
  then show "rd_offset r' + length (rd_partial r') = rd_offset r + length (rd_partial r) + length chunk"
    and "rd_identity r' = rd_identity r \<and> rd_gap r' = rd_gap r"
    using assms by (auto simp: take_chunk_def fb Let_def)
qed

text \<open>A file that has not changed since it was read gives nothing more.\<close>

lemma poll_again:
  assumes "poll (Some f) r = (p, r')" and "fs_read f = Some c" and "fs_size f = length c"
  shows "pr_lines (fst (poll (Some f) r')) = [] \<and> snd (poll (Some f) r') = r'
    \<and> \<not> pr_rotation (fst (poll (Some f) r')) \<and> \<not> pr_unavailable (fst (poll (Some f) r'))"
proof -
  define r1 where "r1 = (if is_rotation r f then reset_reader r else r)\<lparr>rd_identity := Some (fs_identity f), rd_gap := False\<rparr>"
  have r1: "rd_identity r1 = Some (fs_identity f)" "\<not> rd_gap r1" "rd_offset r1 \<le> length c"
    using assms(3) by (auto simp: r1_def reset_reader_def is_rotation_def)
  have upd: "x\<lparr>rd_identity := Some (fs_identity f), rd_gap := False\<rparr> = x"
    if "rd_identity x = Some (fs_identity f)" "\<not> rd_gap x" for x :: reader
    using that by (cases x) simp
  let ?chunk = "drop (rd_offset r1 + length (rd_partial r1)) c"
  consider (still) "r' = r1" "fs_size f \<le> rd_offset r1 \<or> ?chunk = []"
    | (read) "take_chunk r1 ?chunk (is_rotation r f) = (p, r')" "?chunk \<noteq> []"
    using assms(1,2) by (auto simp: poll_def Let_def r1_def split: if_splits)
  then have "rd_identity r' = Some (fs_identity f) \<and> \<not> rd_gap r' \<and> rd_offset r' \<le> length c
      \<and> (fs_size f \<le> rd_offset r' \<or> drop (rd_offset r' + length (rd_partial r')) c = [])"
  proof cases
    case still
    then show ?thesis using r1 by simp
  next
    case read
    then show ?thesis using take_chunk_end [OF read(1)] r1 by auto
  qed
  then show ?thesis
    using assms(2,3) upd [of r'] by (auto simp: poll_same_stream is_rotation_def nothing_read_def)
qed

end
