(* ===== verification/InNormalize.thy ===== *)
theory InNormalize
  imports EvSpecs
begin

text \<open>
  Normalization of raw bridge lines: \<open>src/collector/adapters/normalize.py\<close> and the line errors of
  \<open>errors.py\<close>. A raw line is the value \<open>json.loads\<close> makes of its text, \<open>None\<close> for a \<open>JSONDecodeError\<close>.
  \<open>Invalid_line\<close> is \<open>InvalidLineError\<close>; \<open>Line_overflow\<close> is the \<open>OverflowError\<close> that \<open>int\<close> raises for an
  infinity and \<open>float\<close> for an integer beyond its range, which \<open>_coerce_number\<close> does not catch.
\<close>

datatype invalid_reason =
    Malformed_json
  | Not_an_object
  | Missing_event_type
  | Bad_ts_bridge
  | Bad_payload
  | Not_an_integer string
  | Not_numeric string

datatype line_error = Invalid_line invalid_reason | Line_overflow

definition bridge_internal_types :: "string list" where
  "bridge_internal_types = [''HEARTBEAT'', ''POSITION_SNAPSHOT'', ''ORDER_SNAPSHOT'']"

text \<open>\<open>_TS_EVENT_FIELD_BY_TYPE.get(event_type)\<close>.\<close>

fun ts_event_field :: "event_type \<Rightarrow> string option" where
  "ts_event_field TICK_RECEIVED = Some ''ts_source''"
| "ts_event_field ORDER_ACKNOWLEDGED = Some ''ack_ts''"
| "ts_event_field ORDER_FILLED = Some ''fill_ts''"
| "ts_event_field POSITION_OPENED = Some ''open_ts''"
| "ts_event_field POSITION_CLOSED = Some ''exit_fill_ts''"
| "ts_event_field t = None"

datatype raw_line_kind = RL_CANONICAL | RL_INTERNAL | RL_UNKNOWN

record normalized_line =
  nl_kind :: raw_line_kind
  nl_event_type :: "event_type option"
  nl_payload :: "pydict option"
  nl_ts_bridge :: "string option"
  nl_ts_event :: "string option"
  nl_code :: "string option"

definition parse_raw_line :: "pyval option \<Rightarrow> line_error + pydict" where
  "parse_raw_line parsed =
     (case parsed of
        None \<Rightarrow> Inl (Invalid_line Malformed_json)
      | Some (PDict d) \<Rightarrow> Inr d
      | Some v \<Rightarrow> Inl (Invalid_line Not_an_object))"

section \<open>Numbers\<close>

text \<open>\<open>int(x)\<close> truncates a float towards zero; a NaN is a \<open>ValueError\<close>, an infinity an \<open>OverflowError\<close>.\<close>

definition trunc_rat :: "rat \<Rightarrow> int" where
  "trunc_rat q = (if 0 \<le> q then \<lfloor>q\<rfloor> else - \<lfloor>- q\<rfloor>)"

fun coerce_int :: "string \<Rightarrow> pyval \<Rightarrow> line_error + pyval" where
  "coerce_int k (PBool b) = Inr (PInt (if b then 1 else 0))"
| "coerce_int k (PInt i) = Inr (PInt i)"
| "coerce_int k (PFloat (Fin q)) = Inr (PInt (trunc_rat q))"
| "coerce_int k (PFloat NaN) = Inl (Invalid_line (Not_an_integer k))"
| "coerce_int k (PFloat x) = Inl Line_overflow"
| "coerce_int k (PStr s) =
     (case parse_int s of None \<Rightarrow> Inl (Invalid_line (Not_an_integer k)) | Some i \<Rightarrow> Inr (PInt i))"
| "coerce_int k v = Inl (Invalid_line (Not_an_integer k))"

fun coerce_float :: "string \<Rightarrow> pyval \<Rightarrow> line_error + pyval" where
  "coerce_float k (PInt i) = (let x = of_int_f i in if is_finite x then Inr (PFloat x) else Inl Line_overflow)"
| "coerce_float k v =
     (case py_float v of None \<Rightarrow> Inl (Invalid_line (Not_numeric k)) | Some x \<Rightarrow> Inr (PFloat x))"

definition coerce_number :: "type_token \<Rightarrow> pyval \<Rightarrow> string \<Rightarrow> line_error + pyval" where
  "coerce_number t v k = (if t = T_int then coerce_int k v else coerce_float k v)"

section \<open>Payloads\<close>

definition token_of :: "payload_spec \<Rightarrow> string \<Rightarrow> type_token" where
  "token_of spec k = (case map_of (ps_types spec) k of None \<Rightarrow> T_str | Some t \<Rightarrow> t)"

definition normalize_value :: "payload_spec \<Rightarrow> string \<Rightarrow> pyval \<Rightarrow> line_error + pyval" where
  "normalize_value spec k v =
     (if token_of spec k \<in> {T_number, T_int} then coerce_number (token_of spec k) v k else Inr v)"

text \<open>The loop over the fields, with the two dictionaries built so far.\<close>

fun normalize_fields :: "payload_spec \<Rightarrow> pydict \<Rightarrow> pydict \<Rightarrow> pydict \<Rightarrow> line_error + pydict \<times> pydict" where
  "normalize_fields spec [] normalized unknown = Inr (normalized, unknown)"
| "normalize_fields spec ((k, v) # raw) normalized unknown =
     (if v = PNone then normalize_fields spec raw normalized unknown
      else if k \<in> set (ps_optional spec) \<or> k \<in> set (ps_required spec) then
        (case normalize_value spec k v of
           Inl e \<Rightarrow> Inl e
         | Inr w \<Rightarrow> normalize_fields spec raw (dset k w normalized) unknown)
      else normalize_fields spec raw normalized (dset k v unknown))"

definition normalize_bridge_payload :: "event_type \<Rightarrow> pydict \<Rightarrow> line_error + pydict" where
  "normalize_bridge_payload t raw =
     (case normalize_fields (get_spec t) raw [] [] of
        Inl e \<Rightarrow> Inl e
      | Inr (normalized, unknown) \<Rightarrow>
          Inr (if unknown \<noteq> [] then dset unknown_field_placeholder (PDict unknown) normalized else normalized))"

section \<open>Lines\<close>

definition resolve_ts_event :: "event_type \<Rightarrow> pydict \<Rightarrow> string option \<Rightarrow> string \<Rightarrow> string" where
  "resolve_ts_event t payload ts_bridge ts_collected =
     (let fallback = (case ts_bridge of None \<Rightarrow> ts_collected | Some s \<Rightarrow> if s \<noteq> [] then s else ts_collected) in
      case ts_event_field t of
        None \<Rightarrow> fallback
      | Some k \<Rightarrow> (case dget payload k of Some (PStr s) \<Rightarrow> if s \<noteq> [] then s else fallback | _ \<Rightarrow> fallback))"

fun bridge_time :: "pyval option \<Rightarrow> line_error + string option" where
  "bridge_time None = Inr None"
| "bridge_time (Some PNone) = Inr None"
| "bridge_time (Some (PStr s)) = Inr (Some s)"
| "bridge_time (Some v) = Inl (Invalid_line Bad_ts_bridge)"

definition classify_line :: "string \<Rightarrow> string option \<Rightarrow> pydict \<Rightarrow> string \<Rightarrow> line_error + normalized_line" where
  "classify_line name ts_bridge payload ts_collected =
     (if name \<in> set bridge_internal_types then
        Inr \<lparr>nl_kind = RL_INTERNAL, nl_event_type = None, nl_payload = None, nl_ts_bridge = ts_bridge,
             nl_ts_event = None, nl_code = Some ''BRIDGE_INTERNAL_EVENT''\<rparr>
      else
        (case event_type_of name of
           None \<Rightarrow>
             Inr \<lparr>nl_kind = RL_UNKNOWN, nl_event_type = None, nl_payload = Some payload, nl_ts_bridge = ts_bridge,
                  nl_ts_event = None, nl_code = Some ''UNKNOWN_EVENT_TYPE''\<rparr>
         | Some t \<Rightarrow>
             (case normalize_bridge_payload t payload of
                Inl e \<Rightarrow> Inl e
              | Inr p \<Rightarrow>
                  Inr \<lparr>nl_kind = RL_CANONICAL, nl_event_type = Some t, nl_payload = Some p, nl_ts_bridge = ts_bridge,
                       nl_ts_event = Some (resolve_ts_event t payload ts_bridge ts_collected), nl_code = None\<rparr>)))"

definition normalize_bridge_line :: "pydict \<Rightarrow> string \<Rightarrow> line_error + normalized_line" where
  "normalize_bridge_line parsed ts_collected =
     (case dget parsed ''event_type'' of
        Some (PStr name) \<Rightarrow>
          (if name = [] then Inl (Invalid_line Missing_event_type)
           else
             (case bridge_time (dget parsed ''ts_bridge'') of
                Inl e \<Rightarrow> Inl e
              | Inr ts_bridge \<Rightarrow>
                  (case dget parsed ''payload'' of
                     Some (PDict payload) \<Rightarrow> classify_line name ts_bridge payload ts_collected
                   | _ \<Rightarrow> Inl (Invalid_line Bad_payload))))
      | _ \<Rightarrow> Inl (Invalid_line Missing_event_type))"

section \<open>Facts about normalized payloads\<close>

text \<open>A number field of a normalized payload holds a float, an integer field an integer, nothing is null,
  and every field the specification does not require or allow is kept verbatim under the placeholder.\<close>

definition token_ok :: "type_token \<Rightarrow> pyval \<Rightarrow> bool" where
  "token_ok t v \<longleftrightarrow> (t = T_int \<longrightarrow> (\<exists>i. v = PInt i)) \<and> (t = T_number \<longrightarrow> (\<exists>x. v = PFloat x)) \<and> v \<noteq> PNone"

lemma coerce_int_int: "coerce_int k v = Inr w \<Longrightarrow> \<exists>i. w = PInt i"
  by (cases "(k, v)" rule: coerce_int.cases) (auto split: option.splits)

lemma coerce_float_float: "coerce_float k v = Inr w \<Longrightarrow> \<exists>x. w = PFloat x"
  by (cases v) (auto simp: Let_def split: option.splits if_splits)

lemma normalize_value_ok: "normalize_value spec k v = Inr w \<Longrightarrow> v \<noteq> PNone \<Longrightarrow> token_ok (token_of spec k) w"
  unfolding normalize_value_def coerce_number_def token_ok_def
  by (auto split: if_splits dest: coerce_int_int coerce_float_float)

definition named :: "payload_spec \<Rightarrow> string \<Rightarrow> bool" where
  "named spec k \<longleftrightarrow> k \<in> set (ps_optional spec) \<or> k \<in> set (ps_required spec)"

text \<open>The entry of a field after the loop over \<open>raw\<close>, from its entry before.\<close>

definition normalized_entry :: "payload_spec \<Rightarrow> pydict \<Rightarrow> string \<Rightarrow> pyval option \<Rightarrow> pyval option" where
  "normalized_entry spec raw k old =
     (case dget raw k of
        None \<Rightarrow> old
      | Some v \<Rightarrow>
          (if v = PNone \<or> \<not> named spec k then old
           else (case normalize_value spec k v of Inl e \<Rightarrow> None | Inr w \<Rightarrow> Some w)))"

definition unknown_entry :: "payload_spec \<Rightarrow> pydict \<Rightarrow> string \<Rightarrow> pyval option \<Rightarrow> pyval option" where
  "unknown_entry spec raw k old =
     (case dget raw k of None \<Rightarrow> old | Some v \<Rightarrow> if v = PNone \<or> named spec k then old else Some v)"

lemma normalize_fields_lookup:
  assumes "normalize_fields spec raw n0 u0 = Inr (n, u)" and "distinct (dkeys raw)"
  shows "dget n k = normalized_entry spec raw k (dget n0 k) \<and> dget u k = unknown_entry spec raw k (dget u0 k)
    \<and> (dget raw k = Some v \<longrightarrow> v \<noteq> PNone \<longrightarrow> named spec k \<longrightarrow> (\<exists>w. normalize_value spec k v = Inr w))"
  using assms
proof (induction raw arbitrary: n0 u0)
  case Nil
  then show ?case by (simp add: normalized_entry_def unknown_entry_def dget_def)
next
  case (Cons e raw)
  obtain j x where e: "e = (j, x)" by fastforce
  have d: "distinct (dkeys raw)" and j: "dget raw j = None"
    using Cons.prems(2) by (auto simp: e dkeys_def dget_def map_of_eq_None_iff)
  have get: "dget ((j, y) # raw) i = (if i = j then Some y else dget raw i)" for i y by (simp add: dget_def)
  consider (null) "x = PNone" | (known) w where "x \<noteq> PNone" "named spec j" "normalize_value spec j x = Inr w"
    | (unknown) "x \<noteq> PNone" "\<not> named spec j"
    using Cons.prems(1) by (auto simp: e named_def split: if_splits sum.splits)
  then show ?case
  proof cases
    case null
    then have "normalize_fields spec raw n0 u0 = Inr (n, u)" using Cons.prems(1) by (simp add: e)
    from Cons.IH [OF this d] show ?thesis
      using null j by (auto simp: e get normalized_entry_def unknown_entry_def)
  next
    case known
    then have "normalize_fields spec raw (dset j w n0) u0 = Inr (n, u)" using Cons.prems(1) by (auto simp: e named_def)
    from Cons.IH [OF this d] show ?thesis
      using known j by (auto simp: e get normalized_entry_def unknown_entry_def dget_dset)
  next
    case unknown
    then have "normalize_fields spec raw n0 (dset j x u0) = Inr (n, u)" using Cons.prems(1) by (auto simp: e named_def)
    from Cons.IH [OF this d] show ?thesis
      using unknown j by (auto simp: e get normalized_entry_def unknown_entry_def dget_dset)
  qed
qed

lemma not_named_placeholder: "\<not> named (get_spec t) unknown_field_placeholder"
  by (cases t) (simp_all add: named_def spec_defs unknown_field_placeholder_def)

lemma normalize_bridge_payload_lookup:
  assumes "normalize_bridge_payload t raw = Inr p" and "distinct (dkeys raw)"
  shows "k \<noteq> unknown_field_placeholder \<Longrightarrow> dget p k = normalized_entry (get_spec t) raw k None"
    and "dget p unknown_field_placeholder =
      (if \<exists>k v. dget raw k = Some v \<and> v \<noteq> PNone \<and> \<not> named (get_spec t) k
       then Some (PDict (snd (projr (normalize_fields (get_spec t) raw [] [])))) else None)"
proof -
  obtain n u where nu: "normalize_fields (get_spec t) raw [] [] = Inr (n, u)"
    and p: "p = (if u \<noteq> [] then dset unknown_field_placeholder (PDict u) n else n)"
    using assms(1) by (auto simp: normalize_bridge_payload_def split: sum.splits)
  have nil: "dget [] i = None" for i by (simp add: dget_def)
  note at = normalize_fields_lookup [OF nu assms(2), unfolded nil]
  show "dget p k = normalized_entry (get_spec t) raw k None" if "k \<noteq> unknown_field_placeholder"
    using at [of k] that by (simp add: p dget_dset)
  have "u \<noteq> [] \<longleftrightarrow> (\<exists>k. dget u k \<noteq> None)"
    by (cases u) (auto simp: dget_def)
  also have "\<dots> \<longleftrightarrow> (\<exists>k v. dget raw k = Some v \<and> v \<noteq> PNone \<and> \<not> named (get_spec t) k)"
    using at by (fastforce simp: unknown_entry_def split: option.splits)
  moreover have "dget n unknown_field_placeholder = None"
    using at not_named_placeholder [of t] by (simp add: normalized_entry_def split: option.splits)
  ultimately show "dget p unknown_field_placeholder =
      (if \<exists>k v. dget raw k = Some v \<and> v \<noteq> PNone \<and> \<not> named (get_spec t) k
       then Some (PDict (snd (projr (normalize_fields (get_spec t) raw [] [])))) else None)"
    by (simp add: p nu dget_dset)
qed

end
