(* ===== verification/InPipeline.thy ===== *)
theory InPipeline
  imports InReader InNormalize PsStore
begin

text \<open>
  The ingestion pipeline: \<open>src/collector/adapters/pipeline.py\<close>, its runner and its replay
  (\<open>runner.py\<close>, \<open>replay.py\<close>). A pipeline owns the repository, the reader, its counters and the last
  cursor it saved. \<open>ie_decode\<close> decodes a line that is not ASCII (\<open>None\<close> is \<open>UnicodeDecodeError\<close>),
  \<open>ie_json\<close> is \<open>json.loads\<close>, \<open>ie_schema_ok\<close> the verdict of the \<open>jsonschema\<close> package; fresh event ids
  and readings of the monotonic clock are numbered. Logging and sleeping are left out.
\<close>

record in_env =
  ie_db :: db_env
  ie_path :: string
  ie_decode :: "string \<Rightarrow> string option"
  ie_json :: "string \<Rightarrow> pyval option"
  ie_schema_ok :: "pyval \<Rightarrow> bool"
  ie_uuid :: "nat \<Rightarrow> string"
  ie_monotonic :: "nat \<Rightarrow> int"

text \<open>\<open>Persistence_failure\<close> is \<open>PersistenceIngestionError\<close>; the others are exceptions that no handler of
  the pipeline or the runner names: \<open>UnicodeDecodeError\<close>, \<open>OverflowError\<close>, \<open>TypeError\<close>,
  \<open>AssertionError\<close>, and what the repository raises besides \<open>PersistenceError\<close>.\<close>

datatype in_error =
    Persistence_failure db_error
  | Undecodable
  | Number_overflow
  | Type_failure
  | Assertion_failed
  | Escaped_db db_error

record counters =
  ct_lines_read :: nat
  ct_events_parsed :: nat
  ct_events_valid :: nat
  ct_events_persisted :: nat
  ct_events_invalid :: nat
  ct_identity_pending :: nat
  ct_internal :: nat
  ct_unknown :: nat
  ct_malformed :: nat
  ct_parse_errors :: nat
  ct_persistence_errors :: nat
  ct_rotations :: nat
  ct_last_event_timestamp :: "string option"
  ct_last_read_monotonic :: "int option"

definition no_counters :: counters where
  "no_counters =
     \<lparr>ct_lines_read = 0, ct_events_parsed = 0, ct_events_valid = 0, ct_events_persisted = 0,
      ct_events_invalid = 0, ct_identity_pending = 0, ct_internal = 0, ct_unknown = 0, ct_malformed = 0,
      ct_parse_errors = 0, ct_persistence_errors = 0, ct_rotations = 0, ct_last_event_timestamp = None,
      ct_last_read_monotonic = None\<rparr>"

record pipe =
  pl_repo :: repo
  pl_reader :: reader
  pl_counters :: counters
  pl_line_number :: nat
  pl_cursor :: "ingestion_cursor option"
  pl_ids :: nat
  pl_readings :: nat

record in_stats =
  st_counters :: counters
  st_cursor_offset :: int
  st_lag_ms :: "int option"
  st_source :: string

definition new_pipe :: "repo \<Rightarrow> reader \<Rightarrow> pipe" where
  "new_pipe r rd =
     \<lparr>pl_repo = r, pl_reader = rd, pl_counters = no_counters, pl_line_number = 0, pl_cursor = None,
      pl_ids = 0, pl_readings = 0\<rparr>"

section \<open>Primitive steps\<close>

definition on_repo :: "(db_error \<Rightarrow> in_error) \<Rightarrow> (repo, db_error, 'a) eff \<Rightarrow> (pipe, in_error, 'a) eff" where
  "on_repo wrap m p =
     (case m (pl_repo p) of (z, r) \<Rightarrow>
       (case z of Inl e \<Rightarrow> (Inl (wrap e), p\<lparr>pl_repo := r\<rparr>) | Inr x \<Rightarrow> (Inr x, p\<lparr>pl_repo := r\<rparr>)))"

definition ingestion_error :: "db_error \<Rightarrow> in_error" where
  "ingestion_error e = (if is_persistence_error e then Persistence_failure e else Escaped_db e)"

definition monotonic_ms :: "in_env \<Rightarrow> (pipe, in_error, int) eff" where
  "monotonic_ms E p = (Inr (ie_monotonic E (pl_readings p)), p\<lparr>pl_readings := Suc (pl_readings p)\<rparr>)"

definition wall_clock :: "in_env \<Rightarrow> (pipe, in_error, string) eff" where
  "wall_clock E = on_repo Escaped_db (now_utc_ms (ie_db E))"

definition bump :: "(counters \<Rightarrow> counters) \<Rightarrow> (pipe, in_error, unit) eff" where
  "bump f p = (Inr (), p\<lparr>pl_counters := f (pl_counters p)\<rparr>)"

section \<open>Cursor discipline\<close>

definition cursor_for :: "in_env \<Rightarrow> raw_line \<Rightarrow> string option \<Rightarrow> (pipe, in_error, ingestion_cursor) eff" where
  "cursor_for E l last_event_id =
     bind (gets (\<lambda>p. (pl_line_number p,
       case last_event_id of
         None \<Rightarrow> (case pl_cursor p of None \<Rightarrow> None | Some c \<Rightarrow> ic_last_event_id c)
       | Some i \<Rightarrow> Some i))) (\<lambda>np.
     on_repo Escaped_db
       (cursor_of (ie_db E) (ie_path E) (int (end_offset l) + 1) (Some (int (fst np))) (snd np)))"

definition set_cursor :: "ingestion_cursor \<Rightarrow> (pipe, in_error, unit) eff" where
  "set_cursor c p = (Inr (), p\<lparr>pl_cursor := Some c\<rparr>)"

definition persist_cursor :: "ingestion_cursor \<Rightarrow> (pipe, in_error, unit) eff" where
  "persist_cursor c = bind (on_repo ingestion_error (save_ingestion_cursor c)) (\<lambda>_. set_cursor c)"

definition advance :: "in_env \<Rightarrow> raw_line \<Rightarrow> (pipe, in_error, unit) eff" where
  "advance E l = bind (cursor_for E l None) persist_cursor"

section \<open>One line\<close>

definition start_line :: "in_env \<Rightarrow> (pipe, in_error, unit) eff" where
  "start_line E =
     bind (bump (\<lambda>c. c\<lparr>ct_lines_read := Suc (ct_lines_read c)\<rparr>)) (\<lambda>_.
     bind (\<lambda>p. (Inr (), p\<lparr>pl_line_number := Suc (pl_line_number p)\<rparr>)) (\<lambda>_.
     bind (monotonic_ms E) (\<lambda>m. bump (\<lambda>c. c\<lparr>ct_last_read_monotonic := Some m\<rparr>))))"

definition to_text :: "in_env \<Rightarrow> raw_line \<Rightarrow> string option" where
  "to_text E l =
     (if list_all (\<lambda>c. of_char c < (128 :: nat)) (ln_data l) then Some (ln_data l) else ie_decode E (ln_data l))"

definition malformed :: "in_env \<Rightarrow> raw_line \<Rightarrow> (pipe, in_error, unit) eff" where
  "malformed E l =
     bind (bump (\<lambda>c. c\<lparr>ct_parse_errors := Suc (ct_parse_errors c), ct_events_invalid := Suc (ct_events_invalid c),
       ct_malformed := Suc (ct_malformed c)\<rparr>)) (\<lambda>_. advance E l)"

definition build_envelope ::
  "in_env \<Rightarrow> event_type \<Rightarrow> pydict \<Rightarrow> string option \<Rightarrow> string \<Rightarrow> (pipe, in_error, envelope option) eff" where
  "build_envelope E t payload ts_event ts_collected =
     bind (monotonic_ms E) (\<lambda>m. \<lambda>p.
       (let EE = \<lparr>ev_digest = db_digest (ie_db E), ev_uuid = ie_uuid E (pl_ids p),
                  ev_now_ms = db_clock (ie_db E) (rp_ticks (pl_repo p)), ev_monotonic = m\<rparr>;
            args = default_args\<lparr>ea_ts_event := (if ts_event = Some [] then None else ts_event),
                  ea_ts_collected := Some ts_collected, ea_ts_monotonic := Some m\<rparr>;
            p' = p\<lparr>pl_ids := Suc (pl_ids p)\<rparr> in
        case build_event EE t payload args of
          Inl Py_overflow \<Rightarrow> (Inl Number_overflow, p')
        | Inl Py_type_error \<Rightarrow> (Inl Type_failure, p')
        | Inl e \<Rightarrow> (Inr None, p')
        | Inr e \<Rightarrow> (Inr (if ie_schema_ok E (PDict (envelope_to_dict e)) then Some e else None), p')))"

definition store_event :: "in_env \<Rightarrow> envelope \<Rightarrow> ingestion_cursor \<Rightarrow> (pipe, in_error, insert_result) eff" where
  "store_event E e c p =
     (case on_repo ingestion_error (insert_event_with_cursor (ie_db E) e c) p of (z, p') \<Rightarrow>
       (case z of
          Inl (Persistence_failure x) \<Rightarrow>
            (Inl (Persistence_failure x),
             p'\<lparr>pl_counters := (pl_counters p')\<lparr>ct_persistence_errors := Suc (ct_persistence_errors (pl_counters p'))\<rparr>\<rparr>)
        | _ \<Rightarrow> (z, p')))"

definition persist_event :: "in_env \<Rightarrow> raw_line \<Rightarrow> envelope \<Rightarrow> (pipe, in_error, unit) eff" where
  "persist_event E l e =
     bind (bump (\<lambda>c. c\<lparr>ct_events_valid := Suc (ct_events_valid c), ct_last_event_timestamp := Some (e_ts_event e)\<rparr>)) (\<lambda>_.
     bind (cursor_for E l (Some (e_event_id e))) (\<lambda>cursor.
     bind (store_event E e cursor) (\<lambda>_.
     bind (set_cursor cursor) (\<lambda>_.
     bump (\<lambda>c. c\<lparr>ct_events_persisted := Suc (ct_events_persisted c)\<rparr>)))))"

definition handle_event :: "in_env \<Rightarrow> raw_line \<Rightarrow> event_type \<Rightarrow> pydict \<Rightarrow> string option \<Rightarrow> (pipe, in_error, unit) eff" where
  "handle_event E l t payload ts_event =
     (if t \<notin> set out_of_band_events then
        bind (bump (\<lambda>c. c\<lparr>ct_events_invalid := Suc (ct_events_invalid c),
          ct_identity_pending := Suc (ct_identity_pending c)\<rparr>)) (\<lambda>_. advance E l)
      else
        bind (wall_clock E) (\<lambda>ts_collected.
        bind (build_envelope E t payload ts_event ts_collected) (\<lambda>env.
          case env of
            None \<Rightarrow>
              bind (bump (\<lambda>c. c\<lparr>ct_events_invalid := Suc (ct_events_invalid c)\<rparr>)) (\<lambda>_. advance E l)
          | Some e \<Rightarrow> persist_event E l e)))"

definition handle_line :: "in_env \<Rightarrow> raw_line \<Rightarrow> normalized_line \<Rightarrow> (pipe, in_error, unit) eff" where
  "handle_line E l n =
     (case nl_kind n of
        RL_INTERNAL \<Rightarrow>
          bind (bump (\<lambda>c. c\<lparr>ct_internal := Suc (ct_internal c)\<rparr>)) (\<lambda>_. advance E l)
      | RL_UNKNOWN \<Rightarrow>
          bind (bump (\<lambda>c. c\<lparr>ct_events_invalid := Suc (ct_events_invalid c),
            ct_unknown := Suc (ct_unknown c)\<rparr>)) (\<lambda>_. advance E l)
      | RL_CANONICAL \<Rightarrow>
          (case nl_event_type n of
             None \<Rightarrow> raise Assertion_failed
           | Some t \<Rightarrow>
               (case nl_payload n of
                  None \<Rightarrow> raise Assertion_failed
                | Some payload \<Rightarrow> handle_event E l t payload (nl_ts_event n))))"

definition process_text :: "in_env \<Rightarrow> raw_line \<Rightarrow> string \<Rightarrow> (pipe, in_error, unit) eff" where
  "process_text E l txt =
     (if strip txt = [] then advance E l
      else
        (case parse_raw_line (ie_json E txt) of
           Inl _ \<Rightarrow> malformed E l
         | Inr parsed \<Rightarrow>
             bind (wall_clock E) (\<lambda>ts_collected.
               case normalize_bridge_line parsed ts_collected of
                 Inl Line_overflow \<Rightarrow> raise Number_overflow
               | Inl (Invalid_line _) \<Rightarrow> malformed E l
               | Inr n \<Rightarrow>
                   bind (bump (\<lambda>c. c\<lparr>ct_events_parsed := Suc (ct_events_parsed c)\<rparr>)) (\<lambda>_. handle_line E l n))))"

definition process_line :: "in_env \<Rightarrow> raw_line \<Rightarrow> (pipe, in_error, unit) eff" where
  "process_line E l =
     bind (start_line E) (\<lambda>_.
       case to_text E l of None \<Rightarrow> raise Undecodable | Some txt \<Rightarrow> process_text E l txt)"

section \<open>Poll cycles\<close>

definition stats :: "in_env \<Rightarrow> (pipe, in_error, in_stats) eff" where
  "stats E =
     bind (gets pl_counters) (\<lambda>c.
     bind (case ct_last_read_monotonic c of
             None \<Rightarrow> ret None
           | Some m \<Rightarrow> bind (monotonic_ms E) (\<lambda>now. ret (Some (max 0 (now - m))))) (\<lambda>lag.
     gets (\<lambda>p.
       \<lparr>st_counters = c, st_cursor_offset = (case pl_cursor p of None \<Rightarrow> 0 | Some k \<Rightarrow> ic_byte_offset k),
        st_lag_ms = lag, st_source = ie_path E\<rparr>)))"

fun process_lines :: "in_env \<Rightarrow> raw_line list \<Rightarrow> (pipe, in_error, unit) eff" where
  "process_lines E [] = ret ()"
| "process_lines E (l # ls) = bind (process_line E l) (\<lambda>_. process_lines E ls)"

definition reader_poll :: "source_stat option \<Rightarrow> (pipe, in_error, poll_result) eff" where
  "reader_poll source p =
     (case poll source (pl_reader p) of (res, rd) \<Rightarrow> (Inr res, p\<lparr>pl_reader := rd\<rparr>))"

definition note_rotation :: "in_env \<Rightarrow> (pipe, in_error, unit) eff" where
  "note_rotation E =
     bind (bump (\<lambda>c. c\<lparr>ct_rotations := Suc (ct_rotations c)\<rparr>)) (\<lambda>_.
     bind (on_repo Escaped_db (cursor_of (ie_db E) (ie_path E) 0 None None)) persist_cursor)"

definition process_once :: "in_env \<Rightarrow> source_stat option \<Rightarrow> (pipe, in_error, in_stats) eff" where
  "process_once E source =
     bind (reader_poll source) (\<lambda>res.
     bind (if pr_rotation res then note_rotation E else ret ()) (\<lambda>_.
     if pr_unavailable res then stats E
     else bind (process_lines E (pr_lines res)) (\<lambda>_. stats E)))"

section \<open>The runner\<close>

definition start_runner :: "in_env \<Rightarrow> repo \<Rightarrow> (db_error + pipe) \<times> repo" where
  "start_runner E r =
     (case bind open_repo (\<lambda>_. get_ingestion_cursor (ie_path E)) r of (z, r') \<Rightarrow>
       (case z of
          Inl e \<Rightarrow> (Inl e, r')
        | Inr cursor \<Rightarrow>
            (Inr (new_pipe r' (new_reader (case cursor of None \<Rightarrow> 0 | Some c \<Rightarrow> ic_byte_offset c))), r')))"

text \<open>The loop of \<open>run\<close> over the views of the polls it makes until \<open>stop_check\<close> is true.\<close>

fun run_loop :: "in_env \<Rightarrow> source_stat option list \<Rightarrow> in_stats \<Rightarrow> (pipe, in_error, in_stats) eff" where
  "run_loop E [] st p = (Inr st, p)"
| "run_loop E (s # ss) st p =
     (case process_once E s p of (z, p') \<Rightarrow>
       (case z of
          Inr st' \<Rightarrow> run_loop E ss st' p'
        | Inl (Persistence_failure e) \<Rightarrow>
            (case stats E p' of (y, p'') \<Rightarrow> (case y of Inl x \<Rightarrow> (Inl x, p'') | Inr st' \<Rightarrow> run_loop E ss st' p''))
        | Inl e \<Rightarrow> (Inl e, p')))"

definition run_runner :: "in_env \<Rightarrow> source_stat option list \<Rightarrow> (pipe, in_error, in_stats) eff" where
  "run_runner E ss = bind (stats E) (run_loop E ss)"

section \<open>Replay\<close>

function replay_loop ::
  "in_env \<Rightarrow> (nat \<Rightarrow> source_stat option) \<Rightarrow> nat \<Rightarrow> nat \<Rightarrow> in_stats \<Rightarrow> (pipe, in_error, in_stats) eff" where
  "replay_loop E source max_cycles cycles st =
     (if cycles < max_cycles then
        bind (process_once E (source cycles)) (\<lambda>st'.
        bind (gets (\<lambda>p. holds_partial (pl_reader p))) (\<lambda>held.
          if ct_lines_read (st_counters st') = 0 \<or> \<not> held then ret st'
          else replay_loop E source max_cycles (Suc cycles) st'))
      else ret st)"
  by pat_completeness auto
termination
  by (relation "measure (\<lambda>(E, source, max_cycles, cycles, st). max_cycles - cycles)") auto

declare replay_loop.simps [simp del]

record replay_result =
  rr_stats :: in_stats
  rr_event_types :: "event_type list"
  rr_persisted_count :: nat
  rr_duplicate_count :: nat
  rr_final_cursor :: "ingestion_cursor option"

definition all_events :: "nat \<Rightarrow> event_query" where
  "all_events limit =
     \<lparr>eq_trade_id = None, eq_correlation_id = None, eq_event_type = None, eq_ts_start = None,
      eq_ts_end = None, eq_limit = limit\<rparr>"

definition replay_report :: "in_env \<Rightarrow> in_stats \<Rightarrow> (pipe, in_error, replay_result) eff" where
  "replay_report E st =
     bind (on_repo Escaped_db (query_events (ie_db E) (all_events 10000))) (\<lambda>events.
     gets (\<lambda>p.
       \<lparr>rr_stats = st, rr_event_types = map e_event_type events, rr_persisted_count = length events,
        rr_duplicate_count = 0, rr_final_cursor = pl_cursor p\<rparr>))"

text \<open>\<open>replay_source\<close> on a database that does not exist yet; \<open>__exit__\<close> closes the repository however the
  block ends.\<close>

definition fresh_repo :: repo where
  "fresh_repo = \<lparr>rp_open = False, rp_busy = False, rp_disk = (\<lambda>t. []), rp_work = None, rp_ticks = 0, rp_faults = []\<rparr>"

definition replay_source ::
  "in_env \<Rightarrow> (nat \<Rightarrow> source_stat option) \<Rightarrow> nat \<Rightarrow> (in_error + replay_result) \<times> pipe" where
  "replay_source E source max_cycles =
     (let p0 = new_pipe (snd (open_repo fresh_repo)) (new_reader 0) in
      case bind (stats E) (\<lambda>st. bind (replay_loop E source max_cycles 0 st) (replay_report E)) p0 of
        (z, p) \<Rightarrow> (z, p\<lparr>pl_repo := snd (close_repo (pl_repo p))\<rparr>))"

end
