(* ===== verification/InInvariants.thy ===== *)
theory InInvariants
  imports InPipeline EvClaims
begin

text \<open>
  What a step of the ingestion pipeline keeps: it writes only out-of-band events and the reading position
  of its source, the cursor it holds is the one in the database, a line that is not fully handled leaves
  the cursor before it, and nothing but a poll moves the reader.
\<close>

section \<open>What ingestion writes\<close>

definition band_row :: "sqlrow \<Rightarrow> bool" where
  "band_row row \<longleftrightarrow> cell row ''event_type'' \<in> (\<lambda>t. SqlText (event_type_value t)) ` set out_of_band_events"

definition ingested :: "db_env \<Rightarrow> repo \<Rightarrow> repo \<Rightarrow> bool" where
  "ingested E r r' \<longleftrightarrow>
     (ready E r \<longrightarrow>
        ready E r'
        \<and> (\<exists>rows. rp_disk r' ''events'' = rp_disk r ''events'' @ rows \<and> (\<forall>row \<in> set rows. band_row row))
        \<and> (\<forall>t. t \<notin> {''events'', ''ingestion_cursor''} \<longrightarrow> rp_disk r' t = rp_disk r t))"

lemma ingested_preorder [pres_rules]: "preorder_rel (ingested E)"
proof -
  have "ingested E r t" if a: "ingested E r s" and b: "ingested E s t" for r s t
    unfolding ingested_def
  proof (intro impI)
    assume ready: "ready E r"
    then obtain rows where s: "ready E s" "rp_disk s ''events'' = rp_disk r ''events'' @ rows" "\<forall>row \<in> set rows. band_row row"
      "\<And>k. k \<notin> {''events'', ''ingestion_cursor''} \<Longrightarrow> rp_disk s k = rp_disk r k"
      using a by (auto simp: ingested_def)
    obtain more where t: "ready E t" "rp_disk t ''events'' = rp_disk s ''events'' @ more" "\<forall>row \<in> set more. band_row row"
      "\<And>k. k \<notin> {''events'', ''ingestion_cursor''} \<Longrightarrow> rp_disk t k = rp_disk s k"
      using b s(1) by (auto simp: ingested_def)
    have "rp_disk t ''events'' = rp_disk r ''events'' @ rows @ more \<and> (\<forall>row \<in> set (rows @ more). band_row row)"
      using s(2,3) t(2,3) by auto
    then show "ready E t \<and> (\<exists>rows. rp_disk t ''events'' = rp_disk r ''events'' @ rows \<and> (\<forall>row \<in> set rows. band_row row))
        \<and> (\<forall>k. k \<notin> {''events'', ''ingestion_cursor''} \<longrightarrow> rp_disk t k = rp_disk r k)"
      using t(1,4) s(4) by auto
  qed
  moreover have "ingested E r r" for r by (simp add: ingested_def)
  ultimately show ?thesis by (auto simp: preorder_rel_def)
qed

lemma ingested_now [pres_rules]: "pres (ingested E) (now_utc_ms E')"
  by (simp add: pres_def ingested_def now_utc_ms_def ready_def repo_ok_def view_def idle_def settled_def split: option.splits)

lemma ingested_cursor_of [pres_rules]: "pres (ingested E) (cursor_of E' p off n i)"
  by (simp add: cursor_of_def pres_rules)

lemma save_cursor_tables: "pres (same_disk {t. t \<noteq> ''ingestion_cursor''}) (save_ingestion_cursor c)"
proof (rule presI)
  fix r :: repo
  obtain z r' where run: "save_ingestion_cursor c r = (z, r')" by fastforce
  have work: "pres on_work (write_ingestion_cursor c)" by (simp add: write_ingestion_cursor_def pres_rules)
  have other: "pres (same_tables {t. t \<noteq> ''ingestion_cursor''}) (write_ingestion_cursor c)"
    by (simp add: write_ingestion_cursor_def same_tables_params)
  have "same_disk {t. t \<noteq> ''ingestion_cursor''} r r'"
  proof (cases z)
    case (Inl e)
    then show ?thesis using transaction_Inl [OF work] run by (auto simp: same_disk_def save_ingestion_cursor_def)
  next
    case (Inr x)
    obtain r1 where body: "write_ingestion_cursor c (begun r) = (Inr x, r1)"
      and disk: "rp_disk r' = view r1"
      using transaction_Inr [OF work] run Inr by (auto simp: save_ingestion_cursor_def)
    show ?thesis using presD [OF other body] by (simp add: same_tables_def same_disk_def disk view_def)
  qed
  then show "same_disk {t. t \<noteq> ''ingestion_cursor''} r (snd (save_ingestion_cursor c r))" using run by simp
qed

lemma ingested_save_cursor [pres_rules]: "pres (ingested E) (save_ingestion_cursor c)"
proof (rule presI)
  fix r :: repo
  obtain z r' where run: "save_ingestion_cursor c r = (z, r')" by fastforce
  have work: "pres on_work (write_ingestion_cursor c)" by (simp add: write_ingestion_cursor_def pres_rules)
  have "pres (repo_grows E) (save_ingestion_cursor c)"
    by (simp add: save_ingestion_cursor_def write_ingestion_cursor_def grows_transaction grows_upsert_params)
  from presD [OF this run] have "repo_grows E r r'" .
  moreover have "idle r \<and> rp_faults r = [] \<Longrightarrow> idle r' \<and> rp_faults r' = []"
    using transaction_Inl [OF work] transaction_Inr [OF work] run
    by (cases z) (auto simp: save_ingestion_cursor_def stuck_def)
  ultimately have "ingested E r r'"
    using presD [OF save_cursor_tables run] by (simp add: ingested_def ready_def repo_grows_def same_disk_def)
  then show "ingested E r (snd (save_ingestion_cursor c r))" using run by simp
qed

lemma insert_cursor_transaction:
  "insert_event_with_cursor E e c = event_transaction E (\<lambda>x. bind (write_ingestion_cursor c) (\<lambda>_. ret x)) e"
  by (simp add: insert_event_with_cursor_def event_transaction_def)

lemma ingested_insert:
  assumes "e_event_type e \<in> set out_of_band_events"
  shows "pres (ingested E) (insert_event_with_cursor E e c)"
proof (rule presI)
  fix r :: repo
  let ?rest = "\<lambda>x. bind (write_ingestion_cursor c) (\<lambda>_. ret x)"
  obtain z r' where run: "event_transaction E ?rest e r = (z, r')" by fastforce
  have grows: "\<And>x. pres (repo_grows E) (?rest x)" by (simp add: write_ingestion_cursor_def grows_rests)
  have tables: "pres (same_disk {t. t \<notin> {''events'', ''ingestion_cursor''}}) (event_transaction E ?rest e)"
    by (intro event_transaction_tables harmless_cursor pres_bind same_tables_preorder pres_ret)
      (simp_all add: write_ingestion_cursor_def same_tables_params)
  have "ingested E r r'"
    unfolding ingested_def
  proof (intro impI conjI)
    assume ready: "ready E r"
    show "ready E r'"
      using cursor_store.put_stores [OF ready] cursor_store.put_refuses [OF ready] run
      by (cases z) (auto simp: insert_cursor_transaction)
    show "\<forall>t. t \<notin> {''events'', ''ingestion_cursor''} \<longrightarrow> rp_disk r' t = rp_disk r t"
      using presD [OF tables run] by (simp add: same_disk_def)
    show "\<exists>rows. rp_disk r' ''events'' = rp_disk r ''events'' @ rows \<and> (\<forall>row \<in> set rows. band_row row)"
    proof (cases z)
      case (Inl x)
      then show ?thesis using event_transaction_refused [OF harmless_cursor] run by (metis append_Nil2 empty_iff list.set(1))
    next
      case (Inr x)
      have "band_row row" if "bind_row ''events'' (event_params e) = Inr row" for row
        using bound_cells(2) [OF that] assms by (auto simp: band_row_def)
      then show ?thesis
        using event_transaction_accepted [OF harmless_cursor run [unfolded Inr]]
        by (elim conjE disjE exE) (metis empty_iff set_ConsD list.set(1), metis append_Nil2 empty_iff list.set(1))
    qed
  qed
  then show "ingested E r (snd (insert_event_with_cursor E e c r))" using run by (simp add: insert_cursor_transaction)
qed

definition pipe_ingested :: "in_env \<Rightarrow> pipe \<Rightarrow> pipe \<Rightarrow> bool" where
  "pipe_ingested E p p' \<longleftrightarrow> ingested (ie_db E) (pl_repo p) (pl_repo p')"

lemma pipe_ingested_preorder [pres_rules]: "preorder_rel (pipe_ingested E)"
  using ingested_preorder unfolding preorder_rel_def pipe_ingested_def by blast

lemma pipe_on_repo: "pres (ingested (ie_db E)) m \<Longrightarrow> pres (pipe_ingested E) (on_repo w m)"
  by (auto simp: pres_def on_repo_def pipe_ingested_def split: prod.splits sum.splits) (metis snd_conv)+

lemma pipe_frame: "(\<And>p. pl_repo (snd (m p)) = pl_repo p) \<Longrightarrow> pres (pipe_ingested E) m"
  by (simp add: pres_def pipe_ingested_def preorder_relD(1) [OF ingested_preorder])

lemma pipe_steps [pres_rules]:
  "pres (pipe_ingested E) (bump f)" "pres (pipe_ingested E) (monotonic_ms E')" "pres (pipe_ingested E) (set_cursor c)"
  "pres (pipe_ingested E) (reader_poll source)" "pres (pipe_ingested E) (\<lambda>p. (Inr (), p\<lparr>pl_line_number := n p\<rparr>))"
  by (rule pipe_frame; simp add: bump_def monotonic_ms_def set_cursor_def reader_poll_def split: prod.splits)+

lemma pipe_wall_clock [pres_rules]: "pres (pipe_ingested E) (wall_clock E')"
  by (simp add: wall_clock_def pipe_on_repo pres_rules)

lemma pipe_advance [pres_rules]: "pres (pipe_ingested E) (advance E' l)"
  by (simp add: advance_def cursor_for_def persist_cursor_def pipe_on_repo pres_rules)

lemma build_envelope_type:
  "post (build_envelope E t payload ts now) (\<lambda>env. \<forall>e. env = Some e \<longrightarrow> e_event_type e = t)"
  using build_event_fields(3)
  by (auto simp: post_def build_envelope_def bind_def monotonic_ms_def Let_def split: sum.splits contract_error.splits if_splits)

lemma pipe_build [pres_rules]: "pres (pipe_ingested E) (build_envelope E' t payload ts now)"
  unfolding build_envelope_def
  by (intro pres_bind pipe_ingested_preorder pipe_steps pipe_frame)
    (auto simp: Let_def split: sum.splits contract_error.splits)

lemma pipe_store:
  assumes "e_event_type e \<in> set out_of_band_events"
  shows "pres (pipe_ingested E) (store_event E e c)"
proof (rule presI)
  fix p
  obtain z p' where run: "on_repo ingestion_error (insert_event_with_cursor (ie_db E) e c) p = (z, p')" by fastforce
  have "pipe_ingested E p p'"
    using presD [OF pipe_on_repo [OF ingested_insert [OF assms]] run] .
  then show "pipe_ingested E p (snd (store_event E e c p))"
    using run by (auto simp: store_event_def pipe_ingested_def split: sum.splits in_error.splits)
qed

lemma pipe_handle_event [pres_rules]: "pres (pipe_ingested E) (handle_event E l t payload ts)"
proof (cases "t \<in> set out_of_band_events")
  case True
  have persist: "pres (pipe_ingested E) (persist_event E l e)" if "e_event_type e = t" for e
    using True that unfolding persist_event_def cursor_for_def
    by (intro pres_bind pipe_ingested_preorder pipe_store pipe_on_repo pres_gets pipe_steps ingested_cursor_of) simp
  have "pres (pipe_ingested E)
      (case env of None \<Rightarrow> bind (bump f) (\<lambda>_. advance E l) | Some e \<Rightarrow> persist_event E l e)"
    if "\<forall>e. env = Some e \<longrightarrow> e_event_type e = t" for env f
    using that persist by (cases env) (simp_all add: pres_rules)
  then show ?thesis
    using True unfolding handle_event_def
    by (auto intro!: pres_bind [OF pipe_ingested_preorder pipe_wall_clock]
        pres_bind_post [OF pipe_ingested_preorder pipe_build build_envelope_type])
qed (simp add: handle_event_def pres_rules)

lemma pipe_process_line [pres_rules]: "pres (pipe_ingested E) (process_line E l)"
proof -
  have "pres (pipe_ingested E) (handle_line E l n)" for n
    unfolding handle_line_def by (cases "nl_kind n") (auto intro!: pres_rules split: option.splits)
  then show ?thesis
    unfolding process_line_def start_line_def process_text_def malformed_def
    by (auto intro!: pres_rules split: option.splits sum.splits line_error.splits)
qed

lemma pipe_process_lines [pres_rules]: "pres (pipe_ingested E) (process_lines E ls)"
  by (induction ls) (simp_all add: pres_rules)

lemma pipe_stats [pres_rules]: "pres (pipe_ingested E) (stats E')"
  unfolding stats_def by (auto intro!: pres_rules split: option.splits)

lemma pipe_process_once: "pres (pipe_ingested E) (process_once E source)"
  unfolding process_once_def note_rotation_def persist_cursor_def
  by (auto intro!: pres_rules pipe_on_repo)

lemma pipe_run_loop: "pres (pipe_ingested E) (run_loop E ss st)"
proof (induction ss arbitrary: st)
  case Nil
  have "run_loop E [] st = ret st" by (rule ext) (simp add: ret_def)
  then show ?case by (simp add: pres_rules)
next
  case (Cons s ss)
  show ?case
  proof (rule presI)
    fix p :: pipe
    obtain z p1 where one: "process_once E s p = (z, p1)" by fastforce
    obtain y p2 where st: "stats E p1 = (y, p2)" by fastforce
    note trans = preorder_relD(2) [OF pipe_ingested_preorder]
    have g: "pipe_ingested E p p1" "pipe_ingested E p p2"
      using presD [OF pipe_process_once one] trans [OF _ presD [OF pipe_stats st]] by auto
    have "pipe_ingested E q (snd (run_loop E ss st' q))" for q st' using Cons.IH by (simp add: pres_def)
    then have "pipe_ingested E p (snd (run_loop E ss st' p1))" "pipe_ingested E p (snd (run_loop E ss st' p2))" for st'
      using trans g by blast+
    then show "pipe_ingested E p (snd (run_loop E (s # ss) st p))"
      using one st g by (auto split: sum.splits in_error.splits)
  qed
qed

section \<open>Where the cursor stands\<close>

text \<open>The cursor the pipeline holds is the one in the database.\<close>

definition cursor_ok :: "in_env \<Rightarrow> pipe \<Rightarrow> bool" where
  "cursor_ok E p \<longleftrightarrow>
     ready (ie_db E) (pl_repo p)
     \<and> (\<forall>c. pl_cursor p = Some c \<longrightarrow>
          ic_source_path c = ie_path E \<and> read_ingestion_cursor (rp_disk (pl_repo p)) (ie_path E) = Some c)"

text \<open>It stays so, and as long as the pipeline holds none, the one in the database is what it was.\<close>

definition keeps_cursor :: "in_env \<Rightarrow> pipe \<Rightarrow> pipe \<Rightarrow> bool" where
  "keeps_cursor E p p' \<longleftrightarrow>
     (cursor_ok E p \<longrightarrow>
        cursor_ok E p'
        \<and> (pl_cursor p' = None \<longrightarrow> pl_cursor p = None
             \<and> read_ingestion_cursor (rp_disk (pl_repo p')) (ie_path E) = read_ingestion_cursor (rp_disk (pl_repo p)) (ie_path E)))"

lemma keeps_cursor_preorder [pres_rules]: "preorder_rel (keeps_cursor E)"
  by (auto simp: preorder_rel_def keeps_cursor_def)

lemma keeps_frame:
  assumes "\<And>p. pl_cursor (snd (m p)) = pl_cursor p \<and> rp_disk (pl_repo (snd (m p))) = rp_disk (pl_repo p)
      \<and> (ready (ie_db E) (pl_repo p) \<longrightarrow> ready (ie_db E) (pl_repo (snd (m p))))"
  shows "pres (keeps_cursor E) m"
  using assms by (simp add: pres_def keeps_cursor_def cursor_ok_def)

lemma now_frame: "rp_disk (snd (now_utc_ms D r)) = rp_disk r" "ready D' r \<Longrightarrow> ready D' (snd (now_utc_ms D r))"
  by (simp_all add: now_utc_ms_def ready_def repo_ok_def view_def idle_def settled_def split: option.splits)

lemma cursor_of_frame:
  "rp_disk (snd (cursor_of D f off n i r)) = rp_disk r" "ready D' r \<Longrightarrow> ready D' (snd (cursor_of D f off n i r))"
  using now_frame(1) [of D r] now_frame(2) [of D' r D]
  by (cases "now_utc_ms D r"; cases "fst (now_utc_ms D r)"; simp add: cursor_of_def bind_def ret_def)+

lemma keeps_steps [pres_rules]:
  "pres (keeps_cursor E) (bump f)" "pres (keeps_cursor E) (monotonic_ms E')" "pres (keeps_cursor E) (reader_poll source)"
  "pres (keeps_cursor E) (\<lambda>p. (Inr (), p\<lparr>pl_line_number := n p\<rparr>))"
  by (rule keeps_frame; simp add: bump_def monotonic_ms_def reader_poll_def split: prod.splits)+

lemma on_repo_state:
  "pl_repo (snd (on_repo w m p)) = snd (m (pl_repo p))" "pl_cursor (snd (on_repo w m p)) = pl_cursor p"
  "pl_reader (snd (on_repo w m p)) = pl_reader p" "pl_counters (snd (on_repo w m p)) = pl_counters p"
  by (simp_all add: on_repo_def split: prod.splits sum.splits)

lemma keeps_clock [pres_rules]: "pres (keeps_cursor E) (wall_clock E')"
  by (rule keeps_frame) (simp add: wall_clock_def on_repo_state now_frame)

lemma keeps_cursor_of [pres_rules]: "pres (keeps_cursor E) (on_repo w (cursor_of D f off n i))"
  by (rule keeps_frame) (simp add: on_repo_state cursor_of_frame)

lemma keeps_build [pres_rules]: "pres (keeps_cursor E) (build_envelope E' t payload ts now)"
  unfolding build_envelope_def
  by (intro pres_bind keeps_cursor_preorder keeps_steps keeps_frame)
    (auto simp: Let_def split: sum.splits contract_error.splits)

lemma cursor_of_path: "post (on_repo w (cursor_of D f off n i)) (\<lambda>c. ic_source_path c = f \<and> ic_byte_offset c = off)"
  by (auto simp: post_def on_repo_def cursor_of_def bind_def ret_def split: prod.splits sum.splits)

lemma cursor_for_path:
  "post (cursor_for E l i) (\<lambda>c. ic_source_path c = ie_path E \<and> ic_byte_offset c = int (end_offset l) + 1)"
  unfolding cursor_for_def by (rule post_bind) (rule cursor_of_path)

lemma keeps_cursor_for [pres_rules]: "pres (keeps_cursor E) (cursor_for E' l i)"
  by (simp add: cursor_for_def pres_rules)

lemma saved_cursor:
  assumes "ready E r" and "save_ingestion_cursor c r = (z, r')"
  shows "ready E r' \<and> (case z of Inl e \<Rightarrow> rp_disk r' = rp_disk r
    | Inr x \<Rightarrow> read_ingestion_cursor (rp_disk r') (ic_source_path c) = Some c)"
proof -
  have work: "pres on_work (write_ingestion_cursor c)" by (simp add: write_ingestion_cursor_def pres_rules)
  have "ready E r'" using presD [OF ingested_save_cursor assms(2)] assms(1) by (simp add: ingested_def)
  moreover have "case z of Inl e \<Rightarrow> rp_disk r' = rp_disk r
    | Inr x \<Rightarrow> read_ingestion_cursor (rp_disk r') (ic_source_path c) = Some c"
    using transaction_Inl [OF work] transaction_Inr [OF work] assms(2) cursor_reads_back
    by (fastforce simp: save_ingestion_cursor_def split: sum.split)
  ultimately show ?thesis by simp
qed

lemma keeps_persist: "ic_source_path c = ie_path E \<Longrightarrow> pres (keeps_cursor E) (persist_cursor c)"
proof (rule presI)
  fix p :: pipe assume path: "ic_source_path c = ie_path E"
  obtain z r where run: "save_ingestion_cursor c (pl_repo p) = (z, r)" by fastforce
  show "keeps_cursor E p (snd (persist_cursor c p))"
    using saved_cursor [OF _ run] run path
    by (cases z) (auto simp: persist_cursor_def bind_def on_repo_def set_cursor_def keeps_cursor_def cursor_ok_def)
qed

lemma keeps_advance [pres_rules]: "pres (keeps_cursor E) (advance E l)"
  unfolding advance_def
  by (rule pres_bind_post [OF keeps_cursor_preorder keeps_cursor_for cursor_for_path]) (simp add: keeps_persist)

lemma keeps_store:
  assumes "ic_source_path c = ie_path E"
  shows "pres (keeps_cursor E) (bind (store_event E e c) (\<lambda>_. bind (set_cursor c) (\<lambda>_. bump f)))"
proof (rule presI)
  fix p :: pipe
  obtain z r where run: "insert_event_with_cursor (ie_db E) e c (pl_repo p) = (z, r)" by fastforce
  have "ready (ie_db E) (pl_repo p) \<Longrightarrow> ready (ie_db E) r \<and>
      (case z of Inl x \<Rightarrow> rp_disk r = rp_disk (pl_repo p) | Inr x \<Rightarrow> read_ingestion_cursor (rp_disk r) (ic_source_path c) = Some c)"
    using inserted_cursor [OF run] by simp
  then show "keeps_cursor E p (snd (bind (store_event E e c) (\<lambda>_. bind (set_cursor c) (\<lambda>_. bump f)) p))"
    using run assms
    by (cases z) (auto simp: store_event_def bind_def on_repo_def set_cursor_def bump_def keeps_cursor_def cursor_ok_def
        split: in_error.splits)
qed

lemma keeps_handle_event [pres_rules]: "pres (keeps_cursor E) (handle_event E l t payload ts)"
proof -
  have "pres (keeps_cursor E) (persist_event E l e)" for e
    unfolding persist_event_def
    by (rule pres_bind [OF keeps_cursor_preorder keeps_steps(1)],
        rule pres_bind_post [OF keeps_cursor_preorder keeps_cursor_for cursor_for_path]) (simp add: keeps_store)
  then show ?thesis unfolding handle_event_def by (auto intro!: pres_rules split: option.splits)
qed

lemma keeps_process_line [pres_rules]: "pres (keeps_cursor E) (process_line E l)"
proof -
  have "pres (keeps_cursor E) (handle_line E l n)" for n
    unfolding handle_line_def by (cases "nl_kind n") (auto intro!: pres_rules split: option.splits)
  then show ?thesis
    unfolding process_line_def start_line_def process_text_def malformed_def
    by (auto intro!: pres_rules split: option.splits sum.splits line_error.splits)
qed

lemma keeps_process_lines [pres_rules]: "pres (keeps_cursor E) (process_lines E ls)"
  by (induction ls) (simp_all add: pres_rules)

lemma keeps_rotation [pres_rules]: "pres (keeps_cursor E) (note_rotation E)"
  unfolding note_rotation_def
  by (rule pres_bind [OF keeps_cursor_preorder keeps_steps(1)],
      rule pres_bind_post [OF keeps_cursor_preorder keeps_cursor_of cursor_of_path]) (simp add: keeps_persist)

lemma keeps_stats [pres_rules]: "pres (keeps_cursor E) (stats E')"
  unfolding stats_def by (auto intro!: pres_rules split: option.splits)

lemma keeps_process_once: "pres (keeps_cursor E) (process_once E source)"
  unfolding process_once_def by (auto intro!: pres_rules)

text \<open>A step that either raises and leaves the cursor, or returns with the cursor past the line.\<close>

definition moves_past :: "raw_line \<Rightarrow> (pipe, in_error, unit) eff \<Rightarrow> bool" where
  "moves_past l m \<longleftrightarrow>
     (\<forall>p. case m p of (z, p') \<Rightarrow>
        (case z of
           Inl e \<Rightarrow> pl_cursor p' = pl_cursor p
         | Inr x \<Rightarrow> \<exists>c. pl_cursor p' = Some c \<and> ic_byte_offset c = int (end_offset l) + 1))"

text \<open>A step that leaves a component of the pipeline alone.\<close>

definition same_of :: "(pipe \<Rightarrow> 'x) \<Rightarrow> pipe \<Rightarrow> pipe \<Rightarrow> bool" where
  "same_of f p p' \<longleftrightarrow> f p' = f p"

lemma same_of_preorder [pres_rules]: "preorder_rel (same_of f)"
  by (simp add: preorder_rel_def same_of_def)

lemma moves_bind_post:
  assumes "pres (same_of pl_cursor) m" and "post m Q" and "\<And>x. Q x \<Longrightarrow> moves_past l (f x)"
  shows "moves_past l (bind m f)"
  unfolding moves_past_def
proof
  fix p
  obtain z p1 where m: "m p = (z, p1)" by fastforce
  have c: "pl_cursor p1 = pl_cursor p" using presD [OF assms(1) m] by (simp add: same_of_def)
  show "case bind m f p of (z, p') \<Rightarrow> (case z of Inl e \<Rightarrow> pl_cursor p' = pl_cursor p
      | Inr x \<Rightarrow> \<exists>c. pl_cursor p' = Some c \<and> ic_byte_offset c = int (end_offset l) + 1)"
  proof (cases z)
    case (Inl e)
    then show ?thesis using m c by (simp add: bind_def)
  next
    case (Inr x)
    then have "moves_past l (f x)" using assms(3) postD [OF assms(2)] m by blast
    then show ?thesis using m c Inr by (fastforce simp: bind_def moves_past_def split: prod.splits sum.splits)
  qed
qed

lemma moves_bind: "pres (same_of pl_cursor) m \<Longrightarrow> (\<And>x. moves_past l (f x)) \<Longrightarrow> moves_past l (bind m f)"
  by (rule moves_bind_post [where Q = "\<lambda>_. True"]) (auto simp: post_def)

lemma same_cursor [pres_rules]:
  "pres (same_of pl_cursor) (bump f)" "pres (same_of pl_cursor) (monotonic_ms E)" "pres (same_of pl_cursor) (on_repo w m)"
  "pres (same_of pl_cursor) (\<lambda>p. (Inr (), p\<lparr>pl_line_number := k p\<rparr>))" "pres (same_of pl_cursor) (reader_poll source)"
  by (rule presI; simp add: same_of_def bump_def monotonic_ms_def on_repo_state reader_poll_def split: prod.splits)+

lemma same_reader [pres_rules]:
  "pres (same_of pl_reader) (bump f)" "pres (same_of pl_reader) (monotonic_ms E)" "pres (same_of pl_reader) (on_repo w m)"
  "pres (same_of pl_reader) (\<lambda>p. (Inr (), p\<lparr>pl_line_number := k p\<rparr>))" "pres (same_of pl_reader) (set_cursor c)"
  by (rule presI; simp add: same_of_def bump_def monotonic_ms_def on_repo_state set_cursor_def split: prod.splits)+

lemma same_clock [pres_rules]:
  "pres (same_of pl_cursor) (wall_clock E)" "pres (same_of pl_cursor) (cursor_for E l i)"
  "pres (same_of pl_reader) (wall_clock E)" "pres (same_of pl_reader) (cursor_for E l i)"
  by (simp_all add: wall_clock_def cursor_for_def pres_rules)

lemma same_build:
  assumes "pres (same_of f) (monotonic_ms E)" and "\<And>p n. f (p\<lparr>pl_ids := n\<rparr>) = f p"
  shows "pres (same_of f) (build_envelope E t payload ts now)"
  unfolding build_envelope_def
  by (intro pres_bind same_of_preorder assms(1) presI)
    (auto simp: Let_def same_of_def assms(2) split: sum.splits contract_error.splits)

lemma same_builds [pres_rules]:
  "pres (same_of pl_cursor) (build_envelope E t payload ts now)" "pres (same_of pl_reader) (build_envelope E t payload ts now)"
  by (simp_all add: same_build pres_rules)

lemma same_reader_store [pres_rules]: "pres (same_of pl_reader) (store_event E e c)"
  by (rule presI) (simp add: store_event_def same_of_def on_repo_def split: prod.splits sum.splits in_error.splits)

lemma same_reader_lines [pres_rules]: "pres (same_of pl_reader) (process_lines E ls)"
proof -
  have advance: "pres (same_of pl_reader) (advance E l)" for l
    by (simp add: advance_def persist_cursor_def pres_rules)
  have event: "pres (same_of pl_reader) (handle_event E l t payload ts)" for l t payload ts
    unfolding handle_event_def persist_event_def by (auto intro!: pres_rules advance split: option.splits)
  have "pres (same_of pl_reader) (handle_line E l n)" for l n
    unfolding handle_line_def by (cases "nl_kind n") (auto intro!: pres_rules advance event split: option.splits)
  then have "pres (same_of pl_reader) (process_line E l)" for l
    unfolding process_line_def start_line_def process_text_def malformed_def
    by (auto intro!: pres_rules advance split: option.splits sum.splits line_error.splits)
  then show ?thesis by (induction ls) (simp_all add: pres_rules)
qed

lemma same_reader_stats [pres_rules]: "pres (same_of pl_reader) (stats E)"
  unfolding stats_def by (auto intro!: pres_rules split: option.splits)

lemma moves_raise: "moves_past l (raise e)"
  by (simp add: moves_past_def raise_def)

lemma moves_advance: "moves_past l (advance E l)"
proof -
  have "moves_past l (persist_cursor c)" if "ic_byte_offset c = int (end_offset l) + 1" for c
    using that
    by (auto simp: moves_past_def persist_cursor_def bind_def on_repo_def set_cursor_def split: prod.splits sum.splits)
  then show ?thesis
    unfolding advance_def by (intro moves_bind_post [OF same_clock(2) cursor_for_path]) simp
qed

lemma moves_persist: "moves_past l (persist_event E l e)"
proof -
  have "moves_past l (bind (store_event E e c) (\<lambda>_. bind (set_cursor c) (\<lambda>_. bump f)))"
    if "ic_byte_offset c = int (end_offset l) + 1" for c f
    using that
    by (auto simp: moves_past_def store_event_def bind_def on_repo_def set_cursor_def bump_def
        split: prod.splits sum.splits in_error.splits)
  then show ?thesis
    unfolding persist_event_def
    by (intro moves_bind [OF same_cursor(1)] moves_bind_post [OF same_clock(2) cursor_for_path]) simp
qed

lemma moves_process_line: "moves_past l (process_line E l)"
proof -
  have event: "moves_past l (handle_event E l t payload ts)" for t payload ts
    unfolding handle_event_def
    by (auto intro!: moves_bind pres_rules moves_advance moves_persist split: option.splits)
  have "moves_past l (handle_line E l n)" for n
    unfolding handle_line_def
    by (cases "nl_kind n") (auto intro!: moves_bind pres_rules moves_advance moves_raise event split: option.splits)
  then show ?thesis
    unfolding process_line_def start_line_def process_text_def malformed_def
    by (auto intro!: moves_bind pres_rules moves_advance moves_raise
        split: option.splits sum.splits line_error.splits)
qed

text \<open>The lines handled before a failure, and the cursor just after the last of them.\<close>

lemma process_lines_cursor:
  assumes "process_lines E ls p = (z, p')"
  shows "\<exists>handled rest p1. ls = handled @ rest \<and> process_lines E handled p = (Inr (), p1)
    \<and> (z = Inr () \<longrightarrow> rest = []) \<and> (\<forall>e. z = Inl e \<longrightarrow> rest \<noteq> [] \<and> process_line E (hd rest) p1 = (Inl e, p'))
    \<and> (if handled = [] then pl_cursor p' = pl_cursor p
       else (\<exists>c. pl_cursor p' = Some c \<and> ic_byte_offset c = int (end_offset (last handled)) + 1))"
  using assms
proof (induction ls arbitrary: p)
  case Nil
  then show ?case by (auto simp: ret_def)
next
  case (Cons l ls)
  obtain y p1 where l: "process_line E l p = (y, p1)" by fastforce
  note moved = moves_process_line [of l E, unfolded moves_past_def, rule_format, of p, unfolded l]
  show ?case
  proof (cases y)
    case (Inl e)
    then have "z = Inl e \<and> p' = p1" using Cons.prems l by (simp add: bind_def)
    then show ?thesis using Inl l moved by (intro exI [of _ "[]"] exI [of _ "l # ls"] exI [of _ p]) (simp add: ret_def)
  next
    case (Inr x)
    then have "process_lines E ls p1 = (z, p')" using Cons.prems l by (simp add: bind_def)
    from Cons.IH [OF this] obtain handled rest p2 where IH: "ls = handled @ rest" "process_lines E handled p1 = (Inr (), p2)"
      "z = Inr () \<longrightarrow> rest = []" "\<forall>e. z = Inl e \<longrightarrow> rest \<noteq> [] \<and> process_line E (hd rest) p2 = (Inl e, p')"
      "if handled = [] then pl_cursor p' = pl_cursor p1
       else (\<exists>c. pl_cursor p' = Some c \<and> ic_byte_offset c = int (end_offset (last handled)) + 1)"
      by blast
    then show ?thesis
      using Inr l moved
      by (intro exI [of _ "l # handled"] exI [of _ rest] exI [of _ p2]) (auto simp: bind_def split: if_splits)
  qed
qed

end
