(* ===== verification/InClaims.thy ===== *)
theory InClaims
  imports InInvariants PsClaims
begin

text \<open>
  Properties of the ingestion of bridge lines (\<open>src/collector/adapters\<close>), with the concrete inputs that
  show their hypotheses can hold.
\<close>

text \<open>C30. Over any number of polls of an append-only file, failed reads included, from any line boundary a
  stored cursor names: the lines delivered and the unfinished line held back, put together again, are the
  bytes of the file in order, none dropped and none repeated; each line carries its true offset, the
  reading position is the end of the delivered lines, and no rotation is reported.\<close>

theorem polls_deliver_the_file:
  assumes "append_only i start fs" and "polls (map Some fs) (new_reader (int (length start))) = (ps, r)"
  defines "ls \<equiv> concat (map pr_lines ps)"
  defines "taken \<equiv> start @ join_lines (map ln_data ls) @ rd_partial r"
  shows "prefix taken (content_after start fs)
    \<and> (\<forall>c. fs \<noteq> [] \<and> fs_read (last fs) = Some c \<and> fs_size (last fs) = length c \<longrightarrow> taken = c)
    \<and> ls = frame_lines (length start) (map ln_data ls)
    \<and> rd_offset r = length start + length (join_lines (map ln_data ls))
    \<and> (\<forall>p \<in> set ps. \<not> pr_rotation p)"
proof -
  have "has_seen i start (new_reader (int (length start)))" by (simp add: has_seen_def new_reader_def)
  from polls_from [OF this assms(1) prefix_order.refl assms(2)]
  obtain now where now: "prefix now (content_after start fs)" "ls = frame_lines (length start) (map ln_data ls)"
    "taken = now" "rd_offset r = length start + length (join_lines (map ln_data ls))" "\<forall>p \<in> set ps. \<not> pr_rotation p"
    "fs \<noteq> [] \<longrightarrow> (\<forall>c. fs_read (last fs) = Some c \<longrightarrow> fs_size (last fs) = length c \<longrightarrow> now = c)"
    unfolding ls_def taken_def by (auto simp: new_reader_def)
  then show ?thesis by auto
qed

lemma band_row_iff: "band_row row \<longleftrightarrow> (\<exists>t \<in> set out_of_band_events. cell row ''event_type'' = SqlText (event_type_value t))"
  by (auto simp: band_row_def)

text \<open>C28. Ingestion has no trading authority: whatever the source holds and however often it is polled, the
  only rows a run of the runner adds are events that are out of band (ticks, reconciliation, errors,
  timeouts), appended to the audit stream; trades, orders, positions and every other derived table stay
  as they were, also when the run ends with an exception.\<close>

theorem ingestion_writes_only_out_of_band:
  assumes "ready (ie_db E) (pl_repo p)" and "run_runner E sources p = (z, p')"
  shows "ready (ie_db E) (pl_repo p')
    \<and> (\<exists>rows. rp_disk (pl_repo p') ''events'' = rp_disk (pl_repo p) ''events'' @ rows
        \<and> (\<forall>row \<in> set rows. \<exists>t \<in> set out_of_band_events. cell row ''event_type'' = SqlText (event_type_value t)))
    \<and> (\<forall>t. t \<notin> {''events'', ''ingestion_cursor''} \<longrightarrow> rp_disk (pl_repo p') t = rp_disk (pl_repo p) t)"
proof -
  have "pres (pipe_ingested E) (run_runner E sources)"
    unfolding run_runner_def by (intro pres_bind pipe_ingested_preorder pipe_stats pipe_run_loop)
  from presD [OF this assms(2)] show ?thesis
    using assms(1) unfolding pipe_ingested_def ingested_def band_row_iff by blast
qed

lemma stats_returns: "\<exists>st n. stats E p = (Inr st, p\<lparr>pl_readings := n\<rparr>) \<and> st_counters st = pl_counters p"
proof (cases "ct_last_read_monotonic (pl_counters p)")
  case None
  let ?st = "\<lparr>st_counters = pl_counters p,
      st_cursor_offset = (case pl_cursor p of None \<Rightarrow> 0 | Some k \<Rightarrow> ic_byte_offset k), st_lag_ms = None, st_source = ie_path E\<rparr>"
  have "stats E p = (Inr ?st, p\<lparr>pl_readings := pl_readings p\<rparr>)"
    using None by (simp add: stats_def bind_def gets_def ret_def)
  then show ?thesis by (intro exI [of _ ?st] exI [of _ "pl_readings p"]) simp
next
  case (Some m)
  let ?st = "\<lparr>st_counters = pl_counters p,
      st_cursor_offset = (case pl_cursor p of None \<Rightarrow> 0 | Some k \<Rightarrow> ic_byte_offset k),
      st_lag_ms = Some (max 0 (ie_monotonic E (pl_readings p) - m)), st_source = ie_path E\<rparr>"
  have "stats E p = (Inr ?st, p\<lparr>pl_readings := Suc (pl_readings p)\<rparr>)"
    using Some by (simp add: stats_def bind_def gets_def monotonic_ms_def ret_def)
  then show ?thesis by (intro exI [of _ ?st] exI [of _ "Suc (pl_readings p)"]) simp
qed

lemma poll_unavailable: "pr_unavailable (fst (poll source r)) \<Longrightarrow> pr_lines (fst (poll source r)) = []"
  by (auto simp: poll_def take_chunk_def nothing_read_def Let_def split: option.splits if_splits prod.splits)

text \<open>C29. The cursor in the database stops at the first line that is not fully handled: when a poll cycle that
  finds no rotation of its source ends, by returning or by an exception, the lines it polled split into
  handled ones and the rest, the handled ones were each completed, the rest is empty exactly when the
  cycle returns, and the stored position is just after the last handled line. When no line was handled,
  the stored position is the one that was stored before, whether the pipeline holds a cursor or not, as
  after every restart. At the start the repository is ready and the cursor the pipeline holds, if it
  holds one, is the stored one of its source.\<close>

theorem cursor_stops_at_unhandled_line:
  assumes "cursor_ok E p" and "process_once E source p = (z, p')"
    and "\<not> pr_rotation (fst (poll source (pl_reader p)))"
  shows "\<exists>handled rest p1.
      pr_lines (fst (poll source (pl_reader p))) = handled @ rest
      \<and> process_lines E handled (p\<lparr>pl_reader := snd (poll source (pl_reader p))\<rparr>) = (Inr (), p1) \<and> (rest = [] \<longleftrightarrow> (\<exists>st. z = Inr st))
      \<and> (if handled = []
         then pl_cursor p' = pl_cursor p
           \<and> read_ingestion_cursor (rp_disk (pl_repo p')) (ie_path E) = read_ingestion_cursor (rp_disk (pl_repo p)) (ie_path E)
         else \<exists>c. pl_cursor p' = Some c \<and> read_ingestion_cursor (rp_disk (pl_repo p')) (ie_path E) = Some c
           \<and> ic_byte_offset c = int (end_offset (last handled)) + 1)"
proof -
  obtain res rd where poll: "poll source (pl_reader p) = (res, rd)" by fastforce
  let ?p0 = "p\<lparr>pl_reader := rd\<rparr>"
  obtain y p2 where lines: "process_lines E (pr_lines res) ?p0 = (y, p2)" by fastforce
  have "pr_unavailable res \<longrightarrow> pr_lines res = []" using poll_unavailable [of source "pl_reader p"] poll by simp
  then have run: "process_once E source p = (case y of Inl e \<Rightarrow> (Inl e, p2) | Inr u \<Rightarrow> stats E p2)"
    using assms(3) lines
    by (cases y) (auto simp: process_once_def bind_def reader_poll_def poll ret_def)
  have ok: "cursor_ok E p'" "pl_cursor p' = None \<longrightarrow>
      read_ingestion_cursor (rp_disk (pl_repo p')) (ie_path E) = read_ingestion_cursor (rp_disk (pl_repo p)) (ie_path E)"
    using presD [OF keeps_process_once assms(2)] assms(1) by (simp_all add: keeps_cursor_def)
  obtain st n where "stats E p2 = (Inr st, p2\<lparr>pl_readings := n\<rparr>)" using stats_returns by blast
  then have z: "(\<exists>st. z = Inr st) \<longleftrightarrow> y = Inr ()" and c: "pl_cursor p' = pl_cursor p2"
    using run assms(2) by (cases y; auto)+
  from process_lines_cursor [OF lines] obtain handled rest p1 where h: "pr_lines res = handled @ rest"
    "process_lines E handled ?p0 = (Inr (), p1)" "y = Inr () \<longrightarrow> rest = []"
    "\<forall>e. y = Inl e \<longrightarrow> rest \<noteq> [] \<and> process_line E (hd rest) p1 = (Inl e, p2)"
    "if handled = [] then pl_cursor p2 = pl_cursor ?p0
     else (\<exists>c. pl_cursor p2 = Some c \<and> ic_byte_offset c = int (end_offset (last handled)) + 1)"
    by blast
  have "rest = [] \<longleftrightarrow> (\<exists>st. z = Inr st)" using h(3,4) z by (cases y) auto
  moreover have "if handled = []
      then pl_cursor p' = pl_cursor p
        \<and> read_ingestion_cursor (rp_disk (pl_repo p')) (ie_path E) = read_ingestion_cursor (rp_disk (pl_repo p)) (ie_path E)
      else \<exists>c. pl_cursor p' = Some c \<and> read_ingestion_cursor (rp_disk (pl_repo p')) (ie_path E) = Some c
        \<and> ic_byte_offset c = int (end_offset (last handled)) + 1"
    using h(5) ok assms(1) c by (cases "pl_cursor p'") (auto simp: cursor_ok_def split: if_splits)
  ultimately show ?thesis
    using h(1,2) poll by (intro exI [of _ handled] exI [of _ rest] exI [of _ p1]) simp
qed

section \<open>A cycle that finds nothing new\<close>

lemma process_once_reader:
  assumes "process_once E source p = (z, p')"
  shows "pl_reader p' = snd (poll source (pl_reader p))"
proof -
  obtain res rd where poll: "poll source (pl_reader p) = (res, rd)" by fastforce
  have "pres (same_of pl_reader) (bind (if pr_rotation res then note_rotation E else ret ()) (\<lambda>_.
      if pr_unavailable res then stats E else bind (process_lines E (pr_lines res)) (\<lambda>_. stats E)))"
    by (auto simp: note_rotation_def persist_cursor_def intro!: pres_rules)
  from presD [OF this] show ?thesis
    using assms by (auto simp: process_once_def bind_def [of "reader_poll source"] reader_poll_def poll same_of_def)
qed

lemma process_once_stats:
  assumes "process_once E source p = (Inr st, p')"
  shows "st_counters st = pl_counters p'"
proof -
  have "stats E p1 = (Inr st, p') \<Longrightarrow> ?thesis" for p1 using stats_returns [of E p1] by fastforce
  then show ?thesis using assms unfolding process_once_def by (auto elim!: bind_InrE split: if_splits)
qed

definition nothing_new :: "source_stat option \<Rightarrow> pipe \<Rightarrow> bool" where
  "nothing_new source p \<longleftrightarrow>
     (case poll source (pl_reader p) of (res, rd) \<Rightarrow>
        pr_lines res = [] \<and> rd = pl_reader p \<and> \<not> pr_rotation res \<and> \<not> pr_unavailable res)"

lemma quiet_cycle:
  assumes "nothing_new source p"
  shows "\<exists>st n. process_once E source p = (Inr st, p\<lparr>pl_readings := n\<rparr>) \<and> st_counters st = pl_counters p"
proof -
  have "process_once E source p = stats E p"
    using assms by (auto simp: nothing_new_def process_once_def bind_def reader_poll_def ret_def split: prod.splits)
  then show ?thesis using stats_returns by metis
qed

lemma nothing_new_again:
  assumes "process_once E (Some f) p = (z, p')" and "fs_read f = Some c" and "fs_size f = length c"
  shows "nothing_new (Some f) p'"
proof -
  obtain res rd where poll: "poll (Some f) (pl_reader p) = (res, rd)" by fastforce
  show ?thesis
    using poll_again [OF poll assms(2,3)] process_once_reader [OF assms(1)] poll
    by (auto simp: nothing_new_def split: prod.splits)
qed

text \<open>A batch that failed is not read again: after a poll cycle that ended with an exception (such as the
  persistence failure the runner retries), the next cycle on the same file finds no line, reports
  success, and changes neither the database nor a counter nor the cursor. The lines after the failure
  are only read again when the process restarts, and not even then if a later line moved the cursor on.\<close>

theorem failed_batch_is_not_retried:
  assumes "process_once E (Some f) p = (Inl x, p1)" and "fs_read f = Some c" and "fs_size f = length c"
  shows "\<exists>st p2. process_once E (Some f) p1 = (Inr st, p2) \<and> pl_repo p2 = pl_repo p1 \<and> pl_cursor p2 = pl_cursor p1
    \<and> pl_counters p2 = pl_counters p1 \<and> st_counters st = pl_counters p1"
  using quiet_cycle [OF nothing_new_again [OF assms]] by fastforce

lemma quiet_replay:
  assumes "nothing_new source p"
  shows "\<exists>st' n. replay_loop E (\<lambda>_. source) m k st p = (Inr st', p\<lparr>pl_readings := n\<rparr>)
    \<and> (st' = st \<or> st_counters st' = pl_counters p)"
  using assms
proof (induction "m - k" arbitrary: k st p)
  case 0
  have "p = p\<lparr>pl_readings := pl_readings p\<rparr>" by simp
  moreover have "replay_loop E (\<lambda>_. source) m k st p = (Inr st, p)"
    using 0 by (subst replay_loop.simps) (simp add: ret_def)
  ultimately show ?case by metis
next
  case (Suc d)
  obtain st1 n where one: "process_once E source p = (Inr st1, p\<lparr>pl_readings := n\<rparr>)" "st_counters st1 = pl_counters p"
    using quiet_cycle [OF Suc.prems] by blast
  let ?p = "p\<lparr>pl_readings := n\<rparr>"
  have "k < m" using Suc.hyps(2) by arith
  have "nothing_new source ?p" using Suc.prems by (simp add: nothing_new_def)
  from Suc.hyps(1) [OF _ this, of "Suc k" st1] Suc.hyps(2)
  obtain st' n' where rest: "replay_loop E (\<lambda>_. source) m (Suc k) st1 ?p = (Inr st', p\<lparr>pl_readings := n'\<rparr>)"
    "st' = st1 \<or> st_counters st' = pl_counters p"
    by fastforce
  have "replay_loop E (\<lambda>_. source) m k st p =
      (if ct_lines_read (st_counters st1) = 0 \<or> \<not> holds_partial (pl_reader p) then (Inr st1, ?p)
       else replay_loop E (\<lambda>_. source) m (Suc k) st1 ?p)"
    using \<open>k < m\<close> one(1) by (subst replay_loop.simps) (simp add: bind_def gets_def ret_def)
  then show ?case using one(2) rest by (metis (no_types, lifting))
qed

text \<open>C31. Replay terminates, and on a file that does not change it has the effect of a single poll cycle: the
  loop returns for every bound on its cycles, and the database, the reader, the cursor and all the counts
  are those after the first cycle, however many cycles an unfinished last line makes it run.\<close>

theorem replay_settles:
  assumes "process_once E (Some f) p = (Inr st1, p1)" and "fs_read f = Some c" and "fs_size f = length c" and "0 < m"
  shows "\<exists>st p2. replay_loop E (\<lambda>_. Some f) m 0 st0 p = (Inr st, p2) \<and> pl_repo p2 = pl_repo p1
    \<and> pl_reader p2 = pl_reader p1 \<and> pl_cursor p2 = pl_cursor p1 \<and> pl_counters p2 = pl_counters p1
    \<and> st_counters st = pl_counters p1"
proof -
  obtain st' n where rest: "replay_loop E (\<lambda>_. Some f) m (Suc 0) st1 p1 = (Inr st', p1\<lparr>pl_readings := n\<rparr>)"
    "st' = st1 \<or> st_counters st' = pl_counters p1"
    using quiet_replay [OF nothing_new_again [OF assms(1-3)]] by blast
  have "replay_loop E (\<lambda>_. Some f) m 0 st0 p =
      (if ct_lines_read (st_counters st1) = 0 \<or> \<not> holds_partial (pl_reader p1) then (Inr st1, p1)
       else replay_loop E (\<lambda>_. Some f) m (Suc 0) st1 p1)"
    using assms(1,4) by (subst replay_loop.simps) (simp add: bind_def gets_def ret_def)
  then show ?thesis
    using rest process_once_stats [OF assms(1)]
    by (cases "ct_lines_read (st_counters st1) = 0 \<or> \<not> holds_partial (pl_reader p1)") auto
qed

section \<open>Lines that stop the stream\<close>

lemma frame_lines_of_new:
  assumes "fs_read f = Some c" and "fs_size f = length c" and "0 \<le> k" and "drop (nat k) c \<noteq> []"
    and "frame_buffer (drop (nat k) c) = (frames, rest)"
  shows "fst (poll (Some f) (new_reader k)) =
    \<lparr>pr_lines = frame_lines (nat k) frames, pr_offset = length c - length rest, pr_held_partial = rest \<noteq> [],
     pr_rotation = False, pr_unavailable = False, pr_reads = length c - nat k\<rparr>"
proof -
  have k: "nat k < length c" using assms(4) by simp
  moreover have "\<not> is_rotation (new_reader k) f" using k assms(2,3) by (simp add: is_rotation_def new_reader_def)
  ultimately show ?thesis
    using assms
    by (auto simp: poll_same_stream take_chunk_def new_reader_def Let_def holds_partial_def)
qed

lemma split_newline_first: "newline \<notin> set w \<Longrightarrow> split_newline (w @ newline # s) = w # split_newline s"
  by (induction w) auto

lemma poison_first:
  assumes "newline \<notin> set bad" and "rest = [] \<or> last rest = newline"
  shows "\<exists>frames. frame_buffer (bad @ newline # rest) = (bad # frames, [])"
proof -
  have "bad @ newline # rest \<noteq> [] \<and> last (bad @ newline # rest) = newline" using assms(2) by auto
  then show ?thesis using split_newline_first [OF assms(1), of rest] by (simp add: frame_buffer_def)
qed

text \<open>C33. A complete line that is not UTF-8 stops ingestion for good: the exception it raises is not one the
  runner handles, nothing is stored, and the cursor stays before the line, so that every later start of
  the runner on this database and file ends in the same way, whatever lines follow.\<close>

theorem undecodable_line_blocks_every_restart:
  assumes "start_runner E r = (Inr p, r1)"
    and "fs_read f = Some c" and "fs_size f = length c"
    and "drop (rd_offset (pl_reader p)) c = bad @ newline # rest"
    and "newline \<notin> set bad" and "rest = [] \<or> last rest = newline"
    and "\<exists>x \<in> set bad. 128 \<le> (of_char x :: nat)" and "ie_decode E bad = None"
  shows "\<exists>p'. run_runner E (Some f # sources) p = (Inl Undecodable, p')
    \<and> rp_disk (pl_repo p') = rp_disk r \<and> pl_cursor p' = None"
proof -
  obtain k where rd: "pl_reader p = new_reader k" "pl_cursor p = None" "rp_disk (pl_repo p) = rp_disk r"
    using assms(1)
    by (auto simp: start_runner_def new_pipe_def bind_def open_repo_def get_ingestion_cursor_def connection_def gets_def
        split: if_splits prod.splits sum.splits)
  define k' where "k' = int (nat (max k 0))"
  have rd': "pl_reader p = new_reader k'" "0 \<le> k'" "rd_offset (pl_reader p) = nat k'"
    by (simp_all add: rd(1) k'_def new_reader_def)
  obtain frames where fb: "frame_buffer (bad @ newline # rest) = (bad # frames, [])" using poison_first [OF assms(5,6)] by blast
  have dr: "drop (nat k') c = bad @ newline # rest" using assms(4) rd'(3) by simp
  then have ne: "drop (nat k') c \<noteq> []" by simp
  have "pr_lines (fst (poll (Some f) (pl_reader p))) = frame_lines (nat k') (bad # frames)"
    "\<not> pr_rotation (fst (poll (Some f) (pl_reader p)))" "\<not> pr_unavailable (fst (poll (Some f) (pl_reader p)))"
    using frame_lines_of_new [OF assms(2,3) rd'(2) ne, unfolded dr, OF fb] by (simp_all add: rd'(1))
  then obtain res rd2 l ls where poll: "poll (Some f) (pl_reader p) = (res, rd2)" and res: "pr_lines res = l # ls" "ln_data l = bad"
    "\<not> pr_rotation res" "\<not> pr_unavailable res"
    by (cases "poll (Some f) (pl_reader p)") auto
  have undecoded: "to_text E l = None" using assms(7,8) res(2) by (auto simp: to_text_def list_all_iff not_less)
  obtain st n where st: "stats E p = (Inr st, p\<lparr>pl_readings := n\<rparr>)" using stats_returns by blast
  let ?q = "p\<lparr>pl_readings := n, pl_reader := rd2\<rparr>"
  have "\<exists>q. process_line E l ?q = (Inl Undecodable, q) \<and> pl_repo q = pl_repo p \<and> pl_cursor q = pl_cursor p"
    by (simp add: process_line_def start_line_def bind_def bump_def monotonic_ms_def raise_def undecoded)
  then obtain q where q: "process_line E l ?q = (Inl Undecodable, q)" "pl_repo q = pl_repo p" "pl_cursor q = pl_cursor p"
    by blast
  have "process_once E (Some f) (p\<lparr>pl_readings := n\<rparr>) = (Inl Undecodable, q)"
    using poll res q(1) by (simp add: process_once_def bind_def reader_poll_def ret_def)
  then have "run_runner E (Some f # sources) p = (Inl Undecodable, q)"
    using st by (simp add: run_runner_def bind_def)
  then show ?thesis using q(2,3) rd(2,3) by simp
qed








section \<open>Concrete inputs\<close>

text \<open>Two one-letter lines stand for an error event and a heartbeat.\<close>

definition sample_error_line :: pydict where
  "sample_error_line =
     [(''event_type'', PStr ''ERROR''), (''ts_bridge'', PStr ''2026-08-17T10:00:00Z''),
      (''payload'', PDict [(''error_code'', PStr ''E1''), (''component'', PStr ''mql5''), (''severity'', PStr ''ERROR''),
        (''message'', PStr ''x''), (''trade_id'', PNone)])]"

definition sample_in_env :: in_env where
  "sample_in_env =
     \<lparr>ie_db = sample_db_env, ie_path = ''b'', ie_decode = (\<lambda>s. None),
      ie_json = (\<lambda>s. if s = ''e'' then Some (PDict sample_error_line)
        else if s = ''h'' then Some (PDict [(''event_type'', PStr ''HEARTBEAT''), (''payload'', PDict [])]) else None),
      ie_schema_ok = (\<lambda>v. True), ie_uuid = (\<lambda>n. sample_id (CHR ''1'')), ie_monotonic = int\<rparr>"

definition sample_file :: "string \<Rightarrow> source_stat" where
  "sample_file s = \<lparr>fs_identity = (1, 1), fs_size = length s, fs_read = Some s\<rparr>"

abbreviation sample_pipe :: pipe where
  "sample_pipe \<equiv> new_pipe sample_repo (new_reader 0)"

lemma sample_file_simps [simp]:
  "fs_read (sample_file s) = Some s" "fs_size (sample_file s) = length s" "fs_identity (sample_file s) = (1, 1)"
  by (simp_all add: sample_file_def)

lemma sample_pipe_ready: "ready (ie_db sample_in_env) (pl_repo sample_pipe)" "cursor_ok sample_in_env sample_pipe"
  using sample_ready by (simp_all add: sample_in_env_def new_pipe_def cursor_ok_def)

definition nl_text :: "string list \<Rightarrow> string" where
  "nl_text ws = join_lines ws"

lemma sample_polls:
  "case polls (map Some [sample_file (nl_text [''a''] @ ''b''), sample_file (nl_text [''a'', ''bc''])]) (new_reader 0) of
     (ps, r) \<Rightarrow> map ln_data (concat (map pr_lines ps)) = [''a'', ''bc''] \<and> rd_partial r = []"
  by code_simp

theorem polls_deliver_the_file_witness:
  "\<exists>ps r. polls (map Some [sample_file (nl_text [''a''] @ ''b''), sample_file (nl_text [''a'', ''bc''])]) (new_reader 0) = (ps, r)
     \<and> join_lines (map ln_data (concat (map pr_lines ps))) @ rd_partial r = nl_text [''a'', ''bc'']"
proof -
  let ?fs = "[sample_file (nl_text [''a''] @ ''b''), sample_file (nl_text [''a'', ''bc''])]"
  obtain ps r where run: "polls (map Some ?fs) (new_reader (int (length ([] :: string)))) = (ps, r)" by fastforce
  have "append_only (1, 1) [] ?fs" by (simp add: nl_text_def)
  from polls_deliver_the_file [OF this run] show ?thesis using run by simp
qed

theorem ingestion_writes_only_out_of_band_witness:
  "rp_disk (pl_repo (snd (run_runner sample_in_env [Some (sample_file ''e'')] sample_pipe))) ''orders'' = []"
proof -
  obtain z p' where run: "run_runner sample_in_env [Some (sample_file ''e'')] sample_pipe = (z, p')" by fastforce
  show ?thesis
    using ingestion_writes_only_out_of_band [OF sample_pipe_ready(1) run] run by (simp add: new_pipe_def sample_repo_def)
qed

lemma sample_one_event:
  "case process_once sample_in_env (Some (sample_file (nl_text [''e'']))) sample_pipe of
     (z, p') \<Rightarrow> (case z of Inl x \<Rightarrow> False | Inr st \<Rightarrow> ct_events_persisted (st_counters st) = 1)"
  by code_simp

theorem cursor_stops_at_unhandled_line_witness:
  "\<exists>z p'. process_once sample_in_env (Some (sample_file (nl_text [''e'']))) sample_pipe = (z, p')
     \<and> (pl_cursor p' = None \<or> (\<exists>c. read_ingestion_cursor (rp_disk (pl_repo p')) ''b'' = Some c))"
proof -
  obtain z p' where run: "process_once sample_in_env (Some (sample_file (nl_text [''e'']))) sample_pipe = (z, p')" by fastforce
  have "\<not> pr_rotation (fst (poll (Some (sample_file (nl_text [''e'']))) (pl_reader sample_pipe)))"
    by code_simp
  from cursor_stops_at_unhandled_line [OF sample_pipe_ready(2) run this] show ?thesis
    using run by (cases "pl_cursor p'") (auto simp: sample_in_env_def new_pipe_def split: if_splits)
qed

lemma sample_failed_cycle:
  "case process_once sample_in_env (Some (sample_file (nl_text [''h'']))) (new_pipe (sample_repo\<lparr>rp_open := False\<rparr>) (new_reader 0)) of
     (z, p') \<Rightarrow> (case z of Inl (Persistence_failure e) \<Rightarrow> True | _ \<Rightarrow> False)"
  by code_simp

theorem failed_batch_is_not_retried_witness:
  "\<exists>e p1 st p2.
     process_once sample_in_env (Some (sample_file (nl_text [''h'']))) (new_pipe (sample_repo\<lparr>rp_open := False\<rparr>) (new_reader 0))
       = (Inl (Persistence_failure e), p1)
     \<and> process_once sample_in_env (Some (sample_file (nl_text [''h'']))) p1 = (Inr st, p2) \<and> pl_cursor p2 = pl_cursor p1"
proof -
  obtain e p1 where run: "process_once sample_in_env (Some (sample_file (nl_text [''h''])))
      (new_pipe (sample_repo\<lparr>rp_open := False\<rparr>) (new_reader 0)) = (Inl (Persistence_failure e), p1)"
    using sample_failed_cycle by (auto split: prod.splits sum.splits in_error.splits)
  from failed_batch_is_not_retried [OF run] show ?thesis using run by fastforce
qed

theorem replay_settles_witness:
  "\<forall>st0. \<exists>st p2. replay_loop sample_in_env (\<lambda>_. Some (sample_file (nl_text [''e'']))) 100 0 st0 sample_pipe = (Inr st, p2)
     \<and> ct_events_persisted (st_counters st) = 1"
proof
  fix st0
  obtain st1 p1 where run: "process_once sample_in_env (Some (sample_file (nl_text [''e'']))) sample_pipe = (Inr st1, p1)"
    and one: "ct_events_persisted (st_counters st1) = 1"
    using sample_one_event by (auto split: prod.splits sum.splits)
  from replay_settles [OF run, of _ 100 st0] one process_once_stats [OF run]
  show "\<exists>st p2. replay_loop sample_in_env (\<lambda>_. Some (sample_file (nl_text [''e'']))) 100 0 st0 sample_pipe = (Inr st, p2)
     \<and> ct_events_persisted (st_counters st) = 1" by fastforce
qed

lemma sample_restart:
  "case start_runner sample_in_env (sample_repo\<lparr>rp_open := False\<rparr>) of (z, r) \<Rightarrow> (case z of Inl e \<Rightarrow> False
     | Inr p \<Rightarrow> rd_offset (pl_reader p) = 0)"
  by code_simp

theorem undecodable_line_blocks_every_restart_witness:
  "\<exists>p r1 p'. start_runner sample_in_env (sample_repo\<lparr>rp_open := False\<rparr>) = (Inr p, r1)
     \<and> run_runner sample_in_env [Some (sample_file (nl_text [[CHR 0xFF], ''e'']))] p = (Inl Undecodable, p')"
proof -
  obtain p r1 where start: "start_runner sample_in_env (sample_repo\<lparr>rp_open := False\<rparr>) = (Inr p, r1)"
    and off: "rd_offset (pl_reader p) = 0"
    using sample_restart by (auto split: prod.splits sum.splits)
  have "drop (rd_offset (pl_reader p)) (nl_text [[CHR 0xFF], ''e'']) = [CHR 0xFF] @ newline # (''e'' @ [newline])"
    by (simp add: off nl_text_def)
  from undecodable_line_blocks_every_restart [OF start _ _ this, of "sample_file (nl_text [[CHR 0xFF], ''e''])" "[]"]
  show ?thesis using start by (auto simp: newline_def sample_in_env_def)
qed



end
