(* ===== verification/PsSchema.thy ===== *)
theory PsSchema
  imports PsRepository
begin

text \<open>
  The schema and its migrations: \<open>src/collector/persistence/schema.py\<close> and \<open>migrations.py\<close>. A DDL
  statement is the object it creates unless it exists; the state is what the database has of objects and
  the rows of \<open>schema_migrations\<close>. Other reasons for \<open>sqlite3.DatabaseError\<close> (a full disk, a damaged
  file) are the argument \<open>fails\<close>: whether the statement at a position of a migration raises. Position
  \<open>length statements\<close> is the insertion of the migration's own row.
\<close>

section \<open>The schema\<close>

datatype column_type = Text_type | Integer_type | Real_type

record column =
  co_name :: string
  co_type :: column_type
  co_primary :: bool
  co_not_null :: bool
  co_default :: "int option"

definition typed_column :: "column_type \<Rightarrow> string \<Rightarrow> column" where
  "typed_column t n = \<lparr>co_name = n, co_type = t, co_primary = False, co_not_null = False, co_default = None\<rparr>"

definition key_column :: "string \<Rightarrow> column" where
  "key_column n = (typed_column Text_type n)\<lparr>co_primary := True\<rparr>"

definition text_column :: "string \<Rightarrow> column" where
  "text_column = typed_column Text_type"

definition real_column :: "string \<Rightarrow> column" where
  "real_column = typed_column Real_type"

definition not_null :: "column \<Rightarrow> column" where
  "not_null c = c\<lparr>co_not_null := True\<rparr>"

datatype ddl =
    Create_table string "column list"
  | Create_index string string "string list"
  | Create_trigger string string string string

definition schema_migrations_columns :: "column list" where
  "schema_migrations_columns =
     [(typed_column Integer_type ''version'')\<lparr>co_primary := True\<rparr>, not_null (text_column ''name''),
      not_null (text_column ''applied_at'')]"

definition events_ddl :: ddl where
  "events_ddl = Create_table ''events''
     [key_column ''event_id'', not_null (text_column ''event_type''), not_null (text_column ''ts_event''),
      not_null (text_column ''ts_collected''), not_null (typed_column Integer_type ''ts_monotonic''),
      text_column ''correlation_id'', text_column ''trade_id'', not_null (text_column ''component''),
      not_null (text_column ''severity''), not_null (text_column ''schema_version''),
      not_null (text_column ''payload_json''), not_null (text_column ''checksum'')]"

definition trades_ddl :: ddl where
  "trades_ddl = Create_table ''trades''
     [key_column ''trade_id'', text_column ''correlation_id'', text_column ''inference_id'', text_column ''order_id'',
      text_column ''position_id'', text_column ''direction'', real_column ''lot'', real_column ''entry_price'',
      real_column ''exit_price'', text_column ''entry_ts'', text_column ''exit_ts'', real_column ''mfe'',
      real_column ''mae'', real_column ''net_pnl'', real_column ''tx_cost'', text_column ''exit_reason'',
      (not_null (typed_column Integer_type ''valid_flag''))\<lparr>co_default := Some 1\<rparr>, text_column ''invalid_reason'',
      not_null (text_column ''updated_at'')]"

definition orders_ddl :: ddl where
  "orders_ddl = Create_table ''orders''
     [key_column ''broker_order_id'', text_column ''trade_id'', real_column ''requested_price'',
      real_column ''requested_lot'', text_column ''order_state'', text_column ''submit_ts'', text_column ''ack_ts'',
      text_column ''done_ts'', text_column ''broker_response'', not_null (text_column ''updated_at'')]"

definition positions_ddl :: ddl where
  "positions_ddl = Create_table ''positions''
     [key_column ''broker_position_id'', text_column ''trade_id'', text_column ''direction'', real_column ''lot'',
      real_column ''open_price'', real_column ''close_price'', text_column ''open_ts'', text_column ''close_ts'',
      text_column ''state'', not_null (text_column ''updated_at'')]"

definition market_snapshots_ddl :: ddl where
  "market_snapshots_ddl = Create_table ''market_snapshots''
     [key_column ''snapshot_id'', text_column ''trade_id'', not_null (text_column ''ts''), text_column ''bar_m1'',
      text_column ''bar_m5'', real_column ''atr_m1'', real_column ''atr_m5'', text_column ''prices_json'',
      text_column ''features_json'']"

definition reconciliation_ddl :: ddl where
  "reconciliation_ddl = Create_table ''reconciliation_events''
     [key_column ''reconciliation_id'', not_null (text_column ''ts''), text_column ''trade_id'',
      text_column ''local_state_json'', text_column ''broker_state_json'', text_column ''result'', text_column ''details'']"

definition invalid_trades_ddl :: ddl where
  "invalid_trades_ddl = Create_table ''invalid_trades''
     [key_column ''trade_id'', not_null (text_column ''invalid_reason''), not_null (text_column ''detected_ts''),
      text_column ''payload_json'']"

definition ingestion_cursor_ddl :: ddl where
  "ingestion_cursor_ddl = Create_table ''ingestion_cursor''
     [key_column ''source_path'', not_null (typed_column Integer_type ''byte_offset''),
      typed_column Integer_type ''line_number'', text_column ''last_event_id'', not_null (text_column ''updated_ts'')]"

definition reconciliation_runs_ddl :: ddl where
  "reconciliation_runs_ddl = Create_table ''reconciliation_runs''
     [key_column ''reconciliation_id'', not_null (text_column ''trigger''), not_null (text_column ''signature''),
      not_null (text_column ''result''), not_null (text_column ''action''),
      not_null (typed_column Integer_type ''mismatch''), not_null (text_column ''run_ts'')]"

definition reconciliation_adoptions_ddl :: ddl where
  "reconciliation_adoptions_ddl = Create_table ''reconciliation_adoptions''
     [key_column ''adoption_id'', not_null (text_column ''reconciliation_id''), not_null (text_column ''entity_type''),
      not_null (text_column ''broker_id''), text_column ''symbol'', text_column ''direction'', real_column ''volume'',
      real_column ''open_price'', text_column ''broker_state'', not_null (text_column ''reason''),
      not_null (text_column ''adopted_ts'')]"

definition indexes_ddl :: "ddl list" where
  "indexes_ddl =
     [Create_index ''idx_events_trade_ts'' ''events'' [''trade_id'', ''ts_event''],
      Create_index ''idx_events_correlation_ts'' ''events'' [''correlation_id'', ''ts_event''],
      Create_index ''idx_events_type_ts'' ''events'' [''event_type'', ''ts_event''],
      Create_index ''idx_events_checksum'' ''events'' [''checksum'']]"

definition append_only_triggers_ddl :: "ddl list" where
  "append_only_triggers_ddl =
     [Create_trigger ''events_no_update'' ''UPDATE'' ''events'' ''events table is append-only: UPDATE is forbidden'',
      Create_trigger ''events_no_delete'' ''DELETE'' ''events'' ''events table is append-only: DELETE is forbidden'']"

definition schema_statements :: "ddl list" where
  "schema_statements =
     [events_ddl] @ indexes_ddl @ append_only_triggers_ddl
     @ [trades_ddl, orders_ddl, positions_ddl, market_snapshots_ddl, reconciliation_ddl, invalid_trades_ddl]"

definition migration_2_statements :: "ddl list" where
  "migration_2_statements = [ingestion_cursor_ddl]"

definition migration_3_statements :: "ddl list" where
  "migration_3_statements = [reconciliation_runs_ddl, reconciliation_adoptions_ddl]"

section \<open>Migrations\<close>

record schema_state =
  sd_tables :: "(string \<times> column list) list"
  sd_indexes :: "(string \<times> string \<times> string list) list"
  sd_triggers :: "(string \<times> string \<times> string \<times> string) list"
  sd_applied :: "(int \<times> string \<times> string) list"

definition empty_schema :: schema_state where
  "empty_schema = \<lparr>sd_tables = [], sd_indexes = [], sd_triggers = [], sd_applied = []\<rparr>"

definition create_table :: "string \<Rightarrow> column list \<Rightarrow> schema_state \<Rightarrow> schema_state" where
  "create_table n cs s =
     (if n \<in> fst ` set (sd_tables s) then s else s\<lparr>sd_tables := sd_tables s @ [(n, cs)]\<rparr>)"

text \<open>One statement; \<open>None\<close> is \<open>sqlite3.DatabaseError\<close>, here for a table that does not exist.\<close>

fun run_ddl :: "ddl \<Rightarrow> schema_state \<Rightarrow> schema_state option" where
  "run_ddl (Create_table n cs) s = Some (create_table n cs s)"
| "run_ddl (Create_index n t cs) s =
     (if n \<in> fst ` set (sd_indexes s) then Some s
      else if t \<in> fst ` set (sd_tables s) then Some (s\<lparr>sd_indexes := sd_indexes s @ [(n, t, cs)]\<rparr>) else None)"
| "run_ddl (Create_trigger n ev t m) s =
     (if n \<in> fst ` set (sd_triggers s) then Some s
      else if t \<in> fst ` set (sd_tables s) then Some (s\<lparr>sd_triggers := sd_triggers s @ [(n, ev, t, m)]\<rparr>) else None)"

record migration =
  mg_version :: int
  mg_name :: string
  mg_statements :: "ddl list"

definition migrations :: "migration list" where
  "migrations =
     [\<lparr>mg_version = 1, mg_name = ''initial_schema'', mg_statements = schema_statements\<rparr>,
      \<lparr>mg_version = 2, mg_name = ''ingestion_cursor'', mg_statements = migration_2_statements\<rparr>,
      \<lparr>mg_version = 3, mg_name = ''reconciliation_metadata'', mg_statements = migration_3_statements\<rparr>]"

definition applied_versions :: "schema_state \<Rightarrow> int list" where
  "applied_versions s = map fst (sd_applied s)"

fun run_statements :: "(nat \<Rightarrow> bool) \<Rightarrow> nat \<Rightarrow> ddl list \<Rightarrow> schema_state \<Rightarrow> schema_state option" where
  "run_statements fails i [] s = Some s"
| "run_statements fails i (x # xs) s =
     (if fails i then None
      else case run_ddl x s of None \<Rightarrow> None | Some s' \<Rightarrow> run_statements fails (Suc i) xs s')"

text \<open>The body of the transaction of a migration; when a statement, the \<open>INSERT\<close> into
  \<open>schema_migrations\<close> or the \<open>COMMIT\<close> raises, the state is as it was: it is rolled back, and when the
  \<open>ROLLBACK\<close> fails too, \<open>open\<close> closes the connection and with it the transaction. A \<open>BEGIN IMMEDIATE\<close>
  that fails is outside the model: it raises before anything is written.\<close>

definition migrate_one :: "(int \<Rightarrow> nat \<Rightarrow> bool) \<Rightarrow> (int \<Rightarrow> string) \<Rightarrow> migration \<Rightarrow> schema_state \<Rightarrow> schema_state option" where
  "migrate_one fails clock m s =
     (case run_statements (fails (mg_version m)) 0 (mg_statements m) s of
        None \<Rightarrow> None
      | Some s' \<Rightarrow>
          if fails (mg_version m) (length (mg_statements m)) then None
          else Some (s'\<lparr>sd_applied := sd_applied s' @ [(mg_version m, mg_name m, clock (mg_version m))]\<rparr>))"

datatype migration_error = Migration_failed int string

fun apply_pending ::
  "(int \<Rightarrow> nat \<Rightarrow> bool) \<Rightarrow> (int \<Rightarrow> string) \<Rightarrow> int list \<Rightarrow> int list \<Rightarrow> migration list \<Rightarrow>
   (schema_state, migration_error, int list) eff" where
  "apply_pending fails clock applied newly [] s = (Inr newly, s)"
| "apply_pending fails clock applied newly (m # ms) s =
     (if mg_version m \<in> set applied then apply_pending fails clock applied newly ms s
      else case migrate_one fails clock m s of
          None \<Rightarrow> (Inl (Migration_failed (mg_version m) (mg_name m)), s)
        | Some s' \<Rightarrow> apply_pending fails clock applied (newly @ [mg_version m]) ms s')"

definition apply_migrations ::
  "(int \<Rightarrow> nat \<Rightarrow> bool) \<Rightarrow> (int \<Rightarrow> string) \<Rightarrow> (schema_state, migration_error, int list) eff" where
  "apply_migrations fails clock s =
     (let s' = create_table ''schema_migrations'' schema_migrations_columns s in
      apply_pending fails clock (applied_versions s') [] migrations s')"

section \<open>Lemmas\<close>

lemma run_statements_shift: "run_statements (\<lambda>_. False) j xs s = run_statements (\<lambda>_. False) k xs s"
proof (induction xs arbitrary: j k s)
  case (Cons x xs)
  then show ?case using Cons.IH [of "Suc j" _ "Suc k"] by (simp split: option.split)
qed simp

lemma run_statements_cases:
  "run_statements f i xs s = None \<or> run_statements f i xs s = run_statements (\<lambda>_. False) 0 xs s"
proof (induction xs arbitrary: i s)
  case (Cons x xs)
  show ?case using Cons.IH [of "Suc i"] run_statements_shift [of "Suc 0" xs _ 0] by (simp split: option.split)
qed simp

lemma migrate_one_cases:
  "migrate_one fails clock m s = None
   \<or> migrate_one fails clock m s = migrate_one (\<lambda>_ _. False) clock m s"
  using run_statements_cases [of "fails (mg_version m)" 0 "mg_statements m" s]
  by (auto simp: migrate_one_def split: option.split)

lemma apply_pending_skips:
  "mg_version ` set ms \<subseteq> set applied \<Longrightarrow> apply_pending fails clock applied newly ms s = (Inr newly, s)"
  by (induction ms) auto

section \<open>The versions of the schema\<close>

text \<open>What the database holds after the first \<open>k\<close> migrations.\<close>

definition upgraded :: "nat \<Rightarrow> (int \<Rightarrow> string) \<Rightarrow> schema_state" where
  "upgraded k clock = snd (apply_pending (\<lambda>_ _. False) clock [] [] (take k migrations)
     (create_table ''schema_migrations'' schema_migrations_columns empty_schema))"

definition same_objects :: "schema_state \<Rightarrow> schema_state \<Rightarrow> bool" where
  "same_objects s t \<longleftrightarrow>
     sd_tables s = sd_tables t \<and> sd_indexes s = sd_indexes t \<and> sd_triggers s = sd_triggers t
     \<and> applied_versions s = applied_versions t"

lemmas ddl_defs = schema_migrations_columns_def events_ddl_def trades_ddl_def orders_ddl_def positions_ddl_def
  market_snapshots_ddl_def reconciliation_ddl_def invalid_trades_ddl_def ingestion_cursor_ddl_def
  reconciliation_runs_ddl_def reconciliation_adoptions_ddl_def indexes_ddl_def append_only_triggers_ddl_def

lemma upgraded_versions:
  "applied_versions (upgraded 0 c) = []" "applied_versions (upgraded 1 c) = [1]"
  "applied_versions (upgraded 2 c) = [1, 2]" "applied_versions (upgraded 3 c) = [1, 2, 3]"
  by (simp_all add: upgraded_def migrations_def migrate_one_def schema_statements_def migration_2_statements_def
    migration_3_statements_def ddl_defs create_table_def empty_schema_def applied_versions_def numeral_eq_Suc)

lemma create_table_cong: "same_objects s t \<Longrightarrow> same_objects (create_table n cs s) (create_table n cs t)"
  by (simp add: same_objects_def create_table_def applied_versions_def)

lemma run_ddl_cong: "same_objects s t \<Longrightarrow> rel_option same_objects (run_ddl x s) (run_ddl x t)"
  by (cases x) (simp_all add: create_table_cong, simp_all add: same_objects_def applied_versions_def)

lemma run_statements_cong:
  "same_objects s t \<Longrightarrow> rel_option same_objects (run_statements f i xs s) (run_statements f i xs t)"
proof (induction xs arbitrary: i s t)
  case (Cons x xs)
  have "rel_option same_objects (run_ddl x s) (run_ddl x t)" by (rule run_ddl_cong [OF Cons.prems])
  then show ?case
    by (cases rule: option.rel_cases) (simp_all add: Cons.IH)
qed simp

lemma migrate_one_cong:
  assumes "same_objects s t"
  shows "rel_option same_objects (migrate_one f c m s) (migrate_one f c' m t)"
proof -
  have "rel_option same_objects (run_statements (f (mg_version m)) 0 (mg_statements m) s)
      (run_statements (f (mg_version m)) 0 (mg_statements m) t)"
    by (rule run_statements_cong [OF assms])
  then show ?thesis
    by (cases rule: option.rel_cases) (simp_all add: migrate_one_def same_objects_def applied_versions_def)
qed

lemma migrations_nth:
  "migrations ! 0 = \<lparr>mg_version = 1, mg_name = ''initial_schema'', mg_statements = schema_statements\<rparr>"
  "migrations ! 1 = \<lparr>mg_version = 2, mg_name = ''ingestion_cursor'', mg_statements = migration_2_statements\<rparr>"
  "migrations ! 2 = \<lparr>mg_version = 3, mg_name = ''reconciliation_metadata'', mg_statements = migration_3_statements\<rparr>"
  by (simp_all add: migrations_def)

lemma migrations_version: "k < 3 \<Longrightarrow> mg_version (migrations ! k) = int k + 1"
  by (auto simp: migrations_def less_Suc_eq numeral_eq_Suc)

lemma migrate_some:
  assumes "k < 3" shows "migrate_one (\<lambda>_ _. False) c (migrations ! k) (upgraded k c) \<noteq> None"
proof -
  consider "k = 0" | "k = 1" | "k = 2" using assms by linarith
  then show ?thesis
    by cases (simp_all add: upgraded_def migrations_def migrate_one_def schema_statements_def migration_2_statements_def
      migration_3_statements_def ddl_defs create_table_def empty_schema_def numeral_eq_Suc)
qed

lemma upgraded_step:
  assumes "k < 3" shows "migrate_one (\<lambda>_ _. False) c (migrations ! k) (upgraded k c) = Some (upgraded (Suc k) c)"
proof -
  have app: "apply_pending f c a n (ms @ ms') s =
      (case apply_pending f c a n ms s of (z, s') \<Rightarrow>
        (case z of Inl e \<Rightarrow> (Inl e, s') | Inr n' \<Rightarrow> apply_pending f c a n' ms' s'))" for f a n ms ms' s
    by (induction ms arbitrary: n s) (simp_all split: option.split)
  have ok: "\<exists>n s. apply_pending (\<lambda>_ _. False) c [] [] (take k migrations)
      (create_table ''schema_migrations'' schema_migrations_columns empty_schema) = (Inr n, s)"
    using assms
  proof (induction k)
    case (Suc k)
    then obtain n s where run: "apply_pending (\<lambda>_ _. False) c [] [] (take k migrations)
      (create_table ''schema_migrations'' schema_migrations_columns empty_schema) = (Inr n, s)" by auto
    then have "s = upgraded k c" by (simp add: upgraded_def)
    then obtain s' where "migrate_one (\<lambda>_ _. False) c (migrations ! k) s = Some s'"
      using migrate_some [of k c] Suc.prems by auto
    moreover have "take (Suc k) migrations = take k migrations @ [migrations ! k]"
      using Suc.prems by (intro take_Suc_conv_app_nth) (simp add: migrations_def)
    ultimately show ?case using run by (simp add: app)
  qed simp
  then obtain n s where run: "apply_pending (\<lambda>_ _. False) c [] [] (take k migrations)
      (create_table ''schema_migrations'' schema_migrations_columns empty_schema) = (Inr n, s)" by auto
  moreover have "take (Suc k) migrations = take k migrations @ [migrations ! k]"
    using assms by (intro take_Suc_conv_app_nth) (simp add: migrations_def)
  ultimately show ?thesis
    using migrate_some [OF assms, of c] by (auto simp: upgraded_def app)
qed

lemma apply_pending_from:
  assumes "j \<le> k" and "k \<le> 3" and "same_objects s (upgraded k c0)"
  shows "\<exists>k'. k \<le> k' \<and> k' \<le> 3
    \<and> same_objects (snd (apply_pending fails clock (map int [1..<Suc j]) newly (drop k migrations) s)) (upgraded k' c0)
    \<and> fst (apply_pending fails clock (map int [1..<Suc j]) newly (drop k migrations) s) =
        (if k' = 3 then Inr (newly @ map int [Suc k..<4])
         else Inl (Migration_failed (int k' + 1) (mg_name (migrations ! k'))))
    \<and> ((\<forall>v i. \<not> fails v i) \<longrightarrow> k' = 3)"
  using assms
proof (induction "3 - k" arbitrary: k newly s)
  case 0
  then have "k = 3" by simp
  then show ?case using 0 by (auto simp: migrations_def)
next
  case (Suc x)
  then have k: "k < 3" by simp
  then have drop: "drop k migrations = migrations ! k # drop (Suc k) migrations"
    by (intro Cons_nth_drop_Suc [symmetric]) (simp add: migrations_def)
  have fresh: "mg_version (migrations ! k) \<notin> set (map int [1..<Suc j])"
    using Suc.prems(1) k by (auto simp: migrations_version)
  show ?case
  proof (cases "migrate_one fails clock (migrations ! k) s")
    case None
    have "\<not> (\<forall>v i. \<not> fails v i)"
    proof
      assume "\<forall>v i. \<not> fails v i"
      then have "fails = (\<lambda>_ _. False)" by (intro ext) simp
      then show False
        using None migrate_one_cong [OF Suc.prems(3), of "\<lambda>_ _. False" clock "migrations ! k" c0] upgraded_step [OF k, of c0]
        by simp
    qed
    then show ?thesis
      using None Suc.prems k fresh by (intro exI [of _ k]) (simp add: drop migrations_version)
  next
    case (Some s')
    then have "migrate_one (\<lambda>_ _. False) clock (migrations ! k) s = Some s'"
      using migrate_one_cases [of fails clock "migrations ! k" s] by simp
    then have same: "same_objects s' (upgraded (Suc k) c0)"
      using migrate_one_cong [OF Suc.prems(3), of "\<lambda>_ _. False" clock "migrations ! k" c0] upgraded_step [OF k, of c0]
      by simp
    have pre: "x = 3 - Suc k" "j \<le> Suc k" "Suc k \<le> 3" using Suc.hyps(2) Suc.prems(1) k by simp_all
    obtain k' where k': "Suc k \<le> k'" "k' \<le> 3"
      "same_objects (snd (apply_pending fails clock (map int [1..<Suc j]) (newly @ [int k + 1]) (drop (Suc k) migrations) s')) (upgraded k' c0)"
      "fst (apply_pending fails clock (map int [1..<Suc j]) (newly @ [int k + 1]) (drop (Suc k) migrations) s') =
        (if k' = 3 then Inr ((newly @ [int k + 1]) @ map int [Suc (Suc k)..<4])
         else Inl (Migration_failed (int k' + 1) (mg_name (migrations ! k'))))"
      "(\<forall>v i. \<not> fails v i) \<longrightarrow> k' = 3"
      using Suc.hyps(1) [OF pre same, of "newly @ [int k + 1]"] by (elim exE conjE)
    moreover have "map int [Suc k..<4] = (int k + 1) # map int [Suc (Suc k)..<4]"
      using k by (simp add: upt_conv_Cons)
    ultimately show ?thesis
      using Some fresh k by (intro exI [of _ k']) (simp add: drop migrations_version)
  qed
qed

lemma upgraded_cong: "k \<le> 3 \<Longrightarrow> same_objects (upgraded k c) (upgraded k c')"
proof (induction k)
  case 0
  then show ?case by (simp add: upgraded_def same_objects_def)
next
  case (Suc k)
  then have "same_objects (upgraded k c) (upgraded k c')" by simp
  then show ?case
    using migrate_one_cong [of "upgraded k c" "upgraded k c'" "\<lambda>_ _. False" c "migrations ! k" c'] upgraded_step [of k] Suc.prems
    by simp
qed

lemma upgraded_applied: "j \<le> 3 \<Longrightarrow> applied_versions (upgraded j c) = map int [1..<Suc j]"
proof -
  assume "j \<le> 3"
  then consider "j = 0" | "j = 1" | "j = 2" | "j = 3" by linarith
  then show ?thesis
  proof cases
    case 1
    then show ?thesis by (simp add: upgraded_versions)
  next
    case 2
    have "map int [1..<Suc 1] = [1]" by code_simp
    then show ?thesis using 2 upgraded_versions(2) [of c] by (simp only:)
  next
    case 3
    have "map int [1..<Suc 2] = [1, 2]" by code_simp
    then show ?thesis using 3 upgraded_versions(3) [of c] by (simp only:)
  next
    case 4
    have "map int [1..<Suc 3] = [1, 2, 3]" by code_simp
    then show ?thesis using 4 upgraded_versions(4) [of c] by (simp only:)
  qed
qed

lemma upgraded_table:
  assumes "j \<le> 3" shows "''schema_migrations'' \<in> fst ` set (sd_tables (upgraded j c))"
proof -
  consider "j = 0" | "j = 1" | "j = 2" | "j = 3" using assms by linarith
  then show ?thesis
    by cases (simp_all add: upgraded_def migrations_def migrate_one_def schema_statements_def migration_2_statements_def
      migration_3_statements_def ddl_defs create_table_def empty_schema_def numeral_eq_Suc)
qed

lemma upgraded_start:
  assumes "s = empty_schema \<and> j = 0 \<or> j \<le> 3 \<and> same_objects s (upgraded j c0)"
  shows "j \<le> 3 \<and> same_objects (create_table ''schema_migrations'' schema_migrations_columns s) (upgraded j c0)"
    and "j \<le> 3 \<Longrightarrow> same_objects s (upgraded j c0) \<Longrightarrow> create_table ''schema_migrations'' schema_migrations_columns s = s"
proof -
  have kept: "create_table ''schema_migrations'' schema_migrations_columns s = s" if "j \<le> 3" "same_objects s (upgraded j c0)"
    using upgraded_table [OF that(1), of c0] that(2) by (simp add: create_table_def same_objects_def)
  then show "j \<le> 3 \<and> same_objects (create_table ''schema_migrations'' schema_migrations_columns s) (upgraded j c0)"
    and "j \<le> 3 \<Longrightarrow> same_objects s (upgraded j c0) \<Longrightarrow> create_table ''schema_migrations'' schema_migrations_columns s = s"
    using assms kept by (auto simp: upgraded_def same_objects_def)
qed

lemma apply_pending_drop:
  assumes "\<forall>i < j. mg_version (ms ! i) \<in> set applied" and "j \<le> length ms"
  shows "apply_pending fails clock applied newly ms s = apply_pending fails clock applied newly (drop j ms) s"
  using assms
proof (induction ms arbitrary: j)
  case (Cons m ms)
  show ?case
  proof (cases j)
    case (Suc i)
    have "mg_version m \<in> set applied" using Cons.prems(1) Suc by auto
    moreover have "\<forall>k < i. mg_version (ms ! k) \<in> set applied" using Cons.prems(1) Suc by (metis Suc_less_eq nth_Cons_Suc)
    ultimately show ?thesis using Cons.IH [of i] Cons.prems(2) Suc by simp
  qed simp
qed simp

end
