(* ===== verification/PsIntegrity.thy ===== *)
theory PsIntegrity
  imports PsAudit
begin

text \<open>
  Integrity verification: \<open>src/collector/persistence/integrity.py\<close>. \<open>quick\<close> is the first column of
  \<open>PRAGMA quick_check\<close>, \<open>None\<close> when it has no row, and \<open>shown\<close> is that row as an f-string prints it. The
  order of the groups of a \<open>GROUP BY\<close> is that of their first rows here; only the text of one check
  depends on it.
\<close>

section \<open>Model\<close>

datatype check_status = CHECK_PASS | CHECK_WARNING | CHECK_ERROR

record integrity_check =
  ic_name :: string
  ic_status :: check_status
  ic_detail :: string

definition check_passed :: "integrity_check \<Rightarrow> bool" where
  "check_passed c \<longleftrightarrow> ic_status c = CHECK_PASS"

definition report_status :: "integrity_check list \<Rightarrow> check_status" where
  "report_status checks =
     (if list_ex (\<lambda>c. ic_status c = CHECK_ERROR) checks then CHECK_ERROR
      else if list_ex (\<lambda>c. ic_status c = CHECK_WARNING) checks then CHECK_WARNING else CHECK_PASS)"

definition add_check :: "string \<Rightarrow> check_status \<Rightarrow> string \<Rightarrow> integrity_check" where
  "add_check name status detail = \<lparr>ic_name = name, ic_status = status, ic_detail = detail\<rparr>"

definition quick_check :: "string option \<Rightarrow> string \<Rightarrow> integrity_check" where
  "quick_check quick shown =
     (if quick \<noteq> Some ''ok'' then add_check ''quick_check'' CHECK_ERROR (''quick_check returned '' @ shown)
      else add_check ''quick_check'' CHECK_PASS ''ok'')"

definition count_check :: "database \<Rightarrow> integrity_check" where
  "count_check d = add_check ''event_count'' CHECK_PASS (show_nat (length (d ''events'')) @ '' event(s)'')"

text \<open>The event ids stored more than once, with how often.\<close>

definition repeated_ids :: "database \<Rightarrow> (sqlval \<times> nat) list" where
  "repeated_ids d =
     (let ids = map (\<lambda>row. cell row ''event_id'') (d ''events'')
      in filter (\<lambda>vn. 1 < snd vn) (map (\<lambda>v. (v, length (filter ((=) v) ids))) (remdups ids)))"

definition cell_shown :: "sqlval \<Rightarrow> string" where
  "cell_shown v = (case cell_text v of None \<Rightarrow> ''None'' | Some s \<Rightarrow> s)"

definition duplicate_ids :: "database \<Rightarrow> integrity_check" where
  "duplicate_ids d =
     (if repeated_ids d = [] then add_check ''duplicate_event_ids'' CHECK_PASS ''ok''
      else add_check ''duplicate_event_ids'' CHECK_ERROR
        (join '', '' (map (\<lambda>vn. cell_shown (fst vn) @ ''x'' @ show_nat (snd vn)) (repeated_ids d))))"

definition row_mismatch :: "(pyval \<Rightarrow> string) \<Rightarrow> sqlrow \<Rightarrow> string option" where
  "row_mismatch digest row =
     (let shown = cell_shown (cell row ''event_id''); invalid = Some (shown @ ''(invalid)'') in
      case cell_json (cell row ''payload_json'') of
        None \<Rightarrow> invalid
      | Some p \<Rightarrow>
          (let data = PDict (row_data row @ [(''payload'', p)]) in
           case validate_event_dict data of
             Inl e \<Rightarrow> invalid
           | Inr t \<Rightarrow>
               (case envelope_from_dict digest data of
                  Inl e \<Rightarrow> invalid
                | Inr e \<Rightarrow> if envelope_verifies digest e then None else Some shown)))"

definition verify_checksums :: "(pyval \<Rightarrow> string) \<Rightarrow> database \<Rightarrow> integrity_check" where
  "verify_checksums digest d =
     (let mismatches = List.map_filter (row_mismatch digest) (d ''events'') in
      if mismatches = [] then add_check ''checksum_verification'' CHECK_PASS ''ok''
      else add_check ''checksum_verification'' CHECK_ERROR (''mismatch(es): '' @ join '', '' mismatches))"

definition orphan_rows :: "database \<Rightarrow> string \<Rightarrow> sqlrow list" where
  "orphan_rows d t =
     filter (\<lambda>row. cell row ''trade_id'' \<noteq> SqlNull
         \<and> \<not> list_ex (\<lambda>e. cell e ''trade_id'' = cell row ''trade_id'') (d ''events''))
       (d t)"

definition orphan_check :: "database \<Rightarrow> string \<Rightarrow> integrity_check" where
  "orphan_check d t =
     (if orphan_rows d t = [] then add_check (''orphan_'' @ t) CHECK_PASS ''ok''
      else add_check (''orphan_'' @ t) CHECK_WARNING
        (show_nat (length (orphan_rows d t)) @ '' row(s) reference trade_id(s) absent from the event stream''))"

definition incomplete_positions :: "database \<Rightarrow> sqlrow list" where
  "incomplete_positions d =
     filter (\<lambda>row. cell row ''state'' = SqlText ''CLOSED''
         \<and> (cell row ''close_price'' = SqlNull \<or> cell row ''close_ts'' = SqlNull))
       (d ''positions'')"

definition closed_positions_check :: "database \<Rightarrow> integrity_check" where
  "closed_positions_check d =
     (if incomplete_positions d = [] then add_check ''closed_positions_incomplete'' CHECK_PASS ''ok''
      else add_check ''closed_positions_incomplete'' CHECK_WARNING
        (show_nat (length (incomplete_positions d)) @ '' closed position(s) lack close data''))"

definition orphan_tables :: "string list" where
  "orphan_tables = [''orders'', ''positions'', ''reconciliation_events'', ''market_snapshots'']"

definition run_integrity_checks :: "(pyval \<Rightarrow> string) \<Rightarrow> string option \<Rightarrow> string \<Rightarrow> database \<Rightarrow> integrity_check list" where
  "run_integrity_checks digest quick shown d =
     [quick_check quick shown, count_check d, duplicate_ids d, verify_checksums digest d]
     @ map (orphan_check d) orphan_tables @ [closed_positions_check d]"

section \<open>What the checks find\<close>

lemma add_check_status [simp]: "ic_status (add_check n s t) = s"
  by (simp add: add_check_def)

lemma distinct_count: "distinct xs \<longleftrightarrow> (\<forall>x \<in> set xs. length (filter ((=) x) xs) \<le> 1)"
proof (induction xs)
  case (Cons a xs)
  have none: "length (filter ((=) a) xs) = 0 \<longleftrightarrow> a \<notin> set xs" by (auto simp: filter_empty_conv)
  show ?case
  proof (cases "a \<in> set xs")
    case True
    then show ?thesis using none by auto
  next
    case False
    then have "length (filter ((=) x) (a # xs)) = length (filter ((=) x) xs)" if "x \<in> set xs" for x
      using that by auto
    then show ?thesis using Cons False none by auto
  qed
qed simp

lemma repeated_ids_keyed: "repeated_ids d = [] \<longleftrightarrow> keyed ''event_id'' (d ''events'')"
  unfolding repeated_ids_def keyed_def distinct_count Let_def by (auto simp: filter_empty_conv not_less)

lemma row_data_distinct: "distinct (dkeys (row_data row @ [(''payload'', p)]))"
  by (simp add: row_data_def unless_null_def dkeys_def)

lemma row_reads_verified: "row_to_event digest row = Inr e \<Longrightarrow> envelope_verifies digest e"
  using from_dict_round_trip(4) row_data_distinct by (auto simp: row_to_event_def split: option.splits)

lemma row_mismatch_iff: "row_mismatch digest row = None \<longleftrightarrow> (\<exists>e. row_to_event digest row = Inr e)"
proof (cases "row_to_event digest row")
  case (Inl e)
  then show ?thesis by (auto simp: row_mismatch_def row_to_event_def Let_def split: option.splits sum.splits)
next
  case (Inr e)
  then show ?thesis
    using row_reads_verified [OF Inr]
    by (auto simp: row_mismatch_def row_to_event_def Let_def envelope_from_dict_def
      split: option.splits sum.splits if_splits)
qed

text \<open>\<open>from_dict\<close> verifies the checksum itself, so a wrong checksum is always reported as invalid.\<close>

lemma row_mismatch_invalid: "row_mismatch digest row = Some s \<Longrightarrow> s = cell_shown (cell row ''event_id'') @ ''(invalid)''"
proof -
  assume m: "row_mismatch digest row = Some s"
  then have "\<nexists>e. row_to_event digest row = Inr e" using row_mismatch_iff [of digest row] by auto
  then show ?thesis
    using m by (auto simp: row_mismatch_def row_to_event_def Let_def split: option.splits sum.splits)
qed

lemma map_filter_Nil: "List.map_filter f xs = [] \<longleftrightarrow> (\<forall>x \<in> set xs. f x = None)"
  by (induction xs) (auto simp: List.map_filter_def)

lemma report_error_iff:
  "report_status (run_integrity_checks digest quick shown d) = CHECK_ERROR \<longleftrightarrow>
     quick \<noteq> Some ''ok'' \<or> \<not> keyed ''event_id'' (d ''events'')
     \<or> (\<exists>row \<in> set (d ''events''). \<forall>e. row_to_event digest row \<noteq> Inr e)"
proof -
  have orphans: "ic_status (orphan_check d t) \<noteq> CHECK_ERROR" for t by (simp add: orphan_check_def)
  have "report_status (run_integrity_checks digest quick shown d) = CHECK_ERROR \<longleftrightarrow>
      ic_status (quick_check quick shown) = CHECK_ERROR \<or> ic_status (duplicate_ids d) = CHECK_ERROR
      \<or> ic_status (verify_checksums digest d) = CHECK_ERROR"
    using orphans
    by (auto simp: report_status_def run_integrity_checks_def list_ex_iff count_check_def closed_positions_check_def)
  moreover have "ic_status (verify_checksums digest d) = CHECK_ERROR \<longleftrightarrow>
      (\<exists>row \<in> set (d ''events''). \<forall>e. row_to_event digest row \<noteq> Inr e)"
    using row_mismatch_iff by (auto simp: verify_checksums_def Let_def map_filter_Nil)
  ultimately show ?thesis by (simp add: quick_check_def duplicate_ids_def repeated_ids_keyed)
qed

lemma audit_ok_no_error:
  "audit_ok digest d \<Longrightarrow> report_status (run_integrity_checks digest (Some ''ok'') shown d) \<noteq> CHECK_ERROR"
  unfolding report_error_iff audit_ok_def by fastforce

end
