(* ===== verification/PsUpkeep.thy ===== *)
theory PsUpkeep
  imports PsSchema PsIntegrity PsClaims
begin

text \<open>Properties of the schema, its migrations and the integrity checks.\<close>

section \<open>Statements and schema\<close>




















section \<open>Migrations\<close>

text \<open>C19. Migrations are transactional and resumable. Start from a new database, or from one at version
  \<open>j\<close>, and let statements fail wherever they may (all but the \<open>BEGIN\<close> of a migration): the run ends at some version \<open>k\<close> not below \<open>j\<close> with
  exactly the objects and the recorded versions of that version, so no migration is applied in part or
  twice. It reports the versions it applied when it reaches version 3, and otherwise the migration
  that failed; when nothing fails it does reach version 3. Migrating a complete database changes
  nothing.\<close>

theorem migrations_resume:
  assumes "s = empty_schema \<and> j = 0 \<or> j \<le> 3 \<and> same_objects s (upgraded j c0)"
  shows "(\<exists>k. j \<le> k \<and> k \<le> 3
      \<and> same_objects (snd (apply_migrations fails clock s)) (upgraded k c0)
      \<and> fst (apply_migrations fails clock s) =
          (if k = 3 then Inr (map int [Suc j..<4])
           else Inl (Migration_failed (int k + 1) (mg_name (migrations ! k))))
      \<and> ((\<forall>v i. \<not> fails v i) \<longrightarrow> k = 3))
    \<and> (j = 3 \<longrightarrow> apply_migrations fails clock s = (Inr [], s))"
proof -
  let ?s = "create_table ''schema_migrations'' schema_migrations_columns s"
  have start: "j \<le> 3 \<and> same_objects ?s (upgraded j c0)" 
    and kept: "j \<le> 3 \<Longrightarrow> same_objects s (upgraded j c0) \<Longrightarrow> ?s = s"
    using assms upgraded_start by auto
  then have applied: "applied_versions ?s = map int [1..<Suc j]"
    using upgraded_applied by (simp add: same_objects_def)
  have skip: "apply_pending fails clock (map int [1..<Suc j]) [] migrations ?s
      = apply_pending fails clock (map int [1..<Suc j]) [] (drop j migrations) ?s"
  proof (rule apply_pending_drop)
    have "int (Suc i) \<in> int ` set [1..<Suc j]" if "i < j" for i using that by (intro imageI) (auto intro: Suc_leI)
    then show "\<forall>i < j. mg_version (migrations ! i) \<in> set (map int [1..<Suc j])"
      using start by (simp add: migrations_version add.commute)
    show "j \<le> length migrations" using start by (simp add: migrations_def)
  qed
  have run: "apply_migrations fails clock s = apply_pending fails clock (map int [1..<Suc j]) [] (drop j migrations) ?s"
    unfolding apply_migrations_def Let_def applied skip ..
  have "apply_migrations fails clock s = (Inr [], s)" if "j = 3"
    using that assms kept by (auto simp: run migrations_def)
  moreover have "\<exists>k. j \<le> k \<and> k \<le> 3
      \<and> same_objects (snd (apply_migrations fails clock s)) (upgraded k c0)
      \<and> fst (apply_migrations fails clock s) =
          (if k = 3 then Inr (map int [Suc j..<4])
           else Inl (Migration_failed (int k + 1) (mg_name (migrations ! k))))
      \<and> ((\<forall>v i. \<not> fails v i) \<longrightarrow> k = 3)"
    using apply_pending_from [of j j ?s c0 fails clock "[]", OF le_refl conjunct1 [OF start] conjunct2 [OF start]]
    unfolding run append_Nil .
  ultimately show ?thesis by blast
qed

text \<open>The second statement of the third migration fails, then nothing does.\<close>

definition interrupted_migration :: "(migration_error + int list) \<times> schema_state" where
  "interrupted_migration = apply_migrations (\<lambda>v i. v = 3 \<and> i = 1) (\<lambda>v. []) empty_schema"

lemma interrupted_result: "fst interrupted_migration = Inl (Migration_failed 3 ''reconciliation_metadata'')"
  by code_simp

theorem migrations_resume_witness:
  "same_objects (snd interrupted_migration) (upgraded 2 (\<lambda>v. []))
   \<and> fst (apply_migrations (\<lambda>v i. False) (\<lambda>v. []) (snd interrupted_migration)) = Inr [3]"
proof -
  obtain k where k: "k \<le> 3" "same_objects (snd interrupted_migration) (upgraded k (\<lambda>v. []))"
      "fst interrupted_migration =
        (if k = 3 then Inr (map int [Suc 0..<4]) else Inl (Migration_failed (int k + 1) (mg_name (migrations ! k))))"
    using migrations_resume [of empty_schema 0 "\<lambda>v. []" "\<lambda>v i. v = 3 \<and> i = 1" "\<lambda>v. []"]
    unfolding interrupted_migration_def by blast
  have "k = 2" using k(3) unfolding interrupted_result by (simp split: if_splits)
  then have two: "same_objects (snd interrupted_migration) (upgraded 2 (\<lambda>v. []))" using k(2) by simp
  have "map int [Suc 2..<4] = [3]" by code_simp
  moreover obtain k' where "fst (apply_migrations (\<lambda>v i. False) (\<lambda>v. []) (snd interrupted_migration)) =
      (if k' = 3 then Inr (map int [Suc 2..<4]) else Inl (Migration_failed (int k' + 1) (mg_name (migrations ! k'))))"
    and "k' = 3"
    using migrations_resume [of "snd interrupted_migration" 2 "\<lambda>v. []" "\<lambda>v i. False" "\<lambda>v. []"] two by auto
  ultimately show ?thesis using two by simp
qed

section \<open>Integrity checks\<close>

text \<open>C20. The integrity report is exact: it says ERROR if and only if SQLite's quick check is not ok, an
  event id is stored twice, or some stored row does not read back as a valid event with a verifying
  checksum. A database that the repository has written never is in that state: after any sequence of
  its calls, failed ones included, the report on the committed data is PASS or WARNING.\<close>

theorem integrity_report_is_exact:
  assumes "repo_ok E r"
  shows "(report_status (run_integrity_checks digest quick shown d) = CHECK_ERROR \<longleftrightarrow>
      quick \<noteq> Some ''ok'' \<or> \<not> keyed ''event_id'' (d ''events'')
      \<or> (\<exists>row \<in> set (d ''events''). \<forall>e. row_to_event digest row \<noteq> Inr e))
    \<and> report_status (run_integrity_checks (db_digest E) (Some ''ok'') shown (rp_disk (fold (perform E) calls r)))
        \<noteq> CHECK_ERROR"
proof -
  have "audit_ok (db_digest E) (rp_disk (fold (perform E) calls r))"
    using grows_calls [of E r calls] assms by (simp add: repo_grows_def repo_ok_def)
  then show ?thesis using report_error_iff audit_ok_no_error by blast
qed

theorem integrity_report_is_exact_witness:
  "report_status (run_integrity_checks (db_digest sample_db_env) (Some ''ok'') []
      (rp_disk (fold (perform sample_db_env) [Insert_event_with_derived sample_opened] sample_repo))) \<noteq> CHECK_ERROR
   \<and> report_status (run_integrity_checks (db_digest sample_db_env) (Some ''ok'') []
      (\<lambda>t. if t = ''events'' then [[(''event_id'', SqlText ''x'')]] else [])) = CHECK_ERROR"
proof -
  let ?d = "(\<lambda>t. if t = ''events'' then [[(''event_id'', SqlText ''x'')]] else []) :: database"
  have "\<forall>e. row_to_event (db_digest sample_db_env) [(''event_id'', SqlText ''x'')] \<noteq> Inr e"
    by (simp add: row_to_event_def cell_def)
  then show ?thesis
    using integrity_report_is_exact [OF sample_ok(1), of "db_digest sample_db_env" "Some ''ok''" "[]" ?d
      "[Insert_event_with_derived sample_opened]"] by simp
qed

end
