(* ===== verification/PsExport.thy ===== *)
theory PsExport
  imports PsUpkeep
begin

text \<open>
  Exports: \<open>src/collector/persistence/export.py\<close>. A CSV file is its header and the cells of its rows, a
  JSONL file the values of its lines; the quoting of the \<open>csv\<close> module, \<open>json.dumps\<close> and the writing of the
  file are left to the library. The directory has been resolved: the given one, or the one of the settings.
\<close>

section \<open>Files\<close>

record csv_file =
  cf_headers :: "string list"
  cf_rows :: "sqlval list list"

record export_result =
  xr_path :: string
  xr_rows :: nat

definition EVENT_CSV_HEADERS :: "string list" where
  "EVENT_CSV_HEADERS =
     [''event_id'', ''event_type'', ''ts_event'', ''ts_collected'', ''ts_monotonic'', ''correlation_id'', ''trade_id'',
      ''component'', ''severity'', ''schema_version'', ''checksum'', ''payload_json'']"

definition TRADE_CSV_HEADERS :: "string list" where
  "TRADE_CSV_HEADERS =
     [''trade_id'', ''correlation_id'', ''inference_id'', ''order_id'', ''position_id'', ''direction'', ''lot'',
      ''entry_price'', ''exit_price'', ''entry_ts'', ''exit_ts'', ''mfe'', ''mae'', ''net_pnl'', ''tx_cost'', ''exit_reason'',
      ''valid_flag'', ''invalid_reason'', ''updated_at'']"

definition RECONCILIATION_CSV_HEADERS :: "string list" where
  "RECONCILIATION_CSV_HEADERS =
     [''reconciliation_id'', ''ts'', ''trade_id'', ''local_state_json'', ''broker_state_json'', ''result'', ''details'']"

text \<open>The columns of a table in the order of its declaration, which is the order of \<open>SELECT *\<close>.\<close>

fun ddl_columns :: "ddl \<Rightarrow> string list" where
  "ddl_columns (Create_table t cs) = map co_name cs"
| "ddl_columns _ = []"

definition in_directory :: "string \<Rightarrow> string \<Rightarrow> string" where
  "in_directory directory name = directory @ ''/'' @ name"

section \<open>Ordered selections\<close>

definition ordered_events :: "database \<Rightarrow> sqlrow list" where
  "ordered_events d =
     sort_key (\<lambda>row. (text_of row ''ts_collected'', text_of row ''ts_event'', text_of row ''event_id'')) (d ''events'')"

definition ordered_trades :: "database \<Rightarrow> sqlrow list" where
  "ordered_trades d = sort_key (\<lambda>row. (cell_text (cell row ''entry_ts''), text_of row ''trade_id'')) (d ''trades'')"

definition ordered_reconciliations :: "database \<Rightarrow> sqlrow list" where
  "ordered_reconciliations d =
     sort_key (\<lambda>row. (text_of row ''ts'', text_of row ''reconciliation_id'')) (d ''reconciliation_events'')"

section \<open>CSV\<close>

definition write_csv :: "string list \<Rightarrow> sqlrow list \<Rightarrow> csv_file" where
  "write_csv headers rows = \<lparr>cf_headers = headers, cf_rows = map (\<lambda>row. map (cell row) headers) rows\<rparr>"

definition export_csv ::
  "string list \<Rightarrow> (database \<Rightarrow> sqlrow list) \<Rightarrow> string \<Rightarrow> string \<Rightarrow> (repo, db_error, export_result \<times> csv_file) eff" where
  "export_csv headers select directory name =
     bind connection (\<lambda>_. bind (gets (\<lambda>r. select (view r))) (\<lambda>rows.
     ret (\<lparr>xr_path = in_directory directory name, xr_rows = length rows\<rparr>, write_csv headers rows)))"

definition export_events_csv :: "string \<Rightarrow> (repo, db_error, export_result \<times> csv_file) eff" where
  "export_events_csv directory = export_csv EVENT_CSV_HEADERS ordered_events directory ''events.csv''"

definition export_trades_csv :: "string \<Rightarrow> (repo, db_error, export_result \<times> csv_file) eff" where
  "export_trades_csv directory = export_csv TRADE_CSV_HEADERS ordered_trades directory ''trades.csv''"

definition export_reconciliations_csv :: "string \<Rightarrow> (repo, db_error, export_result \<times> csv_file) eff" where
  "export_reconciliations_csv directory =
     export_csv RECONCILIATION_CSV_HEADERS ordered_reconciliations directory ''reconciliations.csv''"

section \<open>JSONL\<close>

definition every_event :: event_query where
  "every_event =
     \<lparr>eq_trade_id = None, eq_correlation_id = None, eq_event_type = None, eq_ts_start = None, eq_ts_end = None,
      eq_limit = 2 ^ 31 - 1\<rparr>"

definition export_events_jsonl :: "db_env \<Rightarrow> string \<Rightarrow> (repo, db_error, export_result \<times> pyval list) eff" where
  "export_events_jsonl E directory =
     bind (query_events E every_event) (\<lambda>events.
     ret (\<lparr>xr_path = in_directory directory ''events.jsonl'', xr_rows = length events\<rparr>, map event_json_value events))"

text \<open>\<open>dict(row)\<close> of a row of \<open>SELECT *\<close>.\<close>

definition row_dict :: "ddl \<Rightarrow> sqlrow \<Rightarrow> sqlrow" where
  "row_dict t row = map (\<lambda>c. (c, cell row c)) (ddl_columns t)"

definition export_jsonl ::
  "ddl \<Rightarrow> (database \<Rightarrow> sqlrow list) \<Rightarrow> string \<Rightarrow> string \<Rightarrow> (repo, db_error, export_result \<times> sqlrow list) eff" where
  "export_jsonl t select directory name =
     bind connection (\<lambda>_. bind (gets (\<lambda>r. select (view r))) (\<lambda>rows.
     ret (\<lparr>xr_path = in_directory directory name, xr_rows = length rows\<rparr>, map (row_dict t) rows)))"

definition export_trades_jsonl :: "string \<Rightarrow> (repo, db_error, export_result \<times> sqlrow list) eff" where
  "export_trades_jsonl directory = export_jsonl trades_ddl ordered_trades directory ''trades.jsonl''"

definition export_reconciliations_jsonl :: "string \<Rightarrow> (repo, db_error, export_result \<times> sqlrow list) eff" where
  "export_reconciliations_jsonl directory =
     export_jsonl reconciliation_ddl ordered_reconciliations directory ''reconciliations.jsonl''"

section \<open>Facts\<close>

text \<open>The headers name every column of their table.\<close>

lemma headers_complete:
  "mset EVENT_CSV_HEADERS = mset (ddl_columns events_ddl)"
  "TRADE_CSV_HEADERS = ddl_columns trades_ddl"
  "RECONCILIATION_CSV_HEADERS = ddl_columns reconciliation_ddl"
  by (simp_all add: EVENT_CSV_HEADERS_def TRADE_CSV_HEADERS_def RECONCILIATION_CSV_HEADERS_def ddl_defs
      typed_column_def key_column_def text_column_def real_column_def not_null_def)

text \<open>What a line of the JSONL file reads back as.\<close>

lemma row_reads_exported:
  assumes "row_to_event digest row = Inr e"
  shows "event_of_json_value digest (Some (event_json_value e)) = Inr e"
proof -
  obtain p where "envelope_from_dict digest (PDict (row_data row @ [(''payload'', p)])) = Inr e"
    using assms by (auto simp: row_to_event_def split: option.splits)
  from from_dict_round_trip(1) [OF this row_data_distinct] show ?thesis
    by (simp add: event_of_json_value_def event_json_value_def)
qed

lemma rows_to_events_all:
  assumes "\<forall>row \<in> set rows. \<exists>e. row_to_event digest row = Inr e \<and> cell row ''event_id'' = SqlText (e_event_id e)"
  shows "\<exists>es. rows_to_events digest rows = Inr es \<and> map (row_to_event digest) rows = map Inr es
    \<and> map (\<lambda>row. cell row ''event_id'') rows = map (SqlText \<circ> e_event_id) es"
  using assms
proof (induction rows)
  case (Cons row rows)
  then obtain e es where "row_to_event digest row = Inr e" "cell row ''event_id'' = SqlText (e_event_id e)"
    "rows_to_events digest rows = Inr es" "map (row_to_event digest) rows = map Inr es"
    "map (\<lambda>row. cell row ''event_id'') rows = map (SqlText \<circ> e_event_id) es"
    by auto
  then show ?case by (intro exI [of _ "e # es"]) simp
qed simp

lemma query_every_event:
  assumes "length (d ''events'') < 2 ^ 31"
  shows "take (eq_limit every_event) (sort_key f (filter (query_matches every_event) (d ''events''))) = sort_key f (d ''events'')"
proof -
  have "query_matches every_event = (\<lambda>row. True)"
    by (simp add: fun_eq_iff query_matches_def every_event_def column_is_def)
  then show ?thesis using assms by (simp add: every_event_def)
qed

lemma text_of_field: "str_field [(c, cell_value (cell row c))] c = text_of row c"
  by (cases "cell row c") (simp_all add: str_field_def dget_def text_of_def)

lemma row_times:
  assumes "row_to_event digest row = Inr e"
  shows "e_ts_collected e = text_of row ''ts_collected'' \<and> e_ts_event e = text_of row ''ts_event''
    \<and> e_event_id e = text_of row ''event_id''"
proof -
  obtain p t where e: "e = envelope_of (row_data row @ [(''payload'', p)]) t"
    using assms by (auto simp: row_to_event_def envelope_from_dict_def split: option.splits sum.splits if_splits)
  have f: "str_field (row_data row @ [(''payload'', p)]) c = str_field [(c, cell_value (cell row c))] c"
    if "c \<in> {''ts_collected'', ''ts_event'', ''event_id''}" for c
    using that by (auto simp: str_field_def dget_def row_data_def)
  show ?thesis by (simp add: e envelope_of_def f text_of_field)
qed

definition event_order :: "envelope \<Rightarrow> string \<times> string \<times> string" where
  "event_order e = (e_ts_collected e, e_ts_event e, e_event_id e)"

text \<open>C24. The event export loses nothing and reads back. On a well-formed repository with fewer than 2,147,483,648
  events (the limit the code asks for) the JSONL export returns and changes nothing; it has a line for each stored
  event (given as the value that the JSON text of the line encodes), every line reads back as a valid event, the ids of these
  events are the ids of the table, each once, and the events come in the order of collection time, event time and
  id. The CSV export has the same number of rows, and its header names every column of the table.\<close>

theorem event_export_reads_back:
  assumes "repo_ok E r" and "rp_open r" and "length (view r ''events'') < 2 ^ 31"
  shows "\<exists>res file. export_events_jsonl E dir r = (Inr (res, file), r) \<and> xr_rows res = length (view r ''events'')
      \<and> (\<exists>es. map (\<lambda>line. event_of_json_value (db_digest E) (Some line)) file = map Inr es
           \<and> mset (map (SqlText \<circ> e_event_id) es) = mset (map (\<lambda>row. cell row ''event_id'') (view r ''events''))
           \<and> distinct (map e_event_id es) \<and> sorted (map event_order es))
      \<and> (\<exists>res' csv. export_events_csv dir r = (Inr (res', csv), r) \<and> length (cf_rows csv) = length file
           \<and> set (cf_headers csv) = set (ddl_columns events_ddl))"
proof -
  let ?rows = "ordered_events (view r)"
  have ok: "audit_ok (db_digest E) (view r)" using assms(1) by (simp add: repo_ok_def db_grows_def)
  then have "\<forall>row \<in> set ?rows. \<exists>e. row_to_event (db_digest E) row = Inr e \<and> cell row ''event_id'' = SqlText (e_event_id e)"
    by (simp add: audit_ok_def ordered_events_def)
  from rows_to_events_all [OF this] obtain es where es: "rows_to_events (db_digest E) ?rows = Inr es"
    and each: "map (row_to_event (db_digest E)) ?rows = map Inr es"
    and ids: "map (\<lambda>row. cell row ''event_id'') ?rows = map (SqlText \<circ> e_event_id) es"
    by blast
  have n: "length es = length (view r ''events'')" using arg_cong [OF each, of length] by (simp add: ordered_events_def)
  have q: "take (eq_limit every_event)
      (sort_key (\<lambda>row. (text_of row ''ts_collected'', text_of row ''ts_event'', text_of row ''event_id''))
        (filter (query_matches every_event) (view r ''events''))) = ?rows"
    unfolding ordered_events_def by (rule query_every_event) (rule assms(3))
  have run: "export_events_jsonl E dir r =
      (Inr (\<lparr>xr_path = in_directory dir ''events.jsonl'', xr_rows = length es\<rparr>, map event_json_value es), r)"
    using es assms(2)
    by (simp add: export_events_jsonl_def query_events_def connection_def bind_def gets_def ret_def of_result_def q)
  have mem: "\<exists>row. row_to_event (db_digest E) row = Inr e" if "e \<in> set es" for e
  proof -
    have "Inr e \<in> set (map (row_to_event (db_digest E)) ?rows)" using each that by simp
    then show ?thesis by auto
  qed
  have readable: "map (\<lambda>line. event_of_json_value (db_digest E) (Some line)) (map event_json_value es) = map Inr es"
    using mem row_reads_exported by fastforce
  have m: "mset (map (SqlText \<circ> e_event_id) es) = mset (map (\<lambda>row. cell row ''event_id'') (view r ''events''))"
    unfolding ids [symmetric] by (simp add: ordered_events_def)
  have "distinct (map (\<lambda>row. cell row ''event_id'') (view r ''events''))"
    using ok by (simp add: audit_ok_def keyed_def)
  with m have "distinct (map (SqlText \<circ> e_event_id) es)" by (simp only: mset_eq_imp_distinct_iff [OF m])
  then have d: "distinct (map e_event_id es)" by (metis distinct_map map_map)
  have "map event_order es = map (\<lambda>row. (text_of row ''ts_collected'', text_of row ''ts_event'', text_of row ''event_id'')) ?rows"
  proof (rule nth_equalityI)
    show "length (map event_order es) = length (map (\<lambda>row. (text_of row ''ts_collected'', text_of row ''ts_event'', text_of row ''event_id'')) ?rows)"
      using n by (simp add: ordered_events_def)
    fix i assume i: "i < length (map event_order es)"
    then have "row_to_event (db_digest E) (?rows ! i) = Inr (es ! i)"
      using arg_cong [OF each, of "\<lambda>xs. xs ! i"] n by (simp add: ordered_events_def)
    from row_times [OF this] i n show "map event_order es ! i
        = map (\<lambda>row. (text_of row ''ts_collected'', text_of row ''ts_event'', text_of row ''event_id'')) ?rows ! i"
      by (simp add: event_order_def ordered_events_def)
  qed
  then have s: "sorted (map event_order es)" by (simp add: ordered_events_def)
  have "set EVENT_CSV_HEADERS = set (ddl_columns events_ddl)" using headers_complete(1) by (metis set_mset_mset)
  then have csv: "\<exists>res' csv. export_events_csv dir r = (Inr (res', csv), r) \<and> length (cf_rows csv) = length (map event_json_value es)
      \<and> set (cf_headers csv) = set (ddl_columns events_ddl)"
    using assms(2) n
    by (simp add: export_events_csv_def export_csv_def connection_def bind_def gets_def ret_def write_csv_def ordered_events_def)
  have "\<exists>es'. map (\<lambda>line. event_of_json_value (db_digest E) (Some line)) (map event_json_value es) = map Inr es'
      \<and> mset (map (SqlText \<circ> e_event_id) es') = mset (map (\<lambda>row. cell row ''event_id'') (view r ''events''))
      \<and> distinct (map e_event_id es') \<and> sorted (map event_order es')"
    by (intro exI [of _ es] conjI readable m d s)
  then show ?thesis
    by - (rule exI, rule exI, intro conjI, rule run, simp add: n, assumption, rule csv)
qed

lemma sample_stored:
  "case insert_event sample_db_env sample_opened sample_repo of
     (z, r') \<Rightarrow> (case z of Inl e \<Rightarrow> False | Inr x \<Rightarrow> rp_open r' \<and> length (view r' ''events'') = 1)"
  by code_simp

theorem event_export_reads_back_witness:
  "\<exists>x r' res file. insert_event sample_db_env sample_opened sample_repo = (Inr x, r')
     \<and> export_events_jsonl sample_db_env ''exports'' r' = (Inr (res, file), r') \<and> xr_rows res = 1"
proof -
  obtain x r' where run: "insert_event sample_db_env sample_opened sample_repo = (Inr x, r')"
    and r': "rp_open r'" "length (view r' ''events'') = 1"
    using sample_stored by (auto split: prod.splits sum.splits)
  have "repo_ok sample_db_env r'"
    using plain_store.put_stores [OF sample_ready run] by (simp add: ready_def)
  from event_export_reads_back [OF this r'(1), of "''exports''"] r'(2) run show ?thesis by auto
qed

end
