(* ===== verification/CfSettings.thy ===== *)
theory CfSettings
  imports PyValue
begin

text \<open>
  Application settings: \<open>src/collector/settings.py\<close>. \<open>getenv\<close> is the process environment. A path is
  kept as the text given for it, absolute or below \<open>PROJECT_ROOT\<close>; \<open>Path\<close> itself is a string of the
  operating system and has no further structure here.
\<close>

datatype file_path = Absolute string | Under_root string

datatype settings_error =
    Unsupported_env string | Unsupported_mode string | Live_trading_forbidden | Read_only_required
  | Demo_execution_forbidden | Poll_not_positive | Interval_not_positive | Unsupported_log_level string
  | Not_a_number string

definition supported_envs :: "string list" where
  "supported_envs = [''development'', ''test'', ''production'']"

definition supported_modes :: "string list" where
  "supported_modes = [''PAPER_DATA_ONLY'']"

definition supported_log_levels :: "string list" where
  "supported_log_levels = [''DEBUG'', ''INFO'', ''WARNING'', ''ERROR'', ''CRITICAL'']"

definition LIVE_TRADING_ENABLED :: bool where "LIVE_TRADING_ENABLED = False"
definition READ_ONLY_MODE :: bool where "READ_ONLY_MODE = True"
definition DEMO_EXECUTION_ALLOWED :: bool where "DEMO_EXECUTION_ALLOWED = False"
definition COLLECTOR_MODE :: string where "COLLECTOR_MODE = ''PAPER_DATA_ONLY''"

record settings =
  se_env :: string
  se_mode :: string
  se_read_only_mode :: bool
  se_live_trading_enabled :: bool
  se_demo_execution_allowed :: bool
  se_data_dir :: file_path
  se_sqlite_dir :: file_path
  se_events_dir :: file_path
  se_analytics_dir :: file_path
  se_jsonl_source :: file_path
  se_ingestion_poll_seconds :: pyfloat
  se_reconciliation_interval_seconds :: pyfloat
  se_log_level :: string

definition default_settings :: settings where
  "default_settings =
     \<lparr>se_env = ''development'', se_mode = COLLECTOR_MODE, se_read_only_mode = READ_ONLY_MODE,
      se_live_trading_enabled = LIVE_TRADING_ENABLED, se_demo_execution_allowed = DEMO_EXECUTION_ALLOWED,
      se_data_dir = Under_root ''data'', se_sqlite_dir = Under_root ''data/sqlite'',
      se_events_dir = Under_root ''data/events'', se_analytics_dir = Under_root ''data/analytics'',
      se_jsonl_source = Under_root ''data/raw/mql5_bridge_events.jsonl'',
      se_ingestion_poll_seconds = flit 10 1, se_reconciliation_interval_seconds = flit 600 1,
      se_log_level = ''INFO''\<rparr>"

text \<open>The checks of the constructor, in their order.\<close>

definition settings_post_init :: "settings \<Rightarrow> settings_error + settings" where
  "settings_post_init s =
     (if se_env s \<notin> set supported_envs then Inl (Unsupported_env (se_env s))
      else if se_mode s \<notin> set supported_modes then Inl (Unsupported_mode (se_mode s))
      else if se_live_trading_enabled s then Inl Live_trading_forbidden
      else if \<not> se_read_only_mode s then Inl Read_only_required
      else if se_demo_execution_allowed s then Inl Demo_execution_forbidden
      else if fle (se_ingestion_poll_seconds s) (Fin 0) then Inl Poll_not_positive
      else if fle (se_reconciliation_interval_seconds s) (Fin 0) then Inl Interval_not_positive
      else if se_log_level s \<notin> set supported_log_levels then Inl (Unsupported_log_level (se_log_level s))
      else Inr s)"

definition as_bool :: "string \<Rightarrow> bool" where
  "as_bool value \<longleftrightarrow> str_lower (strip value) \<in> {''1'', ''true'', ''yes'', ''on''}"

definition as_path :: "string \<Rightarrow> file_path" where
  "as_path raw = (case raw of c # _ \<Rightarrow> if c = CHR ''/'' then Absolute raw else Under_root raw | [] \<Rightarrow> Under_root raw)"

definition as_float :: "string \<Rightarrow> settings_error + pyfloat" where
  "as_float raw = (case parse_float raw of None \<Rightarrow> Inl (Not_a_number raw) | Some x \<Rightarrow> Inr x)"

definition load_settings :: "(string \<Rightarrow> string option) \<Rightarrow> settings_error + settings" where
  "load_settings getenv =
     (case as_float (env_str getenv ''ABC_BOT_INGESTION_POLL_SECONDS'' ''1.0'') of
        Inl e \<Rightarrow> Inl e
      | Inr poll \<Rightarrow>
          (case as_float (env_str getenv ''ABC_BOT_RECONCILIATION_INTERVAL_SECONDS'' ''60.0'') of
             Inl e \<Rightarrow> Inl e
           | Inr interval \<Rightarrow>
               settings_post_init
                 \<lparr>se_env = env_str getenv ''ABC_BOT_ENV'' ''development'',
                  se_mode = env_str getenv ''ABC_BOT_MODE'' COLLECTOR_MODE,
                  se_read_only_mode = as_bool (env_str getenv ''ABC_BOT_READ_ONLY_MODE'' ''true''),
                  se_live_trading_enabled = as_bool (env_str getenv ''ABC_BOT_LIVE_TRADING_ENABLED'' ''false''),
                  se_demo_execution_allowed = as_bool (env_str getenv ''ABC_BOT_DEMO_EXECUTION_ALLOWED'' ''false''),
                  se_data_dir = as_path (env_str getenv ''ABC_BOT_DATA_DIR'' ''data''),
                  se_sqlite_dir = as_path (env_str getenv ''ABC_BOT_SQLITE_DIR'' ''data/sqlite''),
                  se_events_dir = as_path (env_str getenv ''ABC_BOT_EVENTS_DIR'' ''data/events''),
                  se_analytics_dir = as_path (env_str getenv ''ABC_BOT_ANALYTICS_DIR'' ''data/analytics''),
                  se_jsonl_source = as_path (env_str getenv ''ABC_BOT_JSONL_SOURCE'' ''data/raw/mql5_bridge_events.jsonl''),
                  se_ingestion_poll_seconds = poll,
                  se_reconciliation_interval_seconds = interval,
                  se_log_level = str_upper (env_str getenv ''ABC_BOT_LOG_LEVEL'' ''INFO'')\<rparr>))"

lemma not_fle_zero: "\<not> fle x (Fin 0) \<longleftrightarrow> fpos x \<or> x = NaN"
  by (cases x) auto

lemma post_init_Inr:
  "settings_post_init s = Inr t \<longleftrightarrow>
     t = s \<and> se_env s \<in> set supported_envs \<and> se_mode s \<in> set supported_modes \<and> \<not> se_live_trading_enabled s
     \<and> se_read_only_mode s \<and> \<not> se_demo_execution_allowed s
     \<and> (fpos (se_ingestion_poll_seconds s) \<or> se_ingestion_poll_seconds s = NaN)
     \<and> (fpos (se_reconciliation_interval_seconds s) \<or> se_reconciliation_interval_seconds s = NaN)
     \<and> se_log_level s \<in> set supported_log_levels"
  unfolding settings_post_init_def not_fle_zero [symmetric] by auto

text \<open>C34. Whatever the process environment holds, settings that load are those of a paper collector:
  live trading and demo execution are off, read-only mode is on, the mode is \<open>PAPER_DATA_ONLY\<close>. A
  request for anything else is refused, never ignored: a true \<open>LIVE_TRADING_ENABLED\<close> or
  \<open>DEMO_EXECUTION_ALLOWED\<close>, a false \<open>READ_ONLY_MODE\<close> or another mode is an error. The two intervals
  that load are positive, or NaN, which the checks let pass.\<close>

theorem settings_are_paper_only:
  assumes "load_settings getenv = Inr s"
  shows "se_mode s = ''PAPER_DATA_ONLY'' \<and> se_read_only_mode s \<and> \<not> se_live_trading_enabled s
    \<and> \<not> se_demo_execution_allowed s
    \<and> \<not> as_bool (env_str getenv ''ABC_BOT_LIVE_TRADING_ENABLED'' ''false'')
    \<and> \<not> as_bool (env_str getenv ''ABC_BOT_DEMO_EXECUTION_ALLOWED'' ''false'')
    \<and> as_bool (env_str getenv ''ABC_BOT_READ_ONLY_MODE'' ''true'')
    \<and> (getenv ''ABC_BOT_MODE'' = None \<or> getenv ''ABC_BOT_MODE'' = Some ''PAPER_DATA_ONLY'')
    \<and> (fpos (se_ingestion_poll_seconds s) \<or> se_ingestion_poll_seconds s = NaN)
    \<and> (fpos (se_reconciliation_interval_seconds s) \<or> se_reconciliation_interval_seconds s = NaN)"
  using assms
  by (auto simp: load_settings_def post_init_Inr supported_modes_def env_str_def [of getenv "''ABC_BOT_MODE''"]
    COLLECTOR_MODE_def split: sum.splits option.splits)

definition sample_environment :: "string \<Rightarrow> string option" where
  "sample_environment = [''ABC_BOT_ENV'' \<mapsto> ''production'', ''ABC_BOT_LIVE_TRADING_ENABLED'' \<mapsto> ''off'',
     ''ABC_BOT_INGESTION_POLL_SECONDS'' \<mapsto> ''nan'']"

lemma sample_environment_loads:
  "load_settings sample_environment =
     Inr (default_settings\<lparr>se_env := ''production'', se_ingestion_poll_seconds := NaN\<rparr>)"
  by code_simp

theorem settings_are_paper_only_witness:
  "\<exists>s. load_settings sample_environment = Inr s \<and> se_mode s = ''PAPER_DATA_ONLY'' \<and> se_read_only_mode s
     \<and> \<not> se_live_trading_enabled s \<and> \<not> se_demo_execution_allowed s \<and> se_ingestion_poll_seconds s = NaN"
  using settings_are_paper_only [OF sample_environment_loads] sample_environment_loads
  by (intro exI [of _ "default_settings\<lparr>se_env := ''production'', se_ingestion_poll_seconds := NaN\<rparr>"]) simp

end
