(* ===== verification/PvModels.thy ===== *)
theory PvModels
  imports RiskEngine EvValidation
begin

text \<open>
  The data of the paper validation harness and the parts without state:
  \<open>src/paper_validation/models.py\<close>, \<open>cost_model.py\<close>, \<open>market_replay.py\<close>, \<open>evidence.py\<close>. The draws of
  \<open>random.Random(seed)\<close> and the twelve hexadecimal digits of fresh ids are parameters. A date of a
  replay stays before the year 10000.
\<close>

section \<open>Errors and configuration\<close>

datatype pv_error = Absent_key string | Not_a_float string | Division_by_zero | Unknown_cost_mode string | Risk_engine_raises

datatype paper_exit =
    PX_ABC_PROFIT_CLOSE | PX_SL_STOP | PX_SPREAD_REJECT | PX_RISK_REJECT | PX_MARGIN_REJECT | PX_EXPOSURE_REJECT
  | PX_DRAWDOWN_REJECT | PX_DATA_INVALID | PX_PAPER_SESSION_END

fun paper_exit_value :: "paper_exit \<Rightarrow> string" where
  "paper_exit_value PX_ABC_PROFIT_CLOSE = ''ABC_PROFIT_CLOSE''"
| "paper_exit_value PX_SL_STOP = ''SL_STOP''"
| "paper_exit_value PX_SPREAD_REJECT = ''SPREAD_REJECT''"
| "paper_exit_value PX_RISK_REJECT = ''RISK_REJECT''"
| "paper_exit_value PX_MARGIN_REJECT = ''MARGIN_REJECT''"
| "paper_exit_value PX_EXPOSURE_REJECT = ''EXPOSURE_REJECT''"
| "paper_exit_value PX_DRAWDOWN_REJECT = ''DRAWDOWN_REJECT''"
| "paper_exit_value PX_DATA_INVALID = ''DATA_INVALID''"
| "paper_exit_value PX_PAPER_SESSION_END = ''PAPER_SESSION_END''"

record simulation_config =
  sm_starting_equity :: pyfloat
  sm_starting_balance :: pyfloat
  sm_leverage :: pyfloat
  sm_max_steps_per_scenario :: int
  sm_seed :: int

definition default_simulation_config :: simulation_config where
  "default_simulation_config =
     \<lparr>sm_starting_equity = Fin 10000, sm_starting_balance = Fin 10000, sm_leverage = Fin 2000,
      sm_max_steps_per_scenario = 500, sm_seed = 42\<rparr>"

record paper_scenario =
  sn_scenario_id :: string
  sn_description :: string
  sn_direction :: string
  sn_confidence :: pyfloat
  sn_reason :: string
  sn_ticks :: "pydict list"
  sn_cost_mode :: string
  sn_slippage_points :: pyfloat
  sn_commission_per_lot :: pyfloat
  sn_swap_per_lot_per_night :: pyfloat
  sn_starting_equity :: pyfloat
  sn_starting_balance :: pyfloat
  sn_existing_positions :: int
  sn_current_exposure_usd :: pyfloat
  sn_current_drawdown_pct :: pyfloat
  sn_free_margin_override :: "pyfloat option"
  sn_margin_override :: "pyfloat option"
  sn_force_reject_reason :: "string option"

definition new_scenario :: "string \<Rightarrow> string \<Rightarrow> string \<Rightarrow> paper_scenario" where
  "new_scenario sid description direction =
     \<lparr>sn_scenario_id = sid, sn_description = description, sn_direction = direction, sn_confidence = flit 85 2,
      sn_reason = ''fixture'', sn_ticks = [], sn_cost_mode = ''SPREAD_ONLY'', sn_slippage_points = Fin 0,
      sn_commission_per_lot = Fin 0, sn_swap_per_lot_per_night = Fin 0, sn_starting_equity = Fin 10000,
      sn_starting_balance = Fin 10000, sn_existing_positions = 0, sn_current_exposure_usd = Fin 0,
      sn_current_drawdown_pct = Fin 0, sn_free_margin_override = None, sn_margin_override = None,
      sn_force_reject_reason = None\<rparr>"

record paper_account =
  pa_balance :: pyfloat
  pa_equity :: pyfloat
  pa_free_margin :: pyfloat
  pa_margin :: pyfloat
  pa_existing_positions_count :: int
  pa_current_exposure_usd :: pyfloat
  pa_current_drawdown_pct :: pyfloat

definition to_risk_engine_state :: "paper_account \<Rightarrow> pydict" where
  "to_risk_engine_state a =
     [(''balance'', PFloat (pa_balance a)), (''equity'', PFloat (pa_equity a)),
      (''free_margin'', PFloat (pa_free_margin a)), (''margin'', PFloat (pa_margin a)),
      (''existing_positions_count'', PInt (pa_existing_positions_count a)),
      (''current_exposure_usd'', PFloat (pa_current_exposure_usd a)),
      (''current_drawdown_pct'', PFloat (pa_current_drawdown_pct a))]"

section \<open>Costs\<close>

datatype cost_mode = SPREAD_ONLY | COMMISSION_CONFIGURED | SLIPPAGE_CONFIGURED | FULL_COST_MODEL

definition cost_mode_of :: "string \<Rightarrow> cost_mode option" where
  "cost_mode_of s =
     map_of [(''SPREAD_ONLY'', SPREAD_ONLY), (''COMMISSION_CONFIGURED'', COMMISSION_CONFIGURED),
       (''SLIPPAGE_CONFIGURED'', SLIPPAGE_CONFIGURED), (''FULL_COST_MODEL'', FULL_COST_MODEL)] s"

record cost_result =
  kr_spread_cost :: pyfloat
  kr_commission_cost :: pyfloat
  kr_swap_cost :: pyfloat
  kr_slippage_cost :: pyfloat
  kr_total_cost :: pyfloat
  kr_label :: string

record cost_model =
  km_mode :: cost_mode
  km_commission_per_lot :: pyfloat
  km_swap_per_lot_per_night :: pyfloat
  km_slippage_points :: pyfloat
  km_point :: pyfloat

definition from_mode_str :: "string \<Rightarrow> pyfloat \<Rightarrow> pyfloat \<Rightarrow> pyfloat \<Rightarrow> pyfloat \<Rightarrow> pv_error + cost_model" where
  "from_mode_str mode commission swap slippage point =
     (case cost_mode_of mode of
        None \<Rightarrow> Inl (Unknown_cost_mode mode)
      | Some m \<Rightarrow>
          Inr \<lparr>km_mode = m, km_commission_per_lot = commission, km_swap_per_lot_per_night = swap,
            km_slippage_points = slippage, km_point = point\<rparr>)"

text \<open>The arguments \<open>entry_price\<close> and \<open>exit_price\<close> are not used by the code. A tick size of zero raises.\<close>

definition compute_costs ::
  "cost_model \<Rightarrow> pyfloat \<Rightarrow> string \<Rightarrow> pyfloat \<Rightarrow> pyfloat \<Rightarrow> int \<Rightarrow> pyfloat \<Rightarrow> pyfloat \<Rightarrow> pyfloat \<Rightarrow> cost_result option" where
  "compute_costs k lot direction spread_at_entry spread_at_exit holding_nights contract_size tick_value tick_size =
     map_option (\<lambda>per_tick.
       (let spread_cost = fmul per_tick (Fin (1 / 2));
            commission_cost =
              (if km_mode k \<in> {COMMISSION_CONFIGURED, FULL_COST_MODEL} then fmul (km_commission_per_lot k) lot else Fin 0);
            slippage_price = fmul (km_slippage_points k) (km_point k);
            slippage_cost =
              (if km_mode k \<in> {SLIPPAGE_CONFIGURED, FULL_COST_MODEL}
               then (if direction = ''BUY'' then fmul (fmul slippage_price lot) contract_size
                     else fmul (fmul slippage_price lot) contract_size)
               else Fin 0);
            swap_cost =
              (if km_mode k = FULL_COST_MODEL
               then fmul (fmul (km_swap_per_lot_per_night k) lot) (of_int_f holding_nights) else Fin 0);
            total = fadd (fadd (fadd spread_cost commission_cost) swap_cost) slippage_cost
        in \<lparr>kr_spread_cost = fround 4 spread_cost, kr_commission_cost = fround 4 commission_cost,
            kr_swap_cost = fround 4 swap_cost, kr_slippage_cost = fround 4 slippage_cost,
            kr_total_cost = fround 4 total, kr_label = ''SIMULATED''\<rparr>))
       (fdiv (fmul (fmul (fadd spread_at_entry spread_at_exit) lot) tick_value) tick_size)"

section \<open>Market replay\<close>

record market_tick =
  mt_timestamp_iso :: string
  mt_bid :: pyfloat
  mt_ask :: pyfloat
  mt_spread :: pyfloat
  mt_mid :: pyfloat
  mt_symbol :: string

definition to_market_state_dict :: "market_tick \<Rightarrow> pydict" where
  "to_market_state_dict t =
     [(''bid'', PFloat (mt_bid t)), (''ask'', PFloat (mt_ask t)), (''spread'', PFloat (mt_spread t)),
      (''mid'', PFloat (mt_mid t)), (''symbol'', PStr (mt_symbol t)), (''timestamp_iso'', PStr (mt_timestamp_iso t))]"

text \<open>A date and time of day in UTC.\<close>

record datetime =
  dt_date :: "nat \<times> nat \<times> nat"
  dt_second :: nat

record replay_config =
  pc_symbol :: string
  pc_base_price :: pyfloat
  pc_point :: pyfloat
  pc_spread_points :: pyfloat
  pc_volatility_points :: pyfloat
  pc_tick_count :: int
  pc_start_time :: datetime
  pc_tick_interval_s :: nat
  pc_seed :: int

definition default_replay_config :: replay_config where
  "default_replay_config =
     \<lparr>pc_symbol = ''XAUUSDc'', pc_base_price = Fin 4370, pc_point = flit 1 2, pc_spread_points = Fin 36,
      pc_volatility_points = Fin 20, pc_tick_count = 100,
      pc_start_time = \<lparr>dt_date = (2026, 8, 17), dt_second = 34500\<rparr>, pc_tick_interval_s = 1, pc_seed = 42\<rparr>"

definition next_day :: "nat \<times> nat \<times> nat \<Rightarrow> nat \<times> nat \<times> nat" where
  "next_day = (\<lambda>(y, m, d).
     if d < days_in_month y m then (y, m, d + 1) else if m < 12 then (y, m + 1, 1) else (y + 1, 1, 1))"

definition add_seconds :: "datetime \<Rightarrow> nat \<Rightarrow> datetime" where
  "add_seconds t n =
     (let s = dt_second t + n in \<lparr>dt_date = (next_day ^^ (s div 86400)) (dt_date t), dt_second = s mod 86400\<rparr>)"

definition two_digits :: "nat \<Rightarrow> string" where
  "two_digits n = pad_zero 2 (show_nat n)"

definition isoformat :: "datetime \<Rightarrow> string" where
  "isoformat t =
     (case dt_date t of (y, m, d) \<Rightarrow>
        pad_zero 4 (show_nat y) @ ''-'' @ two_digits m @ ''-'' @ two_digits d @ ''T'' @ two_digits (dt_second t div 3600)
        @ '':'' @ two_digits (dt_second t mod 3600 div 60) @ '':'' @ two_digits (dt_second t mod 60) @ ''+00:00'')"

definition uniform :: "pyfloat \<Rightarrow> pyfloat \<Rightarrow> pyfloat \<Rightarrow> pyfloat" where
  "uniform a b draw = fadd a (fmul (fsub b a) draw)"

definition half :: "pyfloat \<Rightarrow> pyfloat" where
  "half x = fmul x (Fin (1 / 2))"

definition next_price :: "replay_config \<Rightarrow> pyfloat \<Rightarrow> pyfloat \<Rightarrow> pyfloat" where
  "next_price c price draw =
     (let spread_price = fmul (pc_spread_points c) (pc_point c);
          move_points = uniform (fneg (pc_volatility_points c)) (pc_volatility_points c) draw;
          moved = fround 2 (fadd price (fmul move_points (pc_point c)))
      in if fle moved spread_price then fround 2 (fadd spread_price (Fin 1)) else moved)"

definition tick_at :: "replay_config \<Rightarrow> nat \<Rightarrow> pyfloat \<Rightarrow> market_tick" where
  "tick_at c i price =
     (let bid = fround 2 price; ask = fround 2 (fadd price (fmul (pc_spread_points c) (pc_point c))) in
      \<lparr>mt_timestamp_iso = isoformat (add_seconds (pc_start_time c) (pc_tick_interval_s c * i)), mt_bid = bid, mt_ask = ask,
       mt_spread = fround 2 (fsub ask bid), mt_mid = fround 2 (half (fadd bid ask)), mt_symbol = pc_symbol c\<rparr>)"

fun ticks_from :: "replay_config \<Rightarrow> (nat \<Rightarrow> pyfloat) \<Rightarrow> nat \<Rightarrow> nat \<Rightarrow> pyfloat \<Rightarrow> market_tick list" where
  "ticks_from c draws i 0 price = []"
| "ticks_from c draws i (Suc n) price =
     (let price' = next_price c price (draws i) in tick_at c i price' # ticks_from c draws (Suc i) n price')"

definition generate_ticks :: "replay_config \<Rightarrow> (nat \<Rightarrow> pyfloat) \<Rightarrow> market_tick list" where
  "generate_ticks c draws = ticks_from c draws 0 (nat (pc_tick_count c)) (pc_base_price c)"

definition float_entry :: "pydict \<Rightarrow> string \<Rightarrow> pv_error + pyfloat" where
  "float_entry d k =
     (case dget d k of
        None \<Rightarrow> Inl (Absent_key k)
      | Some v \<Rightarrow> (case py_float v of None \<Rightarrow> Inl (Not_a_float k) | Some x \<Rightarrow> Inr x))"

definition fixture_tick :: "risk_env \<Rightarrow> string \<Rightarrow> pydict \<Rightarrow> pv_error + market_tick" where
  "fixture_tick E symbol d =
     (case float_entry d ''bid'' of
        Inl e \<Rightarrow> Inl e
      | Inr bid \<Rightarrow>
          (case float_entry d ''ask'' of
             Inl e \<Rightarrow> Inl e
           | Inr ask \<Rightarrow>
               Inr \<lparr>mt_timestamp_iso = str_of E (dget_default d ''timestamp_iso'' (PStr [])), mt_bid = bid, mt_ask = ask,
                 mt_spread = fround 2 (fsub ask bid), mt_mid = fround 2 (half (fadd bid ask)), mt_symbol = symbol\<rparr>))"

fun from_fixture_ticks :: "risk_env \<Rightarrow> string \<Rightarrow> pydict list \<Rightarrow> pv_error + market_tick list" where
  "from_fixture_ticks E symbol [] = Inr []"
| "from_fixture_ticks E symbol (d # ds) =
     (case fixture_tick E symbol d of
        Inl e \<Rightarrow> Inl e
      | Inr t \<Rightarrow> (case from_fixture_ticks E symbol ds of Inl e \<Rightarrow> Inl e | Inr ts \<Rightarrow> Inr (t # ts)))"

end
