(* ===== verification/PvSim.thy ===== *)
theory PvSim
  imports PvModels
begin

text \<open>
  Simulated execution and the scenario runner: \<open>src/paper_validation/execution_simulator.py\<close>,
  \<open>evidence.py\<close>, \<open>scenario_runner.py\<close>. The risk engine is the model of \<open>RiskEngine\<close>; \<open>pe_hex\<close> gives the
  digits of the fresh trade and evidence ids and \<open>pe_draws\<close> the draws of the seeded generator.
\<close>

section \<open>Fill and position\<close>

record paper_fill =
  xf_fill_price :: pyfloat
  xf_fill_ts :: string
  xf_lot :: pyfloat
  xf_direction :: string
  xf_sl_price :: pyfloat
  xf_spread_at_fill :: pyfloat
  xf_label :: string

record paper_position =
  xp_trade_id :: string
  xp_direction :: string
  xp_lot :: pyfloat
  xp_entry_price :: pyfloat
  xp_sl_price :: pyfloat
  xp_entry_ts :: string
  xp_spread_at_entry :: pyfloat
  xp_risk_amount_theoretical :: pyfloat
  xp_cost_model :: cost_model
  xp_contract_size :: pyfloat
  xp_tick_value :: pyfloat
  xp_tick_size :: pyfloat
  xp_point :: pyfloat
  xp_max_adverse_excursion :: pyfloat
  xp_max_favorable_excursion :: pyfloat
  xp_holding_steps :: int

definition exit_price_at :: "paper_position \<Rightarrow> market_tick \<Rightarrow> pyfloat" where
  "exit_price_at p t = (if xp_direction p = ''BUY'' then mt_bid t else mt_ask t)"

definition gross_pnl_at_price :: "paper_position \<Rightarrow> pyfloat \<Rightarrow> pyfloat" where
  "gross_pnl_at_price p x =
     (if xp_direction p = ''BUY'' then fmul (fmul (fsub x (xp_entry_price p)) (xp_lot p)) (xp_contract_size p)
      else fmul (fmul (fsub (xp_entry_price p) x) (xp_lot p)) (xp_contract_size p))"

definition gross_pnl :: "paper_position \<Rightarrow> market_tick \<Rightarrow> pyfloat" where
  "gross_pnl p t =
     (if xp_direction p = ''BUY'' then fmul (fmul (fsub (mt_bid t) (xp_entry_price p)) (xp_lot p)) (xp_contract_size p)
      else fmul (fmul (fsub (xp_entry_price p) (mt_ask t)) (xp_lot p)) (xp_contract_size p))"

definition estimate_costs :: "paper_position \<Rightarrow> market_tick \<Rightarrow> cost_result option" where
  "estimate_costs p t =
     compute_costs (xp_cost_model p) (xp_lot p) (xp_direction p) (xp_spread_at_entry p) (mt_spread t) 0
       (xp_contract_size p) (xp_tick_value p) (xp_tick_size p)"

definition observe :: "paper_position \<Rightarrow> pyfloat \<Rightarrow> paper_position" where
  "observe p gross =
     p\<lparr>xp_holding_steps := xp_holding_steps p + 1,
       xp_max_adverse_excursion := (if flt gross (xp_max_adverse_excursion p) then gross else xp_max_adverse_excursion p),
       xp_max_favorable_excursion :=
         (if flt (xp_max_favorable_excursion p) gross then gross else xp_max_favorable_excursion p)\<rparr>"

definition stop_hit :: "paper_position \<Rightarrow> market_tick \<Rightarrow> bool" where
  "stop_hit p t \<longleftrightarrow>
     xp_direction p = ''BUY'' \<and> fle (mt_bid t) (xp_sl_price p)
     \<or> xp_direction p = ''SELL'' \<and> fle (xp_sl_price p) (mt_ask t)"

definition check_exit :: "paper_position \<Rightarrow> market_tick \<Rightarrow> pv_error + paper_exit option \<times> paper_position" where
  "check_exit p t =
     (let gross = gross_pnl p t; p' = observe p gross in
      if stop_hit p' t then Inr (Some PX_SL_STOP, p')
      else case estimate_costs p' t of
          None \<Rightarrow> Inl Division_by_zero
        | Some k \<Rightarrow>
            (let additional = fadd (fadd (kr_commission_cost k) (kr_swap_cost k)) (kr_slippage_cost k);
                 net = fsub gross additional
             in Inr (if fpos net then Some PX_ABC_PROFIT_CLOSE else None, p')))"

record close_result =
  ce_exit_price :: pyfloat
  ce_exit_reason :: string
  ce_gross_pnl :: pyfloat
  ce_costs :: cost_result
  ce_net_pnl :: pyfloat
  ce_risk_realized :: pyfloat
  ce_risk_theoretical :: pyfloat
  ce_max_adverse_excursion :: pyfloat
  ce_max_favorable_excursion :: pyfloat
  ce_holding_steps :: int
  ce_exit_ts :: string

definition close_position :: "paper_position \<Rightarrow> market_tick \<Rightarrow> paper_exit \<Rightarrow> pv_error + close_result" where
  "close_position p t x =
     (let price = exit_price_at p t; gross = gross_pnl_at_price p price in
      case estimate_costs p t of
        None \<Rightarrow> Inl Division_by_zero
      | Some k \<Rightarrow>
          (let net = fsub (fsub (fsub gross (kr_commission_cost k)) (kr_swap_cost k)) (kr_slippage_cost k) in
           Inr \<lparr>ce_exit_price = price, ce_exit_reason = paper_exit_value x, ce_gross_pnl = fround 4 gross, ce_costs = k,
             ce_net_pnl = fround 4 net, ce_risk_realized = fround 4 (fabs (fmin net (Fin 0))),
             ce_risk_theoretical = xp_risk_amount_theoretical p,
             ce_max_adverse_excursion = fround 4 (xp_max_adverse_excursion p),
             ce_max_favorable_excursion = fround 4 (xp_max_favorable_excursion p),
             ce_holding_steps = xp_holding_steps p, ce_exit_ts = []\<rparr>))"

definition simulate_fill ::
  "string \<Rightarrow> pyfloat \<Rightarrow> pyfloat \<Rightarrow> market_tick \<Rightarrow> pyfloat \<Rightarrow> cost_model \<Rightarrow> symbol_spec \<Rightarrow> string \<Rightarrow> paper_fill \<times> paper_position" where
  "simulate_fill direction lot sl t risk_amount k spec trade_id =
     (let price = (if direction = ''BUY'' then mt_ask t else mt_bid t) in
      (\<lparr>xf_fill_price = price, xf_fill_ts = mt_timestamp_iso t, xf_lot = lot, xf_direction = direction, xf_sl_price = sl,
        xf_spread_at_fill = mt_spread t, xf_label = ''SIMULATED''\<rparr>,
       \<lparr>xp_trade_id = trade_id, xp_direction = direction, xp_lot = lot, xp_entry_price = price, xp_sl_price = sl,
        xp_entry_ts = mt_timestamp_iso t, xp_spread_at_entry = mt_spread t, xp_risk_amount_theoretical = risk_amount,
        xp_cost_model = k, xp_contract_size = sy_contract_size spec, xp_tick_value = sy_tick_value spec,
        xp_tick_size = sy_tick_size spec, xp_point = sy_point spec, xp_max_adverse_excursion = Fin 0,
        xp_max_favorable_excursion = Fin 0, xp_holding_steps = 0\<rparr>))"

section \<open>Evidence\<close>

record trade_evidence =
  te_evidence_id :: string
  te_trade_id :: string
  te_scenario_id :: string
  te_timestamp_open :: string
  te_timestamp_close :: string
  te_direction :: string
  te_proposal_source :: string
  te_confidence :: pyfloat
  te_risk_config_profile :: string
  te_equity_before :: pyfloat
  te_risk_budget :: pyfloat
  te_lot :: pyfloat
  te_entry_price :: pyfloat
  te_sl_price :: pyfloat
  te_max_risk_theoretical :: pyfloat
  te_spread_at_entry :: pyfloat
  te_exit_price :: pyfloat
  te_exit_reason :: string
  te_gross_pnl :: pyfloat
  te_spread_cost :: pyfloat
  te_commission_cost :: pyfloat
  te_swap_cost :: pyfloat
  te_slippage_cost :: pyfloat
  te_net_pnl :: pyfloat
  te_risk_realized :: pyfloat
  te_max_adverse_excursion :: pyfloat
  te_max_favorable_excursion :: pyfloat
  te_holding_duration :: int
  te_risk_decision :: string
  te_reason_code :: string
  te_label :: string
  te_cost_label :: string
  te_notes :: string

text \<open>\<open>from_close_result\<close> as the runner calls it: the record of the risk engine, the fill and the closed
  position carry the remaining arguments.\<close>

definition from_close_result ::
  "string \<Rightarrow> string \<Rightarrow> paper_scenario \<Rightarrow> risk_config \<Rightarrow> pyfloat \<Rightarrow> risk_record \<Rightarrow> paper_fill \<Rightarrow> close_result \<Rightarrow> string \<Rightarrow> trade_evidence" where
  "from_close_result evidence_id trade_id sn c equity r fill ce notes =
     \<lparr>te_evidence_id = evidence_id, te_trade_id = trade_id, te_scenario_id = sn_scenario_id sn,
      te_timestamp_open = xf_fill_ts fill, te_timestamp_close = ce_exit_ts ce, te_direction = rr_direction r,
      te_proposal_source = ''FIXTURE'', te_confidence = sn_confidence sn, te_risk_config_profile = rc_profile_name c,
      te_equity_before = equity, te_risk_budget = fmul equity (rc_risk_per_trade c), te_lot = rr_lot r,
      te_entry_price = xf_fill_price fill, te_sl_price = rr_sl r, te_max_risk_theoretical = rr_risk_amount r,
      te_spread_at_entry = xf_spread_at_fill fill, te_exit_price = ce_exit_price ce, te_exit_reason = ce_exit_reason ce,
      te_gross_pnl = ce_gross_pnl ce, te_spread_cost = kr_spread_cost (ce_costs ce),
      te_commission_cost = kr_commission_cost (ce_costs ce), te_swap_cost = kr_swap_cost (ce_costs ce),
      te_slippage_cost = kr_slippage_cost (ce_costs ce), te_net_pnl = ce_net_pnl ce,
      te_risk_realized = ce_risk_realized ce, te_max_adverse_excursion = ce_max_adverse_excursion ce,
      te_max_favorable_excursion = ce_max_favorable_excursion ce, te_holding_duration = ce_holding_steps ce,
      te_risk_decision = risk_verdict_value (rr_decision r), te_reason_code = reason_code_value (rr_reason_code r),
      te_label = ''SIMULATED'', te_cost_label = ''SIMULATED'', te_notes = notes\<rparr>"

section \<open>The scenario runner\<close>

record paper_env =
  pe_risk :: risk_env
  pe_hex :: "nat \<Rightarrow> string"
  pe_draws :: "nat \<Rightarrow> pyfloat"

record scenario_runner =
  sr_risk_config :: risk_config
  sr_sim_config :: simulation_config
  sr_spec :: symbol_spec

definition default_xauusdc_spec :: symbol_spec where
  "default_xauusdc_spec =
     \<lparr>sy_symbol = ''XAUUSDc'', sy_contract_size = Fin 1, sy_tick_size = flit 1 2, sy_tick_value = Fin 1,
      sy_volume_min = flit 1 2, sy_volume_max = Fin 1000, sy_volume_step = flit 1 2, sy_point = flit 1 2,
      sy_stops_level = Fin 0, sy_freeze_level = Fin 8, sy_margin_initial = Fin 0\<rparr>"

record scenario_result =
  so_scenario_id :: string
  so_approved :: bool
  so_exit_reason :: string
  so_trade_evidence :: "trade_evidence option"
  so_rejection_reason_code :: "string option"
  so_rejection_message :: "ftext option"
  so_notes :: string

text \<open>\<open>x or y\<close> of an optional float: \<open>None\<close> and zero give the alternative.\<close>

definition or_float :: "pyfloat option \<Rightarrow> pyfloat \<Rightarrow> pyfloat" where
  "or_float x y = (case x of None \<Rightarrow> y | Some v \<Rightarrow> if v = Fin 0 then y else v)"

definition make_account :: "paper_scenario \<Rightarrow> paper_account" where
  "make_account sn =
     \<lparr>pa_balance = sn_starting_balance sn, pa_equity = sn_starting_equity sn,
      pa_free_margin = or_float (sn_free_margin_override sn) (sn_starting_equity sn),
      pa_margin = or_float (sn_margin_override sn) (Fin 0), pa_existing_positions_count = sn_existing_positions sn,
      pa_current_exposure_usd = sn_current_exposure_usd sn, pa_current_drawdown_pct = sn_current_drawdown_pct sn\<rparr>"

definition make_market_state :: "market_tick \<Rightarrow> market_state" where
  "make_market_state t =
     \<lparr>mk_bid = mt_bid t, mk_ask = mt_ask t, mk_spread = mt_spread t, mk_mid = mt_mid t, mk_symbol = mt_symbol t,
      mk_timestamp_iso = mt_timestamp_iso t\<rparr>"

definition make_account_state :: "paper_account \<Rightarrow> account_state" where
  "make_account_state a =
     \<lparr>ac_balance = pa_balance a, ac_equity = pa_equity a, ac_free_margin = pa_free_margin a, ac_margin = pa_margin a,
      ac_existing_positions_count = pa_existing_positions_count a, ac_current_exposure_usd = pa_current_exposure_usd a,
      ac_current_drawdown_pct = pa_current_drawdown_pct a\<rparr>"

definition scenario_ticks :: "paper_env \<Rightarrow> scenario_runner \<Rightarrow> paper_scenario \<Rightarrow> pv_error + market_tick list" where
  "scenario_ticks E R sn =
     (if sn_ticks sn \<noteq> [] then from_fixture_ticks (pe_risk E) ''XAUUSDc'' (sn_ticks sn)
      else Inr (generate_ticks
        (default_replay_config\<lparr>pc_tick_count := max (sm_max_steps_per_scenario (sr_sim_config R)) 10,
           pc_seed := sm_seed (sr_sim_config R)\<rparr>) (pe_draws E)))"

definition fixture_proposal :: "paper_scenario \<Rightarrow> ai_proposal" where
  "fixture_proposal sn = P_dict
     [(''direction'', PStr (sn_direction sn)), (''confidence'', PFloat (sn_confidence sn)), (''reason'', PStr (sn_reason sn)),
      (''validation_ok'', PBool True), (''inference_id'', PStr (''fixture-'' @ sn_scenario_id sn)),
      (''correlation_id'', PStr (''scenario-'' @ sn_scenario_id sn))]"

text \<open>The evaluation at the first tick, whose own time stands for the present when it parses.\<close>

definition evaluate_first :: "paper_env \<Rightarrow> scenario_runner \<Rightarrow> paper_scenario \<Rightarrow> market_tick \<Rightarrow> risk_record option" where
  "evaluate_first E R sn t =
     (let now = (case re_parse_ts (pe_risk E) (mt_timestamp_iso t) of None \<Rightarrow> re_now_us (pe_risk E) | Some us \<Rightarrow> us) in
      evaluate ((pe_risk E)\<lparr>re_now_us := now\<rparr>) (sr_risk_config R) (fixture_proposal sn)
        (make_account_state (make_account sn)) (make_market_state t) (sr_spec R) (Some (''scenario-'' @ sn_scenario_id sn)))"

fun position_lifecycle :: "market_tick list \<Rightarrow> paper_position \<Rightarrow> pv_error + (paper_exit \<times> market_tick) option \<times> paper_position" where
  "position_lifecycle [] p = Inr (None, p)"
| "position_lifecycle (t # ts) p =
     (case check_exit p t of
        Inl e \<Rightarrow> Inl e
      | Inr (x, p') \<Rightarrow> (case x of None \<Rightarrow> position_lifecycle ts p' | Some y \<Rightarrow> Inr (Some (y, t), p')))"

definition refused_result :: "paper_scenario \<Rightarrow> string \<Rightarrow> ftext \<Rightarrow> scenario_result" where
  "refused_result sn code message =
     \<lparr>so_scenario_id = sn_scenario_id sn, so_approved = False, so_exit_reason = code, so_trade_evidence = None,
      so_rejection_reason_code = Some code, so_rejection_message = Some message, so_notes = []\<rparr>"

definition no_trade_result :: "paper_scenario \<Rightarrow> scenario_result" where
  "no_trade_result sn =
     \<lparr>so_scenario_id = sn_scenario_id sn, so_approved = False, so_exit_reason = paper_exit_value PX_PAPER_SESSION_END,
      so_trade_evidence = None, so_rejection_reason_code = None, so_rejection_message = None,
      so_notes = ''NO-TRADE proposal; no position opened''\<rparr>"

definition overrun :: "risk_record \<Rightarrow> close_result \<Rightarrow> bool" where
  "overrun r ce \<longleftrightarrow> flt (fmul (rr_risk_amount r) (flit 10001 4)) (ce_risk_realized ce)"

definition finish_trade ::
  "paper_env \<Rightarrow> scenario_runner \<Rightarrow> paper_scenario \<Rightarrow> risk_record \<Rightarrow> paper_fill \<Rightarrow> paper_exit \<Rightarrow> close_result \<Rightarrow> scenario_result" where
  "finish_trade E R sn r fill x ce =
     (let over = overrun r ce;
          ce' = (if over then ce\<lparr>ce_exit_reason := ce_exit_reason ce @ '' [RISK_BUDGET_OVERRUN_DUE_TO_SIMULATED_COST]''\<rparr> else ce);
          evidence = from_close_result (''ev-'' @ pe_hex E 1) (''paper-'' @ pe_hex E 0) sn (sr_risk_config R)
            (pa_equity (make_account sn)) r fill ce' (if over then ''RISK_BUDGET_OVERRUN'' else [])
      in \<lparr>so_scenario_id = sn_scenario_id sn, so_approved = True, so_exit_reason = paper_exit_value x,
          so_trade_evidence = Some evidence, so_rejection_reason_code = None, so_rejection_message = None,
          so_notes = (if over then ''RISK_BUDGET_OVERRUN_DUE_TO_SIMULATED_COST'' else [])\<rparr>)"

definition trade_scenario ::
  "paper_env \<Rightarrow> scenario_runner \<Rightarrow> paper_scenario \<Rightarrow> risk_record \<Rightarrow> market_tick \<Rightarrow> market_tick list \<Rightarrow> pv_error + scenario_result" where
  "trade_scenario E R sn r t ts =
     (case from_mode_str (sn_cost_mode sn) (sn_commission_per_lot sn) (sn_swap_per_lot_per_night sn)
             (sn_slippage_points sn) (sy_point (sr_spec R)) of
        Inl e \<Rightarrow> Inl e
      | Inr k \<Rightarrow>
          (case simulate_fill (rr_direction r) (rr_lot r) (rr_sl r) t (rr_risk_amount r) k (sr_spec R)
                  (''paper-'' @ pe_hex E 0) of
             (fill, p) \<Rightarrow>
               (case position_lifecycle ts p of
                  Inl e \<Rightarrow> Inl e
                | Inr (found, p') \<Rightarrow>
                    (let x = (case found of None \<Rightarrow> PX_PAPER_SESSION_END | Some (y, u) \<Rightarrow> y);
                         close_tick = (case found of None \<Rightarrow> t | Some (y, u) \<Rightarrow> u) in
                     case close_position p' close_tick x of
                       Inl e \<Rightarrow> Inl e
                     | Inr ce \<Rightarrow> Inr (finish_trade E R sn r fill x (ce\<lparr>ce_exit_ts := mt_timestamp_iso close_tick\<rparr>))))))"

definition run_scenario :: "paper_env \<Rightarrow> scenario_runner \<Rightarrow> paper_scenario \<Rightarrow> pv_error + scenario_result" where
  "run_scenario E R sn =
     (case scenario_ticks E R sn of
        Inl e \<Rightarrow> Inl e
      | Inr [] \<Rightarrow> Inr (refused_result sn ''DATA_INVALID'' [Lit ''No ticks available''])
      | Inr (t # ts) \<Rightarrow>
          (case evaluate_first E R sn t of
             None \<Rightarrow> Inl Risk_engine_raises
           | Some r \<Rightarrow>
               if rr_decision r = REJECT then Inr (refused_result sn (reason_code_value (rr_reason_code r)) (rr_reason r))
               else if sn_direction sn = ''NO-TRADE'' then Inr (no_trade_result sn)
               else trade_scenario E R sn r t ts))"

text \<open>One environment per scenario: every run draws fresh ids and its own random numbers.\<close>

fun run_batch :: "scenario_runner \<Rightarrow> (paper_env \<times> paper_scenario) list \<Rightarrow> pv_error + scenario_result list" where
  "run_batch R [] = Inr []"
| "run_batch R ((E, sn) # xs) =
     (case run_scenario E R sn of
        Inl e \<Rightarrow> Inl e
      | Inr x \<Rightarrow> (case run_batch R xs of Inl e \<Rightarrow> Inl e | Inr ys \<Rightarrow> Inr (x # ys)))"

end
