(* ===== verification/PvMetrics.thy ===== *)
theory PvMetrics
  imports PvSim
begin

text \<open>
  Aggregation of paper validation results: \<open>src/paper_validation/metrics.py\<close>. \<open>fsum\<close> is the built-in
  \<open>sum\<close> of a list of floats, whose rounding depends on the Python version; the running totals add one
  float at a time. The evidence is given as \<open>TradeEvidence\<close> objects.
\<close>

record metrics_summary =
  mm_total_scenarios :: int
  mm_approved :: int
  mm_rejected :: int
  mm_trades_closed :: int
  mm_abc_closes :: int
  mm_sl_stops :: int
  mm_session_ends :: int
  mm_total_theoretical_risk :: pyfloat
  mm_total_realized_loss :: pyfloat
  mm_max_loss :: pyfloat
  mm_risk_budget_breaches :: int
  mm_risk_overrun_due_to_cost :: int
  mm_total_net_pnl :: pyfloat
  mm_total_gross_pnl :: pyfloat
  mm_total_spread_cost :: pyfloat
  mm_total_commission_cost :: pyfloat
  mm_total_swap_cost :: pyfloat
  mm_total_slippage_cost :: pyfloat
  mm_avg_holding_steps :: pyfloat
  mm_avg_mae :: pyfloat
  mm_avg_mfe :: pyfloat
  mm_approval_rate :: pyfloat
  mm_rejection_rate :: pyfloat
  mm_reason_code_distribution :: "(string \<times> int) list"
  mm_label :: string

definition no_metrics :: metrics_summary where
  "no_metrics =
     \<lparr>mm_total_scenarios = 0, mm_approved = 0, mm_rejected = 0, mm_trades_closed = 0, mm_abc_closes = 0, mm_sl_stops = 0,
      mm_session_ends = 0, mm_total_theoretical_risk = Fin 0, mm_total_realized_loss = Fin 0, mm_max_loss = Fin 0,
      mm_risk_budget_breaches = 0, mm_risk_overrun_due_to_cost = 0, mm_total_net_pnl = Fin 0, mm_total_gross_pnl = Fin 0,
      mm_total_spread_cost = Fin 0, mm_total_commission_cost = Fin 0, mm_total_swap_cost = Fin 0,
      mm_total_slippage_cost = Fin 0, mm_avg_holding_steps = Fin 0, mm_avg_mae = Fin 0, mm_avg_mfe = Fin 0,
      mm_approval_rate = Fin 0, mm_rejection_rate = Fin 0, mm_reason_code_distribution = [], mm_label = ''SIMULATED''\<rparr>"

fun count_code :: "string \<Rightarrow> (string \<times> int) list \<Rightarrow> (string \<times> int) list" where
  "count_code k [] = [(k, 1)]"
| "count_code k ((c, n) # cs) = (if c = k then (c, n + 1) # cs else (c, n) # count_code k cs)"

definition count_verdict :: "scenario_result \<Rightarrow> metrics_summary \<Rightarrow> metrics_summary" where
  "count_verdict x m =
     (if so_approved x then m\<lparr>mm_approved := mm_approved m + 1\<rparr>
      else m\<lparr>mm_rejected := mm_rejected m + 1,
             mm_reason_code_distribution :=
               (case so_rejection_reason_code x of
                  None \<Rightarrow> mm_reason_code_distribution m
                | Some k \<Rightarrow> if k = [] then mm_reason_code_distribution m else count_code k (mm_reason_code_distribution m))\<rparr>)"

definition count_exit :: "scenario_result \<Rightarrow> metrics_summary \<Rightarrow> metrics_summary" where
  "count_exit x m =
     (if so_exit_reason x = ''ABC_PROFIT_CLOSE''
      then m\<lparr>mm_abc_closes := mm_abc_closes m + 1, mm_trades_closed := mm_trades_closed m + 1\<rparr>
      else if so_exit_reason x = ''SL_STOP''
      then m\<lparr>mm_sl_stops := mm_sl_stops m + 1, mm_trades_closed := mm_trades_closed m + 1\<rparr>
      else if so_exit_reason x = ''PAPER_SESSION_END''
      then m\<lparr>mm_session_ends := mm_session_ends m + 1, mm_trades_closed := mm_trades_closed m + 1\<rparr>
      else m)"

definition count_totals :: "trade_evidence \<Rightarrow> metrics_summary \<Rightarrow> metrics_summary" where
  "count_totals v m =
     m\<lparr>mm_total_theoretical_risk := fadd (mm_total_theoretical_risk m) (te_max_risk_theoretical v),
       mm_total_net_pnl := fadd (mm_total_net_pnl m) (te_net_pnl v),
       mm_total_gross_pnl := fadd (mm_total_gross_pnl m) (te_gross_pnl v),
       mm_total_spread_cost := fadd (mm_total_spread_cost m) (te_spread_cost v),
       mm_total_commission_cost := fadd (mm_total_commission_cost m) (te_commission_cost v),
       mm_total_swap_cost := fadd (mm_total_swap_cost m) (te_swap_cost v),
       mm_total_slippage_cost := fadd (mm_total_slippage_cost m) (te_slippage_cost v)\<rparr>"

definition count_loss :: "trade_evidence \<Rightarrow> metrics_summary \<Rightarrow> metrics_summary" where
  "count_loss v m =
     (if flt (te_net_pnl v) (Fin 0)
      then m\<lparr>mm_total_realized_loss := fadd (mm_total_realized_loss m) (fabs (te_net_pnl v)),
             mm_max_loss := (if flt (mm_max_loss m) (fabs (te_net_pnl v)) then fabs (te_net_pnl v) else mm_max_loss m)\<rparr>
      else m)"

definition count_breach :: "trade_evidence \<Rightarrow> metrics_summary \<Rightarrow> metrics_summary" where
  "count_breach v m =
     (if flt (fmul (te_max_risk_theoretical v) (flit 10001 4)) (te_risk_realized v)
      then m\<lparr>mm_risk_budget_breaches := mm_risk_budget_breaches m + 1,
             mm_risk_overrun_due_to_cost :=
               (if fpos (te_slippage_cost v) \<or> fpos (te_commission_cost v) then mm_risk_overrun_due_to_cost m + 1
                else mm_risk_overrun_due_to_cost m)\<rparr>
      else m)"

text \<open>The quotient of two integers, rounded once.\<close>

definition int_quotient :: "int \<Rightarrow> int \<Rightarrow> pyfloat" where
  "int_quotient a b = rnd (Fract a b)"

definition mean_of :: "(pyfloat list \<Rightarrow> pyfloat) \<Rightarrow> pyfloat list \<Rightarrow> pyfloat" where
  "mean_of fsum xs =
     (if xs = [] then Fin 0
      else case fdiv (fsum xs) (of_int_f (int (length xs))) of None \<Rightarrow> Fin 0 | Some y \<Rightarrow> y)"

definition compute_metrics ::
  "(pyfloat list \<Rightarrow> pyfloat) \<Rightarrow> scenario_result list \<Rightarrow> trade_evidence list option \<Rightarrow> metrics_summary" where
  "compute_metrics fsum results evidences =
     (let m0 = no_metrics\<lparr>mm_total_scenarios := int (length results)\<rparr>;
          m1 = fold (\<lambda>x m. count_exit x (count_verdict x m)) results m0;
          evs = (case evidences of None \<Rightarrow> [] | Some es \<Rightarrow> es);
          m2 = fold (\<lambda>v m. count_breach v (count_loss v (count_totals v m))) evs m1;
          total = mm_total_scenarios m2
      in m2\<lparr>mm_approval_rate := (if 0 < total then int_quotient (mm_approved m2) total else Fin 0),
            mm_rejection_rate := (if 0 < total then int_quotient (mm_rejected m2) total else Fin 0),
            mm_avg_holding_steps :=
              (if evs = [] then Fin 0 else int_quotient (sum_list (map te_holding_duration evs)) (int (length evs))),
            mm_avg_mae := mean_of fsum (map te_max_adverse_excursion evs),
            mm_avg_mfe := mean_of fsum (map te_max_favorable_excursion evs)\<rparr>)"

definition metrics_to_dict :: "metrics_summary \<Rightarrow> pydict" where
  "metrics_to_dict m =
     [(''total_scenarios'', PInt (mm_total_scenarios m)), (''approved'', PInt (mm_approved m)),
      (''rejected'', PInt (mm_rejected m)), (''trades_closed'', PInt (mm_trades_closed m)),
      (''abc_closes'', PInt (mm_abc_closes m)), (''sl_stops'', PInt (mm_sl_stops m)),
      (''session_ends'', PInt (mm_session_ends m)),
      (''total_theoretical_risk'', PFloat (fround 4 (mm_total_theoretical_risk m))),
      (''total_realized_loss'', PFloat (fround 4 (mm_total_realized_loss m))),
      (''max_loss'', PFloat (fround 4 (mm_max_loss m))), (''risk_budget_breaches'', PInt (mm_risk_budget_breaches m)),
      (''risk_overrun_due_to_cost'', PInt (mm_risk_overrun_due_to_cost m)),
      (''total_net_pnl'', PFloat (fround 4 (mm_total_net_pnl m))),
      (''total_gross_pnl'', PFloat (fround 4 (mm_total_gross_pnl m))),
      (''total_spread_cost'', PFloat (fround 4 (mm_total_spread_cost m))),
      (''total_commission_cost'', PFloat (fround 4 (mm_total_commission_cost m))),
      (''total_swap_cost'', PFloat (fround 4 (mm_total_swap_cost m))),
      (''total_slippage_cost'', PFloat (fround 4 (mm_total_slippage_cost m))),
      (''avg_holding_steps'', PFloat (fround 1 (mm_avg_holding_steps m))), (''avg_mae'', PFloat (fround 4 (mm_avg_mae m))),
      (''avg_mfe'', PFloat (fround 4 (mm_avg_mfe m))), (''approval_rate'', PFloat (fround 4 (mm_approval_rate m))),
      (''rejection_rate'', PFloat (fround 4 (mm_rejection_rate m))),
      (''reason_code_distribution'', PDict (map (\<lambda>(k, n). (k, PInt n)) (mm_reason_code_distribution m))),
      (''label'', PStr (mm_label m))]"

section \<open>What the counters add up to\<close>

definition count_results :: "scenario_result list \<Rightarrow> metrics_summary \<Rightarrow> metrics_summary" where
  "count_results = fold (\<lambda>x m. count_exit x (count_verdict x m))"

definition counters :: "metrics_summary \<Rightarrow> int \<times> int \<times> int \<times> int \<times> int \<times> int \<times> (string \<times> int) list" where
  "counters m =
     (mm_approved m, mm_rejected m, mm_trades_closed m, mm_abc_closes m, mm_sl_stops m, mm_session_ends m,
      mm_reason_code_distribution m)"

lemma counters_evidence: "counters (count_breach v (count_loss v (count_totals v m))) = counters m"
  by (simp add: counters_def count_breach_def count_loss_def count_totals_def)

lemma counters_evidences:
  "counters (fold (\<lambda>v m. count_breach v (count_loss v (count_totals v m))) evs m) = counters m"
  by (induction evs arbitrary: m) (simp_all add: counters_evidence)

lemma counters_step:
  "counters m = counters m' \<Longrightarrow> counters (count_exit x (count_verdict x m)) = counters (count_exit x (count_verdict x m'))"
  by (auto simp: counters_def count_exit_def count_verdict_def split: option.split)

lemma counters_results: "counters m = counters m' \<Longrightarrow> counters (count_results xs m) = counters (count_results xs m')"
proof (induction xs arbitrary: m m')
  case (Cons x xs)
  show ?case using Cons.IH [OF counters_step [OF Cons.prems]] by (simp add: count_results_def)
qed (simp add: count_results_def)

lemma metrics_counters: "counters (compute_metrics fsum xs evs) = counters (count_results xs no_metrics)"
proof -
  let ?m0 = "no_metrics\<lparr>mm_total_scenarios := int (length xs)\<rparr>"
  let ?evs = "case evs of None \<Rightarrow> [] | Some es \<Rightarrow> es"
  let ?m2 = "fold (\<lambda>v m. count_breach v (count_loss v (count_totals v m))) ?evs (count_results xs ?m0)"
  have "counters (compute_metrics fsum xs evs) = counters ?m2"
    unfolding compute_metrics_def Let_def count_results_def [symmetric] by (simp add: counters_def)
  also have "\<dots> = counters (count_results xs ?m0)" by (rule counters_evidences)
  also have "\<dots> = counters (count_results xs no_metrics)" by (rule counters_results) (simp add: counters_def)
  finally show ?thesis .
qed

text \<open>Every result is either approved or rejected, every trade closed has one of three reasons, and the
  reason codes are those of rejected results.\<close>

definition codes_total :: "(string \<times> int) list \<Rightarrow> int" where
  "codes_total cs = sum_list (map snd cs)"

lemma codes_total_count: "codes_total (count_code k cs) = codes_total cs + 1"
  by (induction k cs rule: count_code.induct) (simp_all add: codes_total_def)

definition balanced :: "int \<Rightarrow> metrics_summary \<Rightarrow> bool" where
  "balanced n m \<longleftrightarrow>
     mm_approved m + mm_rejected m = n \<and> mm_abc_closes m + mm_sl_stops m + mm_session_ends m = mm_trades_closed m"

lemma balanced_results: "balanced n m \<Longrightarrow> balanced (n + int (length xs)) (count_results xs m)"
proof (induction xs arbitrary: n m)
  case (Cons x xs)
  have "balanced (n + 1) (count_exit x (count_verdict x m))"
    using Cons.prems by (simp add: balanced_def count_exit_def count_verdict_def)
  from Cons.IH [OF this] show ?case by (simp add: count_results_def algebra_simps)
qed (simp add: count_results_def)

end
