(* ===== verification/PvClaims.thy ===== *)
theory PvClaims
  imports PvMetrics RiskClaims
begin

text \<open>Properties of the paper validation harness, with concrete scenarios that satisfy their hypotheses.\<close>

section \<open>What an approval of the first tick means\<close>

lemma fixture_view:
  "view_proposal E (Some s) (fixture_proposal sn) = Some v \<Longrightarrow> pv_direction v = sn_direction sn"
  by (auto simp: view_proposal_def fixture_proposal_def dget_default_def dget_def)

lemma evaluate_first_approve:
  assumes "evaluate_first E R sn t = Some r" and "rr_decision r \<noteq> REJECT"
  shows "rr_decision r = APPROVE" and "rr_direction r = sn_direction sn" and "sn_direction sn = ''BUY'' \<or> sn_direction sn = ''SELL''"
    and "\<not> flt (fmul (fmul (capital_basis (make_account_state (make_account sn)) (sr_risk_config R))
           (rc_risk_per_trade (sr_risk_config R))) (flit 10001 4)) (rr_risk_amount r)"
proof -
  show ok: "rr_decision r = APPROVE" using assms(2) by (cases "rr_decision r") simp_all
  from assms(1) [unfolded evaluate_first_def Let_def] show "rr_direction r = sn_direction sn"
    and "sn_direction sn = ''BUY'' \<or> sn_direction sn = ''SELL''"
    and "\<not> flt (fmul (fmul (capital_basis (make_account_state (make_account sn)) (sr_risk_config R))
           (rc_risk_per_trade (sr_risk_config R))) (flit 10001 4)) (rr_risk_amount r)"
    by (rule evaluate_approveE [OF _ ok]; elim validate_okE; simp add: fixture_view approved_record_def)+
qed

section \<open>The life of a position\<close>

text \<open>What a tick does to a position with given terms: the excursions and the step count have no part in it.\<close>

definition exit_at :: "paper_position \<Rightarrow> market_tick \<Rightarrow> pv_error + paper_exit option" where
  "exit_at p t = (case check_exit p t of Inl e \<Rightarrow> Inl e | Inr (x, p') \<Rightarrow> Inr x)"

definition same_terms :: "paper_position \<Rightarrow> paper_position \<Rightarrow> bool" where
  "same_terms p q \<longleftrightarrow>
     q = p\<lparr>xp_holding_steps := xp_holding_steps q, xp_max_adverse_excursion := xp_max_adverse_excursion q,
           xp_max_favorable_excursion := xp_max_favorable_excursion q\<rparr>"

lemma same_terms_refl: "same_terms p p"
  by (simp add: same_terms_def)

lemma same_terms_observe: "same_terms p q \<Longrightarrow> same_terms p (observe q g)"
  by (cases p, cases q) (simp add: same_terms_def observe_def)

lemma same_terms_fields:
  assumes "same_terms p q"
  shows "gross_pnl q t = gross_pnl p t" "stop_hit q t = stop_hit p t" "estimate_costs q t = estimate_costs p t"
    "exit_price_at q t = exit_price_at p t" "gross_pnl_at_price q x = gross_pnl_at_price p x"
    "xp_risk_amount_theoretical q = xp_risk_amount_theoretical p"
  using assms
  by (cases p; cases q; simp add: same_terms_def gross_pnl_def stop_hit_def estimate_costs_def exit_price_at_def
    gross_pnl_at_price_def)+

lemma check_exit_cases:
  assumes "check_exit q t = Inr (x, q')" and "same_terms p q"
  shows "q' = observe q (gross_pnl p t)" and "same_terms p q'" and "exit_at p t = Inr x"
proof -
  show q': "q' = observe q (gross_pnl p t)"
    using assms(1) same_terms_fields [OF assms(2)]
    by (auto simp: check_exit_def Let_def split: if_splits option.splits)
  then show "same_terms p q'" using assms(2) by (simp add: same_terms_observe)
  note fields = same_terms_fields [OF same_terms_observe [OF assms(2)]] same_terms_fields [OF assms(2)]
    same_terms_fields [OF same_terms_observe [OF same_terms_refl]]
  show "exit_at p t = Inr x"
    using assms(1) by (auto simp: exit_at_def check_exit_def Let_def fields split: if_splits option.splits)
qed

lemma lifecycle_found:
  assumes "position_lifecycle ts q = Inr (found, q')" and "same_terms p q"
  shows "same_terms p q' \<and>
    (case found of
       None \<Rightarrow> (\<forall>u \<in> set ts. exit_at p u = Inr None) \<and> q' = fold (\<lambda>u q. observe q (gross_pnl p u)) ts q
     | Some (x, u) \<Rightarrow> \<exists>us vs. ts = us @ u # vs \<and> (\<forall>w \<in> set us. exit_at p w = Inr None) \<and> exit_at p u = Inr (Some x)
         \<and> q' = fold (\<lambda>u q. observe q (gross_pnl p u)) (us @ [u]) q)"
  using assms
proof (induction ts arbitrary: q)
  case (Cons t ts)
  obtain x q1 where c: "check_exit q t = Inr (x, q1)" using Cons.prems(1) by (auto split: sum.splits)
  note one = check_exit_cases [OF c Cons.prems(2)]
  show ?case
  proof (cases x)
    case (Some y)
    then have "found = Some (y, t) \<and> q' = q1" using Cons.prems(1) c by simp
    then show ?thesis using one Some by (simp, intro exI [of _ "[]"] exI [of _ ts]) simp
  next
    case None
    then have rest: "position_lifecycle ts q1 = Inr (found, q')" using Cons.prems(1) c by simp
    note IH = Cons.IH [OF rest one(2)]
    show ?thesis
    proof (cases found)
      case None
      then show ?thesis using IH one \<open>x = None\<close> by auto
    next
      case (Some yu)
      obtain y u where yu: "yu = (y, u)" by fastforce
      from IH obtain us vs where "ts = us @ u # vs" "\<forall>w \<in> set us. exit_at p w = Inr None" "exit_at p u = Inr (Some y)"
        "q' = fold (\<lambda>u q. observe q (gross_pnl p u)) (us @ [u]) q1" and "same_terms p q'"
        using Some yu by auto
      then have "t # ts = (t # us) @ u # vs \<and> (\<forall>w \<in> set (t # us). exit_at p w = Inr None) \<and> exit_at p u = Inr (Some y)
          \<and> q' = fold (\<lambda>u q. observe q (gross_pnl p u)) ((t # us) @ [u]) q"
        using one \<open>x = None\<close> by simp
      then show ?thesis using \<open>same_terms p q'\<close> Some yu by (simp only: option.case prod.case) blast
    qed
  qed
qed (simp)

lemma observed_steps: "xp_holding_steps (fold (\<lambda>u q. observe q (g u)) ts q) = xp_holding_steps q + int (length ts)"
  by (induction ts arbitrary: q) (simp_all add: observe_def)

lemma observed_excursions:
  assumes "xp_max_adverse_excursion q \<noteq> NaN" and "xp_max_favorable_excursion q \<noteq> NaN"
  shows "let q' = fold (\<lambda>u q. observe q (g u)) ts q in
    xp_max_adverse_excursion q' \<noteq> NaN \<and> xp_max_favorable_excursion q' \<noteq> NaN
    \<and> fle (xp_max_adverse_excursion q') (xp_max_adverse_excursion q)
    \<and> fle (xp_max_favorable_excursion q) (xp_max_favorable_excursion q')
    \<and> (\<forall>u \<in> set ts. \<not> flt (g u) (xp_max_adverse_excursion q') \<and> \<not> flt (xp_max_favorable_excursion q') (g u))"
  using assms
proof (induction ts arbitrary: q)
  case Nil
  then show ?case by (simp add: fle_refl)
next
  case (Cons t ts)
  let ?q = "observe q (g t)"
  have q: "xp_max_adverse_excursion ?q \<noteq> NaN" "xp_max_favorable_excursion ?q \<noteq> NaN"
    "fle (xp_max_adverse_excursion ?q) (xp_max_adverse_excursion q)"
    "fle (xp_max_favorable_excursion q) (xp_max_favorable_excursion ?q)"
    "\<not> flt (g t) (xp_max_adverse_excursion ?q)" "\<not> flt (xp_max_favorable_excursion ?q) (g t)"
    using Cons.prems flt_not_NaN flt_imp_fle flt_irrefl fle_refl by (auto simp: observe_def)
  let ?r = "fold (\<lambda>u q. observe q (g u)) ts ?q"
  from Cons.IH [OF q(1,2)] have r: "xp_max_adverse_excursion ?r \<noteq> NaN" "xp_max_favorable_excursion ?r \<noteq> NaN"
    "fle (xp_max_adverse_excursion ?r) (xp_max_adverse_excursion ?q)"
    "fle (xp_max_favorable_excursion ?q) (xp_max_favorable_excursion ?r)"
    "\<forall>u \<in> set ts. \<not> flt (g u) (xp_max_adverse_excursion ?r) \<and> \<not> flt (xp_max_favorable_excursion ?r) (g u)"
    by (simp_all add: Let_def)
  have "\<not> flt (g t) (xp_max_adverse_excursion ?r)" using q(5) r(3) flt_fle_trans by blast
  moreover have "\<not> flt (xp_max_favorable_excursion ?r) (g t)" using q(6) r(4) fle_flt_trans by blast
  ultimately show ?case
    using r fle_trans [OF r(3) q(3)] fle_trans [OF q(4) r(4)] by (simp add: Let_def)
qed

section \<open>Runs that trade\<close>

definition entered :: "paper_env \<Rightarrow> scenario_runner \<Rightarrow> risk_record \<Rightarrow> cost_model \<Rightarrow> market_tick \<Rightarrow> paper_position" where
  "entered E R r k t =
     snd (simulate_fill (rr_direction r) (rr_lot r) (rr_sl r) t (rr_risk_amount r) k (sr_spec R) (''paper-'' @ pe_hex E 0))"

lemma trade_scenarioE:
  assumes "trade_scenario E R sn r t ts = Inr x"
  obtains k found q ce where
    "from_mode_str (sn_cost_mode sn) (sn_commission_per_lot sn) (sn_swap_per_lot_per_night sn) (sn_slippage_points sn)
       (sy_point (sr_spec R)) = Inr k"
    and "position_lifecycle ts (entered E R r k t) = Inr (found, q)"
    and "close_position q (case found of None \<Rightarrow> t | Some (y, u) \<Rightarrow> u) (case found of None \<Rightarrow> PX_PAPER_SESSION_END | Some (y, u) \<Rightarrow> y) = Inr ce"
    and "x = finish_trade E R sn r
      (fst (simulate_fill (rr_direction r) (rr_lot r) (rr_sl r) t (rr_risk_amount r) k (sr_spec R) (''paper-'' @ pe_hex E 0)))
      (case found of None \<Rightarrow> PX_PAPER_SESSION_END | Some (y, u) \<Rightarrow> y)
      (ce\<lparr>ce_exit_ts := mt_timestamp_iso (case found of None \<Rightarrow> t | Some (y, u) \<Rightarrow> u)\<rparr>)"
  using assms unfolding trade_scenario_def entered_def Let_def
  by (auto split: sum.splits prod.splits)

lemma run_scenarioE:
  assumes "run_scenario E R sn = Inr x"
  obtains (no_ticks) "scenario_ticks E R sn = Inr []" and "x = refused_result sn ''DATA_INVALID'' [Lit ''No ticks available'']"
  | (refused) t ts r where "scenario_ticks E R sn = Inr (t # ts)" and "evaluate_first E R sn t = Some r"
      and "rr_decision r = REJECT" and "x = refused_result sn (reason_code_value (rr_reason_code r)) (rr_reason r)"
  | (traded) t ts r where "scenario_ticks E R sn = Inr (t # ts)" and "evaluate_first E R sn t = Some r"
      and "rr_decision r \<noteq> REJECT" and "trade_scenario E R sn r t ts = Inr x"
proof -
  obtain tts where ticks: "scenario_ticks E R sn = Inr tts" using assms by (auto simp: run_scenario_def split: sum.splits)
  show thesis
  proof (cases tts)
    case Nil
    then show thesis using no_ticks ticks assms by (simp add: run_scenario_def)
  next
    case (Cons t ts)
    then obtain r where r: "evaluate_first E R sn t = Some r"
      using assms ticks by (auto simp: run_scenario_def split: option.splits)
    show thesis
    proof (cases "rr_decision r = REJECT")
      case True
      then show thesis using refused [of t ts r] ticks Cons r assms by (simp add: run_scenario_def)
    next
      case False
      then have "sn_direction sn \<noteq> ''NO-TRADE''" using evaluate_first_approve(3) [OF r] by auto
      then show thesis using traded [of t ts r] ticks Cons r False assms by (simp add: run_scenario_def)
    qed
  qed
qed

lemma finish_trade_fields:
  "so_approved (finish_trade E R sn r fill x ce)" "so_exit_reason (finish_trade E R sn r fill x ce) = paper_exit_value x"
  "so_rejection_reason_code (finish_trade E R sn r fill x ce) = None"
  by (simp_all add: finish_trade_def Let_def)

lemma finish_trade_evidence:
  assumes "so_trade_evidence (finish_trade E R sn r fill x ce) = Some v"
  shows "te_lot v = rr_lot r" and "te_sl_price v = rr_sl r" and "te_direction v = rr_direction r"
    and "te_entry_price v = xf_fill_price fill" and "te_max_risk_theoretical v = rr_risk_amount r"
    and "te_timestamp_open v = xf_fill_ts fill" and "te_timestamp_close v = ce_exit_ts ce"
    and "te_exit_price v = ce_exit_price ce" and "te_holding_duration v = ce_holding_steps ce"
    and "te_max_adverse_excursion v = ce_max_adverse_excursion ce"
    and "te_max_favorable_excursion v = ce_max_favorable_excursion ce"
  using assms by (auto simp: finish_trade_def Let_def from_close_result_def split: if_splits)

lemma closed_fields:
  assumes "close_position q u x = Inr ce"
  shows "ce_exit_price ce = exit_price_at q u" and "ce_holding_steps ce = xp_holding_steps q"
    and "ce_max_adverse_excursion ce = fround 4 (xp_max_adverse_excursion q)"
    and "ce_max_favorable_excursion ce = fround 4 (xp_max_favorable_excursion q)"
  using assms by (auto simp: close_position_def Let_def split: option.splits)

text \<open>C35. No paper trade without the risk engine. A scenario reports a trade exactly when it reports
  approval, and then the risk engine, asked at the first tick with the time of that tick as the
  present, approved: the lot, the stop loss, the direction and the theoretical risk of the evidence
  are the ones it computed, the direction is the one proposed and is BUY or SELL, the entry is at the
  ask or the bid of that tick, and the theoretical risk is within the budget of the account (up to a
  ten-thousandth). A scenario that is not approved carries a rejection code and no evidence.\<close>

theorem paper_trades_are_approved:
  assumes "run_scenario E R sn = Inr x"
  shows "(so_approved x \<longleftrightarrow> so_trade_evidence x \<noteq> None) \<and> (so_approved x \<longleftrightarrow> so_rejection_reason_code x = None)
    \<and> (\<forall>v. so_trade_evidence x = Some v \<longrightarrow>
        (\<exists>t ts r. scenario_ticks E R sn = Inr (t # ts) \<and> evaluate_first E R sn t = Some r \<and> rr_decision r = APPROVE
          \<and> te_lot v = rr_lot r \<and> te_sl_price v = rr_sl r \<and> te_max_risk_theoretical v = rr_risk_amount r
          \<and> te_direction v = sn_direction sn \<and> te_direction v \<in> {''BUY'', ''SELL''}
          \<and> te_entry_price v = (if te_direction v = ''BUY'' then mt_ask t else mt_bid t)
          \<and> \<not> flt (fmul (fmul (capital_basis (make_account_state (make_account sn)) (sr_risk_config R))
               (rc_risk_per_trade (sr_risk_config R))) (flit 10001 4)) (te_max_risk_theoretical v)))"
  using assms
proof (cases rule: run_scenarioE)
  case (traded t ts r)
  note approved = evaluate_first_approve [OF traded(2,3)]
  from traded(4) show ?thesis
  proof (cases rule: trade_scenarioE)
    case (1 k found q ce)
    let ?fill = "fst (simulate_fill (rr_direction r) (rr_lot r) (rr_sl r) t (rr_risk_amount r) k (sr_spec R) (''paper-'' @ pe_hex E 0))"
    have fill: "xf_fill_price ?fill = (if rr_direction r = ''BUY'' then mt_ask t else mt_bid t)"
      by (simp add: simulate_fill_def Let_def)
    have "te_lot v = rr_lot r \<and> te_sl_price v = rr_sl r \<and> te_max_risk_theoretical v = rr_risk_amount r
        \<and> te_direction v = sn_direction sn \<and> te_direction v \<in> {''BUY'', ''SELL''}
        \<and> te_entry_price v = (if te_direction v = ''BUY'' then mt_ask t else mt_bid t)
        \<and> \<not> flt (fmul (fmul (capital_basis (make_account_state (make_account sn)) (sr_risk_config R))
             (rc_risk_per_trade (sr_risk_config R))) (flit 10001 4)) (te_max_risk_theoretical v)"
      if "so_trade_evidence x = Some v" for v
      using finish_trade_evidence [OF that [unfolded 1(4)]] fill approved by auto
    then have "\<forall>v. so_trade_evidence x = Some v \<longrightarrow>
        (\<exists>t ts r. scenario_ticks E R sn = Inr (t # ts) \<and> evaluate_first E R sn t = Some r \<and> rr_decision r = APPROVE
          \<and> te_lot v = rr_lot r \<and> te_sl_price v = rr_sl r \<and> te_max_risk_theoretical v = rr_risk_amount r
          \<and> te_direction v = sn_direction sn \<and> te_direction v \<in> {''BUY'', ''SELL''}
          \<and> te_entry_price v = (if te_direction v = ''BUY'' then mt_ask t else mt_bid t)
          \<and> \<not> flt (fmul (fmul (capital_basis (make_account_state (make_account sn)) (sr_risk_config R))
               (rc_risk_per_trade (sr_risk_config R))) (flit 10001 4)) (te_max_risk_theoretical v))"
      using traded(1,2) approved(1) by blast
    then show ?thesis using 1(4) by (simp add: finish_trade_fields) (simp add: finish_trade_def Let_def)
  qed
qed (simp_all add: refused_result_def)

section \<open>When a paper trade ends\<close>

text \<open>The rule of the strategy, without the bookkeeping: the stop loss first, then any net profit.\<close>

definition exit_rule :: "paper_position \<Rightarrow> market_tick \<Rightarrow> pv_error + paper_exit option" where
  "exit_rule p u =
     (if stop_hit p u then Inr (Some PX_SL_STOP)
      else case estimate_costs p u of
          None \<Rightarrow> Inl Division_by_zero
        | Some k \<Rightarrow>
            Inr (if fpos (fsub (gross_pnl p u) (fadd (fadd (kr_commission_cost k) (kr_swap_cost k)) (kr_slippage_cost k)))
                 then Some PX_ABC_PROFIT_CLOSE else None))"

lemma exit_at_rule: "exit_at p u = exit_rule p u"
  using same_terms_fields [OF same_terms_observe [OF same_terms_refl], of p]
  by (simp add: exit_at_def exit_rule_def check_exit_def Let_def split: option.split)

lemma exit_rule_reason: "exit_rule p u = Inr (Some y) \<Longrightarrow> y = PX_SL_STOP \<or> y = PX_ABC_PROFIT_CLOSE"
  by (auto simp: exit_rule_def split: if_splits option.splits)

text \<open>C36. A paper trade ends at the first tick after the entry where the rule says so: at the stop loss
  when the closing side of the tick has reached it, otherwise at any net profit after commission, swap
  and slippage; the ticks before it gave no reason, and the evidence has the price, the time and the
  number of steps of that tick. When no tick gives a reason the session ends; the trade is then closed
  at the price and time of the tick it was entered at, however many ticks were watched after it.\<close>

theorem paper_exit_is_first_trigger:
  assumes "run_scenario E R sn = Inr x" and "so_trade_evidence x = Some v"
  shows "\<exists>t ts r k. scenario_ticks E R sn = Inr (t # ts) \<and> evaluate_first E R sn t = Some r
    \<and> from_mode_str (sn_cost_mode sn) (sn_commission_per_lot sn) (sn_swap_per_lot_per_night sn) (sn_slippage_points sn)
        (sy_point (sr_spec R)) = Inr k
    \<and> (so_exit_reason x = ''PAPER_SESSION_END'' \<and> (\<forall>u \<in> set ts. exit_rule (entered E R r k t) u = Inr None)
         \<and> te_exit_price v = exit_price_at (entered E R r k t) t \<and> te_timestamp_close v = te_timestamp_open v
         \<and> te_holding_duration v = int (length ts)
       \<or> (\<exists>us u vs y. ts = us @ u # vs \<and> (\<forall>w \<in> set us. exit_rule (entered E R r k t) w = Inr None)
            \<and> exit_rule (entered E R r k t) u = Inr (Some y) \<and> so_exit_reason x = paper_exit_value y
            \<and> te_exit_price v = exit_price_at (entered E R r k t) u \<and> te_timestamp_close v = mt_timestamp_iso u
            \<and> te_holding_duration v = int (length us) + 1))"
  using assms(1)
proof (cases rule: run_scenarioE)
  case (traded t ts r)
  from traded(4) show ?thesis
  proof (cases rule: trade_scenarioE)
    case (1 k found q ce)
    let ?p = "entered E R r k t"
    note facts = finish_trade_evidence [OF assms(2) [unfolded 1(4)]] closed_fields [OF 1(3)]
    have steps: "xp_holding_steps ?p = 0" and opened: "te_timestamp_open v = mt_timestamp_iso t"
      using facts(6) by (simp_all add: entered_def simulate_fill_def Let_def)
    have life: "same_terms ?p q \<and>
      (case found of
         None \<Rightarrow> (\<forall>u \<in> set ts. exit_rule ?p u = Inr None) \<and> q = fold (\<lambda>u q. observe q (gross_pnl ?p u)) ts ?p
       | Some (x, u) \<Rightarrow> \<exists>us vs. ts = us @ u # vs \<and> (\<forall>w \<in> set us. exit_rule ?p w = Inr None) \<and> exit_rule ?p u = Inr (Some x)
           \<and> q = fold (\<lambda>u q. observe q (gross_pnl ?p u)) (us @ [u]) ?p)"
      using lifecycle_found [OF 1(2) same_terms_refl] unfolding exit_at_rule .
    note same = same_terms_fields(4) [OF conjunct1 [OF life]]
    show ?thesis
    proof (cases found)
      case None
      then have "so_exit_reason x = ''PAPER_SESSION_END'' \<and> (\<forall>u \<in> set ts. exit_rule ?p u = Inr None)
         \<and> te_exit_price v = exit_price_at ?p t \<and> te_timestamp_close v = te_timestamp_open v
         \<and> te_holding_duration v = int (length ts)"
        using life facts same opened observed_steps [of "gross_pnl ?p" ts ?p] steps 1(4) by (simp add: finish_trade_fields)
      then show ?thesis using traded(1,2) 1(1) by blast
    next
      case (Some yu)
      obtain y u where yu: "yu = (y, u)" by fastforce
      from life obtain us vs where split: "ts = us @ u # vs" "\<forall>w \<in> set us. exit_rule ?p w = Inr None"
          "exit_rule ?p u = Inr (Some y)" and q: "q = fold (\<lambda>u q. observe q (gross_pnl ?p u)) (us @ [u]) ?p"
        using Some yu by auto
      have "so_exit_reason x = paper_exit_value y \<and> te_exit_price v = exit_price_at ?p u
          \<and> te_timestamp_close v = mt_timestamp_iso u \<and> te_holding_duration v = int (length us) + 1"
        using facts same observed_steps [of "gross_pnl ?p" "us @ [u]" ?p, folded q] steps 1(4) Some yu
        by (simp add: finish_trade_fields)
      then show ?thesis using split traded(1,2) 1(1) by blast
    qed
  qed
qed (use assms(2) in \<open>simp_all add: refused_result_def\<close>)

text \<open>The excursions bound what was observed: after the ticks of a position have been watched, the
  maximum adverse excursion is not positive, the maximum favourable one is not negative, and the gross
  result at every tick watched, the last one included, lies between them (a NaN result is ignored).\<close>

theorem excursions_bound_observed_pnl:
  assumes "position_lifecycle ts p = Inr (found, q)"
    and "xp_max_adverse_excursion p = Fin 0" and "xp_max_favorable_excursion p = Fin 0" and "xp_holding_steps p = 0"
  shows "fle (xp_max_adverse_excursion q) (Fin 0) \<and> fle (Fin 0) (xp_max_favorable_excursion q)
    \<and> 0 \<le> xp_holding_steps q \<and> (found = None \<longrightarrow> xp_holding_steps q = int (length ts))
    \<and> (\<forall>u \<in> set (take (nat (xp_holding_steps q)) ts).
        \<not> flt (gross_pnl p u) (xp_max_adverse_excursion q) \<and> \<not> flt (xp_max_favorable_excursion q) (gross_pnl p u))"
proof -
  note life = conjunct2 [OF lifecycle_found [OF assms(1) same_terms_refl]]
  have "\<exists>us vs. ts = us @ vs \<and> q = fold (\<lambda>u q. observe q (gross_pnl p u)) us p \<and> (found = None \<longrightarrow> vs = [])"
  proof (cases found)
    case None
    then show ?thesis using life by (intro exI [of _ ts] exI [of _ "[]"]) simp
  next
    case (Some yu)
    obtain y u where yu: "yu = (y, u)" by fastforce
    from life obtain us vs where "ts = us @ u # vs" "q = fold (\<lambda>u q. observe q (gross_pnl p u)) (us @ [u]) p"
      unfolding Some yu option.case prod.case by blast
    then show ?thesis using Some by (intro exI [of _ "us @ [u]"] exI [of _ vs]) simp
  qed
  then obtain us vs where ts: "ts = us @ vs" and q: "q = fold (\<lambda>u q. observe q (gross_pnl p u)) us p"
    and all: "found = None \<longrightarrow> vs = []" by blast
  have steps: "xp_holding_steps q = int (length us)" using observed_steps [of "gross_pnl p" us p] q assms(4) by simp
  then show ?thesis
    using observed_excursions [of p "gross_pnl p" us, folded q] assms(2,3) ts all by (simp add: Let_def)
qed

section \<open>Metrics of a batch\<close>

lemma reason_code_exit:
  "reason_code_value c \<notin> {''ABC_PROFIT_CLOSE'', ''SL_STOP'', ''PAPER_SESSION_END'', []}"
  by (cases c) simp_all

definition trade_ends :: "string set" where
  "trade_ends = {''ABC_PROFIT_CLOSE'', ''SL_STOP'', ''PAPER_SESSION_END''}"

lemma run_scenario_shape:
  assumes "run_scenario E R sn = Inr x"
  shows "so_approved x \<and> so_exit_reason x \<in> trade_ends
    \<or> \<not> so_approved x \<and> so_exit_reason x \<notin> trade_ends \<and> (\<exists>c. so_rejection_reason_code x = Some c \<and> c \<noteq> [])"
  using assms
proof (cases rule: run_scenarioE)
  case (refused t ts r)
  then show ?thesis using reason_code_exit [of "rr_reason_code r"] by (simp add: refused_result_def trade_ends_def)
next
  case (traded t ts r)
  from traded(4) show ?thesis
  proof (cases rule: trade_scenarioE)
    case (1 k found q ce)
    have "paper_exit_value (case found of None \<Rightarrow> PX_PAPER_SESSION_END | Some (y, u) \<Rightarrow> y) \<in> trade_ends"
    proof (cases found)
      case (Some yu)
      then have "\<exists>u. exit_rule (entered E R r k t) u = Inr (Some (fst yu))"
        using lifecycle_found [OF 1(2) same_terms_refl] by (cases yu) (auto simp: exit_at_rule)
      then have "fst yu = PX_SL_STOP \<or> fst yu = PX_ABC_PROFIT_CLOSE" using exit_rule_reason by blast
      then show ?thesis using Some by (cases yu) (auto simp: trade_ends_def)
    qed (simp add: trade_ends_def)
    then show ?thesis using 1(4) by (simp add: finish_trade_fields)
  qed
qed (simp add: refused_result_def trade_ends_def)

lemma run_batch_shape:
  "run_batch R xs = Inr results \<Longrightarrow> length results = length xs \<and> (\<forall>x \<in> set results.
     so_approved x \<and> so_exit_reason x \<in> trade_ends
     \<or> \<not> so_approved x \<and> so_exit_reason x \<notin> trade_ends \<and> (\<exists>c. so_rejection_reason_code x = Some c \<and> c \<noteq> []))"
proof (induction xs arbitrary: results)
  case (Cons a xs)
  obtain E sn where a: "a = (E, sn)" by fastforce
  then obtain x ys where "run_scenario E R sn = Inr x" "run_batch R xs = Inr ys" "results = x # ys"
    using Cons.prems by (auto split: sum.splits)
  then show ?case using Cons.IH run_scenario_shape by fastforce
qed simp

lemma shaped_counts:
  assumes "\<forall>x \<in> set results. so_approved x \<and> so_exit_reason x \<in> trade_ends
     \<or> \<not> so_approved x \<and> so_exit_reason x \<notin> trade_ends \<and> (\<exists>c. so_rejection_reason_code x = Some c \<and> c \<noteq> [])"
    and "mm_trades_closed m = mm_approved m" and "codes_total (mm_reason_code_distribution m) = mm_rejected m"
  shows "mm_trades_closed (count_results results m) = mm_approved (count_results results m)
    \<and> codes_total (mm_reason_code_distribution (count_results results m)) = mm_rejected (count_results results m)"
  using assms
proof (induction results arbitrary: m)
  case (Cons x xs)
  let ?m = "count_exit x (count_verdict x m)"
  have "mm_trades_closed ?m = mm_approved ?m \<and> codes_total (mm_reason_code_distribution ?m) = mm_rejected ?m"
    using Cons.prems by (auto simp: count_exit_def count_verdict_def trade_ends_def codes_total_count)
  then show ?case using Cons.IH [of ?m] Cons.prems(1) by (simp add: count_results_def)
qed (simp add: count_results_def)

text \<open>C37. The metrics account for every scenario of a batch: approved and rejected add up to the number
  of scenarios, every approved scenario is exactly one closed trade and no rejected one is, the three
  kinds of exit add up to the closed trades, and the reason codes add up to the rejections.\<close>

theorem metrics_account_for_batch:
  assumes "run_batch R xs = Inr results"
  shows "mm_approved (compute_metrics fsum results evs) + mm_rejected (compute_metrics fsum results evs) = int (length xs)
    \<and> mm_trades_closed (compute_metrics fsum results evs) = mm_approved (compute_metrics fsum results evs)
    \<and> mm_abc_closes (compute_metrics fsum results evs) + mm_sl_stops (compute_metrics fsum results evs)
        + mm_session_ends (compute_metrics fsum results evs) = mm_trades_closed (compute_metrics fsum results evs)
    \<and> codes_total (mm_reason_code_distribution (compute_metrics fsum results evs))
        = mm_rejected (compute_metrics fsum results evs)"
proof -
  note shape = run_batch_shape [OF assms]
  have "balanced (0 + int (length results)) (count_results results no_metrics)"
    by (rule balanced_results) (simp add: balanced_def no_metrics_def)
  moreover have "mm_trades_closed (count_results results no_metrics) = mm_approved (count_results results no_metrics)
    \<and> codes_total (mm_reason_code_distribution (count_results results no_metrics))
        = mm_rejected (count_results results no_metrics)"
    using shape by (intro shaped_counts) (simp_all add: no_metrics_def codes_total_def)
  ultimately show ?thesis
    using metrics_counters [of fsum results evs] shape by (simp add: counters_def balanced_def)
qed

section \<open>What the harness leaves out\<close>

text \<open>The number of nights is never passed, so a configured swap is never charged.\<close>

lemma swap_never_charged:
  assumes "estimate_costs p u = Some k"
  shows "kr_swap_cost k \<in> {Fin 0, NaN}"
proof -
  let ?rate = "fmul (km_swap_per_lot_per_night (xp_cost_model p)) (xp_lot p)"
  have zero: "fround 4 (Fin 0) = Fin 0"
    by (simp add: round_half_even_def rdiv_he_def rnd_0 rat_number_collapse)
  have "fmul ?rate (of_int_f 0) \<in> {Fin 0, NaN}"
    by (cases ?rate) (simp_all add: of_int_f_def rnd_0 inf_of_sgn_def)
  then have "fround 4 (fmul ?rate (of_int_f 0)) \<in> {Fin 0, NaN}" using zero by (elim insertE emptyE) simp_all
  moreover have "kr_swap_cost k = fround 4 (if km_mode (xp_cost_model p) = FULL_COST_MODEL then fmul ?rate (of_int_f 0) else Fin 0)"
    using assms by (auto simp: estimate_costs_def compute_costs_def Let_def)
  ultimately show ?thesis using zero by (simp del: fround.simps split: if_splits)
qed

text \<open>An override of the free margin to zero is taken for no override.\<close>

lemma zero_free_margin_ignored:
  "make_account (sn\<lparr>sn_free_margin_override := Some (Fin 0)\<rparr>) = make_account (sn\<lparr>sn_free_margin_override := None\<rparr>)"
  by (simp add: make_account_def or_float_def)

section \<open>The hypotheses hold at concrete inputs\<close>

definition demo_paper_env :: paper_env where
  "demo_paper_env = \<lparr>pe_risk = demo_risk_env, pe_hex = (\<lambda>n. replicate 12 (CHR ''a'')), pe_draws = (\<lambda>n. Fin (1 / 2))\<rparr>"

definition demo_runner :: scenario_runner where
  "demo_runner =
     \<lparr>sr_risk_config = demo_risk_config, sr_sim_config = default_simulation_config, sr_spec = demo_symbol\<rparr>"

definition demo_quote :: "rat \<Rightarrow> rat \<Rightarrow> pydict" where
  "demo_quote bid ask =
     [(''bid'', PFloat (Fin bid)), (''ask'', PFloat (Fin ask)), (''timestamp_iso'', PStr ''2026-01-01T00:00:00Z'')]"

definition demo_scenario :: "pydict list \<Rightarrow> paper_scenario" where
  "demo_scenario later = (new_scenario ''s1'' ''stop loss'' ''BUY'')
     \<lparr>sn_confidence := Fin (3 / 4), sn_ticks := demo_quote (17599 / 4) 4400 # later, sn_starting_equity := Fin 65536,
      sn_starting_balance := Fin 65536\<rparr>"

definition stop_ticks :: "pydict list" where
  "stop_ticks = [demo_quote 4395 (17581 / 4), demo_quote 4380 (17521 / 4), demo_quote 4500 4501]"

text \<open>The loss at the stop loss is 100; the risk engine, which counts points as ticks, had put the risk of
  the trade at 1000.\<close>

lemma demo_stopped:
  "case run_scenario demo_paper_env demo_runner (demo_scenario stop_ticks) of Inl e \<Rightarrow> False
    | Inr x \<Rightarrow> so_exit_reason x = ''SL_STOP''
        \<and> (case so_trade_evidence x of None \<Rightarrow> False
           | Some v \<Rightarrow> te_holding_duration v = 2 \<and> te_max_risk_theoretical v = Fin 1000 \<and> te_risk_realized v = Fin 100)"
  by code_simp

lemma demo_session_end:
  "case run_scenario demo_paper_env demo_runner (demo_scenario [demo_quote 4395 (17581 / 4)]) of Inl e \<Rightarrow> False
    | Inr x \<Rightarrow> so_exit_reason x = ''PAPER_SESSION_END''
        \<and> (case so_trade_evidence x of None \<Rightarrow> False
           | Some v \<Rightarrow> te_exit_price v = Fin (17599 / 4) \<and> te_max_adverse_excursion v = Fin (- 25)
               \<and> te_gross_pnl v = Fin (- (5 / 4)))"
  by code_simp

theorem paper_trades_are_approved_witness:
  "\<exists>x v t ts r. run_scenario demo_paper_env demo_runner (demo_scenario stop_ticks) = Inr x \<and> so_trade_evidence x = Some v
     \<and> evaluate_first demo_paper_env demo_runner (demo_scenario stop_ticks) t = Some r \<and> rr_decision r = APPROVE
     \<and> te_lot v = rr_lot r \<and> te_max_risk_theoretical v = Fin 1000 \<and> te_risk_realized v = Fin 100"
proof -
  obtain x v where run: "run_scenario demo_paper_env demo_runner (demo_scenario stop_ticks) = Inr x"
    and v: "so_trade_evidence x = Some v" "te_max_risk_theoretical v = Fin 1000" "te_risk_realized v = Fin 100"
    using demo_stopped by (auto split: sum.splits option.splits)
  from paper_trades_are_approved [OF run] v(1) obtain t ts r where
    "evaluate_first demo_paper_env demo_runner (demo_scenario stop_ticks) t = Some r" "rr_decision r = APPROVE" "te_lot v = rr_lot r"
    by blast
  then show ?thesis using run v by blast
qed

text \<open>A session that ends: the bid fell to 4395 at the only tick watched, a loss of 25, and the evidence
  says the trade was closed at the bid of the entry, 4399.75, with a loss of 1.25.\<close>

theorem paper_exit_is_first_trigger_witness:
  "\<exists>x v. run_scenario demo_paper_env demo_runner (demo_scenario [demo_quote 4395 (17581 / 4)]) = Inr x
     \<and> so_trade_evidence x = Some v \<and> so_exit_reason x = ''PAPER_SESSION_END''
     \<and> te_timestamp_close v = te_timestamp_open v \<and> te_exit_price v = Fin (17599 / 4)
     \<and> te_max_adverse_excursion v = Fin (- 25) \<and> te_gross_pnl v = Fin (- (5 / 4))"
proof -
  obtain x v where run: "run_scenario demo_paper_env demo_runner (demo_scenario [demo_quote 4395 (17581 / 4)]) = Inr x"
    and v: "so_trade_evidence x = Some v" "so_exit_reason x = ''PAPER_SESSION_END''" "te_exit_price v = Fin (17599 / 4)"
      "te_max_adverse_excursion v = Fin (- 25)" "te_gross_pnl v = Fin (- (5 / 4))"
    using demo_session_end by (auto split: sum.splits option.splits)
  have "te_timestamp_close v = te_timestamp_open v"
    using paper_exit_is_first_trigger [OF run v(1)] v(2) exit_rule_reason by fastforce
  then show ?thesis using run v by blast
qed

definition demo_position :: paper_position where
  "demo_position = entered demo_paper_env demo_runner
     (approved_record demo_risk_env [] \<lparr>pv_direction = ''BUY'', pv_confidence = Fin 1, pv_inference_id = PNone,
        pv_correlation_id = PNone, pv_ok = True, pv_error_class = PNone\<rparr>
        (calc_error (Fin 0) (Fin 0) (Fin 4387) (Fin 50) []))
     \<lparr>km_mode = SPREAD_ONLY, km_commission_per_lot = Fin 0, km_swap_per_lot_per_night = Fin 0, km_slippage_points = Fin 0,
      km_point = Fin (1 / 4)\<rparr>
     \<lparr>mt_timestamp_iso = [], mt_bid = Fin (17599 / 4), mt_ask = Fin 4400, mt_spread = Fin (1 / 4), mt_mid = Fin 4400,
      mt_symbol = ''XAUUSD''\<rparr>"

theorem excursions_bound_observed_pnl_witness:
  "\<exists>found q. position_lifecycle [\<lparr>mt_timestamp_iso = [], mt_bid = Fin 4395, mt_ask = Fin 4396, mt_spread = Fin 1, mt_mid = Fin 4395,
       mt_symbol = ''XAUUSD''\<rparr>] (demo_position\<lparr>xp_lot := Fin 5\<rparr>) = Inr (found, q)
     \<and> xp_max_adverse_excursion q = Fin (- 25) \<and> fle (xp_max_adverse_excursion q) (Fin 0)"
proof -
  let ?ts = "[\<lparr>mt_timestamp_iso = [], mt_bid = Fin 4395, mt_ask = Fin 4396, mt_spread = Fin 1, mt_mid = Fin 4395,
       mt_symbol = ''XAUUSD''\<rparr>]"
  have "case position_lifecycle ?ts (demo_position\<lparr>xp_lot := Fin 5\<rparr>) of Inl e \<Rightarrow> False
      | Inr (found, q) \<Rightarrow> xp_max_adverse_excursion q = Fin (- 25)"
    by code_simp
  then obtain found q where run: "position_lifecycle ?ts (demo_position\<lparr>xp_lot := Fin 5\<rparr>) = Inr (found, q)"
    and mae: "xp_max_adverse_excursion q = Fin (- 25)"
    by (auto split: sum.splits)
  have "xp_max_adverse_excursion (demo_position\<lparr>xp_lot := Fin 5\<rparr>) = Fin 0"
    "xp_max_favorable_excursion (demo_position\<lparr>xp_lot := Fin 5\<rparr>) = Fin 0"
    "xp_holding_steps (demo_position\<lparr>xp_lot := Fin 5\<rparr>) = 0"
    by (simp_all add: demo_position_def entered_def simulate_fill_def Let_def)
  from excursions_bound_observed_pnl [OF run this] show ?thesis using run mae by blast
qed

theorem metrics_account_for_batch_witness:
  "\<exists>results. run_batch demo_runner [(demo_paper_env, demo_scenario stop_ticks)] = Inr results
     \<and> mm_trades_closed (compute_metrics (\<lambda>xs. Fin 0) results None) = mm_approved (compute_metrics (\<lambda>xs. Fin 0) results None)
     \<and> mm_approved (compute_metrics (\<lambda>xs. Fin 0) results None) + mm_rejected (compute_metrics (\<lambda>xs. Fin 0) results None) = 1"
proof -
  obtain x where "run_scenario demo_paper_env demo_runner (demo_scenario stop_ticks) = Inr x"
    using demo_stopped by (auto split: sum.splits)
  then have run: "run_batch demo_runner [(demo_paper_env, demo_scenario stop_ticks)] = Inr [x]" by simp
  show ?thesis using metrics_account_for_batch [OF run, of "\<lambda>xs. Fin 0" None] run by (intro exI [of _ "[x]"]) simp
qed

end
