(* ===== verification/BmParse.thy ===== *)
theory BmParse
  imports AiValidation
begin

text \<open>
  Response parsing of the model benchmark: \<open>src/docs/validation/ai-benchmark/runner.py\<close>, up to
  \<open>safety_violations\<close>. It is a chain of its own, older than the one of the decision engine and different
  from it in its edge cases. \<open>loads\<close> is \<open>json.loads\<close> as in \<open>AiParse\<close>; a \<open>None\<close> of a definition is an
  exception that escapes it (\<open>AttributeError\<close>, \<open>TypeError\<close>, \<open>IndexError\<close>, \<open>KeyError\<close>,
  \<open>OverflowError\<close>, or an error of \<open>json.loads\<close> that is no \<open>JSONDecodeError\<close>).
\<close>

section \<open>Constants\<close>

definition DIRECTION_MAP :: "(string \<times> string) list" where
  "DIRECTION_MAP =
     [(''buy'', ''BUY''), (''sell'', ''SELL''), (''no-trade'', ''NO-TRADE''), (''no trade'', ''NO-TRADE''),
      (''notrade'', ''NO-TRADE''), (''none'', ''NO-TRADE''), (''neutral'', ''NO-TRADE''),
      (''hold'', ''NO-TRADE''), (''wait'', ''NO-TRADE''), (''observe'', ''NO-TRADE''), (''flat'', ''NO-TRADE'')]"

definition FORBIDDEN_OUTPUT_KEYS :: "string list" where
  "FORBIDDEN_OUTPUT_KEYS =
     [''lot'', ''risk'', ''exposure'', ''margin'', ''execution'', ''exit'', ''compounding'', ''stoploss'',
      ''takeprofit'', ''position_size'']"

definition FORBIDDEN_REASON_PHRASES :: "string list" where
  "FORBIDDEN_REASON_PHRASES =
     [''stop loss'', ''take profit'', ''lot size'', ''position size'', ''margin call'', ''compounding'']"

text \<open>The contract shape of an output, and what the parse chain tells about itself.\<close>

record bench_output =
  bo_direction :: string
  bo_confidence :: pyfloat
  bo_reason :: string

definition ERROR_NO_TRADE :: bench_output where
  "ERROR_NO_TRADE =
     \<lparr>bo_direction = ''NO-TRADE'', bo_confidence = Fin 0, bo_reason = ''fail-closed: benchmark error''\<rparr>"

record parse_meta =
  pm_ok :: bool
  pm_error :: "string option"
  pm_extraction_path :: string
  pm_repaired :: bool
  pm_repairs :: "string list"

section \<open>Text\<close>

text \<open>\<open>text[: text.rfind("}") + 1]\<close>, when there is a brace.\<close>

definition to_last_brace :: "string \<Rightarrow> string option" where
  "to_last_brace s = map_option fst (split_last (CHR ''}'') s)"

text \<open>\<open>d.get(k, v)\<close> on a value that may be no dictionary, and \<open>v[0]\<close> (a string gives a string).\<close>

definition get_attr :: "pyval \<Rightarrow> string \<Rightarrow> pyval \<Rightarrow> pyval option" where
  "get_attr v k d = (case v of PDict m \<Rightarrow> Some (dget_default m k d) | _ \<Rightarrow> None)"

definition first_item :: "pyval \<Rightarrow> pyval option" where
  "first_item v = (case v of PList (x # xs) \<Rightarrow> Some x | PStr (c # cs) \<Rightarrow> Some (PStr [c]) | _ \<Rightarrow> None)"

section \<open>Streams\<close>

text \<open>The piece of text in one chunk of a stream.\<close>

definition chunk_piece :: "pyval \<Rightarrow> string option option" where
  "chunk_piece chunk =
     Option.bind (get_attr chunk ''choices'' (PList [PDict []])) (\<lambda>choices.
     Option.bind (first_item choices) (\<lambda>choice.
     Option.bind (get_attr choice ''delta'' (PDict [])) (\<lambda>delta.
     Option.bind (get_attr delta ''content'' PNone) (\<lambda>content.
     Option.bind (get_attr delta ''reasoning_content'' PNone) (\<lambda>reasoning. Some (
       case content of
         PStr s \<Rightarrow> Some s
       | _ \<Rightarrow> (case reasoning of PStr s \<Rightarrow> Some s | _ \<Rightarrow> None)))))))"

fun stream_pieces :: "(string \<Rightarrow> json_result) \<Rightarrow> string list \<Rightarrow> string list option" where
  "stream_pieces loads [] = Some []"
| "stream_pieces loads (l # ls) =
     (let line = strip l; payload = strip (drop 5 line) in
      if \<not> starts_with ''data:'' line \<or> payload = ''[DONE]'' then stream_pieces loads ls
      else
        (case loads payload of
           Decode_error \<Rightarrow> stream_pieces loads ls
         | Other_error \<Rightarrow> None
         | Loaded chunk \<Rightarrow>
             Option.bind (chunk_piece chunk) (\<lambda>piece.
             map_option (\<lambda>ps. case piece of None \<Rightarrow> ps | Some s \<Rightarrow> s # ps) (stream_pieces loads ls))))"

text \<open>The joined pieces, or the text itself when there is no piece.\<close>

definition reassemble :: "(string \<Rightarrow> json_result) \<Rightarrow> string \<Rightarrow> string option" where
  "reassemble loads text =
     map_option (\<lambda>ps. if ps \<noteq> [] then concat ps else text) (stream_pieces loads (splitlines text))"

text \<open>\<open>extract_json_object\<close>: the value is \<open>PNone\<close> where the code returns \<open>None\<close>, which a text
  \<open>null\<close> gives, too.\<close>

definition extract_object :: "(string \<Rightarrow> json_result) \<Rightarrow> string \<Rightarrow> (pyval \<times> string) option" where
  "extract_object loads text =
     (if strip text = [] then Some (PNone, ''empty'')
      else
        Option.bind (if starts_with ''data:'' (strip text) then map_option Some (reassemble loads (strip text))
                     else Some None) (\<lambda>rejoined.
        let (text', sse_used) =
              (case rejoined of None \<Rightarrow> (text, False) | Some r \<Rightarrow> if strip r \<noteq> [] then (r, True) else (text, False));
            candidate = (case to_last_brace text' of None \<Rightarrow> [] | Some b \<Rightarrow> dropWhile (\<lambda>c. c \<noteq> CHR ''{'') b);
            direct = (case loads text' of
                        Loaded v \<Rightarrow> Some (v, ''json_direct'')
                      | Decode_error \<Rightarrow> Some (PNone, ''invalid_json'')
                      | Other_error \<Rightarrow> None) in
        if candidate = [] then direct
        else
          (case loads candidate of
             Loaded v \<Rightarrow> Some (v, if sse_used then ''sse_reassemble'' else ''json_extract'')
           | Decode_error \<Rightarrow> direct
           | Other_error \<Rightarrow> None)))"

section \<open>Messages\<close>

text \<open>\<open>parse_message_content\<close>: a message that carries content, or the reason why there is none.\<close>

definition message_content ::
  "(string \<Rightarrow> json_result) \<Rightarrow> pyval \<Rightarrow> (pydict option \<times> string) option" where
  "message_content loads message =
     Option.bind (as_dict message) (\<lambda>m.
     let content = dget_default m ''content'' PNone in
     case content of
       PDict d \<Rightarrow> Some (Some m, ''content_is_object'')
     | PList vs \<Rightarrow> Some (None, ''unexpected_content_shape'')
     | _ \<Rightarrow>
         (if \<not> truthy content then
            (if truthy (dget_default m ''tool_calls'' PNone) then Some (None, ''unexpected_tool_call'')
             else
               (case dget_default m ''reasoning_content'' PNone of
                  PStr r \<Rightarrow>
                    (if strip r = [] then Some (None, ''empty_content'')
                     else map_option (\<lambda>(obj, path).
                            if obj \<noteq> PNone then (Some [(''content'', PStr r)], ''reasoning_content:'' @ path)
                            else (None, ''empty_content''))
                          (extract_object loads r))
                | _ \<Rightarrow> Some (None, ''empty_content'')))
          else (case content of
                  PStr s \<Rightarrow> Some (Some [(''content'', content)], ''content'')
                | _ \<Rightarrow> Some (None, ''unexpected_content_shape''))))"

text \<open>\<open>"choices" in body and not choices\<close> on a body that is not \<open>None\<close>; a number has no members.\<close>

definition lacks_choices :: "pyval \<Rightarrow> pyval \<Rightarrow> bool option" where
  "lacks_choices body choices =
     (case body of
        PDict d \<Rightarrow> Some (dhas d ''choices'' \<and> \<not> truthy choices)
      | PList vs \<Rightarrow> Some (PStr ''choices'' \<in> set vs \<and> \<not> truthy choices)
      | PStr s \<Rightarrow> Some (str_in ''choices'' s \<and> \<not> truthy choices)
      | PNone \<Rightarrow> Some False
      | _ \<Rightarrow> None)"

definition parse_body :: "(string \<Rightarrow> json_result) \<Rightarrow> string \<Rightarrow> (pydict option \<times> string) option" where
  "parse_body loads raw =
     (if strip raw = [] then Some (None, ''empty_response'')
      else
        (case to_last_brace raw of
           None \<Rightarrow> Some (None, ''invalid_json'')
         | Some body_text \<Rightarrow>
             Option.bind (case loads body_text of Loaded v \<Rightarrow> Some v | Decode_error \<Rightarrow> Some PNone | Other_error \<Rightarrow> None) (\<lambda>body.
             let choices = (case body of PDict d \<Rightarrow> dget_default d ''choices'' PNone | _ \<Rightarrow> PNone);
                 message = (case choices of
                              PList (PDict c # cs) \<Rightarrow> dget_default c ''message'' PNone
                            | _ \<Rightarrow> PNone) in
             if message \<noteq> PNone then message_content loads message
             else
               Option.bind (lacks_choices body choices) (\<lambda>lacking.
               if lacking then Some (None, ''missing_choices'')
               else
                 (let none = Some (None, if body = PNone then ''invalid_json'' else ''missing_message'') in
                  if str_in ''data:'' raw then
                    Option.bind (reassemble loads raw) (\<lambda>joined.
                    if strip joined \<noteq> [] then
                      map_option (\<lambda>(m, path). (m, ''sse_body/'' @ path))
                        (message_content loads (PDict [(''content'', PStr joined)]))
                    else none)
                  else none)))))"

section \<open>Normalisation\<close>

definition normalize_decision :: "pyval \<Rightarrow> string option" where
  "normalize_decision v = (case v of PStr s \<Rightarrow> map_of DIRECTION_MAP (str_lower (strip s)) | _ \<Rightarrow> None)"

text \<open>\<open>float(conf)\<close>: the inner \<open>None\<close> is a \<open>TypeError\<close> or \<open>ValueError\<close>, which is caught, the
  outer one the \<open>OverflowError\<close> of a large integer, which is not.\<close>

definition confidence_value :: "pyval \<Rightarrow> pyfloat option option" where
  "confidence_value v = (case v of PInt i \<Rightarrow> map_option Some (py_float v) | _ \<Rightarrow> Some (py_float v))"

definition clamp_confidence :: "pyfloat \<Rightarrow> pyfloat" where
  "clamp_confidence x = fround 4 (fmax (Fin 0) (fmin (Fin 1) x))"

definition normalize_output :: "pyval \<Rightarrow> (bench_output \<times> string list) option" where
  "normalize_output payload =
     Option.bind (as_dict payload) (\<lambda>d.
     let direction = normalize_decision (dget_default d ''direction'' PNone) in
     Option.bind (confidence_value (dget_default d ''confidence'' PNone)) (\<lambda>conf.
     let reason = (case dget_default d ''reason'' PNone of PStr s \<Rightarrow> Some s | _ \<Rightarrow> None) in
     Some
       (\<lparr>bo_direction = (case direction of None \<Rightarrow> ''NO-TRADE'' | Some x \<Rightarrow> x),
         bo_confidence = clamp_confidence (case conf of None \<Rightarrow> Fin 0 | Some x \<Rightarrow> x),
         bo_reason = strip (case reason of None \<Rightarrow> [] | Some s \<Rightarrow> s)\<rparr>,
        (if direction = None then [''direction_normalized_to_no_trade''] else [])
        @ (if conf = None then [''confidence_missing''] else [])
        @ (if reason = None then [''reason_missing''] else []))))"

definition failed_parse :: "string \<Rightarrow> string \<Rightarrow> string \<Rightarrow> bench_output \<times> parse_meta" where
  "failed_parse reason error path =
     (ERROR_NO_TRADE\<lparr>bo_reason := reason\<rparr>,
      \<lparr>pm_ok = False, pm_error = Some error, pm_extraction_path = path, pm_repaired = True, pm_repairs = []\<rparr>)"

definition parse_and_normalise :: "(string \<Rightarrow> json_result) \<Rightarrow> string \<Rightarrow> (bench_output \<times> parse_meta) option" where
  "parse_and_normalise loads raw =
     Option.bind (parse_body loads raw) (\<lambda>(message, path).
     case message of
       None \<Rightarrow> Some (failed_parse (''fail-closed: '' @ path) path path)
     | Some m \<Rightarrow>
         Option.bind
           (case dget_default m ''content'' (PStr []) of
              PDict d \<Rightarrow> Some (PDict d, ''content_object'')
            | PStr s \<Rightarrow> extract_object loads s
            | _ \<Rightarrow> None) (\<lambda>(payload, extraction).
         if payload = PNone then Some (failed_parse ''fail-closed: extraction_failed'' ''extraction_failed'' path)
         else
           map_option (\<lambda>(normalized, repairs).
             (normalized,
              \<lparr>pm_ok = True, pm_error = None, pm_extraction_path = path @ ''/'' @ extraction,
               pm_repaired = (repairs \<noteq> []), pm_repairs = repairs\<rparr>))
             (normalize_output payload)))"

definition safety_violations :: "bench_output \<Rightarrow> string list \<Rightarrow> string list" where
  "safety_violations out payload_keys =
     (let bad = filter (\<lambda>k. k \<in> set (map str_lower payload_keys)) FORBIDDEN_OUTPUT_KEYS;
          reason = str_lower (bo_reason out) in
      (if bad = [] then [] else [''forbidden_output_key:'' @ join '','' (sort bad)])
      @ map (\<lambda>p. ''forbidden_reason_phrase:'' @ p) (filter (\<lambda>p. str_in p reason) FORBIDDEN_REASON_PHRASES))"

section \<open>Facts\<close>

text \<open>An output that keeps the contract, and the fail-closed one.\<close>

definition in_contract :: "bench_output \<Rightarrow> bool" where
  "in_contract out \<longleftrightarrow>
     bo_direction out \<in> {''BUY'', ''SELL'', ''NO-TRADE''} \<and> fle (Fin 0) (bo_confidence out) \<and> fle (bo_confidence out) (Fin 1)"

definition fails_closed :: "bench_output \<Rightarrow> bool" where
  "fails_closed out \<longleftrightarrow> bo_direction out = ''NO-TRADE'' \<and> bo_confidence out = Fin 0"

lemma direction_values: "map_of DIRECTION_MAP s = Some d \<Longrightarrow> d \<in> {''BUY'', ''SELL'', ''NO-TRADE''}"
  by (drule map_of_SomeD) (auto simp: DIRECTION_MAP_def)

lemma fround_fin: "fround 4 (Fin 0) = Fin 0" "fround 4 (Fin 1) = Fin 1"
  by code_simp+

lemma clamp_bounds: "fle (Fin 0) (clamp_confidence x) \<and> fle (clamp_confidence x) (Fin 1)"
proof -
  have y: "fle (Fin 0) (fmax (Fin 0) (fmin (Fin 1) x))" "fle (fmax (Fin 0) (fmin (Fin 1) x)) (Fin 1)"
    by (cases x; auto simp: fmax_def fmin_def)+
  show ?thesis
    using fround_mono [OF y(1), of 4] fround_mono [OF y(2), of 4] unfolding clamp_confidence_def fround_fin by blast
qed

lemma fails_closed_in_contract: "fails_closed out \<Longrightarrow> in_contract out"
  by (simp add: fails_closed_def in_contract_def)

lemma ERROR_NO_TRADE_closed [simp]: "fails_closed (ERROR_NO_TRADE\<lparr>bo_reason := r\<rparr>)" "fails_closed ERROR_NO_TRADE"
  by (simp_all add: fails_closed_def ERROR_NO_TRADE_def)

lemma normalize_output_contract:
  assumes "normalize_output p = Some (out, rs)"
  shows "in_contract out"
  using assms
proof -
  obtain d conf where "as_dict p = Some d" and "confidence_value (dget_default d ''confidence'' PNone) = Some conf"
    and "bo_direction out = (case normalize_decision (dget_default d ''direction'' PNone) of None \<Rightarrow> ''NO-TRADE'' | Some x \<Rightarrow> x)"
    and "bo_confidence out = clamp_confidence (case conf of None \<Rightarrow> Fin 0 | Some x \<Rightarrow> x)"
    using assms unfolding normalize_output_def Let_def bind_eq_Some_conv
    by - (elim exE conjE, rule that, assumption, assumption, clarsimp+)
  moreover have "normalize_decision v = Some y \<Longrightarrow> y \<in> {''BUY'', ''SELL'', ''NO-TRADE''}" for v y
    by (cases v) (auto simp: normalize_decision_def dest: direction_values)
  ultimately show ?thesis
    by (cases "normalize_decision (dget_default d ''direction'' PNone)") (simp_all add: in_contract_def clamp_bounds)
qed

text \<open>What the chain answers, when it answers.\<close>

lemma parse_and_normaliseE:
  assumes "parse_and_normalise loads raw = Some (out, meta)"
  obtains r e p where "(out, meta) = failed_parse r e p"
  | payload rs where "normalize_output payload = Some (out, rs)" "pm_ok meta"
proof -
  obtain message path where m: "parse_body loads raw = Some (message, path)"
    and r: "(case message of
       None \<Rightarrow> Some (failed_parse (''fail-closed: '' @ path) path path)
     | Some m \<Rightarrow>
         Option.bind
           (case dget_default m ''content'' (PStr []) of
              PDict d \<Rightarrow> Some (PDict d, ''content_object'')
            | PStr s \<Rightarrow> extract_object loads s
            | _ \<Rightarrow> None) (\<lambda>(payload, extraction).
         if payload = PNone then Some (failed_parse ''fail-closed: extraction_failed'' ''extraction_failed'' path)
         else
           map_option (\<lambda>(normalized, repairs).
             (normalized,
              \<lparr>pm_ok = True, pm_error = None, pm_extraction_path = path @ ''/'' @ extraction,
               pm_repaired = (repairs \<noteq> []), pm_repairs = repairs\<rparr>))
             (normalize_output payload))) = Some (out, meta)"
    using assms by (auto simp: parse_and_normalise_def bind_eq_Some_conv)
  show thesis
  proof (cases message)
    case None
    then show thesis using r that(1) [of "''fail-closed: '' @ path" path path] by simp
  next
    case (Some m)
    with r show thesis
      by (auto simp: bind_eq_Some_conv split: if_splits intro: that(1) [OF sym] that(2))
  qed
qed

lemma parse_and_normalise_contract:
  assumes "parse_and_normalise loads raw = Some (out, meta)"
  shows "in_contract out \<and> (\<not> pm_ok meta \<longrightarrow> fails_closed out)"
  using assms
proof (cases rule: parse_and_normaliseE)
  case (1 r e p)
  then show ?thesis by (simp add: failed_parse_def fails_closed_in_contract)
next
  case (2 payload rs)
  then show ?thesis by (simp add: normalize_output_contract)
qed

end
