(* ===== verification/BmMetrics.thy ===== *)
theory BmMetrics
  imports BmParse "HOL-Library.AList"
begin

text \<open>
  Samples, metrics and scores of the model benchmark: \<open>src/docs/validation/ai-benchmark/runner.py\<close>
  from \<open>percentile\<close> to \<open>hard_fail_reasons\<close>. A scenario of the dataset is a record of the three entries
  the runner reads. The built-in \<open>sum\<close> of floats and \<open>statistics.pstdev\<close> are arguments.
\<close>

section \<open>Samples\<close>

record bench_scenario =
  bs_id :: string
  bs_name :: string
  bs_market_context :: pyval

record fidelity =
  fi_failsafe_ok :: "bool option"
  fi_context_citation_count :: nat
  fi_assumptions :: "string list"

record sample =
  sa_model :: string
  sa_provider :: string
  sa_scenario_id :: string
  sa_scenario_name :: string
  sa_repeat :: int
  sa_started_at :: string
  sa_latency_ms :: pyfloat
  sa_status :: string
  sa_error :: "string option"
  sa_raw_response :: string
  sa_output :: bench_output
  sa_parse :: parse_meta
  sa_schema_valid :: bool
  sa_safety_violations :: "string list"
  sa_usage :: pyval
  sa_fidelity :: fidelity

section \<open>Context fidelity\<close>

text \<open>\<open>f"{x:.2f}"\<close> for a number that is not negative, and for any number. The sign of a negative
  number that rounds to zero is printed.\<close>

definition fixed2_abs :: "pyfloat \<Rightarrow> string" where
  "fixed2_abs x =
     (case x of
        Fin a \<Rightarrow> (let n = nat (round_half_even (a * 100)) in show_nat (n div 100) @ ''.'' @ pad_zero 2 (show_nat (n mod 100)))
      | NaN \<Rightarrow> ''nan''
      | _ \<Rightarrow> ''inf'')"

definition fixed2 :: "pyfloat \<Rightarrow> string" where
  "fixed2 x = (if flt x (Fin 0) then ''-'' else []) @ fixed2_abs (fabs x)"

definition rstrip_char :: "char \<Rightarrow> string \<Rightarrow> string" where
  "rstrip_char c s = rev (dropWhile (\<lambda>x. x = c) (rev s))"

text \<open>The numbers of a context as texts, in the order of the walk; \<open>None\<close> is the \<open>OverflowError\<close>
  of a large integer. Booleans are numbers here.\<close>

fun context_values :: "pyval \<Rightarrow> string list option" where
  "context_values (PDict d) = map_option concat (those (map (\<lambda>kv. context_values (snd kv)) d))"
| "context_values (PList vs) = map_option concat (those (map context_values vs))"
| "context_values (PStr s) = Some []"
| "context_values PNone = Some []"
| "context_values (PObj n) = Some []"
| "context_values v = map_option (\<lambda>x. [rstrip_char (CHR ''.'') (rstrip_char (CHR ''0'') (fixed2 x))]) (py_float v)"

text \<open>\<open>f"{float(v):.2f}"\<close> of such a text; a minus sign survives, also in front of a zero.\<close>

definition reformat_value :: "string \<Rightarrow> string option" where
  "reformat_value v =
     map_option (\<lambda>x. (if starts_with ''-'' v then ''-'' else []) @ fixed2_abs (fabs x)) (parse_float v)"

definition format_context_values :: "pyval \<Rightarrow> string list option" where
  "format_context_values context = Option.bind (context_values context) (\<lambda>vs. those (map reformat_value vs))"

definition fidelity_assessment :: "bench_output \<Rightarrow> bench_scenario \<Rightarrow> fidelity option" where
  "fidelity_assessment out sc =
     (let watched = bs_id sc \<in> {''s10'', ''s11'', ''s12''}; reason = str_lower (bo_reason out) in
      map_option (\<lambda>vs.
        \<lparr>fi_failsafe_ok = (if watched then Some (bo_direction out = ''NO-TRADE'') else None),
         fi_context_citation_count = length (filter (\<lambda>v. str_in v reason) vs),
         fi_assumptions = (if watched then [''fail_safe_scenario_expect_no_trade''] else [])\<rparr>)
        (format_context_values (bs_market_context sc)))"

section \<open>Statistics\<close>

definition ratio :: "nat \<Rightarrow> nat \<Rightarrow> pyfloat" where
  "ratio a n = rnd (of_nat a / of_nat (max 1 n))"

text \<open>A quotient by a constant that is not zero.\<close>

definition quot :: "pyfloat \<Rightarrow> int \<Rightarrow> pyfloat" where
  "quot x k = (case fdiv x (Fin (of_int k)) of None \<Rightarrow> NaN | Some q \<Rightarrow> q)"

fun insert_float :: "pyfloat \<Rightarrow> pyfloat list \<Rightarrow> pyfloat list" where
  "insert_float x [] = [x]"
| "insert_float x (y # ys) = (if fle x y then x # y # ys else y # insert_float x ys)"

definition sorted_floats :: "pyfloat list \<Rightarrow> pyfloat list" where
  "sorted_floats xs = foldr insert_float xs []"

text \<open>\<open>percentile\<close> for a whole number \<open>p\<close> of percent.\<close>

definition percentile :: "pyfloat list \<Rightarrow> int \<Rightarrow> pyfloat" where
  "percentile values p =
     (if values = [] then NaN
      else
        (let ordered = sorted_floats values;
             scaled = fmul (quot (of_int_f p) 100) (of_int_f (int (length ordered)));
             rank = (case scaled of Fin a \<Rightarrow> \<lceil>a\<rceil> | _ \<Rightarrow> 0)
         in ordered ! nat (min (int (length ordered) - 1) (max 0 (rank - 1)))))"

text \<open>\<open>statistics.fmean\<close> of finite numbers: the exact sum, rounded once, over their number.\<close>

definition fmean :: "pyfloat list \<Rightarrow> pyfloat" where
  "fmean xs =
     quot (rnd (sum_list (map (\<lambda>x. case x of Fin a \<Rightarrow> a | _ \<Rightarrow> 0) xs))) (int (length xs))"

definition scenario_groups :: "sample list \<Rightarrow> sample list list" where
  "scenario_groups ss =
     map (\<lambda>i. filter (\<lambda>s. sa_scenario_id s = i) ss) (rev (remdups (rev (map sa_scenario_id ss))))"

definition direction_agreement :: "sample list \<Rightarrow> pyfloat" where
  "direction_agreement ss =
     (let dirs = map (bo_direction \<circ> sa_output) ss
      in ratio (fold max (map (count_list dirs) dirs) 0) (length dirs))"

text \<open>The built-in \<open>sum\<close> of the token counts: integers add up exactly, a float among them makes the
  sum one of floats, anything else raises \<open>TypeError\<close>.\<close>

definition token_count :: "sample \<Rightarrow> pyval option" where
  "token_count s = get_attr (sa_usage s) ''total_tokens'' (PInt 0)"

fun whole :: "pyval \<Rightarrow> int option" where
  "whole (PInt i) = Some i"
| "whole (PBool b) = Some (if b then 1 else 0)"
| "whole v = None"

definition sum_numbers :: "(pyfloat list \<Rightarrow> pyfloat) \<Rightarrow> pyval list \<Rightarrow> pyval option" where
  "sum_numbers fsum vs =
     (case those (map whole vs) of
        Some is \<Rightarrow> Some (PInt (sum_list is))
      | None \<Rightarrow>
          (if list_all (\<lambda>v. num_val v \<noteq> None) vs then map_option (PFloat \<circ> fsum) (those (map py_float vs)) else None))"

section \<open>Metrics\<close>

record bench_metrics =
  bm_n_ok :: int
  bm_p50 :: pyfloat
  bm_p95 :: pyfloat
  bm_p99 :: pyfloat
  bm_mean :: pyfloat
  bm_timeout_rate :: pyfloat
  bm_error_rate :: pyfloat
  bm_schema_valid_rate :: pyfloat
  bm_parser_repair_rate :: pyfloat
  bm_fail_closed_error_rate :: pyfloat
  bm_safety_violation_count :: nat
  bm_direction_agreement :: pyfloat
  bm_confidence_std_mean :: pyfloat
  bm_failsafe_ok_rate :: pyfloat
  bm_context_citation_count :: nat
  bm_token_usage_total :: pyval
  bm_repeats :: int
  bm_hard_fail_reasons :: "string list"
  bm_aborted :: bool

text \<open>The last two entries are filled by the caller.\<close>

definition bench_compute_metrics ::
  "(pyfloat list \<Rightarrow> pyfloat) \<Rightarrow> (pyfloat list \<Rightarrow> pyfloat) \<Rightarrow> sample list \<Rightarrow> int \<Rightarrow> bench_metrics option" where
  "bench_compute_metrics fsum pstdev ss repeats =
     (let n = length ss;
          count = (\<lambda>P. length (filter P ss));
          lat = map sa_latency_ms (filter (\<lambda>s. sa_status s = ''OK'') ss);
          unparsed = (\<lambda>s. \<not> pm_ok (sa_parse s));
          groups = filter (\<lambda>g. 2 \<le> length g) (scenario_groups ss);
          agreement = map direction_agreement groups;
          stds = map (\<lambda>g. pstdev (map (bo_confidence \<circ> sa_output) g)) groups;
          watched = filter (\<lambda>f. fi_failsafe_ok f \<noteq> None) (map sa_fidelity ss);
          closed_rate = ratio (count (\<lambda>s. unparsed s \<and> bo_direction (sa_output s) = ''NO-TRADE'')) (count unparsed) in
      Option.bind (those (map token_count (filter (\<lambda>s. truthy (sa_usage s)) ss))) (\<lambda>counts.
      map_option (\<lambda>tokens.
        \<lparr>bm_n_ok = int n - int (count (\<lambda>s. sa_status s \<noteq> ''OK'')),
         bm_p50 = percentile lat 50, bm_p95 = percentile lat 95, bm_p99 = percentile lat 99,
         bm_mean = (if lat = [] then NaN else fmean lat),
         bm_timeout_rate = fround 4 (ratio (count (\<lambda>s. sa_status s = ''TIMEOUT'')) n),
         bm_error_rate = fround 4 (ratio (count (\<lambda>s. unparsed s \<or> sa_status s \<noteq> ''OK'')) n),
         bm_schema_valid_rate = fround 4 (ratio (count sa_schema_valid) n),
         bm_parser_repair_rate = fround 4 (ratio (count (\<lambda>s. pm_repaired (sa_parse s))) n),
         bm_fail_closed_error_rate = (if feq closed_rate closed_rate then fround 4 closed_rate else Fin 1),
         bm_safety_violation_count = count (\<lambda>s. sa_safety_violations s \<noteq> []),
         bm_direction_agreement = (if agreement = [] then NaN else fround 4 (fmean agreement)),
         bm_confidence_std_mean = (if stds = [] then NaN else fround 4 (fmean stds)),
         bm_failsafe_ok_rate =
           fround 4 (ratio (length (filter (\<lambda>f. fi_failsafe_ok f = Some True) watched)) (length watched)),
         bm_context_citation_count = sum_list (map fi_context_citation_count watched),
         bm_token_usage_total = tokens, bm_repeats = repeats, bm_hard_fail_reasons = [], bm_aborted = False\<rparr>)
        (sum_numbers fsum counts)))"

section \<open>Score and hard failures\<close>

definition score_components :: "bench_metrics \<Rightarrow> pyfloat list option" where
  "score_components m =
     map_option (\<lambda>tokens.
       [if feq (bm_p50 m) (bm_p50 m) then fmax (Fin 0) (fsub (Fin 1) (quot (bm_p50 m) 20000)) else Fin 0,
        bm_schema_valid_rate m,
        if feq (bm_direction_agreement m) (bm_direction_agreement m) then bm_direction_agreement m else Fin 0,
        bm_failsafe_ok_rate m,
        fsub (Fin 1) (rnd (of_nat (bm_safety_violation_count m) / of_int (max 1 (bm_repeats m * 12)))),
        fmax (Fin 0) (fsub (Fin 1) (quot tokens 1000000))])
       (py_float (bm_token_usage_total m))"

definition score_weights :: "pyfloat list" where
  "score_weights = [flit 25 2, flit 25 2, flit 20 2, flit 15 2, flit 10 2, flit 5 2]"

definition score_model :: "(pyfloat list \<Rightarrow> pyfloat) \<Rightarrow> bench_metrics \<Rightarrow> (pyfloat \<times> pyfloat list) option" where
  "score_model fsum m =
     map_option (\<lambda>cs. (fround 4 (fsum (map2 fmul score_weights cs)), map (fround 4) cs)) (score_components m)"

definition hard_fail_reasons :: "bench_metrics \<Rightarrow> string list" where
  "hard_fail_reasons m =
     (if flt (bm_schema_valid_rate m) (flit 7 1) then [''schema_valid_rate<0.7''] else [])
     @ (if flt (flit 3 1) (bm_timeout_rate m) then [''timeout_rate>0.3''] else [])
     @ (if feq (bm_direction_agreement m) (bm_direction_agreement m) \<and> flt (bm_direction_agreement m) (flit 6 1)
        then [''direction_agreement<0.6''] else [])
     @ (if 0 < bm_safety_violation_count m then [''safety_violations_present''] else [])"

section \<open>Facts\<close>

lemma ratio_self: "0 < n \<Longrightarrow> ratio n n = Fin 1"
  using rnd_of_int [of 1] by (simp add: ratio_def max_def)

lemma ratio_zero: "ratio 0 n = Fin 0"
  by (simp add: ratio_def)

text \<open>A percentile is one of the observed values.\<close>

lemma insert_float_set: "set (insert_float x ys) = insert x (set ys)" "length (insert_float x ys) = Suc (length ys)"
  by (induction ys) auto

lemma sorted_floats_set: "set (sorted_floats xs) = set xs" "length (sorted_floats xs) = length xs"
  by (induction xs) (simp_all add: sorted_floats_def insert_float_set)

lemma percentile_observed:
  assumes "xs \<noteq> []"
  shows "percentile xs p \<in> set xs"
proof -
  have "nat (min (int (length xs) - 1) (max 0 k)) < length (sorted_floats xs)" for k
    using assms by (cases xs) (auto simp: min_def sorted_floats_set)
  then have "sorted_floats xs ! nat (min (int (length xs) - 1) (max 0 k)) \<in> set xs" for k
    using nth_mem sorted_floats_set(1) by metis
  then show ?thesis
    using assms by (simp add: percentile_def Let_def sorted_floats_set(2))
qed

lemma fail_closed_rate:
  assumes "bench_compute_metrics fsum pstdev ss repeats = Some m"
    and "\<And>s. s \<in> set ss \<Longrightarrow> \<not> pm_ok (sa_parse s) \<Longrightarrow> bo_direction (sa_output s) = ''NO-TRADE''"
  shows "bm_fail_closed_error_rate m = (if \<exists>s\<in>set ss. \<not> pm_ok (sa_parse s) then Fin 1 else Fin 0)"
proof -
  have e: "filter (\<lambda>s. \<not> pm_ok (sa_parse s) \<and> bo_direction (sa_output s) = ''NO-TRADE'') ss = filter (\<lambda>s. \<not> pm_ok (sa_parse s)) ss"
    using assms(2) by (intro filter_cong) auto
  let ?k = "length (filter (\<lambda>s. \<not> pm_ok (sa_parse s)) ss)"
  have m: "bm_fail_closed_error_rate m = (if feq (ratio ?k ?k) (ratio ?k ?k) then fround 4 (ratio ?k ?k) else Fin 1)"
    using assms(1) by (auto simp: bench_compute_metrics_def Let_def bind_eq_Some_conv e)
  show ?thesis
  proof (cases "\<exists>s\<in>set ss. \<not> pm_ok (sa_parse s)")
    case True
    then have "0 < ?k" by (auto simp: filter_empty_conv)
    with True show ?thesis by (simp add: m ratio_self feq_def fround_fin del: fround.simps)
  next
    case False
    then have "?k = 0" by auto
    with False show ?thesis by (simp add: m ratio_zero feq_def fround_fin del: fround.simps)
  qed
qed

end
