(* ===== verification/BmRun.thy ===== *)
theory BmRun
  imports BmMetrics AiClient
begin

text \<open>
  The benchmark loop: \<open>call_model\<close>, \<open>run_benchmark\<close> and the helpers of the command line in
  \<open>src/docs/validation/ai-benchmark/runner.py\<close>. The environment answers the requests (\<open>AiClient\<close> has the outcomes of one): \<open>be_reply n i\<close> is the
  answer to the \<open>i\<close>-th attempt of the \<open>n\<close>-th call and \<open>be_elapsed_ms n\<close> the time from its start to its
  end. Printing, sleeping and the written files are left out; a \<open>None\<close> is an exception that ends the program.
\<close>

section \<open>The environment\<close>

record bench_env =
  be_loads :: "string \<Rightarrow> json_result"
  be_dumps :: "pyval \<Rightarrow> string"
  be_reply :: "nat \<Rightarrow> nat \<Rightarrow> http_reply"
  be_elapsed_ms :: "nat \<Rightarrow> pyfloat"
  be_now :: "nat \<Rightarrow> string"
  be_sum :: "pyfloat list \<Rightarrow> pyfloat"
  be_pstdev :: "pyfloat list \<Rightarrow> pyfloat"

definition load_env :: "(string \<Rightarrow> string option) \<Rightarrow> (string \<times> string) option" where
  "load_env getenv =
     (let base = strip (env_str getenv ''ABC_BENCH_BASE_URL'' []); key = strip (env_str getenv ''ABC_BENCH_API_KEY'' []) in
      if base = [] \<or> key = [] then None else Some (rstrip_char (CHR ''/'') base, key))"

definition bench_user_prompt :: "bench_env \<Rightarrow> pyval \<Rightarrow> string" where
  "bench_user_prompt E context =
     ''Market context JSON:'' @ [CHR 0x0A] @ be_dumps E context @ [CHR 0x0A, CHR 0x0A] @ ''Output the JSON decision object now.''"

text \<open>\<open>re.sub(r"[^a-z0-9]+", "_", model.lower()).strip("_")\<close>.\<close>

fun underscore_runs :: "bool \<Rightarrow> string \<Rightarrow> string" where
  "underscore_runs in_run [] = []"
| "underscore_runs in_run (c # cs) =
     (if c \<in> set ''abcdefghijklmnopqrstuvwxyz0123456789'' then c # underscore_runs False cs
      else (if in_run then [] else ''_'') @ underscore_runs True cs)"

definition slugify :: "string \<Rightarrow> string" where
  "slugify model = rstrip_char (CHR ''_'') (dropWhile (\<lambda>c. c = CHR ''_'') (underscore_runs False (str_lower model)))"

definition MODELS :: "string list" where
  "MODELS =
     [''groq/llama-3.3-70b-versatile'', ''cf/@cf/meta/llama-3.1-8b-instruct-fp8-fast'', ''groq/openai/gpt-oss-120b'',
      ''cf/@cf/meta/llama-3.3-70b-instruct-fp8-fast'', ''cf/@cf/zai-org/glm-4.7-flash'',
      ''cf/@cf/qwen/qwen2.5-coder-32b-instruct'', ''ollama/gpt-oss:120b'', ''cf/@cf/meta/llama-3.2-1b-instruct'',
      ''kgw/nvidia/nemotron-3-super-120b-a12b:free'', ''kgw/nvidia/nemotron-3-ultra-550b-a55b:free'', ''kgw/kilo-auto/free'']"

section \<open>One call\<close>

definition RETRY_429_MAX :: nat where
  "RETRY_429_MAX = 3"

text \<open>The loop of \<open>call_model\<close> after \<open>attempts\<close> attempts: the answer it ends with and the number of
  attempts made.\<close>

function call_loop :: "(nat \<Rightarrow> http_reply) \<Rightarrow> nat \<Rightarrow> http_reply \<times> nat" where
  "call_loop reply attempts =
     (let n = attempts + 1 in
      case reply n of
        Http_error code body \<Rightarrow>
          (if code = 429 \<and> n \<le> RETRY_429_MAX then call_loop reply n else (Http_error code body, n))
      | r \<Rightarrow> (r, n))"
  by pat_completeness auto
termination
  by (relation "measure (\<lambda>(reply, attempts). RETRY_429_MAX - attempts)") auto

declare call_loop.simps [simp del]

record call_result =
  cl_status :: string
  cl_latency :: pyfloat
  cl_raw :: string
  cl_error :: "string option"
  cl_usage :: pyval

text \<open>\<open>parsed.get("usage") or {}\<close> of an answer.\<close>

definition answer_usage :: "(string \<Rightarrow> json_result) \<Rightarrow> string \<Rightarrow> pyval option" where
  "answer_usage loads raw =
     (case to_last_brace raw of
        None \<Rightarrow> Some (PDict [])
      | Some t \<Rightarrow>
          (case loads t of
             Loaded v \<Rightarrow> map_option (\<lambda>u. if truthy u then u else PDict []) (get_attr v ''usage'' PNone)
           | Decode_error \<Rightarrow> Some (PDict [])
           | Other_error \<Rightarrow> None))"

definition bench_call :: "bench_env \<Rightarrow> nat \<Rightarrow> call_result option" where
  "bench_call E n =
     (let ms = be_elapsed_ms E n;
          failed = (\<lambda>status raw error.
            Some \<lparr>cl_status = status, cl_latency = ms, cl_raw = raw, cl_error = Some error, cl_usage = PDict []\<rparr>) in
      case fst (call_loop (be_reply E n) 0) of
        Body raw \<Rightarrow>
          map_option (\<lambda>u. \<lparr>cl_status = ''OK'', cl_latency = ms, cl_raw = raw, cl_error = None, cl_usage = u\<rparr>)
            (answer_usage (be_loads E) raw)
      | Http_error code body \<Rightarrow> (let err = ''HTTP'' @ show_nat code in failed err (take 2000 body) err)
      | Unreadable_error code \<Rightarrow> None
      | Timed_out detail \<Rightarrow> failed ''TIMEOUT'' [] ''TIMEOUT''
      | Url_error reason \<Rightarrow> failed ''TRANSPORT_ERROR'' [] (''TRANSPORT_ERROR:'' @ reason)
      | Other_exception name text \<Rightarrow> failed ''TRANSPORT_ERROR'' [] (''TRANSPORT_ERROR:'' @ name @ '':'' @ text))"

section \<open>One sample\<close>

text \<open>The keys of a content that is an object. \<open>KeyError\<close> and \<open>TypeError\<close> are caught there,
  \<open>AttributeError\<close> and \<open>IndexError\<close> are not.\<close>

definition content_keys :: "pyval \<Rightarrow> string list option" where
  "content_keys body =
     Option.bind (get_attr body ''choices'' (PList [PDict []])) (\<lambda>choices.
     case choices of
       PList [] \<Rightarrow> None
     | PStr s \<Rightarrow> None
     | PList (choice # cs) \<Rightarrow>
         Option.bind (get_attr choice ''message'' (PDict [])) (\<lambda>message.
         map_option (\<lambda>content. case content of PDict d \<Rightarrow> dkeys d | _ \<Rightarrow> []) (get_attr message ''content'' PNone))
     | _ \<Rightarrow> Some [])"

definition payload_keys :: "(string \<Rightarrow> json_result) \<Rightarrow> string \<Rightarrow> string list option" where
  "payload_keys loads raw =
     (case to_last_brace raw of
        None \<Rightarrow> Some []
      | Some t \<Rightarrow> (case loads t of Loaded v \<Rightarrow> content_keys v | Decode_error \<Rightarrow> Some [] | Other_error \<Rightarrow> None))"

definition judge_answer :: "bench_env \<Rightarrow> call_result \<Rightarrow> (bench_output \<times> parse_meta \<times> string list) option" where
  "judge_answer E r =
     (if cl_status r = ''OK'' then
        Option.bind (parse_and_normalise (be_loads E) (cl_raw r)) (\<lambda>(out, meta).
        map_option (\<lambda>keys. (out, meta, safety_violations out keys)) (payload_keys (be_loads E) (cl_raw r)))
      else
        Some (ERROR_NO_TRADE,
          \<lparr>pm_ok = False, pm_error = Some (cl_status r), pm_extraction_path = ''n/a'', pm_repaired = True, pm_repairs = []\<rparr>,
          []))"

definition run_cell :: "bench_env \<Rightarrow> string \<Rightarrow> nat \<Rightarrow> bench_scenario \<times> int \<Rightarrow> sample option" where
  "run_cell E model n cell =
     (case cell of (sc, repeat) \<Rightarrow>
      Option.bind (bench_call E n) (\<lambda>r.
      Option.bind (judge_answer E r) (\<lambda>(out, meta, violations).
      map_option (\<lambda>fid.
        \<lparr>sa_model = model, sa_provider = takeWhile (\<lambda>c. c \<noteq> CHR ''/'') model, sa_scenario_id = bs_id sc,
         sa_scenario_name = bs_name sc, sa_repeat = repeat, sa_started_at = be_now E n,
         sa_latency_ms = fround 1 (cl_latency r), sa_status = cl_status r, sa_error = cl_error r,
         sa_raw_response = cl_raw r, sa_output = out, sa_parse = meta,
         sa_schema_valid = (pm_ok meta \<and> bo_direction out \<in> {''BUY'', ''SELL'', ''NO-TRADE''}),
         sa_safety_violations = violations, sa_usage = cl_usage r, sa_fidelity = fid\<rparr>)
        (fidelity_assessment out sc))))"

section \<open>One model and the whole benchmark\<close>

definition transport_failed :: "sample \<Rightarrow> bool" where
  "transport_failed s \<longleftrightarrow> sa_status s \<in> {''TIMEOUT'', ''TRANSPORT_ERROR'', ''HTTP429''}"

definition cells :: "bench_scenario list \<Rightarrow> int \<Rightarrow> (bench_scenario \<times> int) list" where
  "cells scenarios repeats = concat (map (\<lambda>sc. map (Pair sc) [1..repeats]) scenarios)"

text \<open>The samples of the cells from call number \<open>n\<close> on, after \<open>k\<close> transport failures in a row, and
  whether the model was given up.\<close>

fun run_cells ::
  "bench_env \<Rightarrow> string \<Rightarrow> nat \<Rightarrow> nat \<Rightarrow> (bench_scenario \<times> int) list \<Rightarrow> (sample list \<times> bool) option" where
  "run_cells E model n k [] = Some ([], False)"
| "run_cells E model n k (c # cs) =
     Option.bind (run_cell E model n c) (\<lambda>s.
     let k' = (if transport_failed s then k + 1 else 0) in
     if 5 \<le> k' then Some ([s], True)
     else map_option (\<lambda>(ss, aborted). (s # ss, aborted)) (run_cells E model (n + 1) k' cs))"

definition run_model ::
  "bench_env \<Rightarrow> bench_scenario list \<Rightarrow> int \<Rightarrow> nat \<Rightarrow> string
   \<Rightarrow> (sample list \<times> bench_metrics \<times> pyfloat \<times> pyfloat list) option" where
  "run_model E scenarios repeats n model =
     Option.bind (run_cells E model n 0 (cells scenarios repeats)) (\<lambda>(ss, aborted).
     Option.bind (bench_compute_metrics (be_sum E) (be_pstdev E) ss repeats) (\<lambda>m.
     map_option (\<lambda>(score, components).
       (ss, m\<lparr>bm_hard_fail_reasons := hard_fail_reasons m, bm_aborted := aborted\<rparr>, score, components))
       (score_model (be_sum E) m)))"

record bench_report =
  br_normalized :: "sample list"
  br_metrics :: "(string \<times> bench_metrics) list"
  br_scores :: "(string \<times> pyfloat \<times> pyfloat list) list"

fun run_benchmark ::
  "bench_env \<Rightarrow> bench_scenario list \<Rightarrow> int \<Rightarrow> nat \<Rightarrow> bench_report \<Rightarrow> string list \<Rightarrow> bench_report option" where
  "run_benchmark E scenarios repeats n report [] = Some report"
| "run_benchmark E scenarios repeats n report (model # models) =
     Option.bind (run_model E scenarios repeats n model) (\<lambda>(ss, m, score, components).
     run_benchmark E scenarios repeats (n + length ss)
       \<lparr>br_normalized = br_normalized report @ ss, br_metrics = AList.update model m (br_metrics report),
        br_scores = AList.update model (score, components) (br_scores report)\<rparr> models)"

end
