(* ===== verification/BmClaims.thy ===== *)
theory BmClaims
  imports BmRun
begin

text \<open>Properties of the model benchmark, with concrete runs that satisfy their hypotheses.\<close>

section \<open>Retries\<close>

lemma call_loop_again:
  assumes "reply (Suc a) = Http_error 429 b" and "a < RETRY_429_MAX"
  shows "call_loop reply a = call_loop reply (Suc a)"
  by (subst call_loop.simps) (simp add: assms Suc_le_eq)

lemma call_loop_stop:
  assumes "\<And>b. reply (Suc a) = Http_error 429 b \<Longrightarrow> \<not> a < RETRY_429_MAX"
  shows "call_loop reply a = (reply (Suc a), Suc a)"
  by (subst call_loop.simps) (use assms in \<open>auto simp: Suc_le_eq split: http_reply.split\<close>)

text \<open>The run of the loop after \<open>a\<close> attempts.\<close>

definition attempts_ok :: "(nat \<Rightarrow> http_reply) \<Rightarrow> nat \<Rightarrow> http_reply \<Rightarrow> nat \<Rightarrow> bool" where
  "attempts_ok reply a answer n \<longleftrightarrow>
     a < n \<and> n \<le> RETRY_429_MAX + 1 \<and> answer = reply n
     \<and> (\<forall>i. a < i \<and> i < n \<longrightarrow> (\<exists>b. reply i = Http_error 429 b))
     \<and> ((\<exists>b. answer = Http_error 429 b) \<longrightarrow> n = RETRY_429_MAX + 1)"

lemma call_loop_run:
  "a \<le> RETRY_429_MAX \<Longrightarrow> attempts_ok reply a (fst (call_loop reply a)) (snd (call_loop reply a))"
proof (induction "RETRY_429_MAX - a" arbitrary: a)
  case 0
  then have "call_loop reply a = (reply (Suc a), Suc a)" by (intro call_loop_stop) simp
  with 0 show ?case by (auto simp: attempts_ok_def)
next
  case (Suc k)
  show ?case
  proof (cases "\<exists>b. reply (Suc a) = Http_error 429 b")
    case True
    then obtain b where b: "reply (Suc a) = Http_error 429 b" by blast
    have r: "call_loop reply a = call_loop reply (Suc a)" by (rule call_loop_again [where b = b]) (use b Suc in simp_all)
    have "attempts_ok reply (Suc a) (fst (call_loop reply (Suc a))) (snd (call_loop reply (Suc a)))"
      by (rule Suc.hyps) (use Suc in simp_all)
    with True show ?thesis unfolding r attempts_ok_def by (metis Suc_lessD Suc_lessI)
  next
    case False
    then have "call_loop reply a = (reply (Suc a), Suc a)" by (intro call_loop_stop) blast
    with False Suc show ?thesis by (auto simp: attempts_ok_def)
  qed
qed

section \<open>Samples\<close>

lemma judge_answer_contract:
  assumes "judge_answer E r = Some (out, meta, violations)"
  shows "in_contract out \<and> (\<not> pm_ok meta \<longrightarrow> fails_closed out) \<and> (cl_status r \<noteq> ''OK'' \<longrightarrow> \<not> pm_ok meta)"
proof (cases "cl_status r = ''OK''")
  case True
  then obtain raw where "parse_and_normalise (be_loads E) raw = Some (out, meta)"
    using assms by (auto simp: judge_answer_def bind_eq_Some_conv)
  from parse_and_normalise_contract [OF this] True show ?thesis by simp
next
  case False
  then show ?thesis using assms by (auto simp: judge_answer_def intro: fails_closed_in_contract)
qed

definition sound_sample :: "sample \<Rightarrow> bool" where
  "sound_sample s \<longleftrightarrow>
     in_contract (sa_output s) \<and> (sa_schema_valid s \<longleftrightarrow> pm_ok (sa_parse s))
     \<and> (sa_status s \<noteq> ''OK'' \<longrightarrow> \<not> pm_ok (sa_parse s)) \<and> (\<not> pm_ok (sa_parse s) \<longrightarrow> fails_closed (sa_output s))"

lemma run_cell_sound:
  assumes "run_cell E model n (sc, repeat) = Some s"
  shows "sound_sample s \<and> sa_scenario_id s = bs_id sc \<and> sa_repeat s = repeat \<and> sa_model s = model"
proof -
  obtain r out meta violations fid where "bench_call E n = Some r"
    and j: "judge_answer E r = Some (out, meta, violations)"
    and s: "sa_output s = out" "sa_parse s = meta" "sa_status s = cl_status r" "sa_scenario_id s = bs_id sc" "sa_repeat s = repeat" "sa_model s = model"
      "sa_schema_valid s = (pm_ok meta \<and> bo_direction out \<in> {''BUY'', ''SELL'', ''NO-TRADE''})"
    using assms by (auto simp: run_cell_def bind_eq_Some_conv)
  from judge_answer_contract [OF j] s show ?thesis by (auto simp: sound_sample_def in_contract_def)
qed

lemma run_cells_sound:
  "run_cells E model n k cs = Some (ss, aborted) \<Longrightarrow> s \<in> set ss \<Longrightarrow> sound_sample s \<and> sa_model s = model"
proof (induction cs arbitrary: n k ss aborted)
  case (Cons c cs)
  from Cons.prems(1) obtain s0 where s0: "run_cell E model n c = Some s0"
    by (auto simp: bind_eq_Some_conv)
  then have "sound_sample s0 \<and> sa_model s0 = model" using run_cell_sound [of E model n "fst c" "snd c"] by simp
  with Cons s0 show ?case by (auto simp: Let_def split: if_splits)
qed simp

lemma run_cells_prefix:
  "run_cells E model n k cs = Some (ss, aborted) \<Longrightarrow>
   map (\<lambda>s. (sa_scenario_id s, sa_repeat s)) ss = map (\<lambda>(sc, i). (bs_id sc, i)) (take (length ss) cs)
   \<and> length ss \<le> length cs \<and> (\<not> aborted \<longrightarrow> length ss = length cs)"
proof (induction cs arbitrary: n k ss aborted)
  case (Cons c cs)
  obtain sc i where c: "c = (sc, i)" by (cases c)
  from Cons.prems(1) obtain s0 where s0: "run_cell E model n c = Some s0"
    by (auto simp: bind_eq_Some_conv)
  then have "sa_scenario_id s0 = bs_id sc \<and> sa_repeat s0 = i" using run_cell_sound [of E model n sc i s0] c by simp
  with Cons s0 c show ?case by (fastforce simp: Let_def split: if_splits)
qed simp

section \<open>Giving up\<close>

text \<open>The first five failures in a row end the list \<open>fs\<close> if \<open>aborted\<close>, and there are none otherwise.\<close>

definition gives_up :: "bool list \<Rightarrow> bool \<Rightarrow> bool" where
  "gives_up fs aborted \<longleftrightarrow>
     (aborted \<longrightarrow> 5 \<le> length fs \<and> drop (length fs - 5) fs = replicate 5 True)
     \<and> (\<forall>i. i + 5 \<le> length fs \<and> (aborted \<longrightarrow> i + 5 < length fs) \<longrightarrow> (\<exists>j<5. \<not> fs ! (i + j)))"

lemma gives_up_later:
  assumes "gives_up fs aborted" and "k < 5"
  shows "gives_up (replicate k True @ False # fs) aborted"
proof -
  let ?gs = "replicate k True @ False # fs"
  have "\<exists>j<5. \<not> ?gs ! (i + j)" if i: "i + 5 \<le> length ?gs" "aborted \<longrightarrow> i + 5 < length ?gs" for i
  proof (cases "i \<le> k")
    case True
    then have "k - i < 5" "\<not> ?gs ! (i + (k - i))" using assms(2) by (auto simp: nth_append)
    then show ?thesis by blast
  next
    case False
    have "?gs ! (i + j) = fs ! (i - k - 1 + j)" for j
      using False by (simp add: nth_append nth_Cons')
    moreover have "\<exists>j<5. \<not> fs ! (i - k - 1 + j)"
    proof -
      have "i - k - 1 + 5 \<le> length fs \<and> (aborted \<longrightarrow> i - k - 1 + 5 < length fs)" using i False by auto
      then show ?thesis using assms(1) unfolding gives_up_def by blast
    qed
    ultimately show ?thesis by simp
  qed
  moreover have "5 \<le> length ?gs \<and> drop (length ?gs - 5) ?gs = replicate 5 True" if "aborted"
  proof -
    have fs: "5 \<le> length fs" "drop (length fs - 5) fs = replicate 5 True"
      using assms(1) that by (simp_all add: gives_up_def)
    then have "length ?gs - 5 = k + Suc (length fs - 5)" by simp
    then have "drop (length ?gs - 5) ?gs = drop (k + Suc (length fs - 5)) ?gs" by (simp only:)
    then have "drop (length ?gs - 5) ?gs = drop (length fs - 5) fs" by simp
    with fs show ?thesis by simp
  qed
  ultimately show ?thesis unfolding gives_up_def by blast
qed

lemma replicate_snoc: "replicate k x @ x # xs = replicate (Suc k) x @ xs"
  by (simp add: replicate_append_same [symmetric])

lemma run_cells_gives_up:
  "run_cells E model n k cs = Some (ss, aborted) \<Longrightarrow> k < 5 \<Longrightarrow> gives_up (replicate k True @ map transport_failed ss) aborted"
proof (induction cs arbitrary: n k ss aborted)
  case Nil
  then show ?case by (auto simp: gives_up_def)
next
  case (Cons c cs)
  from Cons.prems(1) obtain s where s: "run_cell E model n c = Some s"
    by (auto simp: bind_eq_Some_conv)
  show ?case
  proof (cases "transport_failed s")
    case True
    show ?thesis
    proof (cases "k = 4")
      case True
      with Cons.prems \<open>transport_failed s\<close> s have e: "ss = [s]" "aborted" by auto
      have "replicate k True @ map transport_failed ss = replicate 5 True"
        using e \<open>transport_failed s\<close> True by (simp add: numeral_eq_Suc)
      then show ?thesis using e(2) by (simp add: gives_up_def)
    next
      case False
      with Cons.prems \<open>transport_failed s\<close> s obtain ss' where "ss = s # ss'"
        and "run_cells E model (n + 1) (k + 1) cs = Some (ss', aborted)" by (auto simp: Let_def)
      with Cons.IH [of "n + 1" "k + 1" ss' aborted] False Cons.prems(2) \<open>transport_failed s\<close> show ?thesis
        by (simp add: replicate_snoc)
    qed
  next
    case False
    with Cons.prems s obtain ss' where "ss = s # ss'" and "run_cells E model (n + 1) 0 cs = Some (ss', aborted)"
      by (auto simp: Let_def)
    with Cons.IH [of "n + 1" 0 ss' aborted] False Cons.prems(2) show ?thesis
      by (simp add: gives_up_later)
  qed
qed

section \<open>The benchmark\<close>

lemma run_modelE:
  assumes "run_model E scenarios repeats n model = Some (ss, m, score, components)"
  obtains m0 aborted where "run_cells E model n 0 (cells scenarios repeats) = Some (ss, aborted)"
    "bench_compute_metrics (be_sum E) (be_pstdev E) ss repeats = Some m0"
    "m = m0\<lparr>bm_hard_fail_reasons := hard_fail_reasons m0, bm_aborted := aborted\<rparr>"
  using assms by (auto simp: run_model_def bind_eq_Some_conv)

text \<open>A report whose samples are sound and whose metrics agree with the samples of their model.\<close>

definition sound_report :: "bench_report \<Rightarrow> string set \<Rightarrow> bool" where
  "sound_report report M \<longleftrightarrow>
     (\<forall>s\<in>set (br_normalized report). sound_sample s \<and> sa_model s \<in> M)
     \<and> fst ` set (br_metrics report) = M
     \<and> (\<forall>(k, m)\<in>set (br_metrics report). bm_fail_closed_error_rate m
           = (if \<exists>s\<in>set (br_normalized report). sa_model s = k \<and> \<not> pm_ok (sa_parse s) then Fin 1 else Fin 0))"

lemma update_new: "k \<notin> fst ` set xs \<Longrightarrow> AList.update k v xs = xs @ [(k, v)]"
  by (induction xs) auto

lemma run_model_sound:
  assumes "run_model E scenarios repeats n model = Some (ss, m, score, components)"
  shows "(\<forall>s\<in>set ss. sound_sample s \<and> sa_model s = model)
    \<and> bm_fail_closed_error_rate m = (if \<exists>s\<in>set ss. \<not> pm_ok (sa_parse s) then Fin 1 else Fin 0)"
proof -
  obtain m0 aborted where c: "run_cells E model n 0 (cells scenarios repeats) = Some (ss, aborted)"
    and m0: "bench_compute_metrics (be_sum E) (be_pstdev E) ss repeats = Some m0"
    and m: "m = m0\<lparr>bm_hard_fail_reasons := hard_fail_reasons m0, bm_aborted := aborted\<rparr>"
    using assms by (rule run_modelE)
  have sound: "\<And>s. s \<in> set ss \<Longrightarrow> sound_sample s \<and> sa_model s = model" using run_cells_sound [OF c] .
  have "bm_fail_closed_error_rate m0 = (if \<exists>s\<in>set ss. \<not> pm_ok (sa_parse s) then Fin 1 else Fin 0)"
    by (rule fail_closed_rate [OF m0]) (use sound in \<open>auto simp: sound_sample_def fails_closed_def\<close>)
  with sound show ?thesis by (simp add: m)
qed

lemma sound_report_step:
  assumes "sound_report report M" and "model \<notin> M"
    and "run_model E scenarios repeats n model = Some (ss, m, score, components)"
  shows "sound_report \<lparr>br_normalized = br_normalized report @ ss, br_metrics = AList.update model m (br_metrics report),
    br_scores = scores\<rparr> (insert model M)"
proof -
  note new = run_model_sound [OF assms(3)]
  define failing where "failing = (\<lambda>(xs :: sample list) k. \<exists>s\<in>set xs. sa_model s = k \<and> \<not> pm_ok (sa_parse s))"
  have old: "\<forall>s\<in>set (br_normalized report). sound_sample s \<and> sa_model s \<in> M" "fst ` set (br_metrics report) = M"
    "\<forall>(k, x)\<in>set (br_metrics report). bm_fail_closed_error_rate x = (if failing (br_normalized report) k then Fin 1 else Fin 0)"
    using assms(1) by (simp_all add: sound_report_def failing_def)
  have u: "AList.update model m (br_metrics report) = br_metrics report @ [(model, m)]"
    using old(2) assms(2) by (intro update_new) simp
  have "failing (br_normalized report @ ss) k \<longleftrightarrow> failing (br_normalized report) k" if "k \<in> M" for k
    using new assms(2) that by (auto simp: failing_def)
  moreover have "k \<in> M" if "(k, x) \<in> set (br_metrics report)" for k x
    using that unfolding old(2) [symmetric] by (rule image_eqI [rotated]) simp
  ultimately have "\<forall>(k, x)\<in>set (br_metrics report).
      bm_fail_closed_error_rate x = (if failing (br_normalized report @ ss) k then Fin 1 else Fin 0)"
    using old(3) by fastforce
  moreover have "failing (br_normalized report @ ss) model \<longleftrightarrow> (\<exists>s\<in>set ss. \<not> pm_ok (sa_parse s))"
    using new old(1) assms(2) by (auto simp: failing_def)
  ultimately have "\<forall>(k, x)\<in>set (br_metrics report @ [(model, m)]).
      bm_fail_closed_error_rate x = (if failing (br_normalized report @ ss) k then Fin 1 else Fin 0)"
    using new by simp
  moreover have "\<forall>s\<in>set (br_normalized report @ ss). sound_sample s \<and> sa_model s \<in> insert model M"
    using new old(1) by auto
  moreover have "fst ` set (br_metrics report @ [(model, m)]) = insert model M" using old(2) by simp
  ultimately show ?thesis unfolding sound_report_def u failing_def by simp
qed

lemma run_benchmark_sound:
  "run_benchmark E scenarios repeats n report models = Some report' \<Longrightarrow> sound_report report M \<Longrightarrow> distinct models \<Longrightarrow>
   set models \<inter> M = {} \<Longrightarrow> sound_report report' (M \<union> set models)"
proof (induction models arbitrary: n report M)
  case (Cons model models)
  obtain ss m score components where run: "run_model E scenarios repeats n model = Some (ss, m, score, components)"
    and rest: "run_benchmark E scenarios repeats (n + length ss)
       \<lparr>br_normalized = br_normalized report @ ss, br_metrics = AList.update model m (br_metrics report),
        br_scores = AList.update model (score, components) (br_scores report)\<rparr> models = Some report'"
    using Cons.prems(1) by (auto simp: bind_eq_Some_conv)
  have "model \<notin> M" using Cons.prems(4) by auto
  from Cons.IH [OF rest sound_report_step [OF Cons.prems(2) this run]] Cons.prems(3,4) show ?case by simp
qed simp

definition no_report :: bench_report where
  "no_report = \<lparr>br_normalized = [], br_metrics = [], br_scores = []\<rparr>"

text \<open>C38. The benchmark fails closed. In the report over distinct models every sample has a direction of the
  contract and a confidence between 0 and 1; a call that did not succeed is never parsed, and whatever was not
  parsed is a NO-TRADE of confidence 0. Schema validity is the success of the parse. Every model has its metrics,
  and its rate of failures that were closed is 1 as soon as it has a failure, and 0 otherwise.\<close>

theorem benchmark_fails_closed:
  assumes "run_benchmark E scenarios repeats 0 no_report models = Some report" and "distinct models"
  shows "(\<forall>s\<in>set (br_normalized report).
        bo_direction (sa_output s) \<in> {''BUY'', ''SELL'', ''NO-TRADE''}
        \<and> fle (Fin 0) (bo_confidence (sa_output s)) \<and> fle (bo_confidence (sa_output s)) (Fin 1)
        \<and> (sa_status s \<noteq> ''OK'' \<longrightarrow> \<not> pm_ok (sa_parse s))
        \<and> (\<not> pm_ok (sa_parse s) \<longrightarrow> bo_direction (sa_output s) = ''NO-TRADE'' \<and> bo_confidence (sa_output s) = Fin 0)
        \<and> (sa_schema_valid s \<longleftrightarrow> pm_ok (sa_parse s)))
      \<and> set (map fst (br_metrics report)) = set models
      \<and> (\<forall>(model, m)\<in>set (br_metrics report). bm_fail_closed_error_rate m
           = (if \<exists>s\<in>set (br_normalized report). sa_model s = model \<and> \<not> pm_ok (sa_parse s) then Fin 1 else Fin 0))"
proof -
  have "sound_report report ({} \<union> set models)"
    by (rule run_benchmark_sound [OF assms(1) _ assms(2)]) (simp_all add: sound_report_def no_report_def)
  then show ?thesis by (auto simp: sound_report_def sound_sample_def fails_closed_def in_contract_def)
qed

text \<open>C39. Giving up a model. The samples of a model are those of the first cells (scenario and repeat) in
  order, of all cells unless the model was given up; it is given up exactly at the first five transport failures
  in a row: then the last five samples failed, and every other window of five samples contains one that did not.\<close>

theorem benchmark_gives_up_after_five_failures:
  assumes "run_model E scenarios repeats n model = Some (ss, m, score, components)"
  shows "map (\<lambda>s. (sa_scenario_id s, sa_repeat s)) ss
           = map (\<lambda>(sc, i). (bs_id sc, i)) (take (length ss) (cells scenarios repeats))
      \<and> (\<not> bm_aborted m \<longrightarrow> length ss = length (cells scenarios repeats))
      \<and> (bm_aborted m \<longrightarrow> 5 \<le> length ss \<and> (\<forall>s\<in>set (drop (length ss - 5) ss). transport_failed s))
      \<and> (\<forall>i. i + 5 \<le> length ss \<and> (bm_aborted m \<longrightarrow> i + 5 < length ss) \<longrightarrow> (\<exists>j<5. \<not> transport_failed (ss ! (i + j))))"
proof -
  obtain m0 aborted where c: "run_cells E model n 0 (cells scenarios repeats) = Some (ss, aborted)"
    and m: "m = m0\<lparr>bm_hard_fail_reasons := hard_fail_reasons m0, bm_aborted := aborted\<rparr>"
    using assms by (rule run_modelE)
  have g: "gives_up (map transport_failed ss) aborted" using run_cells_gives_up [OF c] by simp
  have "\<forall>s\<in>set (drop (length ss - 5) ss). transport_failed s" if "aborted"
  proof -
    have "map transport_failed (drop (length ss - 5) ss) = replicate 5 True"
      using g that by (simp add: gives_up_def drop_map)
    then have "set (map transport_failed (drop (length ss - 5) ss)) \<subseteq> {True}" by (simp only:) simp
    then show ?thesis by auto
  qed
  moreover have "\<exists>j<5. \<not> transport_failed (ss ! (i + j))"
    if i: "i + 5 \<le> length ss" "aborted \<longrightarrow> i + 5 < length ss" for i
  proof -
    obtain j where "j < 5" "\<not> map transport_failed ss ! (i + j)"
      using g i unfolding gives_up_def by auto
    then show ?thesis using i by auto
  qed
  ultimately show ?thesis using g run_cells_prefix [OF c] by (simp add: m gives_up_def)
qed

text \<open>C40. Attempts of one call. A call makes at least one and at most four attempts, repeats only after an
  answer 429, ends with the answer of its last attempt, and ends with 429 only after the fourth.\<close>

theorem benchmark_attempts_bounded:
  "case call_loop (be_reply E n) 0 of (answer, attempts) \<Rightarrow>
     0 < attempts \<and> attempts \<le> 4 \<and> answer = be_reply E n attempts
     \<and> (\<forall>i. 0 < i \<and> i < attempts \<longrightarrow> (\<exists>b. be_reply E n i = Http_error 429 b))
     \<and> ((\<exists>b. answer = Http_error 429 b) \<longrightarrow> attempts = 4)"
proof -
  obtain answer attempts where r: "call_loop (be_reply E n) 0 = (answer, attempts)" by (cases "call_loop (be_reply E n) 0")
  have limit: "RETRY_429_MAX + 1 = 4" by (simp add: RETRY_429_MAX_def)
  have "attempts_ok (be_reply E n) 0 answer attempts" using call_loop_run [of 0 "be_reply E n"] r by simp
  then show ?thesis unfolding r prod.case attempts_ok_def limit .
qed

section \<open>Edge cases\<close>

text \<open>An answer whose \<open>choices\<close> is the empty list is a parse failure that is closed, but the search for payload
  keys then indexes the empty list, and the \<open>IndexError\<close> ends the benchmark.\<close>

lemma empty_choices_end_the_benchmark:
  assumes "cl_status r = ''OK''" and "strip (cl_raw r) \<noteq> []" and "to_last_brace (cl_raw r) = Some t"
    and "be_loads E t = Loaded (PDict [(''choices'', PList [])])"
  shows "parse_and_normalise (be_loads E) (cl_raw r)
      = Some (failed_parse ''fail-closed: missing_choices'' ''missing_choices'' ''missing_choices'')"
    and "judge_answer E r = None"
  using assms
  by (simp_all add: parse_and_normalise_def parse_body_def judge_answer_def payload_keys_def content_keys_def
      lacks_choices_def get_attr_def dget_default_def dget_def dhas_def dkeys_def Let_def bind_eq_None_conv)

text \<open>A confidence that is not a number counts as full confidence.\<close>

lemma nan_confidence_is_one: "clamp_confidence NaN = Fin 1"
  by code_simp

lemma default_slugs_distinct: "distinct (map slugify MODELS)"
  by code_simp

section \<open>Concrete runs\<close>

definition demo_answer :: string where
  "demo_answer = ''{answer}''"

definition demo_bench :: "(nat \<Rightarrow> nat \<Rightarrow> http_reply) \<Rightarrow> bench_env" where
  "demo_bench reply =
     \<lparr>be_loads = (\<lambda>t. if t = demo_answer then Loaded (PDict [(''choices'', PList [PDict [(''message'', PDict
          [(''content'', PDict [(''direction'', PStr '' Buy''), (''confidence'', PFloat (Fin (3/4))), (''reason'', PStr ''the trend is up'')])])]])])
        else Decode_error),
      be_dumps = (\<lambda>v. []), be_reply = reply, be_elapsed_ms = (\<lambda>n. Fin 250), be_now = (\<lambda>n. ''2026-08-17T09:35:00+00:00''),
      be_sum = (\<lambda>xs. foldl fadd (Fin 0) xs), be_pstdev = (\<lambda>xs. Fin 0)\<rparr>"

definition mixed_bench :: bench_env where
  "mixed_bench = demo_bench (\<lambda>n i. if n = 0 then Body demo_answer else Timed_out [])"

definition outage_bench :: bench_env where
  "outage_bench = demo_bench (\<lambda>n i. Timed_out [])"

definition demo_dataset :: "bench_scenario list" where
  "demo_dataset =
     [\<lparr>bs_id = ''s01'', bs_name = ''trend'', bs_market_context = PDict [(''trend'', PStr ''up'')]\<rparr>,
      \<lparr>bs_id = ''s10'', bs_name = ''stale'', bs_market_context = PDict []\<rparr>]"

text \<open>A model whose answers report no usage always gets its metrics and its score.\<close>

lemma run_model_returns:
  assumes "run_cells E model n 0 (cells scenarios repeats) = Some (ss, aborted)" and "\<forall>s\<in>set ss. sa_usage s = PDict []"
  obtains m score components where "run_model E scenarios repeats n model = Some (ss, m, score, components)" "bm_aborted m \<longleftrightarrow> aborted"
proof -
  have "filter (\<lambda>s. truthy (sa_usage s)) ss = []" using assms(2) by (auto simp: filter_empty_conv)
  then obtain m0 where m0: "bench_compute_metrics (be_sum E) (be_pstdev E) ss repeats = Some m0" and "bm_token_usage_total m0 = PInt 0"
    by (simp add: bench_compute_metrics_def sum_numbers_def Let_def)
  then obtain sc cs where "score_model (be_sum E) m0 = Some (sc, cs)"
    by (simp add: score_model_def score_components_def of_int_f_def)
  with assms(1) m0 show thesis by (auto simp: run_model_def intro!: that)
qed

lemma some_pair:
  "case x of None \<Rightarrow> False | Some (a, b) \<Rightarrow> P a b \<Longrightarrow> \<exists>a b. x = Some (a, b) \<and> P a b"
  by (auto split: option.splits)

lemma demo_mixed:
  "case run_cells mixed_bench ''groq/m'' 0 0 (cells demo_dataset 1) of
     None \<Rightarrow> False
   | Some (ss, aborted) \<Rightarrow>
       map (bo_direction \<circ> sa_output) ss = [''BUY'', ''NO-TRADE''] \<and> map (pm_ok \<circ> sa_parse) ss = [True, False]
       \<and> list_all (\<lambda>s. sa_usage s = PDict []) ss"
  by code_simp

lemma demo_outage:
  "case run_cells outage_bench ''groq/m'' 0 0 (cells demo_dataset 3) of
     None \<Rightarrow> False
   | Some (ss, aborted) \<Rightarrow> length ss = 5 \<and> aborted \<and> list_all (\<lambda>s. sa_usage s = PDict []) ss"
  by code_simp

theorem benchmark_fails_closed_witness:
  "\<exists>report. run_benchmark mixed_bench demo_dataset 1 0 no_report [''groq/m''] = Some report
     \<and> length (br_normalized report) = 2 \<and> bo_direction (sa_output (br_normalized report ! 0)) = ''BUY''
     \<and> bo_confidence (sa_output (br_normalized report ! 1)) = Fin 0"
proof -
  obtain ss aborted where c: "run_cells mixed_bench ''groq/m'' 0 0 (cells demo_dataset 1) = Some (ss, aborted)"
    and d: "map (bo_direction \<circ> sa_output) ss = [''BUY'', ''NO-TRADE'']" and o: "map (pm_ok \<circ> sa_parse) ss = [True, False]"
    and u: "\<forall>s\<in>set ss. sa_usage s = PDict []"
    using some_pair [OF demo_mixed] unfolding list_all_iff by (elim exE conjE) (rule that)
  obtain m score components where run: "run_model mixed_bench demo_dataset 1 0 ''groq/m'' = Some (ss, m, score, components)"
    by (rule run_model_returns [OF c u])
  obtain report where report: "run_benchmark mixed_bench demo_dataset 1 0 no_report [''groq/m''] = Some report"
    and ss: "br_normalized report = ss"
    by (simp add: run no_report_def)
  have n: "length ss = 2" using arg_cong [OF d, of length] by simp
  have "map (bo_direction \<circ> sa_output) ss ! 0 = ''BUY''" by (simp only: d nth_Cons_0)
  then have buy: "bo_direction (sa_output (ss ! 0)) = ''BUY''" using n by simp
  have "map (pm_ok \<circ> sa_parse) ss ! 1 = False" by (simp only: o) simp
  then have "\<not> pm_ok (sa_parse (ss ! 1))" and "ss ! 1 \<in> set (br_normalized report)" using n ss by simp_all
  moreover have "distinct [''groq/m'']" by simp
  ultimately have "bo_confidence (sa_output (ss ! 1)) = Fin 0" using benchmark_fails_closed [OF report] by blast
  with report n buy ss show ?thesis by blast
qed

theorem benchmark_gives_up_after_five_failures_witness:
  "\<exists>ss m score components.
     run_model outage_bench demo_dataset 3 0 ''groq/m'' = Some (ss, m, score, components)
     \<and> length ss = 5 \<and> bm_aborted m \<and> (\<forall>s\<in>set ss. transport_failed s)"
proof -
  obtain ss aborted where c: "run_cells outage_bench ''groq/m'' 0 0 (cells demo_dataset 3) = Some (ss, aborted)"
    and n: "length ss = 5" "aborted" and u: "\<forall>s\<in>set ss. sa_usage s = PDict []"
    using some_pair [OF demo_outage] unfolding list_all_iff by (elim exE conjE) (rule that)
  obtain m score components where run: "run_model outage_bench demo_dataset 3 0 ''groq/m'' = Some (ss, m, score, components)" "bm_aborted m \<longleftrightarrow> aborted"
    by (rule run_model_returns [OF c u])
  have "bm_aborted m \<longrightarrow> 5 \<le> length ss \<and> (\<forall>s\<in>set (drop (length ss - 5) ss). transport_failed s)"
    using benchmark_gives_up_after_five_failures [OF run(1)] by blast
  then have "\<forall>s\<in>set ss. transport_failed s" using n run(2) by simp
  with run n show ?thesis by blast
qed

theorem benchmark_attempts_bounded_witness:
  "\<exists>answer attempts. call_loop (be_reply (demo_bench (\<lambda>n i. if i < 3 then Http_error 429 [] else Body demo_answer)) 0) 0 = (answer, attempts)
     \<and> attempts = 3 \<and> answer = Body demo_answer"
proof -
  let ?E = "demo_bench (\<lambda>n i. if i < 3 then Http_error 429 [] else Body demo_answer)"
  obtain answer attempts where r: "call_loop (be_reply ?E 0) 0 = (answer, attempts)" by (cases "call_loop (be_reply ?E 0) 0")
  have "snd (call_loop (be_reply ?E 0) 0) = 3" by code_simp
  then have "attempts = 3" using r by simp
  moreover have "answer = be_reply ?E 0 attempts"
    using benchmark_attempts_bounded [of ?E 0] unfolding r prod.case by blast
  ultimately show ?thesis using r by (simp add: demo_bench_def)
qed

end
