(* ===== verification/Spec2Isabelle.thy ===== *)
theory Spec2Isabelle
  imports ExecEntry ExecDict RiskClaims AiClaims AiClient RcClaims InClaims PsExport CfSettings PvClaims BmClaims
begin

text \<open>
  ABC Bot Paper Trader in Isabelle/HOL.

  \<^bold>\<open>The program.\<close> A Python collector and the decision chain it validates on paper. A MetaTrader bridge writes
  lines of JSON; ingestion turns them into events of a canonical contract and stores them in an append-only
  SQLite table, with tables derived from it; reconciliation compares the derived state with a broker snapshot
  and records what it finds. The decision chain is: AI decision engine (a proposal, or a fail-closed NO-TRADE),
  System gate, risk engine (an approval with lot and stop loss, or a rejection), execution engine (a command
  sent to an executor, journaled before and after). Paper validation runs the risk engine on replayed ticks
  against a simulated position; a benchmark runner measures the AI models.

  \<^bold>\<open>The theories.\<close> Paths are below \<open>src/\<close>. A dataclass is a record with a two-letter prefix on its fields, an
  enumeration a datatype with its \<open>.value\<close> strings, a method a definition with the name of the method; a name that
  another theory or HOL has taken carries the name of its component.

  \<^item> \<open>Prelude\<close>, \<open>PyFloat\<close>, \<open>PyValue\<close>: statements as functions \<open>'s \<Rightarrow> ('e + 'a) \<times> 's\<close> that keep the state reached when
    they raise, with rule collections for relations they preserve (\<open>pres\<close>), for results (\<open>post\<close>) and for triples;
    strings; IEEE doubles with one rounding per operation, proved monotone and exact where used; the dynamically
    typed values of JSON, \<open>float(x)\<close> and \<open>int(x)\<close> on text.
  \<^item> \<open>ExecModels\<close>, \<open>ExecDict\<close>, \<open>ExecResult\<close>, \<open>ExecState\<close>, \<open>ExecJournal\<close>, \<open>ExecEngine\<close>, \<open>ExecEngineProps\<close>, \<open>ExecSim\<close>,
    \<open>ExecClaims\<close>, \<open>ExecSafety\<close>, \<open>ExecEntry\<close> (\<open>execution/\<close>): contracts and their dictionaries, the lifecycle as a
    table and as a step relation, the journal with its keys, the engine over any executor, the simulated executor.
    The locale \<open>executor_contract\<close> is what the engine relies on; both executors of the repository interpret it.
  \<^item> \<open>RiskModels\<close>, \<open>RiskCalc\<close>, \<open>RiskEngine\<close>, \<open>RiskClaims\<close> (\<open>risk_engine/\<close>): configuration, inputs, calculators, validators,
    the evaluation with every rejection, the gate.
  \<^item> \<open>AiRecord\<close>, \<open>AiParse\<close>, \<open>AiValidation\<close>, \<open>AiEngine\<close>, \<open>AiClient\<close>, \<open>AiClaims\<close> (\<open>ai_decision/\<close>): parsing of model output,
    validation, the chain of models with its attempts, the classification of HTTP outcomes. The locale
    \<open>decision_contract\<close> is what the engine promises of its records, interpreted by the contract of proposals and by
    that of the audit trail.
  \<^item> \<open>EvTypes\<close>, \<open>EvSpecs\<close>, \<open>EvValidation\<close>, \<open>EvEnvelope\<close>, \<open>EvStream\<close>, \<open>EvClaims\<close> (\<open>shared/contracts/\<close>,
    \<open>collector/event_model/\<close>): event types, payload specifications, validation, checksums, envelopes, streams.
  \<^item> \<open>PsTables\<close>, \<open>PsRecords\<close>, \<open>PsProject\<close>, \<open>PsRepository\<close>, \<open>PsAudit\<close>, \<open>PsStore\<close>, \<open>PsSchema\<close>, \<open>PsIntegrity\<close>, \<open>PsClaims\<close>, \<open>PsUpkeep\<close>,
    \<open>PsExport\<close> (\<open>collector/persistence/\<close>): tables and transactions of SQLite, records, the projection of events, every
    operation of the repository, schema and migrations, integrity checks, exports. The locale \<open>event_store\<close> is what
    ingestion and reconciliation rely on; the four operations that take an event interpret it.
  \<^item> \<open>InReader\<close>, \<open>InNormalize\<close>, \<open>InPipeline\<close>, \<open>InInvariants\<close>, \<open>InClaims\<close> (\<open>collector/adapters/\<close>): the incremental reader, the
    normalization of a line, the pipeline, its runner and replay.
  \<^item> \<open>RcClassify\<close>, \<open>RcService\<close>, \<open>RcRunner\<close>, \<open>RcClaims\<close> (\<open>collector/reconciliation/\<close>): the classifier, a run of the service, the
    runner.
  \<^item> \<open>CfSettings\<close> (\<open>collector/settings.py\<close>): settings from the environment.
  \<^item> \<open>PvModels\<close>, \<open>PvSim\<close>, \<open>PvMetrics\<close>, \<open>PvClaims\<close> (\<open>paper_validation/\<close>): scenarios, costs, replayed ticks, the simulated
    position, the scenario runner over the model of the risk engine, aggregated metrics.
  \<^item> \<open>BmParse\<close>, \<open>BmMetrics\<close>, \<open>BmRun\<close>, \<open>BmClaims\<close> (\<open>docs/validation/ai-benchmark/runner.py\<close>): the benchmark.
  \<^item> This theory: what holds of the chain from the AI decision to the approval.

  \<^bold>\<open>What the theorems show.\<close>

  \<^item> Execution: one invariant of the journal for the whole life of a command, over any executor that honours the
    contract and on every path, the raising ones included; answers are journaled; write-ahead submission; replay is
    idempotent and a command in flight is never sent again; broker calls are bounded; a fill whose stop loss is
    refused is closed; the full run against the simulated broker.
  \<^item> Risk: an approval implies every limit of the configuration and the budget; monotone lots.
  \<^item> AI: a valid decision stays within its authority, anything else is a NO-TRADE that names its failure class; calls
    are bounded by the chain; a retry answers exactly the transient outcomes of HTTP.
  \<^item> Events and persistence: envelopes survive serialization; a stream is accepted exactly when each trade is a run
    of the step relation; the audit stream only grows; the cursor never runs ahead; statements fit the schema;
    migrations resume after any failure; the integrity report is exact; exports lose nothing and read back.
  \<^item> Ingestion and reconciliation: what they may write; polls deliver the file; where the cursor stops; replay ends;
    the classifier equals its reference. Some theorems state a defect that the model shows (lines lost beside an
    unfinished one, a line that blocks every restart, a state that returns unrecorded); the manifest lists them.
  \<^item> Paper validation and benchmark: trades are the approved ones; the exit is the first tick at which the rule fires;
    metrics account for every scenario; benchmark outputs stay in the contract and failures are closed; a model is
    given up exactly after five failures in a row; a call makes at most four attempts.

  \<^bold>\<open>Loops and bounds.\<close> No definition takes fuel. Retry loops recurse on the attempts that remain (the configured
  budget of a submission, a stop-loss attachment or a close, \<open>max_attempts\<close> per model, \<open>RETRY_429_MAX\<close>), loops over data
  on the data. A runner that polls until it is told to stop runs over the list of the polls it makes; replay
  recurses on its bound of cycles, and on a file that does not change one cycle has the effect of all.

  \<^bold>\<open>Parameters.\<close> What the code calls and does not define is an argument: \<open>json.loads\<close> (a value, a decoding error, or
  another error), \<open>str\<close> and number formatting where text is not compared, SHA-256, \<open>uuid4\<close> and \<open>uuid5\<close>, clocks, the
  verdict of the \<open>jsonschema\<close> package, UTF-8 decoding of bytes that are not ASCII, timestamps parsed by
  \<open>datetime.fromisoformat\<close>, the answers of HTTP and of the broker, the draws of \<open>random\<close>, \<open>pstdev\<close> and the built-in sum
  of floats, the failure of an SQL statement for reasons outside the schema. Strings are lists of characters, with
  case and blanks as in ASCII.

  \<^bold>\<open>Not modelled.\<close> The MQL5 bridge (another language), the tests, \<open>scripts/generate_replay_fixtures.py\<close> (writes test
  fixtures), the JSON schema files (a second statement of the contract that \<open>EvSpecs\<close> models), package
  \<open>__init__\<close> modules (re-exports) and empty packages. Logging, printing, sleeping, file and socket handles, and the
  command line of the benchmark are left out of the modelled functions. Threads do not occur: every component is a
  single writer. Python's limit on the digits of an integer literal, memory and recursion limits are left out.
\<close>

section \<open>From the AI decision to the risk engine\<close>

text \<open>C12. A trade that the risk engine approves on a decision of the AI engine rests on a decision
  that passed validation, that the boundary gate approved, and that proposes exactly the approved
  direction, BUY or SELL; its confidence is a number of at most 1 that is not below the configured
  minimum, and the approval carries the inference id of the decision.\<close>

theorem approved_trade_has_valid_decision:
  assumes "decide E c context corr s = (Inr r, s')"
    and "evaluate R rc (P_record r) a m sp corr' = Some k" and "rr_decision k = APPROVE"
  shows "dr_validation_ok r \<and> gv_approve (gate_evaluate r) \<and> rr_direction k = dr_direction r
    \<and> dr_direction r \<in> {''BUY'', ''SELL''} \<and> fle (Fin 0) (dr_confidence r) \<and> fle (dr_confidence r) (Fin 1)
    \<and> \<not> flt (dr_confidence r) (rc_min_ai_confidence rc) \<and> rr_inference_id k = PStr (ae_uuid E 0)"
proof -
  obtain v plan code msg fs where v: "view_proposal R corr' (P_record r) = Some v" "pv_ok v"
    and pre: "validate_all_inputs (re_parse_ts R) (re_now_us R) (pv_direction v) (pv_confidence v) a m sp rc
      = Some (True, code, msg, fs)"
    and k: "k = approved_record R (re_uuid R 0) v plan"
    using evaluate_approveE [OF assms(2,3)] by metis
  have view: "pv_direction v = dr_direction r" "pv_confidence v = dr_confidence r" "dr_validation_ok r"
    "pv_inference_id v = PStr (dr_inference_id r)"
    using v by (auto simp: view_proposal_def)
  have "(dr_direction r = ''BUY'' \<or> dr_direction r = ''SELL'') \<and> \<not> flt (dr_confidence r) (rc_min_ai_confidence rc)"
    using validate_okE [OF pre [unfolded view]] by metis
  then show ?thesis
    using proposal.decide_good [OF assms(1)] audit.decide_good [OF assms(1)] view k
    by (auto simp: proposal_contract_def audit_contract_def gate_evaluate_def approved_record_def)
qed

lemma demo_buy_approved:
  "\<exists>k. evaluate demo_risk_env demo_risk_config
      (P_record (accepted_response demo_buy demo_request (model_config_of ''cf/a'') 0 1 2 (Fin 3)
        (''BUY'', Fin (1 / 2), ''trend up'') None)) demo_account demo_market demo_symbol None = Some k
    \<and> rr_decision k = APPROVE"
proof -
  let ?p = "P_record (accepted_response demo_buy demo_request (model_config_of ''cf/a'') 0 1 2 (Fin 3)
    (''BUY'', Fin (1 / 2), ''trend up'') None)"
  have "case evaluate demo_risk_env demo_risk_config ?p demo_account demo_market demo_symbol None of
      None \<Rightarrow> False | Some k \<Rightarrow> rr_decision k = APPROVE"
    by code_simp
  then show ?thesis by (auto split: option.splits)
qed

theorem approved_trade_has_valid_decision_witness:
  "\<exists>r s' k. decide demo_buy demo_config demo_context (Some ''corr'') ai_start = (Inr r, s')
    \<and> evaluate demo_risk_env demo_risk_config (P_record r) demo_account demo_market demo_symbol None = Some k
    \<and> rr_direction k = dr_direction r \<and> gv_approve (gate_evaluate r)"
proof -
  obtain s' where run: "decide demo_buy demo_config demo_context (Some ''corr'') ai_start
      = (Inr (accepted_response demo_buy demo_request (model_config_of ''cf/a'') 0 1 2 (Fin 3)
         (''BUY'', Fin (1 / 2), ''trend up'') None), s')"
    using run_obtain [OF demo_buy_run] by blast
  then show ?thesis using demo_buy_approved approved_trade_has_valid_decision [OF run] by blast
qed

end
